(* ===== verification/Go_Prelude.thy ===== *)
theory Go_Prelude
  imports Main "HOL-Library.Char_ord" "HOL-Library.List_Lexorder"
begin

text \<open>
  The part of the Go language and of its standard library that the sources under src/ use:
  errors as values, and the packages strings, strconv and fmt on byte strings.

  A Go string is a sequence of bytes and is modelled as \<^typ>\<open>string\<close>, a list of 8-bit
  characters. Case mapping and white space are those of ASCII: the sources apply
  strings.ToLower, strings.ToUpper, strings.EqualFold, strings.TrimSpace and strings.Fields to
  SQL keywords, type names and identifiers, and on ASCII bytes the definitions below agree with
  Go. On bytes from 128 on (UTF-8 sequences) the tables of the package unicode are not
  modelled: such bytes are left alone.

  A pointer to a value that may be nil is an \<^typ>\<open>'a option\<close>; a result
  \<open>(value, error)\<close> is a sum with the error on the left.
\<close>

named_theorems go_defs \<open>definitions of the string functions, to unfold\<close>
named_theorems go_set \<open>which bytes a string function can return\<close>

section \<open>Errors\<close>

text \<open>
  \<open>ErrNew\<close> is errors.New and errors.Errorf; \<open>Wrapped\<close> is errors.Wrap; \<open>NumError\<close> is the
  error of strconv.Atoi; \<open>ErrNoRows\<close> is the sentinel the database driver returns for an
  empty row; \<open>DbError\<close> is any other error of the database driver. \<open>ApiNotFound\<close> and \<open>ApiConflict\<close>
  are the errors of the Kubernetes API that the controllers tell apart. \<open>GoPanic\<close> is not an
  error value but a run-time panic: it is propagated, never wrapped.
\<close>

datatype go_error =
    ErrNew string
  | Wrapped string go_error
  | NumError string
  | ErrNoRows
  | DbError string
  | ApiNotFound string
  | ApiConflict string
  | GoPanic string

type_synonym 'a result = "go_error + 'a"

fun bindE :: "'a result \<Rightarrow> ('a \<Rightarrow> 'b result) \<Rightarrow> 'b result" where
  "bindE (Inl e) f = Inl e"
| "bindE (Inr x) f = f x"

fun wrap_error :: "string \<Rightarrow> go_error \<Rightarrow> go_error" where
  "wrap_error msg (GoPanic p) = GoPanic p"
| "wrap_error msg e = Wrapped msg e"

fun wrapE :: "string \<Rightarrow> 'a result \<Rightarrow> 'a result" where
  "wrapE msg (Inl e) = Inl (wrap_error msg e)"
| "wrapE msg (Inr x) = Inr x"

text \<open>A loop that appends the result of a fallible call and returns at the first error.\<close>

fun mapE :: "('a \<Rightarrow> 'b result) \<Rightarrow> 'a list \<Rightarrow> 'b list result" where
  "mapE f [] = Inr []"
| "mapE f (x # xs) = bindE (f x) (\<lambda>y. bindE (mapE f xs) (\<lambda>ys. Inr (y # ys)))"

definition concatE :: "'a list list result \<Rightarrow> 'a list result" where
  "concatE r = bindE r (\<lambda>xss. Inr (concat xss))"

section \<open>Bytes\<close>

definition byte :: "char \<Rightarrow> nat" where
  "byte c = of_char c"

definition is_lower :: "char \<Rightarrow> bool" where
  "is_lower c \<longleftrightarrow> 97 \<le> byte c \<and> byte c \<le> 122"

definition is_upper :: "char \<Rightarrow> bool" where
  "is_upper c \<longleftrightarrow> 65 \<le> byte c \<and> byte c \<le> 90"

definition is_digit :: "char \<Rightarrow> bool" where
  "is_digit c \<longleftrightarrow> 48 \<le> byte c \<and> byte c \<le> 57"

definition lower_char :: "char \<Rightarrow> char" where
  "lower_char c = (if is_upper c then char_of (byte c + 32) else c)"

definition upper_char :: "char \<Rightarrow> char" where
  "upper_char c = (if is_lower c then char_of (byte c - 32) else c)"

text \<open>unicode.IsSpace on ASCII: tab, line feed, vertical tab, form feed, carriage return, space.\<close>

definition is_space :: "char \<Rightarrow> bool" where
  "is_space c \<longleftrightarrow> (9 \<le> byte c \<and> byte c \<le> 13) \<or> byte c = 32"

abbreviation newline :: char where "newline \<equiv> CHR 0x0A"
abbreviation tab :: char where "tab \<equiv> CHR 0x09"
abbreviation carriage_return :: char where "carriage_return \<equiv> CHR 0x0D"
abbreviation squote :: char where "squote \<equiv> CHR 0x27"
abbreviation dquote :: char where "dquote \<equiv> CHR 0x22"
abbreviation backslash :: char where "backslash \<equiv> CHR 0x5C"
abbreviation lparen :: char where "lparen \<equiv> CHR ''(''"
abbreviation rparen :: char where "rparen \<equiv> CHR '')''"

section \<open>The package strings\<close>

definition ToLower :: "string \<Rightarrow> string" where
  "ToLower s = map lower_char s"

definition ToUpper :: "string \<Rightarrow> string" where
  "ToUpper s = map upper_char s"

definition EqualFold :: "string \<Rightarrow> string \<Rightarrow> bool" where
  "EqualFold s t \<longleftrightarrow> ToLower s = ToLower t"

definition trim_left_while :: "(char \<Rightarrow> bool) \<Rightarrow> string \<Rightarrow> string" where
  "trim_left_while P s = dropWhile P s"

definition trim_while :: "(char \<Rightarrow> bool) \<Rightarrow> string \<Rightarrow> string" where
  "trim_while P s = rev (dropWhile P (rev (dropWhile P s)))"

definition TrimSpace :: "string \<Rightarrow> string" where
  "TrimSpace s = trim_while is_space s"

fun fields_acc :: "string \<Rightarrow> string \<Rightarrow> string list" where
  "fields_acc cur [] = (if cur = [] then [] else [cur])"
| "fields_acc cur (c # cs) =
     (if is_space c then (if cur = [] then fields_acc [] cs else cur # fields_acc [] cs)
      else fields_acc (cur @ [c]) cs)"

definition Fields :: "string \<Rightarrow> string list" where
  "Fields s = fields_acc [] s"

fun HasPrefix :: "string \<Rightarrow> string \<Rightarrow> bool" where
  "HasPrefix s [] = True"
| "HasPrefix [] (p # ps) = False"
| "HasPrefix (c # cs) (p # ps) = (c = p \<and> HasPrefix cs ps)"

definition HasSuffix :: "string \<Rightarrow> string \<Rightarrow> bool" where
  "HasSuffix s p = HasPrefix (rev s) (rev p)"

definition TrimPrefix :: "string \<Rightarrow> string \<Rightarrow> string" where
  "TrimPrefix s p = (if HasPrefix s p then drop (length p) s else s)"

definition TrimSuffix :: "string \<Rightarrow> string \<Rightarrow> string" where
  "TrimSuffix s p = (if HasSuffix s p then take (length s - length p) s else s)"

text \<open>strings.Index, with \<^const>\<open>None\<close> for the result -1.\<close>

fun Index :: "string \<Rightarrow> string \<Rightarrow> nat option" where
  "Index [] sub = (if sub = [] then Some 0 else None)"
| "Index (c # cs) sub =
     (if HasPrefix (c # cs) sub then Some 0 else map_option Suc (Index cs sub))"

definition Contains :: "string \<Rightarrow> string \<Rightarrow> bool" where
  "Contains s sub \<longleftrightarrow> Index s sub \<noteq> None"

definition ContainsAny :: "string \<Rightarrow> string \<Rightarrow> bool" where
  "ContainsAny s chars \<longleftrightarrow> list_ex (\<lambda>c. c \<in> set chars) s"

text \<open>strings.LastIndex of a single byte.\<close>

fun LastIndexByte :: "string \<Rightarrow> char \<Rightarrow> nat option" where
  "LastIndexByte [] b = None"
| "LastIndexByte (c # cs) b =
     (case LastIndexByte cs b of
        Some i \<Rightarrow> Some (Suc i)
      | None \<Rightarrow> if c = b then Some 0 else None)"

text \<open>strings.Split at a single byte, and strings.Join.\<close>

fun SplitByte :: "string \<Rightarrow> char \<Rightarrow> string list" where
  "SplitByte [] b = [[]]"
| "SplitByte (c # cs) b =
     (if c = b then [] # SplitByte cs b
      else (case SplitByte cs b of [] \<Rightarrow> [[c]] | p # ps \<Rightarrow> (c # p) # ps))"

fun Join :: "string list \<Rightarrow> string \<Rightarrow> string" where
  "Join [] sep = []"
| "Join [x] sep = x"
| "Join (x # y # ys) sep = x @ sep @ Join (y # ys) sep"

text \<open>strings.ReplaceAll for a non-empty \<open>old\<close>, the only use the sources make of it.\<close>

fun ReplaceAll :: "string \<Rightarrow> string \<Rightarrow> string \<Rightarrow> string" where
  "ReplaceAll [] old new = []"
| "ReplaceAll (c # cs) old new =
     (if old \<noteq> [] \<and> HasPrefix (c # cs) old
      then new @ ReplaceAll (drop (length old - 1) cs) old new
      else c # ReplaceAll cs old new)"

section \<open>The packages strconv and fmt\<close>

definition digit_char :: "nat \<Rightarrow> char" where
  "digit_char d = char_of (48 + d)"

fun nat_str :: "nat \<Rightarrow> string" where
  "nat_str n = (if n < 10 then [digit_char n] else nat_str (n div 10) @ [digit_char (n mod 10)])"

declare nat_str.simps [simp del]

definition Itoa :: "int \<Rightarrow> string" where
  "Itoa i = (if i < 0 then CHR ''-'' # nat_str (nat (- i)) else nat_str (nat i))"

fun digits_value :: "nat \<Rightarrow> string \<Rightarrow> nat" where
  "digits_value n [] = n"
| "digits_value n (c # cs) = digits_value (10 * n + (byte c - 48)) cs"

text \<open>strconv.Atoi on a 64-bit platform: decimal digits with an optional sign, in the range of int64.\<close>

definition Atoi :: "string \<Rightarrow> int result" where
  "Atoi s =
     (let neg = HasPrefix s ''-'';
          ds = (if neg \<or> HasPrefix s ''+'' then tl s else s)
      in if ds = [] \<or> \<not> list_all is_digit ds then Inl (NumError s)
         else let v = (if neg then - int (digits_value 0 ds) else int (digits_value 0 ds))
              in if v < - (2 ^ 63) \<or> 2 ^ 63 \<le> v then Inl (NumError s) else Inr v)"

definition hex_digit :: "nat \<Rightarrow> char" where
  "hex_digit d = (if d < 10 then char_of (48 + d) else char_of (87 + d))"

text \<open>The verb %q of fmt.Sprintf, that is strconv.Quote, on ASCII.\<close>

definition quote_char :: "char \<Rightarrow> string" where
  "quote_char c =
     (if c = dquote \<or> c = backslash then [backslash, c]
      else if byte c = 7 then [backslash, CHR ''a'']
      else if byte c = 8 then [backslash, CHR ''b'']
      else if byte c = 12 then [backslash, CHR ''f'']
      else if byte c = 10 then [backslash, CHR ''n'']
      else if byte c = 13 then [backslash, CHR ''r'']
      else if byte c = 9 then [backslash, CHR ''t'']
      else if byte c = 11 then [backslash, CHR ''v'']
      else if byte c < 32 \<or> byte c = 127
      then [backslash, CHR ''x'', hex_digit (byte c div 16), hex_digit (byte c mod 16)]
      else [c])"

definition Quote :: "string \<Rightarrow> string" where
  "Quote s = dquote # concat (map quote_char s) @ [dquote]"

section \<open>Lemmas\<close>

lemma bindE_Inr_iff: "bindE r f = Inr y \<longleftrightarrow> (\<exists>x. r = Inr x \<and> f x = Inr y)"
  by (cases r) auto

lemma bindE_assoc: "bindE (bindE r f) g = bindE r (\<lambda>x. bindE (f x) g)"
  by (cases r) auto

lemma wrapE_Inr_iff [simp]: "wrapE msg r = Inr y \<longleftrightarrow> r = Inr y"
  by (cases r) auto

lemma mapE_Inr_length: "mapE f xs = Inr ys \<Longrightarrow> length ys = length xs"
  by (induction xs arbitrary: ys) (auto simp: bindE_Inr_iff)

lemma mapE_total: "(\<And>x. x \<in> set xs \<Longrightarrow> f x = Inr (g x)) \<Longrightarrow> mapE f xs = Inr (map g xs)"
  by (induction xs) auto

subsection \<open>Bytes\<close>

lemma byte_less [simp]: "byte c < 256"
  by (simp add: byte_def)

lemma byte_char_of [simp]: "n < 256 \<Longrightarrow> byte (char_of n) = n"
  by (simp add: byte_def of_char_of)

lemma byte_inject [simp]: "byte c = byte d \<longleftrightarrow> c = d"
  by (simp add: byte_def)

lemma is_upper_lower_char [simp]: "\<not> is_upper (lower_char c)"
  by (auto simp: lower_char_def is_upper_def)

lemma lower_char_idem [simp]: "lower_char (lower_char c) = lower_char c"
  by (simp add: lower_char_def [of "lower_char c"])

lemma lower_char_id: "\<not> is_upper c \<Longrightarrow> lower_char c = c"
  by (simp add: lower_char_def)

lemma byte_lower_char: "byte (lower_char c) = (if is_upper c then byte c + 32 else byte c)"
  by (auto simp: lower_char_def is_upper_def)

lemma byte_upper_char: "byte (upper_char c) = (if is_lower c then byte c - 32 else byte c)"
  by (auto simp: upper_char_def is_lower_def)

lemma lower_upper_char [simp]: "lower_char (upper_char c) = lower_char c"
  by (simp flip: byte_inject add: byte_lower_char byte_upper_char)
     (auto simp: is_upper_def is_lower_def byte_upper_char)

lemma upper_lower_char [simp]: "upper_char (lower_char c) = upper_char c"
  by (simp flip: byte_inject add: byte_lower_char byte_upper_char)
     (auto simp: is_upper_def is_lower_def byte_lower_char)

lemma is_space_blank [simp]: "is_space (CHR '' '')"
  by (simp add: is_space_def byte_def)

lemma is_space_lower_char [simp]: "is_space (lower_char c) = is_space c"
  by (auto simp: is_space_def byte_lower_char is_upper_def)

text \<open>A byte that is not a letter is its own lower case, and the lower case of nothing else.\<close>

lemma lower_char_eq_iff:
  assumes "\<not> is_upper d" "\<not> is_lower d"
  shows "lower_char c = d \<longleftrightarrow> c = d"
proof -
  have "byte (lower_char c) = byte d \<longleftrightarrow> byte c = byte d"
    using assms by (auto simp: byte_lower_char is_upper_def is_lower_def)
  then show ?thesis by simp
qed

subsection \<open>Case mapping\<close>

lemma ToLower_simps [simp]:
  "ToLower [] = []" "ToLower (c # s) = lower_char c # ToLower s"
  "ToLower (s @ t) = ToLower s @ ToLower t" "length (ToLower s) = length s"
  "ToLower s = [] \<longleftrightarrow> s = []"
  by (simp_all add: ToLower_def)

lemma ToLower_idem [simp]: "ToLower (ToLower s) = ToLower s"
  by (induction s) auto

lemma ToLower_id: "\<forall>c \<in> set s. \<not> is_upper c \<Longrightarrow> ToLower s = s"
  by (induction s) (auto simp: lower_char_id)

lemma ToLower_no_upper [go_set]: "c \<in> set (ToLower s) \<Longrightarrow> \<not> is_upper c"
  by (auto simp: ToLower_def)

lemma ToLower_ToUpper [simp]: "ToLower (ToUpper s) = ToLower s"
  by (simp add: ToLower_def ToUpper_def)

lemma ToUpper_ToLower [simp]: "ToUpper (ToLower s) = ToUpper s"
  by (simp add: ToLower_def ToUpper_def)

lemma ToUpper_eq_iff: "ToUpper s = ToUpper t \<longleftrightarrow> ToLower s = ToLower t"
  by (metis ToLower_ToUpper ToUpper_ToLower)

lemma EqualFold_ToUpper: "EqualFold (ToUpper s) (ToUpper t) = EqualFold s t"
  by (simp add: EqualFold_def)

subsection \<open>Trimming\<close>

lemma set_trim_while [go_set]: "c \<in> set (trim_while P s) \<Longrightarrow> c \<in> set s"
  unfolding trim_while_def by (metis set_dropWhileD set_rev)

lemma trim_while_hd: "trim_while P s \<noteq> [] \<Longrightarrow> \<not> P (hd (trim_while P s))"
proof -
  assume ne: "trim_while P s \<noteq> []"
  let ?t = "dropWhile P s"
  have "\<exists>zs. ?t = trim_while P s @ zs"
    unfolding trim_while_def
    by (metis takeWhile_dropWhile_id rev_append rev_rev_ident)
  then obtain zs where t: "?t = trim_while P s @ zs" ..
  with ne have "?t \<noteq> []" "hd ?t = hd (trim_while P s)" by auto
  then show ?thesis using hd_dropWhile [of P s] by simp
qed

lemma trim_while_last: "trim_while P s \<noteq> [] \<Longrightarrow> \<not> P (last (trim_while P s))"
  unfolding trim_while_def by (metis hd_dropWhile last_rev rev_is_Nil_conv)

lemma trim_while_id:
  "s = [] \<or> (\<not> P (hd s) \<and> \<not> P (last s)) \<Longrightarrow> trim_while P s = s"
proof -
  assume asm: "s = [] \<or> (\<not> P (hd s) \<and> \<not> P (last s))"
  then have 1: "dropWhile P s = s" by (auto simp: dropWhile_eq_self_iff)
  from asm have 2: "dropWhile P (rev s) = rev s" by (auto simp: dropWhile_eq_self_iff hd_rev)
  show ?thesis by (simp add: trim_while_def 1 2)
qed

lemma trim_while_idem [simp]: "trim_while P (trim_while P s) = trim_while P s"
  by (rule trim_while_id) (use trim_while_hd trim_while_last in blast)

lemma TrimSpace_idem [simp]: "TrimSpace (TrimSpace s) = TrimSpace s"
  by (simp add: TrimSpace_def)

lemma TrimSpace_Nil [simp]: "TrimSpace [] = []"
  by (simp add: TrimSpace_def trim_while_def)

lemma TrimSpace_id: "s = [] \<or> (\<not> is_space (hd s) \<and> \<not> is_space (last s)) \<Longrightarrow> TrimSpace s = s"
  by (simp add: TrimSpace_def trim_while_id)

lemma ToLower_TrimSpace: "ToLower (TrimSpace s) = TrimSpace (ToLower s)"
  by (simp add: TrimSpace_def trim_while_def ToLower_def dropWhile_map rev_map comp_def)

lemma dropWhile_all: "\<forall>x \<in> set xs. P x \<Longrightarrow> dropWhile P (xs @ ys) = dropWhile P ys"
  by (induction xs) auto

lemma TrimSpace_pad:
  assumes a: "\<forall>c \<in> set a. is_space c" and b: "\<forall>c \<in> set b. is_space c"
  shows "TrimSpace (a @ s @ b) = TrimSpace s"
proof (cases "\<forall>c \<in> set s. is_space c")
  case True
  with a b have "dropWhile is_space (a @ s @ b) = []" and "dropWhile is_space s = []"
    by (auto simp: dropWhile_eq_Nil_conv)
  then show ?thesis by (metis TrimSpace_def trim_while_def)
next
  case False
  then have "dropWhile is_space (s @ b) = dropWhile is_space s @ b"
    by (auto simp: dropWhile_append1)
  with a b show ?thesis
    by (simp add: TrimSpace_def trim_while_def dropWhile_all)
qed

subsection \<open>Prefixes and searching\<close>

lemma HasPrefix_iff: "HasPrefix s p \<longleftrightarrow> (\<exists>r. s = p @ r)"
  by (induction s p rule: HasPrefix.induct) auto

lemma HasPrefix_append [simp]: "HasPrefix (p @ r) p"
  by (auto simp: HasPrefix_iff)

lemma HasPrefix_self [simp]: "HasPrefix p p"
  by (simp add: HasPrefix_iff)

lemma HasPrefix_length: "HasPrefix s p \<Longrightarrow> length p \<le> length s"
  by (auto simp: HasPrefix_iff)

lemma Index_bound: "Index s sub = Some i \<Longrightarrow> i + length sub \<le> length s"
  by (induction s arbitrary: i) (auto dest: HasPrefix_length split: if_splits)

lemma Index_Some_split: "Index s sub = Some i \<Longrightarrow> s = take i s @ sub @ drop (i + length sub) s"
proof (induction s arbitrary: i)
  case (Cons c cs)
  then show ?case by (cases "HasPrefix (c # cs) sub") (auto simp: HasPrefix_iff)
qed (auto split: if_splits)

lemma Index_byte_None [simp]: "Index s [b] = None \<longleftrightarrow> b \<notin> set s"
  by (induction s) auto

lemma Index_byte_append [simp]: "b \<notin> set s \<Longrightarrow> Index (s @ b # t) [b] = Some (length s)"
  by (induction s) auto

lemma Contains_byte [simp]: "Contains s [b] \<longleftrightarrow> b \<in> set s"
  by (simp add: Contains_def)

lemma Contains_iff: "Contains s sub \<longleftrightarrow> (\<exists>a b. s = a @ sub @ b)"
proof
  assume "Contains s sub"
  then show "\<exists>a b. s = a @ sub @ b"
    by (auto simp: Contains_def dest: Index_Some_split)
next
  assume "\<exists>a b. s = a @ sub @ b"
  then obtain a b where "s = a @ sub @ b" by blast
  then show "Contains s sub"
    by (induction a arbitrary: s) (auto simp: Contains_def HasPrefix_iff, (cases sub; cases b; auto))
qed

lemma LastIndexByte_None [simp]: "LastIndexByte s b = None \<longleftrightarrow> b \<notin> set s"
  by (induction s) (auto split: option.splits)

lemma LastIndexByte_append [simp]:
  "b \<notin> set t \<Longrightarrow> LastIndexByte (s @ b # t) b = Some (length s)"
  by (induction s) (auto split: option.splits)

subsection \<open>Splitting and joining\<close>

lemma SplitByte_not_Nil [simp]: "SplitByte s b \<noteq> []"
  by (cases s) (auto split: list.splits)

lemma SplitByte_no_sep: "p \<in> set (SplitByte s b) \<Longrightarrow> b \<notin> set p"
  by (induction s arbitrary: p) (auto split: list.splits if_splits)

lemma SplitByte_id [simp]: "b \<notin> set s \<Longrightarrow> SplitByte s b = [s]"
  by (induction s) auto

lemma SplitByte_append: "b \<notin> set s \<Longrightarrow> SplitByte (s @ b # t) b = s # SplitByte t b"
  by (induction s) auto

lemma Join_Cons: "xs \<noteq> [] \<Longrightarrow> Join (x # xs) sep = x @ sep @ Join xs sep"
  by (cases xs) auto

lemma Join_SplitByte: "Join (SplitByte s b) [b] = s"
  by (induction s) (auto simp: Join_Cons split: list.splits, (metis Join.simps(2) Join_Cons append_Cons)+)

lemma SplitByte_Join:
  "xs \<noteq> [] \<Longrightarrow> \<forall>x \<in> set xs. b \<notin> set x \<Longrightarrow> SplitByte (Join xs [b]) b = xs"
proof (induction xs)
  case (Cons x xs)
  then show ?case by (cases "xs = []") (auto simp: Join_Cons SplitByte_append)
qed simp

lemma set_Join: "set (Join xs sep) \<subseteq> (\<Union>x \<in> set xs. set x) \<union> set sep"
  by (induction xs sep rule: Join.induct) auto


lemma Fields_acc_set: "f \<in> set (fields_acc cur s) \<Longrightarrow> c \<in> set f \<Longrightarrow> c \<in> set cur \<union> set s"
  by (induction cur s arbitrary: rule: fields_acc.induct) (auto split: if_splits)

lemma Fields_no_space_aux:
  "f \<in> set (fields_acc cur s) \<Longrightarrow> list_all (\<lambda>c. \<not> is_space c) cur \<Longrightarrow>
   f \<noteq> [] \<and> list_all (\<lambda>c. \<not> is_space c) f"
proof (induction cur s rule: fields_acc.induct)
  case (1 cur)
  then show ?case by (simp split: if_splits)
next
  case (2 cur c cs)
  then show ?case by (cases "is_space c"; cases "cur = []"; simp; blast)
qed

lemma Fields_no_space:
  "f \<in> set (Fields s) \<Longrightarrow> f \<noteq> [] \<and> (\<forall>c \<in> set f. \<not> is_space c)"
  using Fields_no_space_aux [of f "[]" s] by (simp add: Fields_def list_all_iff)

lemma fields_acc_word:
  "\<forall>c \<in> set w. \<not> is_space c \<Longrightarrow> fields_acc cur (w @ s) = fields_acc (cur @ w) s"
  by (induction w arbitrary: cur) auto

lemma Fields_word: "\<forall>c \<in> set w. \<not> is_space c \<Longrightarrow> w \<noteq> [] \<Longrightarrow> Fields w = [w]"
  using fields_acc_word [of w "[]" "[]"] by (simp add: Fields_def)

lemma Fields_word_space:
  "\<forall>c \<in> set w. \<not> is_space c \<Longrightarrow> w \<noteq> [] \<Longrightarrow> is_space c \<Longrightarrow> Fields (w @ c # s) = w # Fields s"
  using fields_acc_word [of w "[]" "c # s"] by (simp add: Fields_def)

lemma Fields_space [simp]: "is_space c \<Longrightarrow> Fields (c # s) = Fields s"
  by (simp add: Fields_def)

lemma Fields_Nil [simp]: "Fields [] = []"
  by (simp add: Fields_def)

lemma Fields_Join:
  "\<forall>w \<in> set ws. w \<noteq> [] \<and> (\<forall>c \<in> set w. \<not> is_space c) \<Longrightarrow> Fields (Join ws '' '') = ws"
proof (induction ws)
  case (Cons w ws)
  then show ?case
    by (cases "ws = []") (simp_all add: Join_Cons Fields_word Fields_word_space)
qed simp

subsection \<open>Replacement\<close>

lemma ReplaceAll_id: "\<not> Contains s old \<Longrightarrow> ReplaceAll s old new = s"
proof (induction s)
  case (Cons c s)
  then have "\<not> HasPrefix (c # s) old" "\<not> Contains s old"
    by (auto simp: Contains_def split: if_splits)
  with Cons.IH show ?case by simp
qed simp

lemma ReplaceAll_byte: "ReplaceAll s [b] new = concat (map (\<lambda>c. if c = b then new else [c]) s)"
  by (induction s) auto

lemma set_ReplaceAll: "set (ReplaceAll s old new) \<subseteq> set s \<union> set new"
proof (induction s old new rule: ReplaceAll.induct)
  case (2 c cs old new)
  then show ?case by (auto dest: in_set_dropD split: if_splits)
qed simp

subsection \<open>Numbers\<close>

lemma is_digit_digit_char: "d < 10 \<Longrightarrow> is_digit (digit_char d)"
  by (simp add: is_digit_def digit_char_def)

lemma byte_digit_char: "d < 10 \<Longrightarrow> byte (digit_char d) = 48 + d"
  by (simp add: digit_char_def)

lemma nat_str_not_Nil [simp]: "nat_str n \<noteq> []"
  by (subst nat_str.simps) simp

lemma nat_str_digits: "list_all is_digit (nat_str n)"
proof (induction n rule: nat_str.induct)
  case (1 n)
  then show ?case by (subst nat_str.simps) (auto simp: is_digit_digit_char)
qed

lemma nat_str_is_digit: "c \<in> set (nat_str n) \<Longrightarrow> is_digit c"
  using nat_str_digits by (auto simp: list_all_iff)

lemma digits_value_append: "digits_value n (s @ t) = digits_value (digits_value n s) t"
  by (induction s arbitrary: n) auto

lemma digits_value_nat_str: "digits_value 0 (nat_str n) = n"
proof (induction n rule: nat_str.induct)
  case (1 n)
  then show ?case
    by (subst nat_str.simps) (auto simp: byte_digit_char digits_value_append)
qed

lemma Atoi_nat_str: "n < 2 ^ 63 \<Longrightarrow> Atoi (nat_str n) = Inr (int n)"
proof -
  assume n: "n < 2 ^ 63"
  have "\<not> HasPrefix (nat_str n) ''-''" "\<not> HasPrefix (nat_str n) ''+''"
    using nat_str_digits [of n]
    by (cases "nat_str n"; simp add: is_digit_def byte_def; fastforce)+
  moreover have "\<not> (int n < - (2 ^ 63) \<or> 2 ^ 63 \<le> int n)"
    using n by simp
  ultimately show ?thesis
    by (simp add: Atoi_def nat_str_digits digits_value_nat_str)
qed

lemma nat_str_inject [simp]: "nat_str m = nat_str n \<longleftrightarrow> m = n"
  by (metis digits_value_nat_str)

lemma Itoa_of_nat [simp]: "Itoa (int n) = nat_str n"
  by (simp add: Itoa_def)

end
