(* ===== verification/Api_Types.thy ===== *)
theory Api_Types
  imports Go_Prelude
begin

text \<open>
  The custom resources of src/pkg/apis/schemas/v1alpha4 that the planners read: the desired
  PostgreSQL schema of a table (postgresql.go), of a function and of an extension, and the seed
  data of a table (seed_data.go). One record per Go struct, one field per struct field, in the
  order of the source; a field name carries a prefix that names its struct. A pointer field is
  an option. A Go map is an association list of its entries in some iteration order.
\<close>

section \<open>Seed data\<close>

record SeedDataValue =
  sdv_Int :: "int option"
  sdv_Str :: "string option"

record SeedDataColumn =
  sdc_Column :: string
  sdc_Value :: SeedDataValue

type_synonym SeedDataRow = "SeedDataColumn list"
type_synonym SeedData = "SeedDataRow list"

section \<open>PostgreSQL tables\<close>

record PostgresqlExecuteParameter =
  pep_Mode :: string
  pep_Name :: string
  pep_Type :: string

record PostgresqlTableTriggerExecute =
  pte_Type :: string
  pte_Schema :: string
  pte_Name :: string
  pte_Params :: "PostgresqlExecuteParameter list"

record PostgresqlTableTrigger =
  ptt_Name :: string
  ptt_ConstraintTrigger :: "bool option"
  ptt_Events :: "string list"
  ptt_ForEachStatement :: "bool option"
  ptt_ForEachRow :: "bool option"
  ptt_Condition :: "string option"
  ptt_Execute :: "PostgresqlTableTriggerExecute option"
  ptt_ExecuteProcedure :: string

record PostgresqlTableForeignKeyReferences =
  pfr_Table :: string
  pfr_Columns :: "string list"

record PostgresqlTableForeignKey =
  pfk_Columns :: "string list"
  pfk_References :: PostgresqlTableForeignKeyReferences
  pfk_OnDelete :: string
  pfk_Name :: string

record PostgresqlTableCheckConstraint =
  pck_Name :: string
  pck_Expression :: string

record PostgresqlTableExclusionConstraintItem =
  pxi_Column :: string
  pxi_Expression :: string
  pxi_Operator :: string

record PostgresqlTableExclusionConstraint =
  pxc_Name :: string
  pxc_Using :: string
  pxc_Items :: "PostgresqlTableExclusionConstraintItem list"
  pxc_Where :: string
  pxc_With :: "(string \<times> string) list"

record PostgresqlTableIndexColumn =
  pic_Column :: string
  pic_OpClass :: string
  pic_Sort :: string
  pic_Nulls :: string

record PostgresqlTableIndex =
  pix_Columns :: "string list"
  pix_Name :: string
  pix_IsUnique :: bool
  pix_Type :: string
  pix_With :: "(string \<times> string) list"
  pix_Where :: string
  pix_Expressions :: "string list"
  pix_SortedColumns :: "PostgresqlTableIndexColumn list"

text \<open>The structs of column constraints and attributes have one field each, a pointer to a bool.\<close>

record PostgresqlTableColumnConstraints =
  pcc_NotNull :: "bool option"

record PostgresqlTableColumnAttributes =
  pca_AutoIncrement :: "bool option"

record PostgresqlTableColumn =
  pcol_Name :: string
  pcol_Type :: string
  pcol_Constraints :: "PostgresqlTableColumnConstraints option"
  pcol_Attributes :: "PostgresqlTableColumnAttributes option"
  pcol_Default :: "string option"

record PostgresqlTableRowLevelSecurity =
  prl_Enable :: string
  prl_Force :: string

record PostgresqlTablePolicy =
  ppo_Name :: string
  ppo_Command :: string
  ppo_Permissive :: string
  ppo_Roles :: "string list"
  ppo_Using :: "string option"
  ppo_WithCheck :: "string option"

record PostgresqlTableSchema =
  pts_Schema :: string
  pts_PrimaryKey :: "string list"
  pts_ForeignKeys :: "PostgresqlTableForeignKey list"
  pts_Checks :: "PostgresqlTableCheckConstraint list"
  pts_Indexes :: "PostgresqlTableIndex list"
  pts_ExclusionConstraints :: "PostgresqlTableExclusionConstraint list"
  pts_Columns :: "PostgresqlTableColumn list"
  pts_IsDeleted :: bool
  pts_JSONTriggers :: "PostgresqlTableTrigger list"
  pts_Triggers :: "PostgresqlTableTrigger list"
  pts_RowLevelSecurity :: "PostgresqlTableRowLevelSecurity option"
  pts_Policies :: "PostgresqlTablePolicy list"

section \<open>PostgreSQL functions and extensions\<close>

record PostgresqlFunctionSchema =
  pfn_Schema :: string
  pfn_Lang :: string
  pfn_Params :: "PostgresqlExecuteParameter list"
  pfn_ReturnSet :: bool
  pfn_Return :: string
  pfn_As :: string
  pfn_SecurityDefiner :: bool
  pfn_Body :: string
  pfn_Returns :: string
  pfn_Language :: string
  pfn_IsDeleted :: bool

record PostgresDatabaseExtension =
  pex_Name :: string
  pex_Version :: "string option"
  pex_Schema :: "string option"
  pex_IsDeleted :: bool

text \<open>The zero value of a table schema, as a Go composite literal leaves unset fields.\<close>

definition empty_table_schema :: PostgresqlTableSchema where
  "empty_table_schema =
     \<lparr> pts_Schema = [], pts_PrimaryKey = [], pts_ForeignKeys = [], pts_Checks = [],
       pts_Indexes = [], pts_ExclusionConstraints = [], pts_Columns = [], pts_IsDeleted = False,
       pts_JSONTriggers = [], pts_Triggers = [], pts_RowLevelSecurity = None, pts_Policies = [] \<rparr>"

end
