(* ===== verification/Sql_Canonical.thy ===== *)
theory Sql_Canonical
  imports Go_Prelude "HOL-Library.Sublist"
begin

text \<open>
  The expression canonicalizer of src/pkg/database/types/canonical.go, which decides whether an
  expression of the desired schema and the one PostgreSQL renders back are the same.

  The scanners of the source move an index through a string; here a position is the suffix of
  the string that starts there, so \<^verbatim>\<open>skipTypeToken(s, i)\<close> becomes a function from the suffix at
  \<open>i\<close> to the suffix at the returned index.
\<close>

section \<open>Numeric literals\<close>

fun numeric_literal_loop :: "string \<Rightarrow> nat \<Rightarrow> nat \<Rightarrow> bool" where
  "numeric_literal_loop [] digits dots = (digits > 0)"
| "numeric_literal_loop (c # cs) digits dots =
     (if is_digit c then numeric_literal_loop cs (digits + 1) dots
      else if c = CHR ''.'' then
        (if dots + 1 > 1 then False else numeric_literal_loop cs digits (dots + 1))
      else False)"

definition isNumericLiteral :: "string \<Rightarrow> bool" where
  "isNumericLiteral b =
     (case b of
        [] \<Rightarrow> False
      | c # cs \<Rightarrow>
          if c = CHR ''+'' \<or> c = CHR ''-'' then numeric_literal_loop cs 0 0
          else numeric_literal_loop b 0 0)"

definition unquoteTrailingNumericLiteral :: "string \<Rightarrow> string" where
  "unquoteTrailingNumericLiteral out =
     (if length out < 2 \<or> last out \<noteq> squote then out
      else (case LastIndexByte (butlast out) squote of
              None \<Rightarrow> out
            | Some start \<Rightarrow>
                let content = drop (start + 1) (butlast out)
                in if \<not> isNumericLiteral content then out else take start out @ content))"

definition isNumericCastType :: "string \<Rightarrow> bool" where
  "isNumericCastType t =
     (let name = TrimSpace t;
          name = (case Index name ''('' of Some p \<Rightarrow> TrimSpace (take p name) | None \<Rightarrow> name)
      in name \<in> set [''smallint'', ''integer'', ''int'', ''int2'', ''int4'', ''int8'', ''bigint'',
           ''numeric'', ''decimal'', ''real'', ''double precision'', ''float'', ''float4'', ''float8''])"

section \<open>Skipping a type name\<close>

definition typeContinuationWords :: "string list" where
  "typeContinuationWords = [''varying'', ''precision'', ''with'', ''without'', ''time'', ''zone'']"

definition word_char :: "char \<Rightarrow> bool" where
  "word_char c \<longleftrightarrow> is_lower c \<or> is_upper c \<or> is_digit c \<or> c = CHR ''_''"

definition blank :: "char \<Rightarrow> bool" where
  "blank c \<longleftrightarrow> c = CHR '' '' \<or> c = tab"

definition consumeWord :: "string \<Rightarrow> string" where
  "consumeWord s = dropWhile word_char s"

definition skip_qualifier :: "string \<Rightarrow> string" where
  "skip_qualifier s =
     (case s of
        [] \<Rightarrow> s
      | c # j \<Rightarrow>
          if c = CHR ''.'' then
            (let nxt = consumeWord j in if length nxt < length j then nxt else s)
          else s)"

function skip_continuation :: "string \<Rightarrow> string" where
  "skip_continuation s =
     (let j = dropWhile blank s;
          word = takeWhile word_char j;
          nxt = consumeWord j
      in if word = [] then s
         else if ToLower word \<notin> set typeContinuationWords then s
         else skip_continuation nxt)"
  by pat_completeness auto
termination
proof (relation "measure length")
  fix s j word nxt :: string
  assume j: "j = dropWhile blank s" and w: "word = takeWhile word_char j" "word \<noteq> []"
    and n: "nxt = consumeWord j"
  have "word @ nxt = j" by (simp add: w n consumeWord_def)
  then have "length nxt < length j" using w(2) by auto
  also have "length j \<le> length s" by (simp add: j length_dropWhile_le)
  finally show "(nxt, s) \<in> measure length" by simp
qed simp

declare skip_continuation.simps [simp del]

fun skip_modifier :: "nat \<Rightarrow> string \<Rightarrow> string" where
  "skip_modifier depth [] = []"
| "skip_modifier depth (c # cs) =
     (if c = lparen then skip_modifier (depth + 1) cs
      else if c = rparen then (if depth - 1 = 0 then cs else skip_modifier (depth - 1) cs)
      else skip_modifier depth cs)"

function skip_array_markers :: "string \<Rightarrow> string" where
  "skip_array_markers [] = []"
| "skip_array_markers (c # cs) =
     (if c = CHR ''['' then skip_array_markers (tl (dropWhile (\<lambda>x. x \<noteq> CHR '']'') cs)) else c # cs)"
  by pat_completeness auto
termination
proof (relation "measure length")
  fix c :: char and cs :: string
  have "length (tl (dropWhile (\<lambda>x. x \<noteq> CHR '']'') cs)) \<le> length cs"
    using length_dropWhile_le [of "\<lambda>x. x \<noteq> CHR '']''" cs] by simp
  then show "(tl (dropWhile (\<lambda>x. x \<noteq> CHR '']'') cs), c # cs) \<in> measure length" by simp
qed simp

definition skipTypeToken :: "string \<Rightarrow> string" where
  "skipTypeToken s =
     (let i = consumeWord s;
          i = skip_qualifier i;
          i = skip_continuation i;
          i = (if HasPrefix i ''('' then skip_modifier 0 i else i)
      in skip_array_markers i)"

subsection \<open>Every scanner returns a suffix of what it was given\<close>

lemma suffix_consumeWord: "suffix (consumeWord s) s"
  by (simp add: consumeWord_def suffix_dropWhile)

lemma suffix_skip_qualifier: "suffix (skip_qualifier s) s"
  using suffix_consumeWord [of "tl s"]
  by (auto simp: skip_qualifier_def Let_def suffix_Cons split: list.split)

lemma suffix_skip_continuation: "suffix (skip_continuation s) s"
proof (induction s rule: skip_continuation.induct)
  case (1 s)
  have "suffix (consumeWord (dropWhile blank s)) s"
    using suffix_consumeWord suffix_dropWhile by (metis suffix_order.trans)
  with 1 show ?case
    by (subst skip_continuation.simps) (auto simp: Let_def intro: suffix_order.trans)
qed

lemma suffix_skip_modifier: "suffix (skip_modifier d s) s"
  by (induction d s rule: skip_modifier.induct) (auto simp: suffix_Cons)

lemma suffix_skip_array_markers: "suffix (skip_array_markers s) s"
proof (induction s rule: skip_array_markers.induct)
  case (2 c cs)
  have "suffix (tl (dropWhile (\<lambda>x. x \<noteq> CHR '']'') cs)) cs"
    by (metis suffix_dropWhile suffix_tl suffix_order.trans)
  with 2 show ?case by (auto simp: suffix_Cons intro: suffix_order.trans)
qed simp

lemma suffix_skipTypeToken: "suffix (skipTypeToken s) s"
proof -
  let ?i = "skip_continuation (skip_qualifier (consumeWord s))"
  let ?j = "if HasPrefix ?i ''('' then skip_modifier 0 ?i else ?i"
  have "suffix (skip_array_markers ?j) ?j" by (rule suffix_skip_array_markers)
  also have "suffix ?j ?i" by (simp add: suffix_skip_modifier)
  also have "suffix ?i (skip_qualifier (consumeWord s))" by (rule suffix_skip_continuation)
  also have "suffix (skip_qualifier (consumeWord s)) (consumeWord s)" by (rule suffix_skip_qualifier)
  also have "suffix (consumeWord s) s" by (rule suffix_consumeWord)
  finally show ?thesis by (simp add: skipTypeToken_def Let_def)
qed

lemmas length_skipTypeToken = suffix_skipTypeToken [THEN suffix_length_le]
lemmas set_skipTypeToken = suffix_skipTypeToken [THEN set_mono_suffix]

section \<open>Stripping casts, and the canonical form\<close>

function strip_type_casts_loop :: "string \<Rightarrow> string \<Rightarrow> string" where
  "strip_type_casts_loop out [] = out"
| "strip_type_casts_loop out [c] = out @ [c]"
| "strip_type_casts_loop out (c # d # r) =
     (if c = CHR '':'' \<and> d = CHR '':'' then
        (let rest = skipTypeToken r;
             token = take (length r - length rest) r
         in strip_type_casts_loop
              (if isNumericCastType token then unquoteTrailingNumericLiteral out else out) rest)
      else strip_type_casts_loop (out @ [c]) (d # r))"
  by pat_completeness auto
termination
  by (relation "measure (\<lambda>(out, s). length s)") (auto simp: less_Suc_eq_le intro: le_SucI length_skipTypeToken)

definition stripTypeCasts :: "string \<Rightarrow> string" where
  "stripTypeCasts s = strip_type_casts_loop [] s"

fun canonicalize_loop :: "string \<Rightarrow> bool \<Rightarrow> string \<Rightarrow> string" where
  "canonicalize_loop b pendingSpace [] = b"
| "canonicalize_loop b pendingSpace (r # rs) =
     (if r = lparen \<or> r = rparen then canonicalize_loop b pendingSpace rs
      else if r = CHR '' '' \<or> r = tab \<or> r = newline \<or> r = carriage_return
      then canonicalize_loop b True rs
      else canonicalize_loop
             ((if pendingSpace \<and> length b > 0 then b @ '' '' else b) @ [r]) False rs)"

definition CanonicalizeSQLExpr :: "string \<Rightarrow> string" where
  "CanonicalizeSQLExpr s =
     (let s = ToLower s;
          s = stripTypeCasts s;
          out = TrimSpace (canonicalize_loop [] False s);
          out = ReplaceAll out '', '' '',''
      in ReplaceAll out '' ,'' '','')"

section \<open>Shape of the canonical form\<close>

lemma set_unquote: "set (unquoteTrailingNumericLiteral out) \<subseteq> set out"
  by (auto simp: unquoteTrailingNumericLiteral_def Let_def split: option.split
      dest: in_set_dropD in_set_takeD in_set_butlastD)

lemma set_strip_type_casts_loop: "set (strip_type_casts_loop out s) \<subseteq> set out \<union> set s"
proof (induction out s rule: strip_type_casts_loop.induct)
  case (3 out c d r)
  show ?case
  proof (cases "c = CHR '':'' \<and> d = CHR '':''")
    case True
    let ?out = "if isNumericCastType (take (length r - length (skipTypeToken r)) r)
      then unquoteTrailingNumericLiteral out else out"
    have "set (strip_type_casts_loop ?out (skipTypeToken r)) \<subseteq> set ?out \<union> set (skipTypeToken r)"
      using 3(1) [OF True refl refl] .
    also have "\<dots> \<subseteq> set out \<union> set r"
      using set_unquote [of out] set_skipTypeToken [of r] by auto
    finally show ?thesis using True by (auto simp: Let_def)
  next
    case False
    with 3(2) show ?thesis by auto
  qed
qed auto

lemma set_stripTypeCasts: "set (stripTypeCasts s) \<subseteq> set s"
  using set_strip_type_casts_loop [of "[]" s] by (simp add: stripTypeCasts_def)

text \<open>The bytes the canonicalizer counts as white space, and those it drops.\<close>

definition canon_space :: "char \<Rightarrow> bool" where
  "canon_space c \<longleftrightarrow> c = CHR '' '' \<or> c = tab \<or> c = newline \<or> c = carriage_return"

definition canon_paren :: "char \<Rightarrow> bool" where
  "canon_paren c \<longleftrightarrow> c = lparen \<or> c = rparen"

lemma canonicalize_loop_Cons:
  "canonicalize_loop b p (r # rs) =
     (if canon_paren r then canonicalize_loop b p rs
      else if canon_space r then canonicalize_loop b True rs
      else canonicalize_loop ((if p \<and> b \<noteq> [] then b @ '' '' else b) @ [r]) False rs)"
  by (simp add: canon_paren_def canon_space_def)

text \<open>Bytes of the loop's output: blanks it inserted, and input bytes that are neither.\<close>

lemma set_canonicalize_loop:
  "c \<in> set (canonicalize_loop b p s) \<Longrightarrow>
   c \<in> set b \<or> c = CHR '' '' \<or> (c \<in> set s \<and> \<not> canon_paren c \<and> \<not> canon_space c)"
proof (induction b p s rule: canonicalize_loop.induct)
  case (2 b p r rs)
  show ?case
  proof (cases "canon_paren r \<or> canon_space r")
    case True
    with 2 show ?thesis by (auto simp: canonicalize_loop_Cons canon_paren_def canon_space_def)
  next
    case False
    with 2 show ?thesis
      by (auto simp: canonicalize_loop_Cons canon_paren_def canon_space_def split: if_splits)
  qed
qed simp

lemma canonicalize_loop_no_double_space:
  "successively (\<lambda>a b. \<not> (a = CHR '' '' \<and> b = CHR '' '')) b \<Longrightarrow> (b = [] \<or> last b \<noteq> CHR '' '') \<Longrightarrow>
   successively (\<lambda>a b. \<not> (a = CHR '' '' \<and> b = CHR '' '')) (canonicalize_loop b p s)"
proof (induction b p s rule: canonicalize_loop.induct)
  case (2 b p r rs)
  show ?case
  proof (cases "canon_paren r \<or> canon_space r")
    case True
    with 2 show ?thesis by (auto simp: canonicalize_loop_Cons canon_paren_def canon_space_def)
  next
    case False
    with 2 show ?thesis
      by (auto simp: canonicalize_loop_Cons canon_paren_def canon_space_def successively_append_iff split: if_splits)
  qed
qed simp


lemma hd_ReplaceAll_comma: "hd (ReplaceAll s '', '' '','') = hd s" "ReplaceAll s '', '' '','' = [] \<longleftrightarrow> s = []"
  by (cases s; auto)+

lemma ReplaceAll_comma_space:
  "successively (\<lambda>a b. \<not> (a = CHR '' '' \<and> b = CHR '' '')) s \<Longrightarrow>
   successively (\<lambda>a b. \<not> ((a = CHR '' '' \<or> a = CHR '','') \<and> b = CHR '' '')) (ReplaceAll s '', '' '','')"
proof (induction s "'', ''" "'',''" rule: ReplaceAll.induct)
  case (2 c cs)
  then show ?case
    by (cases cs) (auto simp: successively_Cons hd_ReplaceAll_comma split: if_splits)
qed simp

lemma hd_ReplaceAll_space_comma:
  "hd (ReplaceAll s '' ,'' '','') = (if HasPrefix s '' ,'' then CHR '','' else hd s)"
  "ReplaceAll s '' ,'' '','' = [] \<longleftrightarrow> s = []"
  by (cases s; auto)+

lemma ReplaceAll_space_comma:
  "successively (\<lambda>a b. \<not> ((a = CHR '' '' \<or> a = CHR '','') \<and> b = CHR '' '')) s \<Longrightarrow>
   successively (\<lambda>a b. \<not> ((a = CHR '' '' \<or> a = CHR '','') \<and> b = CHR '' '') \<and>
     \<not> (a = CHR '' '' \<and> b = CHR '','')) (ReplaceAll s '' ,'' '','')"
proof (induction s "'' ,''" "'',''" rule: ReplaceAll.induct)
  case (2 c cs)
  show ?case
  proof (cases "HasPrefix (c # cs) '' ,''")
    case True
    then obtain r where "c = CHR '' ''" "cs = CHR '','' # r" by (auto simp: HasPrefix_iff)
    with 2(1) 2(3) show ?thesis
      by (cases r) (auto simp: successively_Cons hd_ReplaceAll_space_comma)
  next
    case False
    with 2(2) 2(3) show ?thesis
      by (cases cs) (auto simp: successively_Cons hd_ReplaceAll_space_comma HasPrefix_iff)
  qed
qed simp

lemma last_ReplaceAll_comma:
  "s \<noteq> [] \<Longrightarrow> last s \<noteq> CHR '' '' \<Longrightarrow> last (ReplaceAll s '', '' '','') = last s"
proof (induction s "'', ''" "'',''" rule: ReplaceAll.induct)
  case (2 c cs)
  then show ?case by (cases cs; cases "tl cs") (auto simp: hd_ReplaceAll_comma)
qed simp

lemma last_ReplaceAll_space_comma:
  "s \<noteq> [] \<Longrightarrow> last (ReplaceAll s '' ,'' '','') = last s"
proof (induction s "'' ,''" "'',''" rule: ReplaceAll.induct)
  case (2 c cs)
  then show ?case by (cases cs; cases "tl cs") (auto simp: hd_ReplaceAll_space_comma)
qed simp

lemma successively_trim:
  "successively R s \<Longrightarrow> successively R (trim_while P s)"
proof -
  assume s: "successively R s"
  have "suffix (dropWhile P s) s" by (rule suffix_dropWhile)
  then have 1: "successively R (dropWhile P s)"
    using s by (metis suffix_def successively_append_iff)
  obtain z where "rev (dropWhile P s) = z @ dropWhile P (rev (dropWhile P s))"
    using suffix_dropWhile by (metis suffix_def)
  then have "dropWhile P s = trim_while P s @ rev z"
    unfolding trim_while_def by (metis rev_append rev_rev_ident)
  with 1 show ?thesis by (metis successively_append_iff)
qed

text \<open>
  The normal form: lower case, no parentheses, single blanks only, none next to a comma, none
  at either end.
\<close>

definition canonical_pair :: "char \<Rightarrow> char \<Rightarrow> bool" where
  "canonical_pair a b \<longleftrightarrow>
     \<not> (a = CHR '' '' \<and> (b = CHR '' '' \<or> b = CHR '','')) \<and> \<not> (a = CHR '','' \<and> b = CHR '' '')"

definition canonical_shape :: "string \<Rightarrow> bool" where
  "canonical_shape s \<longleftrightarrow>
     list_all (\<lambda>c. \<not> is_upper c \<and> \<not> canon_paren c \<and> (canon_space c \<longrightarrow> c = CHR '' '')) s \<and>
     successively canonical_pair s \<and>
     (s = [] \<or> (\<not> is_space (hd s) \<and> \<not> is_space (last s)))"

lemma not_canon_blank [simp]:
  "\<not> is_upper (CHR '' '')" "\<not> canon_paren (CHR '' '')" "\<not> is_upper (CHR '','')"
  "\<not> canon_paren (CHR '','')" "\<not> canon_space (CHR '','')" "canon_space (CHR '' '')"
  by (simp_all add: is_upper_def byte_def canon_paren_def canon_space_def)

abbreviation canonicalize_collapsed :: "string \<Rightarrow> string" where
  "canonicalize_collapsed s \<equiv> TrimSpace (canonicalize_loop [] False (stripTypeCasts (ToLower s)))"

lemma CanonicalizeSQLExpr_alt:
  "CanonicalizeSQLExpr s =
     ReplaceAll (ReplaceAll (canonicalize_collapsed s) '', '' '','') '' ,'' '',''"
  by (simp add: CanonicalizeSQLExpr_def Let_def)

lemma set_canonicalize_collapsed:
  assumes "c \<in> set (canonicalize_collapsed s)"
  shows "\<not> is_upper c \<and> \<not> canon_paren c \<and> (canon_space c \<longrightarrow> c = CHR '' '')"
proof -
  from assms have "c \<in> set (canonicalize_loop [] False (stripTypeCasts (ToLower s)))"
    by (auto simp: TrimSpace_def dest: set_trim_while)
  then have "c = CHR '' '' \<or> (c \<in> set (stripTypeCasts (ToLower s)) \<and> \<not> canon_paren c \<and> \<not> canon_space c)"
    by (auto dest: set_canonicalize_loop)
  moreover have "c \<in> set (stripTypeCasts (ToLower s)) \<Longrightarrow> \<not> is_upper c"
    using set_stripTypeCasts by (blast dest: ToLower_no_upper)
  ultimately show ?thesis by auto
qed

lemma set_CanonicalizeSQLExpr:
  "c \<in> set (CanonicalizeSQLExpr s) \<Longrightarrow> c \<in> set (canonicalize_collapsed s) \<or> c = CHR '',''"
  using set_ReplaceAll [of "canonicalize_collapsed s" "'', ''" "'',''"]
    set_ReplaceAll [of "ReplaceAll (canonicalize_collapsed s) '', '' '',''" "'' ,''" "'',''"]
  by (auto simp: CanonicalizeSQLExpr_alt)

lemma canonical_shape_CanonicalizeSQLExpr: "canonical_shape (CanonicalizeSQLExpr s)"
proof -
  let ?b = "canonicalize_collapsed s"
  let ?o = "CanonicalizeSQLExpr s"
  have "successively (\<lambda>a b. \<not> (a = CHR '' '' \<and> b = CHR '' '')) ?b"
    unfolding TrimSpace_def
    by (intro successively_trim canonicalize_loop_no_double_space) auto
  then have "successively (\<lambda>a b. \<not> ((a = CHR '' '' \<or> a = CHR '','') \<and> b = CHR '' '') \<and>
     \<not> (a = CHR '' '' \<and> b = CHR '','')) ?o"
    unfolding CanonicalizeSQLExpr_alt by (intro ReplaceAll_space_comma ReplaceAll_comma_space)
  then have pairs: "successively canonical_pair ?o"
    by (rule successively_mono) (auto simp: canonical_pair_def)
  have ends: "?o = [] \<or> (\<not> is_space (hd ?o) \<and> \<not> is_space (last ?o))"
  proof (cases "?b = []")
    case True
    then show ?thesis by (simp add: CanonicalizeSQLExpr_alt)
  next
    case False
    then have h: "\<not> is_space (hd ?b)" "\<not> is_space (last ?b)"
      unfolding TrimSpace_def using trim_while_hd trim_while_last by blast+
    then have nb: "hd ?b \<noteq> CHR '' ''" "last ?b \<noteq> CHR '' ''" by auto
    let ?c = "ReplaceAll ?b '', '' '',''"
    have c: "?c \<noteq> []" "hd ?c = hd ?b" "last ?c = last ?b"
      using False nb by (simp_all only: hd_ReplaceAll_comma last_ReplaceAll_comma not_False_eq_True)
    then have "\<not> HasPrefix ?c '' ,''" using nb by (cases ?c) simp_all
    with c have "hd ?o = hd ?b" "last ?o = last ?b"
      by (simp_all only: CanonicalizeSQLExpr_alt hd_ReplaceAll_space_comma
          last_ReplaceAll_space_comma if_False not_False_eq_True)
    with h show ?thesis by simp
  qed
  have "list_all (\<lambda>c. \<not> is_upper c \<and> \<not> canon_paren c \<and> (canon_space c \<longrightarrow> c = CHR '' '')) ?o"
  proof (simp only: list_all_iff, intro ballI)
    fix c assume "c \<in> set ?o"
    then consider "c \<in> set ?b" | "c = CHR '',''" using set_CanonicalizeSQLExpr by blast
    then show "\<not> is_upper c \<and> \<not> canon_paren c \<and> (canon_space c \<longrightarrow> c = CHR '' '')"
      by cases (use set_canonicalize_collapsed in blast, simp)
  qed
  with pairs ends show ?thesis by (simp add: canonical_shape_def)
qed

section \<open>Fixed points\<close>

lemma strip_type_casts_loop_append:
  "CHR '':'' \<notin> set a \<Longrightarrow> strip_type_casts_loop out (a @ b) = strip_type_casts_loop (out @ a) b"
proof (induction a arbitrary: out)
  case (Cons c a)
  then show ?case by (cases "a @ b") auto
qed simp

lemma stripTypeCasts_append:
  "CHR '':'' \<notin> set a \<Longrightarrow> stripTypeCasts (a @ b) = strip_type_casts_loop a b"
  using strip_type_casts_loop_append [of a "[]" b] by (simp add: stripTypeCasts_def)

lemma stripTypeCasts_id: "CHR '':'' \<notin> set s \<Longrightarrow> stripTypeCasts s = s"
  using stripTypeCasts_append [of s "[]"] by simp

lemma canonicalize_loop_id:
  assumes "list_all (\<lambda>c. \<not> canon_paren c \<and> (canon_space c \<longrightarrow> c = CHR '' '')) s"
    and "successively canonical_pair s" and "s = [] \<or> last s \<noteq> CHR '' ''" and "b \<noteq> []"
  shows "canonicalize_loop b False s = b @ s"
  using assms
proof (induction s arbitrary: b rule: length_induct)
  case (1 s)
  show ?case
  proof (cases s)
    case Nil
    then show ?thesis by simp
  next
    case (Cons c r)
    show ?thesis
    proof (cases "c = CHR '' ''")
      case False
      with 1(1)[rule_format, of r "b @ [c]"] 1(2-) Cons show ?thesis
        by (cases "r = []") (auto simp: canonicalize_loop_Cons successively_Cons simp del: canonicalize_loop.simps)
    next
      case True
      with 1 Cons obtain d r' where r: "r = d # r'" "d \<noteq> CHR '' ''"
        by (cases r) (auto simp: canonical_pair_def)
      with 1(1)[rule_format, of r' "b @ '' '' @ [d]"] 1(2-) Cons True show ?thesis
        by (cases "r' = []") (auto simp: canonicalize_loop_Cons successively_Cons simp del: canonicalize_loop.simps)
    qed
  qed
qed

lemma not_Contains_pair:
  "successively R s \<Longrightarrow> \<not> R x y \<Longrightarrow> \<not> Contains s [x, y]"
  by (auto simp: Contains_iff successively_append_iff)

lemma CanonicalizeSQLExpr_fixpoint:
  assumes shape: "canonical_shape s" and colon: "CHR '':'' \<notin> set s"
  shows "CanonicalizeSQLExpr s = s"
proof -
  have lower: "ToLower s = s"
    using shape by (auto simp: canonical_shape_def list_all_iff intro: ToLower_id)
  have "canonicalize_loop [] False s = s"
  proof (cases s)
    case (Cons c r)
    then have c: "c \<noteq> CHR '' ''" "last s \<noteq> CHR '' ''" "\<not> canon_paren c" "\<not> canon_space c"
      using shape by (auto simp: canonical_shape_def)
    have "canonicalize_loop [c] False r = [c] @ r"
      by (rule canonicalize_loop_id)
        (use shape Cons c in \<open>auto simp: canonical_shape_def list_all_iff successively_Cons\<close>)
    with Cons c show ?thesis by (simp add: canonicalize_loop_Cons del: canonicalize_loop.simps)
  qed simp
  moreover have "TrimSpace s = s" using shape by (simp add: canonical_shape_def TrimSpace_id)
  moreover have "\<not> Contains s '', ''" "\<not> Contains s '' ,''"
  proof -
    have "successively canonical_pair s" using shape by (simp add: canonical_shape_def)
    then show "\<not> Contains s '', ''" "\<not> Contains s '' ,''"
      by (rule not_Contains_pair, simp add: canonical_pair_def)+
  qed
  ultimately show ?thesis
    by (simp add: CanonicalizeSQLExpr_alt lower stripTypeCasts_id colon ReplaceAll_id)
qed

section \<open>What the canonical form forgets\<close>

lemma canonicalize_loop_paren:
  "canonicalize_loop b p (filter (\<lambda>c. \<not> canon_paren c) s) = canonicalize_loop b p s"
  by (induction s arbitrary: b p)
     (auto simp: canonicalize_loop_Cons simp del: canonicalize_loop.simps)

lemma CanonicalizeSQLExpr_ToLower: "ToLower s = ToLower t \<Longrightarrow> CanonicalizeSQLExpr s = CanonicalizeSQLExpr t"
  by (simp add: CanonicalizeSQLExpr_def)

text \<open>
  The end of a cast: a byte that neither continues the type name nor starts a modifier, an
  array marker or a qualified name, and that no continuation word follows.
\<close>

definition cast_boundary :: "string \<Rightarrow> bool" where
  "cast_boundary b \<longleftrightarrow>
     b = [] \<or>
     (\<not> word_char (hd b) \<and> hd b \<notin> set ''.(['' \<and>
      ToLower (takeWhile word_char (dropWhile blank b)) \<notin> set typeContinuationWords)"

lemma skipTypeToken_word:
  assumes t: "list_all word_char t" and b: "cast_boundary b"
  shows "skipTypeToken (t @ b) = b"
proof -
  have 1: "consumeWord (t @ b) = b"
    using t b by (cases b) (auto simp: consumeWord_def cast_boundary_def list_all_iff)
  have 2: "skip_qualifier b = b"
    using b by (cases b) (auto simp: skip_qualifier_def cast_boundary_def)
  have 3: "skip_continuation b = b"
    using b by (subst skip_continuation.simps) (auto simp: cast_boundary_def Let_def)
  have 4: "\<not> HasPrefix b ''(''" "skip_array_markers b = b"
    using b by (cases b; auto simp: cast_boundary_def)+
  show ?thesis by (simp add: skipTypeToken_def 1 2 3 4)
qed

lemma strip_cast:
  assumes t: "list_all word_char t" and b: "cast_boundary b"
  shows "strip_type_casts_loop out (''::'' @ t @ b) =
     strip_type_casts_loop (if isNumericCastType t then unquoteTrailingNumericLiteral out else out) b"
  using skipTypeToken_word [OF t b] by (simp add: Let_def)


lemma word_char_lower [simp]: "word_char (lower_char c) = word_char c"
proof -
  have "byte (CHR ''_'') = 95" by (simp add: byte_def)
  then have "c = CHR ''_'' \<longleftrightarrow> byte c = 95" for c by (metis byte_inject)
  then show ?thesis
    by (auto simp: word_char_def is_lower_def is_upper_def is_digit_def byte_lower_char)
qed

lemma blank_lower [simp]: "blank (lower_char c) = blank c"
  by (auto simp: blank_def lower_char_eq_iff is_upper_def is_lower_def byte_def)

lemma cast_boundary_lower: "cast_boundary b \<Longrightarrow> cast_boundary (ToLower b)"
proof (cases b)
  case (Cons c r)
  assume b: "cast_boundary b"
  have "ToLower (takeWhile word_char (dropWhile blank (ToLower b))) =
      ToLower (takeWhile word_char (dropWhile blank b))"
    by (simp add: ToLower_def dropWhile_map takeWhile_map comp_def)
  moreover have "lower_char c \<notin> set ''.([''"
    using b Cons by (auto simp: cast_boundary_def lower_char_eq_iff is_upper_def is_lower_def byte_def)
  ultimately show ?thesis using b Cons by (simp add: cast_boundary_def)
qed (simp add: cast_boundary_def)

lemma colon_ToLower: "CHR '':'' \<notin> set a \<Longrightarrow> CHR '':'' \<notin> set (ToLower a)"
proof
  assume a: "CHR '':'' \<notin> set a" and "CHR '':'' \<in> set (ToLower a)"
  then obtain c where c: "c \<in> set a" "lower_char c = CHR '':''" by (auto simp: ToLower_def)
  have "\<not> is_upper (CHR '':'')" "\<not> is_lower (CHR '':'')" by code_simp+
  then have "c = CHR '':''" using c(2) lower_char_eq_iff by blast
  with a c(1) show False by simp
qed

lemma numeric_literal_loop_bytes:
  "numeric_literal_loop s d k \<Longrightarrow> c \<in> set s \<Longrightarrow> is_digit c \<or> c = CHR ''.''"
  by (induction s d k rule: numeric_literal_loop.induct) (auto split: if_splits)

lemma isNumericLiteral_bytes:
  "isNumericLiteral n \<Longrightarrow> c \<in> set n \<Longrightarrow> is_digit c \<or> c \<in> set ''.+-''"
  by (auto simp: isNumericLiteral_def dest: numeric_literal_loop_bytes split: list.splits if_splits)

lemma isNumericLiteral_plain:
  assumes "isNumericLiteral n"
  shows "squote \<notin> set n" "CHR '':'' \<notin> set n" "ToLower n = n"
proof -
  have "\<not> is_digit squote" "\<not> is_digit (CHR '':'')" by code_simp+
  then show "squote \<notin> set n" "CHR '':'' \<notin> set n"
    using isNumericLiteral_bytes [OF assms] by fastforce+
  have "\<not> is_upper c" if "c \<in> set n" for c
    using isNumericLiteral_bytes [OF assms that] by (auto simp: is_digit_def is_upper_def byte_def)
  then show "ToLower n = n" by (auto intro: ToLower_id)
qed

lemma unquote_numeric:
  assumes "isNumericLiteral n"
  shows "unquoteTrailingNumericLiteral (a @ [squote] @ n @ [squote]) = a @ n"
  using assms isNumericLiteral_plain(1) [OF assms]
  by (simp add: unquoteTrailingNumericLiteral_def butlast_append)

section \<open>Properties\<close>

text \<open>
  C39. The canonical form is a normal form: whatever the input, the result is lower case, has no
  parentheses, only single blanks, none beside a comma and none at either end, and (when no colon
  is left in it) canonicalizing it again changes nothing.
\<close>

theorem CanonicalizeSQLExpr_normal_form:
  "canonical_shape (CanonicalizeSQLExpr s) \<and>
   (CHR '':'' \<notin> set (CanonicalizeSQLExpr s) \<longrightarrow>
      CanonicalizeSQLExpr (CanonicalizeSQLExpr s) = CanonicalizeSQLExpr s)"
  by (simp add: canonical_shape_CanonicalizeSQLExpr CanonicalizeSQLExpr_fixpoint)

theorem CanonicalizeSQLExpr_normal_form_witness:
  "CanonicalizeSQLExpr ''((A  >  1) AND  B IN (1 , 2))'' = ''a > 1 and b in 1,2'' \<and>
   CanonicalizeSQLExpr ''a > 1 and b in 1,2'' = ''a > 1 and b in 1,2''"
proof -
  have "CanonicalizeSQLExpr ''((A  >  1) AND  B IN (1 , 2))'' = ''a > 1 and b in 1,2''" by code_simp
  then show ?thesis
    using CanonicalizeSQLExpr_normal_form [of "''((A  >  1) AND  B IN (1 , 2))''"] by simp
qed

text \<open>
  A cast PostgreSQL adds to an expression is forgotten: with or without a non-numeric
  \<^verbatim>\<open>::typename\<close> behind an operand, the canonical form is the same.
\<close>

theorem cast_forgotten:
  assumes a: "CHR '':'' \<notin> set a" and t: "list_all word_char t" and b: "cast_boundary b"
    and nonnum: "\<not> isNumericCastType (ToLower t)"
  shows "CanonicalizeSQLExpr (a @ ''::'' @ t @ b) = CanonicalizeSQLExpr (a @ b)"
proof -
  have a': "CHR '':'' \<notin> set (ToLower a)"
    using a by (rule colon_ToLower)
  have t': "list_all word_char (ToLower t)" using t by (simp add: ToLower_def list_all_iff)
  have "ToLower ''::'' = ''::''" by code_simp
  then have "stripTypeCasts (ToLower (a @ ''::'' @ t @ b)) = stripTypeCasts (ToLower (a @ b))"
    using strip_cast [OF t' cast_boundary_lower [OF b], of "ToLower a"] nonnum a'
    by (simp only: ToLower_simps(3) stripTypeCasts_append [OF a'] if_False)
  then show ?thesis by (simp only: CanonicalizeSQLExpr_alt)
qed

theorem cast_forgotten_witness:
  "CanonicalizeSQLExpr ''(status = new::text AND x)'' = CanonicalizeSQLExpr ''(status = new AND x)''"
proof -
  have "CHR '':'' \<notin> set ''(status = new''" "list_all word_char ''text''" "cast_boundary '' AND x)''"
    "\<not> isNumericCastType (ToLower ''text'')"
    by code_simp+
  from cast_forgotten [OF this] show ?thesis by simp
qed

text \<open>
  A quoted numeric literal under a numeric cast, as PostgreSQL renders it back in
  \<^verbatim>\<open>'-1'::integer\<close>, has the canonical form of the bare literal the schema author wrote.
\<close>

theorem numeric_cast_forgotten:
  assumes a: "CHR '':'' \<notin> set a" and n: "isNumericLiteral n" and t: "list_all word_char t" and b: "cast_boundary b"
    and num: "isNumericCastType (ToLower t)"
  shows "CanonicalizeSQLExpr (a @ [squote] @ n @ [squote] @ ''::'' @ t @ b) = CanonicalizeSQLExpr (a @ n @ b)"
proof -
  note n' = isNumericLiteral_plain [OF n]
  let ?q = "ToLower a @ [squote] @ n @ [squote]"
  have q: "CHR '':'' \<notin> set ?q" "CHR '':'' \<notin> set (ToLower a @ n)"
    using colon_ToLower [OF a] n' by auto
  have t': "list_all word_char (ToLower t)" using t by (simp add: ToLower_def list_all_iff)
  have lits: "ToLower ''::'' = ''::''" "ToLower [squote] = [squote]" by code_simp+
  have "stripTypeCasts (?q @ ''::'' @ ToLower t @ ToLower b) = strip_type_casts_loop (ToLower a @ n) (ToLower b)"
    using strip_cast [OF t' cast_boundary_lower [OF b], of ?q] num
    by (simp only: stripTypeCasts_append [OF q(1)] unquote_numeric [OF n] if_True)
  also have "\<dots> = stripTypeCasts ((ToLower a @ n) @ ToLower b)"
    by (rule stripTypeCasts_append [OF q(2), symmetric])
  finally have "stripTypeCasts (ToLower (a @ [squote] @ n @ [squote] @ ''::'' @ t @ b)) = stripTypeCasts (ToLower (a @ n @ b))"
    by (simp only: ToLower_simps(3) lits n'(3) append_assoc)
  then show ?thesis by (simp only: CanonicalizeSQLExpr_alt)
qed

theorem numeric_cast_forgotten_witness:
  "CanonicalizeSQLExpr (''(balance > '' @ [squote] @ ''-1'' @ [squote] @ ''::INTEGER)'') =
     CanonicalizeSQLExpr ''(balance > -1)''"
proof -
  have "CHR '':'' \<notin> set ''(balance > ''" "isNumericLiteral ''-1''" "list_all word_char ''INTEGER''"
    "cast_boundary '')''" "isNumericCastType (ToLower ''INTEGER'')"
    by code_simp+
  from numeric_cast_forgotten [OF this] show ?thesis by simp
qed

end
