(* ===== verification/Sha256.thy ===== *)
theory Sha256
  imports Go_Prelude "HOL-Library.Word"
begin

text \<open>
  The functions sha256.Sum256 and hex.EncodeToString of the standard library, which the sources
  use to shorten generated identifiers and to name migrations. SHA-256 follows FIPS 180-4 on
  32-bit words; a message is a string of bytes and its length in bits is taken modulo 2 ^ 64.
\<close>

unbundle bit_operations_syntax

type_synonym word32 = "32 word"

definition K256 :: "word32 list" where
  "K256 =
    [0x428A2F98, 0x71374491, 0xB5C0FBCF, 0xE9B5DBA5,
     0x3956C25B, 0x59F111F1, 0x923F82A4, 0xAB1C5ED5,
     0xD807AA98, 0x12835B01, 0x243185BE, 0x550C7DC3,
     0x72BE5D74, 0x80DEB1FE, 0x9BDC06A7, 0xC19BF174,
     0xE49B69C1, 0xEFBE4786, 0x0FC19DC6, 0x240CA1CC,
     0x2DE92C6F, 0x4A7484AA, 0x5CB0A9DC, 0x76F988DA,
     0x983E5152, 0xA831C66D, 0xB00327C8, 0xBF597FC7,
     0xC6E00BF3, 0xD5A79147, 0x06CA6351, 0x14292967,
     0x27B70A85, 0x2E1B2138, 0x4D2C6DFC, 0x53380D13,
     0x650A7354, 0x766A0ABB, 0x81C2C92E, 0x92722C85,
     0xA2BFE8A1, 0xA81A664B, 0xC24B8B70, 0xC76C51A3,
     0xD192E819, 0xD6990624, 0xF40E3585, 0x106AA070,
     0x19A4C116, 0x1E376C08, 0x2748774C, 0x34B0BCB5,
     0x391C0CB3, 0x4ED8AA4A, 0x5B9CCA4F, 0x682E6FF3,
     0x748F82EE, 0x78A5636F, 0x84C87814, 0x8CC70208,
     0x90BEFFFA, 0xA4506CEB, 0xBEF9A3F7, 0xC67178F2]"

definition H256 :: "word32 list" where
  "H256 =
    [0x6A09E667, 0xBB67AE85, 0x3C6EF372, 0xA54FF53A,
     0x510E527F, 0x9B05688C, 0x1F83D9AB, 0x5BE0CD19]"

definition big_endian :: "nat \<Rightarrow> int \<Rightarrow> int list" where
  "big_endian k n = map (\<lambda>i. n div 256 ^ (k - 1 - i) mod 256) [0..<k]"

text \<open>One bit 1, then zeros up to 56 bytes modulo 64, then the length in bits as 8 bytes.\<close>

definition sha_pad :: "int list \<Rightarrow> int list" where
  "sha_pad m =
     m @ 128 # replicate ((119 - length m mod 64) mod 64) 0 @ big_endian 8 (8 * int (length m) mod 2 ^ 64)"

fun words_of_bytes :: "int list \<Rightarrow> word32 list" where
  "words_of_bytes (a # b # c # d # r) =
     of_int (a * 16777216 + b * 65536 + c * 256 + d) # words_of_bytes r"
| "words_of_bytes _ = []"

definition small_sigma0 :: "word32 \<Rightarrow> word32" where
  "small_sigma0 x = (word_rotr 7 x XOR word_rotr 18 x) XOR drop_bit 3 x"

definition small_sigma1 :: "word32 \<Rightarrow> word32" where
  "small_sigma1 x = (word_rotr 17 x XOR word_rotr 19 x) XOR drop_bit 10 x"

definition big_sigma0 :: "word32 \<Rightarrow> word32" where
  "big_sigma0 x = (word_rotr 2 x XOR word_rotr 13 x) XOR word_rotr 22 x"

definition big_sigma1 :: "word32 \<Rightarrow> word32" where
  "big_sigma1 x = (word_rotr 6 x XOR word_rotr 11 x) XOR word_rotr 25 x"

text \<open>The message schedule, newest word first: \<open>extend n rs\<close> adds \<open>n\<close> words.\<close>

fun extend_schedule :: "nat \<Rightarrow> word32 list \<Rightarrow> word32 list" where
  "extend_schedule 0 rs = rs"
| "extend_schedule (Suc n) rs =
     extend_schedule n
       ((small_sigma1 (rs ! 1) + rs ! 6 + small_sigma0 (rs ! 14) + rs ! 15) # rs)"

definition schedule :: "word32 list \<Rightarrow> word32 list" where
  "schedule block = rev (extend_schedule 48 (rev block))"

fun sha_round :: "word32 \<times> word32 \<Rightarrow> word32 list \<Rightarrow> word32 list" where
  "sha_round (k, w) [a, b, c, d, e, f, g, h] =
     (let t1 = h + big_sigma1 e + ((e AND f) XOR (NOT e AND g)) + k + w;
          t2 = big_sigma0 a + (((a AND b) XOR (a AND c)) XOR (b AND c))
      in [t1 + t2, a, b, c, d + t1, e, f, g])"
| "sha_round _ hs = hs"

definition compress :: "word32 list \<Rightarrow> word32 list \<Rightarrow> word32 list" where
  "compress hs block =
     map2 (+) hs (fold sha_round (zip K256 (schedule block)) hs)"

fun process_blocks :: "word32 list \<Rightarrow> word32 list \<Rightarrow> word32 list" where
  "process_blocks hs ws =
     (if length ws < 16 then hs else process_blocks (compress hs (take 16 ws)) (drop 16 ws))"

declare process_blocks.simps [simp del]

definition sha256_words :: "string \<Rightarrow> word32 list" where
  "sha256_words s = process_blocks H256 (words_of_bytes (sha_pad (map (\<lambda>c. int (byte c)) s)))"

text \<open>The digest as 32 bytes, and its lower-case hexadecimal rendering.\<close>

definition Sum256 :: "string \<Rightarrow> int list" where
  "Sum256 s = concat (map (\<lambda>w. big_endian 4 (uint w)) (sha256_words s))"

definition EncodeToString :: "int list \<Rightarrow> string" where
  "EncodeToString bs = concat (map (\<lambda>b. [hex_digit (nat (b div 16)), hex_digit (nat (b mod 16))]) bs)"

definition sha256_hex :: "string \<Rightarrow> string" where
  "sha256_hex s = EncodeToString (Sum256 s)"

section \<open>Length and alphabet of the digest\<close>

lemma length_big_endian [simp]: "length (big_endian k n) = k"
  by (simp add: big_endian_def)

lemma big_endian_bound: "b \<in> set (big_endian k n) \<Longrightarrow> 0 \<le> b \<and> b < 256"
  by (auto simp: big_endian_def)

lemma length_sha_round [simp]: "length (sha_round kw hs) = length hs"
  by (cases "(kw, hs)" rule: sha_round.cases) (auto simp: Let_def)

lemma length_fold_round [simp]: "length (fold sha_round kws hs) = length hs"
  by (induction kws arbitrary: hs) auto

lemma length_compress [simp]: "length (compress hs block) = length hs"
  by (simp add: compress_def)

lemma length_process_blocks: "length (process_blocks hs ws) = length hs"
proof (induction hs ws rule: process_blocks.induct)
  case (1 hs ws)
  then show ?case by (subst process_blocks.simps) auto
qed

lemma length_sha256_words [simp]: "length (sha256_words s) = 8"
  by (simp add: sha256_words_def length_process_blocks H256_def)

lemma length_concat_const: "(\<And>x. x \<in> set xs \<Longrightarrow> length (f x) = k) \<Longrightarrow> length (concat (map f xs)) = k * length xs"
  by (induction xs) auto

lemma length_Sum256 [simp]: "length (Sum256 s) = 32"
  unfolding Sum256_def by (subst length_concat_const [where k = 4]) auto

lemma length_sha256_hex [simp]: "length (sha256_hex s) = 64"
  unfolding sha256_hex_def EncodeToString_def by (subst length_concat_const [where k = 2]) auto

lemma hex_digit_alphabet: "d < 16 \<Longrightarrow> is_digit (hex_digit d) \<or> is_lower (hex_digit d)"
  by (auto simp: hex_digit_def is_digit_def is_lower_def)

lemma sha256_hex_alphabet: "c \<in> set (sha256_hex s) \<Longrightarrow> is_digit c \<or> is_lower c"
proof -
  assume "c \<in> set (sha256_hex s)"
  then obtain b where b: "b \<in> set (Sum256 s)" "c = hex_digit (nat (b div 16)) \<or> c = hex_digit (nat (b mod 16))"
    by (auto simp: sha256_hex_def EncodeToString_def)
  then have "0 \<le> b" "b < 256" by (auto simp: Sum256_def dest: big_endian_bound)
  then have "nat (b div 16) < 16" "nat (b mod 16) < 16" by auto
  with b(2) show ?thesis using hex_digit_alphabet by blast
qed

end
