(* ===== verification/Db_Types.thy ===== *)
theory Db_Types
  imports Api_Types Sql_Canonical Sha256 "HOL-Library.Multiset"
begin

text \<open>
  The dialect-neutral catalog objects of src/pkg/database/types: columns, keys, foreign keys,
  indexes, check and exclusion constraints and row-level security policies, with the comparison
  each planner uses to tell a desired object from an existing one, the conversions from the
  custom resources and the generators of constraint and index names. One record per Go struct;
  a method's receiver is its first argument, and a pointer that may be nil an option.
\<close>

section \<open>Identifiers (identifier.go, tablename.go)\<close>

definition maxPostgresIdentifierLen :: nat where
  "maxPostgresIdentifierLen = 63"

definition identifierHashSuffixLen :: nat where
  "identifierHashSuffixLen = 8"

definition capPostgresIdentifier :: "string \<Rightarrow> string" where
  "capPostgresIdentifier name =
     (if length name \<le> maxPostgresIdentifierLen then name
      else
        (let suffx = take identifierHashSuffixLen (sha256_hex name);
             prefixLen = maxPostgresIdentifierLen - length suffx - 1;
             prefx = take prefixLen name
         in prefx @ ''_'' @ suffx))"

definition bareTableName :: "string \<Rightarrow> string" where
  "bareTableName tableName =
     (case LastIndexByte tableName (CHR ''.'') of
        Some idx \<Rightarrow> drop (idx + 1) tableName
      | None \<Rightarrow> tableName)"

section \<open>Keys (keyconstraint.go)\<close>

record KeyConstraint =
  kc_Name :: string
  kc_Columns :: "string list"
  kc_IsPrimary :: bool

definition KeyConstraint_Equals :: "KeyConstraint option \<Rightarrow> KeyConstraint option \<Rightarrow> bool" where
  "KeyConstraint_Equals k other =
     (case (k, other) of
        (None, None) \<Rightarrow> True
      | (Some k, Some other) \<Rightarrow>
          if kc_IsPrimary k \<noteq> kc_IsPrimary other then False
          else if length (kc_Columns k) \<noteq> length (kc_Columns other) then False
          else list_all (\<lambda>(column, o_column). column = o_column)
                 (zip (kc_Columns k) (kc_Columns other))
      | _ \<Rightarrow> False)"

definition KeyConstraint_GenerateName :: "KeyConstraint \<Rightarrow> string \<Rightarrow> string" where
  "KeyConstraint_GenerateName k tableName =
     (if kc_Name k \<noteq> [] then kc_Name k
      else
        (let bareName = bareTableName tableName
         in if kc_IsPrimary k then bareName @ ''_pkey''
            else bareName @ ''_'' @ Join (kc_Columns k) ''_'' @ ''_key''))"

section \<open>Columns (column.go)\<close>

record ColumnConstraints =
  cc_NotNull :: "bool option"

record ColumnAttributes =
  ca_AutoIncrement :: "bool option"

record Column =
  col_Name :: string
  col_DataType :: string
  col_ColumnDefault :: "string option"
  col_Constraints :: "ColumnConstraints option"
  col_Attributes :: "ColumnAttributes option"
  col_IsArray :: bool
  col_Charset :: string
  col_Collation :: string
  col_IsStatic :: bool

definition BoolsEqual :: "bool option \<Rightarrow> bool option \<Rightarrow> bool" where
  "BoolsEqual a b =
     (if a = None \<or> \<not> the a then b = None \<or> \<not> the b
      else b \<noteq> None \<and> the b)"

definition ColumnToPostgresqlSchemaColumn :: "Column \<Rightarrow> PostgresqlTableColumn" where
  "ColumnToPostgresqlSchemaColumn column =
     \<lparr> pcol_Name = col_Name column, pcol_Type = col_DataType column,
       pcol_Constraints =
         map_option (\<lambda>c. \<lparr> pcc_NotNull = cc_NotNull c \<rparr>) (col_Constraints column),
       pcol_Attributes =
         map_option (\<lambda>a. \<lparr> pca_AutoIncrement = ca_AutoIncrement a \<rparr>) (col_Attributes column),
       pcol_Default = col_ColumnDefault column \<rparr>"

section \<open>Foreign keys (foreignkey.go)\<close>

record ForeignKey =
  fk_ChildColumns :: "string list"
  fk_ParentTable :: string
  fk_ParentColumns :: "string list"
  fk_Name :: string
  fk_OnDelete :: string

definition normalizeOnDelete :: "string \<Rightarrow> string" where
  "normalizeOnDelete s =
     (let upper = ToUpper (TrimSpace s)
      in if upper = ''NO ACTION'' \<or> upper = [] then [] else upper)"

definition onDeleteEquals :: "string \<Rightarrow> string \<Rightarrow> bool" where
  "onDeleteEquals a b = EqualFold (normalizeOnDelete a) (normalizeOnDelete b)"

text \<open>The labelled loops of the source: every column of \<open>other\<close> occurs among \<open>cols\<close>.\<close>

definition columns_found :: "string list \<Rightarrow> string list \<Rightarrow> bool" where
  "columns_found cols other = list_all (\<lambda>o_column. list_ex (\<lambda>col. col = o_column) cols) other"

definition ForeignKey_Equals :: "ForeignKey \<Rightarrow> ForeignKey \<Rightarrow> bool" where
  "ForeignKey_Equals fk other =
     (if fk_Name fk \<noteq> [] \<and> fk_Name other \<noteq> [] \<and> fk_Name fk \<noteq> fk_Name other then False
      else if fk_ParentTable fk \<noteq> fk_ParentTable other then False
      else if \<not> onDeleteEquals (fk_OnDelete fk) (fk_OnDelete other) then False
      else if length (fk_ChildColumns fk) \<noteq> length (fk_ChildColumns other) then False
      else if \<not> columns_found (fk_ChildColumns fk) (fk_ChildColumns other) then False
      else if length (fk_ParentColumns fk) \<noteq> length (fk_ParentColumns other) then False
      else if \<not> columns_found (fk_ParentColumns fk) (fk_ParentColumns other) then False
      else True)"

definition ForeignKeyToPostgresqlSchemaForeignKey :: "ForeignKey \<Rightarrow> PostgresqlTableForeignKey" where
  "ForeignKeyToPostgresqlSchemaForeignKey foreignKey =
     \<lparr> pfk_Columns = fk_ChildColumns foreignKey,
       pfk_References =
         \<lparr> pfr_Table = fk_ParentTable foreignKey, pfr_Columns = fk_ParentColumns foreignKey \<rparr>,
       pfk_OnDelete = fk_OnDelete foreignKey,
       pfk_Name = fk_Name foreignKey \<rparr>"

definition PostgresqlSchemaForeignKeyToForeignKey :: "PostgresqlTableForeignKey \<Rightarrow> ForeignKey" where
  "PostgresqlSchemaForeignKeyToForeignKey schemaForeignKey =
     \<lparr> fk_ChildColumns = pfk_Columns schemaForeignKey,
       fk_ParentTable = pfr_Table (pfk_References schemaForeignKey),
       fk_ParentColumns = pfr_Columns (pfk_References schemaForeignKey),
       fk_Name = pfk_Name schemaForeignKey,
       fk_OnDelete = pfk_OnDelete schemaForeignKey \<rparr>"

definition QualifyParentTableToSchema :: "string \<Rightarrow> string \<Rightarrow> string" where
  "QualifyParentTableToSchema parentTable schema =
     (if schema = [] \<or> Contains parentTable ''.'' then parentTable
      else schema @ ''.'' @ parentTable)"

definition GeneratePostgresqlFKName :: "string \<Rightarrow> PostgresqlTableForeignKey \<Rightarrow> string" where
  "GeneratePostgresqlFKName tableName schemaForeignKey =
     (if pfk_Name schemaForeignKey \<noteq> [] then pfk_Name schemaForeignKey
      else bareTableName tableName @ ''_'' @ Join (pfk_Columns schemaForeignKey) ''_'' @ ''_fkey'')"

section \<open>Indexes (index.go)\<close>

record IndexColumn =
  ic_Column :: string
  ic_OpClass :: string
  ic_Sort :: string
  ic_Nulls :: string

record Index =
  ix_Columns :: "string list"
  ix_Name :: string
  ix_IsUnique :: bool
  ix_With :: "(string \<times> string) list"
  ix_Type :: string
  ix_Where :: string
  ix_Expressions :: "string list"
  ix_SortedColumns :: "IndexColumn list"

definition normalizeIndexMethod :: "string \<Rightarrow> string" where
  "normalizeIndexMethod method =
     (let m = ToLower (TrimSpace method) in if m = [] then ''btree'' else m)"

definition normalizeSQLFragment :: "string \<Rightarrow> string" where
  "normalizeSQLFragment s = CanonicalizeSQLExpr s"

definition sort_direction :: "string \<Rightarrow> string" where
  "sort_direction s = (let u = ToUpper (TrimSpace s) in if u = [] then ''ASC'' else u)"

definition index_column_equal :: "IndexColumn \<Rightarrow> IndexColumn \<Rightarrow> bool" where
  "index_column_equal a b =
     (if ic_Column a \<noteq> ic_Column b \<or> sort_direction (ic_Sort a) \<noteq> sort_direction (ic_Sort b) then False
      else if ToUpper (TrimSpace (ic_Nulls a)) \<noteq> ToUpper (TrimSpace (ic_Nulls b)) then False
      else if ToLower (TrimSpace (ic_OpClass a)) \<noteq> ToLower (TrimSpace (ic_OpClass b)) then False
      else True)"

definition sortedColumnsEqual :: "IndexColumn list \<Rightarrow> IndexColumn list \<Rightarrow> bool" where
  "sortedColumnsEqual a b =
     (if length a \<noteq> length b then False
      else list_all (\<lambda>(x, y). index_column_equal x y) (zip a b))"

definition expressionsEqual :: "string list \<Rightarrow> string list \<Rightarrow> bool" where
  "expressionsEqual a b =
     (if length a \<noteq> length b then False
      else list_all (\<lambda>(x, y). normalizeSQLFragment x = normalizeSQLFragment y) (zip a b))"

definition Index_Equals :: "Index \<Rightarrow> Index \<Rightarrow> bool" where
  "Index_Equals idx other =
     (if ix_Name idx \<noteq> ix_Name other then False
      else if ix_IsUnique idx \<noteq> ix_IsUnique other then False
      else if normalizeIndexMethod (ix_Type idx) \<noteq> normalizeIndexMethod (ix_Type other) then False
      else if normalizeSQLFragment (ix_Where idx) \<noteq> normalizeSQLFragment (ix_Where other) then False
      else if ix_SortedColumns idx \<noteq> [] \<or> ix_SortedColumns other \<noteq> [] \<or>
              ix_Expressions idx \<noteq> [] \<or> ix_Expressions other \<noteq> [] then
        (if \<not> sortedColumnsEqual (ix_SortedColumns idx) (ix_SortedColumns other) then False
         else if \<not> expressionsEqual (ix_Expressions idx) (ix_Expressions other) then False
         else True)
      else if length (ix_Columns idx) \<noteq> length (ix_Columns other) then False
      else columns_found (ix_Columns idx) (ix_Columns other))"

definition IndexToPostgresqlSchemaIndex :: "Index \<Rightarrow> PostgresqlTableIndex" where
  "IndexToPostgresqlSchemaIndex index =
     \<lparr> pix_Columns = ix_Columns index, pix_Name = ix_Name index, pix_IsUnique = ix_IsUnique index,
       pix_Type = ix_Type index, pix_With = ix_With index, pix_Where = ix_Where index,
       pix_Expressions = ix_Expressions index,
       pix_SortedColumns =
         map (\<lambda>sc. \<lparr> pic_Column = ic_Column sc, pic_OpClass = ic_OpClass sc, pic_Sort = ic_Sort sc,
                     pic_Nulls = ic_Nulls sc \<rparr>) (ix_SortedColumns index) \<rparr>"

definition PostgresqlSchemaIndexToIndex :: "PostgresqlTableIndex \<Rightarrow> Index" where
  "PostgresqlSchemaIndexToIndex schemaIndex =
     (let index =
            \<lparr> ix_Columns = pix_Columns schemaIndex, ix_Name = pix_Name schemaIndex,
              ix_IsUnique = pix_IsUnique schemaIndex, ix_With = pix_With schemaIndex,
              ix_Type = pix_Type schemaIndex, ix_Where = pix_Where schemaIndex,
              ix_Expressions = pix_Expressions schemaIndex,
              ix_SortedColumns =
                map (\<lambda>sc. \<lparr> ic_Column = pic_Column sc, ic_OpClass = pic_OpClass sc,
                            ic_Sort = pic_Sort sc, ic_Nulls = pic_Nulls sc \<rparr>)
                  (pix_SortedColumns schemaIndex) \<rparr>
      in if ix_Columns index = [] \<and> ix_SortedColumns index \<noteq> []
         then index \<lparr> ix_Columns := map ic_Column (ix_SortedColumns index) \<rparr>
         else index)"

definition GeneratePostgresqlIndexName :: "string \<Rightarrow> PostgresqlTableIndex \<Rightarrow> string" where
  "GeneratePostgresqlIndexName tableName schemaIndex =
     capPostgresIdentifier
       (''idx_'' @ bareTableName tableName @ ''_'' @ Join (pix_Columns schemaIndex) ''_'')"

section \<open>Check constraints (checkconstraint.go)\<close>

record CheckConstraint =
  ck_Name :: string
  ck_Expression :: string

fun sanitize_loop :: "string \<Rightarrow> bool \<Rightarrow> string \<Rightarrow> string" where
  "sanitize_loop b prevUnderscore [] = b"
| "sanitize_loop b prevUnderscore (r # rs) =
     (if is_lower r \<or> is_digit r then sanitize_loop (b @ [r]) False rs
      else if \<not> prevUnderscore then sanitize_loop (b @ ''_'') True rs
      else sanitize_loop b prevUnderscore rs)"

definition sanitizeIdentFragment :: "string \<Rightarrow> string" where
  "sanitizeIdentFragment s =
     trim_while (\<lambda>c. c = CHR ''_'') (sanitize_loop [] False (ToLower s))"

definition GeneratePostgresqlCheckName :: "string \<Rightarrow> PostgresqlTableCheckConstraint \<Rightarrow> string" where
  "GeneratePostgresqlCheckName tableName c =
     (if pck_Name c \<noteq> [] then pck_Name c
      else capPostgresIdentifier
             (bareTableName tableName @ ''_'' @ sanitizeIdentFragment (pck_Expression c) @ ''_check''))"

section \<open>Exclusion constraints (exclusionconstraint.go)\<close>

record ExclusionConstraintItem =
  xi_Column :: string
  xi_Expression :: string
  xi_Operator :: string

definition xi_element :: "ExclusionConstraintItem \<Rightarrow> string" where
  "xi_element i = (if xi_Column i \<noteq> [] then xi_Column i else xi_Expression i)"

record ExclusionConstraint =
  xc_Name :: string
  xc_Using :: string
  xc_Items :: "ExclusionConstraintItem list"
  xc_Where :: string
  xc_With :: "(string \<times> string) list"

definition normalizeUsing :: "string \<Rightarrow> string" where
  "normalizeUsing us = (let m = ToLower (TrimSpace us) in if m = [] then ''gist'' else m)"

definition normalizeExclElement :: "string \<Rightarrow> string" where
  "normalizeExclElement s = CanonicalizeSQLExpr s"

definition exclusion_item_equal :: "ExclusionConstraintItem \<Rightarrow> ExclusionConstraintItem \<Rightarrow> bool" where
  "exclusion_item_equal a b =
     (if normalizeExclElement (xi_element a) \<noteq> normalizeExclElement (xi_element b) then False
      else if normalizeExclElement (xi_Operator a) \<noteq> normalizeExclElement (xi_Operator b) then False
      else True)"

definition ExclusionConstraint_Equals ::
  "ExclusionConstraint option \<Rightarrow> ExclusionConstraint option \<Rightarrow> bool" where
  "ExclusionConstraint_Equals e other =
     (case (e, other) of
        (None, None) \<Rightarrow> True
      | (Some e, Some other) \<Rightarrow>
          if xc_Name e \<noteq> [] \<and> xc_Name other \<noteq> [] \<and> xc_Name e \<noteq> xc_Name other then False
          else if normalizeUsing (xc_Using e) \<noteq> normalizeUsing (xc_Using other) then False
          else if normalizeExclElement (xc_Where e) \<noteq> normalizeExclElement (xc_Where other) then False
          else if length (xc_Items e) \<noteq> length (xc_Items other) then False
          else list_all (\<lambda>(a, b). exclusion_item_equal a b) (zip (xc_Items e) (xc_Items other))
      | _ \<Rightarrow> False)"

definition PostgresqlSchemaExclusionConstraintToExclusionConstraint ::
  "PostgresqlTableExclusionConstraint \<Rightarrow> ExclusionConstraint" where
  "PostgresqlSchemaExclusionConstraintToExclusionConstraint schemaExclusion =
     \<lparr> xc_Name = pxc_Name schemaExclusion, xc_Using = pxc_Using schemaExclusion,
       xc_Items =
         map (\<lambda>item. \<lparr> xi_Column = pxi_Column item, xi_Expression = pxi_Expression item,
                       xi_Operator = pxi_Operator item \<rparr>) (pxc_Items schemaExclusion),
       xc_Where = pxc_Where schemaExclusion, xc_With = pxc_With schemaExclusion \<rparr>"

definition GeneratePostgresqlExclusionConstraintName ::
  "string \<Rightarrow> PostgresqlTableExclusionConstraint \<Rightarrow> string" where
  "GeneratePostgresqlExclusionConstraintName tableName c =
     (if pxc_Name c \<noteq> [] then pxc_Name c
      else
        (let fragments =
               map (\<lambda>item. sanitizeIdentFragment
                      (if pxi_Column item = [] then pxi_Expression item else pxi_Column item))
                 (pxc_Items c)
         in capPostgresIdentifier (bareTableName tableName @ ''_'' @ Join fragments ''_'' @ ''_excl'')))"

section \<open>Row-level security (rls.go)\<close>

record RowLevelSecurity =
  rl_Enabled :: bool
  rl_Forced :: bool

record Policy =
  po_Name :: string
  po_Command :: string
  po_Permissive :: bool
  po_Roles :: "string list"
  po_Using :: "string option"
  po_WithCheck :: "string option"

definition normalizePolicyCommand :: "string \<Rightarrow> string" where
  "normalizePolicyCommand command =
     (let c = ToUpper (TrimSpace command) in if c = [] then ''ALL'' else c)"

definition normalizePolicyRoles :: "string list \<Rightarrow> string list" where
  "normalizePolicyRoles roles = (if roles = [] then [''public''] else sort roles)"

definition normalizePolicyExpr :: "string option \<Rightarrow> string" where
  "normalizePolicyExpr expr =
     (case expr of None \<Rightarrow> [] | Some e \<Rightarrow> Join (Fields (ToLower e)) '' '')"

definition rolesEqual :: "string list \<Rightarrow> string list \<Rightarrow> bool" where
  "rolesEqual a b =
     (let an = normalizePolicyRoles a; bn = normalizePolicyRoles b
      in if length an \<noteq> length bn then False
         else list_all (\<lambda>(x, y). x = y) (zip an bn))"

definition Policy_Equals :: "Policy option \<Rightarrow> Policy option \<Rightarrow> bool" where
  "Policy_Equals p other =
     (case (p, other) of
        (None, None) \<Rightarrow> True
      | (Some p, Some other) \<Rightarrow>
          if po_Name p \<noteq> po_Name other then False
          else if normalizePolicyCommand (po_Command p) \<noteq> normalizePolicyCommand (po_Command other)
          then False
          else if po_Permissive p \<noteq> po_Permissive other then False
          else if \<not> rolesEqual (po_Roles p) (po_Roles other) then False
          else if normalizePolicyExpr (po_Using p) \<noteq> normalizePolicyExpr (po_Using other) then False
          else if normalizePolicyExpr (po_WithCheck p) \<noteq> normalizePolicyExpr (po_WithCheck other)
          then False
          else True
      | _ \<Rightarrow> False)"

definition Policy_AttributesEqual :: "Policy option \<Rightarrow> Policy option \<Rightarrow> bool" where
  "Policy_AttributesEqual p other =
     (case (p, other) of
        (None, None) \<Rightarrow> True
      | (Some p, Some other) \<Rightarrow>
          if normalizePolicyCommand (po_Command p) \<noteq> normalizePolicyCommand (po_Command other)
          then False
          else if po_Permissive p \<noteq> po_Permissive other then False
          else rolesEqual (po_Roles p) (po_Roles other)
      | _ \<Rightarrow> False)"

definition PostgresqlSchemaPolicyToPolicy :: "PostgresqlTablePolicy \<Rightarrow> Policy" where
  "PostgresqlSchemaPolicyToPolicy schemaPolicy =
     (let permissive =
            (if EqualFold (TrimSpace (ppo_Permissive schemaPolicy)) ''RESTRICTIVE'' then False else True)
      in \<lparr> po_Name = ppo_Name schemaPolicy,
           po_Command = normalizePolicyCommand (ppo_Command schemaPolicy),
           po_Permissive = permissive,
           po_Roles = normalizePolicyRoles (ppo_Roles schemaPolicy),
           po_Using = ppo_Using schemaPolicy,
           po_WithCheck = ppo_WithCheck schemaPolicy \<rparr>)"

definition PolicyCommandFromCatalogChar :: "string \<Rightarrow> string" where
  "PolicyCommandFromCatalogChar polcmd =
     (if polcmd = ''*'' then ''ALL''
      else if polcmd = ''r'' then ''SELECT''
      else if polcmd = ''a'' then ''INSERT''
      else if polcmd = ''w'' then ''UPDATE''
      else if polcmd = ''d'' then ''DELETE''
      else ''ALL'')"

section \<open>Tables and specifications (table.go, spec.go)\<close>

record Table =
  tb_Name :: string
  tb_Schema :: string
  tb_Charset :: string
  tb_Collation :: string

record GroupKind =
  gk_Group :: string
  gk_Kind :: string

record Spec =
  sp_SourceFilename :: string
  sp_Spec :: string

text \<open>
  The deserializer of the Kubernetes API machinery is a parameter: \<open>decode\<close> gives the group and
  kind of a manifest, or an error.
\<close>

definition Specs_Less :: "(string \<Rightarrow> GroupKind result) \<Rightarrow> Spec \<Rightarrow> Spec \<Rightarrow> bool" where
  "Specs_Less decode si sj =
     (case decode (sp_Spec si) of
        Inl _ \<Rightarrow> sp_SourceFilename si < sp_SourceFilename sj
      | Inr gvkI \<Rightarrow>
          (case decode (sp_Spec sj) of
             Inl _ \<Rightarrow> sp_SourceFilename si < sp_SourceFilename sj
           | Inr gvkJ \<Rightarrow>
               if gk_Group gvkI = ''schemas.schemahero.io'' \<and> gk_Group gvkJ = ''schemas.schemahero.io''
               then
                 (if gk_Kind gvkI = gk_Kind gvkJ then sp_SourceFilename si < sp_SourceFilename sj
                  else if gk_Kind gvkI = ''Table'' then True
                  else if gk_Kind gvkJ = ''Table'' then False
                  else sp_SourceFilename si < sp_SourceFilename sj)
               else sp_SourceFilename si < sp_SourceFilename sj))"

section \<open>Identifiers and generated names\<close>

lemma capPostgresIdentifier_long:
  "maxPostgresIdentifierLen < length name \<Longrightarrow>
   capPostgresIdentifier name = take 54 name @ ''_'' @ take 8 (sha256_hex name)"
  by (simp add: capPostgresIdentifier_def Let_def maxPostgresIdentifierLen_def
      identifierHashSuffixLen_def length_sha256_hex)

lemma capPostgresIdentifier_short [simp]:
  "length name \<le> maxPostgresIdentifierLen \<Longrightarrow> capPostgresIdentifier name = name"
  by (simp add: capPostgresIdentifier_def)

lemma length_capPostgresIdentifier [simp]:
  "length (capPostgresIdentifier name) = min (length name) maxPostgresIdentifierLen"
  by (cases "length name \<le> maxPostgresIdentifierLen")
     (simp_all add: capPostgresIdentifier_long length_sha256_hex, simp_all add: maxPostgresIdentifierLen_def)

lemma set_capPostgresIdentifier:
  assumes "c \<in> set (capPostgresIdentifier name)"
  shows "c \<in> set name \<or> c = CHR ''_'' \<or> is_digit c \<or> is_lower c"
proof (cases "length name \<le> maxPostgresIdentifierLen")
  case False
  then have "c \<in> set (take 54 name) \<or> c = CHR ''_'' \<or> c \<in> set (take 8 (sha256_hex name))"
    using assms by (auto simp: capPostgresIdentifier_long)
  then show ?thesis using sha256_hex_alphabet [of c name] by (auto dest: in_set_takeD)
qed (use assms in simp)

lemma bareTableName_id [simp]: "CHR ''.'' \<notin> set t \<Longrightarrow> bareTableName t = t"
  using LastIndexByte_None [of t "CHR ''.''"] by (simp add: bareTableName_def del: LastIndexByte_None)

lemma bareTableName_qualified [simp]: "CHR ''.'' \<notin> set t \<Longrightarrow> bareTableName (s @ CHR ''.'' # t) = t"
  by (simp add: bareTableName_def)

lemma bareTableName_no_dot [simp]: "CHR ''.'' \<notin> set (bareTableName t)"
proof (cases "CHR ''.'' \<in> set t")
  case True
  then obtain a b where "t = a @ CHR ''.'' # b" "CHR ''.'' \<notin> set b"
    by (meson split_list_last)
  then show ?thesis by simp
qed simp

text \<open>The bytes of a fragment that is safe inside an identifier.\<close>

definition ident_byte :: "char \<Rightarrow> bool" where
  "ident_byte c \<longleftrightarrow> is_lower c \<or> is_digit c \<or> c = CHR ''_''"

definition ident_fragment :: "string \<Rightarrow> bool" where
  "ident_fragment s \<longleftrightarrow>
     list_all ident_byte s \<and> successively (\<lambda>x y. x = CHR ''_'' \<longrightarrow> y \<noteq> CHR ''_'') s \<and>
     (s = [] \<or> (hd s \<noteq> CHR ''_'' \<and> last s \<noteq> CHR ''_''))"

lemma not_lower_underscore [simp]: "\<not> is_lower (CHR ''_'')" "\<not> is_digit (CHR ''_'')"
  by code_simp+

lemma sanitize_loop_bytes:
  "list_all ident_byte b \<Longrightarrow> list_all ident_byte (sanitize_loop b p s)"
  by (induction b p s rule: sanitize_loop.induct) (auto simp: ident_byte_def)

lemma sanitize_loop_single:
  assumes "successively (\<lambda>x y. x = CHR ''_'' \<longrightarrow> y \<noteq> CHR ''_'') b"
    and "p \<longleftrightarrow> b \<noteq> [] \<and> last b = CHR ''_''"
  shows "successively (\<lambda>x y. x = CHR ''_'' \<longrightarrow> y \<noteq> CHR ''_'') (sanitize_loop b p s)"
  using assms
proof (induction b p s rule: sanitize_loop.induct)
  case (2 b p r rs)
  have "r \<noteq> CHR ''_''" if "is_lower r \<or> is_digit r" using that by auto
  with 2 show ?case by (auto simp: successively_append_iff)
qed simp

lemma list_all_trim_while: "list_all P s \<Longrightarrow> list_all P (trim_while Q s)"
  by (auto simp: list_all_iff dest: set_trim_while)

lemma ident_fragment_sanitize: "ident_fragment (sanitizeIdentFragment s)"
proof -
  let ?l = "sanitize_loop [] False (ToLower s)"
  have "list_all ident_byte ?l" by (simp add: sanitize_loop_bytes)
  moreover have "successively (\<lambda>x y. x = CHR ''_'' \<longrightarrow> y \<noteq> CHR ''_'') ?l"
    by (simp add: sanitize_loop_single)
  ultimately show ?thesis
    using trim_while_hd [of "\<lambda>c. c = CHR ''_''" ?l] trim_while_last [of "\<lambda>c. c = CHR ''_''" ?l]
    by (auto simp: ident_fragment_def sanitizeIdentFragment_def intro: list_all_trim_while successively_trim)
qed

lemma sanitize_loop_id:
  "list_all ident_byte s \<Longrightarrow> successively (\<lambda>x y. x = CHR ''_'' \<longrightarrow> y \<noteq> CHR ''_'') s \<Longrightarrow>
   (p \<Longrightarrow> s = [] \<or> hd s \<noteq> CHR ''_'') \<Longrightarrow> sanitize_loop b p s = b @ s"
proof (induction s arbitrary: b p)
  case (Cons c s)
  have IH: "sanitize_loop (b @ [c]) (c = CHR ''_'') s = (b @ [c]) @ s"
    by (rule Cons.IH) (use Cons.prems in \<open>auto simp: successively_Cons\<close>)
  show ?case
  proof (cases "c = CHR ''_''")
    case True
    with Cons.prems(3) IH show ?thesis by auto
  next
    case False
    with Cons.prems(1) IH show ?thesis by (auto simp: ident_byte_def)
  qed
qed simp

lemma is_lower_not_upper: "is_lower c \<Longrightarrow> \<not> is_upper c" "is_digit c \<Longrightarrow> \<not> is_upper c"
  by (auto simp: is_lower_def is_upper_def is_digit_def)

lemma ident_byte_not_upper: "ident_byte c \<Longrightarrow> \<not> is_upper c"
proof -
  have "\<not> is_upper (CHR ''_'')" by code_simp
  then show "ident_byte c \<Longrightarrow> \<not> is_upper c" using is_lower_not_upper by (auto simp: ident_byte_def)
qed

lemma sanitizeIdentFragment_id: "ident_fragment s \<Longrightarrow> sanitizeIdentFragment s = s"
proof -
  assume s: "ident_fragment s"
  then have "ToLower s = s"
    by (auto simp: ident_fragment_def list_all_iff ident_byte_not_upper intro!: ToLower_id)
  moreover have "sanitize_loop [] False s = s"
    using s sanitize_loop_id [of s False "[]"] by (simp add: ident_fragment_def)
  moreover have "trim_while (\<lambda>c. c = CHR ''_'') s = s"
    using s by (auto simp: ident_fragment_def intro: trim_while_id)
  ultimately show ?thesis by (simp add: sanitizeIdentFragment_def)
qed

lemma ident_byte_not_dot: "\<not> ident_byte (CHR ''.'')" by code_simp

lemma sanitizeIdentFragment_no_dot [simp]: "CHR ''.'' \<notin> set (sanitizeIdentFragment s)"
  using ident_fragment_sanitize [of s] ident_byte_not_dot
  by (auto simp: ident_fragment_def list_all_iff)

lemma no_dot_Join:
  "list_all (\<lambda>x. CHR ''.'' \<notin> set x) xs \<Longrightarrow> CHR ''.'' \<notin> set (Join xs ''_'')"
  using set_Join [of xs "''_''"] by (auto simp: list_all_iff)

lemma no_dot_cap: "CHR ''.'' \<notin> set s \<Longrightarrow> CHR ''.'' \<notin> set (capPostgresIdentifier s)"
proof
  assume "CHR ''.'' \<notin> set s" "CHR ''.'' \<in> set (capPostgresIdentifier s)"
  then have "ident_byte (CHR ''.'')"
    using set_capPostgresIdentifier [of "CHR ''.''" s] by (auto simp: ident_byte_def)
  then show False using ident_byte_not_dot by simp
qed

section \<open>Comparisons\<close>

lemma pointwise_eq:
  "length xs = length ys \<Longrightarrow> list_all (\<lambda>(x, y). f x = g y) (zip xs ys) \<longleftrightarrow> map f xs = map g ys"
  by (induction xs ys rule: list_induct2) auto

lemma pointwise_all2:
  "(if length a \<noteq> length b then False else list_all (\<lambda>(x, y). P x y) (zip a b)) = list_all2 P a b"
  by (auto simp: list_all2_iff list_all_iff)

lemma KeyConstraint_Equals_iff:
  "KeyConstraint_Equals (Some k) (Some l) \<longleftrightarrow>
     kc_IsPrimary k = kc_IsPrimary l \<and> kc_Columns k = kc_Columns l"
  using pointwise_eq [of "kc_Columns k" "kc_Columns l" "\<lambda>x. x" "\<lambda>x. x"]
  by (auto simp: KeyConstraint_Equals_def)

lemma KeyConstraint_Equals_None [simp]:
  "KeyConstraint_Equals None None" "\<not> KeyConstraint_Equals None (Some k)"
  "\<not> KeyConstraint_Equals (Some k) None"
  by (simp_all add: KeyConstraint_Equals_def)

lemma columns_found_iff: "columns_found cols other \<longleftrightarrow> set other \<subseteq> set cols"
  by (auto simp: columns_found_def list_all_iff list_ex_iff)

lemma columns_found_perm:
  assumes "distinct other" "length cols = length other"
  shows "columns_found cols other \<longleftrightarrow> mset cols = mset other"
proof
  assume "columns_found cols other"
  then have sub: "set other \<subseteq> set cols" by (simp add: columns_found_iff)
  have "card (set other) = length cols" using assms distinct_card by metis
  then have "card (set cols) \<le> card (set other)" using card_length by metis
  then have eq: "set other = set cols" using sub by (simp add: card_subset_eq le_antisym card_mono)
  then have "distinct cols" using assms card_distinct distinct_card by metis
  with assms eq show "mset cols = mset other" by (simp add: set_eq_iff_mset_eq_distinct)
next
  assume "mset cols = mset other"
  then show "columns_found cols other" by (metis columns_found_iff mset_eq_setD subset_refl)
qed

lemma onDeleteEquals_iff: "onDeleteEquals a b \<longleftrightarrow> normalizeOnDelete a = normalizeOnDelete b"
proof -
  have e: "\<exists>u. normalizeOnDelete s = ToUpper u" for s
  proof (cases "normalizeOnDelete s = []")
    case True
    then show ?thesis by (intro exI [of _ "[]"]) (simp add: ToUpper_def)
  qed (auto simp: normalizeOnDelete_def Let_def split: if_splits)
  obtain u v where "normalizeOnDelete a = ToUpper u" "normalizeOnDelete b = ToUpper v"
    using e by metis
  then show ?thesis by (simp add: onDeleteEquals_def EqualFold_def ToUpper_eq_iff)
qed

lemma sort_eq_iff: "sort xs = sort ys \<longleftrightarrow> mset xs = mset (ys :: 'a :: linorder list)"
proof
  assume "sort xs = sort ys"
  then have "mset (sort xs) = mset (sort ys)" by simp
  then show "mset xs = mset ys" by simp
next
  assume "mset xs = mset ys"
  then show "sort xs = sort ys" by (intro properties_for_sort) simp_all
qed

lemma rolesEqual_iff:
  "rolesEqual a b \<longleftrightarrow>
     mset (if a = [] then [''public''] else a) = mset (if b = [] then [''public''] else b)"
proof -
  have "rolesEqual a b \<longleftrightarrow> normalizePolicyRoles a = normalizePolicyRoles b"
    using pointwise_eq [of "normalizePolicyRoles a" "normalizePolicyRoles b" "\<lambda>x. x" "\<lambda>x. x"]
    by (auto simp: rolesEqual_def Let_def)
  moreover have "normalizePolicyRoles r = sort (if r = [] then [''public''] else r)" for r
    by (simp add: normalizePolicyRoles_def)
  ultimately show ?thesis by (simp only: sort_eq_iff)
qed

lemma sortedColumnsEqual_all2: "sortedColumnsEqual = list_all2 index_column_equal"
  by (intro ext) (simp only: sortedColumnsEqual_def pointwise_all2)

lemma expressionsEqual_iff:
  "expressionsEqual a b \<longleftrightarrow> map normalizeSQLFragment a = map normalizeSQLFragment b"
  using pointwise_eq [of a b normalizeSQLFragment normalizeSQLFragment] 
  by (auto simp: expressionsEqual_def dest: map_eq_imp_length_eq)

text \<open>The attributes an index column is compared on.\<close>

definition index_column_key :: "IndexColumn \<Rightarrow> string \<times> string \<times> string \<times> string" where
  "index_column_key c =
     (ic_Column c, sort_direction (ic_Sort c), ToUpper (TrimSpace (ic_Nulls c)),
      ToLower (TrimSpace (ic_OpClass c)))"

lemma sortedColumnsEqual_iff:
  "sortedColumnsEqual a b \<longleftrightarrow> map index_column_key a = map index_column_key b"
proof -
  have "index_column_equal x y \<longleftrightarrow> index_column_key x = index_column_key y" for x y
    by (auto simp: index_column_equal_def index_column_key_def)
  then have "index_column_equal = (\<lambda>x y. index_column_key x = index_column_key y)" by blast
  then show ?thesis
    by (simp add: sortedColumnsEqual_all2 list_all2_map1 list_all2_map2 flip: list.rel_eq)
qed

text \<open>
  An index is compared through a key: its name, uniqueness, access method and predicate in
  normal form, and its elements, which are the ordered columns and expressions when there are
  any, and the multiset of plain columns otherwise.
\<close>

definition index_plain :: "Index \<Rightarrow> bool" where
  "index_plain i \<longleftrightarrow> ix_SortedColumns i = [] \<and> ix_Expressions i = []"

definition index_key :: "Index \<Rightarrow> string \<times> bool \<times> string \<times> string" where
  "index_key i =
     (ix_Name i, ix_IsUnique i, normalizeIndexMethod (ix_Type i), normalizeSQLFragment (ix_Where i))"

definition index_elements ::
  "Index \<Rightarrow> string multiset + (string \<times> string \<times> string \<times> string) list \<times> string list" where
  "index_elements i =
     (if index_plain i then Inl (mset (ix_Columns i))
      else Inr (map index_column_key (ix_SortedColumns i), map normalizeSQLFragment (ix_Expressions i)))"

lemma Index_Equals_iff:
  assumes "distinct (ix_Columns other)"
  shows "Index_Equals idx other \<longleftrightarrow> index_key idx = index_key other \<and> index_elements idx = index_elements other"
proof (cases "index_plain idx \<and> index_plain other")
  case True
  have "length (ix_Columns idx) = length (ix_Columns other) \<and>
      columns_found (ix_Columns idx) (ix_Columns other) \<longleftrightarrow>
      mset (ix_Columns idx) = mset (ix_Columns other)"
    using columns_found_perm [OF assms] mset_eq_length by blast
  with True show ?thesis
    by (auto simp: Index_Equals_def index_key_def index_elements_def index_plain_def)
next
  case False
  then show ?thesis
    by (auto simp: Index_Equals_def index_key_def index_elements_def index_plain_def
        sortedColumnsEqual_iff expressionsEqual_iff)
qed

lemma Index_Equals_refl [simp]: "Index_Equals i i"
  by (auto simp: Index_Equals_def sortedColumnsEqual_iff expressionsEqual_iff columns_found_iff)

lemma ForeignKey_Equals_refl [simp]: "ForeignKey_Equals f f"
  by (auto simp: ForeignKey_Equals_def columns_found_iff onDeleteEquals_iff)

lemma ForeignKey_Equals_iff:
  assumes "distinct (fk_ChildColumns g)" "distinct (fk_ParentColumns g)"
  shows "ForeignKey_Equals f g \<longleftrightarrow>
     (fk_Name f = [] \<or> fk_Name g = [] \<or> fk_Name f = fk_Name g) \<and>
     fk_ParentTable f = fk_ParentTable g \<and>
     normalizeOnDelete (fk_OnDelete f) = normalizeOnDelete (fk_OnDelete g) \<and>
     mset (fk_ChildColumns f) = mset (fk_ChildColumns g) \<and>
     mset (fk_ParentColumns f) = mset (fk_ParentColumns g)"
  using columns_found_perm [OF assms(1), of "fk_ChildColumns f"]
    columns_found_perm [OF assms(2), of "fk_ParentColumns f"]
  by (auto simp: ForeignKey_Equals_def onDeleteEquals_iff dest: mset_eq_length)

definition exclusion_item_key :: "ExclusionConstraintItem \<Rightarrow> string \<times> string" where
  "exclusion_item_key i = (normalizeExclElement (xi_element i), normalizeExclElement (xi_Operator i))"

lemma ExclusionConstraint_Equals_iff:
  "ExclusionConstraint_Equals (Some e) (Some f) \<longleftrightarrow>
     (xc_Name e = [] \<or> xc_Name f = [] \<or> xc_Name e = xc_Name f) \<and>
     normalizeUsing (xc_Using e) = normalizeUsing (xc_Using f) \<and>
     normalizeExclElement (xc_Where e) = normalizeExclElement (xc_Where f) \<and>
     map exclusion_item_key (xc_Items e) = map exclusion_item_key (xc_Items f)"
proof -
  have "exclusion_item_equal a b \<longleftrightarrow> exclusion_item_key a = exclusion_item_key b" for a b
    by (auto simp: exclusion_item_equal_def exclusion_item_key_def)
  then have "list_all (\<lambda>(a, b). exclusion_item_equal a b) (zip (xc_Items e) (xc_Items f)) \<longleftrightarrow>
      map exclusion_item_key (xc_Items e) = map exclusion_item_key (xc_Items f)"
    if "length (xc_Items e) = length (xc_Items f)"
    using pointwise_eq [OF that, of exclusion_item_key exclusion_item_key] by simp
  then show ?thesis
    by (auto simp: ExclusionConstraint_Equals_def dest: map_eq_imp_length_eq)
qed

definition policy_attributes :: "Policy \<Rightarrow> string \<times> bool \<times> string multiset" where
  "policy_attributes p =
     (normalizePolicyCommand (po_Command p), po_Permissive p,
      mset (if po_Roles p = [] then [''public''] else po_Roles p))"

lemma Policy_AttributesEqual_iff:
  "Policy_AttributesEqual (Some p) (Some q) \<longleftrightarrow> policy_attributes p = policy_attributes q"
  by (auto simp: Policy_AttributesEqual_def policy_attributes_def rolesEqual_iff)

lemma Policy_Equals_iff:
  "Policy_Equals (Some p) (Some q) \<longleftrightarrow>
     po_Name p = po_Name q \<and> policy_attributes p = policy_attributes q \<and>
     normalizePolicyExpr (po_Using p) = normalizePolicyExpr (po_Using q) \<and>
     normalizePolicyExpr (po_WithCheck p) = normalizePolicyExpr (po_WithCheck q)"
  by (auto simp: Policy_Equals_def policy_attributes_def rolesEqual_iff)

section \<open>Comparisons that are equality of a key\<close>

locale keyed_comparison =
  fixes same :: "'a \<Rightarrow> 'a \<Rightarrow> bool" and key :: "'a \<Rightarrow> 'b"
  assumes same_iff: "same x y \<longleftrightarrow> key x = key y"
begin

lemma same_refl: "same x x"
  by (simp add: same_iff)

lemma same_sym: "same x y \<Longrightarrow> same y x"
  by (simp add: same_iff)

lemma same_trans: "same x y \<Longrightarrow> same y z \<Longrightarrow> same x z"
  by (simp add: same_iff)

lemma same_equivp: "equivp same"
  by (intro equivpI reflpI sympI transpI) (auto simp: same_iff)

end

interpretation bools: keyed_comparison BoolsEqual "\<lambda>b. b = Some True"
  by unfold_locales (auto simp: BoolsEqual_def split: option.splits)

interpretation keys: keyed_comparison KeyConstraint_Equals
  "map_option (\<lambda>k. (kc_IsPrimary k, kc_Columns k))"
proof unfold_locales
  show "KeyConstraint_Equals x y \<longleftrightarrow>
      map_option (\<lambda>k. (kc_IsPrimary k, kc_Columns k)) x = map_option (\<lambda>k. (kc_IsPrimary k, kc_Columns k)) y" for x y
    by (cases x; cases y) (simp_all add: KeyConstraint_Equals_iff)
qed

interpretation roles: keyed_comparison rolesEqual
  "\<lambda>r. mset (if r = [] then [''public''] else r)"
  by unfold_locales (rule rolesEqual_iff)

interpretation sorted_columns: keyed_comparison sortedColumnsEqual "map index_column_key"
  by unfold_locales (rule sortedColumnsEqual_iff)

interpretation expressions: keyed_comparison expressionsEqual "map normalizeSQLFragment"
  by unfold_locales (rule expressionsEqual_iff)

interpretation policy_attrs: keyed_comparison Policy_AttributesEqual "map_option policy_attributes"
proof unfold_locales
  show "Policy_AttributesEqual x y \<longleftrightarrow> map_option policy_attributes x = map_option policy_attributes y" for x y
    by (cases x; cases y) (simp_all add: Policy_AttributesEqual_iff, simp_all add: Policy_AttributesEqual_def)
qed

interpretation policies: keyed_comparison Policy_Equals
  "map_option (\<lambda>p. (po_Name p, policy_attributes p, normalizePolicyExpr (po_Using p),
                    normalizePolicyExpr (po_WithCheck p)))"
proof unfold_locales
  show "Policy_Equals x y \<longleftrightarrow>
      map_option (\<lambda>p. (po_Name p, policy_attributes p, normalizePolicyExpr (po_Using p),
                    normalizePolicyExpr (po_WithCheck p))) x =
      map_option (\<lambda>p. (po_Name p, policy_attributes p, normalizePolicyExpr (po_Using p),
                    normalizePolicyExpr (po_WithCheck p))) y" for x y
    by (cases x; cases y) (simp_all add: Policy_Equals_iff, simp_all add: Policy_Equals_def)
qed

subsection \<open>Rebuilding a record from its fields\<close>

lemma map_record_id [simp]:
  "map (\<lambda>x. \<lparr> ic_Column = ic_Column x, ic_OpClass = ic_OpClass x, ic_Sort = ic_Sort x,
             ic_Nulls = ic_Nulls x \<rparr>) xs = xs"
  "map (\<lambda>x. \<lparr> pic_Column = pic_Column x, pic_OpClass = pic_OpClass x, pic_Sort = pic_Sort x,
             pic_Nulls = pic_Nulls x \<rparr>) ys = ys"
  by (induction xs, simp_all) (induction ys, simp_all)

section \<open>Properties\<close>


text \<open>The name of a foreign key or of a key can be longer.\<close>

lemma generated_key_names_not_capped:
  "length (GeneratePostgresqlFKName (replicate 60 (CHR ''t'')) \<lparr> pfk_Columns = [''org''],
      pfk_References = \<lparr> pfr_Table = ''orgs'', pfr_Columns = [''id''] \<rparr>, pfk_OnDelete = [], pfk_Name = [] \<rparr>) = 69"
  "length (KeyConstraint_GenerateName \<lparr> kc_Name = [], kc_Columns = [''id''], kc_IsPrimary = True \<rparr> (replicate 60 (CHR ''t''))) = 65"
  by code_simp+


text \<open>
  Names derived from a schema-qualified table never contain a dot, whatever the check
  expression or exclusion elements are, and for keys, foreign keys and indexes as soon as no
  column name contains one; the capped generators also respect the length limit.
\<close>

theorem generated_names_unqualified:
  assumes names: "pck_Name c = []" "pxc_Name x = []" "kc_Name k = []" "pfk_Name f = []"
    and cols: "list_all (\<lambda>s. CHR ''.'' \<notin> set s) (kc_Columns k @ pfk_Columns f @ pix_Columns i)"
  shows "list_all (\<lambda>s. CHR ''.'' \<notin> set s)
      [GeneratePostgresqlCheckName t c, GeneratePostgresqlExclusionConstraintName t x,
       KeyConstraint_GenerateName k t, GeneratePostgresqlFKName t f, GeneratePostgresqlIndexName t i] \<and>
    list_all (\<lambda>s. length s \<le> 63)
      [GeneratePostgresqlCheckName t c, GeneratePostgresqlExclusionConstraintName t x,
       GeneratePostgresqlIndexName t i]"
proof -
  have "CHR ''.'' \<notin> set (Join (kc_Columns k) ''_'')" "CHR ''.'' \<notin> set (Join (pfk_Columns f) ''_'')"
    "CHR ''.'' \<notin> set (Join (pix_Columns i) ''_'')"
    using cols by (simp_all add: no_dot_Join)
  moreover have "CHR ''.'' \<notin> set (Join (map (\<lambda>item. sanitizeIdentFragment
      (if pxi_Column item = [] then pxi_Expression item else pxi_Column item)) (pxc_Items x)) ''_'')"
    by (rule no_dot_Join) (auto simp: list_all_iff)
  ultimately show ?thesis
    using names
    by (simp add: GeneratePostgresqlCheckName_def GeneratePostgresqlExclusionConstraintName_def
        KeyConstraint_GenerateName_def GeneratePostgresqlFKName_def GeneratePostgresqlIndexName_def
        no_dot_cap maxPostgresIdentifierLen_def Let_def)
qed

theorem generated_names_unqualified_witness:
  "CHR ''.'' \<notin> set (GeneratePostgresqlCheckName ''app.users'' \<lparr> pck_Name = [], pck_Expression = ''age >= 1.5'' \<rparr>)"
  using generated_names_unqualified [of "\<lparr> pck_Name = [], pck_Expression = ''age >= 1.5'' \<rparr>"
      "\<lparr> pxc_Name = [], pxc_Using = [], pxc_Items = [], pxc_Where = [], pxc_With = [] \<rparr>"
      "\<lparr> kc_Name = [], kc_Columns = [''id''], kc_IsPrimary = True \<rparr>"
      "\<lparr> pfk_Columns = [''id''], pfk_References = \<lparr> pfr_Table = ''t'', pfr_Columns = [''id''] \<rparr>,
         pfk_OnDelete = [], pfk_Name = [] \<rparr>"
      "\<lparr> pix_Columns = [''id''], pix_Name = [], pix_IsUnique = False, pix_Type = [], pix_With = [],
         pix_Where = [], pix_Expressions = [], pix_SortedColumns = [] \<rparr>" "''app.users''"]
  by simp

text \<open>
  An identifier fragment made from an arbitrary expression holds only lower-case letters,
  digits and single underscores, none at either end; such a fragment is left as it is, so the
  generated name does not drift when it is sanitized again.
\<close>

theorem sanitizeIdentFragment_ok:
  "ident_fragment (sanitizeIdentFragment s) \<and>
   sanitizeIdentFragment (sanitizeIdentFragment s) = sanitizeIdentFragment s"
  by (simp add: ident_fragment_sanitize sanitizeIdentFragment_id)

text \<open>
  The comparisons that decide whether a key, the roles of a policy, a policy, its structural
  attributes, an index's ordered columns or expressions changed are equivalence relations, and
  equal policies have equal attributes: a policy found unchanged is never recreated.
\<close>

theorem comparisons_equivalence:
  "equivp BoolsEqual \<and> equivp KeyConstraint_Equals \<and> equivp rolesEqual \<and> equivp sortedColumnsEqual \<and>
   equivp expressionsEqual \<and> equivp Policy_AttributesEqual \<and> equivp Policy_Equals \<and>
   (\<forall>p q. Policy_Equals p q \<longrightarrow> Policy_AttributesEqual p q)"
proof -
  have "Policy_AttributesEqual p q" if "Policy_Equals p q" for p q
    using that by (cases p; cases q) (auto simp: policies.same_iff policy_attrs.same_iff)
  then show ?thesis
    using bools.same_equivp keys.same_equivp roles.same_equivp sorted_columns.same_equivp
      expressions.same_equivp policy_attrs.same_equivp policies.same_equivp by blast
qed

theorem comparisons_equivalence_witness:
  "Policy_AttributesEqual
     (Some (PostgresqlSchemaPolicyToPolicy \<lparr> ppo_Name = ''p'', ppo_Command = [], ppo_Permissive = [],
        ppo_Roles = [], ppo_Using = Some ''A  = 1'', ppo_WithCheck = None \<rparr>))
     (Some \<lparr> po_Name = ''p'', po_Command = ''ALL'', po_Permissive = True, po_Roles = [''public''],
        po_Using = Some ''a = 1'', po_WithCheck = None \<rparr>)"
proof -
  have "Policy_Equals
     (Some (PostgresqlSchemaPolicyToPolicy \<lparr> ppo_Name = ''p'', ppo_Command = [], ppo_Permissive = [],
        ppo_Roles = [], ppo_Using = Some ''A  = 1'', ppo_WithCheck = None \<rparr>))
     (Some \<lparr> po_Name = ''p'', po_Command = ''ALL'', po_Permissive = True, po_Roles = [''public''],
        po_Using = Some ''a = 1'', po_WithCheck = None \<rparr>)" by code_simp
  then show ?thesis using comparisons_equivalence by blast
qed

text \<open>
  Two foreign keys with distinct columns are equal exactly when their names do not conflict,
  they reference the same table with the same action up to case and the \<^verbatim>\<open>NO ACTION\<close> default, and
  their child and their parent columns are the same up to order.
\<close>

theorem ForeignKey_Equals_correct:
  assumes "distinct (fk_ChildColumns g)" "distinct (fk_ParentColumns g)"
  shows "ForeignKey_Equals f g \<longleftrightarrow>
     (fk_Name f = [] \<or> fk_Name g = [] \<or> fk_Name f = fk_Name g) \<and>
     fk_ParentTable f = fk_ParentTable g \<and>
     normalizeOnDelete (fk_OnDelete f) = normalizeOnDelete (fk_OnDelete g) \<and>
     mset (fk_ChildColumns f) = mset (fk_ChildColumns g) \<and>
     mset (fk_ParentColumns f) = mset (fk_ParentColumns g)"
  using assms by (rule ForeignKey_Equals_iff)

theorem ForeignKey_Equals_correct_witness:
  "ForeignKey_Equals
     \<lparr> fk_ChildColumns = [''a'', ''b''], fk_ParentTable = ''t'', fk_ParentColumns = [''x'', ''y''],
       fk_Name = [], fk_OnDelete = '' no action '' \<rparr>
     \<lparr> fk_ChildColumns = [''b'', ''a''], fk_ParentTable = ''t'', fk_ParentColumns = [''x'', ''y''],
       fk_Name = ''t_fkey'', fk_OnDelete = [] \<rparr>"
proof -
  have "normalizeOnDelete '' no action '' = normalizeOnDelete []" by code_simp
  then show ?thesis
    by (subst ForeignKey_Equals_correct) simp_all
qed

text \<open>
  Two indexes with distinct plain columns are equal exactly when their name, uniqueness,
  access method (with \<^verbatim>\<open>btree\<close> as the default) and predicate agree and their elements do:
  positionally when either has ordered columns or expressions, as a set of columns otherwise.
\<close>

theorem Index_Equals_correct:
  assumes "distinct (ix_Columns other)"
  shows "Index_Equals idx other \<longleftrightarrow>
     index_key idx = index_key other \<and> index_elements idx = index_elements other"
  using assms by (rule Index_Equals_iff)

theorem Index_Equals_correct_witness:
  "Index_Equals
     \<lparr> ix_Columns = [''b'', ''a''], ix_Name = ''i'', ix_IsUnique = True, ix_With = [], ix_Type = [],
       ix_Where = ''(A  > 1)'', ix_Expressions = [], ix_SortedColumns = [] \<rparr>
     \<lparr> ix_Columns = [''a'', ''b''], ix_Name = ''i'', ix_IsUnique = True, ix_With = [], ix_Type = ''BTREE'',
       ix_Where = ''a > 1'', ix_Expressions = [], ix_SortedColumns = [] \<rparr>"
proof -
  have "normalizeSQLFragment ''(A  > 1)'' = normalizeSQLFragment ''a > 1''"
    "normalizeIndexMethod [] = normalizeIndexMethod ''BTREE''" by code_simp+
  then show ?thesis
    by (subst Index_Equals_correct) (simp_all add: index_key_def index_elements_def index_plain_def)
qed

text \<open>
  The conversions between a resource and its catalog form lose nothing: a foreign key
  survives the round trip either way, and an index that lists its columns does too.
\<close>

theorem schema_conversions_roundtrip:
  "PostgresqlSchemaForeignKeyToForeignKey (ForeignKeyToPostgresqlSchemaForeignKey f) = f \<and>
   ForeignKeyToPostgresqlSchemaForeignKey (PostgresqlSchemaForeignKeyToForeignKey sf) = sf \<and>
   (ix_Columns i \<noteq> [] \<or> ix_SortedColumns i = [] \<longrightarrow>
      PostgresqlSchemaIndexToIndex (IndexToPostgresqlSchemaIndex i) = i) \<and>
   IndexToPostgresqlSchemaIndex (PostgresqlSchemaIndexToIndex si) =
     (if pix_Columns si = [] then si \<lparr> pix_Columns := map pic_Column (pix_SortedColumns si) \<rparr> else si)"
  by (intro conjI)
     (simp_all add: PostgresqlSchemaForeignKeyToForeignKey_def ForeignKeyToPostgresqlSchemaForeignKey_def
      PostgresqlSchemaIndexToIndex_def IndexToPostgresqlSchemaIndex_def Let_def comp_def)

theorem schema_conversions_roundtrip_witness:
  "PostgresqlSchemaIndexToIndex (IndexToPostgresqlSchemaIndex
     \<lparr> ix_Columns = [''a''], ix_Name = ''i'', ix_IsUnique = True, ix_With = [], ix_Type = [],
       ix_Where = [], ix_Expressions = [],
       ix_SortedColumns = [\<lparr> ic_Column = ''a'', ic_OpClass = [], ic_Sort = ''DESC'', ic_Nulls = [] \<rparr>] \<rparr>) =
     \<lparr> ix_Columns = [''a''], ix_Name = ''i'', ix_IsUnique = True, ix_With = [], ix_Type = [],
       ix_Where = [], ix_Expressions = [],
       ix_SortedColumns = [\<lparr> ic_Column = ''a'', ic_OpClass = [], ic_Sort = ''DESC'', ic_Nulls = [] \<rparr>] \<rparr>"
  using schema_conversions_roundtrip by simp

text \<open>
  Among manifests of the program's own resource group the sort order is the lexicographic
  order on (not a table, file name): tables come before everything else, and within a class the
  file name decides, so sorting is well defined.
\<close>

lemma Specs_Less_tables_first:
  assumes "decode (sp_Spec a) = Inr ga" "gk_Group ga = ''schemas.schemahero.io''"
    and "decode (sp_Spec b) = Inr gb" "gk_Group gb = ''schemas.schemahero.io''"
  shows "Specs_Less decode a b \<longleftrightarrow>
     (gk_Kind ga = ''Table'' \<and> gk_Kind gb \<noteq> ''Table'') \<or>
     ((gk_Kind ga = ''Table'' \<longleftrightarrow> gk_Kind gb = ''Table'') \<and> sp_SourceFilename a < sp_SourceFilename b)"
  using assms by (auto simp: Specs_Less_def)

end
