(* ===== verification/Api_Specs.thy ===== *)
theory Api_Specs
  imports Api_Types
begin

text \<open>
  The remaining custom resources of src/pkg/apis/schemas/v1alpha4: the desired schema of a table
  for the other drivers (mysql.go, sqlite.go, rqlite.go, cassandra.go, timescaledb.go) and the
  specs that hold one schema per driver (table_types.go, view_types.go, function_types.go,
  type_types.go, database_extension_types.go). The conventions are those of the theory
  \<open>Api_Types\<close>.
\<close>

section \<open>MySQL (mysql.go)\<close>

record MysqlTableColumnConstraints =
  mcc_NotNull :: "bool option"

record MysqlTableColumnAttributes =
  mca_AutoIncrement :: "bool option"

record MysqlTableForeignKeyReferences =
  mfr_Table :: string
  mfr_Columns :: "string list"

record MysqlTableForeignKey =
  mfk_Columns :: "string list"
  mfk_References :: MysqlTableForeignKeyReferences
  mfk_OnDelete :: string
  mfk_Name :: string

record MysqlTableIndex =
  mix_Columns :: "string list"
  mix_Name :: string
  mix_IsUnique :: bool
  mix_Type :: string

record MysqlTableColumn =
  mcol_Name :: string
  mcol_Type :: string
  mcol_Constraints :: "MysqlTableColumnConstraints option"
  mcol_Attributes :: "MysqlTableColumnAttributes option"
  mcol_Default :: "string option"
  mcol_Charset :: string
  mcol_Collation :: string

record MysqlTableSchema =
  mts_PrimaryKey :: "string list"
  mts_ForeignKeys :: "MysqlTableForeignKey list"
  mts_Indexes :: "MysqlTableIndex list"
  mts_Columns :: "MysqlTableColumn list"
  mts_IsDeleted :: bool
  mts_DefaultCharset :: string
  mts_Collation :: string

section \<open>SQLite (sqlite.go)\<close>

record SqliteTableColumnConstraints =
  scc_NotNull :: "bool option"

record SqliteTableColumnAttributes =
  sca_AutoIncrement :: "bool option"

record SqliteTableForeignKeyReferences =
  sfr_Table :: string
  sfr_Columns :: "string list"

record SqliteTableForeignKey =
  sfk_Columns :: "string list"
  sfk_References :: SqliteTableForeignKeyReferences
  sfk_OnDelete :: string
  sfk_Name :: string

record SqliteTableIndex =
  six_Columns :: "string list"
  six_Name :: string
  six_IsUnique :: bool
  six_Type :: string

record SqliteTableColumn =
  scol_Name :: string
  scol_Type :: string
  scol_Constraints :: "SqliteTableColumnConstraints option"
  scol_Attributes :: "SqliteTableColumnAttributes option"
  scol_Default :: "string option"

record SqliteTableSchema =
  sts_PrimaryKey :: "string list"
  sts_ForeignKeys :: "SqliteTableForeignKey list"
  sts_Indexes :: "SqliteTableIndex list"
  sts_Columns :: "SqliteTableColumn list"
  sts_IsDeleted :: bool
  sts_Strict :: bool

section \<open>rqlite (rqlite.go)\<close>

record RqliteTableColumnConstraints =
  rcc_NotNull :: "bool option"

record RqliteTableColumnAttributes =
  rca_AutoIncrement :: "bool option"

record RqliteTableForeignKeyReferences =
  rfr_Table :: string
  rfr_Columns :: "string list"

record RqliteTableForeignKey =
  rfk_Columns :: "string list"
  rfk_References :: RqliteTableForeignKeyReferences
  rfk_OnDelete :: string
  rfk_Name :: string

record RqliteTableIndex =
  rix_Columns :: "string list"
  rix_Name :: string
  rix_IsUnique :: bool
  rix_Type :: string

record RqliteTableColumn =
  rcol_Name :: string
  rcol_Type :: string
  rcol_Constraints :: "RqliteTableColumnConstraints option"
  rcol_Attributes :: "RqliteTableColumnAttributes option"
  rcol_Default :: "string option"

record RqliteTableSchema =
  rts_PrimaryKey :: "string list"
  rts_ForeignKeys :: "RqliteTableForeignKey list"
  rts_Indexes :: "RqliteTableIndex list"
  rts_Columns :: "RqliteTableColumn list"
  rts_IsDeleted :: bool
  rts_Strict :: bool

section \<open>Cassandra (cassandra.go)\<close>

text \<open>The planner tells a nil map and a nil slice from an empty one, so these fields are options.\<close>

record CassandraColumn =
  ccol_Name :: string
  ccol_Type :: string
  ccol_IsStatic :: "bool option"

record CassandraClusteringOrder =
  cco_Column :: string
  cco_IsDescending :: "bool option"

record CassandraTableProperties =
  ctp_BloomFilterFPChance :: string
  ctp_Caching :: "(string \<times> string) list option"
  ctp_Comment :: string
  ctp_Compaction :: "(string \<times> string) list option"
  ctp_Compression :: "(string \<times> string) list option"
  ctp_CRCCheckChance :: string
  ctp_DCLocalReadRepairChance :: string
  ctp_DefaultTTL :: "int option"
  ctp_GCGraceSeconds :: "int option"
  ctp_MaxIndexInterval :: "int option"
  ctp_MemtableFlushPeriodMS :: "int option"
  ctp_MinIndexInterval :: "int option"
  ctp_ReadRepairChance :: string
  ctp_SpeculativeRetry :: string

record CassandraTableSchema =
  cts_IsDeleted :: bool
  cts_PrimaryKey :: "string list list option"
  cts_ClusteringOrder :: "CassandraClusteringOrder option"
  cts_Columns :: "CassandraColumn list"
  cts_Properties :: "CassandraTableProperties option"

record CassandraField =
  cfd_Name :: string
  cfd_Type :: string

record CassandraDataTypeSchema =
  cdt_IsDeleted :: bool
  cdt_Fields :: "CassandraField list"

section \<open>TimescaleDB (timescaledb.go)\<close>

record TimescaleDBCompression =
  tco_SegmentBy :: "string option"
  tco_Interval :: "string option"

record TimescaleDBRetention =
  tre_Interval :: string

record TimescaleDBHypertable =
  tht_TimeColumnName :: "string option"
  tht_PartitioningColumn :: "string option"
  tht_NumberPartitions :: "int option"
  tht_ChunkTimeInterval :: "string option"
  tht_CreateDefaultIndexes :: "bool option"
  tht_IfNotExists :: "bool option"
  tht_PartitioningFunc :: "string option"
  tht_AssociatedSchemaName :: "string option"
  tht_AssociatedTablePrefix :: "string option"
  tht_MigrateData :: "bool option"
  tht_TimePartitioningFunc :: "string option"
  tht_ReplicationFactor :: "int option"
  tht_DataNodes :: "string list"
  tht_Compression :: "TimescaleDBCompression option"
  tht_Retention :: "TimescaleDBRetention option"

record TimescaleDBTableSchema =
  tts_PrimaryKey :: "string list"
  tts_ForeignKeys :: "PostgresqlTableForeignKey list"
  tts_Indexes :: "PostgresqlTableIndex list"
  tts_Columns :: "PostgresqlTableColumn list"
  tts_IsDeleted :: bool
  tts_Triggers :: "PostgresqlTableTrigger list"
  tts_Hypertable :: "TimescaleDBHypertable option"

record TimescaleDBViewSchema =
  tvs_IsContinuousAggregate :: "bool option"
  tvs_WithNoData :: "bool option"
  tvs_Query :: string
  tvs_IsDeleted :: bool

section \<open>The specs of the resources\<close>

text \<open>The structs with no field, for what a driver does not implement.\<close>

type_synonym NotImplementedViewSchema = unit
type_synonym NotImplementedFunctionSchema = unit

record TableSchema =
  ts_Postgres :: "PostgresqlTableSchema option"
  ts_Mysql :: "MysqlTableSchema option"
  ts_CockroachDB :: "PostgresqlTableSchema option"
  ts_Cassandra :: "CassandraTableSchema option"
  ts_TimescaleDB :: "TimescaleDBTableSchema option"
  ts_SQLite :: "SqliteTableSchema option"
  ts_RQLite :: "RqliteTableSchema option"

record TableSpec =
  tsp_Database :: string
  tsp_Name :: string
  tsp_Requires :: "string list"
  tsp_Schema :: "TableSchema option"
  tsp_SeedData :: "SeedData option"

record ViewSchema =
  vs_Postgres :: "NotImplementedViewSchema option"
  vs_Mysql :: "NotImplementedViewSchema option"
  vs_CockroachDB :: "NotImplementedViewSchema option"
  vs_RQLite :: "NotImplementedViewSchema option"
  vs_SQLite :: "NotImplementedViewSchema option"
  vs_TimescaleDB :: "TimescaleDBViewSchema option"
  vs_Cassandra :: "NotImplementedViewSchema option"

record ViewSpec =
  vsp_Database :: string
  vsp_Name :: string
  vsp_Requires :: "string list"
  vsp_Schema :: "ViewSchema option"

record FunctionSchema =
  fs_Postgres :: "PostgresqlFunctionSchema option"
  fs_Mysql :: "NotImplementedFunctionSchema option"
  fs_CockroachDB :: "NotImplementedFunctionSchema option"
  fs_RQLite :: "NotImplementedFunctionSchema option"
  fs_SQLite :: "NotImplementedFunctionSchema option"
  fs_TimescaleDB :: "NotImplementedFunctionSchema option"
  fs_Cassandra :: "NotImplementedFunctionSchema option"

record FunctionSpec =
  fsp_Database :: string
  fsp_Name :: string
  fsp_RemoveOnDeletion :: bool
  fsp_Schema :: "FunctionSchema option"

record DataTypeSchema =
  ds_Cassandra :: "CassandraDataTypeSchema option"

record DataTypeSpec =
  dsp_Database :: string
  dsp_Name :: string
  dsp_Schema :: "DataTypeSchema option"

record DatabaseExtensionSpec =
  esp_Database :: string
  esp_RemoveOnDeletion :: bool
  esp_Postgres :: "PostgresDatabaseExtension option"

section \<open>Values of type interface\<close>

text \<open>
  A schema travels as an \<^verbatim>\<open>interface{}\<close>: nil, or a pointer together with its dynamic type. A
  nil pointer of a struct type is a value of that type and is not the nil interface.
\<close>

datatype schema_iface =
    NilInterface
  | PostgresqlTable "PostgresqlTableSchema option"
  | MysqlTable "MysqlTableSchema option"
  | CassandraTable "CassandraTableSchema option"
  | TimescaleDBTable "TimescaleDBTableSchema option"
  | SqliteTable "SqliteTableSchema option"
  | RqliteTable "RqliteTableSchema option"
  | NotImplementedView "NotImplementedViewSchema option"
  | TimescaleDBView "TimescaleDBViewSchema option"
  | CassandraDataType "CassandraDataTypeSchema option"
  | PostgresqlFunction "PostgresqlFunctionSchema option"
  | PostgresExtension "PostgresDatabaseExtension option"

text \<open>The verb %T of fmt.Sprintf on such a value.\<close>

fun dynamic_type :: "schema_iface \<Rightarrow> string" where
  "dynamic_type NilInterface = ''<nil>''"
| "dynamic_type (PostgresqlTable _) = ''*v1alpha4.PostgresqlTableSchema''"
| "dynamic_type (MysqlTable _) = ''*v1alpha4.MysqlTableSchema''"
| "dynamic_type (CassandraTable _) = ''*v1alpha4.CassandraTableSchema''"
| "dynamic_type (TimescaleDBTable _) = ''*v1alpha4.TimescaleDBTableSchema''"
| "dynamic_type (SqliteTable _) = ''*v1alpha4.SqliteTableSchema''"
| "dynamic_type (RqliteTable _) = ''*v1alpha4.RqliteTableSchema''"
| "dynamic_type (NotImplementedView _) = ''*v1alpha4.NotImplementedViewSchema''"
| "dynamic_type (TimescaleDBView _) = ''*v1alpha4.TimescaleDBViewSchema''"
| "dynamic_type (CassandraDataType _) = ''*v1alpha4.CassandraDataTypeSchema''"
| "dynamic_type (PostgresqlFunction _) = ''*v1alpha4.PostgresqlFunctionSchema''"
| "dynamic_type (PostgresExtension _) = ''*v1alpha4.PostgresDatabaseExtension''"

end
