(* ===== verification/Database_Sync.thy ===== *)
theory Database_Sync
  imports Db_Types Api_Specs "HOL-Library.Product_Lexorder"
begin

text \<open>
  src/pkg/database/database.go: the driver-independent layer between the commands and
  controllers and the database plugins. A \<open>Database\<close> obtains a connection from the plugin manager,
  hands it the schema for its driver, and applies statements; the text of a migration is split
  into statements by \<open>GetStatementsFromDDL\<close>.

  A value of the interface SchemaHeroDatabaseConnection (src/pkg/database/interfaces) is a record
  of its methods; the database that \<open>DeployStatements\<close> changes is the type \<open>'db\<close>. The decoders of
  Kubernetes objects and of YAML are parameters, as is the directory walk of CreateFixturesSync.
\<close>

section \<open>Connections and databases\<close>

record 'db Connection =
  cn_PlanTableSchema :: "string \<Rightarrow> schema_iface \<Rightarrow> SeedData option \<Rightarrow> string list result"
  cn_PlanTypeSchema :: "string \<Rightarrow> schema_iface \<Rightarrow> string list result"
  cn_PlanViewSchema :: "string \<Rightarrow> schema_iface \<Rightarrow> string list result"
  cn_PlanFunctionSchema :: "string \<Rightarrow> schema_iface \<Rightarrow> string list result"
  cn_PlanExtensionSchema :: "string \<Rightarrow> schema_iface \<Rightarrow> string list result"
  cn_DeployStatements :: "string list \<Rightarrow> 'db \<Rightarrow> go_error option \<times> 'db"
  cn_GenerateFixtures :: "TableSpec \<Rightarrow> string list result"

text \<open>The values of the options map that a driver receives.\<close>

datatype option_value = OptStrings "string list" | OptString string | OptBool bool

type_synonym 'db plugin_manager =
  "string \<Rightarrow> string \<Rightarrow> (string \<rightharpoonup> option_value) \<Rightarrow> 'db Connection result"

record 'db Database =
  db_InputDir :: string
  db_OutputDir :: string
  db_Driver :: string
  db_URI :: string
  db_Hosts :: "string list"
  db_Username :: string
  db_Password :: string
  db_Keyspace :: string
  db_DeploySeedData :: bool
  db_pluginManager :: "'db plugin_manager option"

definition SetPluginManager :: "'db Database \<Rightarrow> 'db plugin_manager option \<Rightarrow> 'db Database" where
  "SetPluginManager d manager = d\<lparr> db_pluginManager := manager \<rparr>"

definition connection_options :: "'db Database \<Rightarrow> (string \<rightharpoonup> option_value)" where
  "connection_options d =
     (if db_Driver d = ''cassandra'' then
        (let o0 = Map.empty;
             o1 = (if db_Hosts d \<noteq> [] then o0(''hosts'' \<mapsto> OptStrings (db_Hosts d)) else o0);
             o2 = (if db_Username d \<noteq> [] then o1(''username'' \<mapsto> OptString (db_Username d)) else o1);
             o3 = (if db_Password d \<noteq> [] then o2(''password'' \<mapsto> OptString (db_Password d)) else o2)
         in if db_Keyspace d \<noteq> [] then o3(''keyspace'' \<mapsto> OptString (db_Keyspace d)) else o3)
      else Map.empty)"

definition plugin_failure :: "string \<Rightarrow> string option" where
  "plugin_failure driver =
     (if driver \<in> {''postgres'', ''postgresql'', ''cockroachdb'', ''timescaledb''} then Some ''postgres driver requires plugin''
      else if driver \<in> {''mysql'', ''mariadb''} then Some ''mysql driver requires plugin''
      else if driver \<in> {''sqlite'', ''sqlite3''} then Some ''sqlite driver requires plugin''
      else if driver = ''rqlite'' then Some ''rqlite driver requires plugin''
      else if driver = ''cassandra'' then Some ''cassandra driver requires plugin''
      else None)"

definition no_plugin_error :: "string \<Rightarrow> go_error" where
  "no_plugin_error driver =
     (if driver \<in> {''postgres'', ''postgresql'', ''cockroachdb'', ''timescaledb''}
      then ErrNew ''postgres driver requires plugin - install schemahero-postgres plugin''
      else if driver \<in> {''mysql'', ''mariadb''}
      then ErrNew ''mysql driver requires plugin - install schemahero-mysql plugin''
      else if driver = ''rqlite''
      then ErrNew ''rqlite driver requires plugin - install schemahero-rqlite plugin''
      else if driver \<in> {''sqlite'', ''sqlite3''}
      then ErrNew ''sqlite driver requires plugin - install schemahero-sqlite plugin''
      else if driver = ''cassandra''
      then ErrNew ''cassandra driver requires plugin - install schemahero-cassandra plugin''
      else ErrNew (''unknown database driver: '' @ Quote driver))"

definition GetConnection :: "'db Database \<Rightarrow> 'db Connection result" where
  "GetConnection d =
     (case db_pluginManager d of
        None \<Rightarrow> Inl (no_plugin_error (db_Driver d))
      | Some manager \<Rightarrow>
          (case manager (db_Driver d) (db_URI d) (connection_options d) of
             Inr conn \<Rightarrow> Inr conn
           | Inl err \<Rightarrow>
               (case plugin_failure (db_Driver d) of
                  Some msg \<Rightarrow> Inl (wrap_error msg err)
                | None \<Rightarrow> Inl (no_plugin_error (db_Driver d)))))"

text \<open>What most operations start with: the connection, with its error wrapped.\<close>

definition with_connection :: "'db Database \<Rightarrow> ('db Connection \<Rightarrow> 'a result) \<Rightarrow> 'a result" where
  "with_connection d f = bindE (wrapE ''failed to get database connection'' (GetConnection d)) f"

definition planned_drivers :: "string list" where
  "planned_drivers = [''postgres'', ''cockroachdb'', ''mysql'', ''timescaledb'', ''sqlite'', ''sqlite3'',
     ''rqlite'', ''cassandra'']"

definition unknown_driver :: "string \<Rightarrow> go_error" where
  "unknown_driver driver = ErrNew (''unknown database driver: '' @ Quote driver)"

section \<open>Planning a spec\<close>

definition PlanSyncSeedData :: "'db Database \<Rightarrow> TableSpec \<Rightarrow> string list result" where
  "PlanSyncSeedData d spec =
     (if tsp_SeedData spec = None then Inr []
      else if db_Driver d \<in> set planned_drivers
      then with_connection d (\<lambda>conn. cn_PlanTableSchema conn (tsp_Name spec) NilInterface (tsp_SeedData spec))
      else Inl (unknown_driver (db_Driver d)))"

text \<open>The schema of the driver. A missing one is a nil pointer in a non-nil interface.\<close>

definition driver_schema :: "string \<Rightarrow> TableSchema \<Rightarrow> schema_iface" where
  "driver_schema driver s =
     (if driver = ''postgres'' then PostgresqlTable (ts_Postgres s)
      else if driver = ''cockroachdb'' then PostgresqlTable (ts_CockroachDB s)
      else if driver = ''mysql'' then MysqlTable (ts_Mysql s)
      else if driver = ''timescaledb'' then TimescaleDBTable (ts_TimescaleDB s)
      else if driver = ''sqlite'' \<or> driver = ''sqlite3'' then SqliteTable (ts_SQLite s)
      else if driver = ''rqlite'' then RqliteTable (ts_RQLite s)
      else if driver = ''cassandra'' then CassandraTable (ts_Cassandra s)
      else NilInterface)"

definition PlanSyncTableSpec :: "'db Database \<Rightarrow> TableSpec \<Rightarrow> string list result" where
  "PlanSyncTableSpec d spec =
     (case tsp_Schema spec of
        None \<Rightarrow>
          (if db_DeploySeedData d \<and> tsp_SeedData spec \<noteq> None then PlanSyncSeedData d spec else Inr [])
      | Some schema \<Rightarrow>
          (let seedData = (if db_DeploySeedData d then tsp_SeedData spec else None)
           in if db_Driver d \<in> set planned_drivers
              then with_connection d (\<lambda>conn.
                     cn_PlanTableSchema conn (tsp_Name spec) (driver_schema (db_Driver d) schema) seedData)
              else Inl (unknown_driver (db_Driver d))))"

definition PlanSyncViewSpec :: "'db Database \<Rightarrow> ViewSpec \<Rightarrow> string list result" where
  "PlanSyncViewSpec d spec =
     (case vsp_Schema spec of
        None \<Rightarrow> Inr []
      | Some s \<Rightarrow>
          if db_Driver d \<in> {''postgres'', ''cockroachdb'', ''timescaledb''}
          then with_connection d (\<lambda>conn.
                 let schema = (if db_Driver d = ''postgres'' \<or> db_Driver d = ''cockroachdb''
                               then NotImplementedView (vs_Postgres s)
                               else TimescaleDBView (vs_TimescaleDB s))
                 in if schema = NilInterface then Inr []
                    else cn_PlanViewSchema conn (vsp_Name spec) schema)
          else if db_Driver d = ''mysql''
          then with_connection d (\<lambda>conn.
                 if vs_Mysql s = None then Inr []
                 else cn_PlanViewSchema conn (vsp_Name spec) (NotImplementedView (vs_Mysql s)))
          else Inl (ErrNew (''driver '' @ db_Driver d @ '' does not support views'')))"

definition PlanSyncTypeSpec :: "'db Database \<Rightarrow> DataTypeSpec \<Rightarrow> string list result" where
  "PlanSyncTypeSpec d spec =
     (case dsp_Schema spec of
        None \<Rightarrow> Inr []
      | Some s \<Rightarrow>
          if db_Driver d = ''cassandra''
          then with_connection d (\<lambda>conn.
                 cn_PlanTypeSchema conn (dsp_Name spec) (CassandraDataType (ds_Cassandra s)))
          else Inl (ErrNew (''planning types is not supported for driver '' @ Quote (db_Driver d))))"

definition PlanSyncDatabaseExtensionSpec :: "'db Database \<Rightarrow> DatabaseExtensionSpec \<Rightarrow> string list result" where
  "PlanSyncDatabaseExtensionSpec d spec =
     (if db_Driver d \<in> {''postgres'', ''cockroachdb'', ''timescaledb''}
      then with_connection d (\<lambda>conn.
             (case esp_Postgres spec of
                Some e \<Rightarrow>
                  if db_Driver d = ''postgres''
                  then cn_PlanExtensionSchema conn (pex_Name e) (PostgresExtension (Some e))
                  else cn_PlanExtensionSchema conn [] NilInterface
              | None \<Rightarrow> cn_PlanExtensionSchema conn [] NilInterface))
      else Inl (ErrNew (''planning extensions is not supported for driver '' @ Quote (db_Driver d) @
             '' or extension type not specified'')))"

definition PlanSyncFunctionSpec :: "'db Database \<Rightarrow> FunctionSpec \<Rightarrow> string list result" where
  "PlanSyncFunctionSpec d spec =
     (if db_Driver d \<in> {''postgres'', ''cockroachdb'', ''timescaledb''}
      then with_connection d (\<lambda>conn.
             cn_PlanFunctionSchema conn (fsp_Name spec)
               (case Option.bind (fsp_Schema spec) fs_Postgres of
                  Some f \<Rightarrow> if db_Driver d = ''postgres'' then PostgresqlFunction (Some f) else NilInterface
                | None \<Rightarrow> NilInterface))
      else Inl (ErrNew (''planning functions is not supported for driver '' @ Quote (db_Driver d) @
             '' or function database schema not specified'')))"

section \<open>Planning the text of a manifest\<close>

text \<open>
  The decoders. \<open>dec_gvk\<close> is the universal deserializer, which gives the group, version and kind
  together with an object; the others are yaml.Unmarshal into the resource (its spec is all that
  is read) and into the plain spec.
\<close>

datatype k8s_object =
    TableObject string TableSpec
  | ViewObject string ViewSpec
  | ExtensionObject string DatabaseExtensionSpec
  | OtherObject

record GVK =
  gvk_Group :: string
  gvk_Version :: string
  gvk_Kind :: string

record Decoders =
  dec_gvk :: "string \<Rightarrow> (k8s_object \<times> GVK) result"
  dec_gvk_string :: "GVK \<Rightarrow> string"
  dec_Table :: "string \<Rightarrow> TableSpec result"
  dec_TableSpec :: "string \<Rightarrow> TableSpec result"
  dec_View :: "string \<Rightarrow> ViewSpec result"
  dec_ViewSpec :: "string \<Rightarrow> ViewSpec result"
  dec_DataType :: "string \<Rightarrow> DataTypeSpec result"
  dec_DataTypeSpec :: "string \<Rightarrow> DataTypeSpec result"
  dec_Extension :: "string \<Rightarrow> DatabaseExtensionSpec result"
  dec_ExtensionSpec :: "string \<Rightarrow> DatabaseExtensionSpec result"
  dec_Function :: "string \<Rightarrow> FunctionSpec result"
  dec_FunctionSpec :: "string \<Rightarrow> FunctionSpec result"

text \<open>A spec is that of the resource if it decodes and is accepted, else the plain one.\<close>

definition decode_spec ::
  "('a \<Rightarrow> bool) \<Rightarrow> (string \<Rightarrow> 'a result) \<Rightarrow> (string \<Rightarrow> 'a result) \<Rightarrow> string \<Rightarrow> 'a result" where
  "decode_spec accepted whole plain contents =
     (case whole contents of
        Inr spec \<Rightarrow> if accepted spec then Inr spec else plain contents
      | Inl _ \<Rightarrow> plain contents)"

definition planGVKSync :: "Decoders \<Rightarrow> 'db Database \<Rightarrow> string \<Rightarrow> string list result" where
  "planGVKSync dec d contents =
     bindE (wrapE ''failed to decode spec'' (dec_gvk dec contents)) (\<lambda>(obj, gvk).
       let ours = (gvk_Group gvk = ''schemas.schemahero.io'' \<and> gvk_Version gvk = ''v1alpha4'')
       in if ours \<and> gvk_Kind gvk = ''Table'' then
            (case obj of
               TableObject name spec \<Rightarrow> wrapE (''failed to plan table '' @ name) (PlanSyncTableSpec d spec)
             | _ \<Rightarrow> Inl (GoPanic ''interface conversion''))
          else if ours \<and> gvk_Kind gvk = ''View'' then
            (case obj of
               ViewObject name spec \<Rightarrow> wrapE (''failed to plan view '' @ name) (PlanSyncViewSpec d spec)
             | _ \<Rightarrow> Inl (GoPanic ''interface conversion''))
          else if ours \<and> gvk_Kind gvk = ''DatabaseExtension'' then
            (case obj of
               ExtensionObject name spec \<Rightarrow>
                 wrapE (''failed to plan extension '' @ name) (PlanSyncDatabaseExtensionSpec d spec)
             | _ \<Rightarrow> Inl (GoPanic ''interface conversion''))
          else Inl (ErrNew (''unknown gvk '' @ dec_gvk_string dec gvk)))"

definition planTableSync :: "Decoders \<Rightarrow> 'db Database \<Rightarrow> string \<Rightarrow> string list result" where
  "planTableSync dec d contents =
     bindE (decode_spec (\<lambda>s. tsp_Schema s \<noteq> None) (dec_Table dec)
              (wrapE ''failed to unmarshal table spec'' \<circ> dec_TableSpec dec) contents) (\<lambda>spec.
       wrapE (''failed to plan table sync for '' @ tsp_Name spec) (PlanSyncTableSpec d spec))"

definition planViewSync :: "Decoders \<Rightarrow> 'db Database \<Rightarrow> string \<Rightarrow> string list result" where
  "planViewSync dec d contents =
     bindE (decode_spec (\<lambda>s. vsp_Schema s \<noteq> None) (dec_View dec)
              (wrapE ''failed to unmarshal view spec'' \<circ> dec_ViewSpec dec) contents) (\<lambda>spec.
       wrapE (''failed to plan view sync for '' @ vsp_Name spec) (PlanSyncViewSpec d spec))"

definition planTypeSync :: "Decoders \<Rightarrow> 'db Database \<Rightarrow> string \<Rightarrow> string list result" where
  "planTypeSync dec d contents =
     bindE (decode_spec (\<lambda>s. dsp_Schema s \<noteq> None) (dec_DataType dec)
              (wrapE ''failed to unmarshal type sync spec'' \<circ> dec_DataTypeSpec dec) contents) (PlanSyncTypeSpec d)"

definition planExtensionSync :: "Decoders \<Rightarrow> 'db Database \<Rightarrow> string \<Rightarrow> string list result" where
  "planExtensionSync dec d contents =
     bindE (decode_spec (\<lambda>s. esp_Database s \<noteq> []) (dec_Extension dec)
              (wrapE ''failed to unmarshal extension spec'' \<circ> dec_ExtensionSpec dec) contents)
       (PlanSyncDatabaseExtensionSpec d)"

definition planFunctionSync :: "Decoders \<Rightarrow> 'db Database \<Rightarrow> string \<Rightarrow> string list result" where
  "planFunctionSync dec d contents =
     bindE (decode_spec (\<lambda>s. fsp_Database s \<noteq> []) (dec_Function dec)
              (wrapE ''failed to unmarshal function spec'' \<circ> dec_FunctionSpec dec) contents) (PlanSyncFunctionSpec d)"

text \<open>An error of the first attempt is swallowed, a panic is not.\<close>

definition PlanSync :: "Decoders \<Rightarrow> 'db Database \<Rightarrow> string \<Rightarrow> string \<Rightarrow> string list result" where
  "PlanSync dec d contents specType =
     (case planGVKSync dec d contents of
        Inr plan \<Rightarrow> Inr plan
      | Inl (GoPanic msg) \<Rightarrow> Inl (GoPanic msg)
      | Inl _ \<Rightarrow>
          if specType = ''table'' then wrapE ''failed to plan table sync'' (planTableSync dec d contents)
          else if specType = ''type'' then wrapE ''failed to plan type sync'' (planTypeSync dec d contents)
          else if specType = ''view'' then wrapE ''failed to plan view sync'' (planViewSync dec d contents)
          else if specType = ''extension'' then wrapE ''failed to plan extension sync'' (planExtensionSync dec d contents)
          else if specType = ''function'' then wrapE ''failed to plan function sync'' (planFunctionSync dec d contents)
          else Inl (ErrNew ''unknown spec type''))"

definition PlanSyncFromFile ::
  "Decoders \<Rightarrow> (string \<Rightarrow> string result) \<Rightarrow> 'db Database \<Rightarrow> string \<Rightarrow> string \<Rightarrow> string list result" where
  "PlanSyncFromFile dec read_file d filename specType =
     bindE (wrapE ''failed to read file'' (read_file filename)) (\<lambda>contents.
       wrapE ''failed to plan sync'' (PlanSync dec d contents specType))"

section \<open>Fixtures\<close>

text \<open>
  The entries filepath.Walk visits below the input directory, in its order: the base name of the
  entry, whether it is a directory, and the error Walk met there.
\<close>

record WalkEntry =
  we_Name :: string
  we_IsDir :: bool
  we_Err :: "go_error option"

definition fixture_plugin_error :: "string \<Rightarrow> go_error option" where
  "fixture_plugin_error driver =
     (if driver \<in> {''postgres'', ''postgresql''}
      then Some (ErrNew ''postgres driver requires plugin - install schemahero-postgres plugin'')
      else if driver \<in> {''mysql'', ''mariadb''}
      then Some (ErrNew ''mysql driver requires plugin - install schemahero-mysql plugin'')
      else if driver = ''cockroachdb''
      then Some (ErrNew ''cockroachdb driver requires plugin - install schemahero-postgres plugin'')
      else if driver \<in> {''sqlite'', ''sqlite3''}
      then Some (ErrNew ''sqlite driver requires plugin - install schemahero-sqlite plugin'')
      else if driver = ''rqlite''
      then Some (ErrNew ''rqlite driver requires plugin - install schemahero-rqlite plugin'')
      else if driver = ''timescaledb''
      then Some (ErrNew ''postgres driver requires plugin - install schemahero-postgres plugin'')
      else if driver = ''cassandra''
      then Some (ErrNew ''cassandra driver requires plugin - install schemahero-cassandra plugin'')
      else None)"

definition fixture_statements :: "'db Database \<Rightarrow> TableSpec \<Rightarrow> string list result" where
  "fixture_statements d spec =
     (let fallback = (case fixture_plugin_error (db_Driver d) of Some e \<Rightarrow> Inl e | None \<Rightarrow> Inr [])
      in case db_pluginManager d of
           None \<Rightarrow> fallback
         | Some manager \<Rightarrow>
             (case manager (db_Driver d) ''fixture-only://localhost/schemahero''
                     [''fixture-only'' \<mapsto> OptBool True] of
                Inl _ \<Rightarrow> fallback
              | Inr conn \<Rightarrow> wrapE ''failed to generate fixtures'' (cn_GenerateFixtures conn spec)))"

text \<open>\<open>read_file\<close> reads a base name in a directory; the path of the entry is not used.\<close>

definition handleFile ::
  "Decoders \<Rightarrow> (string \<Rightarrow> string \<Rightarrow> string result) \<Rightarrow> 'db Database \<Rightarrow> WalkEntry \<Rightarrow> string list result" where
  "handleFile dec read_file d entry =
     (case we_Err entry of
        Some e \<Rightarrow> Inl e
      | None \<Rightarrow>
          if we_IsDir entry then Inr []
          else
            bindE (read_file (db_InputDir d) (we_Name entry)) (\<lambda>fileData.
            bindE (decode_spec (\<lambda>s. tsp_Schema s \<noteq> None) (dec_Table dec) (dec_TableSpec dec) fileData) (\<lambda>spec.
              if tsp_Schema spec = None then Inr [] else fixture_statements d spec)))"

definition fixtures_file :: "string list \<Rightarrow> string" where
  "fixtures_file statements =
     (let output = Join statements (CHR '';'' # [newline]);
          output = (if output \<noteq> [] then output @ CHR '';'' # [newline] else output)
      in ''/* Auto generated file. Do not edit by hand. This file was generated by SchemaHero. */'' @
         [newline, newline] @ output @ [newline])"

definition CreateFixturesSync ::
  "Decoders \<Rightarrow> (string \<Rightarrow> string \<Rightarrow> string result) \<Rightarrow> (string \<Rightarrow> string \<Rightarrow> go_error option) \<Rightarrow>
   'db Database \<Rightarrow> WalkEntry list \<Rightarrow> go_error option" where
  "CreateFixturesSync dec read_file write_file d walk =
     (case concatE (mapE (handleFile dec read_file d) walk) of
        Inl e \<Rightarrow> Some e
      | Inr statements \<Rightarrow> write_file (db_OutputDir d) (fixtures_file statements))"

section \<open>Sorting and applying\<close>

text \<open>
  sort.Sort with the order of spec.go. Go sorts up to 12 elements by insertion: element by
  element, each moved left while it is less than its neighbour. Longer slices are sorted by
  another algorithm, which gives the same list whenever the order determines it.
\<close>

fun insert_left :: "('a \<Rightarrow> 'a \<Rightarrow> bool) \<Rightarrow> 'a \<Rightarrow> 'a list \<Rightarrow> 'a list" where
  "insert_left lt x [] = [x]"
| "insert_left lt x (y # ys) = (if lt x y then y # insert_left lt x ys else x # y # ys)"

text \<open>The sorted prefix is kept reversed, its last element first.\<close>

definition sort_Sort :: "('a \<Rightarrow> 'a \<Rightarrow> bool) \<Rightarrow> 'a list \<Rightarrow> 'a list" where
  "sort_Sort lt xs = rev (fold (insert_left lt) xs [])"

definition SortSpecs :: "(string \<Rightarrow> GroupKind result) \<Rightarrow> 'db Database \<Rightarrow> Spec list \<Rightarrow> Spec list" where
  "SortSpecs decode d specs =
     (if db_Driver d \<in> {''postgres'', ''timescaledb''} then sort_Sort (Specs_Less decode) specs else specs)"

definition ApplySync :: "'db Database \<Rightarrow> string list \<Rightarrow> 'db \<Rightarrow> go_error option \<times> 'db" where
  "ApplySync d statements db =
     (if db_Driver d \<in> set (''postgresql'' # planned_drivers)
      then (case wrapE ''failed to get database connection'' (GetConnection d) of
              Inl e \<Rightarrow> (Some e, db)
            | Inr conn \<Rightarrow> cn_DeployStatements conn statements db)
      else (Some (unknown_driver (db_Driver d)), db))"

section \<open>Splitting a migration into statements\<close>

text \<open>
  The dollar quote that a line opens and does not close: the text from the first dollar to the
  next one, unless it occurs again on the line. The empty string stands for none.
\<close>

definition opened_tag :: "string \<Rightarrow> string" where
  "opened_tag line =
     (case Index line ''$'' of
        None \<Rightarrow> []
      | Some idx \<Rightarrow>
          (case Index (drop (idx + 1) line) ''$'' of
             None \<Rightarrow> []
           | Some endIdx \<Rightarrow>
               (let tag = take (endIdx + 2) (drop idx line)
                in if Contains (drop (idx + endIdx + 2) line) tag then [] else tag)))"

definition next_tag :: "string \<Rightarrow> string \<Rightarrow> string" where
  "next_tag dollarQuoteTag line =
     (if dollarQuoteTag = [] then opened_tag line
      else if Contains line dollarQuoteTag then [] else dollarQuoteTag)"

definition function_tag_line :: string where
  "function_tag_line = ''-- Function body follows''"

text \<open>The loop over the lines, with functionTagOpen, dollarQuoteTag and statement as its state.\<close>

fun ddl_loop :: "bool \<Rightarrow> string \<Rightarrow> string \<Rightarrow> string list \<Rightarrow> string list" where
  "ddl_loop open tag statement [] = (if statement \<noteq> [] then [TrimSpace statement] else [])"
| "ddl_loop open tag statement (raw # lines) =
     (let line = TrimSpace raw
      in if line = [] then ddl_loop open tag statement lines
         else
           (let tag' = next_tag tag line;
                open' = (if line = function_tag_line then \<not> open else open)
            in if \<not> open' \<and> tag' = [] \<and> (lines = [] \<or> HasSuffix line '';'')
               then TrimSpace (statement @ '' '' @ line) # ddl_loop open' tag' [] lines
               else ddl_loop open' tag' (statement @ '' '' @ line) lines))"

definition GetStatementsFromDDL :: "string \<Rightarrow> string list" where
  "GetStatementsFromDDL ddl = ddl_loop False [] [] (SplitByte ddl newline)"

section \<open>What splitting keeps\<close>

text \<open>The two flags after some lines, and whether no statement ended within them.\<close>

fun ddl_state :: "bool \<Rightarrow> string \<Rightarrow> string list \<Rightarrow> bool \<times> string" where
  "ddl_state open tag [] = (open, tag)"
| "ddl_state open tag (raw # lines) =
     (let line = TrimSpace raw
      in if line = [] then ddl_state open tag lines
         else ddl_state (if line = function_tag_line then \<not> open else open) (next_tag tag line) lines)"

fun absorbed :: "bool \<Rightarrow> string \<Rightarrow> string list \<Rightarrow> bool" where
  "absorbed open tag [] = True"
| "absorbed open tag (raw # lines) =
     (let line = TrimSpace raw
      in if line = [] then absorbed open tag lines
         else
           (let tag' = next_tag tag line;
                open' = (if line = function_tag_line then \<not> open else open)
            in (open' \<or> tag' \<noteq> [] \<or> \<not> HasSuffix line '';'') \<and> absorbed open' tag' lines))"

definition spaced :: "string list \<Rightarrow> string" where
  "spaced lines = concat (map (\<lambda>l. if TrimSpace l = [] then [] else '' '' @ TrimSpace l) lines)"

lemma spaced_simps [simp]:
  "spaced [] = []"
  "spaced (l # ls) = (if TrimSpace l = [] then [] else '' '' @ TrimSpace l) @ spaced ls"
  "spaced (xs @ ys) = spaced xs @ spaced ys"
  by (simp_all add: spaced_def)

lemma ddl_loop_absorbed:
  "absorbed open tag ls \<Longrightarrow> rest \<noteq> [] \<Longrightarrow> ddl_state open tag ls = (open', tag') \<Longrightarrow>
   ddl_loop open tag st (ls @ rest) = ddl_loop open' tag' (st @ spaced ls) rest"
proof (induction ls arbitrary: "open" tag st)
  case (Cons l ls)
  then show ?case by (cases "TrimSpace l = []") (auto simp: Let_def)
qed simp

text \<open>
  A statement that survives the splitting: no line of it ends a statement before the last one,
  and on the last line every quote is closed.
\<close>

definition survives :: "string \<Rightarrow> bool" where
  "survives s \<longleftrightarrow>
     (let ls = SplitByte s newline; l = last ls; st = ddl_state False [] (butlast ls)
      in absorbed False [] (butlast ls) \<and> l \<noteq> [] \<and> TrimSpace l = l \<and> l \<noteq> function_tag_line \<and>
         \<not> fst st \<and> next_tag (snd st) l = [])"

definition flattened :: "string \<Rightarrow> string" where
  "flattened s = TrimSpace (spaced (SplitByte s newline))"

lemma TrimSpace_Cons_space [simp]: "TrimSpace (CHR '' '' # s) = TrimSpace s"
  using TrimSpace_pad [of "'' ''" "[]" s] by simp

lemma TrimSpace_self: "TrimSpace s = s \<Longrightarrow> s \<noteq> [] \<Longrightarrow> \<not> is_space (hd s) \<and> \<not> is_space (last s)"
  using trim_while_hd [of is_space s] trim_while_last [of is_space s] by (simp add: TrimSpace_def)

lemma not_space_semicolon [simp]: "\<not> is_space (CHR '';'')"
  by (simp add: is_space_def byte_def)

lemma TrimSpace_semicolon:
  assumes "TrimSpace s = s" "s \<noteq> []"
  shows "TrimSpace (s @ '';'') = s @ '';''"
  by (rule TrimSpace_id) (use TrimSpace_self [OF assms] assms(2) in simp)

lemma Contains_append_left: "Contains s sub \<Longrightarrow> Contains (s @ t) sub"
  unfolding Contains_iff by (metis append.assoc)

lemma Index_byte_semicolon: "Index (s @ '';'') ''$'' = Index s ''$''"
  by (induction s) auto

lemma opened_tag_semicolon:
  assumes "opened_tag l = []" shows "opened_tag (l @ '';'') = []"
proof (cases "Index l ''$''")
  case None
  then show ?thesis unfolding opened_tag_def Index_byte_semicolon None by simp
next
  case (Some i)
  have i: "i + 1 \<le> length l" using Index_bound [OF Some] by simp
  have d: "drop (i + 1) (l @ '';'') = drop (i + 1) l @ '';''" using i by simp
  show ?thesis
  proof (cases "Index (drop (i + 1) l) ''$''")
    case None
    then show ?thesis unfolding opened_tag_def Index_byte_semicolon Some option.case d Index_byte_semicolon None by simp
  next
    case e: (Some e)
    have b: "e + 1 \<le> length l - (i + 1)" using Index_bound [OF e] by simp
    have t: "take (e + 2) (drop i (l @ '';'')) = take (e + 2) (drop i l)" using b i by simp
    have r: "drop (i + e + 2) (l @ '';'') = drop (i + e + 2) l @ '';''" using b i by simp
    have "take (e + 2) (drop i l) \<noteq> []" using b i by simp
    then have "Contains (drop (i + e + 2) l) (take (e + 2) (drop i l))"
      using assms unfolding opened_tag_def Some option.case e Let_def by (simp split: if_splits)
    then have "Contains (drop (i + e + 2) (l @ '';'')) (take (e + 2) (drop i (l @ '';'')))"
      unfolding t r by (rule Contains_append_left)
    then show ?thesis
      unfolding opened_tag_def Index_byte_semicolon d Some option.case e Let_def by simp
  qed
qed

lemma next_tag_semicolon: "next_tag tag l = [] \<Longrightarrow> next_tag tag (l @ '';'') = []"
  by (auto simp: next_tag_def opened_tag_semicolon Contains_append_left split: if_splits)

lemma spaced_split:
  assumes "survives s"
  shows "spaced (SplitByte s newline) = spaced (butlast (SplitByte s newline)) @ '' '' @ last (SplitByte s newline)"
proof -
  have "SplitByte s newline = butlast (SplitByte s newline) @ [last (SplitByte s newline)]" by simp
  then have "spaced (SplitByte s newline) = spaced (butlast (SplitByte s newline) @ [last (SplitByte s newline)])"
    by simp
  then show ?thesis using assms by (simp add: survives_def Let_def del: append_butlast_last_id)
qed

lemma TrimSpace_left: "s \<noteq> [] \<Longrightarrow> \<not> is_space (last s) \<Longrightarrow> TrimSpace s = dropWhile is_space s"
proof -
  assume a: "s \<noteq> []" "\<not> is_space (last s)"
  have "dropWhile is_space s \<noteq> []" using a last_in_set by (auto simp: dropWhile_eq_Nil_conv)
  moreover have "last (dropWhile is_space s) = last s"
    using calculation by (metis last_appendR takeWhile_dropWhile_id)
  ultimately show ?thesis
    using a by (simp add: TrimSpace_def trim_while_def) (metis dropWhile_eq_self_iff hd_rev rev_rev_ident)
qed

lemma TrimSpace_snoc:
  assumes "s \<noteq> []" "\<not> is_space (last s)"
  shows "TrimSpace (s @ '';'') = TrimSpace s @ '';''"
proof -
  have "\<exists>x \<in> set s. \<not> is_space x" using assms last_in_set by blast
  then show ?thesis using assms by (simp add: TrimSpace_left) (metis dropWhile_append1)
qed

lemma ddl_loop_last:
  assumes "survives s"
  shows "ddl_loop False [] [] (SplitByte s newline) = [flattened s]"
proof -
  let ?ls = "SplitByte s newline"
  obtain o1 t1 where st: "ddl_state False [] (butlast ?ls) = (o1, t1)" by force
  have "ddl_loop False [] [] (butlast ?ls @ [last ?ls]) = ddl_loop o1 t1 (spaced (butlast ?ls)) [last ?ls]"
    using assms by (subst ddl_loop_absorbed [OF _ _ st]) (simp_all add: survives_def Let_def)
  also have "\<dots> = [flattened s]"
    using assms st spaced_split [OF assms] by (simp add: survives_def Let_def flattened_def)
  finally show ?thesis by simp
qed

lemma ddl_loop_first:
  assumes "survives s"
  shows "ddl_loop False [] [] (butlast (SplitByte s newline) @ (last (SplitByte s newline) @ '';'') # rest) =
    (flattened s @ '';'') # ddl_loop False [] [] rest"
proof -
  let ?ls = "SplitByte s newline"
  let ?l = "last ?ls"
  obtain o1 t1 where st: "ddl_state False [] (butlast ?ls) = (o1, t1)" by force
  have l: "?l \<noteq> []" "TrimSpace ?l = ?l" "next_tag t1 ?l = []" "\<not> o1"
    using assms st by (simp_all add: survives_def Let_def)
  have ne: "?l @ '';'' \<noteq> function_tag_line"
  proof
    assume "?l @ '';'' = function_tag_line"
    then have "last (?l @ '';'') = last function_tag_line" by simp
    then show False by (simp add: function_tag_line_def)
  qed
  have flat: "TrimSpace (spaced (butlast ?ls) @ '' '' @ ?l @ '';'') = flattened s @ '';''"
    using TrimSpace_snoc [of "spaced ?ls"] spaced_split [OF assms] TrimSpace_self [OF l(2,1)] l(1)
    by (simp add: flattened_def)
  have "ddl_loop False [] [] (butlast ?ls @ (?l @ '';'') # rest) =
      ddl_loop o1 t1 (spaced (butlast ?ls)) ((?l @ '';'') # rest)"
    using assms by (subst ddl_loop_absorbed [OF _ _ st]) (simp_all add: survives_def Let_def)
  also have "\<dots> = (flattened s @ '';'') # ddl_loop False [] [] rest"
    using l ne flat TrimSpace_semicolon [OF l(2,1)] next_tag_semicolon [OF l(3)]
    by (simp add: Let_def HasSuffix_def)
  finally show ?thesis .
qed

lemma SplitByte_append_gen:
  "SplitByte (s @ t) b = butlast (SplitByte s b) @ (last (SplitByte s b) @ hd (SplitByte t b)) # tl (SplitByte t b)"
proof (induction s)
  case Nil
  then show ?case by (cases "SplitByte t b") simp_all
next
  case (Cons c s)
  then show ?case by (cases "SplitByte s b") (auto split: list.splits)
qed

lemma ddl_of_joined:
  "statements \<noteq> [] \<Longrightarrow> \<forall>s \<in> set statements. survives s \<Longrightarrow>
   GetStatementsFromDDL (Join statements ('';'' @ [newline])) =
     map (\<lambda>s. flattened s @ '';'') (butlast statements) @ [flattened (last statements)]"
proof (induction statements)
  case (Cons s ss)
  show ?case
  proof (cases "ss = []")
    case True
    then show ?thesis using Cons.prems by (simp add: GetStatementsFromDDL_def ddl_loop_last)
  next
    case False
    have "SplitByte (Join (s # ss) ('';'' @ [newline])) newline =
        butlast (SplitByte s newline) @ (last (SplitByte s newline) @ '';'') #
        SplitByte (Join ss ('';'' @ [newline])) newline"
      using False by (simp add: Join_Cons SplitByte_append_gen)
    then show ?thesis
      using Cons False by (simp add: GetStatementsFromDDL_def ddl_loop_first)
  qed
qed simp

lemma flattened_line: "newline \<notin> set s \<Longrightarrow> TrimSpace s = s \<Longrightarrow> flattened s = s"
  by (simp add: flattened_def)

lemma survives_line:
  "newline \<notin> set s \<Longrightarrow> TrimSpace s = s \<Longrightarrow> s \<noteq> [] \<Longrightarrow> opened_tag s = [] \<Longrightarrow> s \<noteq> function_tag_line \<Longrightarrow>
   survives s"
  by (simp add: survives_def next_tag_def)

text \<open>
  C10. The text of a migration, the planned statements joined by a semicolon and a line break, is
  split back into exactly the planned statements, in order, each with its semicolon but the last:
  none is lost, merged or cut, as long as no statement contains a line that ends with a semicolon
  outside a quoted function body and each closes its quotes. The lines of a statement are joined
  by one space, so a statement of one line comes back unchanged.
\<close>

theorem migration_text_roundtrip:
  assumes "statements \<noteq> []" "\<forall>s \<in> set statements. survives s"
  shows "GetStatementsFromDDL (Join statements ('';'' @ [newline])) =
      map (\<lambda>s. flattened s @ '';'') (butlast statements) @ [flattened (last statements)] \<and>
    (\<forall>s \<in> set statements. newline \<notin> set s \<longrightarrow> TrimSpace s = s \<longrightarrow> flattened s = s)"
  using ddl_of_joined [OF assms] flattened_line by blast

theorem migration_text_roundtrip_witness:
  "GetStatementsFromDDL (''drop table t;'' @ [newline] @ ''create function f() as'' @ [newline] @ ''$x$'' @ [newline] @
     ''begin; end;'' @ [newline] @ ''$x$ language sql'') =
     [''drop table t;'', ''create function f() as $x$ begin; end; $x$ language sql'']"
proof -
  let ?ss = "[''drop table t'', ''create function f() as'' @ [newline] @ ''$x$'' @ [newline] @
     ''begin; end;'' @ [newline] @ ''$x$ language sql'']"
  have s: "\<forall>s \<in> set ?ss. survives s" by code_simp
  have "map (\<lambda>s. flattened s @ '';'') (butlast ?ss) @ [flattened (last ?ss)] =
      [''drop table t;'', ''create function f() as $x$ begin; end; $x$ language sql'']" by code_simp
  then show ?thesis using migration_text_roundtrip [OF _ s] by simp
qed

section \<open>Sorting manifests\<close>

lemma mset_insert_left: "mset (insert_left lt x ys) = add_mset x (mset ys)"
  by (induction ys) auto

lemma set_insert_left: "set (insert_left lt x ys) = insert x (set ys)"
  by (induction ys) auto

lemma fold_insert_left_mset: "mset (fold (insert_left lt) xs ys) = mset xs + mset ys"
  by (induction xs arbitrary: ys) (auto simp: mset_insert_left)

lemma sorted_insert_left:
  assumes "\<forall>y \<in> set ys. lt x y \<longleftrightarrow> f x < f y" "sorted_wrt (\<lambda>a b. f b \<le> f a) ys"
  shows "sorted_wrt (\<lambda>a b. (f b :: 'k :: linorder) \<le> f a) (insert_left lt x ys)"
  using assms by (induction ys) (auto simp: set_insert_left)

lemma filter_insert_left:
  assumes "\<forall>y \<in> set ys. lt x y \<longleftrightarrow> f x < (f y :: 'k :: linorder)"
  shows "filter (\<lambda>y. k = f y) (rev (insert_left lt x ys)) =
    filter (\<lambda>y. k = f y) (rev ys) @ (if k = f x then [x] else [])"
  using assms by (induction ys) auto

lemma fold_insert_left:
  assumes "\<forall>a \<in> set xs \<union> set ys. \<forall>b \<in> set xs \<union> set ys. lt a b \<longleftrightarrow> f a < (f b :: 'k :: linorder)"
    and "sorted_wrt (\<lambda>a b. f b \<le> f a) ys"
  shows "sorted_wrt (\<lambda>a b. f b \<le> f a) (fold (insert_left lt) xs ys) \<and>
    filter (\<lambda>y. k = f y) (rev (fold (insert_left lt) xs ys)) =
      filter (\<lambda>y. k = f y) (rev ys) @ filter (\<lambda>y. k = f y) xs"
  using assms
proof (induction xs arbitrary: ys)
  case (Cons x xs)
  have "sorted_wrt (\<lambda>a b. f b \<le> f a) (insert_left lt x ys)"
    using Cons.prems by (intro sorted_insert_left) auto
  moreover have "filter (\<lambda>y. k = f y) (rev (insert_left lt x ys)) =
      filter (\<lambda>y. k = f y) (rev ys) @ (if k = f x then [x] else [])"
    using Cons.prems by (intro filter_insert_left) auto
  ultimately show ?case
    using Cons.IH [of "insert_left lt x ys"] Cons.prems(1) by (simp add: set_insert_left)
qed simp

lemma sort_Sort_sort_key:
  assumes "\<forall>a \<in> set xs. \<forall>b \<in> set xs. lt a b \<longleftrightarrow> f a < (f b :: 'k :: linorder)"
  shows "sort_Sort lt xs = sort_key f xs"
proof -
  note fi = fold_insert_left [of xs "[]" lt f, simplified, OF assms]
  have "sorted (map f (sort_Sort lt xs))"
    using fi unfolding sort_Sort_def by (simp add: sorted_wrt_map sorted_wrt_rev flip: rev_map)
  moreover have "mset (sort_Sort lt xs) = mset xs"
    by (simp add: sort_Sort_def fold_insert_left_mset)
  moreover have "filter (\<lambda>y. f k = f y) (sort_Sort lt xs) = filter (\<lambda>y. f k = f y) xs" for k
    using fi by (simp add: sort_Sort_def)
  ultimately show ?thesis by (metis properties_for_sort_key)
qed

definition own_manifest :: "(string \<Rightarrow> GroupKind result) \<Rightarrow> Spec \<Rightarrow> bool" where
  "own_manifest decode s =
     (case decode (sp_Spec s) of Inr g \<Rightarrow> gk_Group g = ''schemas.schemahero.io'' | Inl _ \<Rightarrow> False)"

definition manifest_key :: "(string \<Rightarrow> GroupKind result) \<Rightarrow> Spec \<Rightarrow> bool \<times> string" where
  "manifest_key decode s =
     (case decode (sp_Spec s) of Inr g \<Rightarrow> gk_Kind g \<noteq> ''Table'' | Inl _ \<Rightarrow> True, sp_SourceFilename s)"

lemma Specs_Less_key:
  "own_manifest decode a \<Longrightarrow> own_manifest decode b \<Longrightarrow>
   Specs_Less decode a b \<longleftrightarrow> manifest_key decode a < manifest_key decode b"
  by (auto simp: own_manifest_def manifest_key_def Specs_Less_def less_bool_def split: sum.splits)

text \<open>
  Sorting the manifests of the program's own resource group is the stable sort by (not a
  table, file name): the result has the same manifests, tables come first, and within each class
  file names ascend. A driver other than postgres or timescaledb leaves the order alone.
\<close>

theorem SortSpecs_correct:
  assumes "\<forall>s \<in> set specs. own_manifest decode s"
  shows "SortSpecs decode d specs =
    (if db_Driver d \<in> {''postgres'', ''timescaledb''} then sort_key (manifest_key decode) specs else specs)"
  using assms by (simp add: SortSpecs_def sort_Sort_sort_key Specs_Less_key)

definition blank_database :: "string \<Rightarrow> 'db Database" where
  "blank_database driver =
     \<lparr> db_InputDir = [], db_OutputDir = [], db_Driver = driver, db_URI = [], db_Hosts = [], db_Username = [],
       db_Password = [], db_Keyspace = [], db_DeploySeedData = False, db_pluginManager = None \<rparr>"

theorem SortSpecs_correct_witness:
  "SortSpecs (\<lambda>s. Inr \<lparr> gk_Group = ''schemas.schemahero.io'', gk_Kind = s \<rparr>) (blank_database ''postgres'' :: unit Database)
     [\<lparr> sp_SourceFilename = ''a'', sp_Spec = ''View'' \<rparr>, \<lparr> sp_SourceFilename = ''z'', sp_Spec = ''Table'' \<rparr>,
      \<lparr> sp_SourceFilename = ''b'', sp_Spec = ''Table'' \<rparr>] =
     [\<lparr> sp_SourceFilename = ''b'', sp_Spec = ''Table'' \<rparr>, \<lparr> sp_SourceFilename = ''z'', sp_Spec = ''Table'' \<rparr>,
      \<lparr> sp_SourceFilename = ''a'', sp_Spec = ''View'' \<rparr>]"
  by (subst SortSpecs_correct) (simp_all add: own_manifest_def manifest_key_def blank_database_def)

section \<open>The contract of a deployment\<close>

text \<open>
  What the callers of DeployStatements rely on: the statements are executed one by one, empty
  ones are skipped, and the first error ends the deployment.
\<close>

locale deployment =
  fixes deploy :: "string list \<Rightarrow> 'db \<Rightarrow> go_error option \<times> 'db"
    and exec :: "string \<Rightarrow> 'db \<Rightarrow> go_error option \<times> 'db"
  assumes deploy_Nil: "deploy [] db = (None, db)"
    and deploy_Cons: "deploy (s # ss) db =
      (if s = [] then deploy ss db
       else (case exec s db of (Some e, db') \<Rightarrow> (Some e, db') | (None, db') \<Rightarrow> deploy ss db'))"
begin

lemma deploy_append:
  "deploy (xs @ ys) db = (case deploy xs db of (Some e, db') \<Rightarrow> (Some e, db') | (None, db') \<Rightarrow> deploy ys db')"
  by (induction xs arbitrary: db) (auto simp: deploy_Nil deploy_Cons split: prod.splits option.splits)

lemma error_at:
  "deploy ss db = (Some e, db') \<Longrightarrow>
   \<exists>before stmt rest mid. ss = before @ stmt # rest \<and> stmt \<noteq> [] \<and> deploy before db = (None, mid) \<and>
     exec stmt mid = (Some e, db')"
proof (induction ss arbitrary: db)
  case Nil
  then show ?case by (simp add: deploy_Nil)
next
  case (Cons s ss)
  obtain r mid where ex: "exec s db = (r, mid)" by force
  show ?case
  proof (cases "s \<noteq> [] \<and> r \<noteq> None")
    case True
    then have "s # ss = [] @ s # ss" "exec s db = (Some e, db')"
      using Cons.prems ex by (auto simp: deploy_Cons split: option.splits)
    then show ?thesis using True deploy_Nil by blast
  next
    case False
    define db1 where "db1 = (if s = [] then db else mid)"
    have "deploy ss db1 = (Some e, db')"
      using Cons.prems ex False by (auto simp: deploy_Cons db1_def split: if_splits option.splits)
    from Cons.IH [OF this] obtain before stmt rest m where
      b: "ss = before @ stmt # rest" "stmt \<noteq> []" "deploy before db1 = (None, m)" "exec stmt m = (Some e, db')"
      by blast
    then have "s # ss = (s # before) @ stmt # rest" "deploy (s # before) db = (None, m)"
      using ex False by (auto simp: deploy_Cons db1_def split: if_splits option.splits)
    then show ?thesis using b by blast
  qed
qed

lemma error_iff:
  "deploy ss db = (Some e, db') \<longleftrightarrow>
   (\<exists>before stmt rest mid. ss = before @ stmt # rest \<and> stmt \<noteq> [] \<and> deploy before db = (None, mid) \<and>
      exec stmt mid = (Some e, db'))"
proof
  assume "deploy ss db = (Some e, db')"
  then show "\<exists>before stmt rest mid. ss = before @ stmt # rest \<and> stmt \<noteq> [] \<and> deploy before db = (None, mid) \<and>
      exec stmt mid = (Some e, db')" by (rule error_at)
qed (auto simp: deploy_append deploy_Cons)

end

end
