(* ===== verification/Db_Query.thy ===== *)
theory Db_Query
  imports Db_Types
begin

text \<open>
  What the plugins share when they read a catalog: the result of a query, the loop that scans its
  rows, and the value of a pointer that is dereferenced although it is nil.
\<close>

text \<open>
  \<open>Query\<close> is an error or the rows it delivers, each of which \<open>rows.Scan\<close> reads or fails on. As in the
  sources nothing is read after \<open>rows.Next()\<close> became false, so a connection lost in the middle of
  a result shows as a shorter list of rows.
\<close>

type_synonym 'row rows = "'row result list result"

text \<open>The loop \<^verbatim>\<open>for rows.Next() { rows.Scan(...) ... }\<close> that returns at the first error of Scan.\<close>

definition scan_rows :: "(go_error \<Rightarrow> go_error) \<Rightarrow> ('row \<Rightarrow> 'a) \<Rightarrow> 'row result list \<Rightarrow> 'a list result" where
  "scan_rows on_error f rs =
     mapE (\<lambda>r. case r of Inl e \<Rightarrow> Inl (on_error e) | Inr row \<Rightarrow> Inr (f row)) rs"

definition query_rows ::
  "string \<Rightarrow> (go_error \<Rightarrow> go_error) \<Rightarrow> ('row \<Rightarrow> 'a) \<Rightarrow> 'row rows \<Rightarrow> 'a list result" where
  "query_rows msg on_error f q = bindE (wrapE msg q) (scan_rows on_error f)"

definition with_max_length :: "string \<Rightarrow> int option \<Rightarrow> string" where
  "with_max_length dataType maxLength =
     (case maxLength of None \<Rightarrow> dataType | Some n \<Rightarrow> dataType @ '' ('' @ Itoa n @ '')'')"

definition not_null_of :: "Column \<Rightarrow> bool option" where
  "not_null_of col = (case col_Constraints col of None \<Rightarrow> None | Some c \<Rightarrow> cc_NotNull c)"

definition nil_dereference :: "'a result" where
  "nil_dereference = Inl (GoPanic ''invalid memory address or nil pointer dereference'')"

end
