(* ===== verification/Go_Regexp.thy ===== *)
theory Go_Regexp
  imports Go_Prelude
begin

text \<open>
  The part of the package regexp the sources use: regexp.MustCompile of a pattern that is a
  sequence of literals, starred character classes and capture groups, and FindStringSubmatch
  with the leftmost-first (Perl-like) semantics of that package. A starred class is greedy and
  gives characters back one by one; the leftmost start that matches wins.

  In the syntax of RE2, \<^verbatim>\<open>\s\<close> is \<^verbatim>\<open>[\t\n\f\r ]\<close>, \<^verbatim>\<open>\d\<close> is \<^verbatim>\<open>[0-9]\<close> and \<^verbatim>\<open>.\<close> is any
  byte but the line feed.
\<close>

datatype char_class = CSpace | CDigit | CAny

fun in_class :: "char_class \<Rightarrow> char \<Rightarrow> bool" where
  "in_class CSpace c = (byte c = 9 \<or> byte c = 10 \<or> byte c = 12 \<or> byte c = 13 \<or> byte c = 32)"
| "in_class CDigit c = is_digit c"
| "in_class CAny c = (byte c \<noteq> 10)"

text \<open>\<open>ROpen\<close> and \<open>RClose\<close> delimit a capture group; groups are not nested.\<close>

datatype regexp_item =
    RLit string
  | ROne char_class
  | RStar char_class
  | ROpen
  | RClose

type_synonym regexp = "regexp_item list"

fun first_down :: "(nat \<Rightarrow> 'a option) \<Rightarrow> nat \<Rightarrow> 'a option" where
  "first_down f 0 = f 0"
| "first_down f (Suc n) = (case f (Suc n) of Some x \<Rightarrow> Some x | None \<Rightarrow> first_down f n)"

definition capture :: "string option \<Rightarrow> string \<Rightarrow> string option" where
  "capture cur s = map_option (\<lambda>g. g @ s) cur"

text \<open>
  \<open>match_here p s cur gs\<close> matches \<open>p\<close> at the start of \<open>s\<close>; \<open>cur\<close> is the text of the group
  that is open, \<open>gs\<close> the groups already closed. The result is the list of all groups.
\<close>

primrec match_here :: "regexp \<Rightarrow> string \<Rightarrow> string option \<Rightarrow> string list \<Rightarrow> string list option" where
  "match_here [] s cur gs = Some gs"
| "match_here (i # p) s cur gs =
     (case i of
        RLit l \<Rightarrow> if HasPrefix s l then match_here p (drop (length l) s) (capture cur l) gs else None
      | ROne k \<Rightarrow> (case s of
            [] \<Rightarrow> None
          | c # cs \<Rightarrow> if in_class k c then match_here p cs (capture cur [c]) gs else None)
      | RStar k \<Rightarrow>
          first_down (\<lambda>n. match_here p (drop n s) (capture cur (take n s)) gs)
            (length (takeWhile (in_class k) s))
      | ROpen \<Rightarrow> match_here p s (Some []) gs
      | RClose \<Rightarrow> match_here p s None (gs @ [case cur of None \<Rightarrow> [] | Some g \<Rightarrow> g]))"

text \<open>
  FindStringSubmatch: the groups of the leftmost match, without the text of the whole match
  that Go returns first; \<^const>\<open>None\<close> is Go's nil slice.
\<close>

fun FindStringSubmatch :: "regexp \<Rightarrow> string \<Rightarrow> string list option" where
  "FindStringSubmatch p [] = match_here p [] None []"
| "FindStringSubmatch p (c # cs) =
     (case match_here p (c # cs) None [] of Some gs \<Rightarrow> Some gs | None \<Rightarrow> FindStringSubmatch p cs)"

section \<open>Symbolic execution of a match\<close>

lemma capture_simps [simp]:
  "capture None s = None" "capture (Some g) s = Some (g @ s)"
  by (simp_all add: capture_def)

lemma match_here_lit [simp]:
  "match_here (RLit l # p) (l @ s) cur gs = match_here p s (capture cur l) gs"
  by simp

lemma first_down_top: "f n = Some x \<Longrightarrow> first_down f n = Some x"
  by (cases n) auto

lemma first_down_None: "(\<And>k. k \<le> n \<Longrightarrow> f k = None) \<Longrightarrow> first_down f n = None"
  by (induction n) auto

lemma match_here_star:
  assumes xs: "list_all (in_class k) xs" and ys: "ys = [] \<or> \<not> in_class k (hd ys)"
    and ok: "match_here p ys (capture cur xs) gs = Some r"
  shows "match_here (RStar k # p) (xs @ ys) cur gs = Some r"
proof -
  have "takeWhile (in_class k) (xs @ ys) = xs"
    using xs ys by (cases ys) (auto simp: list_all_iff takeWhile_append)
  then show ?thesis
    by (simp add: first_down_top ok)
qed

lemma FindStringSubmatch_here:
  "match_here p s None [] = Some r \<Longrightarrow> FindStringSubmatch p s = Some r"
  by (cases s) auto

text \<open>A pattern that starts with a literal cannot match a string that does not contain it.\<close>

lemma FindStringSubmatch_lit_None:
  "l \<noteq> [] \<Longrightarrow> \<not> Contains s l \<Longrightarrow> FindStringSubmatch (RLit l # p) s = None"
proof (induction s)
  case Nil
  then show ?case by (cases l) auto
next
  case (Cons c s)
  then have "\<not> HasPrefix (c # s) l" "\<not> Contains s l"
    by (auto simp: Contains_def split: if_splits)
  with Cons show ?case by simp
qed

lemma first_down_Some:
  "m \<le> n \<Longrightarrow> f m = Some x \<Longrightarrow> (\<And>k. m < k \<Longrightarrow> k \<le> n \<Longrightarrow> f k = None) \<Longrightarrow> first_down f n = Some x"
proof (induction n)
  case (Suc n)
  then show ?case by (cases "m = Suc n") auto
qed simp

lemma first_down_SomeD: "first_down f n = Some x \<Longrightarrow> \<exists>k. f k = Some x"
  by (induction n) (auto split: option.splits)

text \<open>Every byte of a literal of the pattern occurs in a string that matches.\<close>

lemma match_here_literals:
  "match_here p s cur gs = Some r \<Longrightarrow> RLit l \<in> set p \<Longrightarrow> set l \<subseteq> set s"
proof (induction p arbitrary: s cur gs)
  case (Cons i p)
  show ?case
  proof (cases i)
    case (RLit l')
    then obtain s' where s: "s = l' @ s'" "match_here p s' (capture cur l') gs = Some r"
      using Cons.prems(1) by (auto simp: HasPrefix_iff split: if_splits)
    then show ?thesis using Cons.IH [OF s(2)] Cons.prems(2) RLit by auto
  next
    case (ROne k)
    then obtain c s' where s: "s = c # s'" "match_here p s' (capture cur [c]) gs = Some r"
      using Cons.prems(1) by (auto split: list.splits if_splits)
    then show ?thesis using Cons.IH [OF s(2)] Cons.prems(2) ROne by auto
  next
    case (RStar k)
    then obtain n where n: "match_here p (drop n s) (capture cur (take n s)) gs = Some r"
      using Cons.prems(1) by (auto dest: first_down_SomeD)
    then show ?thesis using Cons.IH [OF n] Cons.prems(2) RStar set_drop_subset [of n s] by auto
  qed (use Cons in auto)
qed simp

lemma FindStringSubmatch_literals:
  "FindStringSubmatch p s = Some r \<Longrightarrow> RLit l \<in> set p \<Longrightarrow> set l \<subseteq> set s"
proof (induction s)
  case Nil
  then show ?case using match_here_literals [of p "[]"] by auto
next
  case (Cons c s)
  show ?case
  proof (cases "match_here p (c # s) None []")
    case None
    then show ?thesis using Cons by (auto simp: subset_insertI2)
  next
    case (Some r')
    then show ?thesis using match_here_literals [OF Some Cons.prems(2)] by simp
  qed
qed

lemma list_all_digit_class: "list_all (in_class CDigit) s = list_all is_digit s"
  by (simp add: list_all_iff)

text \<open>The shape \<^verbatim>\<open>name (<digits>)\<close>, which most parameterised column types have.\<close>

abbreviation re_paren_digits :: "string \<Rightarrow> regexp" where
  "re_paren_digits name \<equiv>
     [RLit name, RStar CSpace, RLit ''('', ROpen, RStar CDigit, RClose, RLit '')'']"

abbreviation re_paren_space_digits :: "string \<Rightarrow> regexp" where
  "re_paren_space_digits name \<equiv>
     [RLit name, RStar CSpace, RLit ''('', RStar CSpace, ROpen, RStar CDigit, RClose,
      RStar CSpace, RLit '')'']"

abbreviation re_paren_two_digits :: "string \<Rightarrow> regexp" where
  "re_paren_two_digits name \<equiv>
     [RLit name, RStar CSpace, RLit ''('', RStar CSpace, ROpen, RStar CDigit, RClose,
      RLit '','', RStar CSpace, ROpen, RStar CDigit, RClose, RStar CSpace, RLit '')'']"

abbreviation re_paren_any :: "string \<Rightarrow> regexp" where
  "re_paren_any name \<equiv>
     [RLit name, RStar CSpace, RLit ''('', RStar CSpace, ROpen, RStar CAny, RClose,
      RStar CSpace, RLit '')'']"

lemma not_class_paren [simp]:
  "\<not> in_class CDigit rparen" "\<not> in_class CSpace lparen" "\<not> in_class CSpace rparen"
  by (simp_all add: is_digit_def byte_def)

lemma digit_not_space: "is_digit c \<Longrightarrow> \<not> in_class CSpace c"
  by (auto simp: is_digit_def)

lemma find_paren_digits:
  assumes ds: "list_all is_digit ds"
  shows "FindStringSubmatch (re_paren_digits name) (name @ '' ('' @ ds @ '')'') = Some [ds]"
proof (rule FindStringSubmatch_here)
  have star: "match_here [RStar CDigit, RClose, RLit '')''] (ds @ '')'') (Some []) [] = Some [ds]"
    by (rule match_here_star) (simp_all add: ds list_all_digit_class del: in_class.simps)
  have "match_here (RStar CSpace # RLit ''('' # ROpen # RStar CDigit # RClose # RLit '')'' # [])
      ('' '' @ (''('' @ ds @ '')'')) None [] = Some [ds]"
    by (rule match_here_star) (use star in \<open>simp_all add: byte_def\<close>)
  then show "match_here (re_paren_digits name) (name @ '' ('' @ ds @ '')'') None [] = Some [ds]"
    by (simp del: match_here.simps add: match_here_lit)
qed

lemma find_paren_space_digits:
  assumes ds: "list_all is_digit ds"
  shows "FindStringSubmatch (re_paren_space_digits name) (name @ '' ('' @ ds @ '')'') = Some [ds]"
proof (rule FindStringSubmatch_here)
  have sp: "match_here [RStar CSpace, RLit '')''] ([] @ '')'') None [ds] = Some [ds]"
    by (rule match_here_star) (simp_all del: in_class.simps)
  have "match_here [RStar CDigit, RClose, RStar CSpace, RLit '')''] (ds @ '')'') (Some []) [] = Some [ds]"
    by (rule match_here_star)
       (use sp in \<open>simp_all add: ds list_all_digit_class del: in_class.simps\<close>)
  moreover have "\<not> in_class CSpace (hd (ds @ '')''))"
    using ds digit_not_space by (cases ds) (auto simp del: in_class.simps)
  ultimately have star: "match_here (RStar CSpace # ROpen # RStar CDigit # RClose # RStar CSpace # [RLit '')''])
      ([] @ (ds @ '')'')) None [] = Some [ds]"
    by (intro match_here_star) (simp_all del: in_class.simps)
  have "match_here (RStar CSpace # RLit ''('' # RStar CSpace # ROpen # RStar CDigit # RClose # RStar CSpace # [RLit '')''])
      ('' '' @ (''('' @ ds @ '')'')) None [] = Some [ds]"
    by (rule match_here_star) (use star in \<open>simp_all add: byte_def\<close>)
  then show "match_here (re_paren_space_digits name) (name @ '' ('' @ ds @ '')'') None [] = Some [ds]"
    by (simp del: match_here.simps add: match_here_lit)
qed

text \<open>A type name with a length, as it is normalised.\<close>

abbreviation with_length :: "string \<Rightarrow> nat \<Rightarrow> string" where
  "with_length name n \<equiv> name @ '' ('' @ nat_str n @ '')''"

end
