(* ===== verification/Pg_Column.thy ===== *)
theory Pg_Column
  imports Db_Query Go_Regexp
begin

text \<open>
  Column types and column statements of the PostgreSQL plugin: src/plugins/postgres/lib/alias.go,
  parameterized.go, column.go, oid.go, udt.go and alter.go, and the table-name helpers of
  helpers.go and connection.go.

  \<^verbatim>\<open>pgx.Identifier{...}.Sanitize()\<close> belongs to the driver; it is the parameter \<open>san\<close> of every
  definition that quotes an identifier, a function from the parts of a name to its quoted form.
\<close>

section \<open>Table names (helpers.go, connection.go)\<close>

definition splitQualifiedTableName :: "string \<Rightarrow> string \<times> string" where
  "splitQualifiedTableName tableName =
     (case Index tableName ''.'' of
        Some idx \<Rightarrow> (take idx tableName, drop (idx + 1) tableName)
      | None \<Rightarrow> ([], tableName))"

definition sanitizeTableName :: "(string list \<Rightarrow> string) \<Rightarrow> string \<Rightarrow> string" where
  "sanitizeTableName san tableName =
     (case splitQualifiedTableName tableName of
        (schema, table) \<Rightarrow> if schema \<noteq> [] then san [schema, table] else san [tableName])"

definition qualifyTableName :: "(string list \<Rightarrow> string) \<Rightarrow> string \<Rightarrow> string" where
  "qualifyTableName san tableName =
     (case splitQualifiedTableName tableName of
        (schema, table) \<Rightarrow> if schema \<noteq> [] then san [schema, table] else tableName)"

definition SanitizeArray :: "(string list \<Rightarrow> string) \<Rightarrow> string list \<Rightarrow> string list" where
  "SanitizeArray san idents = map (\<lambda>ident. san [ident]) idents"

section \<open>Type aliases (alias.go)\<close>

definition unparameterizedColumnTypes :: "string list" where
  "unparameterizedColumnTypes =
     [''bigint'', ''bigserial'', ''boolean'', ''box'', ''bytea'', ''cidr'', ''circle'', ''citext'',
      ''date'', ''double precision'', ''inet'', ''integer'', ''json'', ''jsonb'', ''line'', ''lseg'',
      ''macaddr'', ''money'', ''path'', ''pg_lsn'', ''point'', ''polygon'', ''real'', ''smallint'',
      ''smallserial'', ''serial'', ''text'', ''tsquery'', ''tsvector'', ''txid_snapshot'', ''uuid'',
      ''xml'']"

text \<open>The empty string stands, as in the source, for \<^emph>\<open>no such alias\<close>.\<close>

definition unaliasUnparameterizedColumnType :: "string \<Rightarrow> string" where
  "unaliasUnparameterizedColumnType requestedType =
     (if requestedType = ''int8'' then ''bigint''
      else if requestedType = ''serial8'' then ''bigserial''
      else if requestedType = ''bool'' then ''boolean''
      else if requestedType = ''float8'' then ''double precision''
      else if requestedType = ''int'' then ''integer''
      else if requestedType = ''int4'' then ''integer''
      else if requestedType = ''float4'' then ''real''
      else if requestedType = ''int2'' then ''smallint''
      else if requestedType = ''serial2'' then ''smallserial''
      else if requestedType = ''serial4'' then ''serial''
      else if requestedType \<in> set unparameterizedColumnTypes then requestedType
      else [])"

definition unaliasParameterizedColumnType :: "string \<Rightarrow> string" where
  "unaliasParameterizedColumnType requestedType =
     (if HasPrefix requestedType ''varbit'' then
        (case FindStringSubmatch (re_paren_digits ''varbit'') requestedType of
           None \<Rightarrow> ''bit varying''
         | Some g \<Rightarrow> ''bit varying ('' @ g ! 0 @ '')'')
      else if HasPrefix requestedType ''char '' \<or> HasPrefix requestedType ''char('' \<or>
              requestedType = ''character'' \<or> requestedType = ''char'' then
        (case FindStringSubmatch (re_paren_digits ''char'') requestedType of
           None \<Rightarrow> ''character''
         | Some g \<Rightarrow> ''character ('' @ g ! 0 @ '')'')
      else if HasPrefix requestedType ''varchar'' then
        (case FindStringSubmatch (re_paren_space_digits ''varchar'') requestedType of
           None \<Rightarrow> ''character varying''
         | Some g \<Rightarrow> ''character varying ('' @ g ! 0 @ '')'')
      else if HasPrefix requestedType ''decimal'' then
        (case FindStringSubmatch (re_paren_two_digits ''decimal'') requestedType of
           Some g \<Rightarrow> ''numeric ('' @ g ! 0 @ '', '' @ g ! 1 @ '')''
         | None \<Rightarrow>
             (case FindStringSubmatch (re_paren_space_digits ''decimal'') requestedType of
                None \<Rightarrow> ''numeric''
              | Some g \<Rightarrow> ''numeric ('' @ g ! 0 @ '')''))
      else if HasPrefix requestedType ''timetz'' then
        (case FindStringSubmatch (re_paren_any ''timetz'') requestedType of
           None \<Rightarrow> ''time with time zone''
         | Some g \<Rightarrow> ''time ('' @ g ! 0 @ '') with time zone'')
      else if HasPrefix requestedType ''timestamptz'' then
        (case FindStringSubmatch (re_paren_any ''timestamptz'') requestedType of
           None \<Rightarrow> ''timestamp with time zone''
         | Some g \<Rightarrow> ''timestamp ('' @ g ! 0 @ '') with time zone'')
      else [])"

section \<open>Parameterised types (parameterized.go)\<close>

text \<open>The four character and bit types: the name, and the length or 1.\<close>

definition parse_length_type :: "string \<Rightarrow> string \<Rightarrow> string result" where
  "parse_length_type name requestedType =
     (case FindStringSubmatch (re_paren_digits name) requestedType of
        None \<Rightarrow> Inr (name @ '' (1)'')
      | Some g \<Rightarrow> bindE (Atoi (g ! 0)) (\<lambda>max. Inr (name @ '' ('' @ Itoa max @ '')'')))"

text \<open>
  The patterns of the \<^verbatim>\<open>timestamp\<close> and \<^verbatim>\<open>time\<close> branches. In the branch of \<^verbatim>\<open>time\<close> the pattern
  for a precision with a time zone is the one of \<^verbatim>\<open>timestamp\<close>, and the text it would print is taken
  from the groups of another match, which is nil at that point: reading its element 1 panics.
\<close>

abbreviation re_zone :: "string \<Rightarrow> string \<Rightarrow> regexp" where
  "re_zone name zone \<equiv> [RLit name, RStar CSpace, RLit zone]"

definition parse_timestamp_type :: "string \<Rightarrow> string" where
  "parse_timestamp_type requestedType =
     (case FindStringSubmatch
             (re_paren_any ''timestamp'' @ [RStar CSpace, RLit ''without time zone'']) requestedType of
        Some g \<Rightarrow> ''timestamp ('' @ g ! 0 @ '') without time zone''
      | None \<Rightarrow>
          if FindStringSubmatch (re_zone ''timestamp'' ''without time zone'') requestedType \<noteq> None
          then ''timestamp without time zone''
          else
            (case FindStringSubmatch
                    (re_paren_any ''timestamp'' @ [RStar CSpace, RLit ''with time zone'']) requestedType of
               Some g \<Rightarrow> ''timestamp ('' @ g ! 0 @ '') with time zone''
             | None \<Rightarrow>
                 if FindStringSubmatch (re_zone ''timestamp'' ''with time zone'') requestedType \<noteq> None
                 then ''timestamp with time zone''
                 else
                   (case FindStringSubmatch (re_paren_any ''timestamp'') requestedType of
                      Some g \<Rightarrow> ''timestamp ('' @ g ! 0 @ '')''
                    | None \<Rightarrow> ''timestamp'')))"

definition parse_time_type :: "string \<Rightarrow> string result" where
  "parse_time_type requestedType =
     (case FindStringSubmatch
             (re_paren_any ''time'' @ [RStar CSpace, RLit ''without time zone'']) requestedType of
        Some g \<Rightarrow> Inr (''time ('' @ g ! 0 @ '') without time zone'')
      | None \<Rightarrow>
          if FindStringSubmatch (re_zone ''time'' ''without time zone'') requestedType \<noteq> None
          then Inr ''time without time zone''
          else if FindStringSubmatch
                    (re_paren_any ''timestamp'' @ [RStar CSpace, RLit ''with time zone'']) requestedType \<noteq> None
          then Inl (GoPanic ''index out of range'')
          else if FindStringSubmatch (re_zone ''time'' ''with time zone'') requestedType \<noteq> None
          then Inr ''time with time zone''
          else
            (case FindStringSubmatch (re_paren_any ''time'') requestedType of
               Some g \<Rightarrow> Inr (''time ('' @ g ! 0 @ '')'')
             | None \<Rightarrow> Inr ''time''))"

definition maybeParseParameterizedColumnType :: "string \<Rightarrow> string result" where
  "maybeParseParameterizedColumnType requestedType =
     (if HasPrefix requestedType ''bit varying'' then parse_length_type ''bit varying'' requestedType
      else if HasPrefix requestedType ''bit'' then parse_length_type ''bit'' requestedType
      else if HasPrefix requestedType ''character varying''
      then parse_length_type ''character varying'' requestedType
      else if HasPrefix requestedType ''character'' then parse_length_type ''character'' requestedType
      else if HasPrefix requestedType ''timestamp'' then Inr (parse_timestamp_type requestedType)
      else if HasPrefix requestedType ''time'' then parse_time_type requestedType
      else if HasPrefix requestedType ''numeric'' then
        (case FindStringSubmatch (re_paren_two_digits ''numeric'') requestedType of
           Some g \<Rightarrow> Inr (''numeric ('' @ g ! 0 @ '', '' @ g ! 1 @ '')'')
         | None \<Rightarrow>
             (case FindStringSubmatch (re_paren_space_digits ''numeric'') requestedType of
                Some g \<Rightarrow> Inr (''numeric ('' @ g ! 0 @ '')'')
              | None \<Rightarrow> Inr ''numeric''))
      else if HasPrefix requestedType ''vector'' then
        (case FindStringSubmatch (re_paren_space_digits ''vector'') requestedType of
           Some g \<Rightarrow> Inr (''vector ('' @ g ! 0 @ '')'')
         | None \<Rightarrow> Inr ''vector'')
      else Inr [])"

definition isParameterizedColumnType :: "string \<Rightarrow> bool" where
  "isParameterizedColumnType requestedType =
     (\<not> list_ex (\<lambda>t. t = requestedType) unparameterizedColumnTypes)"

section \<open>Column defaults and user-defined types (oid.go, udt.go)\<close>

definition oidClassRegexp :: regexp where
  "oidClassRegexp =
     [ROpen, RLit [squote], RStar CAny, RLit [squote], RClose, RLit ''::'', ROne CAny, RStar CAny]"

definition stripOIDClass :: "string \<Rightarrow> string" where
  "stripOIDClass value =
     (case FindStringSubmatch oidClassRegexp value of Some g \<Rightarrow> g ! 0 | None \<Rightarrow> value)"

definition formatColumnDefault :: "string \<Rightarrow> string" where
  "formatColumnDefault raw =
     (let value = stripOIDClass raw
      in if HasPrefix value [squote] \<or> Contains value ''('' then value
         else [squote] @ value @ [squote])"

definition UDTNameToDataType :: "string \<Rightarrow> string" where
  "UDTNameToDataType udtName =
     (if udtName = ''_int4'' then ''integer''
      else if udtName = ''_text'' then ''text''
      else udtName)"

section \<open>Columns (column.go)\<close>

text \<open>The type a requested type stands for, before parameters are parsed.\<close>

definition unalias_requested :: "string \<Rightarrow> string" where
  "unalias_requested requestedType =
     (let unaliased = unaliasUnparameterizedColumnType requestedType;
          requestedType = (if unaliased \<noteq> [] then unaliased else requestedType);
          unaliased = unaliasParameterizedColumnType requestedType
      in if unaliased \<noteq> [] then unaliased else requestedType)"

definition schemaColumnToColumn :: "PostgresqlTableColumn \<Rightarrow> Column result" where
  "schemaColumnToColumn schemaColumn =
     (let base = hd (SplitByte (pcol_Type schemaColumn) (CHR ''[''));
          column = \<lparr> col_Name = pcol_Name schemaColumn, col_DataType = [],
                     col_ColumnDefault = pcol_Default schemaColumn,
                     col_Constraints =
                       map_option (\<lambda>c. \<lparr> cc_NotNull = pcc_NotNull c \<rparr>) (pcol_Constraints schemaColumn),
                     col_Attributes = None,
                     col_IsArray = (length base < length (pcol_Type schemaColumn)),
                     col_Charset = [], col_Collation = [], col_IsStatic = False \<rparr>;
          requestedType = unalias_requested base
      in if \<not> isParameterizedColumnType requestedType
         then Inr (column \<lparr> col_DataType := requestedType \<rparr>)
         else bindE (maybeParseParameterizedColumnType requestedType)
           (\<lambda>columnType.
              if columnType \<noteq> [] then Inr (column \<lparr> col_DataType := columnType \<rparr>)
              else Inr (column \<lparr> col_DataType := requestedType \<rparr>)))"

definition columnAsInsert :: "(string list \<Rightarrow> string) \<Rightarrow> PostgresqlTableColumn \<Rightarrow> string result" where
  "columnAsInsert san column =
     bindE (schemaColumnToColumn column) (\<lambda>postgresColumn.
       let arraySpecifier = (if col_IsArray postgresColumn then ''[]'' else []);
           formatted = san [pcol_Name column] @ '' '' @ col_DataType postgresColumn @ arraySpecifier;
           formatted =
             (case col_Constraints postgresColumn of
                None \<Rightarrow> formatted
              | Some c \<Rightarrow>
                  (case cc_NotNull c of
                     None \<Rightarrow> formatted
                   | Some True \<Rightarrow> formatted @ '' not null''
                   | Some False \<Rightarrow> formatted @ '' null''))
       in Inr (case col_ColumnDefault postgresColumn of
                 None \<Rightarrow> formatted
               | Some d \<Rightarrow> formatted @ '' default '' @ formatColumnDefault d))"

definition InsertColumnStatement ::
  "(string list \<Rightarrow> string) \<Rightarrow> string \<Rightarrow> PostgresqlTableColumn \<Rightarrow> string result" where
  "InsertColumnStatement san tableName desiredColumn =
     bindE (columnAsInsert san desiredColumn) (\<lambda>columnFields.
       Inr (''alter table '' @ sanitizeTableName san tableName @ '' add column '' @ columnFields))"

section \<open>Altering a column (alter.go)\<close>

definition columnDefaultsEqual :: "string option \<Rightarrow> string option \<Rightarrow> bool" where
  "columnDefaultsEqual a b =
     (case (a, b) of
        (None, None) \<Rightarrow> True
      | (Some a, Some b) \<Rightarrow> CanonicalizeSQLExpr a = CanonicalizeSQLExpr b
      | _ \<Rightarrow> False)"

definition default_time_zone :: "string \<Rightarrow> string" where
  "default_time_zone dataType =
     (if dataType = ''timestamp'' then ''timestamp without time zone''
      else if dataType = ''time'' then ''time without time zone''
      else dataType)"

definition columnsMatch :: "Column \<Rightarrow> Column \<Rightarrow> bool" where
  "columnsMatch col1 col2 =
     (if default_time_zone (col_DataType col1) \<noteq> default_time_zone (col_DataType col2) then False
      else if col_IsArray col1 \<noteq> col_IsArray col2 then False
      else if \<not> columnDefaultsEqual (col_ColumnDefault col1) (col_ColumnDefault col2) then False
      else BoolsEqual (not_null_of col1) (not_null_of col2))"

text \<open>The three steps that add \<^verbatim>\<open>not null\<close> to an existing column.\<close>

definition not_null_statements :: "(string list \<Rightarrow> string) \<Rightarrow> string \<Rightarrow> Column \<Rightarrow> Column \<Rightarrow> string list" where
  "not_null_statements san tableName existingColumn column =
     (case col_ColumnDefault column of
        None \<Rightarrow> []
      | Some d \<Rightarrow>
          (if \<not> columnDefaultsEqual (col_ColumnDefault existingColumn) (col_ColumnDefault column)
           then [''alter table '' @ sanitizeTableName san tableName @ '' alter column '' @
                 san [col_Name existingColumn] @ '' set default '' @ formatColumnDefault d]
           else []) @
          [''update '' @ sanitizeTableName san tableName @ '' set '' @ san [col_Name existingColumn] @
           ''='' @ formatColumnDefault d @ '' where '' @ san [col_Name existingColumn] @ '' is null'']) @
     [''alter table '' @ sanitizeTableName san tableName @ '' alter column '' @
      san [col_Name existingColumn] @ '' set not null'']"

definition column_changes :: "(string list \<Rightarrow> string) \<Rightarrow> string list \<Rightarrow> Column \<Rightarrow> Column \<Rightarrow> string list" where
  "column_changes san primaryKeys existingColumn column =
     (let alterStatement = ''alter column '' @ san [col_Name existingColumn]
      in if col_DataType column \<noteq> ''serial'' \<and> col_DataType column \<noteq> ''bigserial'' then
           (if col_DataType existingColumn \<noteq> col_DataType column
            then [alterStatement @ '' type '' @ col_DataType column]
            else if col_IsArray column \<noteq> col_IsArray existingColumn
            then [alterStatement @ '' type '' @ col_DataType column @ ''[] using '' @
                  san [col_Name existingColumn] @ ''::'' @ col_DataType column @ ''[]'']
            else []) @
           (case col_ColumnDefault column of
              Some d \<Rightarrow>
                if \<not> columnDefaultsEqual (col_ColumnDefault existingColumn) (col_ColumnDefault column)
                then [alterStatement @ '' set default '' @ formatColumnDefault d]
                else []
            | None \<Rightarrow>
                if col_ColumnDefault existingColumn \<noteq> None then [alterStatement @ '' drop default''] else []) @
           (if (col_Constraints column \<noteq> None \<or> col_Constraints existingColumn \<noteq> None) \<and>
               \<not> list_ex (\<lambda>primaryKey. col_Name column = primaryKey) primaryKeys \<and>
               not_null_of existingColumn = Some True \<and> not_null_of column \<noteq> Some True
            then [alterStatement @ '' drop not null'']
            else [])
         else [])"

definition alter_matched_column ::
  "(string list \<Rightarrow> string) \<Rightarrow> string \<Rightarrow> string list \<Rightarrow> Column \<Rightarrow> Column \<Rightarrow> string list" where
  "alter_matched_column san tableName primaryKeys existingColumn column =
     (if columnsMatch existingColumn column then []
      else if not_null_of column = Some True \<and> not_null_of existingColumn \<noteq> Some True
      then not_null_statements san tableName existingColumn column
      else
        (let changes = column_changes san primaryKeys existingColumn column
         in if changes = [] then []
            else [''alter table '' @ sanitizeTableName san tableName @ '' '' @ Join changes '', '']))"

fun AlterColumnStatements ::
  "(string list \<Rightarrow> string) \<Rightarrow> string \<Rightarrow> string list \<Rightarrow> PostgresqlTableColumn list \<Rightarrow> Column \<Rightarrow>
   string list result" where
  "AlterColumnStatements san tableName primaryKeys [] existingColumn =
     Inr [''alter table '' @ sanitizeTableName san tableName @ '' drop column '' @
          san [col_Name existingColumn]]"
| "AlterColumnStatements san tableName primaryKeys (desiredColumn # rest) existingColumn =
     (if pcol_Name desiredColumn = col_Name existingColumn then
        bindE (schemaColumnToColumn desiredColumn)
          (\<lambda>column. Inr (alter_matched_column san tableName primaryKeys existingColumn column))
      else AlterColumnStatements san tableName primaryKeys rest existingColumn)"

section \<open>Table names\<close>

lemma splitQualifiedTableName_qualified:
  "CHR ''.'' \<notin> set s \<Longrightarrow> splitQualifiedTableName (s @ CHR ''.'' # t) = (s, t)"
  by (simp add: splitQualifiedTableName_def)

lemma splitQualifiedTableName_bare:
  "CHR ''.'' \<notin> set t \<Longrightarrow> splitQualifiedTableName t = ([], t)"
  using Index_byte_None [of t "CHR ''.''"] by (simp add: splitQualifiedTableName_def del: Index_byte_None)

section \<open>Type names\<close>

lemma parse_length_type_roundtrip:
  assumes "n < 2 ^ 63"
  shows "parse_length_type name (with_length name n) = Inr (with_length name n)"
  unfolding parse_length_type_def find_paren_digits [OF nat_str_digits]
  by (simp add: Atoi_nat_str [OF assms])

text \<open>The aliases of the types with a length, and the names the catalog has for them.\<close>

definition length_types :: "(string \<times> string) list" where
  "length_types =
     [(''varchar'', ''character varying''), (''char'', ''character''), (''varbit'', ''bit varying''),
      (''bit'', ''bit''), (''character varying'', ''character varying''), (''character'', ''character''),
      (''bit varying'', ''bit varying'')]"

lemma unalias_unparameterized_with_length:
  assumes "(alias, name) \<in> set length_types"
  shows "unaliasUnparameterizedColumnType (with_length alias n) = []"
    "isParameterizedColumnType (with_length name n)"
  using assms
  by (auto simp: length_types_def unaliasUnparameterizedColumnType_def unparameterizedColumnTypes_def
      isParameterizedColumnType_def)

lemma unalias_parameterized_with_length:
  "unaliasParameterizedColumnType (with_length ''varchar'' n) = with_length ''character varying'' n"
  "unaliasParameterizedColumnType (with_length ''char'' n) = with_length ''character'' n"
  "unaliasParameterizedColumnType (with_length ''varbit'' n) = with_length ''bit varying'' n"
  "unaliasParameterizedColumnType (with_length ''bit'' n) = []"
  "unaliasParameterizedColumnType (with_length ''character varying'' n) = []"
  "unaliasParameterizedColumnType (with_length ''character'' n) = []"
  "unaliasParameterizedColumnType (with_length ''bit varying'' n) = []"
  unfolding unaliasParameterizedColumnType_def find_paren_digits [OF nat_str_digits]
    find_paren_space_digits [OF nat_str_digits]
  by (simp_all del: FindStringSubmatch.simps match_here.simps)

lemma length_types_cases:
  assumes "(alias, name) \<in> set length_types"
  obtains "alias = ''varchar''" "name = ''character varying''" | "alias = ''char''" "name = ''character''"
    | "alias = ''varbit''" "name = ''bit varying''" | "alias = ''bit''" "name = ''bit''"
    | "alias = ''character varying''" "name = ''character varying''" | "alias = ''character''" "name = ''character''"
    | "alias = ''bit varying''" "name = ''bit varying''"
proof -
  have "(alias, name) = (''varchar'', ''character varying'') \<or> (alias, name) = (''char'', ''character'') \<or>
    (alias, name) = (''varbit'', ''bit varying'') \<or> (alias, name) = (''bit'', ''bit'') \<or>
    (alias, name) = (''character varying'', ''character varying'') \<or> (alias, name) = (''character'', ''character'') \<or>
    (alias, name) = (''bit varying'', ''bit varying'')"
    using assms by (simp only: length_types_def list.set insert_iff empty_iff simp_thms)
  then show thesis
    by (elim disjE Pair_inject) (erule (1) that)+
qed

lemma unalias_with_length:
  assumes "(alias, name) \<in> set length_types"
  shows "unalias_requested (with_length alias n) = with_length name n"
proof -
  have u: "unalias_requested (with_length alias n) =
      (if unaliasParameterizedColumnType (with_length alias n) \<noteq> []
       then unaliasParameterizedColumnType (with_length alias n) else with_length alias n)"
    unfolding unalias_requested_def unalias_unparameterized_with_length(1) [OF assms] Let_def by simp
  show ?thesis
    unfolding u using assms
    by (cases rule: length_types_cases)
       (simp_all only: unalias_parameterized_with_length simp_thms if_False if_True, simp_all)
qed

lemma maybeParse_length_type:
  "maybeParseParameterizedColumnType (with_length ''bit varying'' n) = parse_length_type ''bit varying'' (with_length ''bit varying'' n)"
  "maybeParseParameterizedColumnType (with_length ''bit'' n) = parse_length_type ''bit'' (with_length ''bit'' n)"
  "maybeParseParameterizedColumnType (with_length ''character varying'' n) =
     parse_length_type ''character varying'' (with_length ''character varying'' n)"
  "maybeParseParameterizedColumnType (with_length ''character'' n) =
     parse_length_type ''character'' (with_length ''character'' n)"
  unfolding maybeParseParameterizedColumnType_def by simp_all

lemma maybeParse_with_length:
  assumes "(alias, name) \<in> set length_types" "n < 2 ^ 63"
  shows "maybeParseParameterizedColumnType (with_length name n) = Inr (with_length name n)"
  using assms(1)
  by (cases rule: length_types_cases)
     (simp_all only: maybeParse_length_type parse_length_type_roundtrip [OF assms(2)])

lemma schemaColumnToColumn_type:
  assumes "CHR ''['' \<notin> set (pcol_Type c)"
    and "unalias_requested (pcol_Type c) = t"
    and "isParameterizedColumnType t \<Longrightarrow> maybeParseParameterizedColumnType t = Inr t \<or> maybeParseParameterizedColumnType t = Inr []"
  shows "\<exists>col. schemaColumnToColumn c = Inr col \<and> col_DataType col = t \<and> \<not> col_IsArray col"
  using assms by (auto simp: schemaColumnToColumn_def Let_def)

section \<open>Defaults as the catalog renders them\<close>

lemma match_here_all: "match_here [RStar k] s cur gs = Some gs"
  by (auto intro: first_down_top)

lemma catalog_default_match:
  assumes s: "list_all (in_class CAny) s" and t: "t \<noteq> []" "list_all (in_class CAny) t" "squote \<notin> set t"
  shows "FindStringSubmatch oidClassRegexp ([squote] @ s @ [squote] @ ''::'' @ t) = Some [[squote] @ s @ [squote]]"
proof (rule FindStringSubmatch_here)
  let ?p = "RLit [squote] # RClose # RLit ''::'' # ROne CAny # [RStar CAny]"
  let ?r = "s @ [squote] @ ''::'' @ t"
  let ?f = "\<lambda>n. match_here ?p (drop n ?r) (Some ([squote] @ take n ?r)) []"
  have all: "list_all (in_class CAny) ?r" using s t(2) by (simp add: byte_def)
  then have len: "length (takeWhile (in_class CAny) ?r) = length ?r"
    by (metis list_all_iff takeWhile_eq_all_conv)
  have hit: "?f (length s) = Some [[squote] @ s @ [squote]]"
    using t(1,2) by (cases t) (auto intro: first_down_top)
  have miss: "?f k = None" if "length s < k" "k \<le> length ?r" for k
  proof -
    obtain j where j: "k = length s + Suc j" using \<open>length s < k\<close> less_iff_Suc_add by auto
    have "drop k ?r = drop j (''::'' @ t)" unfolding j by simp
    moreover have "squote \<notin> set (''::'' @ t)" using t(3) by simp
    ultimately have "squote \<notin> set (drop k ?r)" by (metis in_set_dropD)
    then have "\<not> HasPrefix (drop k ?r) [squote]"
      by (metis HasPrefix_iff append_Cons list.set_intros(1))
    then show ?thesis by simp
  qed
  have "first_down ?f (length ?r) = Some [[squote] @ s @ [squote]]"
    by (rule first_down_Some [where m = "length s"]) (use hit miss in \<open>simp_all only:\<close>, simp)
  then have "match_here (RStar CAny # ?p) ?r (Some [squote]) [] = Some [[squote] @ s @ [squote]]"
    using len by (simp only: match_here.simps regexp_item.case capture_simps)
  then show "match_here oidClassRegexp ([squote] @ s @ [squote] @ ''::'' @ t) None [] = Some [[squote] @ s @ [squote]]"
    unfolding oidClassRegexp_def by (simp only: match_here.simps(2) [of ROpen] match_here_lit regexp_item.case capture_simps append.left_neutral)
qed

lemma stripOIDClass_cast:
  assumes "list_all (in_class CAny) s" "t \<noteq> []" "list_all (in_class CAny) t" "squote \<notin> set t"
  shows "stripOIDClass ([squote] @ s @ [squote] @ ''::'' @ t) = [squote] @ s @ [squote]"
  unfolding stripOIDClass_def catalog_default_match [OF assms] by simp

lemma stripOIDClass_id: "squote \<notin> set v \<or> CHR '':'' \<notin> set v \<Longrightarrow> stripOIDClass v = v"
proof -
  assume v: "squote \<notin> set v \<or> CHR '':'' \<notin> set v"
  have "FindStringSubmatch oidClassRegexp v = None"
  proof (rule ccontr)
    assume "FindStringSubmatch oidClassRegexp v \<noteq> None"
    then obtain gs where "FindStringSubmatch oidClassRegexp v = Some gs" by auto
    then have "set [squote] \<subseteq> set v" "set ''::'' \<subseteq> set v"
      by (rule FindStringSubmatch_literals, simp add: oidClassRegexp_def)+
    with v show False by simp
  qed
  then show ?thesis by (simp add: stripOIDClass_def)
qed

lemma formatColumnDefault_idem:
  "CHR '':'' \<notin> set v \<Longrightarrow> formatColumnDefault (formatColumnDefault v) = formatColumnDefault v"
  by (simp add: formatColumnDefault_def Let_def stripOIDClass_id)

section \<open>Columns\<close>

lemma columnDefaultsEqual_iff:
  "columnDefaultsEqual a b \<longleftrightarrow> map_option CanonicalizeSQLExpr a = map_option CanonicalizeSQLExpr b"
  by (cases a; cases b) (simp_all add: columnDefaultsEqual_def)

definition column_key :: "Column \<Rightarrow> string \<times> bool \<times> string option \<times> bool" where
  "column_key c =
     (default_time_zone (col_DataType c), col_IsArray c,
      map_option CanonicalizeSQLExpr (col_ColumnDefault c), not_null_of c = Some True)"

interpretation columns: keyed_comparison columnsMatch column_key
  by unfold_locales
     (auto simp: columnsMatch_def column_key_def columnDefaultsEqual_iff bools.same_iff)

lemma AlterColumnStatements_drop:
  "col_Name e \<notin> pcol_Name ` set ds \<Longrightarrow>
   AlterColumnStatements san t pks ds e =
     Inr [''alter table '' @ sanitizeTableName san t @ '' drop column '' @ san [col_Name e]]"
  by (induction ds) auto

lemma AlterColumnStatements_found:
  assumes "d \<in> set ds" "pcol_Name d = col_Name e" "distinct (map pcol_Name ds)"
  shows "AlterColumnStatements san t pks ds e =
     bindE (schemaColumnToColumn d) (\<lambda>c. Inr (alter_matched_column san t pks e c))"
  using assms by (induction ds) (auto simp: rev_image_eqI)

lemma AlterColumnStatements_cases:
  assumes "AlterColumnStatements san t pks ds e = Inr stmts"
  obtains "col_Name e \<notin> pcol_Name ` set ds"
      "stmts = [''alter table '' @ sanitizeTableName san t @ '' drop column '' @ san [col_Name e]]"
    | d c where "d \<in> set ds" "pcol_Name d = col_Name e" "schemaColumnToColumn d = Inr c"
        "stmts = alter_matched_column san t pks e c"
  using assms
  by (induction ds arbitrary: thesis) (auto simp: bindE_Inr_iff split: if_splits)


lemma alter_matched_column_no_drop:
  assumes "stmt \<in> set (alter_matched_column san t pks e c)"
  shows "\<exists>r. stmt = ''alter table '' @ sanitizeTableName san t @ '' alter column '' @ r \<or> stmt = ''update '' @ r"
proof -
  have ch: "\<exists>r. s = ''alter column '' @ r" if "s \<in> set (column_changes san pks e c)" for s
    using that by (auto simp: column_changes_def Let_def split: if_splits option.splits)
  have jn: "\<exists>r. Join cs '', '' = ''alter column '' @ r" if ne: "cs \<noteq> []" and eq: "cs = column_changes san pks e c" for cs
  proof -
    obtain x xs where cs: "cs = x # xs" using ne by (cases cs) auto
    then have "x \<in> set (column_changes san pks e c)" using eq by simp
    then obtain r where "x = ''alter column '' @ r" using ch by blast
    with cs show ?thesis by (cases xs) auto
  qed
  have nn: "\<exists>r. s = ''alter table '' @ sanitizeTableName san t @ '' alter column '' @ r \<or> s = ''update '' @ r"
    if "s \<in> set (not_null_statements san t e c)" for s
    using that by (auto simp: not_null_statements_def split: if_splits option.splits)
  show ?thesis
    using assms nn jn [of "column_changes san pks e c"]
    by (auto simp: alter_matched_column_def Let_def split: if_splits)
qed

section \<open>Properties\<close>

text \<open>
  A column type with a length is recognised under each of its names and normalised to the one
  the catalog reports (\<^verbatim>\<open>character varying (n)\<close> and so on), for every length a Go int can hold; the
  catalog's own name is a fixed point, so an unchanged column never differs from the catalog.
\<close>

theorem length_type_normalised:
  assumes "(alias, name) \<in> set length_types" and "n < 2 ^ 63"
    and "pcol_Type c = with_length alias n"
  shows "\<exists>col. schemaColumnToColumn c = Inr col \<and> col_DataType col = with_length name n \<and> \<not> col_IsArray col"
proof (rule schemaColumnToColumn_type)
  have "CHR ''['' \<notin> set (nat_str n)"
    using nat_str_is_digit [of "CHR ''[''" n] by (auto simp: is_digit_def byte_def)
  then show "CHR ''['' \<notin> set (pcol_Type c)"
    using assms(1,3) by (auto elim!: length_types_cases)
  show "unalias_requested (pcol_Type c) = with_length name n"
    unfolding assms(3) by (rule unalias_with_length [OF assms(1)])
qed (use maybeParse_with_length [OF assms(1,2)] in blast)

theorem length_type_normalised_witness:
  "\<exists>col. schemaColumnToColumn
       \<lparr> pcol_Name = ''email'', pcol_Type = ''varchar (255)'', pcol_Constraints = None,
         pcol_Attributes = None, pcol_Default = None \<rparr> = Inr col \<and>
     col_DataType col = ''character varying (255)'' \<and> \<not> col_IsArray col"
proof -
  have "nat_str 255 = ''255''" by code_simp
  moreover have "(''varchar'', ''character varying'') \<in> set length_types" by (simp add: length_types_def)
  ultimately show ?thesis
    using length_type_normalised [of "''varchar''" "''character varying''" 255
        "\<lparr> pcol_Name = ''email'', pcol_Type = ''varchar (255)'', pcol_Constraints = None,
         pcol_Attributes = None, pcol_Default = None \<rparr>"] by simp
qed

text \<open>
  A string default the catalog renders with a cast, \<^verbatim>\<open>'pending'::lifecycle_state\<close>, is read back
  as the literal with its quotes, and rendering that literal leaves it as it is; a value without a
  colon is rendered the same however often it is rendered.
\<close>

theorem catalog_default_recovered:
  assumes "list_all (in_class CAny) s" and "t \<noteq> []" and "list_all (in_class CAny) t" and "squote \<notin> set t"
    and "CHR '':'' \<notin> set v"
  shows "stripOIDClass ([squote] @ s @ [squote] @ ''::'' @ t) = [squote] @ s @ [squote] \<and>
    formatColumnDefault ([squote] @ s @ [squote] @ ''::'' @ t) = [squote] @ s @ [squote] \<and>
    formatColumnDefault (formatColumnDefault v) = formatColumnDefault v"
  using stripOIDClass_cast [OF assms(1-4)] formatColumnDefault_idem [OF assms(5)]
  by (simp add: formatColumnDefault_def Let_def)

theorem catalog_default_recovered_witness:
  "stripOIDClass ([squote] @ ''pending'' @ [squote] @ ''::lifecycle_state'') = [squote] @ ''pending'' @ [squote]"
proof -
  have "list_all (in_class CAny) ''pending''" "''lifecycle_state'' \<noteq> []" "list_all (in_class CAny) ''lifecycle_state''"
    "squote \<notin> set ''lifecycle_state''" "CHR '':'' \<notin> set ''x''" by code_simp+
  from catalog_default_recovered [OF this] show ?thesis by simp
qed

text \<open>
  C7. A column is dropped exactly when no desired column has its name: then the one statement is
  the drop. A desired column is never dropped: each statement planned for it alters the column or
  updates its rows; and none is planned when it matches the existing one.
\<close>

theorem AlterColumnStatements_drop_safe:
  assumes "AlterColumnStatements san t pks ds e = Inr stmts"
  shows "(col_Name e \<notin> pcol_Name ` set ds \<longrightarrow>
      stmts = [''alter table '' @ sanitizeTableName san t @ '' drop column '' @ san [col_Name e]]) \<and>
    (col_Name e \<in> pcol_Name ` set ds \<longrightarrow>
      list_all (\<lambda>stmt. \<exists>r. stmt = ''alter table '' @ sanitizeTableName san t @ '' alter column '' @ r \<or>
        stmt = ''update '' @ r) stmts \<and>
      (\<forall>d \<in> set ds. \<forall>c. distinct (map pcol_Name ds) \<and> pcol_Name d = col_Name e \<and>
        schemaColumnToColumn d = Inr c \<and> columnsMatch e c \<longrightarrow> stmts = []))"
proof (intro conjI impI)
  assume "col_Name e \<notin> pcol_Name ` set ds"
  with assms show "stmts = [''alter table '' @ sanitizeTableName san t @ '' drop column '' @ san [col_Name e]]"
    by (simp add: AlterColumnStatements_drop)
next
  assume mem: "col_Name e \<in> pcol_Name ` set ds"
  from assms mem obtain c where c: "stmts = alter_matched_column san t pks e c"
    by (cases rule: AlterColumnStatements_cases) auto
  show "list_all (\<lambda>stmt. \<exists>r. stmt = ''alter table '' @ sanitizeTableName san t @ '' alter column '' @ r \<or>
        stmt = ''update '' @ r) stmts"
    unfolding c list_all_iff using alter_matched_column_no_drop by blast
  show "\<forall>d \<in> set ds. \<forall>c. distinct (map pcol_Name ds) \<and> pcol_Name d = col_Name e \<and>
        schemaColumnToColumn d = Inr c \<and> columnsMatch e c \<longrightarrow> stmts = []"
    using assms by (auto simp: AlterColumnStatements_found alter_matched_column_def)
qed

theorem AlterColumnStatements_drop_safe_witness:
  "AlterColumnStatements concat ''t'' [] []
     \<lparr> col_Name = ''old'', col_DataType = ''text'', col_ColumnDefault = None, col_Constraints = None,
       col_Attributes = None, col_IsArray = False, col_Charset = [], col_Collation = [], col_IsStatic = False \<rparr> =
   Inr [''alter table t drop column old'']"
proof -
  let ?e = "\<lparr> col_Name = ''old'', col_DataType = ''text'', col_ColumnDefault = None, col_Constraints = None,
       col_Attributes = None, col_IsArray = False, col_Charset = [], col_Collation = [], col_IsStatic = False \<rparr>"
  obtain stmts where s: "AlterColumnStatements concat ''t'' [] [] ?e = Inr stmts" by simp
  have "sanitizeTableName concat ''t'' = ''t''" by code_simp
  with s AlterColumnStatements_drop_safe [OF s] show ?thesis by simp
qed

text \<open>
  C8. Making an existing nullable column \<^verbatim>\<open>not null\<close> with a default never fails on existing rows:
  the plan sets the default (unless it is already there), then fills the nulls, and only then
  adds the constraint, in this order.
\<close>

theorem not_null_backfilled_first:
  assumes "distinct (map pcol_Name ds)" "d \<in> set ds" "pcol_Name d = col_Name e"
    and "schemaColumnToColumn d = Inr c" "col_ColumnDefault c = Some v"
    and "not_null_of c = Some True" "not_null_of e \<noteq> Some True"
  shows "\<exists>first. AlterColumnStatements san t pks ds e =
      Inr (first @
        [''update '' @ sanitizeTableName san t @ '' set '' @ san [col_Name e] @ ''='' @ formatColumnDefault v @
           '' where '' @ san [col_Name e] @ '' is null'',
         ''alter table '' @ sanitizeTableName san t @ '' alter column '' @ san [col_Name e] @ '' set not null'']) \<and>
    first = (if columnDefaultsEqual (col_ColumnDefault e) (Some v) then []
       else [''alter table '' @ sanitizeTableName san t @ '' alter column '' @ san [col_Name e] @
             '' set default '' @ formatColumnDefault v])"
proof -
  have "\<not> columnsMatch e c" using assms(6,7) by (simp add: columns.same_iff column_key_def)
  then show ?thesis
    using assms by (simp add: AlterColumnStatements_found alter_matched_column_def not_null_statements_def)
qed

theorem not_null_backfilled_first_witness:
  "AlterColumnStatements concat ''t'' []
     [\<lparr> pcol_Name = ''a'', pcol_Type = ''integer'', pcol_Constraints = Some \<lparr> pcc_NotNull = Some True \<rparr>,
        pcol_Attributes = None, pcol_Default = Some ''7'' \<rparr>]
     \<lparr> col_Name = ''a'', col_DataType = ''integer'', col_ColumnDefault = None, col_Constraints = None,
       col_Attributes = None, col_IsArray = False, col_Charset = [], col_Collation = [], col_IsStatic = False \<rparr> =
   Inr [''alter table t alter column a set default '' @ [squote] @ ''7'' @ [squote],
        ''update t set a='' @ [squote] @ ''7'' @ [squote] @ '' where a is null'',
        ''alter table t alter column a set not null'']"
proof -
  let ?d = "\<lparr> pcol_Name = ''a'', pcol_Type = ''integer'', pcol_Constraints = Some \<lparr> pcc_NotNull = Some True \<rparr>,
        pcol_Attributes = None, pcol_Default = Some ''7'' \<rparr>"
  let ?e = "\<lparr> col_Name = ''a'', col_DataType = ''integer'', col_ColumnDefault = None, col_Constraints = None,
       col_Attributes = None, col_IsArray = False, col_Charset = [], col_Collation = [], col_IsStatic = False \<rparr>"
  let ?c = "\<lparr> col_Name = ''a'', col_DataType = ''integer'', col_ColumnDefault = Some ''7'',
       col_Constraints = Some \<lparr> cc_NotNull = Some True \<rparr>,
       col_Attributes = None, col_IsArray = False, col_Charset = [], col_Collation = [], col_IsStatic = False \<rparr>"
  have c: "schemaColumnToColumn ?d = Inr ?c" by code_simp
  have ev: "formatColumnDefault ''7'' = [squote] @ ''7'' @ [squote]" "sanitizeTableName concat ''t'' = ''t''" by code_simp+
  show ?thesis
    using not_null_backfilled_first [of "[?d]" ?d ?e ?c "''7''" concat "''t''" "[]"] c
    by (simp add: not_null_of_def ev columnDefaultsEqual_def del: AlterColumnStatements.simps)
qed

text \<open>
  A precision with a time zone is kept for \<^verbatim>\<open>timestamp\<close> but lost for \<^verbatim>\<open>time\<close>: the pattern of that
  branch is the one of \<^verbatim>\<open>timestamp\<close>. A type text in which it does match makes the planner panic.
\<close>

lemma timetz_precision_loses_zone:
  "unaliasParameterizedColumnType ''timetz(3)'' = ''time (3) with time zone'' \<and>
   maybeParseParameterizedColumnType ''time (3) with time zone'' = Inr ''time (3)'' \<and>
   maybeParseParameterizedColumnType ''timestamp (3) with time zone'' = Inr ''timestamp (3) with time zone'' \<and>
   maybeParseParameterizedColumnType ''time timestamp(3) with time zone'' = Inl (GoPanic ''index out of range'')"
  by code_simp

end
