(* ===== verification/Pg_Statements.thy ===== *)
theory Pg_Statements
  imports Pg_Column
begin

text \<open>
  The statement renderers and the parsers of catalog definitions of the PostgreSQL plugin:
  src/plugins/postgres/lib/helpers.go, constraint.go, foreignkey.go, index.go, checkconstraint.go,
  exclusionconstraint.go, trigger.go, function.go, extension.go, rls.go and create.go. The
  functions of those files that diff a table against the catalog are in theory \<open>Pg_Plan\<close>.

  As in \<open>Pg_Column\<close>, \<open>san\<close> is the identifier quoting of the driver. A loop over the indices of a
  string is a recursion over its suffix, with the part already read where the source looks back.
\<close>

section \<open>Index definitions (helpers.go)\<close>

text \<open>The text after the first opening parenthesis, up to the one that closes it.\<close>

fun balanced_prefix :: "nat \<Rightarrow> string \<Rightarrow> string \<Rightarrow> string option" where
  "balanced_prefix depth acc [] = None"
| "balanced_prefix depth acc (c # cs) =
     (if c = lparen then balanced_prefix (depth + 1) (acc @ [c]) cs
      else if c = rparen then
        (if depth - 1 = 0 then Some acc else balanced_prefix (depth - 1) (acc @ [c]) cs)
      else balanced_prefix depth (acc @ [c]) cs)"

definition extractIndexElementList :: "string \<Rightarrow> string" where
  "extractIndexElementList indexDef =
     (case Index indexDef ''('' of
        None \<Rightarrow> []
      | Some start \<Rightarrow>
          (case balanced_prefix 1 [] (drop (start + 1) indexDef) of Some body \<Rightarrow> body | None \<Rightarrow> []))"

fun split_commas_loop :: "int \<Rightarrow> string \<Rightarrow> string \<Rightarrow> string list" where
  "split_commas_loop depth part [] = [part]"
| "split_commas_loop depth part (c # cs) =
     (if c = lparen then split_commas_loop (depth + 1) (part @ [c]) cs
      else if c = rparen then split_commas_loop (depth - 1) (part @ [c]) cs
      else if c = CHR '','' \<and> depth = 0 then part # split_commas_loop depth [] cs
      else split_commas_loop depth (part @ [c]) cs)"

definition splitTopLevelCommas :: "string \<Rightarrow> string list" where
  "splitTopLevelCommas s = split_commas_loop 0 [] s"

definition sortNullsKeywords :: "string list" where
  "sortNullsKeywords = [''asc'', ''desc'', ''nulls'', ''first'', ''last'']"

definition parseSortedColumnElement :: "string \<Rightarrow> IndexColumn" where
  "parseSortedColumnElement element =
     (case Fields element of
        [] \<Rightarrow> \<lparr> ic_Column = [], ic_OpClass = [], ic_Sort = [], ic_Nulls = [] \<rparr>
      | f # fs \<Rightarrow>
          (let upper = ToUpper element
           in \<lparr> ic_Column = f,
                ic_OpClass =
                  (case find (\<lambda>w. w \<notin> set sortNullsKeywords) (map ToLower fs) of
                     Some w \<Rightarrow> w | None \<Rightarrow> []),
                ic_Sort =
                  (if Contains upper '' DESC'' then ''DESC''
                   else if Contains upper '' ASC'' then ''ASC'' else []),
                ic_Nulls =
                  (if Contains upper ''NULLS FIRST'' then ''FIRST''
                   else if Contains upper ''NULLS LAST'' then ''LAST'' else []) \<rparr>))"

definition plain_has_sort_keywords :: "string \<Rightarrow> bool" where
  "plain_has_sort_keywords e =
     (if Contains e ''('' then False
      else
        (let upper = ToUpper e
         in ContainsAny upper ('' '' @ [tab]) \<and>
            (Contains upper '' ASC'' \<or> Contains upper '' DESC'' \<or> Contains upper ''NULLS'')))"

definition parseIndexElements :: "string \<Rightarrow> IndexColumn list \<times> string list" where
  "parseIndexElements indexDef =
     (let body = extractIndexElementList indexDef
      in if body = [] then ([], [])
         else
           (let elements = map TrimSpace (splitTopLevelCommas body);
                hasRich = list_ex (\<lambda>e. Contains e ''('' \<or> ContainsAny e ('' '' @ [tab])) elements;
                hasExpr = list_ex (\<lambda>e. Contains e ''('') elements;
                hasPlain = list_ex (\<lambda>e. \<not> Contains e ''('') elements
            in if \<not> hasRich then ([], [])
               else if hasExpr \<and> hasPlain \<and> \<not> list_ex plain_has_sort_keywords elements
               then ([], elements)
               else (map parseSortedColumnElement (filter (\<lambda>e. \<not> Contains e ''('') elements),
                     filter (\<lambda>e. Contains e ''('') elements)))"

section \<open>Execute parameters (helpers.go)\<close>

definition serialize_param :: "PostgresqlExecuteParameter \<Rightarrow> string" where
  "serialize_param param =
     Join ((if pep_Mode param \<noteq> [] then [pep_Mode param] else []) @
           (if pep_Name param \<noteq> [] then [pep_Name param] else []) @ [pep_Type param]) '' ''"

definition serializeExecuteParams :: "PostgresqlExecuteParameter list \<Rightarrow> string" where
  "serializeExecuteParams params = Join (map serialize_param params) '', ''"

definition signatureArgTypes :: "PostgresqlExecuteParameter list \<Rightarrow> string" where
  "signatureArgTypes params =
     Join (map pep_Type (filter (\<lambda>param. \<not> EqualFold (pep_Mode param) ''OUT'') params)) '', ''"

definition qualified_execute_base :: "string \<Rightarrow> string \<Rightarrow> string" where
  "qualified_execute_base functionName schema =
     (if schema \<noteq> [] \<and> schema \<noteq> ''public'' then schema @ ''.'' @ functionName else functionName)"

definition getQualifiedExecuteName :: "string \<Rightarrow> string \<Rightarrow> PostgresqlExecuteParameter list \<Rightarrow> string" where
  "getQualifiedExecuteName functionName schema params =
     qualified_execute_base functionName schema @ ''('' @ serializeExecuteParams params @ '')''"

definition getFunctionSignature :: "string \<Rightarrow> string \<Rightarrow> PostgresqlExecuteParameter list \<Rightarrow> string" where
  "getFunctionSignature functionName schema params =
     qualified_execute_base functionName schema @ ''('' @ signatureArgTypes params @ '')''"

section \<open>Key constraints and foreign keys (constraint.go, foreignkey.go)\<close>

definition RemoveConstrantStatement :: "(string list \<Rightarrow> string) \<Rightarrow> string \<Rightarrow> KeyConstraint option \<Rightarrow> string" where
  "RemoveConstrantStatement san tableName constraint =
     (case constraint of
        None \<Rightarrow> []
      | Some k \<Rightarrow> ''alter table '' @ qualifyTableName san tableName @ '' drop constraint '' @ san [kc_Name k])"

definition primaryKeyClause :: "KeyConstraint \<Rightarrow> string" where
  "primaryKeyClause constraint = (if kc_IsPrimary constraint then '' primary key'' else [])"

definition constraintColumnClause :: "KeyConstraint \<Rightarrow> string" where
  "constraintColumnClause constraint = ''('' @ Join (kc_Columns constraint) '', '' @ '')''"

definition AddConstrantStatement :: "(string list \<Rightarrow> string) \<Rightarrow> string \<Rightarrow> KeyConstraint option \<Rightarrow> string" where
  "AddConstrantStatement san tableName constraint =
     (case constraint of
        None \<Rightarrow> []
      | Some k \<Rightarrow>
          ''alter table '' @ qualifyTableName san tableName @ '' add constraint '' @
          KeyConstraint_GenerateName k tableName @ primaryKeyClause k @ '' '' @ constraintColumnClause k)"

definition foreignKeyConstraintClause ::
  "(string list \<Rightarrow> string) \<Rightarrow> string \<Rightarrow> PostgresqlTableForeignKey \<Rightarrow> string" where
  "foreignKeyConstraintClause san tableName schemaForeignKey =
     (let onDelete = (if pfk_OnDelete schemaForeignKey \<noteq> []
                      then '' on delete '' @ pfk_OnDelete schemaForeignKey else [])
      in ''constraint '' @ GeneratePostgresqlFKName tableName schemaForeignKey @ '' foreign key ('' @
         Join (SanitizeArray san (pfk_Columns schemaForeignKey)) '', '' @ '') references '' @
         sanitizeTableName san (pfr_Table (pfk_References schemaForeignKey)) @ '' ('' @
         Join (SanitizeArray san (pfr_Columns (pfk_References schemaForeignKey))) '', '' @ '')'' @ onDelete)"

definition RemoveForeignKeyStatement :: "(string list \<Rightarrow> string) \<Rightarrow> string \<Rightarrow> ForeignKey \<Rightarrow> string" where
  "RemoveForeignKeyStatement san tableName foreignKey =
     ''alter table '' @ qualifyTableName san tableName @ '' drop constraint '' @ san [fk_Name foreignKey]"

definition AddForeignKeyStatement ::
  "(string list \<Rightarrow> string) \<Rightarrow> string \<Rightarrow> PostgresqlTableForeignKey \<Rightarrow> string" where
  "AddForeignKeyStatement san tableName schemaForeignKey =
     ''alter table '' @ qualifyTableName san tableName @ '' add '' @
     foreignKeyConstraintClause san tableName schemaForeignKey"

section \<open>Indexes (index.go)\<close>

definition RemoveConstraintStatement :: "(string list \<Rightarrow> string) \<Rightarrow> string \<Rightarrow> Index \<Rightarrow> string" where
  "RemoveConstraintStatement san tableName index =
     ''alter table '' @ sanitizeTableName san tableName @ '' drop constraint '' @ san [ix_Name index]"

definition RemoveIndexStatement :: "(string list \<Rightarrow> string) \<Rightarrow> string \<Rightarrow> Index \<Rightarrow> string" where
  "RemoveIndexStatement san tableName index = ''drop index if exists '' @ san [ix_Name index]"

text \<open>Storage parameters, in the order of their sorted keys whatever the order of iteration.\<close>

definition with_clause :: "(string \<times> string) list \<Rightarrow> string" where
  "with_clause w =
     (if w = [] then []
      else '' with ('' @
        Join (map (\<lambda>key. key @ '' = '' @ (case map_of w key of Some v \<Rightarrow> v | None \<Rightarrow> [])) (sort (map fst w))) '', '' @
        '')'')"

definition sorted_column_element :: "PostgresqlTableIndexColumn \<Rightarrow> string" where
  "sorted_column_element sc =
     pic_Column sc @
     (let op = ToLower (TrimSpace (pic_OpClass sc)) in if op \<noteq> [] then '' '' @ op else []) @
     (let dir = ToUpper (TrimSpace (pic_Sort sc))
      in if dir = ''DESC'' then '' desc'' else if dir = ''ASC'' then '' asc'' else []) @
     (let nulls = ToUpper (TrimSpace (pic_Nulls sc))
      in if nulls = ''FIRST'' then '' nulls first'' else if nulls = ''LAST'' then '' nulls last'' else [])"

definition buildIndexElements :: "PostgresqlTableIndex \<Rightarrow> string list" where
  "buildIndexElements schemaIndex =
     pix_Columns schemaIndex @
     map sorted_column_element (pix_SortedColumns schemaIndex) @
     map (\<lambda>expression. ''('' @ TrimSpace expression @ '')'') (pix_Expressions schemaIndex)"

definition AddIndexStatement :: "(string list \<Rightarrow> string) \<Rightarrow> string \<Rightarrow> PostgresqlTableIndex \<Rightarrow> string" where
  "AddIndexStatement san tableName schemaIndex =
     (let unique = (if pix_IsUnique schemaIndex then ''unique '' else []);
          name = (if pix_Name schemaIndex = [] then GeneratePostgresqlIndexName tableName schemaIndex
                  else pix_Name schemaIndex);
          method = ToLower (TrimSpace (pix_Type schemaIndex));
          us = (if method \<noteq> [] \<and> method \<noteq> ''btree'' then '' using '' @ san [method] else []);
          statement = ''create '' @ unique @ ''index '' @ name @ '' on '' @ qualifyTableName san tableName @ us @
            '' ('' @ Join (buildIndexElements schemaIndex) '', '' @ '')'';
          statement = statement @ with_clause (pix_With schemaIndex);
          whr = TrimSpace (pix_Where schemaIndex)
      in if whr \<noteq> [] then statement @ '' where '' @ whr else statement)"

definition isInlineFoldableUniqueIndex :: "PostgresqlTableIndex \<Rightarrow> bool" where
  "isInlineFoldableUniqueIndex schemaIndex =
     (let method = ToLower (TrimSpace (pix_Type schemaIndex))
      in if \<not> pix_IsUnique schemaIndex then False
         else if method \<noteq> [] \<and> method \<noteq> ''btree'' then False
         else if TrimSpace (pix_Where schemaIndex) \<noteq> [] then False
         else if pix_Expressions schemaIndex \<noteq> [] then False
         else if pix_SortedColumns schemaIndex \<noteq> [] then False
         else True)"

definition RenameIndexStatement ::
  "(string list \<Rightarrow> string) \<Rightarrow> string \<Rightarrow> Index \<Rightarrow> PostgresqlTableIndex \<Rightarrow> string" where
  "RenameIndexStatement san tableName index schemaIndex =
     ''alter index '' @ san [ix_Name index] @ '' rename to '' @ san [pix_Name schemaIndex]"

section \<open>Check constraints (checkconstraint.go)\<close>

definition RemoveCheckConstraintStatement ::
  "(string list \<Rightarrow> string) \<Rightarrow> string \<Rightarrow> CheckConstraint option \<Rightarrow> string" where
  "RemoveCheckConstraintStatement san tableName c =
     (case c of
        None \<Rightarrow> []
      | Some c \<Rightarrow> ''alter table '' @ qualifyTableName san tableName @ '' drop constraint '' @ san [ck_Name c])"

definition AddCheckConstraintStatement ::
  "(string list \<Rightarrow> string) \<Rightarrow> string \<Rightarrow> PostgresqlTableCheckConstraint option \<Rightarrow> string" where
  "AddCheckConstraintStatement san tableName c =
     (case c of
        None \<Rightarrow> []
      | Some c \<Rightarrow>
          ''alter table '' @ qualifyTableName san tableName @ '' add constraint '' @
          san [GeneratePostgresqlCheckName tableName c] @ '' check ('' @ pck_Expression c @ '')'')"

definition checkConstraintClause ::
  "(string list \<Rightarrow> string) \<Rightarrow> string \<Rightarrow> PostgresqlTableCheckConstraint \<Rightarrow> string" where
  "checkConstraintClause san tableName c =
     ''constraint '' @ san [GeneratePostgresqlCheckName tableName c] @ '' check ('' @ pck_Expression c @ '')''"

text \<open>The suffix behind the parenthesis that closes the first one, if there is one.\<close>

fun close_paren :: "int \<Rightarrow> string \<Rightarrow> string option" where
  "close_paren depth [] = None"
| "close_paren depth (c # cs) =
     (if c = lparen then close_paren (depth + 1) cs
      else if c = rparen then (if depth - 1 = 0 then Some cs else close_paren (depth - 1) cs)
      else close_paren depth cs)"

definition hasBalancedOuterParens :: "string \<Rightarrow> bool" where
  "hasBalancedOuterParens s =
     (if length s < 2 \<or> hd s \<noteq> lparen \<or> last s \<noteq> rparen then False
      else (case close_paren 0 s of Some rest \<Rightarrow> rest = [] | None \<Rightarrow> False))"

definition strip_outer_parens :: "string \<Rightarrow> string" where
  "strip_outer_parens s =
     (if HasPrefix s ''('' \<and> hasBalancedOuterParens s then TrimSpace (butlast (tl s)) else s)"

definition stripCheckWrapper :: "string \<Rightarrow> string" where
  "stripCheckWrapper condef =
     (let s = TrimSpace condef;
          s = (if length s \<ge> 5 \<and> EqualFold (take 5 s) ''check'' then TrimSpace (drop 5 s) else s)
      in strip_outer_parens s)"

definition normalizeCheckExpr :: "string \<Rightarrow> string" where
  "normalizeCheckExpr s = CanonicalizeSQLExpr s"

definition checkExprEquivalent :: "string \<Rightarrow> string \<Rightarrow> bool" where
  "checkExprEquivalent a b = (normalizeCheckExpr a = normalizeCheckExpr b)"

section \<open>Exclusion constraints (exclusionconstraint.go)\<close>

definition RemoveExclusionConstraintStatement ::
  "(string list \<Rightarrow> string) \<Rightarrow> string \<Rightarrow> ExclusionConstraint option \<Rightarrow> string" where
  "RemoveExclusionConstraintStatement san tableName c =
     (case c of
        None \<Rightarrow> []
      | Some c \<Rightarrow> ''alter table '' @ qualifyTableName san tableName @ '' drop constraint '' @ san [xc_Name c])"

definition exclusion_item_clause ::
  "(string list \<Rightarrow> string) \<Rightarrow> PostgresqlTableExclusionConstraintItem \<Rightarrow> string" where
  "exclusion_item_clause san item =
     (let element = (if pxi_Expression item \<noteq> [] then ''('' @ TrimSpace (pxi_Expression item) @ '')''
                     else san [pxi_Column item])
      in element @ '' with '' @ TrimSpace (pxi_Operator item))"

definition exclusionConstraintClause ::
  "(string list \<Rightarrow> string) \<Rightarrow> string \<Rightarrow> PostgresqlTableExclusionConstraint \<Rightarrow> string" where
  "exclusionConstraintClause san tableName c =
     (let us = ToLower (TrimSpace (pxc_Using c));
          us = (if us = [] then ''gist'' else us);
          items = map (exclusion_item_clause san) (pxc_Items c);
          clause = ''constraint '' @ san [GeneratePostgresqlExclusionConstraintName tableName c] @
            '' exclude using '' @ san [us] @ '' ('' @ Join items '', '' @ '')'';
          clause = clause @ with_clause (pxc_With c);
          whr = TrimSpace (pxc_Where c)
      in if whr \<noteq> [] then clause @ '' where ('' @ whr @ '')'' else clause)"

definition AddExclusionConstraintStatement ::
  "(string list \<Rightarrow> string) \<Rightarrow> string \<Rightarrow> PostgresqlTableExclusionConstraint option \<Rightarrow> string" where
  "AddExclusionConstraintStatement san tableName c =
     (case c of
        None \<Rightarrow> []
      | Some c \<Rightarrow> ''alter table '' @ qualifyTableName san tableName @ '' add '' @ exclusionConstraintClause san tableName c)"

definition excl_isSpace :: "char \<Rightarrow> bool" where
  "excl_isSpace b \<longleftrightarrow> b = CHR '' '' \<or> b = tab \<or> b = newline \<or> b = carriage_return"

text \<open>\<open>acc\<close> is the part of the item in front of the suffix, as item[:i] in the source.\<close>

fun split_with_loop :: "int \<Rightarrow> string \<Rightarrow> string \<Rightarrow> string \<times> string" where
  "split_with_loop depth acc [] = (acc, [])"
| "split_with_loop depth acc (c # cs) =
     (if c = lparen then split_with_loop (depth + 1) (acc @ [c]) cs
      else if c = rparen then split_with_loop (depth - 1) (acc @ [c]) cs
      else if (c = CHR ''w'' \<or> c = CHR ''W'') \<and> depth = 0 \<and> length (c # cs) \<ge> 4 \<and>
              EqualFold (take 4 (c # cs)) ''with'' \<and>
              (acc = [] \<or> excl_isSpace (last acc)) \<and>
              (length (c # cs) = 4 \<or> excl_isSpace ((c # cs) ! 4))
      then (acc, drop 4 (c # cs))
      else split_with_loop depth (acc @ [c]) cs)"

definition splitItemOnWith :: "string \<Rightarrow> string \<times> string" where
  "splitItemOnWith item = split_with_loop 0 [] item"

text \<open>The result is the index of the word, in bytes from \<open>i\<close>; \<open>prev\<close> is the byte in front.\<close>

fun index_word_loop :: "char option \<Rightarrow> string \<Rightarrow> string \<Rightarrow> nat option" where
  "index_word_loop prev [] word =
     (if word = [] \<and> (prev = None \<or> excl_isSpace (the prev)) then Some 0 else None)"
| "index_word_loop prev (c # cs) word =
     (let s = c # cs; n = length word
      in if n \<le> length s \<and> EqualFold (take n s) word \<and>
            (prev = None \<or> excl_isSpace (the prev)) \<and>
            (n = length s \<or> excl_isSpace (s ! n) \<or> s ! n = lparen)
         then Some 0
         else map_option Suc (index_word_loop (Some c) cs word))"

definition indexOfWordCI :: "string \<Rightarrow> string \<Rightarrow> nat option" where
  "indexOfWordCI s word = index_word_loop None s word"

definition parse_exclusion_items :: "string \<Rightarrow> ExclusionConstraintItem list" where
  "parse_exclusion_items elementList =
     map (\<lambda>item. let (element, operator) = splitItemOnWith item
                 in \<lparr> xi_Column = [], xi_Expression = TrimSpace element, xi_Operator = TrimSpace operator \<rparr>)
       (filter (\<lambda>item. item \<noteq> []) (map TrimSpace (splitTopLevelCommas elementList)))"

definition parseExclusionConstraintDef :: "string \<Rightarrow> ExclusionConstraint" where
  "parseExclusionConstraintDef condef =
     (let s = TrimSpace condef
      in \<lparr> xc_Name = [],
           xc_Using =
             (case indexOfWordCI s ''using'' of
                None \<Rightarrow> []
              | Some idx \<Rightarrow>
                  (case Fields (TrimSpace (drop (idx + 5) s)) of [] \<Rightarrow> [] | f # _ \<Rightarrow> ToLower f)),
           xc_Items = parse_exclusion_items (extractIndexElementList s),
           xc_Where =
             (case indexOfWordCI s ''where'' of
                None \<Rightarrow> []
              | Some idx \<Rightarrow> strip_outer_parens (TrimSpace (drop (idx + 5) s))),
           xc_With = [] \<rparr>)"

section \<open>Triggers (trigger.go)\<close>

definition trigger_event_name :: "string \<Rightarrow> string list" where
  "trigger_event_name event =
     (let event = TrimSpace (ToLower event)
      in if HasPrefix event ''after'' then [TrimPrefix event ''after'']
         else if HasPrefix event ''before'' then [TrimPrefix event ''before'']
         else if HasPrefix event ''instead of'' then [TrimPrefix event ''instead of'']
         else [])"

definition triggerEvent :: "PostgresqlTableTrigger \<Rightarrow> string result" where
  "triggerEvent trigger =
     (case ptt_Events trigger of
        [] \<Rightarrow> Inl (ErrNew ''trigger missing events'')
      | ev # _ \<Rightarrow>
          bindE (if HasPrefix (ToLower ev) ''after'' then Inr ''after''
                 else if HasPrefix (ToLower ev) ''before'' then Inr ''before''
                 else if HasPrefix (ToLower ev) ''instead of'' then Inr ''instead of''
                 else Inl (ErrNew ''unable to parse trigger''))
            (\<lambda>temporal. Inr (temporal @ Join (concat (map trigger_event_name (ptt_Events trigger))) '' or'')))"

definition trigger_execute :: "PostgresqlTableTrigger \<Rightarrow> string result" where
  "trigger_execute trigger =
     (case ptt_Execute trigger of
        None \<Rightarrow> Inr ('' execute procedure '' @ ptt_ExecuteProcedure trigger)
      | Some x \<Rightarrow>
          (if pte_Type x = ''Procedure'' then
             (if pte_Name x \<noteq> [] then
                Inr ('' execute procedure '' @ getQualifiedExecuteName (pte_Name x) (pte_Schema x) (pte_Params x))
              else if ptt_ExecuteProcedure trigger \<noteq> [] then
                Inr ('' execute procedure '' @ ptt_ExecuteProcedure trigger)
              else Inl (ErrNew ''when using procedure execute type you have to define a procedure under execute''))
           else if pte_Type x = ''Function'' then
             (if pte_Name x = [] then
                Inl (ErrNew ''when using function execute type you have to define a function under execute'')
              else Inr ('' execute function '' @ getQualifiedExecuteName (pte_Name x) (pte_Schema x) (pte_Params x)))
           else Inr ('' execute procedure '' @ ptt_ExecuteProcedure trigger)))"

definition triggerCreateStatement ::
  "(string list \<Rightarrow> string) \<Rightarrow> PostgresqlTableTrigger \<Rightarrow> string \<Rightarrow> string result" where
  "triggerCreateStatement san trigger tableName =
     bindE (wrapE ''failed to create trigger event syntax'' (triggerEvent trigger)) (\<lambda>triggerEventSyntax.
       let kind = (if ptt_ConstraintTrigger trigger = Some True then ''constraint trigger'' else ''trigger'');
           stmt = ''create '' @ kind @ '' '' @ Quote (ptt_Name trigger) @ '' '' @ triggerEventSyntax @ '' on '' @
             sanitizeTableName san tableName;
           stmt = stmt @ (if ptt_ForEachRow trigger = Some True then '' for each row'' else '' for each statement'');
           stmt = (case ptt_Condition trigger of None \<Rightarrow> stmt | Some cond \<Rightarrow> stmt @ '' when ('' @ cond @ '')'')
       in bindE (trigger_execute trigger) (\<lambda>exec. Inr (stmt @ exec)))"

definition dropTriggerStatement :: "(string list \<Rightarrow> string) \<Rightarrow> string \<Rightarrow> string \<Rightarrow> string" where
  "dropTriggerStatement san triggerName tableName =
     ''drop trigger if exists '' @ san [triggerName] @ '' on '' @ sanitizeTableName san tableName"

definition hasQualifierAt :: "char option \<Rightarrow> string \<Rightarrow> string \<Rightarrow> bool" where
  "hasQualifierAt prev s q =
     (if \<not> HasPrefix s q then False
      else if prev \<noteq> None \<and> the prev \<noteq> CHR '' '' \<and> the prev \<noteq> lparen then False
      else (case drop (length q) s of
              [] \<Rightarrow> False
            | c # _ \<Rightarrow> is_lower c \<or> is_upper c \<or> c = CHR ''_''))"

function strip_public_loop :: "char option \<Rightarrow> string \<Rightarrow> string" where
  "strip_public_loop prev [] = []"
| "strip_public_loop prev (c # cs) =
     (if hasQualifierAt prev (c # cs) ''public.''
      then strip_public_loop (Some (CHR ''.'')) (drop 7 (c # cs))
      else c # strip_public_loop (Some c) cs)"
  by pat_completeness auto
termination by (relation "measure (\<lambda>(prev, s). length s)") auto

definition stripRedundantPublicSchema :: "string \<Rightarrow> string" where
  "stripRedundantPublicSchema s = strip_public_loop None s"

definition normalizeTriggerDefinition :: "string \<Rightarrow> string" where
  "normalizeTriggerDefinition def =
     (let s = ToLower def;
          s = ReplaceAll s [dquote] [];
          s = Join (Fields s) '' '';
          s = TrimSpace s;
          s = TrimSuffix s '';'';
          s = ReplaceAll s ''execute procedure '' ''execute function ''
      in stripRedundantPublicSchema s)"

section \<open>Functions and extensions (function.go, extension.go, deploy.go)\<close>

definition FunctionLogicTag :: string where
  "FunctionLogicTag = ''$_SCHEMAHERO_$''"

definition CreateFunctionStatements :: "string \<Rightarrow> PostgresqlFunctionSchema \<Rightarrow> string list" where
  "CreateFunctionStatements functionName functionSchema =
     (let statement = ''create or replace function '' @
            getQualifiedExecuteName functionName (pfn_Schema functionSchema) (pfn_Params functionSchema);
          statement =
            (if pfn_Return functionSchema \<noteq> []
             then statement @ '' returns'' @ (if pfn_ReturnSet functionSchema then '' setof'' else []) @ '' '' @
               pfn_Return functionSchema
             else statement);
          statement = (if pfn_SecurityDefiner functionSchema then statement @ '' security definer'' else statement)
      in [statement @ '' as'' @ [newline] @ FunctionLogicTag @ [newline] @ pfn_As functionSchema @ [newline] @
          FunctionLogicTag @ [newline] @ ''language '' @ pfn_Lang functionSchema])"

definition DropFunctionStatements :: "string \<Rightarrow> PostgresqlFunctionSchema \<Rightarrow> string list" where
  "DropFunctionStatements functionName functionSchema =
     [''drop function if exists '' @
      getQualifiedExecuteName functionName (pfn_Schema functionSchema) (pfn_Params functionSchema)]"

definition extractDollarQuotedBody :: "string \<Rightarrow> string option" where
  "extractDollarQuotedBody def =
     (case Index def ''$'' of
        None \<Rightarrow> None
      | Some opn \<Rightarrow>
          (case Index (drop (opn + 1) def) ''$'' of
             None \<Rightarrow> None
           | Some tagEnd \<Rightarrow>
               (let delimiter = take (tagEnd + 2) (drop opn def);
                    body = drop (opn + length delimiter) def
                in case Index body delimiter of
                     None \<Rightarrow> None
                   | Some e \<Rightarrow> Some (take e body))))"

definition functionDefinitionsEqual :: "string \<Rightarrow> PostgresqlFunctionSchema \<Rightarrow> bool" where
  "functionDefinitionsEqual existingDef s =
     (case extractDollarQuotedBody existingDef of
        None \<Rightarrow> False
      | Some existingBody \<Rightarrow>
          if TrimSpace existingBody \<noteq> TrimSpace (pfn_As s) then False
          else if \<not> Contains (ToLower existingDef) (''language '' @ ToLower (pfn_Lang s)) then False
          else Contains (ToUpper existingDef) ''SECURITY DEFINER'' = pfn_SecurityDefiner s)"

definition CreateExtensionStatements ::
  "(string list \<Rightarrow> string) \<Rightarrow> PostgresDatabaseExtension list \<Rightarrow> string list" where
  "CreateExtensionStatements san extensions =
     map (\<lambda>extension.
       ''CREATE EXTENSION IF NOT EXISTS '' @ san [pex_Name extension] @
       (case pex_Version extension of None \<Rightarrow> [] | Some v \<Rightarrow> '' VERSION '' @ v) @
       (case pex_Schema extension of None \<Rightarrow> [] | Some s \<Rightarrow> '' SCHEMA '' @ san [s]) @ '';'') extensions"

definition DropExtensionStatements ::
  "(string list \<Rightarrow> string) \<Rightarrow> PostgresDatabaseExtension list \<Rightarrow> string list" where
  "DropExtensionStatements san extensions =
     map (\<lambda>extension. ''DROP EXTENSION IF EXISTS '' @ san [pex_Name extension] @ '';'') extensions"

section \<open>Row-level security (rls.go)\<close>

definition rowSecurityToggleStatement ::
  "string \<Rightarrow> string \<Rightarrow> bool \<Rightarrow> string \<Rightarrow> string \<Rightarrow> (string \<Rightarrow> bool \<Rightarrow> string) \<Rightarrow> string result" where
  "rowSecurityToggleStatement tableName desired current onWord offWord build =
     (let d = ToLower (TrimSpace desired)
      in if d = [] then Inr []
         else if d = onWord then (if \<not> current then Inr (build tableName True) else Inr [])
         else if d = offWord then (if current then Inr (build tableName False) else Inr [])
         else Inl (ErrNew (''invalid rowLevelSecurity toggle '' @ Quote desired @ '' (want '' @ Quote onWord @
           '', '' @ Quote offWord @ '', or empty)'')))"

definition enableRowLevelSecurityStatement :: "(string list \<Rightarrow> string) \<Rightarrow> string \<Rightarrow> bool \<Rightarrow> string" where
  "enableRowLevelSecurityStatement san tableName enable =
     ''alter table '' @ qualifyTableName san tableName @ '' '' @ (if enable then ''enable'' else ''disable'') @
     '' row level security''"

definition forceRowLevelSecurityStatement :: "(string list \<Rightarrow> string) \<Rightarrow> string \<Rightarrow> bool \<Rightarrow> string" where
  "forceRowLevelSecurityStatement san tableName force =
     ''alter table '' @ qualifyTableName san tableName @ '' '' @ (if force then ''force'' else ''no force'') @
     '' row level security''"

definition RemovePolicyStatement :: "(string list \<Rightarrow> string) \<Rightarrow> string \<Rightarrow> string \<Rightarrow> string" where
  "RemovePolicyStatement san tableName policyName =
     ''drop policy if exists '' @ san [policyName] @ '' on '' @ qualifyTableName san tableName"

definition CreatePolicyStatement :: "(string list \<Rightarrow> string) \<Rightarrow> string \<Rightarrow> PostgresqlTablePolicy \<Rightarrow> string" where
  "CreatePolicyStatement san tableName policy =
     (let b = ''create policy '' @ san [ppo_Name policy] @ '' on '' @ qualifyTableName san tableName;
          b = (if EqualFold (TrimSpace (ppo_Permissive policy)) ''RESTRICTIVE'' then b @ '' as restrictive'' else b);
          cmd = ToUpper (TrimSpace (ppo_Command policy));
          cmd = (if cmd = [] then ''ALL'' else cmd);
          b = (if cmd \<noteq> ''ALL'' then b @ '' for '' @ ToLower cmd else b);
          b = (if ppo_Roles policy \<noteq> [] then b @ '' to '' @ Join (SanitizeArray san (ppo_Roles policy)) '', '' else b);
          b = (case ppo_Using policy of None \<Rightarrow> b | Some e \<Rightarrow> b @ '' using ('' @ e @ '')'')
      in case ppo_WithCheck policy of None \<Rightarrow> b | Some e \<Rightarrow> b @ '' with check ('' @ e @ '')'')"

section \<open>Creating and seeding a table (create.go)\<close>

definition escapePostgresString :: "string \<Rightarrow> string" where
  "escapePostgresString s =
     (if Contains s [newline] \<or> Contains s [squote] then
        (let escaped = ReplaceAll s [backslash] [backslash, backslash];
             escaped = ReplaceAll escaped [squote] [backslash, squote];
             escaped = ReplaceAll escaped [newline] [backslash, CHR ''n'']
         in ''E'' @ [squote] @ escaped @ [squote])
      else [squote] @ s @ [squote])"

definition findConflictInferenceSpec ::
  "(string list \<Rightarrow> string) \<Rightarrow> string \<Rightarrow> PostgresqlTableSchema \<Rightarrow> string" where
  "findConflictInferenceSpec san tableName tableSchema =
     (if pts_PrimaryKey tableSchema \<noteq> [] then Join (SanitizeArray san (pts_PrimaryKey tableSchema)) '', ''
      else (case find pix_IsUnique (pts_Indexes tableSchema) of
              Some index \<Rightarrow> GeneratePostgresqlIndexName tableName index
            | None \<Rightarrow> []))"

definition seed_value :: "SeedDataValue \<Rightarrow> string list" where
  "seed_value v =
     (case sdv_Int v of
        Some i \<Rightarrow> [Itoa i]
      | None \<Rightarrow> (case sdv_Str v of Some s \<Rightarrow> [escapePostgresString s] | None \<Rightarrow> []))"

definition seed_row_statement :: "string \<Rightarrow> string \<Rightarrow> SeedDataRow \<Rightarrow> string" where
  "seed_row_statement tableName conflictInferenceSpec row =
     (let cols = map sdc_Column row;
          vals = concat (map (\<lambda>col. seed_value (sdc_Value col)) row);
          updateVals = map (\<lambda>col. ''excluded.'' @ sdc_Column col) row;
          insert = ''insert into '' @ tableName @ '' ('' @ Join cols '', '' @ '') values ('' @ Join vals '', '' @ '')''
      in if conflictInferenceSpec \<noteq> []
         then insert @ '' on conflict ('' @ conflictInferenceSpec @ '') do update set ('' @ Join cols '', '' @
           '') = ('' @ Join updateVals '', '' @ '')''
         else insert)"

definition SeedDataStatements ::
  "(string list \<Rightarrow> string) \<Rightarrow> string \<Rightarrow> PostgresqlTableSchema \<Rightarrow> SeedData \<Rightarrow> string list" where
  "SeedDataStatements san tableName tableSchema seedData =
     map (seed_row_statement tableName (findConflictInferenceSpec san tableName tableSchema)) seedData"

definition schema_qualified :: "PostgresqlTableSchema \<Rightarrow> string \<Rightarrow> string" where
  "schema_qualified tableSchema tableName =
     (if pts_Schema tableSchema \<noteq> [] \<and> pts_Schema tableSchema \<noteq> ''public''
      then pts_Schema tableSchema @ ''.'' @ tableName else tableName)"

definition desired_triggers :: "PostgresqlTableSchema \<Rightarrow> PostgresqlTableTrigger list" where
  "desired_triggers tableSchema =
     (if pts_JSONTriggers tableSchema = [] then pts_Triggers tableSchema else pts_JSONTriggers tableSchema)"

definition new_table_rls_statements ::
  "(string list \<Rightarrow> string) \<Rightarrow> string \<Rightarrow> PostgresqlTableSchema \<Rightarrow> string list" where
  "new_table_rls_statements san qualifiedTableName tableSchema =
     (case pts_RowLevelSecurity tableSchema of
        None \<Rightarrow> []
      | Some rls \<Rightarrow>
          (if EqualFold (TrimSpace (prl_Enable rls)) ''enable''
           then [enableRowLevelSecurityStatement san qualifiedTableName True] else []) @
          (if EqualFold (TrimSpace (prl_Force rls)) ''force''
           then [forceRowLevelSecurityStatement san qualifiedTableName True] else []) @
          map (CreatePolicyStatement san qualifiedTableName) (pts_Policies tableSchema))"

definition unique_constraint_clause ::
  "(string list \<Rightarrow> string) \<Rightarrow> string \<Rightarrow> PostgresqlTableIndex \<Rightarrow> string" where
  "unique_constraint_clause san tableName index =
     ''constraint '' @ Quote (GeneratePostgresqlIndexName tableName index) @ '' unique ('' @
     Join (SanitizeArray san (pix_Columns index)) '', '' @ '')''"

definition CreateTableStatements ::
  "(string list \<Rightarrow> string) \<Rightarrow> string \<Rightarrow> PostgresqlTableSchema \<Rightarrow> string list result" where
  "CreateTableStatements san tableName tableSchema =
     bindE (mapE (columnAsInsert san) (pts_Columns tableSchema)) (\<lambda>columns.
       let columns = columns @
             (if pts_PrimaryKey tableSchema \<noteq> []
              then [''primary key ('' @ Join (SanitizeArray san (pts_PrimaryKey tableSchema)) '', '' @ '')''] else []) @
             map (unique_constraint_clause san tableName)
               (filter isInlineFoldableUniqueIndex (pts_Indexes tableSchema)) @
             map (foreignKeyConstraintClause san tableName) (pts_ForeignKeys tableSchema) @
             map (checkConstraintClause san tableName) (pts_Checks tableSchema) @
             map (exclusionConstraintClause san tableName) (pts_ExclusionConstraints tableSchema);
           qualifiedTableName = schema_qualified tableSchema tableName;
           create = ''create table '' @ sanitizeTableName san qualifiedTableName @ '' ('' @ Join columns '', '' @ '')''
       in bindE (mapE (\<lambda>trigger. wrapE ''failed to create trigger statement''
                   (triggerCreateStatement san trigger qualifiedTableName)) (desired_triggers tableSchema))
            (\<lambda>triggers. Inr ([create] @ triggers @ new_table_rls_statements san qualifiedTableName tableSchema)))"

section \<open>Balanced parentheses\<close>

text \<open>
  \<open>paren_ok d s\<close>: read from depth \<open>d\<close>, the text closes no more than it opened and ends at depth 0.
  \<open>element_ok d s\<close> says in addition that it has no comma outside parentheses.
\<close>

fun paren_ok :: "nat \<Rightarrow> string \<Rightarrow> bool" where
  "paren_ok d [] = (d = 0)"
| "paren_ok d (c # cs) =
     (if c = lparen then paren_ok (Suc d) cs
      else if c = rparen then d > 0 \<and> paren_ok (d - 1) cs
      else paren_ok d cs)"

fun element_ok :: "nat \<Rightarrow> string \<Rightarrow> bool" where
  "element_ok d [] = (d = 0)"
| "element_ok d (c # cs) =
     (if c = lparen then element_ok (Suc d) cs
      else if c = rparen then d > 0 \<and> element_ok (d - 1) cs
      else (c = CHR '','' \<longrightarrow> d > 0) \<and> element_ok d cs)"

lemma element_ok_paren: "element_ok d s \<Longrightarrow> paren_ok d s"
  by (induction d s rule: element_ok.induct) (auto split: if_splits)

lemma paren_ok_append: "paren_ok d s \<Longrightarrow> paren_ok k t \<Longrightarrow> paren_ok (d + k) (s @ t)"
proof (induction d s rule: paren_ok.induct)
  case (2 d c cs)
  then show ?case by (cases d) (auto split: if_splits)
qed simp

lemma balanced_prefix_skip:
  "paren_ok d s \<Longrightarrow> 0 < k \<Longrightarrow> balanced_prefix (d + k) acc (s @ r) = balanced_prefix k (acc @ s) r"
proof (induction d s arbitrary: acc rule: paren_ok.induct)
  case (2 d c cs)
  show ?case
  proof (cases "c = rparen")
    case True
    with 2 obtain d' where "d = Suc d'" by (cases d) auto
    with 2 True show ?thesis by (simp split: if_splits)
  next
    case False
    with 2 show ?thesis by (auto split: if_splits)
  qed
qed simp

lemma extractIndexElementList_roundtrip:
  assumes "lparen \<notin> set a" "paren_ok 0 body"
  shows "extractIndexElementList (a @ ''('' @ body @ '')'' @ r) = body"
  using assms balanced_prefix_skip [of 0 body 1 "[]" "'')'' @ r"]
  by (simp add: extractIndexElementList_def)

lemma split_commas_skip:
  "element_ok d s \<Longrightarrow> split_commas_loop (int d) part (s @ r) = split_commas_loop 0 (part @ s) r"
proof (induction d s arbitrary: part rule: element_ok.induct)
  case (2 d c cs)
  show ?case
  proof (cases "c = rparen")
    case True
    with 2 obtain d' where d: "d = Suc d'" by (cases d) auto
    with 2 True show ?thesis by (simp split: if_splits)
  next
    case False
    show ?thesis
    proof (cases "c = lparen")
      case True
      with 2(1) [of "part @ [c]"] 2(4) show ?thesis by (simp add: add.commute)
    next
      case False
      with \<open>c \<noteq> rparen\<close> 2 show ?thesis by auto
    qed
  qed
qed simp

lemma splitTopLevelCommas_Join:
  "xs \<noteq> [] \<Longrightarrow> list_all (element_ok 0) xs \<Longrightarrow> splitTopLevelCommas (Join xs '','') = xs"
proof (induction xs)
  case (Cons x xs)
  have step: "split_commas_loop 0 [] (x @ r) = split_commas_loop 0 x r" for r
    using split_commas_skip [of 0 x "[]" r] Cons.prems by simp
  show ?case
  proof (cases "xs = []")
    case True
    then show ?thesis using step [of "[]"] by (simp add: splitTopLevelCommas_def)
  next
    case False
    then show ?thesis using Cons step by (simp add: splitTopLevelCommas_def Join_Cons)
  qed
qed simp

lemma close_paren_skip:
  "paren_ok d s \<Longrightarrow> 0 < k \<Longrightarrow> close_paren (int d + k) (s @ r) = close_paren k r"
proof (induction d s rule: paren_ok.induct)
  case (2 d c cs)
  show ?case
  proof (cases "c = rparen")
    case True
    with 2 obtain d' where d: "d = Suc d'" by (cases d) auto
    with 2 True show ?thesis by (simp split: if_splits)
  next
    case False
    show ?thesis
    proof (cases "c = lparen")
      case True
      with 2(1) 2(4,5) show ?thesis by (simp add: ac_simps)
    next
      case False
      with \<open>c \<noteq> rparen\<close> 2 show ?thesis by simp
    qed
  qed
qed simp

lemma hasBalancedOuterParens_wrap:
  "paren_ok 0 e \<Longrightarrow> hasBalancedOuterParens (''('' @ e @ '')'')"
  using close_paren_skip [of 0 e 1 "'')''"] by (simp add: hasBalancedOuterParens_def)

lemma strip_outer_parens_wrap:
  "paren_ok 0 e \<Longrightarrow> strip_outer_parens (''('' @ e @ '')'') = TrimSpace e"
  using hasBalancedOuterParens_wrap [of e] by (simp add: strip_outer_parens_def)

lemma stripCheckWrapper_roundtrip:
  assumes "paren_ok 0 e"
  shows "stripCheckWrapper (''CHECK ('' @ e @ '')'') = TrimSpace e"
proof -
  have sp: "\<not> is_space lparen" "\<not> is_space rparen" "\<not> is_space (CHR ''C'')" by code_simp+
  have t1: "TrimSpace (''CHECK ('' @ e @ '')'') = ''CHECK ('' @ e @ '')''"
    by (rule TrimSpace_id) (use sp in simp)
  have "drop 5 (''CHECK ('' @ e @ '')'') = '' '' @ (''('' @ e @ '')'') @ []" by simp
  moreover have "TrimSpace ('' '' @ (''('' @ e @ '')'') @ []) = ''('' @ e @ '')''"
    using TrimSpace_pad [of "'' ''" "[]" "''('' @ e @ '')''"] TrimSpace_id [of "''('' @ e @ '')''"] sp by simp
  moreover have "EqualFold (take 5 (''CHECK ('' @ e @ '')'')) ''check''"
  proof -
    have "take 5 (''CHECK ('' @ e @ '')'') = ''CHECK''" by simp
    moreover have "EqualFold ''CHECK'' ''check''" by code_simp
    ultimately show ?thesis by (simp only:)
  qed
  moreover have "5 \<le> length (''CHECK ('' @ e @ '')'')" by simp
  ultimately have "stripCheckWrapper (''CHECK ('' @ e @ '')'') = strip_outer_parens (''('' @ e @ '')'')"
    unfolding stripCheckWrapper_def Let_def t1 by (simp only: simp_thms if_True)
  then show ?thesis using strip_outer_parens_wrap [OF assms] by simp
qed

section \<open>Storage parameters\<close>

lemma map_of_perm:
  assumes "mset w = mset w'" "distinct (map fst w)"
  shows "map_of w k = map_of w' k"
proof -
  have "distinct (map fst w')" using assms by (metis mset_eq_imp_distinct_iff mset_map)
  moreover have "set w = set w'" using assms(1) by (rule mset_eq_setD)
  ultimately show ?thesis using assms(2) map_of_inject_set by metis
qed

lemma with_clause_perm:
  assumes "mset w = mset w'" "distinct (map fst w)"
  shows "with_clause w = with_clause w'"
proof -
  have "sort (map fst w) = sort (map fst w')" using assms(1) by (simp only: sort_eq_iff mset_map)
  moreover have "w = [] \<longleftrightarrow> w' = []" using assms(1) by auto
  ultimately show ?thesis using map_of_perm [OF assms] by (simp add: with_clause_def)
qed


section \<open>String literals\<close>

text \<open>
  How the server reads a string constant: \<^verbatim>\<open>'...'\<close> verbatim (with the default
  standard_conforming_strings), \<^verbatim>\<open>E'...'\<close> with backslash escapes, of which the planner uses three.
\<close>

fun unescape :: "string \<Rightarrow> string option" where
  "unescape [] = Some []"
| "unescape (c # cs) =
     (if c = squote then None
      else if c = backslash then
        (case cs of
           [] \<Rightarrow> None
         | d # ds \<Rightarrow>
             if d = backslash \<or> d = squote then map_option (\<lambda>r. d # r) (unescape ds)
             else if d = CHR ''n'' then map_option (\<lambda>r. newline # r) (unescape ds)
             else None)
      else map_option (\<lambda>r. c # r) (unescape cs))"

definition literal_value :: "string \<Rightarrow> string option" where
  "literal_value l =
     (if HasPrefix l (''E'' @ [squote]) \<and> last l = squote then unescape (butlast (drop 2 l))
      else if HasPrefix l [squote] \<and> last l = squote \<and> squote \<notin> set (butlast (drop 1 l))
      then Some (butlast (drop 1 l))
      else None)"

definition escape_byte :: "char \<Rightarrow> string" where
  "escape_byte c =
     (if c = backslash then [backslash, backslash]
      else if c = squote then [backslash, squote]
      else if c = newline then [backslash, CHR ''n'']
      else [c])"

lemma escape_three:
  "ReplaceAll (ReplaceAll (ReplaceAll s [backslash] [backslash, backslash]) [squote] [backslash, squote])
     [newline] [backslash, CHR ''n''] = concat (map escape_byte s)"
proof (induction s)
  case (Cons c s)
  then show ?case
    unfolding ReplaceAll_byte by (auto simp: escape_byte_def)
qed (simp add: ReplaceAll_byte)

lemma unescape_escape_byte: "unescape (escape_byte c @ r) = map_option (\<lambda>s. c # s) (unescape r)"
  by (auto simp: escape_byte_def)

lemma unescape_escape: "unescape (concat (map escape_byte s)) = Some s"
  by (induction s) (simp_all add: unescape_escape_byte)

lemma newline_escape: "newline \<notin> set (concat (map escape_byte s))"
  by (auto simp: escape_byte_def split: if_splits)

lemma escapePostgresString_alt:
  "escapePostgresString s =
     (if newline \<in> set s \<or> squote \<in> set s
      then ''E'' @ [squote] @ concat (map escape_byte s) @ [squote]
      else [squote] @ s @ [squote])"
  unfolding escapePostgresString_def Let_def escape_three Contains_byte by simp

section \<open>Function bodies\<close>

lemma extractDollarQuotedBody_tag:
  assumes "CHR ''$'' \<notin> set a" "CHR ''$'' \<notin> set tg"
    and delim: "d = ''$'' @ tg @ ''$''"
    and first: "Index (body @ d @ r) d = Some (length body)"
  shows "extractDollarQuotedBody (a @ d @ body @ d @ r) = Some body"
proof -
  have 1: "Index (a @ d @ body @ d @ r) ''$'' = Some (length a)"
    using assms(1) by (simp add: delim)
  have 2: "drop (length a + 1) (a @ d @ body @ d @ r) = tg @ ''$'' @ body @ d @ r"
    by (simp add: delim)
  have 3: "Index (tg @ ''$'' @ body @ d @ r) ''$'' = Some (length tg)"
    using assms(2) by simp
  have 4: "take (length tg + 2) (drop (length a) (a @ d @ body @ d @ r)) = d"
    by (simp add: delim)
  have 5: "drop (length a + length d) (a @ d @ body @ d @ r) = body @ d @ r" by simp
  show ?thesis
    unfolding extractDollarQuotedBody_def 1 option.case 2 3 4 Let_def 5 first by simp
qed

lemma Index_after_byte:
  "x \<notin> set d \<Longrightarrow> d \<noteq> [] \<Longrightarrow> \<not> Contains b d \<Longrightarrow> Index (b @ x # d @ r) d = Some (length b + 1)"
proof (induction b)
  case Nil
  then have "\<not> HasPrefix (x # d @ r) d" by (cases d) auto
  then show ?case by (cases d) (auto simp: HasPrefix_iff)
next
  case (Cons c b)
  have "\<not> HasPrefix ((c # b) @ x # d @ r) d"
  proof
    assume "HasPrefix ((c # b) @ x # d @ r) d"
    then obtain t where t: "(c # b) @ (x # d @ r) = d @ t" by (auto simp: HasPrefix_iff)
    then consider us where "c # b = d @ us" | us where "d = (c # b) @ us" "us \<noteq> []" "x # d @ r = us @ t"
      by (metis append_eq_append_conv2 append_Nil2)
    then show False
    proof cases
      case 1
      then have "Contains (c # b) d" by (auto simp: Contains_iff intro: exI [of _ "[]"])
      with Cons.prems(3) show False by simp
    next
      case 2
      then have "x \<in> set us" by (cases us) auto
      with 2 Cons.prems(1) show False by simp
    qed
  qed
  moreover have "\<not> Contains b d" using Cons.prems(3)
    by (metis Contains_iff append_Cons)
  ultimately show ?case using Cons by simp
qed

definition function_header :: "string \<Rightarrow> PostgresqlFunctionSchema \<Rightarrow> string" where
  "function_header functionName s =
     ''create or replace function '' @ getQualifiedExecuteName functionName (pfn_Schema s) (pfn_Params s) @
     (if pfn_Return s \<noteq> [] then '' returns'' @ (if pfn_ReturnSet s then '' setof'' else []) @ '' '' @ pfn_Return s
      else []) @
     (if pfn_SecurityDefiner s then '' security definer'' else [])"

lemma CreateFunctionStatements_alt:
  "CreateFunctionStatements functionName s =
     [(function_header functionName s @ '' as'' @ [newline]) @ FunctionLogicTag @
      ([newline] @ pfn_As s @ [newline]) @ FunctionLogicTag @ ([newline] @ ''language '' @ pfn_Lang s)]"
  by (simp add: CreateFunctionStatements_def function_header_def Let_def)

lemma Contains_ToUpper: "Contains s sub \<Longrightarrow> Contains (ToUpper s) (ToUpper sub)"
  by (auto simp: Contains_iff ToUpper_def) blast

lemma Contains_ToLower: "Contains s sub \<Longrightarrow> Contains (ToLower s) (ToLower sub)"
  by (auto simp: Contains_iff ToLower_def) blast

lemma function_definition_recognised:
  assumes header: "CHR ''$'' \<notin> set (function_header functionName s)"
    and body: "\<not> Contains (pfn_As s) FunctionLogicTag"
    and definer: "pfn_SecurityDefiner s \<or>
      \<not> Contains (ToUpper (hd (CreateFunctionStatements functionName s))) ''SECURITY DEFINER''"
  shows "functionDefinitionsEqual (hd (CreateFunctionStatements functionName s)) s"
proof -
  let ?a = "function_header functionName s @ '' as'' @ [newline]"
  let ?r = "[newline] @ ''language '' @ pfn_Lang s"
  let ?b = "[newline] @ pfn_As s @ [newline]"
  let ?def = "?a @ FunctionLogicTag @ ?b @ FunctionLogicTag @ ?r"
  have def: "hd (CreateFunctionStatements functionName s) = ?def"
    by (simp add: CreateFunctionStatements_alt)
  have tag: "FunctionLogicTag = ''$'' @ ''_SCHEMAHERO_'' @ ''$''" "newline \<notin> set FunctionLogicTag"
    "FunctionLogicTag \<noteq> []"
    by (simp_all add: FunctionLogicTag_def)
  have nb: "\<not> Contains (newline # pfn_As s) FunctionLogicTag"
    using body by (simp add: Contains_def FunctionLogicTag_def)
  have "Index (?b @ FunctionLogicTag @ ?r) FunctionLogicTag = Some (length ?b)"
    using Index_after_byte [OF tag(2,3) nb, of ?r] by simp
  then have bodyx: "extractDollarQuotedBody ?def = Some ?b"
    by (intro extractDollarQuotedBody_tag [where tg = "''_SCHEMAHERO_''"])
       (use header tag(1) in simp_all)
  have "TrimSpace ?b = TrimSpace (pfn_As s)"
    by (rule TrimSpace_pad) (simp_all add: is_space_def byte_def)
  moreover have "Contains (ToLower ?def) (''language '' @ ToLower (pfn_Lang s))"
  proof -
    have "Contains ?def (''language '' @ pfn_Lang s)"
      unfolding Contains_iff by (intro exI [of _ "?a @ FunctionLogicTag @ ?b @ FunctionLogicTag @ [newline]"] exI [of _ "[]"]) simp
    from Contains_ToLower [OF this] have "Contains (ToLower ?def) (ToLower ''language '' @ ToLower (pfn_Lang s))"
      by (simp only: ToLower_simps(3))
    moreover have "ToLower ''language '' = ''language ''" by code_simp
    ultimately show ?thesis by (simp only:)
  qed
  moreover have "Contains (ToUpper ?def) ''SECURITY DEFINER'' = pfn_SecurityDefiner s"
  proof (cases "pfn_SecurityDefiner s")
    case True
    then obtain h where "function_header functionName s = h @ '' '' @ ''security definer''"
      by (simp add: function_header_def)
    then have "?def = (h @ '' '') @ ''security definer'' @
        ('' as'' @ [newline] @ FunctionLogicTag @ ?b @ FunctionLogicTag @ ?r)" by simp
    then have "Contains ?def ''security definer''" unfolding Contains_iff by blast
    from Contains_ToUpper [OF this] have "Contains (ToUpper ?def) (ToUpper ''security definer'')" .
    moreover have "ToUpper ''security definer'' = ''SECURITY DEFINER''" by code_simp
    ultimately show ?thesis using True by (simp only:)
  next
    case False
    with definer show ?thesis unfolding def by blast
  qed
  ultimately show ?thesis unfolding functionDefinitionsEqual_def def bodyx by simp
qed

section \<open>Properties\<close>

text \<open>
  Whatever text a seed value has, the literal the planner writes denotes exactly that text for
  the server, and holds no line break, so that flattening a script to lines cannot damage it.
\<close>

theorem escapePostgresString_faithful:
  "literal_value (escapePostgresString s) = Some s \<and> newline \<notin> set (escapePostgresString s)"
  using unescape_escape [of s] newline_escape [of s]
  by (simp add: escapePostgresString_alt literal_value_def)

text \<open>
  The predicate of a check constraint survives the catalog: of \<^verbatim>\<open>CHECK (e)\<close> the reader recovers
  \<^verbatim>\<open>e\<close> up to outer white space, whatever balanced parentheses \<^verbatim>\<open>e\<close> has; and the parser of an index
  or exclusion definition recovers exactly the element list, split at its top-level commas.
\<close>

theorem catalog_definitions_recovered:
  assumes "paren_ok 0 e" and "es \<noteq> []" "list_all (element_ok 0) es" "lparen \<notin> set a"
  shows "stripCheckWrapper (''CHECK ('' @ e @ '')'') = TrimSpace e \<and>
    splitTopLevelCommas (extractIndexElementList (a @ ''('' @ Join es '','' @ '')'' @ r)) = es"
proof -
  have "paren_ok 0 (Join es '','')"
    using assms(2,3)
  proof (induction es)
    case (Cons x xs)
    then have x: "paren_ok 0 x" by (simp add: element_ok_paren)
    show ?case
    proof (cases "xs = []")
      case False
      then have "paren_ok 0 (CHR '','' # Join xs '','')" using Cons by simp
      from paren_ok_append [OF x this] show ?thesis using False by (simp add: Join_Cons)
    qed (use x in simp)
  qed simp
  then show ?thesis
    using extractIndexElementList_roundtrip [OF assms(4)] stripCheckWrapper_roundtrip [OF assms(1)]
      splitTopLevelCommas_Join [OF assms(2,3)] by simp
qed

theorem catalog_definitions_recovered_witness:
  "stripCheckWrapper ''CHECK ((age >= 0) AND f(x))'' = ''(age >= 0) AND f(x)'' \<and>
   splitTopLevelCommas (extractIndexElementList ''CREATE INDEX i ON t USING btree (lower(a, b),c DESC) WHERE (c)'') =
     [''lower(a, b)'', ''c DESC'']"
proof -
  have "paren_ok 0 ''(age >= 0) AND f(x)''" "[''lower(a, b)'', ''c DESC''] \<noteq> []"
    "list_all (element_ok 0) [''lower(a, b)'', ''c DESC'']" "lparen \<notin> set ''CREATE INDEX i ON t USING btree ''"
    "TrimSpace ''(age >= 0) AND f(x)'' = ''(age >= 0) AND f(x)''"
    by code_simp+
  with catalog_definitions_recovered [OF this(1-4), of "'' WHERE (c)''"] show ?thesis by simp
qed

text \<open>
  The clause of storage parameters does not depend on the order in which Go iterates over the
  map: two association lists with the same entries render the same statement and the same
  constraint.
\<close>

theorem storage_parameters_deterministic:
  assumes "mset w = mset w'" and "distinct (map fst w)"
  shows "AddIndexStatement san t (i \<lparr> pix_With := w \<rparr>) = AddIndexStatement san t (i \<lparr> pix_With := w' \<rparr>) \<and>
    exclusionConstraintClause san t (x \<lparr> pxc_With := w \<rparr>) = exclusionConstraintClause san t (x \<lparr> pxc_With := w' \<rparr>)"
  using with_clause_perm [OF assms]
  by (simp add: AddIndexStatement_def exclusionConstraintClause_def buildIndexElements_def
      GeneratePostgresqlIndexName_def GeneratePostgresqlExclusionConstraintName_def)

theorem storage_parameters_deterministic_witness:
  "AddIndexStatement concat ''t'' \<lparr> pix_Columns = [''a''], pix_Name = ''i'', pix_IsUnique = False, pix_Type = [],
       pix_With = [(''y'', ''1''), (''x'', ''2'')], pix_Where = [], pix_Expressions = [], pix_SortedColumns = [] \<rparr> =
   AddIndexStatement concat ''t'' \<lparr> pix_Columns = [''a''], pix_Name = ''i'', pix_IsUnique = False, pix_Type = [],
       pix_With = [(''x'', ''2''), (''y'', ''1'')], pix_Where = [], pix_Expressions = [], pix_SortedColumns = [] \<rparr>"
  using storage_parameters_deterministic [of "[(''y'', ''1''), (''x'', ''2'')]" "[(''x'', ''2''), (''y'', ''1'')]"
      concat "''t''" "\<lparr> pix_Columns = [''a''], pix_Name = ''i'', pix_IsUnique = False, pix_Type = [],
       pix_With = [], pix_Where = [], pix_Expressions = [], pix_SortedColumns = [] \<rparr>"]
  by simp

text \<open>
  A function the planner created is recognised as up to date: the definition it writes is equal
  to the desired function by the comparison a later plan makes, as long as the header holds no
  dollar sign and the body does not contain the planner's own quoting tag (nor, for an invoker
  function, the words \<^verbatim>\<open>SECURITY DEFINER\<close>).
\<close>

theorem function_replan_recognised:
  assumes "CHR ''$'' \<notin> set (function_header functionName s)"
    and "\<not> Contains (pfn_As s) FunctionLogicTag"
    and "pfn_SecurityDefiner s \<or>
      \<not> Contains (ToUpper (hd (CreateFunctionStatements functionName s))) ''SECURITY DEFINER''"
  shows "functionDefinitionsEqual (hd (CreateFunctionStatements functionName s)) s"
  using assms by (rule function_definition_recognised)

theorem function_replan_recognised_witness:
  "let s = \<lparr> pfn_Schema = ''app'', pfn_Lang = ''SQL'', pfn_Params = [], pfn_ReturnSet = False, pfn_Return = ''int'',
             pfn_As = ''select 1'', pfn_SecurityDefiner = False, pfn_Body = [], pfn_Returns = [], pfn_Language = [],
             pfn_IsDeleted = False \<rparr>
   in functionDefinitionsEqual (hd (CreateFunctionStatements ''f'' s)) s"
  unfolding Let_def by (rule function_replan_recognised) code_simp+

end
