(* ===== verification/Pg_Introspect.thy ===== *)
theory Pg_Introspect
  imports Pg_Statements
begin

text \<open>
  Reading a PostgreSQL catalog: src/plugins/postgres/lib/tables.go, connection.go and the catalog
  lookups of deploy.go.

  The server is a parameter. A value of \<open>PgServer\<close> answers each query of the source as a function
  of its bind arguments: \<open>conn.Query\<close> is an error or the rows it delivers, each of which
  \<open>rows.Scan\<close> reads or fails on; \<open>conn.QueryRow(...).Scan\<close> is an error or a row. The text of the
  queries is not interpreted.
\<close>

section \<open>Rows and the server\<close>

record IndexRow =
  ir_Name :: string
  ir_Method :: string
  ir_IsUnique :: bool
  ir_Columns :: "string list"
  ir_RelOptions :: "(string \<times> string) list"
  ir_IndPred :: "string option"
  ir_IndexDef :: string

record ForeignKeyRow =
  fr_ChildColumn :: string
  fr_ParentTable :: string
  fr_ParentColumn :: string
  fr_DeleteRule :: string
  fr_Name :: string
  fr_ParentSchema :: string

record SchemaColumnRow =
  sr_Name :: string
  sr_DataType :: string
  sr_MaxLength :: "int option"
  sr_ColumnDefault :: "string option"
  sr_IsNullable :: string

record ColumnRow =
  cr_Name :: string
  cr_ColumnDefault :: "string option"
  cr_IsNullable :: string
  cr_DataType :: string
  cr_UdtName :: string
  cr_CharMaxLength :: "int option"

record PolicyRow =
  pr_Name :: string
  pr_Polcmd :: int
  pr_Permissive :: bool
  pr_UsingExpr :: "string option"
  pr_WithCheckExpr :: "string option"
  pr_Roles :: "string list"

record PgServer =
  srv_ping :: "unit result"
  srv_version :: "string result"
  srv_tables :: "string \<Rightarrow> string \<Rightarrow> string rows"
  srv_table_count :: "string \<Rightarrow> string option \<Rightarrow> int result"
  srv_constraints :: "string \<Rightarrow> string \<Rightarrow> string \<Rightarrow> string rows"
  srv_indexes :: "string \<Rightarrow> IndexRow rows"
  srv_foreign_keys :: "string \<Rightarrow> string \<Rightarrow> ForeignKeyRow rows"
  srv_checks :: "string \<Rightarrow> string \<Rightarrow> (string \<times> string) rows"
  srv_exclusions :: "string \<Rightarrow> string \<Rightarrow> (string \<times> string) rows"
  srv_triggers :: "string \<Rightarrow> string \<Rightarrow> (string \<times> string) rows"
  srv_primary_key :: "string \<Rightarrow> string \<Rightarrow> string \<Rightarrow> (string \<times> string) rows"
  srv_columns :: "string \<Rightarrow> string \<Rightarrow> string \<Rightarrow> SchemaColumnRow rows"
  srv_column_details :: "string \<Rightarrow> string option \<Rightarrow> ColumnRow rows"
  srv_row_security :: "string \<Rightarrow> string \<Rightarrow> (bool \<times> bool) result"
  srv_policies :: "string \<Rightarrow> string \<Rightarrow> PolicyRow rows"
  srv_function_def :: "string \<Rightarrow> string option result"
  srv_extension_count :: "string \<Rightarrow> int result"

section \<open>Connections (connection.go)\<close>

record PostgresConnection =
  pg_databaseName :: string
  pg_engineVersion :: string
  pg_schema :: string
  pg_schemas :: "string list"
  pg_uri :: string
  pg_conn :: PgServer

text \<open>
  What the process has of third-party packages: \<open>pgx.Connect\<close>, and \<open>dburl.Parse\<close>, which gives the
  path of a URI and the lookup of a query parameter (the empty string when it is absent).
\<close>

record PgEnv =
  env_connect :: "string \<Rightarrow> PgServer result"
  env_dburl :: "string \<Rightarrow> (string \<times> (string \<Rightarrow> string)) result"

definition DatabaseNameFromURI :: "PgEnv \<Rightarrow> string \<Rightarrow> string result" where
  "DatabaseNameFromURI env uri =
     bindE (wrapE ''failed to parse uri'' (env_dburl env uri))
       (\<lambda>(path, query). Inr (trim_left_while (\<lambda>c. c = CHR ''/'') path))"

text \<open>
  The pattern is \<^verbatim>\<open>\s*PostgreSQL (\d*).(\d*).(\d*)*\<close>. The group under the last star takes all digits in its
  first iteration, and a further one could only be empty; it is written here without that star.
\<close>

definition re_version :: regexp where
  "re_version =
     [RStar CSpace, RLit ''PostgreSQL '', ROpen, RStar CDigit, RClose, ROne CAny, ROpen, RStar CDigit, RClose,
      ROne CAny, ROpen, RStar CDigit, RClose]"

definition parsePostgresVersion :: "string \<Rightarrow> string result" where
  "parsePostgresVersion reportedVersion =
     (case FindStringSubmatch re_version reportedVersion of
        None \<Rightarrow> Inl (ErrNew ''faled to parse postgres version'')
      | Some g \<Rightarrow>
          (let patch = (if g ! 2 = [] then ''0'' else g ! 2)
           in Inr (g ! 0 @ ''.'' @ g ! 1 @ ''.'' @ patch)))"

text \<open>The default schema and the schemas to scan, from the parameters of the URI.\<close>

definition schemas_of_uri :: "(string \<times> (string \<Rightarrow> string)) result \<Rightarrow> string \<times> string list" where
  "schemas_of_uri parsed =
     (case parsed of
        Inl _ \<Rightarrow> (''public'', [''public''])
      | Inr (path, query) \<Rightarrow>
          (let (schema, schemas) =
                 (if query ''schema'' \<noteq> [] then (query ''schema'', [query ''schema''])
                  else if query ''currentSchema'' \<noteq> [] then (query ''currentSchema'', [query ''currentSchema''])
                  else if query ''search_path'' \<noteq> [] then
                    (let s = TrimSpace (hd (SplitByte (query ''search_path'') (CHR '',''))) in (s, [s]))
                  else (''public'', [''public'']))
           in if query ''schemas'' \<noteq> [] then
                (let schemas = map TrimSpace (SplitByte (query ''schemas'') (CHR '',''))
                 in (hd schemas, schemas))
              else (schema, schemas)))"

text \<open>
  An error of \<open>parsePostgresVersion\<close> is logged and the version left empty; every other error
  ends the attempt.
\<close>

definition Connect :: "PgEnv \<Rightarrow> string \<Rightarrow> PostgresConnection result" where
  "Connect env uri =
     bindE (wrapE ''failed to connect to postgres'' (env_connect env uri)) (\<lambda>conn.
     bindE (srv_ping conn) (\<lambda>_.
     bindE (DatabaseNameFromURI env uri) (\<lambda>databaseName.
     bindE (srv_version conn) (\<lambda>reportedVersion.
       let engineVersion = (case parsePostgresVersion reportedVersion of Inr v \<Rightarrow> v | Inl _ \<Rightarrow> []);
           (schema, schemas) = schemas_of_uri (env_dburl env uri)
       in Inr \<lparr> pg_databaseName = databaseName, pg_engineVersion = engineVersion, pg_schema = schema,
                pg_schemas = schemas, pg_uri = uri, pg_conn = conn \<rparr>))))"

section \<open>Listing catalog objects (tables.go)\<close>

text \<open>The schema and table a name denotes: its own qualifier, or the connection's schema.\<close>

definition resolve_table :: "PostgresConnection \<Rightarrow> string \<Rightarrow> string \<times> string" where
  "resolve_table p tableName =
     (if Contains tableName ''.'' then splitQualifiedTableName tableName else (pg_schema p, tableName))"

definition ListTables :: "PostgresConnection \<Rightarrow> Table list result" where
  "ListTables p =
     concatE (mapE (\<lambda>schema.
       query_rows (''failed to list tables in schema '' @ schema) (wrap_error ''failed to scan row'')
         (\<lambda>tableName.
            \<lparr> tb_Name = (if schema \<noteq> ''public'' then schema @ ''.'' @ tableName else tableName),
              tb_Schema = schema, tb_Charset = [], tb_Collation = [] \<rparr>)
         (srv_tables (pg_conn p) (pg_databaseName p) schema)) (pg_schemas p))"

definition ListTableConstraints :: "PostgresConnection \<Rightarrow> string \<Rightarrow> string \<Rightarrow> string list result" where
  "ListTableConstraints p databaseName tableName =
     (let (schema, actualTableName) = resolve_table p tableName
      in query_rows ''failed to list constraints'' (wrap_error ''failed to scan constraint'') (\<lambda>c. c)
           (srv_constraints (pg_conn p) databaseName actualTableName schema))"

definition index_of_row :: "IndexRow \<Rightarrow> Index" where
  "index_of_row r =
     (let (sortedColumns, expressions) = parseIndexElements (ir_IndexDef r)
      in \<lparr> ix_Columns = ir_Columns r, ix_Name = ir_Name r, ix_IsUnique = ir_IsUnique r,
           ix_With = ir_RelOptions r,
           ix_Type = (if ToLower (ir_Method r) \<noteq> ''btree'' then ir_Method r else []),
           ix_Where = (case ir_IndPred r of Some w \<Rightarrow> w | None \<Rightarrow> []),
           ix_Expressions = expressions, ix_SortedColumns = sortedColumns \<rparr>)"

definition ListTableIndexes :: "PostgresConnection \<Rightarrow> string \<Rightarrow> string \<Rightarrow> Index list result" where
  "ListTableIndexes p databaseName tableName =
     (let (schema, actualTableName) = resolve_table p tableName;
          qualifiedTableName = (if schema \<noteq> ''public'' then schema @ ''.'' @ actualTableName else actualTableName)
      in query_rows ''failed to query indexes'' (\<lambda>e. e) index_of_row
           (srv_indexes (pg_conn p) qualifiedTableName))"

text \<open>
  A row of a composite key: the columns of the key found under its name become the column of this
  row, twice, because the source appends to the columns of the new key and not of the found one.
\<close>

fun add_foreign_key_row :: "ForeignKey list \<Rightarrow> ForeignKeyRow \<Rightarrow> ForeignKey list" where
  "add_foreign_key_row [] row =
     [\<lparr> fk_ChildColumns = [fr_ChildColumn row],
        fk_ParentTable = (if fr_ParentSchema row \<noteq> ''public'' then fr_ParentSchema row @ ''.'' @ fr_ParentTable row
                          else fr_ParentTable row),
        fk_ParentColumns = [fr_ParentColumn row], fk_Name = fr_Name row, fk_OnDelete = fr_DeleteRule row \<rparr>]"
| "add_foreign_key_row (foundFk # rest) row =
     (if fk_Name foundFk = fr_Name row
      then foundFk \<lparr> fk_ChildColumns := [fr_ChildColumn row] @ [fr_ChildColumn row],
                     fk_ParentColumns := [fr_ParentColumn row] @ [fr_ParentColumn row] \<rparr> # rest
      else foundFk # add_foreign_key_row rest row)"

definition ListTableForeignKeys :: "PostgresConnection \<Rightarrow> string \<Rightarrow> string \<Rightarrow> ForeignKey list result" where
  "ListTableForeignKeys p databaseName tableName =
     (let (schema, actualTableName) = resolve_table p tableName
      in bindE (query_rows ''failed to query foreign keys'' (\<lambda>e. e) (\<lambda>row. row)
                  (srv_foreign_keys (pg_conn p) actualTableName schema))
           (\<lambda>rows. Inr (foldl add_foreign_key_row [] rows)))"

definition ListTableCheckConstraints ::
  "PostgresConnection \<Rightarrow> string \<Rightarrow> string \<Rightarrow> CheckConstraint list result" where
  "ListTableCheckConstraints p databaseName tableName =
     (let (schema, actualTableName) = resolve_table p tableName
      in query_rows ''failed to query check constraints'' (\<lambda>e. e)
           (\<lambda>(conname, condef). \<lparr> ck_Name = conname, ck_Expression = stripCheckWrapper condef \<rparr>)
           (srv_checks (pg_conn p) actualTableName schema))"

definition ListTableExclusionConstraints ::
  "PostgresConnection \<Rightarrow> string \<Rightarrow> string \<Rightarrow> ExclusionConstraint list result" where
  "ListTableExclusionConstraints p databaseName tableName =
     (let (schema, actualTableName) = resolve_table p tableName
      in query_rows ''failed to query exclusion constraints'' (\<lambda>e. e)
           (\<lambda>(conname, condef). (parseExclusionConstraintDef condef) \<lparr> xc_Name := conname \<rparr>)
           (srv_exclusions (pg_conn p) actualTableName schema))"

record pgTrigger =
  tg_Name :: string
  tg_Definition :: string

definition ListTableTriggers :: "PostgresConnection \<Rightarrow> string \<Rightarrow> pgTrigger list result" where
  "ListTableTriggers p tableName =
     (let (schema, actualTableName) = resolve_table p tableName
      in query_rows ''failed to query triggers'' (\<lambda>e. e)
           (\<lambda>(tgname, def). \<lparr> tg_Name = tgname, tg_Definition = def \<rparr>)
           (srv_triggers (pg_conn p) actualTableName schema))"

definition GetTablePrimaryKey :: "PostgresConnection \<Rightarrow> string \<Rightarrow> KeyConstraint option result" where
  "GetTablePrimaryKey p tableName =
     (let (schema, actualTableName) = resolve_table p tableName
      in bindE (query_rows ''failed to query primary keys'' (\<lambda>e. e) (\<lambda>row. row)
                  (srv_primary_key (pg_conn p) actualTableName schema (pg_databaseName p)))
           (\<lambda>rows.
              if rows = [] then Inr None
              else Inr (Some \<lparr> kc_Name = fst (last rows), kc_Columns = map snd rows, kc_IsPrimary = True \<rparr>)))"

definition column_of_schema_row :: "SchemaColumnRow \<Rightarrow> Column" where
  "column_of_schema_row r =
     \<lparr> col_Name = sr_Name r, col_DataType = with_max_length (sr_DataType r) (sr_MaxLength r),
       col_ColumnDefault = map_option stripOIDClass (sr_ColumnDefault r),
       col_Constraints = Some \<lparr> cc_NotNull = Some (sr_IsNullable r = ''NO'') \<rparr>,
       col_Attributes = None, col_IsArray = False, col_Charset = [], col_Collation = [],
       col_IsStatic = False \<rparr>"

definition GetTableSchema :: "PostgresConnection \<Rightarrow> string \<Rightarrow> Column list result" where
  "GetTableSchema p tableName =
     (let (schema, actualTableName) = resolve_table p tableName
      in query_rows ''failed to query table schema'' (\<lambda>e. e) column_of_schema_row
           (srv_columns (pg_conn p) actualTableName schema (pg_databaseName p)))"

definition GetTableRowSecurity :: "PostgresConnection \<Rightarrow> string \<Rightarrow> RowLevelSecurity result" where
  "GetTableRowSecurity p tableName =
     (let (schema, actualTableName) = resolve_table p tableName
      in case srv_row_security (pg_conn p) actualTableName schema of
           Inr (enabled, forced) \<Rightarrow> Inr \<lparr> rl_Enabled = enabled, rl_Forced = forced \<rparr>
         | Inl e \<Rightarrow>
             if e = ErrNoRows then Inr \<lparr> rl_Enabled = False, rl_Forced = False \<rparr>
             else Inl (wrap_error ''failed to scan row level security flags'' e))"

text \<open>The conversion string(rune(n)): the UTF-8 encoding of n, or of U+FFFD when n is no rune.\<close>

definition rune_string :: "int \<Rightarrow> string" where
  "rune_string n =
     (let b = (\<lambda>k. char_of (nat k))
      in if 0 \<le> n \<and> n < 128 then [b n]
         else if 128 \<le> n \<and> n < 2048 then [b (192 + n div 64), b (128 + n mod 64)]
         else if n < 0 \<or> n > 1114111 \<or> (55296 \<le> n \<and> n \<le> 57343) then [b 239, b 191, b 189]
         else if n < 65536 then [b (224 + n div 4096), b (128 + n div 64 mod 64), b (128 + n mod 64)]
         else [b (240 + n div 262144), b (128 + n div 4096 mod 64), b (128 + n div 64 mod 64), b (128 + n mod 64)])"

definition policy_of_row :: "PolicyRow \<Rightarrow> Policy" where
  "policy_of_row r =
     \<lparr> po_Name = pr_Name r, po_Command = PolicyCommandFromCatalogChar (rune_string (pr_Polcmd r)),
       po_Permissive = pr_Permissive r, po_Roles = pr_Roles r, po_Using = pr_UsingExpr r,
       po_WithCheck = pr_WithCheckExpr r \<rparr>"

definition ListTablePolicies :: "PostgresConnection \<Rightarrow> string \<Rightarrow> Policy list result" where
  "ListTablePolicies p tableName =
     (let (schema, actualTableName) = resolve_table p tableName
      in query_rows ''failed to query policies'' (\<lambda>e. e) policy_of_row
           (srv_policies (pg_conn p) actualTableName schema))"

section \<open>Existence checks (deploy.go)\<close>

definition schema_argument :: "string \<Rightarrow> string \<times> string option" where
  "schema_argument tableName =
     (case splitQualifiedTableName tableName of
        (schema, table) \<Rightarrow> (table, if schema \<noteq> [] then Some schema else None))"

definition CheckIfTableExists :: "PostgresConnection \<Rightarrow> string \<Rightarrow> bool result" where
  "CheckIfTableExists p tableName =
     (case schema_argument tableName of
        (table, schema) \<Rightarrow>
          bindE (wrapE ''failed to scan'' (srv_table_count (pg_conn p) table schema))
            (\<lambda>tableExists. Inr (tableExists > 0)))"

text \<open>The definition of a function, and \<^const>\<open>None\<close> when there is none.\<close>

definition GetFunctionDefinition ::
  "PostgresConnection \<Rightarrow> string \<Rightarrow> string \<Rightarrow> PostgresqlExecuteParameter list \<Rightarrow> string option result" where
  "GetFunctionDefinition p functionSchema functionName params =
     (case srv_function_def (pg_conn p) (getFunctionSignature functionName functionSchema params) of
        Inr def \<Rightarrow> Inr def
      | Inl e \<Rightarrow> if e = ErrNoRows then Inr None else Inl (wrap_error ''failed to scan function definition'' e))"

definition CheckIfFunctionExists ::
  "PostgresConnection \<Rightarrow> string \<Rightarrow> string \<Rightarrow> PostgresqlExecuteParameter list \<Rightarrow> bool result" where
  "CheckIfFunctionExists p functionSchema functionName params =
     bindE (GetFunctionDefinition p functionSchema functionName params) (\<lambda>def. Inr (def \<noteq> None))"

definition CheckIfExtensionExists :: "PostgresConnection \<Rightarrow> string \<Rightarrow> bool result" where
  "CheckIfExtensionExists p extensionName =
     bindE (wrapE ''failed to scan'' (srv_extension_count (pg_conn p) extensionName))
       (\<lambda>extensionExists. Inr (extensionExists > 0))"

end
