(* ===== verification/Named_Diff.thy ===== *)
theory Named_Diff
  imports Go_Prelude
begin

text \<open>
  The shape that the planners of check constraints, exclusion constraints, triggers, policies and
  indexes share: a pass over the desired objects that creates the new ones and drops and
  recreates the changed ones, matched by name, and a pass over the existing objects that drops
  those whose name is not desired and was not dropped before.

  \<open>named_plan\<close> is the reference definition, with actions instead of SQL text. \<open>run_actions\<close> reads the
  actions against a map from names to objects, as a check of their order: a drop of a name that is
  absent and a creation of one that is present are counted as errors. It is no model of a server:
  it knows neither the text of a statement nor schemas nor dependencies between objects. What a
  server is asked to do with the texts is the subject of theory \<open>Sql_Server\<close>. The theorems of the
  locale hold for every planner of this shape; theory \<open>Pg_Plan\<close> interprets it on the definitions of
  the plugin and proves that those compute the rendering of \<open>named_plan\<close>.
\<close>

datatype ('c, 'd) action = Drop_existing 'c | Add_desired 'd

section \<open>The two passes\<close>

fun desired_pass ::
  "('d \<Rightarrow> string) \<Rightarrow> ('c \<Rightarrow> string) \<Rightarrow> ('d \<Rightarrow> 'c \<Rightarrow> bool) \<Rightarrow> 'c list \<Rightarrow> 'd list \<Rightarrow>
   ('c, 'd) action list \<times> string list" where
  "desired_pass dname cname same cur [] = ([], [])"
| "desired_pass dname cname same cur (d # ds) =
     (let (acts, dropped) = desired_pass dname cname same cur ds
      in case find (\<lambda>c. cname c = dname d) cur of
           None \<Rightarrow> (Add_desired d # acts, dropped)
         | Some c \<Rightarrow>
             if same d c then (acts, dropped)
             else (Drop_existing c # Add_desired d # acts, cname c # dropped))"

definition existing_pass ::
  "('d \<Rightarrow> string) \<Rightarrow> ('c \<Rightarrow> string) \<Rightarrow> string list \<Rightarrow> 'd list \<Rightarrow> 'c list \<Rightarrow> ('c, 'd) action list" where
  "existing_pass dname cname dropped ds cur =
     map Drop_existing
       (filter (\<lambda>c. \<not> list_ex (\<lambda>d. dname d = cname c) ds \<and> \<not> list_ex (\<lambda>n. n = cname c) dropped) cur)"

definition named_plan ::
  "('d \<Rightarrow> string) \<Rightarrow> ('c \<Rightarrow> string) \<Rightarrow> ('d \<Rightarrow> 'c \<Rightarrow> bool) \<Rightarrow> 'd list \<Rightarrow> 'c list \<Rightarrow> ('c, 'd) action list" where
  "named_plan dname cname same ds cur =
     (let (acts, dropped) = desired_pass dname cname same cur ds
      in acts @ existing_pass dname cname dropped ds cur)"

text \<open>The other order some drivers use: every drop comes before the first creation.\<close>

definition drop_first_plan ::
  "('d \<Rightarrow> string) \<Rightarrow> ('c \<Rightarrow> string) \<Rightarrow> ('d \<Rightarrow> 'c \<Rightarrow> bool) \<Rightarrow> 'd list \<Rightarrow> 'c list \<Rightarrow> ('c, 'd) action list" where
  "drop_first_plan dname cname same ds cur =
     map Drop_existing (filter (\<lambda>c. \<not> list_ex (\<lambda>d. dname d = cname c \<and> same d c) ds) cur) @
     map Add_desired (filter (\<lambda>d. \<not> list_ex (\<lambda>c. dname d = cname c \<and> same d c) cur) ds)"

section \<open>What the actions do\<close>

definition catalog_of :: "('c \<Rightarrow> string) \<Rightarrow> 'c list \<Rightarrow> string \<rightharpoonup> 'c" where
  "catalog_of cname cur = map_of (map (\<lambda>c. (cname c, c)) cur)"

fun apply_action ::
  "('d \<Rightarrow> string) \<Rightarrow> ('c \<Rightarrow> string) \<Rightarrow> ('d \<Rightarrow> 'c) \<Rightarrow> ('c, 'd) action \<Rightarrow> (string \<rightharpoonup> 'c) \<Rightarrow> (string \<rightharpoonup> 'c) option" where
  "apply_action dname cname store (Drop_existing c) m =
     (if m (cname c) = None then None else Some (m(cname c := None)))"
| "apply_action dname cname store (Add_desired d) m =
     (if m (dname d) \<noteq> None then None else Some (m(dname d \<mapsto> store d)))"

fun run_actions ::
  "('d \<Rightarrow> string) \<Rightarrow> ('c \<Rightarrow> string) \<Rightarrow> ('d \<Rightarrow> 'c) \<Rightarrow> ('c, 'd) action list \<Rightarrow> (string \<rightharpoonup> 'c) \<Rightarrow> (string \<rightharpoonup> 'c) option" where
  "run_actions dname cname store [] m = Some m"
| "run_actions dname cname store (a # as) m =
     (case apply_action dname cname store a m of
        None \<Rightarrow> None
      | Some m' \<Rightarrow> run_actions dname cname store as m')"

text \<open>The catalog a plan leads to: the old object where it still matches, the new one elsewhere.\<close>

definition target_catalog ::
  "('d \<Rightarrow> string) \<Rightarrow> ('d \<Rightarrow> 'c \<Rightarrow> bool) \<Rightarrow> ('d \<Rightarrow> 'c) \<Rightarrow> 'd list \<Rightarrow> (string \<rightharpoonup> 'c) \<Rightarrow> string \<rightharpoonup> 'c" where
  "target_catalog dname same store ds m n =
     (case find (\<lambda>d. dname d = n) ds of
        None \<Rightarrow> None
      | Some d \<Rightarrow> (case m n of
            Some c \<Rightarrow> if same d c then Some c else Some (store d)
          | None \<Rightarrow> Some (store d)))"

definition rendered :: "('c \<Rightarrow> string) \<Rightarrow> ('d \<Rightarrow> string) \<Rightarrow> ('c, 'd) action \<Rightarrow> string" where
  "rendered drop_stmt add_stmt a = (case a of Drop_existing c \<Rightarrow> drop_stmt c | Add_desired d \<Rightarrow> add_stmt d)"

text \<open>
  The loop of a planner that emits SQL text: \<open>statements\<close> and the names dropped so far are its
  state. \<open>emit_plan\<close> is the whole plan.
\<close>

definition emit_step ::
  "('d \<Rightarrow> string) \<Rightarrow> ('c \<Rightarrow> string) \<Rightarrow> ('d \<Rightarrow> 'c \<Rightarrow> bool) \<Rightarrow> ('c \<Rightarrow> string) \<Rightarrow> ('d \<Rightarrow> string) \<Rightarrow> 'c list \<Rightarrow>
   'd \<Rightarrow> string list \<times> string list \<Rightarrow> string list \<times> string list" where
  "emit_step dname cname same drop_stmt add_stmt cur d st =
     (case st of (statements, dropped) \<Rightarrow>
        (case find (\<lambda>c. cname c = dname d) cur of
           None \<Rightarrow> (statements @ [add_stmt d], dropped)
         | Some c \<Rightarrow>
             if same d c then st
             else (statements @ [drop_stmt c, add_stmt d], dropped @ [cname c])))"

text \<open>
  A list of actions is consistent by name: read in order against the existing names it creates no
  name that is there and drops none that is absent; afterwards exactly the desired names are there,
  each with an object that matches, and the objects that matched before are untouched; it drops
  only objects that are not desired as they are.
\<close>

definition reconciles ::
  "('d \<Rightarrow> string) \<Rightarrow> ('c \<Rightarrow> string) \<Rightarrow> ('d \<Rightarrow> 'c \<Rightarrow> bool) \<Rightarrow> ('d \<Rightarrow> 'c) \<Rightarrow> 'd list \<Rightarrow> 'c list \<Rightarrow>
   ('c, 'd) action list \<Rightarrow> bool" where
  "reconciles dname cname same store ds cur acts \<longleftrightarrow>
     (\<exists>m. run_actions dname cname store acts (catalog_of cname cur) = Some m \<and>
          dom m = dname ` set ds \<and>
          (\<forall>d \<in> set ds. \<exists>c. m (dname d) = Some c \<and> same d c) \<and>
          (\<forall>d \<in> set ds. \<forall>c \<in> set cur. cname c = dname d \<and> same d c \<longrightarrow> m (dname d) = Some c)) \<and>
     (\<forall>c. Drop_existing c \<in> set acts \<longrightarrow>
          c \<in> set cur \<and> (\<forall>d \<in> set ds. dname d = cname c \<longrightarrow> \<not> same d c))"

text \<open>Nothing to do: every desired object has a match of its name, and every existing name is desired.\<close>

definition in_step ::
  "('d \<Rightarrow> string) \<Rightarrow> ('c \<Rightarrow> string) \<Rightarrow> ('d \<Rightarrow> 'c \<Rightarrow> bool) \<Rightarrow> 'd list \<Rightarrow> 'c list \<Rightarrow> bool" where
  "in_step dname cname same ds cur \<longleftrightarrow>
     list_all (\<lambda>d. case find (\<lambda>c. cname c = dname d) cur of Some c \<Rightarrow> same d c | None \<Rightarrow> False) ds \<and>
     list_all (\<lambda>c. list_ex (\<lambda>d. dname d = cname c) ds) cur"

lemma rendered_simps [simp]:
  "rendered drop_stmt add_stmt (Drop_existing c) = drop_stmt c"
  "rendered drop_stmt add_stmt (Add_desired d) = add_stmt d"
  by (simp_all add: rendered_def)

lemma run_actions_append:
  "run_actions dname cname store (as @ bs) m =
     (case run_actions dname cname store as m of
        None \<Rightarrow> None
      | Some m' \<Rightarrow> run_actions dname cname store bs m')"
  by (induction as arbitrary: m) (auto split: option.splits)

lemma find_catalog_of: "find (\<lambda>c. cname c = n) cur = catalog_of cname cur n"
  by (induction cur) (auto simp: catalog_of_def)

lemma catalog_of_member:
  "distinct (map cname cur) \<Longrightarrow> c \<in> set cur \<Longrightarrow> catalog_of cname cur (cname c) = Some c"
  unfolding catalog_of_def by (rule map_of_is_SomeI) (auto simp: comp_def)

lemma catalog_of_SomeD: "catalog_of cname cur n = Some c \<Longrightarrow> c \<in> set cur \<and> cname c = n"
  unfolding catalog_of_def by (auto dest: map_of_SomeD)

lemma catalog_of_None: "catalog_of cname cur n = None \<longleftrightarrow> n \<notin> cname ` set cur"
  by (auto simp: catalog_of_def map_of_eq_None_iff image_image)

lemma desired_pass_dropped:
  "n \<in> set (snd (desired_pass dname cname same cur ds)) \<Longrightarrow> n \<in> dname ` set ds"
  by (induction ds) (auto simp: Let_def find_catalog_of split: prod.splits option.splits if_splits
      dest: catalog_of_SomeD)

lemma desired_pass_drops:
  "Drop_existing c \<in> set (fst (desired_pass dname cname same cur ds)) \<Longrightarrow>
   c \<in> set cur \<and> (\<exists>d \<in> set ds. dname d = cname c \<and> \<not> same d c)"
proof (induction ds)
  case (Cons d ds)
  then show ?case
    by (auto simp: Let_def find_catalog_of split: prod.splits option.splits if_splits
        dest: catalog_of_SomeD)
qed simp

lemma existing_pass_alt:
  "existing_pass dname cname (snd (desired_pass dname cname same cur ds)) ds cur =
     map Drop_existing (filter (\<lambda>c. cname c \<notin> dname ` set ds) cur)"
  unfolding existing_pass_def
  by (rule arg_cong [of _ _ "map Drop_existing"], rule filter_cong)
     (auto simp: list_ex_iff rev_image_eqI dest: desired_pass_dropped)

lemma named_plan_alt:
  "named_plan dname cname same ds cur =
     fst (desired_pass dname cname same cur ds) @
     map Drop_existing (filter (\<lambda>c. cname c \<notin> dname ` set ds) cur)"
  by (simp add: named_plan_def Let_def case_prod_beta existing_pass_alt)

lemma fold_emit_step:
  "fold (emit_step dname cname same drop_stmt add_stmt cur) ds (statements, dropped) =
     (statements @ map (rendered drop_stmt add_stmt) (fst (desired_pass dname cname same cur ds)),
      dropped @ snd (desired_pass dname cname same cur ds))"
  by (induction ds arbitrary: statements dropped)
     (auto simp: emit_step_def case_prod_beta split: option.splits)

lemma emit_plan_rendered:
  "(let (statements, dropped) = fold (emit_step dname cname same drop_stmt add_stmt cur) ds ([], []);
        removed = filter (\<lambda>c. \<not> list_ex (\<lambda>d. dname d = cname c) ds \<and> \<not> list_ex (\<lambda>n. n = cname c) dropped) cur
    in statements @ map drop_stmt removed) =
   map (rendered drop_stmt add_stmt) (named_plan dname cname same ds cur)"
  by (simp add: fold_emit_step named_plan_def existing_pass_def case_prod_beta comp_def)

section \<open>Planners by name\<close>

text \<open>
  \<open>store d\<close> is the object the catalog holds after \<open>d\<close> was created. The laws: it has the name of
  \<open>d\<close>, and the comparison recognises it.
\<close>

locale named_planner =
  fixes dname :: "'d \<Rightarrow> string" and cname :: "'c \<Rightarrow> string" and same :: "'d \<Rightarrow> 'c \<Rightarrow> bool"
    and store :: "'d \<Rightarrow> 'c"
  assumes store_name: "cname (store d) = dname d"
    and store_same: "same d (store d)"
begin

lemma steady_state:
  assumes "\<And>d. d \<in> set ds \<Longrightarrow> \<exists>c. catalog_of cname cur (dname d) = Some c \<and> same d c"
    and "\<And>c. c \<in> set cur \<Longrightarrow> cname c \<in> dname ` set ds"
  shows "named_plan dname cname same ds cur = []"
proof -
  have "fst (desired_pass dname cname same cur ds) = []"
    using assms(1)
  proof (induction ds)
    case (Cons d ds)
    then obtain c where c: "catalog_of cname cur (dname d) = Some c" "same d c" by auto
    have "fst (desired_pass dname cname same cur ds) = []" using Cons by auto
    with c show ?case by (auto simp: find_catalog_of split: prod.splits)
  qed simp
  then show ?thesis using assms(2) by (auto simp: named_plan_alt filter_empty_conv)
qed

lemma in_step_plan:
  assumes "in_step dname cname same ds cur"
  shows "named_plan dname cname same ds cur = []"
proof (rule steady_state)
  show "\<exists>c. catalog_of cname cur (dname d) = Some c \<and> same d c" if "d \<in> set ds" for d
    using assms that by (fastforce simp: in_step_def list_all_iff find_catalog_of [of cname] split: option.splits)
  show "cname c \<in> dname ` set ds" if "c \<in> set cur" for c
  proof -
    obtain d where "d \<in> set ds" "dname d = cname c"
      using assms \<open>c \<in> set cur\<close> by (auto simp: in_step_def list_all_iff list_ex_iff)
    then show ?thesis by (metis image_eqI)
  qed
qed

lemma empty_plan_in_step:
  assumes "named_plan dname cname same ds cur = []"
  shows "in_step dname cname same ds cur"
proof -
  have "list_all (\<lambda>d. case find (\<lambda>c. cname c = dname d) cur of Some c \<Rightarrow> same d c | None \<Rightarrow> False) ds"
    if "fst (desired_pass dname cname same cur ds) = []" for ds
    using that by (induction ds) (auto simp: case_prod_beta split: option.splits if_splits)
  moreover have "list_all (\<lambda>c. list_ex (\<lambda>d. dname d = cname c) ds) cur"
    using assms by (fastforce simp: named_plan_alt filter_empty_conv list_all_iff list_ex_iff image_iff)
  ultimately show ?thesis using assms by (simp add: in_step_def named_plan_alt)
qed

lemma plan_empty_iff: "named_plan dname cname same ds cur = [] \<longleftrightarrow> in_step dname cname same ds cur"
  using empty_plan_in_step in_step_plan by blast

lemma drop_safe:
  assumes "Drop_existing c \<in> set (named_plan dname cname same ds cur)"
  shows "c \<in> set cur \<and> (cname c \<notin> dname ` set ds \<or> (\<exists>d \<in> set ds. dname d = cname c \<and> \<not> same d c))"
  using assms desired_pass_drops by (fastforce simp: named_plan_alt)

lemma run_desired_pass:
  assumes "distinct (map dname ds)" and "\<And>d. d \<in> set ds \<Longrightarrow> m (dname d) = catalog_of cname cur (dname d)"
  shows "run_actions dname cname store (fst (desired_pass dname cname same cur ds)) m =
     Some (\<lambda>n. if n \<in> dname ` set ds then target_catalog dname same store ds (catalog_of cname cur) n else m n)"
  using assms
proof (induction ds arbitrary: m)
  case (Cons d ds)
  define m' where "m' = m(dname d := target_catalog dname same store [d] (catalog_of cname cur) (dname d))"
  let ?c = "catalog_of cname cur (dname d)"
  have head: "run_actions dname cname store (fst (desired_pass dname cname same cur (d # ds))) m =
      run_actions dname cname store (fst (desired_pass dname cname same cur ds)) m'"
  proof (cases ?c)
    case None
    then show ?thesis using Cons.prems(2) [of d]
      by (simp add: find_catalog_of [of cname] case_prod_beta m'_def target_catalog_def fun_upd_def)
  next
    case (Some c)
    then have "cname c = dname d" "m (dname d) = Some c"
      using catalog_of_SomeD [OF Some] Cons.prems(2) [of d] by auto
    then show ?thesis
      using Some by (auto simp: find_catalog_of [of cname] case_prod_beta m'_def target_catalog_def fun_upd_idem)
  qed
  have "run_actions dname cname store (fst (desired_pass dname cname same cur ds)) m' =
      Some (\<lambda>n. if n \<in> dname ` set ds then target_catalog dname same store ds (catalog_of cname cur) n else m' n)"
  proof (rule Cons.IH)
    show "distinct (map dname ds)" using Cons.prems(1) by simp
    show "m' (dname e) = catalog_of cname cur (dname e)" if "e \<in> set ds" for e
    proof -
      have "dname e \<noteq> dname d" using that Cons.prems(1) by (auto simp: rev_image_eqI)
      then show ?thesis using Cons.prems(2) [of e] that by (simp add: m'_def)
    qed
  qed
  moreover have "(\<lambda>n. if n \<in> dname ` set ds then target_catalog dname same store ds (catalog_of cname cur) n else m' n) =
      (\<lambda>n. if n \<in> dname ` set (d # ds) then target_catalog dname same store (d # ds) (catalog_of cname cur) n else m n)"
    using Cons.prems(1) by (intro ext) (auto simp: m'_def target_catalog_def)
  ultimately show ?case using head by (simp only:)
qed simp

lemma run_drops:
  assumes "distinct (map cname cs)" "\<And>c. c \<in> set cs \<Longrightarrow> m (cname c) \<noteq> None"
  shows "run_actions dname cname store (map Drop_existing cs) m =
     Some (\<lambda>n. if n \<in> cname ` set cs then None else m n)"
  using assms
proof (induction cs arbitrary: m)
  case (Cons c cs)
  have "run_actions dname cname store (map Drop_existing cs) (m(cname c := None)) =
      Some (\<lambda>n. if n \<in> cname ` set cs then None else (m(cname c := None)) n)"
    by (rule Cons.IH) (use Cons.prems in \<open>auto simp: rev_image_eqI\<close>)
  moreover have "(\<lambda>n. if n \<in> cname ` set cs then None else (m(cname c := None)) n) =
      (\<lambda>n. if n \<in> cname ` set (c # cs) then None else m n)" by auto
  ultimately show ?case using Cons.prems(2) [of c] by simp
qed simp

text \<open>
  A planner may spare some of the objects that are not desired; the ones it spares stay as they are,
  everything else is as in the target.
\<close>

lemma converges_sparing:
  assumes "distinct (map cname cur)" "distinct (map dname ds)"
  shows "run_actions dname cname store
      (fst (desired_pass dname cname same cur ds) @
       map Drop_existing (filter (\<lambda>c. cname c \<notin> dname ` set ds \<and> \<not> spare c) cur)) (catalog_of cname cur) =
    Some (\<lambda>n. if n \<in> dname ` set ds then target_catalog dname same store ds (catalog_of cname cur) n
              else (case catalog_of cname cur n of Some c \<Rightarrow> if spare c then Some c else None | None \<Rightarrow> None))"
proof -
  let ?m = "\<lambda>n. if n \<in> dname ` set ds then target_catalog dname same store ds (catalog_of cname cur) n else catalog_of cname cur n"
  let ?cs = "filter (\<lambda>c. cname c \<notin> dname ` set ds \<and> \<not> spare c) cur"
  have 1: "run_actions dname cname store (fst (desired_pass dname cname same cur ds)) (catalog_of cname cur) = Some ?m"
    by (rule run_desired_pass) (use assms in auto)
  have "?m (cname c) \<noteq> None" if "c \<in> set ?cs" for c
    using that catalog_of_member [OF assms(1), of c] by auto
  then have 2: "run_actions dname cname store (map Drop_existing ?cs) ?m =
      Some (\<lambda>n. if n \<in> cname ` set ?cs then None else ?m n)"
    by (intro run_drops distinct_map_filter [OF assms(1)])
  have "(if n \<in> cname ` set ?cs then None else ?m n) =
      (if n \<in> dname ` set ds then target_catalog dname same store ds (catalog_of cname cur) n
       else (case catalog_of cname cur n of Some c \<Rightarrow> if spare c then Some c else None | None \<Rightarrow> None))" for n
  proof (cases "n \<in> dname ` set ds")
    case True
    then have "n \<notin> cname ` set ?cs" by (auto simp: rev_image_eqI)
    with True show ?thesis by simp
  next
    case False
    show ?thesis
    proof (cases "catalog_of cname cur n")
      case None
      then have "n \<notin> cname ` set ?cs" by (auto simp: catalog_of_None)
      then show ?thesis using None False by simp
    next
      case (Some c)
      then have c: "c \<in> set cur" "cname c = n" using catalog_of_SomeD [OF Some] by auto
      have "c' = c" if "c' \<in> set ?cs" "cname c' = n" for c'
        using catalog_of_member [OF assms(1), of c'] Some that by simp
      then have "n \<in> cname ` set ?cs \<longleftrightarrow> c \<in> set ?cs" using imageI [of c "set ?cs" cname] c(2) by blast
      then have "n \<in> cname ` set ?cs \<longleftrightarrow> \<not> spare c" using c False by simp
      then show ?thesis using Some False by simp
    qed
  qed
  then show ?thesis unfolding run_actions_append 1 option.case 2 by (intro arg_cong [of _ _ Some] ext)
qed

lemma converges:
  assumes "distinct (map cname cur)" "distinct (map dname ds)"
  shows "run_actions dname cname store (named_plan dname cname same ds cur) (catalog_of cname cur) =
     Some (target_catalog dname same store ds (catalog_of cname cur))"
proof -
  have "target_catalog dname same store ds m n = None" if "n \<notin> dname ` set ds" for m n
  proof -
    have "find (\<lambda>d. dname d = n) ds = None" using that by (auto simp: find_None_iff)
    then show ?thesis by (simp add: target_catalog_def)
  qed
  then show ?thesis
    using converges_sparing [OF assms, of "\<lambda>_. False"]
    by (auto simp: named_plan_alt fun_eq_iff split: option.splits)
qed

lemma target_matches:
  assumes "d \<in> set ds" "distinct (map dname ds)"
  shows "\<exists>c. target_catalog dname same store ds m (dname d) = Some c \<and> same d c"
proof -
  have "find (\<lambda>e. dname e = dname d) ds = Some d"
    using assms by (induction ds) auto
  then show ?thesis by (auto simp: target_catalog_def store_same split: option.splits)
qed

lemma target_dom: "dom (target_catalog dname same store ds m) = dname ` set ds"
  by (auto simp: target_catalog_def dom_def find_None_iff find_Some_iff split: option.splits)

lemma replan_empty:
  assumes "distinct (map dname ds)" "catalog_of cname cur' = target_catalog dname same store ds m"
  shows "named_plan dname cname same ds cur' = []"
proof (rule steady_state)
  show "\<exists>c. catalog_of cname cur' (dname d) = Some c \<and> same d c" if "d \<in> set ds" for d
    using target_matches [OF that assms(1), of m] assms(2) by simp
  show "cname c \<in> dname ` set ds" if "c \<in> set cur'" for c
  proof -
    have "catalog_of cname cur' (cname c) \<noteq> None" using that by (auto simp: catalog_of_None)
    then show ?thesis using assms(2) target_dom [of ds m] by (metis domIff)
  qed
qed

lemma find_named: "d \<in> set ds \<Longrightarrow> distinct (map dname ds) \<Longrightarrow> find (\<lambda>e. dname e = dname d) ds = Some d"
  by (induction ds) (auto simp: rev_image_eqI)

lemma target_reconciles:
  assumes "distinct (map cname cur)" "distinct (map dname ds)"
    and run: "run_actions dname cname store acts (catalog_of cname cur) =
      Some (target_catalog dname same store ds (catalog_of cname cur))"
    and drops: "\<And>c. Drop_existing c \<in> set acts \<Longrightarrow> c \<in> set cur \<and> (\<forall>d \<in> set ds. dname d = cname c \<longrightarrow> \<not> same d c)"
  shows "reconciles dname cname same store ds cur acts"
proof -
  let ?m = "target_catalog dname same store ds (catalog_of cname cur)"
  have "?m (dname d) = Some c" if "d \<in> set ds" "c \<in> set cur" "cname c = dname d" "same d c" for d c
    using catalog_of_member [OF assms(1) that(2)] find_named [OF that(1) assms(2)] that(3,4)
    by (simp add: target_catalog_def)
  then show ?thesis
    using run drops target_dom target_matches [OF _ assms(2)] by (auto simp: reconciles_def)
qed

lemma plan_reconciles:
  assumes "distinct (map cname cur)" "distinct (map dname ds)"
  shows "reconciles dname cname same store ds cur (named_plan dname cname same ds cur)"
proof (rule target_reconciles [OF assms converges [OF assms]])
  fix c assume c: "Drop_existing c \<in> set (named_plan dname cname same ds cur)"
  have inj: "d = e" if "d \<in> set ds" "e \<in> set ds" "dname d = dname e" for d e
    using assms(2) that by (meson distinct_map inj_onD)
  show "c \<in> set cur \<and> (\<forall>d \<in> set ds. dname d = cname c \<longrightarrow> \<not> same d c)"
    using drop_safe [OF c] inj by (metis image_eqI)
qed

lemma run_adds:
  assumes "distinct (map dname ds)" "\<And>d. d \<in> set ds \<Longrightarrow> m (dname d) = None"
  shows "run_actions dname cname store (map Add_desired ds) m =
     Some (\<lambda>n. case find (\<lambda>d. dname d = n) ds of Some d \<Rightarrow> Some (store d) | None \<Rightarrow> m n)"
  using assms
proof (induction ds arbitrary: m)
  case (Cons d ds)
  let ?m = "m(dname d \<mapsto> store d)"
  have "run_actions dname cname store (map Add_desired ds) ?m =
      Some (\<lambda>n. case find (\<lambda>d. dname d = n) ds of Some d \<Rightarrow> Some (store d) | None \<Rightarrow> ?m n)"
    by (rule Cons.IH) (use Cons.prems in \<open>auto simp: rev_image_eqI\<close>)
  moreover have "find (\<lambda>e. dname e = dname d) ds = None"
    using Cons.prems(1) by (auto simp: find_None_iff rev_image_eqI)
  then have "(\<lambda>n. case find (\<lambda>d. dname d = n) ds of Some d \<Rightarrow> Some (store d) | None \<Rightarrow> ?m n) =
      (\<lambda>n. case find (\<lambda>d. dname d = n) (d # ds) of Some d \<Rightarrow> Some (store d) | None \<Rightarrow> m n)"
    by (intro ext) (auto split: option.split)
  ultimately show ?case using Cons.prems(2) [of d] by simp
qed simp

text \<open>After the drops of \<^const>\<open>drop_first_plan\<close> the catalog holds exactly the objects that are kept.\<close>

definition kept_catalog ::
  "'d list \<Rightarrow> 'c list \<Rightarrow> string \<rightharpoonup> 'c" where
  "kept_catalog ds cur n =
     (case catalog_of cname cur n of
        Some c \<Rightarrow> if list_ex (\<lambda>d. dname d = n \<and> same d c) ds then Some c else None
      | None \<Rightarrow> None)"

lemma kept_catalog_Some:
  assumes "distinct (map cname cur)"
  shows "kept_catalog ds cur n = Some c \<longleftrightarrow> c \<in> set cur \<and> cname c = n \<and> (\<exists>d \<in> set ds. dname d = n \<and> same d c)"
proof -
  have "catalog_of cname cur n = Some c \<longleftrightarrow> c \<in> set cur \<and> cname c = n"
    using catalog_of_SomeD [of cname cur n c] catalog_of_member [OF assms, of c] by auto
  then show ?thesis by (auto simp: kept_catalog_def list_ex_iff split: option.splits)
qed

lemma named_unique: "d \<in> set ds \<Longrightarrow> e \<in> set ds \<Longrightarrow> dname d = dname e \<Longrightarrow> distinct (map dname ds) \<Longrightarrow> d = e"
  by (auto dest: inj_onD simp: distinct_map)

lemma run_unmatched_drops:
  assumes "distinct (map cname cur)"
  shows "run_actions dname cname store
      (map Drop_existing (filter (\<lambda>c. \<not> list_ex (\<lambda>d. dname d = cname c \<and> same d c) ds) cur)) (catalog_of cname cur) =
    Some (kept_catalog ds cur)"
proof -
  let ?cs = "filter (\<lambda>c. \<not> list_ex (\<lambda>d. dname d = cname c \<and> same d c) ds) cur"
  have "catalog_of cname cur (cname c) \<noteq> None" if "c \<in> set ?cs" for c
    using catalog_of_member [OF assms, of c] that by simp
  then have "run_actions dname cname store (map Drop_existing ?cs) (catalog_of cname cur) =
      Some (\<lambda>n. if n \<in> cname ` set ?cs then None else catalog_of cname cur n)"
    by (rule run_drops [OF distinct_map_filter [OF assms]])
  moreover have "(\<lambda>n. if n \<in> cname ` set ?cs then None else catalog_of cname cur n) = kept_catalog ds cur"
  proof
    fix n
    show "(if n \<in> cname ` set ?cs then None else catalog_of cname cur n) = kept_catalog ds cur n"
    proof (cases "catalog_of cname cur n")
      case (Some c)
      then have c: "c \<in> set cur" "cname c = n" using catalog_of_SomeD [OF Some] by auto
      have "c' = c" if "c' \<in> set ?cs" "cname c' = n" for c'
        using catalog_of_member [OF assms, of c'] Some that by simp
      then have "n \<in> cname ` set ?cs \<longleftrightarrow> c \<in> set ?cs" using imageI [of c "set ?cs" cname] c(2) by blast
      then show ?thesis using Some c by (simp add: kept_catalog_def)
    qed (simp add: kept_catalog_def)
  qed
  ultimately show ?thesis by (simp only:)
qed

lemma drop_first_converges:
  assumes "distinct (map cname cur)" "distinct (map dname ds)"
  shows "run_actions dname cname store (drop_first_plan dname cname same ds cur) (catalog_of cname cur) =
     Some (target_catalog dname same store ds (catalog_of cname cur))"
proof -
  let ?as = "filter (\<lambda>d. \<not> list_ex (\<lambda>c. dname d = cname c \<and> same d c) cur) ds"
  have added: "d \<in> set ?as \<longleftrightarrow> kept_catalog ds cur (dname d) = None" if "d \<in> set ds" for d
  proof -
    have "kept_catalog ds cur (dname d) = Some c \<longleftrightarrow> c \<in> set cur \<and> dname d = cname c \<and> same d c" for c
      unfolding kept_catalog_Some [OF assms(1)] using that named_unique [OF _ that _ assms(2)] by metis
    then have "kept_catalog ds cur (dname d) = None \<longleftrightarrow> \<not> (\<exists>c \<in> set cur. dname d = cname c \<and> same d c)"
      by (metis not_None_eq)
    then show ?thesis using that by (simp add: list_ex_iff)
  qed
  have "run_actions dname cname store (map Add_desired ?as) (kept_catalog ds cur) =
      Some (\<lambda>n. case find (\<lambda>d. dname d = n) ?as of Some d \<Rightarrow> Some (store d) | None \<Rightarrow> kept_catalog ds cur n)"
    by (rule run_adds [OF distinct_map_filter [OF assms(2)]]) (use added in auto)
  moreover have "(case find (\<lambda>d. dname d = n) ?as of Some d \<Rightarrow> Some (store d) | None \<Rightarrow> kept_catalog ds cur n) =
      target_catalog dname same store ds (catalog_of cname cur) n" (is "?l n = _") for n
  proof (cases "find (\<lambda>d. dname d = n) ds")
    case None
    then have "find (\<lambda>d. dname d = n) ?as = None" "kept_catalog ds cur n = None"
      by (auto simp: find_None_iff kept_catalog_def list_ex_iff split: option.split)
    then show ?thesis using None by (simp add: target_catalog_def)
  next
    case (Some d)
    then have d: "d \<in> set ds" "dname d = n" by (auto simp: find_Some_iff)
    have only: "e = d" if "e \<in> set ds" "dname e = n" for e using named_unique [OF that(1) d(1) _ assms(2)] that(2) d(2) by simp
    have "find (\<lambda>e. dname e = n) ?as = (if d \<in> set ?as then Some d else None)"
    proof (cases "d \<in> set ?as")
      case True
      then show ?thesis using find_named [OF True distinct_map_filter [OF assms(2)]] d(2) by simp
    next
      case False
      then show ?thesis using only by (auto simp: find_None_iff)
    qed
    moreover have "list_ex (\<lambda>e. dname e = n \<and> same e c) ds \<longleftrightarrow> same d c" for c
      unfolding list_ex_iff using only d by metis
    ultimately show ?thesis
      using Some added [OF d(1)] d(2) by (auto simp: target_catalog_def kept_catalog_def split: option.splits if_splits)
  qed
  then have "?l = target_catalog dname same store ds (catalog_of cname cur)" by (rule ext)
  ultimately show ?thesis
    unfolding drop_first_plan_def run_actions_append run_unmatched_drops [OF assms(1)] by simp
qed

lemma drop_first_reconciles:
  assumes "distinct (map cname cur)" "distinct (map dname ds)"
  shows "reconciles dname cname same store ds cur (drop_first_plan dname cname same ds cur)"
  by (rule target_reconciles [OF assms drop_first_converges [OF assms]])
     (auto simp: drop_first_plan_def list_ex_iff)

end

end
