(* ===== verification/Pg_Plan.thy ===== *)
theory Pg_Plan
  imports Api_Specs Pg_Introspect Named_Diff
begin

text \<open>
  The planner of the PostgreSQL plugin: the functions of src/plugins/postgres/lib/deploy.go,
  checkconstraint.go, exclusionconstraint.go and trigger.go that compare a desired schema with the
  catalog, the plan of a table, a function or an extension, and the entry points of connection.go.

  The statements of a plan are strings, in the order in which they will be executed. A planner
  that appends to \<open>statements\<close> and to a list of dropped names in a loop is a fold over the desired
  objects with that pair as its state.
\<close>

section \<open>Columns and keys (deploy.go)\<close>

definition column_of_row :: "ColumnRow \<Rightarrow> Column" where
  "column_of_row r =
     (let dataType = (if cr_DataType r = ''ARRAY'' \<or> cr_DataType r = ''USER-DEFINED''
                      then UDTNameToDataType (cr_UdtName r) else cr_DataType r)
      in \<lparr> col_Name = cr_Name r, col_DataType = with_max_length dataType (cr_CharMaxLength r),
           col_ColumnDefault = map_option stripOIDClass (cr_ColumnDefault r),
           col_Constraints = Some \<lparr> cc_NotNull = Some (cr_IsNullable r = ''NO'') \<rparr>,
           col_Attributes = None, col_IsArray = (cr_DataType r = ''ARRAY''), col_Charset = [],
           col_Collation = [], col_IsStatic = False \<rparr>)"

definition BuildColumnStatements ::
  "(string list \<Rightarrow> string) \<Rightarrow> PostgresConnection \<Rightarrow> string \<Rightarrow> PostgresqlTableSchema \<Rightarrow> string list result" where
  "BuildColumnStatements san p tableName schema =
     (case schema_argument tableName of
        (table, sch) \<Rightarrow>
          bindE (wrapE ''failed to select from information_schema'' (srv_column_details (pg_conn p) table sch)) (\<lambda>rows.
          bindE (mapE (\<lambda>row.
                   bindE (wrapE ''failed to scan'' row) (\<lambda>r.
                   bindE (wrapE ''failed to create alter column statement''
                            (AlterColumnStatements san tableName (pts_PrimaryKey schema) (pts_Columns schema) (column_of_row r)))
                     (\<lambda>stmts. Inr (cr_Name r, stmts)))) rows) (\<lambda>altered.
          let foundColumnNames = map fst altered
          in bindE (mapE (\<lambda>desiredColumn.
                      wrapE ''failed to create insert column statement'' (InsertColumnStatement san tableName desiredColumn))
                    (filter (\<lambda>desiredColumn. \<not> list_ex (\<lambda>found. found = pcol_Name desiredColumn) foundColumnNames)
                       (pts_Columns schema)))
               (\<lambda>inserts. Inr (concat (map snd altered) @ inserts)))))"

definition BuildPrimaryKeyStatements ::
  "(string list \<Rightarrow> string) \<Rightarrow> PostgresConnection \<Rightarrow> string \<Rightarrow> PostgresqlTableSchema \<Rightarrow> string list result" where
  "BuildPrimaryKeyStatements san p tableName schema =
     bindE (GetTablePrimaryKey p tableName) (\<lambda>currentPrimaryKey.
       let desired = (if pts_PrimaryKey schema \<noteq> []
                      then Some \<lparr> kc_Name = [], kc_Columns = pts_PrimaryKey schema, kc_IsPrimary = True \<rparr> else None)
       in if KeyConstraint_Equals desired currentPrimaryKey then Inr []
          else Inr ((if currentPrimaryKey \<noteq> None then [RemoveConstrantStatement san tableName currentPrimaryKey] else []) @
                    (if desired \<noteq> None then [AddConstrantStatement san tableName desired] else [])))"

section \<open>Foreign keys (deploy.go)\<close>

definition desired_fk_for_compare :: "string \<Rightarrow> PostgresqlTableForeignKey \<Rightarrow> ForeignKey" where
  "desired_fk_for_compare tableName schemaFK =
     (let fk = PostgresqlSchemaForeignKeyToForeignKey schemaFK;
          tableSchema = fst (splitQualifiedTableName tableName)
      in fk \<lparr> fk_ParentTable := QualifyParentTableToSchema (fk_ParentTable fk) tableSchema \<rparr>)"

text \<open>
  One desired key. The source looks for an equal current key; when there is none,
  \<open>matchedForeignKey\<close> is the last current key, whatever its name, and that one is dropped.
\<close>

definition desired_fk_step ::
  "(string list \<Rightarrow> string) \<Rightarrow> string \<Rightarrow> ForeignKey list \<Rightarrow> PostgresqlTableForeignKey \<Rightarrow>
   string list \<times> string list \<Rightarrow> string list \<times> string list" where
  "desired_fk_step san tableName currentForeignKeys foreignKey st =
     (case st of (statements, droppedKeys) \<Rightarrow>
        if list_ex (\<lambda>current. ForeignKey_Equals current (desired_fk_for_compare tableName foreignKey)) currentForeignKeys
        then st
        else if currentForeignKeys = [] then (statements @ [AddForeignKeyStatement san tableName foreignKey], droppedKeys)
        else (statements @ [RemoveForeignKeyStatement san tableName (last currentForeignKeys),
                            AddForeignKeyStatement san tableName foreignKey],
              droppedKeys @ [fk_Name (last currentForeignKeys)]))"

definition BuildForeignKeyStatements ::
  "(string list \<Rightarrow> string) \<Rightarrow> PostgresConnection \<Rightarrow> string \<Rightarrow> PostgresqlTableSchema \<Rightarrow> string list result" where
  "BuildForeignKeyStatements san p tableName schema =
     bindE (ListTableForeignKeys p (pg_databaseName p) tableName) (\<lambda>currentForeignKeys.
       let (statements, droppedKeys) =
             fold (desired_fk_step san tableName currentForeignKeys) (pts_ForeignKeys schema) ([], []);
           removed = filter (\<lambda>current.
             \<not> list_ex (\<lambda>foreignKey. ForeignKey_Equals current (desired_fk_for_compare tableName foreignKey))
                 (pts_ForeignKeys schema) \<and>
             \<not> list_ex (\<lambda>dropped. dropped = fk_Name current) droppedKeys) currentForeignKeys
       in Inr (statements @ map (RemoveForeignKeyStatement san tableName) removed))"

section \<open>Indexes (deploy.go)\<close>

text \<open>The source stores the generated name in the desired index; the second loop sees it.\<close>

definition name_index :: "bool \<Rightarrow> string \<Rightarrow> PostgresqlTableIndex \<Rightarrow> PostgresqlTableIndex" where
  "name_index tableExists tableName index =
     (if \<not> tableExists \<and> isInlineFoldableUniqueIndex index then index
      else if pix_Name index = [] then index \<lparr> pix_Name := GeneratePostgresqlIndexName tableName index \<rparr>
      else index)"

definition remove_index_statement ::
  "(string list \<Rightarrow> string) \<Rightarrow> string \<Rightarrow> string list \<Rightarrow> Index \<Rightarrow> string" where
  "remove_index_statement san tableName currentConstraints index =
     (if list_ex (\<lambda>constraint. ix_Name index = constraint) currentConstraints
      then RemoveConstraintStatement san tableName index
      else RemoveIndexStatement san tableName index)"

definition desired_index_step ::
  "(string list \<Rightarrow> string) \<Rightarrow> string \<Rightarrow> bool \<Rightarrow> string list \<Rightarrow> Index list \<Rightarrow> PostgresqlTableIndex \<Rightarrow>
   string list \<times> string list \<Rightarrow> string list \<times> string list" where
  "desired_index_step san tableName tableExists currentConstraints currentIndexes index st =
     (case st of (statements, droppedIndexes) \<Rightarrow>
        if \<not> tableExists \<and> isInlineFoldableUniqueIndex index then st
        else if list_ex (\<lambda>current. Index_Equals current (PostgresqlSchemaIndexToIndex index)) currentIndexes then st
        else
          (case find (\<lambda>current. ix_Name current = pix_Name index) (rev currentIndexes) of
             None \<Rightarrow> (statements @ [AddIndexStatement san tableName index], droppedIndexes)
           | Some matched \<Rightarrow>
               (statements @ [remove_index_statement san tableName currentConstraints matched,
                              AddIndexStatement san tableName index],
                droppedIndexes @ [ix_Name matched])))"

definition BuildIndexStatements ::
  "(string list \<Rightarrow> string) \<Rightarrow> PostgresConnection \<Rightarrow> string \<Rightarrow> PostgresqlTableSchema \<Rightarrow> string list result" where
  "BuildIndexStatements san p tableName schema =
     bindE (wrapE ''failed to list table indexes'' (ListTableIndexes p (pg_databaseName p) tableName)) (\<lambda>currentIndexes.
     bindE (wrapE ''failed to list table constraints'' (ListTableConstraints p (pg_databaseName p) tableName)) (\<lambda>currentConstraints.
     bindE (wrapE ''failed to check if table exists'' (CheckIfTableExists p tableName)) (\<lambda>tableExists.
       let indexes = map (name_index tableExists tableName) (pts_Indexes schema);
           (statements, droppedIndexes) =
             fold (desired_index_step san tableName tableExists currentConstraints currentIndexes) indexes ([], []);
           removed = filter (\<lambda>current.
             \<not> list_ex (\<lambda>index. Index_Equals current (PostgresqlSchemaIndexToIndex index)) indexes \<and>
             \<not> list_ex (\<lambda>dropped. dropped = ix_Name current) droppedIndexes) currentIndexes
       in Inr (statements @ map (remove_index_statement san tableName currentConstraints) removed))))"

section \<open>Check and exclusion constraints\<close>

definition desired_check_step ::
  "(string list \<Rightarrow> string) \<Rightarrow> string \<Rightarrow> CheckConstraint list \<Rightarrow> PostgresqlTableCheckConstraint \<Rightarrow>
   string list \<times> string list \<Rightarrow> string list \<times> string list" where
  "desired_check_step san tableName currentChecks desired st =
     (case st of (statements, droppedNames) \<Rightarrow>
        (case find (\<lambda>current. ck_Name current = GeneratePostgresqlCheckName tableName desired) currentChecks of
           None \<Rightarrow> (statements @ [AddCheckConstraintStatement san tableName (Some desired)], droppedNames)
         | Some matched \<Rightarrow>
             if checkExprEquivalent (pck_Expression desired) (ck_Expression matched) then st
             else (statements @ [RemoveCheckConstraintStatement san tableName (Some matched),
                                 AddCheckConstraintStatement san tableName (Some desired)],
                   droppedNames @ [ck_Name matched])))"

definition BuildCheckConstraintStatements ::
  "(string list \<Rightarrow> string) \<Rightarrow> PostgresConnection \<Rightarrow> string \<Rightarrow> PostgresqlTableSchema \<Rightarrow> string list result" where
  "BuildCheckConstraintStatements san p tableName schema =
     bindE (ListTableCheckConstraints p (pg_databaseName p) tableName) (\<lambda>currentChecks.
       let (statements, droppedNames) =
             fold (desired_check_step san tableName currentChecks) (pts_Checks schema) ([], []);
           removed = filter (\<lambda>current.
             \<not> list_ex (\<lambda>desired. GeneratePostgresqlCheckName tableName desired = ck_Name current) (pts_Checks schema) \<and>
             \<not> list_ex (\<lambda>dropped. dropped = ck_Name current) droppedNames) currentChecks
       in Inr (statements @ map (\<lambda>current. RemoveCheckConstraintStatement san tableName (Some current)) removed))"

definition desired_exclusion_step ::
  "(string list \<Rightarrow> string) \<Rightarrow> string \<Rightarrow> ExclusionConstraint list \<Rightarrow> PostgresqlTableExclusionConstraint \<Rightarrow>
   string list \<times> string list \<Rightarrow> string list \<times> string list" where
  "desired_exclusion_step san tableName currentExclusions desired st =
     (case st of (statements, droppedNames) \<Rightarrow>
        (let desiredType = PostgresqlSchemaExclusionConstraintToExclusionConstraint desired;
             name = GeneratePostgresqlExclusionConstraintName tableName desired
         in case find (\<lambda>current. xc_Name current = name) currentExclusions of
              None \<Rightarrow> (statements @ [AddExclusionConstraintStatement san tableName (Some desired)], droppedNames)
            | Some matched \<Rightarrow>
                if ExclusionConstraint_Equals (Some matched) (Some desiredType) then st
                else (statements @ [RemoveExclusionConstraintStatement san tableName (Some matched),
                                    AddExclusionConstraintStatement san tableName (Some desired)],
                      droppedNames @ [xc_Name matched])))"

definition BuildExclusionConstraintStatements ::
  "(string list \<Rightarrow> string) \<Rightarrow> PostgresConnection \<Rightarrow> string \<Rightarrow> PostgresqlTableSchema \<Rightarrow> string list result" where
  "BuildExclusionConstraintStatements san p tableName schema =
     bindE (ListTableExclusionConstraints p (pg_databaseName p) tableName) (\<lambda>currentExclusions.
       let (statements, droppedNames) =
             fold (desired_exclusion_step san tableName currentExclusions) (pts_ExclusionConstraints schema) ([], []);
           removed = filter (\<lambda>current.
             \<not> list_ex (\<lambda>desired. GeneratePostgresqlExclusionConstraintName tableName desired = xc_Name current)
                 (pts_ExclusionConstraints schema) \<and>
             \<not> list_ex (\<lambda>dropped. dropped = xc_Name current) droppedNames) currentExclusions
       in Inr (statements @ map (\<lambda>current. RemoveExclusionConstraintStatement san tableName (Some current)) removed))"

section \<open>Triggers (trigger.go)\<close>

fun desired_trigger_loop ::
  "(string list \<Rightarrow> string) \<Rightarrow> string \<Rightarrow> string \<Rightarrow> pgTrigger list \<Rightarrow> PostgresqlTableTrigger list \<Rightarrow>
   string list \<times> string list \<Rightarrow> (string list \<times> string list) result" where
  "desired_trigger_loop san tableName qualifiedTableName currentTriggers [] st = Inr st"
| "desired_trigger_loop san tableName qualifiedTableName currentTriggers (trigger # rest) (statements, droppedNames) =
     (if ptt_Name trigger = [] then Inl (ErrNew ''trigger requires a name to be managed on an existing table'')
      else bindE (wrapE ''failed to create trigger statement'' (triggerCreateStatement san trigger qualifiedTableName)) (\<lambda>want.
        desired_trigger_loop san tableName qualifiedTableName currentTriggers rest
          (case find (\<lambda>current. tg_Name current = ptt_Name trigger) currentTriggers of
             None \<Rightarrow> (statements @ [want], droppedNames)
           | Some matched \<Rightarrow>
               if normalizeTriggerDefinition want = normalizeTriggerDefinition (tg_Definition matched)
               then (statements, droppedNames)
               else (statements @ [dropTriggerStatement san (tg_Name matched) tableName, want],
                     droppedNames @ [tg_Name matched]))))"

definition BuildTriggerStatements ::
  "(string list \<Rightarrow> string) \<Rightarrow> PostgresConnection \<Rightarrow> string \<Rightarrow> PostgresqlTableSchema \<Rightarrow> string list result" where
  "BuildTriggerStatements san p tableName schema =
     bindE (wrapE ''failed to list table triggers'' (ListTableTriggers p tableName)) (\<lambda>currentTriggers.
     bindE (desired_trigger_loop san tableName (schema_qualified schema tableName) currentTriggers
              (desired_triggers schema) ([], [])) (\<lambda>(statements, droppedNames).
       let removed = filter (\<lambda>current.
             \<not> list_ex (\<lambda>trigger. ptt_Name trigger = tg_Name current) (desired_triggers schema) \<and>
             \<not> list_ex (\<lambda>dropped. dropped = tg_Name current) droppedNames) currentTriggers
       in Inr (statements @ map (\<lambda>current. dropTriggerStatement san (tg_Name current) tableName) removed)))"

section \<open>Row-level security (deploy.go)\<close>

fun desired_policy_loop ::
  "(string list \<Rightarrow> string) \<Rightarrow> string \<Rightarrow> Policy list \<Rightarrow> PostgresqlTablePolicy list \<Rightarrow>
   string list \<times> string list \<Rightarrow> (string list \<times> string list) result" where
  "desired_policy_loop san tableName currentPolicies [] st = Inr st"
| "desired_policy_loop san tableName currentPolicies (policy # rest) (statements, droppedPolicies) =
     (if ppo_Name policy = [] then Inl (ErrNew ''policy requires a name to be managed on an existing table'')
      else
        desired_policy_loop san tableName currentPolicies rest
          (case find (\<lambda>current. po_Name current = ppo_Name policy) currentPolicies of
             None \<Rightarrow> (statements @ [CreatePolicyStatement san tableName policy], droppedPolicies)
           | Some matched \<Rightarrow>
               if Policy_AttributesEqual (Some matched) (Some (PostgresqlSchemaPolicyToPolicy policy))
               then (statements, droppedPolicies)
               else (statements @ [RemovePolicyStatement san tableName (po_Name matched),
                                   CreatePolicyStatement san tableName policy],
                     droppedPolicies @ [po_Name matched])))"

definition emitted :: "string \<Rightarrow> string list" where
  "emitted stmt = (if stmt \<noteq> [] then [stmt] else [])"

definition BuildRowLevelSecurityStatements ::
  "(string list \<Rightarrow> string) \<Rightarrow> PostgresConnection \<Rightarrow> string \<Rightarrow> PostgresqlTableSchema \<Rightarrow> string list result" where
  "BuildRowLevelSecurityStatements san p tableName schema =
     (case pts_RowLevelSecurity schema of
        None \<Rightarrow> Inr []
      | Some rls \<Rightarrow>
          bindE (wrapE ''failed to get current row level security'' (GetTableRowSecurity p tableName)) (\<lambda>current.
          bindE (rowSecurityToggleStatement tableName (prl_Enable rls) (rl_Enabled current) ''enable'' ''disable''
                   (enableRowLevelSecurityStatement san)) (\<lambda>enableStmt.
          bindE (rowSecurityToggleStatement tableName (prl_Force rls) (rl_Forced current) ''force'' ''noforce''
                   (forceRowLevelSecurityStatement san)) (\<lambda>forceStmt.
          bindE (wrapE ''failed to list table policies'' (ListTablePolicies p tableName)) (\<lambda>currentPolicies.
          bindE (desired_policy_loop san tableName currentPolicies (pts_Policies schema)
                   (emitted enableStmt @ emitted forceStmt, [])) (\<lambda>(statements, droppedPolicies).
            let removed = filter (\<lambda>current.
                  \<not> list_ex (\<lambda>policy. ppo_Name policy = po_Name current) (pts_Policies schema) \<and>
                  \<not> list_ex (\<lambda>dropped. dropped = po_Name current) droppedPolicies) currentPolicies
            in Inr (statements @ map (\<lambda>current. RemovePolicyStatement san tableName (po_Name current)) removed)))))))"

section \<open>Plans (deploy.go)\<close>

definition alter_table_statements ::
  "(string list \<Rightarrow> string) \<Rightarrow> PostgresConnection \<Rightarrow> string \<Rightarrow> PostgresqlTableSchema \<Rightarrow> string list result" where
  "alter_table_statements san p tableName schema =
     bindE (wrapE ''failed to build column statement'' (BuildColumnStatements san p tableName schema)) (\<lambda>s1.
     bindE (wrapE ''failed to build primary key statements'' (BuildPrimaryKeyStatements san p tableName schema)) (\<lambda>s2.
     bindE (wrapE ''failed to build foreign key statements'' (BuildForeignKeyStatements san p tableName schema)) (\<lambda>s3.
     bindE (wrapE ''failed to build check constraint statements'' (BuildCheckConstraintStatements san p tableName schema)) (\<lambda>s4.
     bindE (wrapE ''failed to build index statements'' (BuildIndexStatements san p tableName schema)) (\<lambda>s5.
     bindE (wrapE ''failed to build exclusion constraint statements''
              (BuildExclusionConstraintStatements san p tableName schema)) (\<lambda>s6.
     bindE (wrapE ''failed to build trigger statements'' (BuildTriggerStatements san p tableName schema)) (\<lambda>s7.
     bindE (wrapE ''failed to build row level security statements''
              (BuildRowLevelSecurityStatements san p tableName schema)) (\<lambda>s8.
       Inr (s1 @ s2 @ s3 @ s4 @ s5 @ s6 @ s7 @ s8)))))))))"

definition seed_statements ::
  "(string list \<Rightarrow> string) \<Rightarrow> string \<Rightarrow> PostgresqlTableSchema \<Rightarrow> SeedData option \<Rightarrow> string list" where
  "seed_statements san tableName schema seedData =
     (case seedData of None \<Rightarrow> [] | Some sd \<Rightarrow> SeedDataStatements san tableName schema sd)"

definition PlanPostgresTable ::
  "(string list \<Rightarrow> string) \<Rightarrow> PgEnv \<Rightarrow> string \<Rightarrow> string \<Rightarrow> PostgresqlTableSchema \<Rightarrow> SeedData option \<Rightarrow> string list result" where
  "PlanPostgresTable san env uri tableName schema seedData =
     bindE (wrapE ''failed to connect to postgres'' (Connect env uri)) (\<lambda>p.
     bindE (wrapE ''failed to check if table exists'' (CheckIfTableExists p tableName)) (\<lambda>tableExists.
       if \<not> tableExists \<and> pts_IsDeleted schema then Inr []
       else if tableExists \<and> pts_IsDeleted schema then Inr [''drop table '' @ sanitizeTableName san tableName]
       else
         (let seedDataStatements = seed_statements san tableName schema seedData
          in if \<not> tableExists then
               bindE (wrapE ''failed to create table statement'' (CreateTableStatements san tableName schema)) (\<lambda>queries.
               bindE (wrapE ''failed to build index statements'' (BuildIndexStatements san p tableName schema)) (\<lambda>indexStatements.
                 Inr (queries @ seedDataStatements @ indexStatements)))
             else
               bindE (alter_table_statements san p tableName schema) (\<lambda>statements.
                 Inr (statements @ seedDataStatements)))))"

definition schema_column_of_existing :: "Column \<Rightarrow> PostgresqlTableColumn" where
  "schema_column_of_existing col =
     \<lparr> pcol_Name = col_Name col, pcol_Type = col_DataType col,
       pcol_Constraints = (case col_Constraints col of
           Some c \<Rightarrow> (if cc_NotNull c \<noteq> None then Some \<lparr> pcc_NotNull = cc_NotNull c \<rparr> else None)
         | None \<Rightarrow> None),
       pcol_Attributes = None, pcol_Default = col_ColumnDefault col \<rparr>"

definition missing_table_error :: "string \<Rightarrow> go_error" where
  "missing_table_error tableName =
     ErrNew (''table '' @ tableName @ '' does not exist, cannot apply seed data without schema'')"

definition primary_key_columns :: "KeyConstraint option \<Rightarrow> string list" where
  "primary_key_columns primaryKey = (case primaryKey of Some k \<Rightarrow> kc_Columns k | None \<Rightarrow> [])"

definition PlanPostgresTableSeedDataOnly ::
  "(string list \<Rightarrow> string) \<Rightarrow> PgEnv \<Rightarrow> string \<Rightarrow> string \<Rightarrow> SeedData option \<Rightarrow> string list result" where
  "PlanPostgresTableSeedDataOnly san env uri tableName seedData =
     (case seedData of
        None \<Rightarrow> Inr []
      | Some sd \<Rightarrow>
          bindE (wrapE ''failed to connect to postgres'' (Connect env uri)) (\<lambda>p.
          bindE (wrapE ''failed to check if table exists'' (CheckIfTableExists p tableName)) (\<lambda>tableExists.
            if \<not> tableExists then Inl (missing_table_error tableName)
            else
              bindE (wrapE ''failed to get existing table schema'' (GetTableSchema p tableName)) (\<lambda>existingColumns.
              bindE (wrapE ''failed to get table primary key'' (GetTablePrimaryKey p tableName)) (\<lambda>primaryKey.
                Inr (SeedDataStatements san tableName
                       (empty_table_schema \<lparr> pts_Columns := map schema_column_of_existing existingColumns,
                                             pts_PrimaryKey := primary_key_columns primaryKey \<rparr>) sd))))))"

definition SeedDataStatementsWithExistingSchema ::
  "(string list \<Rightarrow> string) \<Rightarrow> PgEnv \<Rightarrow> string \<Rightarrow> string \<Rightarrow> SeedData \<Rightarrow> string list result" where
  "SeedDataStatementsWithExistingSchema san env uri tableName seedData =
     bindE (wrapE ''failed to connect to postgres'' (Connect env uri)) (\<lambda>p.
     bindE (wrapE ''failed to check if table exists'' (CheckIfTableExists p tableName)) (\<lambda>tableExists.
       if \<not> tableExists then Inl (missing_table_error tableName)
       else
         bindE (wrapE ''failed to get table primary key'' (GetTablePrimaryKey p tableName)) (\<lambda>primaryKey.
           Inr (SeedDataStatements san tableName
                  (empty_table_schema \<lparr> pts_PrimaryKey := primary_key_columns primaryKey \<rparr>) seedData))))"

definition PlanPostgresFunction ::
  "PgEnv \<Rightarrow> string \<Rightarrow> string \<Rightarrow> PostgresqlFunctionSchema \<Rightarrow> string list result" where
  "PlanPostgresFunction env uri functionName schema =
     bindE (wrapE ''failed to connect to postgres'' (Connect env uri)) (\<lambda>p.
     bindE (wrapE ''failed to get function definition''
              (GetFunctionDefinition p (pfn_Schema schema) functionName (pfn_Params schema))) (\<lambda>existingDef.
       if pfn_IsDeleted schema then
         Inr (if existingDef = None then [] else DropFunctionStatements functionName schema)
       else
         (case existingDef of
            None \<Rightarrow> Inr (CreateFunctionStatements functionName schema)
          | Some def \<Rightarrow>
              if functionDefinitionsEqual def schema then Inr []
              else Inr (CreateFunctionStatements functionName schema))))"

definition PlanPostgresExtension ::
  "(string list \<Rightarrow> string) \<Rightarrow> PgEnv \<Rightarrow> string \<Rightarrow> string \<Rightarrow> PostgresDatabaseExtension \<Rightarrow> string list result" where
  "PlanPostgresExtension san env uri extensionName schema =
     bindE (wrapE ''failed to connect to postgres'' (Connect env uri)) (\<lambda>p.
     bindE (wrapE ''failed to check if extension exists'' (CheckIfExtensionExists p extensionName)) (\<lambda>extensionExists.
       if \<not> extensionExists \<and> pex_IsDeleted schema then Inr []
       else if extensionExists \<and> pex_IsDeleted schema then Inr (DropExtensionStatements san [schema])
       else if \<not> extensionExists then Inr (CreateExtensionStatements san [schema])
       else Inr []))"

definition PlanPostgresView :: "string \<Rightarrow> string \<Rightarrow> string list result" where
  "PlanPostgresView uri viewName = Inl (ErrNew ''not implemented'')"

definition PlanCockroachDBTable ::
  "string \<Rightarrow> string \<Rightarrow> PostgresqlTableSchema \<Rightarrow> SeedData option \<Rightarrow> string list result" where
  "PlanCockroachDBTable uri tableName schema seedData =
     Inl (ErrNew ''CockroachDB planning not yet implemented'')"

section \<open>Execution (deploy.go)\<close>

text \<open>
  \<open>exec\<close> is \<^verbatim>\<open>conn.Exec\<close>: the effect of one statement on the database, and its error if it has
  one. Execution stops at the first error and keeps what was done before.
\<close>

fun executeStatements ::
  "(string \<Rightarrow> 'db \<Rightarrow> go_error option \<times> 'db) \<Rightarrow> string list \<Rightarrow> 'db \<Rightarrow> go_error option \<times> 'db" where
  "executeStatements exec [] db = (None, db)"
| "executeStatements exec (statement # rest) db =
     (if statement = [] then executeStatements exec rest db
      else (case exec statement db of
              (Some e, db') \<Rightarrow> (Some e, db')
            | (None, db') \<Rightarrow> executeStatements exec rest db'))"

definition DeployPostgresStatements ::
  "PgEnv \<Rightarrow> (string \<Rightarrow> 'db \<Rightarrow> go_error option \<times> 'db) \<Rightarrow> string \<Rightarrow> string list \<Rightarrow> 'db \<Rightarrow> go_error option \<times> 'db" where
  "DeployPostgresStatements env exec uri statements db =
     (case Connect env uri of
        Inl e \<Rightarrow> (Some e, db)
      | Inr p \<Rightarrow> executeStatements exec statements db)"

section \<open>Entry points (connection.go)\<close>

text \<open>
  The schema arrives as an \<^verbatim>\<open>interface{}\<close> (\<^typ>\<open>schema_iface\<close>). A nil pointer of the right struct
  type passes the type assertion; the planner then dereferences it, after the queries that come
  before the first field access, and panics.
\<close>

definition PlanTableSchema ::
  "(string list \<Rightarrow> string) \<Rightarrow> PgEnv \<Rightarrow> PostgresConnection \<Rightarrow> string \<Rightarrow> schema_iface \<Rightarrow>
   SeedData option \<Rightarrow> string list result" where
  "PlanTableSchema san env p tableName tableSchema seedData =
     (if tableSchema = NilInterface \<and> seedData \<noteq> None
      then PlanPostgresTableSeedDataOnly san env (pg_uri p) tableName seedData
      else (case tableSchema of
              PostgresqlTable (Some schema) \<Rightarrow> PlanPostgresTable san env (pg_uri p) tableName schema seedData
            | PostgresqlTable None \<Rightarrow>
                bindE (wrapE ''failed to connect to postgres'' (Connect env (pg_uri p))) (\<lambda>p'.
                bindE (wrapE ''failed to check if table exists'' (CheckIfTableExists p' tableName)) (\<lambda>_.
                  nil_dereference))
            | _ \<Rightarrow> Inl (ErrNew ''tableSchema must be *PostgresqlTableSchema'')))"

definition PlanFunctionSchema ::
  "PgEnv \<Rightarrow> PostgresConnection \<Rightarrow> string \<Rightarrow> schema_iface \<Rightarrow> string list result" where
  "PlanFunctionSchema env p functionName functionSchema =
     (case functionSchema of
        PostgresqlFunction (Some schema) \<Rightarrow> PlanPostgresFunction env (pg_uri p) functionName schema
      | PostgresqlFunction None \<Rightarrow>
          bindE (wrapE ''failed to connect to postgres'' (Connect env (pg_uri p))) (\<lambda>_. nil_dereference)
      | _ \<Rightarrow> Inl (ErrNew ''functionSchema must be *PostgresqlFunctionSchema''))"

definition PlanExtensionSchema ::
  "(string list \<Rightarrow> string) \<Rightarrow> PgEnv \<Rightarrow> PostgresConnection \<Rightarrow> string \<Rightarrow> schema_iface \<Rightarrow> string list result" where
  "PlanExtensionSchema san env p extensionName extensionSchema =
     (case extensionSchema of
        PostgresExtension (Some schema) \<Rightarrow> PlanPostgresExtension san env (pg_uri p) extensionName schema
      | PostgresExtension None \<Rightarrow>
          bindE (wrapE ''failed to connect to postgres'' (Connect env (pg_uri p))) (\<lambda>p'.
          bindE (wrapE ''failed to check if extension exists'' (CheckIfExtensionExists p' extensionName)) (\<lambda>_.
            nil_dereference))
      | _ \<Rightarrow> Inl (ErrNew ''extensionSchema must be *PostgresDatabaseExtension''))"

definition PlanViewSchema :: "PostgresConnection \<Rightarrow> string \<Rightarrow> schema_iface \<Rightarrow> string list result" where
  "PlanViewSchema p viewName viewSchema = PlanPostgresView (pg_uri p) viewName"

definition PlanTypeSchema :: "PostgresConnection \<Rightarrow> string \<Rightarrow> schema_iface \<Rightarrow> string list result" where
  "PlanTypeSchema p typeName typeSchema = Inl (ErrNew ''type schemas are not yet implemented for PostgreSQL'')"

text \<open>A fixture: the statements for a table that does not exist, without a database.\<close>

definition GenerateFixtures :: "(string list \<Rightarrow> string) \<Rightarrow> TableSpec \<Rightarrow> string list result" where
  "GenerateFixtures san spec =
     (case Option.bind (tsp_Schema spec) ts_Postgres of
        None \<Rightarrow> Inr []
      | Some s \<Rightarrow>
          if pts_IsDeleted s then Inr []
          else
            bindE (wrapE ''failed to create table statements'' (CreateTableStatements san (tsp_Name spec) s)) (\<lambda>statements.
              Inr (statements @ (case tsp_SeedData spec of
                                   None \<Rightarrow> []
                                 | Some sd \<Rightarrow> SeedDataStatements san (tsp_Name spec) s sd))))"

section \<open>Check constraints refine the named planner\<close>

definition check_same :: "PostgresqlTableCheckConstraint \<Rightarrow> CheckConstraint \<Rightarrow> bool" where
  "check_same d c = checkExprEquivalent (pck_Expression d) (ck_Expression c)"

definition stored_check :: "string \<Rightarrow> PostgresqlTableCheckConstraint \<Rightarrow> CheckConstraint" where
  "stored_check tableName d =
     \<lparr> ck_Name = GeneratePostgresqlCheckName tableName d, ck_Expression = pck_Expression d \<rparr>"

interpretation checks: named_planner "GeneratePostgresqlCheckName t" ck_Name check_same "stored_check t" for t
  by unfold_locales (simp_all add: stored_check_def check_same_def checkExprEquivalent_def)

abbreviation check_actions where
  "check_actions t \<equiv> named_plan (GeneratePostgresqlCheckName t) ck_Name check_same"

abbreviation render_check where
  "render_check san t \<equiv> rendered (\<lambda>c. RemoveCheckConstraintStatement san t (Some c))
     (\<lambda>d. AddCheckConstraintStatement san t (Some d))"

lemma desired_check_step_emit:
  "desired_check_step san t cur =
     emit_step (GeneratePostgresqlCheckName t) ck_Name check_same
       (\<lambda>c. RemoveCheckConstraintStatement san t (Some c)) (\<lambda>d. AddCheckConstraintStatement san t (Some d)) cur"
  unfolding fun_eq_iff desired_check_step_def emit_step_def check_same_def by simp

lemma BuildCheckConstraintStatements_refines:
  assumes "ListTableCheckConstraints p (pg_databaseName p) t = Inr cur"
  shows "BuildCheckConstraintStatements san p t schema =
     Inr (map (render_check san t) (check_actions t (pts_Checks schema) cur))"
  unfolding BuildCheckConstraintStatements_def assms bindE.simps desired_check_step_emit
    emit_plan_rendered [symmetric] Let_def case_prod_beta by simp

section \<open>Exclusion constraints\<close>

definition exclusion_same :: "PostgresqlTableExclusionConstraint \<Rightarrow> ExclusionConstraint \<Rightarrow> bool" where
  "exclusion_same d c =
     ExclusionConstraint_Equals (Some c) (Some (PostgresqlSchemaExclusionConstraintToExclusionConstraint d))"

definition stored_exclusion :: "string \<Rightarrow> PostgresqlTableExclusionConstraint \<Rightarrow> ExclusionConstraint" where
  "stored_exclusion tableName d =
     (PostgresqlSchemaExclusionConstraintToExclusionConstraint d)
       \<lparr> xc_Name := GeneratePostgresqlExclusionConstraintName tableName d \<rparr>"

interpretation exclusions: named_planner "GeneratePostgresqlExclusionConstraintName t" xc_Name exclusion_same
  "stored_exclusion t" for t
proof unfold_locales
  fix d
  show "xc_Name (stored_exclusion t d) = GeneratePostgresqlExclusionConstraintName t d"
    by (simp add: stored_exclusion_def)
  have "pxc_Name d = [] \<or> GeneratePostgresqlExclusionConstraintName t d = pxc_Name d"
    by (simp add: GeneratePostgresqlExclusionConstraintName_def)
  then show "exclusion_same d (stored_exclusion t d)"
    by (auto simp: exclusion_same_def stored_exclusion_def ExclusionConstraint_Equals_iff
        PostgresqlSchemaExclusionConstraintToExclusionConstraint_def)
qed

abbreviation exclusion_actions where
  "exclusion_actions t \<equiv> named_plan (GeneratePostgresqlExclusionConstraintName t) xc_Name exclusion_same"

abbreviation render_exclusion where
  "render_exclusion san t \<equiv> rendered (\<lambda>c. RemoveExclusionConstraintStatement san t (Some c))
     (\<lambda>d. AddExclusionConstraintStatement san t (Some d))"

lemma desired_exclusion_step_emit:
  "desired_exclusion_step san t cur =
     emit_step (GeneratePostgresqlExclusionConstraintName t) xc_Name exclusion_same
       (\<lambda>c. RemoveExclusionConstraintStatement san t (Some c))
       (\<lambda>d. AddExclusionConstraintStatement san t (Some d)) cur"
  unfolding fun_eq_iff desired_exclusion_step_def emit_step_def exclusion_same_def Let_def by simp

lemma BuildExclusionConstraintStatements_refines:
  assumes "ListTableExclusionConstraints p (pg_databaseName p) t = Inr cur"
  shows "BuildExclusionConstraintStatements san p t schema =
     Inr (map (render_exclusion san t) (exclusion_actions t (pts_ExclusionConstraints schema) cur))"
  unfolding BuildExclusionConstraintStatements_def assms bindE.simps desired_exclusion_step_emit
    emit_plan_rendered [symmetric] Let_def case_prod_beta by simp

section \<open>Policies\<close>

definition policy_same :: "PostgresqlTablePolicy \<Rightarrow> Policy \<Rightarrow> bool" where
  "policy_same d c = Policy_AttributesEqual (Some c) (Some (PostgresqlSchemaPolicyToPolicy d))"

interpretation policy_plan: named_planner ppo_Name po_Name policy_same PostgresqlSchemaPolicyToPolicy
  by unfold_locales (simp_all add: policy_same_def policy_attrs.same_refl PostgresqlSchemaPolicyToPolicy_def Let_def)

abbreviation policy_actions where
  "policy_actions \<equiv> named_plan ppo_Name po_Name policy_same"

abbreviation render_policy where
  "render_policy san t \<equiv> rendered (\<lambda>c. RemovePolicyStatement san t (po_Name c)) (CreatePolicyStatement san t)"

lemma desired_policy_loop_emit:
  assumes "list_all (\<lambda>d. ppo_Name d \<noteq> []) ds"
  shows "desired_policy_loop san t cur ds st =
     Inr (fold (emit_step ppo_Name po_Name policy_same (\<lambda>c. RemovePolicyStatement san t (po_Name c))
            (CreatePolicyStatement san t) cur) ds st)"
  using assms
proof (induction ds arbitrary: st)
  case (Cons d ds)
  then show ?case
    by (cases st) (simp add: emit_step_def policy_same_def split: option.split)
qed simp

lemma desired_policy_loop_unnamed:
  "\<not> list_all (\<lambda>d. ppo_Name d \<noteq> []) ds \<Longrightarrow>
   desired_policy_loop san t cur ds st = Inl (ErrNew ''policy requires a name to be managed on an existing table'')"
proof (induction ds arbitrary: st)
  case (Cons d ds)
  then show ?case by (cases st) (auto split: option.split)
qed simp

section \<open>Triggers\<close>

definition trigger_name :: "PostgresqlTableTrigger \<times> string \<Rightarrow> string" where
  "trigger_name d = ptt_Name (fst d)"

definition trigger_same :: "PostgresqlTableTrigger \<times> string \<Rightarrow> pgTrigger \<Rightarrow> bool" where
  "trigger_same d c = (normalizeTriggerDefinition (snd d) = normalizeTriggerDefinition (tg_Definition c))"

definition stored_trigger :: "PostgresqlTableTrigger \<times> string \<Rightarrow> pgTrigger" where
  "stored_trigger d = \<lparr> tg_Name = ptt_Name (fst d), tg_Definition = snd d \<rparr>"

interpretation trigger_plan: named_planner trigger_name tg_Name trigger_same stored_trigger
  by unfold_locales (simp_all add: trigger_name_def trigger_same_def stored_trigger_def)

abbreviation trigger_actions where
  "trigger_actions \<equiv> named_plan trigger_name tg_Name trigger_same"

abbreviation render_trigger where
  "render_trigger san t \<equiv> rendered (\<lambda>c. dropTriggerStatement san (tg_Name c) t) snd"

lemma desired_trigger_loop_emit:
  assumes "list_all (\<lambda>(d, w). ptt_Name d \<noteq> [] \<and> triggerCreateStatement san d q = Inr w) dws"
  shows "desired_trigger_loop san t q cur (map fst dws) st =
     Inr (fold (emit_step trigger_name tg_Name trigger_same (\<lambda>c. dropTriggerStatement san (tg_Name c) t) snd cur) dws st)"
  using assms
proof (induction dws arbitrary: st)
  case (Cons dw dws)
  then show ?case
    by (cases st; cases dw) (simp add: emit_step_def trigger_same_def trigger_name_def split: option.split)
qed simp

lemma list_ex_map_fst: "list_ex (\<lambda>d. P d) (map fst dws) = list_ex (\<lambda>dw. P (fst dw)) dws"
  by (induction dws) auto

lemma BuildTriggerStatements_refines:
  assumes cur: "ListTableTriggers p t = Inr cur"
    and ds: "desired_triggers schema = map fst dws"
    and ok: "list_all (\<lambda>(d, w). ptt_Name d \<noteq> [] \<and> triggerCreateStatement san d (schema_qualified schema t) = Inr w) dws"
  shows "BuildTriggerStatements san p t schema = Inr (map (render_trigger san t) (trigger_actions dws cur))"
  unfolding BuildTriggerStatements_def cur ds desired_trigger_loop_emit [OF ok] wrapE.simps bindE.simps
    emit_plan_rendered [symmetric] Let_def case_prod_beta list_ex_map_fst
  by (simp add: trigger_name_def)

section \<open>Indexes\<close>

definition index_same :: "PostgresqlTableIndex \<Rightarrow> Index \<Rightarrow> bool" where
  "index_same d c = Index_Equals c (PostgresqlSchemaIndexToIndex d)"

lemma ix_Name_schema [simp]: "ix_Name (PostgresqlSchemaIndexToIndex d) = pix_Name d"
  by (simp add: PostgresqlSchemaIndexToIndex_def Let_def)

lemma index_same_name: "index_same d c \<Longrightarrow> ix_Name c = pix_Name d"
  by (auto simp: index_same_def Index_Equals_def split: if_splits)

interpretation index_plan: named_planner pix_Name ix_Name index_same PostgresqlSchemaIndexToIndex
  by unfold_locales (simp_all add: index_same_def)

abbreviation index_actions where
  "index_actions \<equiv> named_plan pix_Name ix_Name index_same"

abbreviation render_index where
  "render_index san t constraints \<equiv> rendered (remove_index_statement san t constraints) (AddIndexStatement san t)"

lemma catalog_of_rev:
  assumes "distinct (map cname cur)"
  shows "catalog_of cname (rev cur) = catalog_of cname cur"
proof -
  have "distinct (map cname (rev cur))" using assms by (simp add: rev_map [symmetric])
  then show ?thesis
    using assms unfolding catalog_of_def
    by (intro map_of_inject_set [THEN iffD2]) (simp_all add: comp_def)
qed

lemma desired_index_step_emit:
  assumes "distinct (map ix_Name cur)"
  shows "desired_index_step san t True constraints cur d =
     emit_step pix_Name ix_Name index_same (remove_index_statement san t constraints) (AddIndexStatement san t) cur d"
proof -
  have eq: "list_ex (\<lambda>c. index_same d c) cur \<longleftrightarrow> (\<exists>c. catalog_of ix_Name cur (pix_Name d) = Some c \<and> index_same d c)"
    using catalog_of_member [OF assms] catalog_of_SomeD index_same_name by (metis list_ex_iff)
  show ?thesis
    unfolding fun_eq_iff desired_index_step_def emit_step_def index_same_def [symmetric] eq
      find_catalog_of catalog_of_rev [OF assms]
    by (auto split: option.split)
qed

lemma index_dropped:
  assumes "distinct (map ix_Name cur)" "c \<in> set cur" "d \<in> set ds" "pix_Name d = ix_Name c" "\<not> index_same d c"
  shows "ix_Name c \<in> set (snd (desired_pass pix_Name ix_Name index_same cur ds))"
  using assms(3-5)
proof (induction ds)
  case (Cons e ds)
  have "catalog_of ix_Name cur (ix_Name c) = Some c" using catalog_of_member [OF assms(1,2)] .
  then show ?case
    using Cons by (auto simp: find_catalog_of case_prod_beta split: option.splits)
qed simp

lemma index_removed:
  assumes "distinct (map ix_Name cur)"
  shows "filter (\<lambda>c. \<not> list_ex (\<lambda>d. index_same d c) ds \<and>
           \<not> list_ex (\<lambda>n. n = ix_Name c) (snd (desired_pass pix_Name ix_Name index_same cur ds))) cur =
         filter (\<lambda>c. \<not> list_ex (\<lambda>d. pix_Name d = ix_Name c) ds \<and>
           \<not> list_ex (\<lambda>n. n = ix_Name c) (snd (desired_pass pix_Name ix_Name index_same cur ds))) cur"
proof (rule filter_cong [OF refl])
  fix c
  let ?dropped = "snd (desired_pass pix_Name ix_Name index_same cur ds)"
  assume c: "c \<in> set cur"
  have "(\<exists>d \<in> set ds. pix_Name d = ix_Name c) \<and> \<not> (\<exists>d \<in> set ds. index_same d c) \<Longrightarrow> ix_Name c \<in> set ?dropped"
    using index_dropped [OF assms c] by blast
  moreover have "(\<exists>d \<in> set ds. index_same d c) \<Longrightarrow> (\<exists>d \<in> set ds. pix_Name d = ix_Name c)"
    using index_same_name by metis
  ultimately show "(\<not> list_ex (\<lambda>d. index_same d c) ds \<and> \<not> list_ex (\<lambda>n. n = ix_Name c) ?dropped) =
      (\<not> list_ex (\<lambda>d. pix_Name d = ix_Name c) ds \<and> \<not> list_ex (\<lambda>n. n = ix_Name c) ?dropped)"
    by (auto simp: list_ex_iff)
qed

lemma BuildIndexStatements_refines:
  assumes cur: "ListTableIndexes p (pg_databaseName p) t = Inr cur" "distinct (map ix_Name cur)"
    and con: "ListTableConstraints p (pg_databaseName p) t = Inr constraints"
    and ex: "CheckIfTableExists p t = Inr True"
  shows "BuildIndexStatements san p t schema =
     Inr (map (render_index san t constraints) (index_actions (map (name_index True t) (pts_Indexes schema)) cur))"
proof -
  let ?ds = "map (name_index True t) (pts_Indexes schema)"
  let ?step = "emit_step pix_Name ix_Name index_same (remove_index_statement san t constraints) (AddIndexStatement san t) cur"
  have step: "desired_index_step san t True constraints cur = ?step"
    using desired_index_step_emit [OF cur(2)] by (intro ext) simp
  have "map (render_index san t constraints) (index_actions ?ds cur) =
      fst (fold ?step ?ds ([], [])) @ map (remove_index_statement san t constraints)
        (filter (\<lambda>c. \<not> list_ex (\<lambda>d. index_same d c) ?ds \<and>
           \<not> list_ex (\<lambda>n. n = ix_Name c) (snd (fold ?step ?ds ([], [])))) cur)"
    unfolding emit_plan_rendered [symmetric] Let_def case_prod_beta
    by (simp add: fold_emit_step index_removed [OF cur(2), of ?ds])
  then show ?thesis
    unfolding BuildIndexStatements_def cur con ex wrapE.simps bindE.simps step Let_def case_prod_beta
      index_same_def [symmetric] by simp
qed

section \<open>Row-level security\<close>

lemma rowSecurityToggle_Inr:
  "rowSecurityToggleStatement t desired current on off build = Inr stmt \<longleftrightarrow>
     (let d = ToLower (TrimSpace desired)
      in (d = [] \<and> stmt = []) \<or>
         (d \<noteq> [] \<and> d = on \<and> stmt = (if current then [] else build t True)) \<or>
         (d \<noteq> [] \<and> d \<noteq> on \<and> d = off \<and> stmt = (if current then build t False else [])))"
  by (auto simp: rowSecurityToggleStatement_def Let_def)

lemma BuildRowLevelSecurityStatements_refines:
  assumes "pts_RowLevelSecurity schema = Some rls"
    and "GetTableRowSecurity p t = Inr current"
    and "rowSecurityToggleStatement t (prl_Enable rls) (rl_Enabled current) ''enable'' ''disable''
           (enableRowLevelSecurityStatement san) = Inr e"
    and "rowSecurityToggleStatement t (prl_Force rls) (rl_Forced current) ''force'' ''noforce''
           (forceRowLevelSecurityStatement san) = Inr f"
    and "ListTablePolicies p t = Inr cur"
    and "list_all (\<lambda>d. ppo_Name d \<noteq> []) (pts_Policies schema)"
  shows "BuildRowLevelSecurityStatements san p t schema =
     Inr (emitted e @ emitted f @ map (render_policy san t) (policy_actions (pts_Policies schema) cur))"
  unfolding BuildRowLevelSecurityStatements_def assms(1-5) option.case wrapE.simps bindE.simps
    desired_policy_loop_emit [OF assms(6)] emit_plan_rendered [symmetric] Let_def case_prod_beta
  by (simp add: fold_emit_step)

section \<open>Foreign keys\<close>

lemma fold_fk_steady:
  "list_all (\<lambda>d. list_ex (\<lambda>c. ForeignKey_Equals c (desired_fk_for_compare t d)) cur) ds \<Longrightarrow>
   fold (desired_fk_step san t cur) ds st = st"
  by (induction ds) (auto simp: desired_fk_step_def)

lemma BuildForeignKeyStatements_steady:
  assumes "ListTableForeignKeys p (pg_databaseName p) t = Inr cur"
    and "list_all (\<lambda>d. list_ex (\<lambda>c. ForeignKey_Equals c (desired_fk_for_compare t d)) cur) (pts_ForeignKeys schema)"
  shows "BuildForeignKeyStatements san p t schema =
     Inr (map (RemoveForeignKeyStatement san t)
       (filter (\<lambda>c. \<not> list_ex (\<lambda>d. ForeignKey_Equals c (desired_fk_for_compare t d)) (pts_ForeignKeys schema)) cur))"
  using fold_fk_steady [OF assms(2)] by (simp add: BuildForeignKeyStatements_def assms(1))

lemma fold_fk_fresh:
  "fold (desired_fk_step san t []) ds (st, dr) = (st @ map (AddForeignKeyStatement san t) ds, dr)"
  by (induction ds arbitrary: st) (auto simp: desired_fk_step_def)

end
