(* ===== verification/Sql_Server.thy ===== *)
theory Sql_Server
  imports Named_Diff Database_Sync
begin

text \<open>
  What a database server does with the statements of a plan. A server is not part of the program: it is given
  by the function \<open>exec\<close> that executes a text, the view \<open>catalog\<close> of the named objects of a table in a state, and the
  set \<open>ok\<close> of states that a deployment may meet. What a plan relies on is stated for the texts of its statements:
  \<open>drops_objects\<close> says that a text removes the object it is meant for, \<open>adds_objects\<close> that a text creates an object which
  the planner recognises when it reads the catalog again, and \<open>spares_objects\<close> that texts leave the objects alone.

  The locale \<open>planned_deployment\<close> joins a planner by name with the function that deploys its statements.
\<close>

section \<open>What is assumed of a server\<close>

definition drops_objects ::
  "('db \<Rightarrow> bool) \<Rightarrow> ('db \<Rightarrow> string \<rightharpoonup> 'c) \<Rightarrow> (string \<Rightarrow> 'db \<Rightarrow> go_error option \<times> 'db) \<Rightarrow>
   ('c \<Rightarrow> string) \<Rightarrow> ('c \<Rightarrow> string) \<Rightarrow> 'c list \<Rightarrow> bool" where
  "drops_objects ok catalog exec cname drop_stmt cs \<longleftrightarrow>
     (\<forall>c \<in> set cs. \<forall>db. ok db \<longrightarrow> catalog db (cname c) \<noteq> None \<longrightarrow>
        (\<exists>db'. exec (drop_stmt c) db = (None, db') \<and> ok db' \<and> catalog db' = (catalog db)(cname c := None)))"

definition adds_objects ::
  "('db \<Rightarrow> bool) \<Rightarrow> ('db \<Rightarrow> string \<rightharpoonup> 'c) \<Rightarrow> (string \<Rightarrow> 'db \<Rightarrow> go_error option \<times> 'db) \<Rightarrow>
   ('d \<Rightarrow> string) \<Rightarrow> ('c \<Rightarrow> string) \<Rightarrow> ('d \<Rightarrow> 'c \<Rightarrow> bool) \<Rightarrow> ('d \<Rightarrow> string) \<Rightarrow> 'd list \<Rightarrow> bool" where
  "adds_objects ok catalog exec dname cname same add_stmt ds \<longleftrightarrow>
     (\<exists>reported. \<forall>d \<in> set ds. cname (reported d) = dname d \<and> same d (reported d) \<and>
        (\<forall>db. ok db \<longrightarrow> catalog db (dname d) = None \<longrightarrow>
           (\<exists>db'. exec (add_stmt d) db = (None, db') \<and> ok db' \<and> catalog db' = (catalog db)(dname d \<mapsto> reported d))))"

definition spares_objects ::
  "('db \<Rightarrow> bool) \<Rightarrow> ('db \<Rightarrow> string \<rightharpoonup> 'c) \<Rightarrow> (string \<Rightarrow> 'db \<Rightarrow> go_error option \<times> 'db) \<Rightarrow> string list \<Rightarrow> bool" where
  "spares_objects ok catalog exec ss \<longleftrightarrow>
     (\<forall>s \<in> set ss. \<forall>db. ok db \<longrightarrow> (\<exists>db'. exec s db = (None, db') \<and> ok db' \<and> catalog db' = catalog db))"

text \<open>
  The aim of a plan: the catalog has exactly the desired names, each with an object that matches, and an object
  that matched before is still the same.
\<close>

definition in_line ::
  "('d \<Rightarrow> string) \<Rightarrow> ('c \<Rightarrow> string) \<Rightarrow> ('d \<Rightarrow> 'c \<Rightarrow> bool) \<Rightarrow> 'd list \<Rightarrow> 'c list \<Rightarrow> (string \<rightharpoonup> 'c) \<Rightarrow> bool" where
  "in_line dname cname same ds cur m \<longleftrightarrow>
     dom m = dname ` set ds \<and>
     (\<forall>d \<in> set ds. \<exists>c. m (dname d) = Some c \<and> same d c) \<and>
     (\<forall>d \<in> set ds. \<forall>c \<in> set cur. cname c = dname d \<and> same d c \<longrightarrow> m (dname d) = Some c)"

text \<open>A plan is careful if it drops only objects that are not desired or that differ from what is desired.\<close>

definition drops_only_changed ::
  "('d \<Rightarrow> string) \<Rightarrow> ('c \<Rightarrow> string) \<Rightarrow> ('d \<Rightarrow> 'c \<Rightarrow> bool) \<Rightarrow> 'd list \<Rightarrow> 'c list \<Rightarrow> ('c, 'd) action list \<Rightarrow> bool" where
  "drops_only_changed dname cname same ds cur acts \<longleftrightarrow>
     (\<forall>c. Drop_existing c \<in> set acts \<longrightarrow> c \<in> set cur \<and> (\<forall>d \<in> set ds. dname d = cname c \<longrightarrow> \<not> same d c))"

section \<open>Deploying a plan\<close>

lemma desired_pass_adds:
  "Add_desired d \<in> set (fst (desired_pass dname cname same cur ds)) \<Longrightarrow> d \<in> set ds"
  by (induction ds) (auto split: prod.splits option.splits if_splits)

lemma desired_pass_acts:
  "set (fst (desired_pass dname cname same cur ds)) \<subseteq> Drop_existing ` set cur \<union> Add_desired ` set ds"
proof
  fix a assume a: "a \<in> set (fst (desired_pass dname cname same cur ds))"
  show "a \<in> Drop_existing ` set cur \<union> Add_desired ` set ds"
  proof (cases a)
    case (Drop_existing c)
    then show ?thesis using a desired_pass_drops [of c dname cname same cur ds] by simp
  next
    case (Add_desired d)
    then show ?thesis using a desired_pass_adds [of d dname cname same cur ds] by simp
  qed
qed

lemma named_plan_acts: "set (named_plan dname cname same ds cur) \<subseteq> Drop_existing ` set cur \<union> Add_desired ` set ds"
  using desired_pass_acts [of dname cname same cur ds] by (auto simp: named_plan_alt)

locale planned_deployment =
  deployment deploy exec + named_planner dname cname same store
  for deploy :: "string list \<Rightarrow> 'db \<Rightarrow> go_error option \<times> 'db" and exec :: "string \<Rightarrow> 'db \<Rightarrow> go_error option \<times> 'db"
    and dname :: "'d \<Rightarrow> string" and cname :: "'c \<Rightarrow> string" and same :: "'d \<Rightarrow> 'c \<Rightarrow> bool" and store :: "'d \<Rightarrow> 'c"
begin

lemma deploy_spared:
  assumes "spares_objects ok catalog exec (filter (\<lambda>s. s \<noteq> []) ss)" "ok db"
  shows "\<exists>db'. deploy ss db = (None, db') \<and> ok db' \<and> catalog db' = catalog db"
  using assms
proof (induction ss arbitrary: db)
  case (Cons s ss)
  then have ss: "spares_objects ok catalog exec (filter (\<lambda>s. s \<noteq> []) ss)"
    by (auto simp: spares_objects_def)
  show ?case
  proof (cases "s = []")
    case True
    then show ?thesis using Cons.IH [OF ss Cons.prems(2)] by (simp add: deploy_Cons)
  next
    case False
    then obtain db1 where "exec s db = (None, db1)" "ok db1" "catalog db1 = catalog db"
      using Cons.prems by (auto simp: spares_objects_def)
    then show ?thesis using Cons.IH [OF ss, of db1] False by (simp add: deploy_Cons)
  qed
qed (simp add: deploy_Nil)

text \<open>The texts follow the actions: what \<^const>\<open>run_actions\<close> does to the names, the server does to its catalog.\<close>

lemma deploy_actions:
  assumes drops: "drops_objects ok catalog exec cname drop_stmt cur"
    and adds: "\<And>d db. d \<in> set ds \<Longrightarrow> ok db \<Longrightarrow> catalog db (dname d) = None \<Longrightarrow>
      \<exists>db'. exec (add_stmt d) db = (None, db') \<and> ok db' \<and> catalog db' = (catalog db)(dname d \<mapsto> reported d)"
    and texts: "\<And>c. c \<in> set cur \<Longrightarrow> drop_stmt c \<noteq> []" "\<And>d. d \<in> set ds \<Longrightarrow> add_stmt d \<noteq> []"
    and "set acts \<subseteq> Drop_existing ` set cur \<union> Add_desired ` set ds"
    and "ok db" "run_actions dname cname reported acts (catalog db) = Some m"
  shows "\<exists>db'. deploy (map (rendered drop_stmt add_stmt) acts) db = (None, db') \<and> ok db' \<and> catalog db' = m"
  using assms(5-7)
proof (induction acts arbitrary: db)
  case (Cons a acts)
  obtain m1 where m1: "apply_action dname cname reported a (catalog db) = Some m1"
      "run_actions dname cname reported acts m1 = Some m"
    using Cons.prems(3) by (auto split: option.splits)
  have "\<exists>db1. exec (rendered drop_stmt add_stmt a) db = (None, db1) \<and> ok db1 \<and> catalog db1 = m1"
  proof (cases a)
    case (Drop_existing c)
    then have "c \<in> set cur" "catalog db (cname c) \<noteq> None" "m1 = (catalog db)(cname c := None)"
      using Cons.prems(1) m1(1) by (auto split: if_splits)
    then show ?thesis using drops Cons.prems(2) Drop_existing by (simp add: drops_objects_def)
  next
    case (Add_desired d)
    then have "d \<in> set ds" "catalog db (dname d) = None" "m1 = (catalog db)(dname d \<mapsto> reported d)"
      using Cons.prems(1) m1(1) by (auto split: if_splits)
    then show ?thesis using adds Cons.prems(2) Add_desired by simp
  qed
  then obtain db1 where db1: "exec (rendered drop_stmt add_stmt a) db = (None, db1)" "ok db1" "catalog db1 = m1" by blast
  have "rendered drop_stmt add_stmt a \<noteq> []" using Cons.prems(1) texts by (auto simp: rendered_def split: action.split)
  then show ?case using Cons.IH [of db1] Cons.prems(1) m1(2) db1 by (simp add: deploy_Cons)
qed (simp add: deploy_Nil)

text \<open>The planner with the objects that the server reports in place of \<open>store\<close>.\<close>

lemma reported_planner:
  assumes "\<And>d. d \<in> set ds \<Longrightarrow> cname (reported d) = dname d \<and> same d (reported d)"
  shows "named_planner dname cname same (\<lambda>d. if d \<in> set ds then reported d else store d)"
  by unfold_locales (use assms store_name store_same in auto)

lemma reconciled_in_line:
  "reconciles dname cname same st ds cur acts \<longleftrightarrow>
     (\<exists>m. run_actions dname cname st acts (catalog_of cname cur) = Some m \<and> in_line dname cname same ds cur m) \<and>
     drops_only_changed dname cname same ds cur acts"
  by (auto simp: reconciles_def in_line_def drops_only_changed_def)

lemma deploy_plan:
  assumes "distinct (map cname cur)" "distinct (map dname ds)"
    and "drops_objects ok catalog exec cname drop_stmt cur"
    and "adds_objects ok catalog exec dname cname same add_stmt ds"
    and "ok db" "catalog db = catalog_of cname cur"
    and texts: "\<And>c. c \<in> set cur \<Longrightarrow> drop_stmt c \<noteq> []" "\<And>d. d \<in> set ds \<Longrightarrow> add_stmt d \<noteq> []"
  shows "\<exists>db'. deploy (map (rendered drop_stmt add_stmt) (named_plan dname cname same ds cur)) db = (None, db') \<and>
    ok db' \<and> in_line dname cname same ds cur (catalog db') \<and>
    drops_only_changed dname cname same ds cur (named_plan dname cname same ds cur)"
proof -
  obtain reported where rep: "\<And>d. d \<in> set ds \<Longrightarrow> cname (reported d) = dname d \<and> same d (reported d)"
    and adds: "\<And>d db. d \<in> set ds \<Longrightarrow> ok db \<Longrightarrow> catalog db (dname d) = None \<Longrightarrow>
      \<exists>db'. exec (add_stmt d) db = (None, db') \<and> ok db' \<and> catalog db' = (catalog db)(dname d \<mapsto> reported d)"
    using assms(4) unfolding adds_objects_def by blast
  let ?st = "\<lambda>d. if d \<in> set ds then reported d else store d"
  obtain m where m: "run_actions dname cname ?st (named_plan dname cname same ds cur) (catalog_of cname cur) = Some m"
      "in_line dname cname same ds cur m" "drops_only_changed dname cname same ds cur (named_plan dname cname same ds cur)"
    using named_planner.plan_reconciles [OF reported_planner [OF rep] assms(1,2)] unfolding reconciled_in_line by blast
  have "\<exists>db'. deploy (map (rendered drop_stmt add_stmt) (named_plan dname cname same ds cur)) db = (None, db') \<and> ok db' \<and> catalog db' = m"
    by (rule deploy_actions [where reported = ?st and ds = ds, OF assms(3) _ texts named_plan_acts assms(5)])
       (use adds m(1) assms(6) in simp_all)
  then show ?thesis using m(2,3) by blast
qed

text \<open>A plan that spares some of the objects that are not desired.\<close>

lemma deploy_sparing:
  assumes "distinct (map cname cur)" "distinct (map dname ds)"
    and "drops_objects ok catalog exec cname drop_stmt cur"
    and "adds_objects ok catalog exec dname cname same add_stmt ds"
    and "ok db" "catalog db = catalog_of cname cur"
    and texts: "\<And>c. c \<in> set cur \<Longrightarrow> drop_stmt c \<noteq> []" "\<And>d. d \<in> set ds \<Longrightarrow> add_stmt d \<noteq> []"
  shows "\<exists>db'. deploy (map (rendered drop_stmt add_stmt)
        (fst (desired_pass dname cname same cur ds) @
         map Drop_existing (filter (\<lambda>c. cname c \<notin> dname ` set ds \<and> \<not> spare c) cur))) db = (None, db') \<and> ok db' \<and>
    (\<forall>d \<in> set ds. \<exists>c. catalog db' (dname d) = Some c \<and> same d c) \<and>
    (\<forall>c \<in> set cur. cname c \<notin> dname ` set ds \<longrightarrow> catalog db' (cname c) = (if spare c then Some c else None)) \<and>
    (\<forall>d \<in> set ds. \<forall>c \<in> set cur. cname c = dname d \<and> same d c \<longrightarrow> catalog db' (dname d) = Some c)"
proof -
  obtain reported where rep: "\<And>d. d \<in> set ds \<Longrightarrow> cname (reported d) = dname d \<and> same d (reported d)"
    and adds: "\<And>d db. d \<in> set ds \<Longrightarrow> ok db \<Longrightarrow> catalog db (dname d) = None \<Longrightarrow>
      \<exists>db'. exec (add_stmt d) db = (None, db') \<and> ok db' \<and> catalog db' = (catalog db)(dname d \<mapsto> reported d)"
    using assms(4) unfolding adds_objects_def by blast
  let ?st = "\<lambda>d. if d \<in> set ds then reported d else store d"
  let ?acts = "fst (desired_pass dname cname same cur ds) @
      map Drop_existing (filter (\<lambda>c. cname c \<notin> dname ` set ds \<and> \<not> spare c) cur)"
  let ?m = "\<lambda>n. if n \<in> dname ` set ds then target_catalog dname same ?st ds (catalog_of cname cur) n
      else (case catalog_of cname cur n of Some c \<Rightarrow> if spare c then Some c else None | None \<Rightarrow> None)"
  note st = reported_planner [OF rep]
  have run: "run_actions dname cname ?st ?acts (catalog_of cname cur) = Some ?m"
    by (rule named_planner.converges_sparing [OF st assms(1,2)])
  have "set ?acts \<subseteq> Drop_existing ` set cur \<union> Add_desired ` set ds"
    using desired_pass_acts [of dname cname same cur ds] by auto
  then have "\<exists>db'. deploy (map (rendered drop_stmt add_stmt) ?acts) db = (None, db') \<and> ok db' \<and> catalog db' = ?m"
    by (intro deploy_actions [where reported = ?st and ds = ds, OF assms(3) _ texts _ assms(5)])
       (use adds run assms(6) in simp_all)
  then obtain db' where db': "deploy (map (rendered drop_stmt add_stmt) ?acts) db = (None, db')" "ok db'"
    and cat: "catalog db' = ?m" by blast
  have "\<exists>c. catalog db' (dname d) = Some c \<and> same d c" if "d \<in> set ds" for d
    unfolding cat using named_planner.target_matches [OF st that assms(2), where m = "catalog_of cname cur"] that by simp
  moreover have "catalog db' (cname c) = (if spare c then Some c else None)" if "c \<in> set cur" "cname c \<notin> dname ` set ds" for c
    unfolding cat using catalog_of_member [OF assms(1) that(1)] that(2) by simp
  moreover have "catalog db' (dname d) = Some c" if "d \<in> set ds" "c \<in> set cur" "cname c = dname d" "same d c" for d c
    unfolding cat using catalog_of_member [OF assms(1) that(2)] find_named [OF that(1) assms(2)] that
    by (simp add: target_catalog_def)
  ultimately show ?thesis using db' by (intro exI [of _ db']) auto
qed

text \<open>A plan that drops first, with other statements in between that leave the objects alone.\<close>

lemma deploy_drop_first:
  assumes "distinct (map cname cur)" "distinct (map dname ds)"
    and "drops_objects ok catalog exec cname drop_stmt cur"
    and "adds_objects ok catalog exec dname cname same add_stmt ds"
    and "ok db" "catalog db = catalog_of cname cur"
    and texts: "\<And>c. c \<in> set cur \<Longrightarrow> drop_stmt c \<noteq> []" "\<And>d. d \<in> set ds \<Longrightarrow> add_stmt d \<noteq> []"
    and plan: "map Drop_existing drops @ map Add_desired adds = drop_first_plan dname cname same ds cur"
    and spared: "spares_objects ok catalog exec (filter (\<lambda>s. s \<noteq> []) (before @ between @ after))"
  shows "\<exists>db'. deploy (before @ map drop_stmt drops @ between @ map add_stmt adds @ after) db = (None, db') \<and> ok db' \<and>
    in_line dname cname same ds cur (catalog db')"
proof -
  obtain reported where rep: "\<And>d. d \<in> set ds \<Longrightarrow> cname (reported d) = dname d \<and> same d (reported d)"
    and adds: "\<And>d db. d \<in> set ds \<Longrightarrow> ok db \<Longrightarrow> catalog db (dname d) = None \<Longrightarrow>
      \<exists>db'. exec (add_stmt d) db = (None, db') \<and> ok db' \<and> catalog db' = (catalog db)(dname d \<mapsto> reported d)"
    using assms(4) unfolding adds_objects_def by blast
  let ?st = "\<lambda>d. if d \<in> set ds then reported d else store d"
  let ?run = "run_actions dname cname ?st"
  have spare: "spares_objects ok catalog exec (filter (\<lambda>s. s \<noteq> []) before)"
    "spares_objects ok catalog exec (filter (\<lambda>s. s \<noteq> []) between)" "spares_objects ok catalog exec (filter (\<lambda>s. s \<noteq> []) after)"
    using spared by (auto simp: spares_objects_def)
  obtain m where m: "?run (map Drop_existing drops @ map Add_desired adds) (catalog_of cname cur) = Some m"
      "in_line dname cname same ds cur m"
    using named_planner.drop_first_reconciles [OF reported_planner [OF rep] assms(1,2)]
    unfolding reconciled_in_line plan [symmetric] by blast
  then obtain m1 where m1: "?run (map Drop_existing drops) (catalog_of cname cur) = Some m1"
      "?run (map Add_desired adds) m1 = Some m"
    by (auto simp: run_actions_append split: option.splits)
  have acts: "set (map Drop_existing drops @ map Add_desired adds) \<subseteq> Drop_existing ` set cur \<union> Add_desired ` set ds"
    unfolding plan by (auto simp: drop_first_plan_def)
  note step = deploy_actions [where reported = ?st and ds = ds, OF assms(3)]
  have shown: "map (rendered drop_stmt add_stmt) (map Drop_existing drops) = map drop_stmt drops"
    "map (rendered drop_stmt add_stmt) (map Add_desired adds) = map add_stmt adds" by simp_all
  obtain db1 where 1: "deploy before db = (None, db1)" "ok db1" "catalog db1 = catalog_of cname cur"
    using deploy_spared [OF spare(1) assms(5)] assms(6) by auto
  have "\<exists>db2. deploy (map (rendered drop_stmt add_stmt) (map Drop_existing drops)) db1 = (None, db2) \<and> ok db2 \<and> catalog db2 = m1"
    by (rule step [OF _ texts _ 1(2)]) (use adds acts m1(1) 1(3) in simp_all)
  then obtain db2 where 2: "deploy (map drop_stmt drops) db1 = (None, db2)" "ok db2" "catalog db2 = m1"
    unfolding shown by blast
  obtain db3 where 3: "deploy between db2 = (None, db3)" "ok db3" "catalog db3 = m1"
    using deploy_spared [OF spare(2) 2(2)] 2(3) by auto
  have "\<exists>db4. deploy (map (rendered drop_stmt add_stmt) (map Add_desired adds)) db3 = (None, db4) \<and> ok db4 \<and> catalog db4 = m"
    by (rule step [OF _ texts _ 3(2)]) (use adds acts m1(2) 3(3) in simp_all)
  then obtain db4 where 4: "deploy (map add_stmt adds) db3 = (None, db4)" "ok db4" "catalog db4 = m"
    unfolding shown by blast
  obtain db5 where 5: "deploy after db4 = (None, db5)" "ok db5" "catalog db5 = m"
    using deploy_spared [OF spare(3) 4(2)] 4(3) by auto
  show ?thesis
    using 1(1) 2(1) 3(1) 4(1) 5 m(2) by (intro exI [of _ db5]) (simp add: deploy_append)
qed

end

section \<open>A server that knows its statements\<close>

text \<open>A server for the texts of a plan, which shows that the assumptions can hold.\<close>

definition text_server ::
  "('d \<Rightarrow> string) \<Rightarrow> ('c \<Rightarrow> string) \<Rightarrow> ('d \<Rightarrow> 'c) \<Rightarrow> ('c \<Rightarrow> string) \<Rightarrow> ('d \<Rightarrow> string) \<Rightarrow> 'd list \<Rightarrow> 'c list \<Rightarrow>
   string \<Rightarrow> (string \<rightharpoonup> 'c) \<Rightarrow> go_error option \<times> (string \<rightharpoonup> 'c)" where
  "text_server dname cname store drop_stmt add_stmt ds cur s m =
     (case find (\<lambda>c. drop_stmt c = s) cur of
        Some c \<Rightarrow> if m (cname c) = None then (Some (ErrNew s), m) else (None, m(cname c := None))
      | None \<Rightarrow>
          (case find (\<lambda>d. add_stmt d = s) ds of
             Some d \<Rightarrow> if m (dname d) = None then (None, m(dname d \<mapsto> store d)) else (Some (ErrNew s), m)
           | None \<Rightarrow> (None, m)))"

lemma find_distinct: "distinct (map f xs) \<Longrightarrow> x \<in> set xs \<Longrightarrow> find (\<lambda>y. f y = f x) xs = Some x"
  by (induction xs) (auto simp: rev_image_eqI)

lemma text_server_obeys:
  assumes "distinct (map drop_stmt cur @ map add_stmt ds)"
  shows "drops_objects (\<lambda>_. True) (\<lambda>m. m) (text_server dname cname store drop_stmt add_stmt ds cur) cname drop_stmt cur"
    and "(\<And>d. d \<in> set ds \<Longrightarrow> cname (store d) = dname d \<and> same d (store d)) \<Longrightarrow>
      adds_objects (\<lambda>_. True) (\<lambda>m. m) (text_server dname cname store drop_stmt add_stmt ds cur) dname cname same add_stmt ds"
    and "set ss \<inter> (drop_stmt ` set cur \<union> add_stmt ` set ds) = {} \<Longrightarrow>
      spares_objects (\<lambda>_. True) (\<lambda>m. m) (text_server dname cname store drop_stmt add_stmt ds cur) ss"
proof -
  have d: "find (\<lambda>x. drop_stmt x = drop_stmt c) cur = Some c" if "c \<in> set cur" for c
    using find_distinct [of drop_stmt cur c] assms that by simp
  have a: "find (\<lambda>x. add_stmt x = add_stmt e) ds = Some e" "find (\<lambda>x. drop_stmt x = add_stmt e) cur = None" if "e \<in> set ds" for e
    using find_distinct [of add_stmt ds e] assms that by (auto simp: find_None_iff)
  show "drops_objects (\<lambda>_. True) (\<lambda>m. m) (text_server dname cname store drop_stmt add_stmt ds cur) cname drop_stmt cur"
    by (simp add: drops_objects_def text_server_def d)
  show "adds_objects (\<lambda>_. True) (\<lambda>m. m) (text_server dname cname store drop_stmt add_stmt ds cur) dname cname same add_stmt ds"
    if "\<And>d. d \<in> set ds \<Longrightarrow> cname (store d) = dname d \<and> same d (store d)"
    unfolding adds_objects_def by (rule exI [of _ store]) (simp add: text_server_def a that)
  show "spares_objects (\<lambda>_. True) (\<lambda>m. m) (text_server dname cname store drop_stmt add_stmt ds cur) ss"
    if "set ss \<inter> (drop_stmt ` set cur \<union> add_stmt ` set ds) = {}"
  proof -
    have "find (\<lambda>c. drop_stmt c = s) cur = None" "find (\<lambda>e. add_stmt e = s) ds = None" if s: "s \<in> set ss" for s
      using s \<open>set ss \<inter> _ = {}\<close> by (auto simp: find_None_iff)
    then show ?thesis by (simp add: spares_objects_def text_server_def)
  qed
qed

end
