(* ===== verification/Pg_Correct.thy ===== *)
theory Pg_Correct
  imports Pg_Plan Sql_Server
begin

text \<open>
  Properties of the PostgreSQL planner: each group of statements reconciles the catalog with the
  desired schema, a table in sync yields an empty plan, and a plan drops a table only on request.
  \<open>sample_server\<close> is a small catalog on which the theorems are instantiated.
\<close>

section \<open>A sample catalog\<close>

text \<open>
  A server with one table \<^verbatim>\<open>users\<close>: columns \<^verbatim>\<open>id\<close> and \<^verbatim>\<open>email\<close>, a primary key, a check constraint
  \<^verbatim>\<open>age_ok\<close>, a stale check \<^verbatim>\<open>old_check\<close>, a foreign key, an index, a trigger and a policy.
\<close>

definition sample_server :: PgServer where
  "sample_server =
     \<lparr> srv_ping = Inr (), srv_version = Inr ''PostgreSQL 14.2 on x86_64'',
       srv_tables = (\<lambda>_ _. Inr [Inr ''users'']),
       srv_table_count = (\<lambda>t _. Inr (if t = ''users'' then 1 else 0)),
       srv_constraints = (\<lambda>_ _ _. Inr [Inr ''users_pkey'']),
       srv_indexes = (\<lambda>_. Inr [Inr \<lparr> ir_Name = ''idx_users_email'', ir_Method = ''btree'', ir_IsUnique = False,
          ir_Columns = [''email''], ir_RelOptions = [], ir_IndPred = None,
          ir_IndexDef = ''CREATE INDEX idx_users_email ON public.users USING btree (email)'' \<rparr>]),
       srv_foreign_keys = (\<lambda>_ _. Inr [Inr \<lparr> fr_ChildColumn = ''org'', fr_ParentTable = ''orgs'',
          fr_ParentColumn = ''id'', fr_DeleteRule = ''NO ACTION'', fr_Name = ''users_org_fkey'',
          fr_ParentSchema = ''public'' \<rparr>]),
       srv_checks = (\<lambda>_ _. Inr [Inr (''age_ok'', ''CHECK ((age > 0))''), Inr (''old_check'', ''CHECK (true)'')]),
       srv_exclusions = (\<lambda>_ _. Inr []),
       srv_triggers = (\<lambda>_ _. Inr []),
       srv_primary_key = (\<lambda>_ _ _. Inr [Inr (''users_pkey'', ''id'')]),
       srv_columns = (\<lambda>_ _ _. Inr []),
       srv_column_details = (\<lambda>_ _. Inr [Inr \<lparr> cr_Name = ''id'', cr_ColumnDefault = None, cr_IsNullable = ''NO'',
          cr_DataType = ''integer'', cr_UdtName = ''int4'', cr_CharMaxLength = None \<rparr>]),
       srv_row_security = (\<lambda>_ _. Inr (False, False)),
       srv_policies = (\<lambda>_ _. Inr [Inr \<lparr> pr_Name = ''stale'', pr_Polcmd = 42, pr_Permissive = True,
          pr_UsingExpr = None, pr_WithCheckExpr = None, pr_Roles = [''public''] \<rparr>]),
       srv_function_def = (\<lambda>_. Inl ErrNoRows),
       srv_extension_count = (\<lambda>_. Inr 0) \<rparr>"

definition sample_env :: PgEnv where
  "sample_env = \<lparr> env_connect = (\<lambda>_. Inr sample_server), env_dburl = (\<lambda>_. Inr (''/app'', \<lambda>_. [])) \<rparr>"

definition sample_conn :: PostgresConnection where
  "sample_conn =
     \<lparr> pg_databaseName = ''app'', pg_engineVersion = ''14.2.0'', pg_schema = ''public'', pg_schemas = [''public''],
       pg_uri = ''postgres://'', pg_conn = sample_server \<rparr>"

definition sample_schema :: PostgresqlTableSchema where
  "sample_schema = empty_table_schema
     \<lparr> pts_PrimaryKey := [''id''],
       pts_Columns := [\<lparr> pcol_Name = ''id'', pcol_Type = ''int'',
          pcol_Constraints = Some \<lparr> pcc_NotNull = Some True \<rparr>, pcol_Attributes = None, pcol_Default = None \<rparr>],
       pts_Checks := [\<lparr> pck_Name = ''age_ok'', pck_Expression = ''age > 0'' \<rparr>,
                      \<lparr> pck_Name = ''old_check'', pck_Expression = ''TRUE'' \<rparr>],
       pts_ForeignKeys := [\<lparr> pfk_Columns = [''org''],
          pfk_References = \<lparr> pfr_Table = ''orgs'', pfr_Columns = [''id''] \<rparr>, pfk_OnDelete = [], pfk_Name = [] \<rparr>],
       pts_Indexes := [\<lparr> pix_Columns = [''email''], pix_Name = [], pix_IsUnique = False, pix_Type = [],
          pix_With = [], pix_Where = [], pix_Expressions = [], pix_SortedColumns = [] \<rparr>] \<rparr>"

lemma sample_connects: "Connect sample_env ''postgres://'' = Inr sample_conn"
proof -
  have "parsePostgresVersion ''PostgreSQL 14.2 on x86_64'' = Inr ''14.2.0''"
    "trim_left_while (\<lambda>c. c = CHR ''/'') ''/app'' = ''app''" by code_simp+
  then show ?thesis
    by (simp add: Connect_def sample_env_def sample_conn_def DatabaseNameFromURI_def schemas_of_uri_def,
        simp add: sample_server_def)
qed

section \<open>Keys\<close>

lemma primary_key_plan_lemma:
  assumes "GetTablePrimaryKey p t = Inr k"
  shows "BuildPrimaryKeyStatements san p t schema =
    Inr (if primary_key_columns k = pts_PrimaryKey schema \<and> (k = None \<longleftrightarrow> pts_PrimaryKey schema = []) then []
         else map (\<lambda>k. RemoveConstrantStatement san t (Some k)) (case k of None \<Rightarrow> [] | Some k \<Rightarrow> [k]) @
              (if pts_PrimaryKey schema = [] then []
               else [AddConstrantStatement san t
                       (Some \<lparr> kc_Name = [], kc_Columns = pts_PrimaryKey schema, kc_IsPrimary = True \<rparr>)]))"
proof -
  have "kc_IsPrimary k'" if "k = Some k'" for k'
    using assms that by (auto simp: GetTablePrimaryKey_def Let_def bindE_Inr_iff split: prod.splits if_splits)
  then show ?thesis
    using assms
    by (auto simp: BuildPrimaryKeyStatements_def primary_key_columns_def keys.same_iff Let_def split: option.splits)
qed

section \<open>Properties\<close>

text \<open>The plans of named objects on the way to the server.\<close>

interpretation pg_deploy: deployment "executeStatements exec" exec for exec
  by unfold_locales simp_all

interpretation check_deploy:
  planned_deployment "executeStatements exec" exec "GeneratePostgresqlCheckName t" ck_Name check_same "stored_check t" for exec t
  by unfold_locales

interpretation exclusion_deploy:
  planned_deployment "executeStatements exec" exec "GeneratePostgresqlExclusionConstraintName t" xc_Name exclusion_same
    "stored_exclusion t" for exec t
  by unfold_locales

interpretation index_deploy:
  planned_deployment "executeStatements exec" exec pix_Name ix_Name index_same PostgresqlSchemaIndexToIndex for exec
  by unfold_locales

interpretation trigger_deploy:
  planned_deployment "executeStatements exec" exec trigger_name tg_Name trigger_same stored_trigger for exec
  by unfold_locales

text \<open>
  C2. The statements for check constraints bring the table in line with the schema. The server is a parameter: it is
  assumed that \<^verbatim>\<open>alter table .. drop constraint\<close> removes a constraint that is there, and that \<^verbatim>\<open>alter table .. add
  constraint\<close> creates one that is not there and that the planner then recognises. If the existing names are distinct
  and so are the names of the desired constraints, given or generated (generated names of near-identical expressions
  collide, and nothing is claimed for such a schema), the planned statements run without an error, afterwards the
  table has exactly the desired constraints, one that matched before is still the same, and a constraint is dropped
  only if it is not desired or its predicate changed.
\<close>

theorem check_plan_reconciles:
  assumes "ListTableCheckConstraints p (pg_databaseName p) t = Inr cur"
    and "distinct (map ck_Name cur)" and "distinct (map (GeneratePostgresqlCheckName t) (pts_Checks schema))"
    and "drops_objects ok catalog exec ck_Name
      (\<lambda>c. ''alter table '' @ qualifyTableName san t @ '' drop constraint '' @ san [ck_Name c]) cur"
    and "adds_objects ok catalog exec (GeneratePostgresqlCheckName t) ck_Name check_same
      (\<lambda>d. ''alter table '' @ qualifyTableName san t @ '' add constraint '' @ san [GeneratePostgresqlCheckName t d] @
        '' check ('' @ pck_Expression d @ '')'') (pts_Checks schema)"
    and "ok db" and "catalog db = catalog_of ck_Name cur"
  shows "\<exists>acts db'. BuildCheckConstraintStatements san p t schema = Inr (map (render_check san t) acts) \<and>
    executeStatements exec (map (render_check san t) acts) db = (None, db') \<and>
    in_line (GeneratePostgresqlCheckName t) ck_Name check_same (pts_Checks schema) cur (catalog db') \<and>
    drops_only_changed (GeneratePostgresqlCheckName t) ck_Name check_same (pts_Checks schema) cur acts"
proof -
  let ?drop = "\<lambda>c. RemoveCheckConstraintStatement san t (Some c)"
  let ?add = "\<lambda>d. AddCheckConstraintStatement san t (Some d)"
  have "drops_objects ok catalog exec ck_Name ?drop cur"
    "adds_objects ok catalog exec (GeneratePostgresqlCheckName t) ck_Name check_same ?add (pts_Checks schema)"
    "\<And>c. ?drop c \<noteq> []" "\<And>d. ?add d \<noteq> []"
    using assms(4,5) by (simp_all add: RemoveCheckConstraintStatement_def AddCheckConstraintStatement_def)
  from check_deploy.deploy_plan [OF assms(2,3) this(1,2) assms(6,7) this(3,4)]
  show ?thesis using BuildCheckConstraintStatements_refines [OF assms(1), of san schema] by blast
qed

definition changed_checks :: "PostgresqlTableCheckConstraint list" where
  "changed_checks = [\<lparr> pck_Name = ''age_ok'', pck_Expression = ''age > 17'' \<rparr>, \<lparr> pck_Name = ''mail_ok'', pck_Expression = ''length(email) > 2'' \<rparr>]"

definition current_checks :: "CheckConstraint list" where
  "current_checks = [\<lparr> ck_Name = ''age_ok'', ck_Expression = ''(age > 0)'' \<rparr>, \<lparr> ck_Name = ''old_check'', ck_Expression = ''true'' \<rparr>]"

theorem check_plan_reconciles_witness:
  "\<exists>acts db'.
    BuildCheckConstraintStatements concat sample_conn ''users'' (empty_table_schema \<lparr> pts_Checks := changed_checks \<rparr>) =
      Inr (map (render_check concat ''users'') acts) \<and>
    executeStatements (text_server (GeneratePostgresqlCheckName ''users'') ck_Name (stored_check ''users'')
        (\<lambda>c. ''alter table '' @ qualifyTableName concat ''users'' @ '' drop constraint '' @ concat [ck_Name c])
        (\<lambda>d. ''alter table '' @ qualifyTableName concat ''users'' @ '' add constraint '' @
          concat [GeneratePostgresqlCheckName ''users'' d] @ '' check ('' @ pck_Expression d @ '')'') changed_checks current_checks)
      (map (render_check concat ''users'') acts) (catalog_of ck_Name current_checks) = (None, db') \<and>
    in_line (GeneratePostgresqlCheckName ''users'') ck_Name check_same changed_checks current_checks db'"
proof -
  let ?s = "empty_table_schema \<lparr> pts_Checks := changed_checks \<rparr>" and ?n = "GeneratePostgresqlCheckName ''users''"
  let ?drop = "\<lambda>c. ''alter table '' @ qualifyTableName concat ''users'' @ '' drop constraint '' @ concat [ck_Name c]"
  let ?add = "\<lambda>d. ''alter table '' @ qualifyTableName concat ''users'' @ '' add constraint '' @
      concat [GeneratePostgresqlCheckName ''users'' d] @ '' check ('' @ pck_Expression d @ '')''"
  let ?exec = "text_server ?n ck_Name (stored_check ''users'') ?drop ?add changed_checks current_checks"
  have 1: "ListTableCheckConstraints sample_conn (pg_databaseName sample_conn) ''users'' = Inr current_checks"
    "distinct (map ck_Name current_checks)" "distinct (map ?n changed_checks)"
    "distinct (map ?drop current_checks @ map ?add changed_checks)" by code_simp+
  have checks: "pts_Checks ?s = changed_checks" by simp
  have "drops_objects (\<lambda>_. True) (\<lambda>m. m) ?exec ck_Name ?drop current_checks"
    "adds_objects (\<lambda>_. True) (\<lambda>m. m) ?exec ?n ck_Name check_same ?add changed_checks"
    by (rule text_server_obeys [OF 1(4)])+ (simp add: checks.store_name checks.store_same)
  from check_plan_reconciles [where schema = ?s and db = "catalog_of ck_Name current_checks", unfolded checks, OF 1(1-3) this TrueI refl]
  show ?thesis by (elim exE conjE) (intro exI conjI)
qed

text \<open>The same holds for exclusion constraints.\<close>

lemma exclusion_plan_reconciles:
  assumes "ListTableExclusionConstraints p (pg_databaseName p) t = Inr cur"
    and "distinct (map xc_Name cur)"
    and "distinct (map (GeneratePostgresqlExclusionConstraintName t) (pts_ExclusionConstraints schema))"
    and "drops_objects ok catalog exec xc_Name (\<lambda>c. RemoveExclusionConstraintStatement san t (Some c)) cur"
    and "adds_objects ok catalog exec (GeneratePostgresqlExclusionConstraintName t) xc_Name exclusion_same
      (\<lambda>d. AddExclusionConstraintStatement san t (Some d)) (pts_ExclusionConstraints schema)"
    and "ok db" and "catalog db = catalog_of xc_Name cur"
  shows "\<exists>acts db'. BuildExclusionConstraintStatements san p t schema = Inr (map (render_exclusion san t) acts) \<and>
    executeStatements exec (map (render_exclusion san t) acts) db = (None, db') \<and>
    in_line (GeneratePostgresqlExclusionConstraintName t) xc_Name exclusion_same (pts_ExclusionConstraints schema) cur (catalog db') \<and>
    drops_only_changed (GeneratePostgresqlExclusionConstraintName t) xc_Name exclusion_same (pts_ExclusionConstraints schema) cur acts"
proof -
  have "RemoveExclusionConstraintStatement san t (Some c) \<noteq> []" "AddExclusionConstraintStatement san t (Some d) \<noteq> []" for c d
    by (simp_all add: RemoveExclusionConstraintStatement_def AddExclusionConstraintStatement_def Let_def)
  from exclusion_deploy.deploy_plan [OF assms(2-7) this]
  show ?thesis using BuildExclusionConstraintStatements_refines [OF assms(1), of san schema] by blast
qed

lemma remove_index_text:
  "remove_index_statement san t constraints =
     (\<lambda>c. if ix_Name c \<in> set constraints
          then ''alter table '' @ sanitizeTableName san t @ '' drop constraint '' @ san [ix_Name c]
          else ''drop index if exists '' @ san [ix_Name c])"
  by (intro ext) (auto simp: remove_index_statement_def RemoveConstraintStatement_def RemoveIndexStatement_def list_ex_iff)

lemma index_texts: "remove_index_statement san t constraints c \<noteq> []" "AddIndexStatement san t d \<noteq> []"
  by (simp_all add: remove_index_text AddIndexStatement_def Let_def)

text \<open>
  C3. Indexes of an existing table are brought in line in the same sense, with the generated name stored in every
  desired index that has none. The server is a parameter, and the assumption is about the very texts of the plan: an
  index that backs a constraint is removed by \<^verbatim>\<open>alter table .. drop constraint\<close>, any other by \<^verbatim>\<open>drop index if exists\<close> with
  the bare name of the index. A server drops it only if the index lies in a schema of its search path, so for a
  table of another schema the assumption fails, and nothing is claimed of it. The names of the
  existing indexes are distinct and so are those of the desired ones, given or generated.
\<close>

theorem index_plan_reconciles:
  assumes "ListTableIndexes p (pg_databaseName p) t = Inr cur" and "distinct (map ix_Name cur)"
    and "ListTableConstraints p (pg_databaseName p) t = Inr constraints"
    and "CheckIfTableExists p t = Inr True"
    and "distinct (map pix_Name (map (name_index True t) (pts_Indexes schema)))"
    and "drops_objects ok catalog exec ix_Name
      (\<lambda>c. if ix_Name c \<in> set constraints
           then ''alter table '' @ sanitizeTableName san t @ '' drop constraint '' @ san [ix_Name c]
           else ''drop index if exists '' @ san [ix_Name c]) cur"
    and "adds_objects ok catalog exec pix_Name ix_Name index_same (AddIndexStatement san t)
      (map (name_index True t) (pts_Indexes schema))"
    and "ok db" and "catalog db = catalog_of ix_Name cur"
  shows "\<exists>acts db'. BuildIndexStatements san p t schema = Inr (map (render_index san t constraints) acts) \<and>
    executeStatements exec (map (render_index san t constraints) acts) db = (None, db') \<and>
    in_line pix_Name ix_Name index_same (map (name_index True t) (pts_Indexes schema)) cur (catalog db') \<and>
    drops_only_changed pix_Name ix_Name index_same (map (name_index True t) (pts_Indexes schema)) cur acts"
proof -
  have "drops_objects ok catalog exec ix_Name (remove_index_statement san t constraints) cur"
    using assms(6) by (simp only: remove_index_text)
  from index_deploy.deploy_plan [OF assms(2,5) this assms(7-9) index_texts]
  show ?thesis using BuildIndexStatements_refines [OF assms(1-4), of san schema] by blast
qed

text \<open>The text that removes an index names neither the table nor its schema, the one that creates it names both.\<close>

lemma index_removed_without_schema:
  "RemoveIndexStatement san t c = RemoveIndexStatement san t' c"
  "AddIndexStatement concat ''global.users'' \<lparr> pix_Columns = [''email''], pix_Name = ''mail'', pix_IsUnique = False, pix_Type = [],
      pix_With = [], pix_Where = [], pix_Expressions = [], pix_SortedColumns = [] \<rparr> =
   ''create index mail on '' @ concat [''global'', ''users''] @ '' (email)''"
  by (simp add: RemoveIndexStatement_def, code_simp)

definition changed_indexes :: "PostgresqlTableIndex list" where
  "changed_indexes = [\<lparr> pix_Columns = [''email''], pix_Name = [], pix_IsUnique = True, pix_Type = [],
      pix_With = [], pix_Where = [], pix_Expressions = [], pix_SortedColumns = [] \<rparr>]"

definition current_indexes :: "Index list" where
  "current_indexes = [\<lparr> ix_Columns = [''email''], ix_Name = ''idx_users_email'', ix_IsUnique = False, ix_With = [],
       ix_Type = [], ix_Where = [], ix_Expressions = [], ix_SortedColumns = [] \<rparr>]"

theorem index_plan_reconciles_witness:
  "\<exists>acts db'.
    BuildIndexStatements concat sample_conn ''users'' (empty_table_schema \<lparr> pts_Indexes := changed_indexes \<rparr>) =
      Inr (map (render_index concat ''users'' [''users_pkey'']) acts) \<and>
    executeStatements (text_server pix_Name ix_Name PostgresqlSchemaIndexToIndex
        (\<lambda>c. if ix_Name c \<in> set [''users_pkey'']
             then ''alter table '' @ sanitizeTableName concat ''users'' @ '' drop constraint '' @ concat [ix_Name c]
             else ''drop index if exists '' @ concat [ix_Name c])
        (AddIndexStatement concat ''users'') (map (name_index True ''users'') changed_indexes) current_indexes)
      (map (render_index concat ''users'' [''users_pkey'']) acts) (catalog_of ix_Name current_indexes) = (None, db') \<and>
    in_line pix_Name ix_Name index_same (map (name_index True ''users'') changed_indexes) current_indexes db'"
proof -
  let ?s = "empty_table_schema \<lparr> pts_Indexes := changed_indexes \<rparr>"
  let ?drop = "\<lambda>c. if ix_Name c \<in> set [''users_pkey'']
      then ''alter table '' @ sanitizeTableName concat ''users'' @ '' drop constraint '' @ concat [ix_Name c]
      else ''drop index if exists '' @ concat [ix_Name c]"
  let ?ds = "map (name_index True ''users'') changed_indexes"
  let ?exec = "text_server pix_Name ix_Name PostgresqlSchemaIndexToIndex ?drop (AddIndexStatement concat ''users'') ?ds current_indexes"
  have 1: "ListTableIndexes sample_conn (pg_databaseName sample_conn) ''users'' = Inr current_indexes"
    "distinct (map ix_Name current_indexes)"
    "ListTableConstraints sample_conn (pg_databaseName sample_conn) ''users'' = Inr [''users_pkey'']"
    "CheckIfTableExists sample_conn ''users'' = Inr True" "distinct (map pix_Name ?ds)"
    "distinct (map ?drop current_indexes @ map (AddIndexStatement concat ''users'') ?ds)" by code_simp+
  have ix: "pts_Indexes ?s = changed_indexes" by simp
  have "drops_objects (\<lambda>_. True) (\<lambda>m. m) ?exec ix_Name ?drop current_indexes"
    "adds_objects (\<lambda>_. True) (\<lambda>m. m) ?exec pix_Name ix_Name index_same (AddIndexStatement concat ''users'') ?ds"
    by (rule text_server_obeys [OF 1(6)])+ (simp add: index_plan.store_name index_plan.store_same)
  from index_plan_reconciles [where schema = ?s and db = "catalog_of ix_Name current_indexes", unfolded ix, OF 1(1-5) this TrueI refl]
  show ?thesis by (elim exE conjE) (intro exI conjI)
qed

text \<open>
  C4. Triggers of an existing table, read and dropped on the bare name of the table, are brought in line when every
  desired trigger is named and can be rendered, the names are distinct, and the server, a parameter, drops and creates triggers for the
  texts of the plan; the server of a table whose spec has a schema other than \<^verbatim>\<open>public\<close> need not do so, since the creation names
  that schema and the drop does not. An unnamed trigger makes the planner fail instead of emitting a statement it could never track.
\<close>

theorem trigger_plan_reconciles:
  assumes "ListTableTriggers p t = Inr cur" and "distinct (map tg_Name cur)"
    and "desired_triggers schema = map fst dws" and "distinct (map ptt_Name (desired_triggers schema))"
    and "list_all (\<lambda>(d, w). triggerCreateStatement san d (schema_qualified schema t) = Inr w) dws"
    and "drops_objects ok catalog exec tg_Name
      (\<lambda>c. ''drop trigger if exists '' @ san [tg_Name c] @ '' on '' @ sanitizeTableName san t) cur"
    and "adds_objects ok catalog exec trigger_name tg_Name trigger_same snd dws"
    and "ok db" and "catalog db = catalog_of tg_Name cur"
  shows "if list_all (\<lambda>d. ptt_Name d \<noteq> []) (desired_triggers schema)
    then \<exists>acts db'. BuildTriggerStatements san p t schema = Inr (map (render_trigger san t) acts) \<and>
      executeStatements exec (map (render_trigger san t) acts) db = (None, db') \<and>
      in_line trigger_name tg_Name trigger_same dws cur (catalog db') \<and>
      drops_only_changed trigger_name tg_Name trigger_same dws cur acts
    else BuildTriggerStatements san p t schema =
      Inl (ErrNew ''trigger requires a name to be managed on an existing table'')"
proof (cases "list_all (\<lambda>d. ptt_Name d \<noteq> []) (desired_triggers schema)")
  case True
  then have "list_all (\<lambda>(d, w). ptt_Name d \<noteq> [] \<and> triggerCreateStatement san d (schema_qualified schema t) = Inr w) dws"
    using assms(3,5) by (auto simp: list_all_iff)
  then have plan: "BuildTriggerStatements san p t schema = Inr (map (render_trigger san t) (trigger_actions dws cur))"
    by (rule BuildTriggerStatements_refines [OF assms(1,3)])
  have names: "distinct (map trigger_name dws)"
    using assms(3,4) by (simp add: trigger_name_def [abs_def] comp_def)
  have "drops_objects ok catalog exec tg_Name (\<lambda>c. dropTriggerStatement san (tg_Name c) t) cur"
    "\<And>c. dropTriggerStatement san (tg_Name c) t \<noteq> []"
    using assms(6) by (simp_all add: dropTriggerStatement_def)
  moreover have "snd dw \<noteq> []" if dw: "dw \<in> set dws" for dw
  proof -
    obtain d w where "dw = (d, w)" "triggerCreateStatement san d (schema_qualified schema t) = Inr w"
      using assms(5) dw by (cases dw) (auto simp: list_all_iff)
    then show ?thesis by (auto simp: triggerCreateStatement_def bindE_Inr_iff Let_def split: option.splits)
  qed
  ultimately have "\<exists>db'. executeStatements exec (map (render_trigger san t) (trigger_actions dws cur)) db = (None, db') \<and> ok db' \<and>
      in_line trigger_name tg_Name trigger_same dws cur (catalog db') \<and>
      drops_only_changed trigger_name tg_Name trigger_same dws cur (trigger_actions dws cur)"
    by (intro trigger_deploy.deploy_plan [OF assms(2) names _ assms(7-9)])
  then show ?thesis unfolding plan if_P [OF True] by blast
next
  case False
  have "desired_trigger_loop san t (schema_qualified schema t) cur (map fst dws) st =
      Inl (ErrNew ''trigger requires a name to be managed on an existing table'')" for st
    using False [unfolded assms(3)] assms(5)
    by (induction dws arbitrary: st) (auto split: option.split)
  then show ?thesis using False by (simp add: BuildTriggerStatements_def assms(1,3))
qed

definition audit_trigger :: PostgresqlTableTrigger where
  "audit_trigger = \<lparr> ptt_Name = ''audit'', ptt_ConstraintTrigger = None, ptt_Events = [''after insert''],
     ptt_ForEachStatement = None, ptt_ForEachRow = None, ptt_Condition = None, ptt_Execute = None,
     ptt_ExecuteProcedure = ''f()'' \<rparr>"

definition stale_triggers :: "pgTrigger list" where
  "stale_triggers = [\<lparr> tg_Name = ''stale'', tg_Definition = ''CREATE TRIGGER stale AFTER DELETE ON users EXECUTE FUNCTION g()'' \<rparr>]"

definition audited_conn :: PostgresConnection where
  "audited_conn = sample_conn \<lparr> pg_conn := sample_server \<lparr> srv_triggers :=
     (\<lambda>_ _. Inr (map (\<lambda>tr. Inr (tg_Name tr, tg_Definition tr)) stale_triggers)) \<rparr> \<rparr>"

theorem trigger_plan_reconciles_witness:
  "\<exists>w (acts :: (pgTrigger, PostgresqlTableTrigger \<times> string) action list) db'.
    BuildTriggerStatements concat audited_conn ''users'' (empty_table_schema \<lparr> pts_Triggers := [audit_trigger] \<rparr>) =
      Inr (map (render_trigger concat ''users'') acts) \<and>
    executeStatements (text_server trigger_name tg_Name stored_trigger
        (\<lambda>c. ''drop trigger if exists '' @ concat [tg_Name c] @ '' on '' @ sanitizeTableName concat ''users'')
        snd [(audit_trigger, w)] stale_triggers)
      (map (render_trigger concat ''users'') acts) (catalog_of tg_Name stale_triggers) = (None, db') \<and>
    in_line trigger_name tg_Name trigger_same [(audit_trigger, w)] stale_triggers db'"
proof -
  let ?s = "empty_table_schema \<lparr> pts_Triggers := [audit_trigger] \<rparr>"
  let ?drop = "\<lambda>c. ''drop trigger if exists '' @ concat [tg_Name c] @ '' on '' @ sanitizeTableName concat ''users''"
  have 1: "ListTableTriggers audited_conn ''users'' = Inr stale_triggers" "distinct (map tg_Name stale_triggers)" by code_simp+
  have 2: "desired_triggers ?s = [audit_trigger]" "schema_qualified ?s ''users'' = ''users''" "ptt_Name audit_trigger = ''audit''"
    by (simp_all add: desired_triggers_def schema_qualified_def empty_table_schema_def audit_trigger_def)
  have "triggerEvent audit_trigger = Inr ''after insert''" by code_simp
  then obtain w where 3: "triggerCreateStatement concat audit_trigger ''users'' = Inr (''create '' @ w)"
    by (simp add: triggerCreateStatement_def trigger_execute_def Let_def audit_trigger_def)
  define dws where "dws = [(audit_trigger, ''create '' @ w)]"
  let ?exec = "text_server trigger_name tg_Name stored_trigger ?drop snd dws stale_triggers"
  have "distinct (map ?drop stale_triggers @ map snd dws)" by (simp add: dws_def stale_triggers_def)
  then have 4: "drops_objects (\<lambda>_. True) (\<lambda>m. m) ?exec tg_Name ?drop stale_triggers"
    "adds_objects (\<lambda>_. True) (\<lambda>m. m) ?exec trigger_name tg_Name trigger_same snd dws"
    by (rule text_server_obeys; simp add: trigger_plan.store_name trigger_plan.store_same)+
  have "desired_triggers ?s = map fst dws" "distinct (map ptt_Name (desired_triggers ?s))"
    "list_all (\<lambda>(d, w). triggerCreateStatement concat d (schema_qualified ?s ''users'') = Inr w) dws"
    by (simp_all add: 2 3 dws_def)
  note plan = trigger_plan_reconciles [OF 1 this 4, of "catalog_of tg_Name stale_triggers"]
  have "list_all (\<lambda>d. ptt_Name d \<noteq> []) (desired_triggers ?s)" by (simp add: 2)
  from plan [unfolded if_P [OF this], OF TrueI refl, unfolded dws_def] show ?thesis
    by (elim exE conjE) (intro exI conjI)
qed

text \<open>With a schema in the spec, a trigger is created on the qualified table and dropped on the bare one.\<close>

lemma trigger_dropped_on_bare_table:
  "schema_qualified (empty_table_schema \<lparr> pts_Schema := ''audit'' \<rparr>) ''users'' = ''audit.users''"
  "dropTriggerStatement concat ''tr'' ''users'' = ''drop trigger if exists tr on users''"
  by code_simp+




text \<open>
  The primary key is left alone exactly when the desired columns are the current ones in the
  same order; otherwise the old key is dropped, if there is one, before the new one is added, if one is desired.
\<close>

theorem primary_key_plan:
  assumes "GetTablePrimaryKey p t = Inr k"
  shows "BuildPrimaryKeyStatements san p t schema =
    Inr (if primary_key_columns k = pts_PrimaryKey schema \<and> (k = None \<longleftrightarrow> pts_PrimaryKey schema = []) then []
         else map (\<lambda>k. RemoveConstrantStatement san t (Some k)) (case k of None \<Rightarrow> [] | Some k \<Rightarrow> [k]) @
              (if pts_PrimaryKey schema = [] then []
               else [AddConstrantStatement san t
                       (Some \<lparr> kc_Name = [], kc_Columns = pts_PrimaryKey schema, kc_IsPrimary = True \<rparr>)]))"
  using assms by (rule primary_key_plan_lemma)

theorem primary_key_plan_witness:
  "BuildPrimaryKeyStatements concat sample_conn ''users'' (sample_schema \<lparr> pts_PrimaryKey := [''id'', ''org''] \<rparr>) =
     Inr [''alter table users drop constraint users_pkey'',
          ''alter table users add constraint users_pkey primary key (id, org)'']"
proof -
  let ?k = "Some \<lparr> kc_Name = ''users_pkey'', kc_Columns = [''id''], kc_IsPrimary = True \<rparr>"
  have "GetTablePrimaryKey sample_conn ''users'' = Inr ?k" by code_simp
  note plan = primary_key_plan [OF this, of concat "sample_schema \<lparr> pts_PrimaryKey := [''id'', ''org''] \<rparr>"]
  have "RemoveConstrantStatement concat ''users'' ?k = ''alter table users drop constraint users_pkey''"
    "AddConstrantStatement concat ''users''
       (Some \<lparr> kc_Name = [], kc_Columns = [''id'', ''org''], kc_IsPrimary = True \<rparr>) =
     ''alter table users add constraint users_pkey primary key (id, org)''" by code_simp+
  with plan show ?thesis by (simp add: primary_key_columns_def)
qed

text \<open>
  Foreign keys: when each desired key equals a current one, nothing is added and exactly the
  current keys that equal no desired one are dropped; when the table has no key, each desired key
  is added once, in order, and nothing is dropped.
\<close>

theorem foreign_key_plan:
  assumes "ListTableForeignKeys p (pg_databaseName p) t = Inr cur"
    and "cur = [] \<or>
      list_all (\<lambda>d. list_ex (\<lambda>c. ForeignKey_Equals c (desired_fk_for_compare t d)) cur) (pts_ForeignKeys schema)"
  shows "BuildForeignKeyStatements san p t schema =
    Inr (if cur = [] then map (AddForeignKeyStatement san t) (pts_ForeignKeys schema)
         else map (RemoveForeignKeyStatement san t)
           (filter (\<lambda>c. \<not> list_ex (\<lambda>d. ForeignKey_Equals c (desired_fk_for_compare t d)) (pts_ForeignKeys schema)) cur))"
  using assms BuildForeignKeyStatements_steady [OF assms(1)]
  by (cases "cur = []") (auto simp: BuildForeignKeyStatements_def fold_fk_fresh)

theorem foreign_key_plan_witness:
  "BuildForeignKeyStatements concat sample_conn ''users'' sample_schema = Inr []"
proof -
  let ?c = "\<lparr> fk_ChildColumns = [''org''], fk_ParentTable = ''orgs'', fk_ParentColumns = [''id''],
     fk_Name = ''users_org_fkey'', fk_OnDelete = ''NO ACTION'' \<rparr>"
  have "ListTableForeignKeys sample_conn (pg_databaseName sample_conn) ''users'' = Inr [?c]" by code_simp
  moreover have "list_all (\<lambda>d. list_ex (\<lambda>c. ForeignKey_Equals c (desired_fk_for_compare ''users'' d)) [?c]) (pts_ForeignKeys sample_schema)"
    "filter (\<lambda>c. \<not> list_ex (\<lambda>d. ForeignKey_Equals c (desired_fk_for_compare ''users'' d)) (pts_ForeignKeys sample_schema)) [?c] = []"
    by code_simp+
  ultimately show ?thesis
    using foreign_key_plan [of sample_conn "''users''" "[?c]" sample_schema concat] by (simp del: filter.simps)
qed

text \<open>
  Adding a second foreign key drops the first, although it is still desired, and does not add it
  again: with no equal key, the planner takes the last current key for the one to replace.
\<close>

lemma foreign_key_plan_drops_desired:
  "BuildForeignKeyStatements concat sample_conn ''users''
     (sample_schema \<lparr> pts_ForeignKeys := pts_ForeignKeys sample_schema @
        [\<lparr> pfk_Columns = [''team''], pfk_References = \<lparr> pfr_Table = ''teams'', pfr_Columns = [''id''] \<rparr>,
           pfk_OnDelete = [], pfk_Name = [] \<rparr>] \<rparr>) =
   Inr [''alter table users drop constraint users_org_fkey'',
        ''alter table users add constraint users_team_fkey foreign key (team) references teams (id)'']"
  by code_simp

text \<open>A composite foreign key is read back with its last column twice.\<close>

lemma composite_foreign_key_columns:
  "foldl add_foreign_key_row []
     [\<lparr> fr_ChildColumn = ''a'', fr_ParentTable = ''t'', fr_ParentColumn = ''x'', fr_DeleteRule = ''NO ACTION'',
        fr_Name = ''fk'', fr_ParentSchema = ''public'' \<rparr>,
      \<lparr> fr_ChildColumn = ''b'', fr_ParentTable = ''t'', fr_ParentColumn = ''y'', fr_DeleteRule = ''NO ACTION'',
        fr_Name = ''fk'', fr_ParentSchema = ''public'' \<rparr>] =
   [\<lparr> fk_ChildColumns = [''b'', ''b''], fk_ParentTable = ''t'', fk_ParentColumns = [''y'', ''y''],
      fk_Name = ''fk'', fk_OnDelete = ''NO ACTION'' \<rparr>]"
  by code_simp

section \<open>Tables in sync\<close>

definition columns_in_sync :: "PostgresConnection \<Rightarrow> string \<Rightarrow> PostgresqlTableSchema \<Rightarrow> bool" where
  "columns_in_sync p t schema =
     (case schema_argument t of (table, sch) \<Rightarrow>
        (case srv_column_details (pg_conn p) table sch of
           Inl _ \<Rightarrow> False
         | Inr rows \<Rightarrow>
             list_all (\<lambda>row. case row of
                 Inl _ \<Rightarrow> False
               | Inr r \<Rightarrow> (case find (\<lambda>d. pcol_Name d = cr_Name r) (pts_Columns schema) of
                     None \<Rightarrow> False
                   | Some d \<Rightarrow> (case schemaColumnToColumn d of
                         Inl _ \<Rightarrow> False
                       | Inr c \<Rightarrow> columnsMatch (column_of_row r) c))) rows \<and>
             list_all (\<lambda>d. list_ex (\<lambda>row. case row of Inl _ \<Rightarrow> False | Inr r \<Rightarrow> cr_Name r = pcol_Name d) rows)
               (pts_Columns schema)))"

definition triggers_in_sync :: "(string list \<Rightarrow> string) \<Rightarrow> PostgresConnection \<Rightarrow> string \<Rightarrow> PostgresqlTableSchema \<Rightarrow> bool" where
  "triggers_in_sync san p t schema =
     (let ds = desired_triggers schema
      in list_all (\<lambda>d. ptt_Name d \<noteq> []) ds \<and>
         (case mapE (\<lambda>d. triggerCreateStatement san d (schema_qualified schema t)) ds of
            Inl _ \<Rightarrow> False
          | Inr ws \<Rightarrow>
              (case ListTableTriggers p t of
                 Inl _ \<Rightarrow> False
               | Inr cur \<Rightarrow> in_step trigger_name tg_Name trigger_same (zip ds ws) cur)))"

text \<open>A flag is in sync if the spec does not mention it or asks for the state that the table is in.\<close>

definition flag_in_sync :: "string \<Rightarrow> string \<Rightarrow> string \<Rightarrow> bool \<Rightarrow> bool" where
  "flag_in_sync desired on off current \<longleftrightarrow>
     (let d = ToLower (TrimSpace desired) in d = [] \<or> (d = on \<and> current) \<or> (d = off \<and> \<not> current))"

definition row_security_in_sync :: "PostgresConnection \<Rightarrow> string \<Rightarrow> PostgresqlTableSchema \<Rightarrow> bool" where
  "row_security_in_sync p t schema =
     (case pts_RowLevelSecurity schema of
        None \<Rightarrow> True
      | Some rls \<Rightarrow>
          (case (GetTableRowSecurity p t, ListTablePolicies p t) of
             (Inr current, Inr cur) \<Rightarrow>
               flag_in_sync (prl_Enable rls) ''enable'' ''disable'' (rl_Enabled current) \<and>
               flag_in_sync (prl_Force rls) ''force'' ''noforce'' (rl_Forced current) \<and>
               list_all (\<lambda>d. ppo_Name d \<noteq> []) (pts_Policies schema) \<and>
               in_step ppo_Name po_Name policy_same (pts_Policies schema) cur
           | _ \<Rightarrow> False))"

definition constraints_in_sync :: "PostgresConnection \<Rightarrow> string \<Rightarrow> PostgresqlTableSchema \<Rightarrow> bool" where
  "constraints_in_sync p t schema =
     ((case GetTablePrimaryKey p t of
         Inl _ \<Rightarrow> False
       | Inr k \<Rightarrow> primary_key_columns k = pts_PrimaryKey schema \<and> (k = None \<longleftrightarrow> pts_PrimaryKey schema = [])) \<and>
      (case ListTableForeignKeys p (pg_databaseName p) t of
         Inl _ \<Rightarrow> False
       | Inr cur \<Rightarrow>
           list_all (\<lambda>d. list_ex (\<lambda>c. ForeignKey_Equals c (desired_fk_for_compare t d)) cur) (pts_ForeignKeys schema) \<and>
           list_all (\<lambda>c. list_ex (\<lambda>d. ForeignKey_Equals c (desired_fk_for_compare t d)) (pts_ForeignKeys schema)) cur) \<and>
      (case ListTableCheckConstraints p (pg_databaseName p) t of
         Inl _ \<Rightarrow> False
       | Inr cur \<Rightarrow> in_step (GeneratePostgresqlCheckName t) ck_Name check_same (pts_Checks schema) cur) \<and>
      (case ListTableExclusionConstraints p (pg_databaseName p) t of
         Inl _ \<Rightarrow> False
       | Inr cur \<Rightarrow> in_step (GeneratePostgresqlExclusionConstraintName t) xc_Name exclusion_same
                     (pts_ExclusionConstraints schema) cur) \<and>
      (case (ListTableIndexes p (pg_databaseName p) t, ListTableConstraints p (pg_databaseName p) t) of
         (Inr cur, Inr _) \<Rightarrow>
           (let ds = map (name_index True t) (pts_Indexes schema)
            in list_all (\<lambda>d. list_ex (\<lambda>c. index_same d c) cur) ds \<and>
               list_all (\<lambda>c. list_ex (\<lambda>d. index_same d c) ds) cur)
       | _ \<Rightarrow> False))"

definition table_in_sync :: "(string list \<Rightarrow> string) \<Rightarrow> PostgresConnection \<Rightarrow> string \<Rightarrow> PostgresqlTableSchema \<Rightarrow> bool" where
  "table_in_sync san p t schema \<longleftrightarrow>
     columns_in_sync p t schema \<and> constraints_in_sync p t schema \<and> triggers_in_sync san p t schema \<and>
     row_security_in_sync p t schema"

lemma AlterColumnStatements_find:
  "find (\<lambda>d. pcol_Name d = col_Name e) ds = Some d \<Longrightarrow> schemaColumnToColumn d = Inr c \<Longrightarrow> columnsMatch e c \<Longrightarrow>
   AlterColumnStatements san t pks ds e = Inr []"
  by (induction ds) (auto simp: alter_matched_column_def split: if_splits)

lemma mapE_const:
  "list_all (\<lambda>x. \<exists>n. f x = Inr (n, []) \<and> g x = n) xs \<Longrightarrow> mapE f xs = Inr (map (\<lambda>x. (g x, [])) xs)"
  by (induction xs) auto

lemma columns_in_sync_plan:
  assumes "columns_in_sync p t schema"
  shows "BuildColumnStatements san p t schema = Inr []"
proof -
  obtain table sch where a: "schema_argument t = (table, sch)" by fastforce
  from assms a obtain rows where rows: "srv_column_details (pg_conn p) table sch = Inr rows"
    and each: "list_all (\<lambda>row. case row of
                 Inl _ \<Rightarrow> False
               | Inr r \<Rightarrow> (case find (\<lambda>d. pcol_Name d = cr_Name r) (pts_Columns schema) of
                     None \<Rightarrow> False
                   | Some d \<Rightarrow> (case schemaColumnToColumn d of
                         Inl _ \<Rightarrow> False
                       | Inr c \<Rightarrow> columnsMatch (column_of_row r) c))) rows"
    and present: "list_all (\<lambda>d. list_ex (\<lambda>row. case row of Inl _ \<Rightarrow> False | Inr r \<Rightarrow> cr_Name r = pcol_Name d) rows)
               (pts_Columns schema)"
    by (auto simp: columns_in_sync_def split: sum.splits)
  define nm where "nm = (\<lambda>row :: ColumnRow result. case row of Inl _ \<Rightarrow> [] | Inr r \<Rightarrow> cr_Name r)"
  let ?f = "\<lambda>row. bindE (wrapE ''failed to scan'' row) (\<lambda>r.
      bindE (wrapE ''failed to create alter column statement''
        (AlterColumnStatements san t (pts_PrimaryKey schema) (pts_Columns schema) (column_of_row r)))
      (\<lambda>stmts. Inr (cr_Name r, stmts)))"
  have name: "col_Name (column_of_row r) = cr_Name r" for r by (simp add: column_of_row_def Let_def)
  have "\<exists>n. ?f row = Inr (n, []) \<and> nm row = n" if "row \<in> set rows" for row
  proof -
    have "case row of
                 Inl _ \<Rightarrow> False
               | Inr r \<Rightarrow> (case find (\<lambda>d. pcol_Name d = cr_Name r) (pts_Columns schema) of
                     None \<Rightarrow> False
                   | Some d \<Rightarrow> (case schemaColumnToColumn d of
                         Inl _ \<Rightarrow> False
                       | Inr c \<Rightarrow> columnsMatch (column_of_row r) c))"
      using each that by (simp add: list_all_iff)
    then obtain r d c where r: "row = Inr r" "find (\<lambda>d. pcol_Name d = cr_Name r) (pts_Columns schema) = Some d"
        "schemaColumnToColumn d = Inr c" "columnsMatch (column_of_row r) c"
      by (auto simp: split_sum_ex split: sum.splits option.splits) (meson sumE)
    then have "AlterColumnStatements san t (pts_PrimaryKey schema) (pts_Columns schema) (column_of_row r) = Inr []"
      by (intro AlterColumnStatements_find) (simp_all add: name)
    with r(1) show ?thesis by (simp add: nm_def)
  qed
  then have m: "mapE ?f rows = Inr (map (\<lambda>row. (nm row, [])) rows)"
    by (intro mapE_const) (simp add: list_all_iff)
  have "list_ex (\<lambda>found. found = pcol_Name d) (map nm rows)" if d: "d \<in> set (pts_Columns schema)" for d
  proof -
    obtain row where "row \<in> set rows" "case row of Inl _ \<Rightarrow> False | Inr r \<Rightarrow> cr_Name r = pcol_Name d"
      using present d by (auto simp: list_all_iff list_ex_iff)
    then have "row \<in> set rows" "nm row = pcol_Name d" by (auto simp: nm_def split: sum.splits)
    then show ?thesis by (force simp: list_ex_iff)
  qed
  then have f: "filter (\<lambda>d. \<not> list_ex (\<lambda>found. found = pcol_Name d) (map nm rows)) (pts_Columns schema) = []"
    by (simp add: filter_empty_conv)
  show ?thesis
    unfolding BuildColumnStatements_def a prod.case rows wrapE.simps bindE.simps m Let_def
    using f by (simp add: comp_def)
qed

lemma constraints_in_sync_plans:
  assumes "constraints_in_sync p t schema"
  shows "BuildPrimaryKeyStatements san p t schema = Inr []"
    "BuildForeignKeyStatements san p t schema = Inr []"
    "BuildCheckConstraintStatements san p t schema = Inr []"
    "BuildExclusionConstraintStatements san p t schema = Inr []"
    "CheckIfTableExists p t = Inr True \<Longrightarrow> BuildIndexStatements san p t schema = Inr []"
proof -
  show "BuildPrimaryKeyStatements san p t schema = Inr []"
    using assms primary_key_plan_lemma [of p t _ san schema]
    by (auto simp: constraints_in_sync_def split: sum.splits)
  show "BuildForeignKeyStatements san p t schema = Inr []"
    using assms BuildForeignKeyStatements_steady [of p t _ schema san]
    by (auto simp: constraints_in_sync_def list_all_iff filter_empty_conv split: sum.splits)
  show "BuildCheckConstraintStatements san p t schema = Inr []"
    using assms BuildCheckConstraintStatements_refines [of p t _ san schema] checks.in_step_plan
    by (fastforce simp: constraints_in_sync_def split: sum.splits)
  show "BuildExclusionConstraintStatements san p t schema = Inr []"
    using assms BuildExclusionConstraintStatements_refines [of p t _ san schema] exclusions.in_step_plan
    by (fastforce simp: constraints_in_sync_def split: sum.splits)
  assume ex: "CheckIfTableExists p t = Inr True"
  have fold: "fold (desired_index_step san t True constraints cur) ds st = st"
    if "list_all (\<lambda>d. list_ex (\<lambda>c. index_same d c) cur) ds" for constraints cur ds st
    using that by (induction ds) (auto simp: desired_index_step_def index_same_def [abs_def])
  from assms obtain cur cons where cur: "ListTableIndexes p (pg_databaseName p) t = Inr cur"
      "ListTableConstraints p (pg_databaseName p) t = Inr cons"
    and a: "list_all (\<lambda>d. list_ex (\<lambda>c. index_same d c) cur) (map (name_index True t) (pts_Indexes schema))"
      "list_all (\<lambda>c. list_ex (\<lambda>d. index_same d c) (map (name_index True t) (pts_Indexes schema))) cur"
    by (auto simp: constraints_in_sync_def Let_def split: sum.splits)
  show "BuildIndexStatements san p t schema = Inr []"
    unfolding BuildIndexStatements_def cur ex wrapE.simps bindE.simps fold [OF a(1)] Let_def prod.case
      index_same_def [symmetric]
    using a(2) by (simp add: list_all_iff filter_empty_conv)
qed

lemma triggers_in_sync_plan:
  assumes "triggers_in_sync san p t schema"
  shows "BuildTriggerStatements san p t schema = Inr []"
proof -
  let ?ds = "desired_triggers schema"
  from assms obtain ws cur where ws: "mapE (\<lambda>d. triggerCreateStatement san d (schema_qualified schema t)) ?ds = Inr ws"
    and cur: "ListTableTriggers p t = Inr cur" and st: "in_step trigger_name tg_Name trigger_same (zip ?ds ws) cur"
    and nm: "list_all (\<lambda>d. ptt_Name d \<noteq> []) ?ds"
    by (auto simp: triggers_in_sync_def Let_def split: sum.splits)
  have len: "length ws = length ?ds" using ws by (rule mapE_Inr_length)
  have want: "list_all (\<lambda>(d, w). triggerCreateStatement san d (schema_qualified schema t) = Inr w) (zip ds ws)"
    if "mapE (\<lambda>d. triggerCreateStatement san d (schema_qualified schema t)) ds = Inr ws" for ds ws
    using that by (induction ds arbitrary: ws) (auto simp: bindE_Inr_iff)
  have "list_all (\<lambda>(d, w). ptt_Name d \<noteq> [] \<and> triggerCreateStatement san d (schema_qualified schema t) = Inr w) (zip ?ds ws)"
    using want [OF ws] nm by (auto simp: list_all_iff dest: set_zip_leftD)
  then have "BuildTriggerStatements san p t schema = Inr (map (render_trigger san t) (trigger_actions (zip ?ds ws) cur))"
    using len by (intro BuildTriggerStatements_refines [OF cur]) auto
  then show ?thesis using trigger_plan.in_step_plan [OF st] by simp
qed

lemma flag_in_sync_toggle:
  assumes "flag_in_sync desired on off current" "on \<noteq> []" "off \<noteq> []" "on \<noteq> off"
  shows "rowSecurityToggleStatement t desired current on off build = Inr []"
  using assms by (auto simp: flag_in_sync_def rowSecurityToggleStatement_def Let_def)

lemma row_security_in_sync_plan:
  assumes "row_security_in_sync p t schema"
  shows "BuildRowLevelSecurityStatements san p t schema = Inr []"
proof (cases "pts_RowLevelSecurity schema")
  case None
  then show ?thesis by (simp add: BuildRowLevelSecurityStatements_def)
next
  case (Some rls)
  from assms Some obtain current cur where g: "GetTableRowSecurity p t = Inr current" "ListTablePolicies p t = Inr cur"
    and s: "flag_in_sync (prl_Enable rls) ''enable'' ''disable'' (rl_Enabled current)"
      "flag_in_sync (prl_Force rls) ''force'' ''noforce'' (rl_Forced current)"
    and n: "list_all (\<lambda>d. ppo_Name d \<noteq> []) (pts_Policies schema)"
    and i: "in_step ppo_Name po_Name policy_same (pts_Policies schema) cur"
    by (auto simp: row_security_in_sync_def split: sum.splits)
  show ?thesis
    using BuildRowLevelSecurityStatements_refines [OF Some g(1) flag_in_sync_toggle [OF s(1)] flag_in_sync_toggle [OF s(2)] g(2) n]
      policy_plan.in_step_plan [OF i]
    by (simp add: emitted_def)
qed

lemma alter_table_in_sync:
  assumes "table_in_sync san p t schema" "CheckIfTableExists p t = Inr True"
  shows "alter_table_statements san p t schema = Inr []"
  using assms constraints_in_sync_plans [of p t schema san] columns_in_sync_plan [of p t schema san]
    triggers_in_sync_plan [of san p t schema] row_security_in_sync_plan [of p t schema san]
  by (simp add: alter_table_statements_def table_in_sync_def)

text \<open>
  C1. A table that is in sync, as the planner compares it, needs nothing: if every column that the catalog lists matches the
  column of the spec and every column of the spec is listed, the primary key has the same columns, every foreign key, check,
  exclusion constraint and index has its match and is matched, the triggers and policies are in step by name and
  definition, and the flags of row security are as the spec asks or not mentioned, then the plan is exactly the seed
  statements, and empty without seed data. Nothing is said of whether a deployment leads to such a catalog.
\<close>

theorem plan_in_sync_is_empty:
  assumes "Connect env uri = Inr p" and "CheckIfTableExists p t = Inr True"
    and "\<not> pts_IsDeleted schema" and "table_in_sync san p t schema"
  shows "PlanPostgresTable san env uri t schema seed = Inr (seed_statements san t schema seed)"
  using assms alter_table_in_sync [OF assms(4,2)] by (simp add: PlanPostgresTable_def)

theorem plan_in_sync_is_empty_witness:
  "PlanPostgresTable concat sample_env ''postgres://'' ''users'' sample_schema None = Inr []"
proof -
  have "CheckIfTableExists sample_conn ''users'' = Inr True" "\<not> pts_IsDeleted sample_schema"
    "table_in_sync concat sample_conn ''users'' sample_schema" by code_simp+
  from plan_in_sync_is_empty [OF sample_connects this, of None] show ?thesis by (simp add: seed_statements_def)
qed

section \<open>Destructive statements\<close>

text \<open>A statement that is not a \<^verbatim>\<open>drop table\<close>.\<close>

definition keeps_table :: "string \<Rightarrow> bool" where
  "keeps_table stmt \<longleftrightarrow> \<not> HasPrefix stmt ''drop table''"

lemma keeps_table_statements [simp]:
  "keeps_table (''alter table '' @ s)" "keeps_table (''update '' @ s)" "keeps_table (''create '' @ s)"
  "keeps_table (''drop index '' @ s)" "keeps_table (''drop trigger '' @ s)" "keeps_table (''drop policy '' @ s)"
  "keeps_table (''insert into '' @ s)"
  by (simp_all add: keeps_table_def)

lemma keeps_table_renderers [simp]:
  "keeps_table (RemoveConstrantStatement san t (Some k))" "keeps_table (AddConstrantStatement san t (Some k))"
  "keeps_table (RemoveForeignKeyStatement san t fk)" "keeps_table (AddForeignKeyStatement san t sfk)"
  "keeps_table (RemoveCheckConstraintStatement san t (Some c))" "keeps_table (AddCheckConstraintStatement san t (Some sc))"
  "keeps_table (RemoveExclusionConstraintStatement san t (Some x))"
  "keeps_table (AddExclusionConstraintStatement san t (Some sx))"
  "keeps_table (remove_index_statement san t cs i)" "keeps_table (AddIndexStatement san t si)"
  "keeps_table (dropTriggerStatement san n t)" "keeps_table (RemovePolicyStatement san t n)"
  "keeps_table (CreatePolicyStatement san t po)" "keeps_table (enableRowLevelSecurityStatement san t b)"
  "keeps_table (forceRowLevelSecurityStatement san t b)" "keeps_table (seed_row_statement t spec row)"
  by (simp_all add: keeps_table_def RemoveConstrantStatement_def AddConstrantStatement_def RemoveForeignKeyStatement_def
      AddForeignKeyStatement_def RemoveCheckConstraintStatement_def AddCheckConstraintStatement_def
      RemoveExclusionConstraintStatement_def AddExclusionConstraintStatement_def remove_index_statement_def
      RemoveConstraintStatement_def RemoveIndexStatement_def AddIndexStatement_def dropTriggerStatement_def
      RemovePolicyStatement_def CreatePolicyStatement_def enableRowLevelSecurityStatement_def
      forceRowLevelSecurityStatement_def seed_row_statement_def Let_def split: option.split)

lemma keeps_table_trigger: "triggerCreateStatement san d q = Inr w \<Longrightarrow> keeps_table w"
  by (auto simp: triggerCreateStatement_def bindE_Inr_iff Let_def keeps_table_def split: option.splits)

lemma keeps_table_seed: "list_all keeps_table (seed_statements san t schema seed)"
  by (auto simp: seed_statements_def SeedDataStatements_def list_all_iff split: option.splits)

lemma keeps_table_alter_column:
  "AlterColumnStatements san t pks ds e = Inr stmts \<Longrightarrow> list_all keeps_table stmts"
proof (erule AlterColumnStatements_cases)
  fix d c assume "stmts = alter_matched_column san t pks e c"
  then show "list_all keeps_table stmts"
    unfolding list_all_iff by (metis alter_matched_column_no_drop keeps_table_statements(1,2))
qed (simp add: keeps_table_def)

lemma mapE_set: "mapE f xs = Inr ys \<Longrightarrow> y \<in> set ys \<Longrightarrow> \<exists>x \<in> set xs. f x = Inr y"
  by (induction xs arbitrary: ys) (auto simp: bindE_Inr_iff)

lemma keeps_table_columns:
  assumes "BuildColumnStatements san p t schema = Inr stmts"
  shows "list_all keeps_table stmts"
proof -
  obtain table sch where "schema_argument t = (table, sch)" by fastforce
  with assms obtain rows altered inserts where
    a: "mapE (\<lambda>row. bindE (wrapE ''failed to scan'' row) (\<lambda>r.
          bindE (wrapE ''failed to create alter column statement''
            (AlterColumnStatements san t (pts_PrimaryKey schema) (pts_Columns schema) (column_of_row r)))
          (\<lambda>stmts. Inr (cr_Name r, stmts)))) rows = Inr altered"
    and i: "mapE (\<lambda>d. wrapE ''failed to create insert column statement'' (InsertColumnStatement san t d))
          (filter (\<lambda>d. \<not> list_ex (\<lambda>found. found = pcol_Name d) (map fst altered)) (pts_Columns schema)) = Inr inserts"
    and s: "stmts = concat (map snd altered) @ inserts"
    by (auto simp: BuildColumnStatements_def bindE_Inr_iff Let_def)
  have "list_all keeps_table l" if "(n, l) \<in> set altered" for n l
    using mapE_set [OF a that] by (auto simp: bindE_Inr_iff dest: keeps_table_alter_column)
  moreover have "keeps_table x" if "x \<in> set inserts" for x
    using mapE_set [OF i that] by (auto simp: InsertColumnStatement_def bindE_Inr_iff keeps_table_def)
  ultimately show ?thesis by (auto simp: s list_all_iff)
qed

lemma list_all_fold:
  assumes "\<And>d st. list_all P (fst st) \<Longrightarrow> list_all P (fst (f d st))" "list_all P (fst st)"
  shows "list_all P (fst (fold f ds st))"
  using assms(2)
proof (induction ds arbitrary: st)
  case (Cons d ds)
  show ?case using Cons.IH [OF assms(1) [OF Cons.prems]] by simp
qed simp

lemma keeps_table_keys:
  "BuildPrimaryKeyStatements san p t schema = Inr stmts \<Longrightarrow> list_all keeps_table stmts"
  by (auto simp: BuildPrimaryKeyStatements_def bindE_Inr_iff Let_def split: if_splits)

lemma keeps_table_foreign_keys:
  assumes "BuildForeignKeyStatements san p t schema = Inr stmts"
  shows "list_all keeps_table stmts"
proof -
  have "list_all keeps_table (fst (fold (desired_fk_step san t cur) ds ([], [])))" for cur ds
    by (rule list_all_fold) (auto simp: desired_fk_step_def split: prod.splits)
  then show ?thesis
    using assms by (auto simp: BuildForeignKeyStatements_def bindE_Inr_iff case_prod_beta Let_def list_all_iff)
qed

lemma keeps_table_checks:
  assumes "BuildCheckConstraintStatements san p t schema = Inr stmts"
  shows "list_all keeps_table stmts"
proof -
  have "list_all keeps_table (fst (fold (desired_check_step san t cur) ds ([], [])))" for cur ds
    by (rule list_all_fold) (auto simp: desired_check_step_def split: prod.splits option.splits)
  then show ?thesis
    using assms by (auto simp: BuildCheckConstraintStatements_def bindE_Inr_iff case_prod_beta Let_def list_all_iff)
qed

lemma keeps_table_exclusions:
  assumes "BuildExclusionConstraintStatements san p t schema = Inr stmts"
  shows "list_all keeps_table stmts"
proof -
  have "list_all keeps_table (fst (fold (desired_exclusion_step san t cur) ds ([], [])))" for cur ds
    by (rule list_all_fold) (auto simp: desired_exclusion_step_def Let_def split: prod.splits option.splits)
  then show ?thesis
    using assms by (auto simp: BuildExclusionConstraintStatements_def bindE_Inr_iff case_prod_beta Let_def list_all_iff)
qed

lemma keeps_table_indexes:
  assumes "BuildIndexStatements san p t schema = Inr stmts"
  shows "list_all keeps_table stmts"
proof -
  have "list_all keeps_table (fst (fold (desired_index_step san t ex cons cur) ds ([], [])))" for ex cons cur ds
    by (rule list_all_fold) (auto simp: desired_index_step_def split: prod.splits option.splits)
  then show ?thesis
    using assms by (auto simp: BuildIndexStatements_def bindE_Inr_iff case_prod_beta Let_def list_all_iff)
qed

lemma keeps_table_trigger_loop:
  "desired_trigger_loop san t q cur ds st = Inr st' \<Longrightarrow> list_all keeps_table (fst st) \<Longrightarrow> list_all keeps_table (fst st')"
proof (induction ds arbitrary: st)
  case (Cons d ds)
  obtain statements dropped where st: "st = (statements, dropped)" by fastforce
  with Cons.prems(1) obtain w where w: "triggerCreateStatement san d q = Inr w"
    and l: "desired_trigger_loop san t q cur ds
          (case find (\<lambda>current. tg_Name current = ptt_Name d) cur of
             None \<Rightarrow> (statements @ [w], dropped)
           | Some matched \<Rightarrow>
               if normalizeTriggerDefinition w = normalizeTriggerDefinition (tg_Definition matched)
               then (statements, dropped)
               else (statements @ [dropTriggerStatement san (tg_Name matched) t, w], dropped @ [tg_Name matched])) = Inr st'"
    by (auto simp: bindE_Inr_iff split: if_splits)
  show ?case
    by (rule Cons.IH [OF l]) (use Cons.prems(2) st keeps_table_trigger [OF w] in \<open>auto split: option.splits\<close>)
qed simp

lemma keeps_table_triggers:
  "BuildTriggerStatements san p t schema = Inr stmts \<Longrightarrow> list_all keeps_table stmts"
  by (auto simp: BuildTriggerStatements_def bindE_Inr_iff list_all_iff dest!: keeps_table_trigger_loop)

lemma keeps_table_policy_loop:
  "desired_policy_loop san t cur ds st = Inr st' \<Longrightarrow> list_all keeps_table (fst st) \<Longrightarrow> list_all keeps_table (fst st')"
proof (induction ds arbitrary: st)
  case (Cons d ds)
  then show ?case
    by (cases st) (fastforce split: if_splits option.splits)
qed simp

lemma keeps_table_toggle:
  "rowSecurityToggleStatement t d c on off build = Inr s \<Longrightarrow> (\<And>b. keeps_table (build t b)) \<Longrightarrow> list_all keeps_table (emitted s)"
  by (auto simp: rowSecurityToggleStatement_def emitted_def Let_def split: if_splits)

lemma keeps_table_row_security:
  assumes "BuildRowLevelSecurityStatements san p t schema = Inr stmts"
  shows "list_all keeps_table stmts"
proof (cases "pts_RowLevelSecurity schema")
  case None
  with assms show ?thesis by (simp add: BuildRowLevelSecurityStatements_def)
next
  case (Some rls)
  with assms obtain current :: RowLevelSecurity and e f cur st where
    ef: "rowSecurityToggleStatement t (prl_Enable rls) (rl_Enabled current) ''enable'' ''disable''
          (enableRowLevelSecurityStatement san) = Inr e"
      "rowSecurityToggleStatement t (prl_Force rls) (rl_Forced current) ''force'' ''noforce''
          (forceRowLevelSecurityStatement san) = Inr f"
    and l: "desired_policy_loop san t cur (pts_Policies schema) (emitted e @ emitted f, []) = Inr st"
    and s: "stmts = fst st @ map (\<lambda>current. RemovePolicyStatement san t (po_Name current))
        (filter (\<lambda>current. \<not> list_ex (\<lambda>policy. ppo_Name policy = po_Name current) (pts_Policies schema) \<and>
           \<not> list_ex (\<lambda>dropped. dropped = po_Name current) (snd st)) cur)"
    by (auto simp: BuildRowLevelSecurityStatements_def bindE_Inr_iff Let_def)
  have "list_all keeps_table (fst st)"
    by (rule keeps_table_policy_loop [OF l])
       (use keeps_table_toggle [OF ef(1)] keeps_table_toggle [OF ef(2)] in simp)
  with s show ?thesis by (auto simp: list_all_iff)
qed

lemmas keeps_table_builders =
  keeps_table_columns keeps_table_keys keeps_table_foreign_keys keeps_table_checks keeps_table_indexes
  keeps_table_exclusions keeps_table_triggers keeps_table_row_security

lemma keeps_table_alter:
  "alter_table_statements san p t schema = Inr stmts \<Longrightarrow> list_all keeps_table stmts"
  by (auto simp: alter_table_statements_def bindE_Inr_iff dest!: keeps_table_builders)

lemma keeps_table_create:
  assumes "CreateTableStatements san t schema = Inr stmts"
  shows "list_all keeps_table stmts"
proof -
  obtain cols trs where c: "mapE (\<lambda>d. wrapE ''failed to create trigger statement''
        (triggerCreateStatement san d (schema_qualified schema t))) (desired_triggers schema) = Inr trs"
    and s: "stmts = (''create table '' @ cols) # trs @ new_table_rls_statements san (schema_qualified schema t) schema"
    using assms by (auto simp: CreateTableStatements_def bindE_Inr_iff Let_def)
  have "keeps_table w" if "w \<in> set trs" for w
    using mapE_set [OF c that] by (auto intro: keeps_table_trigger)
  moreover have "list_all keeps_table (new_table_rls_statements san (schema_qualified schema t) schema)"
    by (auto simp: new_table_rls_statements_def list_all_iff split: option.splits)
  ultimately show ?thesis by (auto simp: s list_all_iff keeps_table_def)
qed

text \<open>
  C6. A plan contains a \<^verbatim>\<open>drop table\<close> only if the schema is marked as deleted and the table
  exists, and then this is the whole plan; a deleted table that does not exist needs nothing.
\<close>

theorem plan_drops_table_only_if_deleted:
  assumes "Connect env uri = Inr p" and "CheckIfTableExists p t = Inr ex"
    and "PlanPostgresTable san env uri t schema seed = Inr stmts"
  shows "if pts_IsDeleted schema then stmts = (if ex then [''drop table '' @ sanitizeTableName san t] else [])
    else list_all keeps_table stmts"
proof (cases "pts_IsDeleted schema")
  case True
  with assms show ?thesis by (auto simp: PlanPostgresTable_def split: if_splits)
next
  case False
  show ?thesis
  proof (cases ex)
    case True
    with False assms obtain s where "alter_table_statements san p t schema = Inr s" "stmts = s @ seed_statements san t schema seed"
      by (auto simp: PlanPostgresTable_def bindE_Inr_iff Let_def)
    with False show ?thesis using keeps_table_alter keeps_table_seed by auto
  next
    case no: False
    with False assms obtain q i where "CreateTableStatements san t schema = Inr q" "BuildIndexStatements san p t schema = Inr i"
        "stmts = q @ seed_statements san t schema seed @ i"
      by (auto simp: PlanPostgresTable_def bindE_Inr_iff Let_def)
    with False show ?thesis using keeps_table_create keeps_table_indexes keeps_table_seed by auto
  qed
qed

theorem plan_drops_table_only_if_deleted_witness:
  "PlanPostgresTable concat sample_env ''postgres://'' ''users'' (sample_schema \<lparr> pts_IsDeleted := True \<rparr>) None =
     Inr [''drop table users'']"
proof -
  have ex: "CheckIfTableExists sample_conn ''users'' = Inr True" by code_simp
  obtain stmts where s: "PlanPostgresTable concat sample_env ''postgres://'' ''users''
      (sample_schema \<lparr> pts_IsDeleted := True \<rparr>) None = Inr stmts"
    by (simp add: PlanPostgresTable_def sample_connects ex)
  have "sanitizeTableName concat ''users'' = ''users''" by code_simp
  with plan_drops_table_only_if_deleted [OF sample_connects ex s] s show ?thesis by simp
qed

end
