(* ===== verification/Pg_Sync.thy ===== *)
theory Pg_Sync
  imports Database_Sync Pg_Correct
begin

text \<open>
  The PostgreSQL plugin behind the driver-independent layer: \<open>pg_connection\<close> is the value of the
  interface SchemaHeroDatabaseConnection that src/plugins/postgres/lib/connection.go provides, and
  the theorems follow a change from the spec through the plan and the text of the migration to
  the statements the server executes.
\<close>

section \<open>The connection\<close>

definition pg_connection ::
  "(string list \<Rightarrow> string) \<Rightarrow> PgEnv \<Rightarrow> (string \<Rightarrow> 'db \<Rightarrow> go_error option \<times> 'db) \<Rightarrow> PostgresConnection \<Rightarrow> 'db Connection" where
  "pg_connection san env exec p =
     \<lparr> cn_PlanTableSchema = PlanTableSchema san env p,
       cn_PlanTypeSchema = PlanTypeSchema p,
       cn_PlanViewSchema = PlanViewSchema p,
       cn_PlanFunctionSchema = PlanFunctionSchema env p,
       cn_PlanExtensionSchema = PlanExtensionSchema san env p,
       cn_DeployStatements = DeployPostgresStatements env exec (pg_uri p),
       cn_GenerateFixtures = GenerateFixtures san \<rparr>"

text \<open>
  The method Connect of src/plugins/postgres/plugin.go, with NewFixtureOnlyConnection for the
  option fixture-only. Such a connection has no server; \<open>no_server\<close> stands for the nil pointer, which
  none of the operations of a fixture-only connection reads.
\<close>

definition NewFixtureOnlyConnection :: "PgServer \<Rightarrow> PostgresConnection" where
  "NewFixtureOnlyConnection no_server =
     \<lparr> pg_databaseName = ''schemahero'', pg_engineVersion = ''fixture-only'', pg_schema = ''public'',
       pg_schemas = [''public''], pg_uri = [], pg_conn = no_server \<rparr>"

definition PostgresPlugin_Connect ::
  "(string list \<Rightarrow> string) \<Rightarrow> PgEnv \<Rightarrow> (string \<Rightarrow> 'db \<Rightarrow> go_error option \<times> 'db) \<Rightarrow> PgServer \<Rightarrow>
   string \<Rightarrow> (string \<rightharpoonup> option_value) \<Rightarrow> 'db Connection result" where
  "PostgresPlugin_Connect san env exec no_server uri options =
     (if options ''fixture-only'' = Some (OptBool True)
      then Inr (pg_connection san env exec (NewFixtureOnlyConnection no_server))
      else bindE (wrapE ''failed to connect to postgres'' (Connect env uri)) (\<lambda>conn.
             Inr (pg_connection san env exec conn)))"

definition SupportedEngines :: "string list" where
  "SupportedEngines = [''postgres'', ''postgresql'', ''cockroachdb'']"

section \<open>Function bodies in a migration\<close>

lemma TrimSpace_infix: "\<exists>a b. s = a @ TrimSpace s @ b"
proof -
  have "\<exists>b. r = rev (dropWhile P (rev r)) @ b" for P :: "char \<Rightarrow> bool" and r
    by (metis rev_append rev_rev_ident takeWhile_dropWhile_id)
  then obtain b where "dropWhile is_space s = TrimSpace s @ b" unfolding TrimSpace_def trim_while_def by blast
  then have "s = takeWhile is_space s @ TrimSpace s @ b" by (metis takeWhile_dropWhile_id)
  then show ?thesis by blast
qed

lemma SplitByte_infix: "l \<in> set (SplitByte s b) \<Longrightarrow> \<exists>x y. s = x @ l @ y"
proof (induction s arbitrary: l)
  case (Cons c s)
  have sub: "\<exists>x y. c # s = x @ k @ y" if k: "k \<in> set (SplitByte s b)" for k
  proof -
    obtain x y where "s = x @ k @ y" using Cons.IH [OF k] by blast
    then have "c # s = (c # x) @ k @ y" by simp
    then show ?thesis by blast
  qed
  obtain p ps where ps: "SplitByte s b = p # ps" by (cases "SplitByte s b") auto
  have "s = p @ (if ps = [] then [] else b # Join ps [b])"
    using Join_SplitByte [of s b] ps by (cases ps) auto
  then have "c # s = [] @ (c # p) @ (if ps = [] then [] else b # Join ps [b])" by simp
  then have first: "\<exists>x y. c # s = x @ (c # p) @ y" by blast
  consider "l = []" | "l = c # p" | "l \<in> set (SplitByte s b)"
    using Cons.prems ps by (auto split: if_splits)
  then show ?case using sub first by cases auto
qed simp

lemma body_line_free:
  assumes "l \<in> set (SplitByte body newline)" "\<not> Contains body tag"
  shows "\<not> Contains (TrimSpace l) tag"
proof
  assume "Contains (TrimSpace l) tag"
  then obtain a b where "TrimSpace l = a @ tag @ b" by (auto simp: Contains_iff)
  moreover obtain c d where "l = c @ TrimSpace l @ d" using TrimSpace_infix by blast
  moreover obtain x y where "body = x @ l @ y" using SplitByte_infix [OF assms(1)] by blast
  ultimately have "body = (x @ c @ a) @ tag @ (b @ d @ y)" by (metis append.assoc)
  then show False using assms(2) unfolding Contains_iff by blast
qed

lemma body_absorbed:
  "tag \<noteq> [] \<Longrightarrow> \<forall>l \<in> set ls. \<not> Contains (TrimSpace l) tag \<and> TrimSpace l \<noteq> function_tag_line \<Longrightarrow>
   absorbed False tag ls \<and> ddl_state False tag ls = (False, tag)"
  by (induction ls) (simp_all add: next_tag_def Let_def)

lemma absorbed_append:
  "absorbed open tag (xs @ ys) \<longleftrightarrow>
   absorbed open tag xs \<and> absorbed (fst (ddl_state open tag xs)) (snd (ddl_state open tag xs)) ys"
  by (induction xs arbitrary: "open" tag) (auto simp: Let_def)

lemma ddl_state_append:
  "ddl_state open tag (xs @ ys) = ddl_state (fst (ddl_state open tag xs)) (snd (ddl_state open tag xs)) ys"
  by (induction xs arbitrary: "open" tag) (auto simp: Let_def)

definition function_text :: "string \<Rightarrow> PostgresqlFunctionSchema \<Rightarrow> bool" where
  "function_text functionName s \<longleftrightarrow>
     CHR ''$'' \<notin> set (function_header functionName s) \<and> newline \<notin> set (function_header functionName s) \<and>
     \<not> Contains (pfn_As s) FunctionLogicTag \<and>
     (\<forall>l \<in> set (SplitByte (pfn_As s) newline). TrimSpace l \<noteq> function_tag_line) \<and>
     CHR ''$'' \<notin> set (pfn_Lang s) \<and> newline \<notin> set (pfn_Lang s) \<and> pfn_Lang s \<noteq> [] \<and>
     TrimSpace (pfn_Lang s) = pfn_Lang s"

lemma function_lines:
  assumes "function_text functionName s"
  shows "SplitByte (hd (CreateFunctionStatements functionName s)) newline =
    [function_header functionName s @ '' as'', FunctionLogicTag] @ SplitByte (pfn_As s) newline @
    [FunctionLogicTag, ''language '' @ pfn_Lang s]"
proof -
  have tag: "newline \<notin> set FunctionLogicTag" by (simp add: FunctionLogicTag_def)
  have "SplitByte (pfn_As s @ newline # t) newline = SplitByte (pfn_As s) newline @ SplitByte t newline" for t
    by (simp add: SplitByte_append_gen)
  then show ?thesis
    using assms tag SplitByte_append [of newline "function_header functionName s @ '' as''"]
      SplitByte_append [OF tag]
    by (simp add: CreateFunctionStatements_alt function_text_def)
qed

lemma function_header_line:
  "TrimSpace (function_header n s @ '' as'') = function_header n s @ '' as''"
  "function_header n s @ '' as'' \<noteq> function_tag_line"
proof -
  have h: "hd (function_header n s @ '' as'') = CHR ''c''" by (simp add: function_header_def)
  then show "TrimSpace (function_header n s @ '' as'') = function_header n s @ '' as''"
    by (intro TrimSpace_id) (simp add: is_space_def byte_def)
  have "hd function_tag_line = CHR ''-''" by (simp add: function_tag_line_def)
  with h show "function_header n s @ '' as'' \<noteq> function_tag_line" by auto
qed

lemma opened_tag_none: "CHR ''$'' \<notin> set l \<Longrightarrow> opened_tag l = []"
  using Index_byte_None [of l "CHR ''$''"] by (simp add: opened_tag_def del: Index_byte_None)

lemma function_survives:
  assumes "function_text functionName s"
  shows "survives (hd (CreateFunctionStatements functionName s))"
proof -
  let ?body = "SplitByte (pfn_As s) newline"
  have tag: "opened_tag FunctionLogicTag = FunctionLogicTag" "TrimSpace FunctionLogicTag = FunctionLogicTag"
    "FunctionLogicTag \<noteq> function_tag_line" "FunctionLogicTag \<noteq> []" "Contains FunctionLogicTag FunctionLogicTag"
    "\<not> HasSuffix FunctionLogicTag '';''"
    by code_simp+
  have body: "absorbed False FunctionLogicTag ?body \<and> ddl_state False FunctionLogicTag ?body = (False, FunctionLogicTag)"
    using assms body_line_free by (intro body_absorbed) (auto simp: function_text_def tag)
  have lang: "''language '' @ pfn_Lang s \<noteq> function_tag_line" by (simp add: function_tag_line_def)
  have "TrimSpace (''language '' @ pfn_Lang s) = ''language '' @ pfn_Lang s"
    using assms TrimSpace_self [of "pfn_Lang s"] by (intro TrimSpace_id) (simp add: function_text_def is_space_def byte_def)
  moreover have "opened_tag (''language '' @ pfn_Lang s) = []"
    "opened_tag (function_header functionName s @ '' as'') = []"
    using assms by (intro opened_tag_none; simp add: function_text_def)+
  moreover have "\<not> HasSuffix (function_header functionName s @ '' as'') '';''" by (simp add: HasSuffix_def)
  ultimately show ?thesis
    unfolding survives_def function_lines [OF assms]
    using tag body lang function_header_line [of functionName s]
    by (simp add: butlast_append absorbed_append ddl_state_append next_tag_def)
qed

lemma function_flattened:
  assumes "function_text functionName s"
  shows "flattened (hd (CreateFunctionStatements functionName s)) =
    function_header functionName s @ '' as '' @ FunctionLogicTag @ spaced (SplitByte (pfn_As s) newline) @ '' '' @
    FunctionLogicTag @ '' language '' @ pfn_Lang s"
proof -
  have tag: "TrimSpace FunctionLogicTag = FunctionLogicTag" "FunctionLogicTag \<noteq> []" by code_simp+
  have l: "TrimSpace (''language '' @ pfn_Lang s) = ''language '' @ pfn_Lang s"
    using assms TrimSpace_self [of "pfn_Lang s"] by (intro TrimSpace_id) (simp add: function_text_def is_space_def byte_def)
  let ?r = "function_header functionName s @ '' as '' @ FunctionLogicTag @ spaced (SplitByte (pfn_As s) newline) @ '' '' @
    FunctionLogicTag @ '' language '' @ pfn_Lang s"
  have "TrimSpace ?r = ?r"
    using assms TrimSpace_self [of "pfn_Lang s"]
    by (intro TrimSpace_id) (simp add: function_header_def function_text_def is_space_def byte_def)
  then show ?thesis
    using l tag function_header_line(1) [of functionName s]
    by (simp add: flattened_def function_lines [OF assms] function_header_def)
qed

text \<open>
  C11. The statement that creates a function goes through the text of a migration in one piece,
  although its body holds line breaks and semicolons: the dollar quote around the body keeps the
  splitter from cutting it. The body arrives with its lines joined by spaces.
\<close>

theorem function_statement_in_one_piece:
  assumes "function_text functionName s"
  shows "GetStatementsFromDDL (Join (CreateFunctionStatements functionName s) ('';'' @ [newline])) =
    [function_header functionName s @ '' as '' @ FunctionLogicTag @ spaced (SplitByte (pfn_As s) newline) @ '' '' @
     FunctionLogicTag @ '' language '' @ pfn_Lang s]"
proof -
  have one: "CreateFunctionStatements functionName s = [hd (CreateFunctionStatements functionName s)]"
    by (simp add: CreateFunctionStatements_alt)
  have "GetStatementsFromDDL (Join [hd (CreateFunctionStatements functionName s)] ('';'' @ [newline])) =
      [flattened (hd (CreateFunctionStatements functionName s))]"
    using function_survives [OF assms] ddl_of_joined [of "[hd (CreateFunctionStatements functionName s)]"] by simp
  then show ?thesis unfolding function_flattened [OF assms] by (simp only: one [symmetric])
qed

definition sample_function :: PostgresqlFunctionSchema where
  "sample_function =
     \<lparr> pfn_Schema = [], pfn_Lang = ''plpgsql'', pfn_Params = [], pfn_ReturnSet = False, pfn_Return = ''int'',
       pfn_As = ''begin'' @ [newline] @ ''  return 1; -- one'' @ [newline] @ ''end;'', pfn_SecurityDefiner = False,
       pfn_Body = [], pfn_Returns = [], pfn_Language = [], pfn_IsDeleted = False \<rparr>"

theorem function_statement_in_one_piece_witness:
  "GetStatementsFromDDL (Join (CreateFunctionStatements ''one'' sample_function) ('';'' @ [newline])) =
    [''create or replace function one() returns int as $_SCHEMAHERO_$ begin return 1; -- one end; $_SCHEMAHERO_$ language plpgsql'']"
proof -
  have "function_text ''one'' sample_function" by code_simp
  moreover have "function_header ''one'' sample_function @ '' as '' @ FunctionLogicTag @
      spaced (SplitByte (pfn_As sample_function) newline) @ '' '' @ FunctionLogicTag @ '' language '' @
      pfn_Lang sample_function =
      ''create or replace function one() returns int as $_SCHEMAHERO_$ begin return 1; -- one end; $_SCHEMAHERO_$ language plpgsql''"
    by code_simp
  ultimately show ?thesis using function_statement_in_one_piece by metis
qed

text \<open>
  The joined body has no line break any more, so a line comment of the source now runs to the end
  of the text and takes the rest of the function with it.
\<close>

lemma line_comment_swallows_rest:
  "let stmt = hd (GetStatementsFromDDL (Join (CreateFunctionStatements ''one'' sample_function) ('';'' @ [newline])))
   in Contains (pfn_As sample_function) (''-- one'' @ [newline]) \<and> Contains stmt ''-- one end;'' \<and> newline \<notin> set stmt"
  by code_simp

section \<open>From the plan to the server\<close>

text \<open>
  C38. Deployment executes the statements in order and stops at the first that fails: an error
  comes from one statement, everything before it was executed, and nothing after it.
\<close>

theorem deploy_stops_at_first_error:
  "executeStatements exec statements db = (Some e, db') \<longleftrightarrow>
     (\<exists>before stmt rest mid. statements = before @ stmt # rest \<and> stmt \<noteq> [] \<and>
        executeStatements exec before db = (None, mid) \<and> exec stmt mid = (Some e, db'))"
  by (rule pg_deploy.error_iff)

text \<open>
  C9. Statements that survive the splitter are deployed as planned. With the driver postgres and a plugin manager that hands
  out the connection of the PostgreSQL plugin itself, not a proxy, applying the statements cut from the text of a
  migration executes the planned statements on the server, in order and up to the first error, each with its
  semicolon but the last and with its lines joined. A statement survives if no line before its last one ends it
  for the splitter, no dollar quotation is open at its end, and its last line is not empty, has no space around it and is not the
  marker of a function; a planned statement for which this fails is cut elsewhere, and nothing is claimed of its plan.
\<close>

theorem planned_statements_are_deployed:
  assumes "db_Driver d = ''postgres''" "db_pluginManager d = Some manager"
    and "manager ''postgres'' (db_URI d) Map.empty = Inr (pg_connection san env exec p)"
    and "Connect env (pg_uri p) = Inr p'"
    and "statements \<noteq> []" "\<forall>s \<in> set statements. survives s"
  shows "ApplySync d (GetStatementsFromDDL (Join statements ('';'' @ [newline]))) db =
    executeStatements exec (map (\<lambda>s. flattened s @ '';'') (butlast statements) @ [flattened (last statements)]) db"
  using assms ddl_of_joined [OF assms(5,6)]
  by (simp add: ApplySync_def GetConnection_def connection_options_def planned_drivers_def pg_connection_def
      DeployPostgresStatements_def)

text \<open>The server of the witness records what it executes.\<close>

definition log_exec :: "string \<Rightarrow> string list \<Rightarrow> go_error option \<times> string list" where
  "log_exec stmt log = (None, log @ [stmt])"

definition sample_database :: "string list Database" where
  "sample_database = (blank_database ''postgres'')
     \<lparr> db_URI := ''postgres://'',
       db_pluginManager := Some (\<lambda>_ _ _. Inr (pg_connection concat sample_env log_exec sample_conn)) \<rparr>"

theorem planned_statements_are_deployed_witness:
  "ApplySync sample_database (GetStatementsFromDDL (Join [''drop table a'', ''drop table b''] ('';'' @ [newline]))) [] =
     (None, [''drop table a;'', ''drop table b''])"
proof -
  have d: "db_Driver sample_database = ''postgres''"
    "db_pluginManager sample_database = Some (\<lambda>_ _ _. Inr (pg_connection concat sample_env log_exec sample_conn))"
    by (simp_all add: sample_database_def blank_database_def)
  have c: "Connect sample_env (pg_uri sample_conn) = Inr sample_conn"
    using sample_connects by (simp add: sample_conn_def)
  have s: "\<forall>s \<in> set [''drop table a'', ''drop table b'']. survives s" by code_simp
  have "executeStatements log_exec (map (\<lambda>s. flattened s @ '';'') (butlast [''drop table a'', ''drop table b'']) @
      [flattened (last [''drop table a'', ''drop table b''])]) [] = (None, [''drop table a;'', ''drop table b''])"
    by code_simp
  then show ?thesis
    using planned_statements_are_deployed [OF d _ c _ s, of concat log_exec "[]"] by simp
qed

end
