(* ===== verification/Db_Dialects.thy ===== *)
theory Db_Dialects
  imports Db_Types Api_Specs
begin

text \<open>
  The conversions between catalog objects and the resources of the drivers MySQL, SQLite and
  rqlite, and the names generated for them: the functions of column.go, foreignkey.go and index.go
  in src/pkg/database/types for these drivers. Those for PostgreSQL are in \<open>Db_Types\<close>.
\<close>

section \<open>MySQL\<close>

definition ColumnToMysqlSchemaColumn :: "Column \<Rightarrow> MysqlTableColumn" where
  "ColumnToMysqlSchemaColumn column =
     \<lparr> mcol_Name = col_Name column, mcol_Type = col_DataType column,
       mcol_Constraints = map_option (\<lambda>c. \<lparr> mcc_NotNull = cc_NotNull c \<rparr>) (col_Constraints column),
       mcol_Attributes = map_option (\<lambda>a. \<lparr> mca_AutoIncrement = ca_AutoIncrement a \<rparr>) (col_Attributes column),
       mcol_Default = col_ColumnDefault column, mcol_Charset = col_Charset column,
       mcol_Collation = col_Collation column \<rparr>"

definition ForeignKeyToMysqlSchemaForeignKey :: "ForeignKey \<Rightarrow> MysqlTableForeignKey" where
  "ForeignKeyToMysqlSchemaForeignKey foreignKey =
     \<lparr> mfk_Columns = fk_ChildColumns foreignKey,
       mfk_References = \<lparr> mfr_Table = fk_ParentTable foreignKey, mfr_Columns = fk_ParentColumns foreignKey \<rparr>,
       mfk_OnDelete = fk_OnDelete foreignKey, mfk_Name = fk_Name foreignKey \<rparr>"

definition MysqlSchemaForeignKeyToForeignKey :: "MysqlTableForeignKey \<Rightarrow> ForeignKey" where
  "MysqlSchemaForeignKeyToForeignKey schemaForeignKey =
     \<lparr> fk_ChildColumns = mfk_Columns schemaForeignKey,
       fk_ParentTable = mfr_Table (mfk_References schemaForeignKey),
       fk_ParentColumns = mfr_Columns (mfk_References schemaForeignKey),
       fk_Name = mfk_Name schemaForeignKey, fk_OnDelete = mfk_OnDelete schemaForeignKey \<rparr>"

definition GenerateMysqlFKName :: "string \<Rightarrow> MysqlTableForeignKey \<Rightarrow> string" where
  "GenerateMysqlFKName tableName schemaForeignKey =
     (if mfk_Name schemaForeignKey \<noteq> [] then mfk_Name schemaForeignKey
      else tableName @ ''_'' @ Join (mfk_Columns schemaForeignKey) ''_'' @ ''_fkey'')"

definition IndexToMysqlSchemaIndex :: "Index \<Rightarrow> MysqlTableIndex" where
  "IndexToMysqlSchemaIndex index =
     \<lparr> mix_Columns = ix_Columns index, mix_Name = ix_Name index, mix_IsUnique = ix_IsUnique index,
       mix_Type = [] \<rparr>"

definition MysqlSchemaIndexToIndex :: "MysqlTableIndex \<Rightarrow> Index" where
  "MysqlSchemaIndexToIndex schemaIndex =
     \<lparr> ix_Columns = mix_Columns schemaIndex, ix_Name = mix_Name schemaIndex,
       ix_IsUnique = mix_IsUnique schemaIndex, ix_With = [], ix_Type = [], ix_Where = [],
       ix_Expressions = [], ix_SortedColumns = [] \<rparr>"

text \<open>A slice of a shorter string would panic; it is guarded by the length.\<close>

definition GenerateMysqlIndexName :: "string \<Rightarrow> MysqlTableIndex \<Rightarrow> string" where
  "GenerateMysqlIndexName tableName schemaIndex =
     (let indexName = ''idx_'' @ tableName @ ''_'' @ Join (mix_Columns schemaIndex) ''_''
      in if length indexName > 64 then take 64 indexName else indexName)"

section \<open>SQLite\<close>

definition ColumnToSqliteSchemaColumn :: "Column \<Rightarrow> SqliteTableColumn" where
  "ColumnToSqliteSchemaColumn column =
     \<lparr> scol_Name = col_Name column, scol_Type = col_DataType column,
       scol_Constraints = map_option (\<lambda>c. \<lparr> scc_NotNull = cc_NotNull c \<rparr>) (col_Constraints column),
       scol_Attributes = None,
       scol_Default = col_ColumnDefault column \<rparr>"

definition ForeignKeyToSqliteSchemaForeignKey :: "ForeignKey \<Rightarrow> SqliteTableForeignKey" where
  "ForeignKeyToSqliteSchemaForeignKey foreignKey =
     \<lparr> sfk_Columns = fk_ChildColumns foreignKey,
       sfk_References = \<lparr> sfr_Table = fk_ParentTable foreignKey, sfr_Columns = fk_ParentColumns foreignKey \<rparr>,
       sfk_OnDelete = fk_OnDelete foreignKey, sfk_Name = fk_Name foreignKey \<rparr>"

definition SqliteSchemaForeignKeyToForeignKey :: "SqliteTableForeignKey \<Rightarrow> ForeignKey" where
  "SqliteSchemaForeignKeyToForeignKey schemaForeignKey =
     \<lparr> fk_ChildColumns = sfk_Columns schemaForeignKey,
       fk_ParentTable = sfr_Table (sfk_References schemaForeignKey),
       fk_ParentColumns = sfr_Columns (sfk_References schemaForeignKey),
       fk_Name = sfk_Name schemaForeignKey, fk_OnDelete = sfk_OnDelete schemaForeignKey \<rparr>"

definition GenerateSqliteFKName :: "string \<Rightarrow> SqliteTableForeignKey \<Rightarrow> string" where
  "GenerateSqliteFKName tableName schemaForeignKey =
     (if sfk_Name schemaForeignKey \<noteq> [] then sfk_Name schemaForeignKey
      else tableName @ ''_'' @ Join (sfk_Columns schemaForeignKey) ''_'' @ ''_fkey'')"

definition IndexToSqliteSchemaIndex :: "Index \<Rightarrow> SqliteTableIndex" where
  "IndexToSqliteSchemaIndex index =
     \<lparr> six_Columns = ix_Columns index, six_Name = ix_Name index, six_IsUnique = ix_IsUnique index,
       six_Type = [] \<rparr>"

definition SqliteSchemaIndexToIndex :: "SqliteTableIndex \<Rightarrow> Index" where
  "SqliteSchemaIndexToIndex schemaIndex =
     \<lparr> ix_Columns = six_Columns schemaIndex, ix_Name = six_Name schemaIndex,
       ix_IsUnique = six_IsUnique schemaIndex, ix_With = [], ix_Type = [], ix_Where = [],
       ix_Expressions = [], ix_SortedColumns = [] \<rparr>"

definition GenerateSqliteIndexName :: "string \<Rightarrow> SqliteTableIndex \<Rightarrow> string" where
  "GenerateSqliteIndexName tableName schemaIndex = ''idx_'' @ tableName @ ''_'' @ Join (six_Columns schemaIndex) ''_''"

section \<open>rqlite\<close>

definition ColumnToRqliteSchemaColumn :: "Column \<Rightarrow> RqliteTableColumn" where
  "ColumnToRqliteSchemaColumn column =
     \<lparr> rcol_Name = col_Name column, rcol_Type = col_DataType column,
       rcol_Constraints = map_option (\<lambda>c. \<lparr> rcc_NotNull = cc_NotNull c \<rparr>) (col_Constraints column),
       rcol_Attributes = map_option (\<lambda>a. \<lparr> rca_AutoIncrement = ca_AutoIncrement a \<rparr>) (col_Attributes column),
       rcol_Default = col_ColumnDefault column \<rparr>"

definition ForeignKeyToRqliteSchemaForeignKey :: "ForeignKey \<Rightarrow> RqliteTableForeignKey" where
  "ForeignKeyToRqliteSchemaForeignKey foreignKey =
     \<lparr> rfk_Columns = fk_ChildColumns foreignKey,
       rfk_References = \<lparr> rfr_Table = fk_ParentTable foreignKey, rfr_Columns = fk_ParentColumns foreignKey \<rparr>,
       rfk_OnDelete = fk_OnDelete foreignKey, rfk_Name = fk_Name foreignKey \<rparr>"

definition RqliteSchemaForeignKeyToForeignKey :: "RqliteTableForeignKey \<Rightarrow> ForeignKey" where
  "RqliteSchemaForeignKeyToForeignKey schemaForeignKey =
     \<lparr> fk_ChildColumns = rfk_Columns schemaForeignKey,
       fk_ParentTable = rfr_Table (rfk_References schemaForeignKey),
       fk_ParentColumns = rfr_Columns (rfk_References schemaForeignKey),
       fk_Name = rfk_Name schemaForeignKey, fk_OnDelete = rfk_OnDelete schemaForeignKey \<rparr>"

definition GenerateRqliteFKName :: "string \<Rightarrow> RqliteTableForeignKey \<Rightarrow> string" where
  "GenerateRqliteFKName tableName schemaForeignKey =
     (if rfk_Name schemaForeignKey \<noteq> [] then rfk_Name schemaForeignKey
      else tableName @ ''_'' @ Join (rfk_Columns schemaForeignKey) ''_'' @ ''_fkey'')"

definition IndexToRqliteSchemaIndex :: "Index \<Rightarrow> RqliteTableIndex" where
  "IndexToRqliteSchemaIndex index =
     \<lparr> rix_Columns = ix_Columns index, rix_Name = ix_Name index, rix_IsUnique = ix_IsUnique index,
       rix_Type = [] \<rparr>"

definition RqliteSchemaIndexToIndex :: "RqliteTableIndex \<Rightarrow> Index" where
  "RqliteSchemaIndexToIndex schemaIndex =
     \<lparr> ix_Columns = rix_Columns schemaIndex, ix_Name = rix_Name schemaIndex,
       ix_IsUnique = rix_IsUnique schemaIndex, ix_With = [], ix_Type = [], ix_Where = [],
       ix_Expressions = [], ix_SortedColumns = [] \<rparr>"

definition GenerateRqliteIndexName :: "string \<Rightarrow> RqliteTableIndex \<Rightarrow> string" where
  "GenerateRqliteIndexName tableName schemaIndex = ''idx_'' @ tableName @ ''_'' @ Join (rix_Columns schemaIndex) ''_''"

section \<open>What the conversions keep\<close>

text \<open>
  The comparison of two indexes of these drivers: a name, the uniqueness and a set of columns. The
  other fields of an index are never set by them.
\<close>

definition plain_index :: "Index \<Rightarrow> bool" where
  "plain_index i \<longleftrightarrow> ix_With i = [] \<and> ix_Type i = [] \<and> ix_Where i = [] \<and> ix_Expressions i = [] \<and> ix_SortedColumns i = []"

lemma schema_index_plain [simp]:
  "plain_index (MysqlSchemaIndexToIndex mi)" "plain_index (SqliteSchemaIndexToIndex si)"
  "plain_index (RqliteSchemaIndexToIndex ri)"
  by (simp_all add: plain_index_def MysqlSchemaIndexToIndex_def SqliteSchemaIndexToIndex_def RqliteSchemaIndexToIndex_def)

lemma plain_index_Equals:
  assumes "plain_index i" "plain_index j"
  shows "Index_Equals i j \<longleftrightarrow> ix_Name i = ix_Name j \<and> ix_IsUnique i = ix_IsUnique j \<and>
    length (ix_Columns i) = length (ix_Columns j) \<and> set (ix_Columns j) \<subseteq> set (ix_Columns i)"
  using assms by (auto simp: Index_Equals_def plain_index_def columns_found_iff)

lemma dialect_index_roundtrip:
  assumes "plain_index i"
  shows "MysqlSchemaIndexToIndex (IndexToMysqlSchemaIndex i) = i"
    "SqliteSchemaIndexToIndex (IndexToSqliteSchemaIndex i) = i"
    "RqliteSchemaIndexToIndex (IndexToRqliteSchemaIndex i) = i"
  using assms by (simp_all add: plain_index_def MysqlSchemaIndexToIndex_def IndexToMysqlSchemaIndex_def
      SqliteSchemaIndexToIndex_def IndexToSqliteSchemaIndex_def RqliteSchemaIndexToIndex_def IndexToRqliteSchemaIndex_def)

lemma dialect_foreign_key_roundtrip:
  "MysqlSchemaForeignKeyToForeignKey (ForeignKeyToMysqlSchemaForeignKey f) = f"
  "SqliteSchemaForeignKeyToForeignKey (ForeignKeyToSqliteSchemaForeignKey f) = f"
  "RqliteSchemaForeignKeyToForeignKey (ForeignKeyToRqliteSchemaForeignKey f) = f"
  by (simp_all add: MysqlSchemaForeignKeyToForeignKey_def ForeignKeyToMysqlSchemaForeignKey_def
      SqliteSchemaForeignKeyToForeignKey_def ForeignKeyToSqliteSchemaForeignKey_def
      RqliteSchemaForeignKeyToForeignKey_def ForeignKeyToRqliteSchemaForeignKey_def)

text \<open>
  A generated MySQL name has at most 64 bytes. Unlike the names for PostgreSQL it is cut without a
  hash, so two indexes whose names agree on the first 64 bytes get the same one.
\<close>

lemma GenerateMysqlIndexName_fits: "length (GenerateMysqlIndexName t i) \<le> 64"
  by (auto simp: GenerateMysqlIndexName_def Let_def min_def)

lemma mysql_index_names_collide:
  "let a = replicate 60 (CHR ''a'');
       ix = (\<lambda>c. \<lparr> mix_Columns = [a, c], mix_Name = [], mix_IsUnique = False, mix_Type = [] \<rparr>)
   in GenerateMysqlIndexName ''t'' (ix ''b'') = GenerateMysqlIndexName ''t'' (ix ''c'')"
  by code_simp

end
