(* ===== verification/My_Column.thy ===== *)
theory My_Column
  imports Db_Query Db_Dialects Go_Regexp
begin

text \<open>
  Column types and column statements of the MySQL plugin: src/plugins/mysql/lib/alias.go,
  parameterized.go, column.go, alter.go and alter_statements.go. A function that has the name of
  one of the PostgreSQL plugin carries the prefix \<open>my_\<close>.
\<close>

abbreviation ticked :: "string \<Rightarrow> string" where
  "ticked name \<equiv> ''`'' @ name @ ''`''"

section \<open>Type names (alias.go, parameterized.go)\<close>

definition my_unparameterizedColumnTypes :: "string list" where
  "my_unparameterizedColumnTypes =
     [''date'', ''datetime'', ''timestamp'', ''tinyblob'', ''tinytext'', ''mediumblob'', ''mediumtext'',
      ''longblob'', ''longtext'', ''blob'', ''text'']"

text \<open>The length MySQL reports for a text type, which it does not accept back.\<close>

definition my_drop_text_length :: "string \<Rightarrow> string" where
  "my_drop_text_length requestedType =
     (if requestedType = ''text (65535)'' then ''text''
      else if requestedType = ''tinytext (255)'' then ''tinytext''
      else if requestedType = ''mediumtext (16777215)'' then ''mediumtext''
      else if requestedType = ''longtext (4294967295)'' then ''longtext''
      else if requestedType = ''blob (65535)'' then ''blob''
      else if requestedType = ''tinyblob (255)'' then ''tinyblob''
      else if requestedType = ''mediumblob (16777215)'' then ''mediumblob''
      else if requestedType = ''longblob (4294967295)'' then ''longblob''
      else requestedType)"

definition my_unaliasUnparameterizedColumnType :: "string \<Rightarrow> string" where
  "my_unaliasUnparameterizedColumnType requestedType =
     (if requestedType = ''bool'' then ''tinyint (1)''
      else if requestedType = ''boolean'' then ''tinyint (1)''
      else
        (let requestedType = my_drop_text_length requestedType
         in if list_ex (\<lambda>t. t = requestedType) my_unparameterizedColumnTypes then requestedType else []))"

definition my_unaliasParameterizedColumnType :: "string \<Rightarrow> string" where
  "my_unaliasParameterizedColumnType requestedType =
     (if HasPrefix requestedType ''char '' \<or> HasPrefix requestedType ''char('' \<or>
         requestedType = ''character'' \<or> requestedType = ''char'' then
        (case FindStringSubmatch (re_paren_digits ''char'') requestedType of
           None \<Rightarrow> ''character''
         | Some g \<Rightarrow> ''character ('' @ g ! 0 @ '')'')
      else if HasPrefix requestedType ''integer'' then
        (case FindStringSubmatch (re_paren_space_digits ''integer'') requestedType of
           None \<Rightarrow> ''int (11)''
         | Some g \<Rightarrow> ''int ('' @ g ! 0 @ '')'')
      else if HasPrefix requestedType ''dec'' then
        (let requestedType = (if Contains requestedType ''decimal'' then ReplaceAll requestedType ''decimal'' ''dec''
                              else requestedType)
         in case FindStringSubmatch (re_paren_two_digits ''dec'') requestedType of
              Some g \<Rightarrow> ''decimal ('' @ g ! 0 @ '', '' @ g ! 1 @ '')''
            | None \<Rightarrow>
                (case FindStringSubmatch (re_paren_space_digits ''dec'') requestedType of
                   Some g \<Rightarrow> ''decimal ('' @ g ! 0 @ '', 0)''
                 | None \<Rightarrow> ''decimal (10, 0)''))
      else if HasPrefix requestedType ''double precision'' then
        (case FindStringSubmatch (re_paren_two_digits ''double precision'') requestedType of
           Some g \<Rightarrow> ''double ('' @ g ! 0 @ '', '' @ g ! 1 @ '')''
         | None \<Rightarrow> ''double'')
      else [])"

definition my_isParameterizedColumnType :: "string \<Rightarrow> bool" where
  "my_isParameterizedColumnType requestedType =
     (\<not> list_ex (\<lambda>t. t = requestedType) my_unparameterizedColumnTypes)"

text \<open>A type with a length: its name with the length given, or the text \<open>plain\<close> without one.\<close>

definition my_sized_type :: "string \<Rightarrow> string \<Rightarrow> string \<Rightarrow> string result" where
  "my_sized_type name plain requestedType =
     (case FindStringSubmatch (re_paren_digits name) requestedType of
        None \<Rightarrow> Inr plain
      | Some g \<Rightarrow> bindE (Atoi (g ! 0)) (\<lambda>max. Inr (name @ '' ('' @ Itoa max @ '')'')))"

text \<open>A time type: a precision between 0 and 6 is required here.\<close>

definition my_time_type :: "string \<Rightarrow> string \<Rightarrow> string result" where
  "my_time_type name requestedType =
     (case FindStringSubmatch (re_paren_digits name) requestedType of
        None \<Rightarrow> Inl (ErrNew (''invalid '' @ name @ '' precision''))
      | Some g \<Rightarrow> bindE (Atoi (g ! 0)) (\<lambda>max.
          if max < 0 \<or> max > 6 then Inl (ErrNew (''invalid '' @ name @ '' precision '' @ Itoa max))
          else Inr (name @ '' ('' @ Itoa max @ '')'')))"

definition my_decimal_type :: "string \<Rightarrow> string" where
  "my_decimal_type requestedType =
     (case FindStringSubmatch (re_paren_two_digits ''decimal'') requestedType of
        Some g \<Rightarrow> ''decimal ('' @ g ! 0 @ '', '' @ g ! 1 @ '')''
      | None \<Rightarrow>
          (case FindStringSubmatch (re_paren_space_digits ''decimal'') requestedType of
             Some g \<Rightarrow> ''decimal ('' @ g ! 0 @ '', 0)''
           | None \<Rightarrow> ''decimal (10, 0)''))"

definition my_float_type :: "string \<Rightarrow> string result" where
  "my_float_type requestedType =
     (case FindStringSubmatch (re_paren_two_digits ''float'') requestedType of
        Some g \<Rightarrow> Inr (''float ('' @ g ! 0 @ '', '' @ g ! 1 @ '')'')
      | None \<Rightarrow>
          (case FindStringSubmatch (re_paren_space_digits ''float'') requestedType of
             Some g \<Rightarrow> bindE (Atoi (g ! 0)) (\<lambda>precision.
               if precision > 24 then Inr ''double'' else Inr ''float'')
           | None \<Rightarrow> Inr ''float''))"

definition my_double_type :: "string \<Rightarrow> string" where
  "my_double_type requestedType =
     (case FindStringSubmatch (re_paren_two_digits ''double'') requestedType of
        Some g \<Rightarrow> ''double ('' @ g ! 0 @ '', '' @ g ! 1 @ '')''
      | None \<Rightarrow> ''double'')"

definition my_maybeParseParameterizedColumnType :: "string \<Rightarrow> string result" where
  "my_maybeParseParameterizedColumnType requestedType =
     (if HasPrefix requestedType ''varchar'' then my_sized_type ''varchar'' ''varchar (1)'' requestedType
      else if HasPrefix requestedType ''char'' then
        my_sized_type ''char'' ''char (11)''
          (if Contains requestedType ''character'' then ReplaceAll requestedType ''character'' ''char''
           else requestedType)
      else if HasPrefix requestedType ''datetime'' then my_time_type ''datetime'' requestedType
      else if HasPrefix requestedType ''timestamp'' then my_time_type ''timestamp'' requestedType
      else if HasPrefix requestedType ''tinyint'' then my_sized_type ''tinyint'' ''tinyint (1)'' requestedType
      else if HasPrefix requestedType ''bit'' then my_sized_type ''bit'' ''bit (1)'' requestedType
      else if HasPrefix requestedType ''smallint'' then my_sized_type ''smallint'' ''smallint (5)'' requestedType
      else if HasPrefix requestedType ''mediumint'' then my_sized_type ''mediumint'' ''mediumint (9)'' requestedType
      else if HasPrefix requestedType ''int'' then my_sized_type ''int'' ''int (11)'' requestedType
      else if HasPrefix requestedType ''bigint'' then my_sized_type ''bigint'' ''bigint (20)'' requestedType
      else if HasPrefix requestedType ''decimal'' then Inr (my_decimal_type requestedType)
      else if HasPrefix requestedType ''float'' then my_float_type requestedType
      else if HasPrefix requestedType ''double'' then Inr (my_double_type requestedType)
      else if HasPrefix requestedType ''binary'' then my_sized_type ''binary'' ''binary (1)'' requestedType
      else if HasPrefix requestedType ''varbinary'' then my_sized_type ''varbinary'' ''varbinary (1)'' requestedType
      else if HasPrefix requestedType ''blob'' then my_sized_type ''blob'' ''blob'' requestedType
      else if HasPrefix requestedType ''text'' then my_sized_type ''text'' ''text'' requestedType
      else if HasPrefix requestedType ''json'' then Inr ''json''
      else Inr [])"

section \<open>Columns (column.go)\<close>

definition my_unalias_requested :: "string \<Rightarrow> string" where
  "my_unalias_requested requestedType =
     (let unaliased = my_unaliasUnparameterizedColumnType requestedType;
          requestedType = (if unaliased \<noteq> [] then unaliased else requestedType);
          unaliased = my_unaliasParameterizedColumnType requestedType
      in if unaliased \<noteq> [] then unaliased else requestedType)"

definition my_schemaColumnToColumn :: "MysqlTableColumn \<Rightarrow> Column result" where
  "my_schemaColumnToColumn schemaColumn =
     (let column = \<lparr> col_Name = mcol_Name schemaColumn, col_DataType = [],
                     col_ColumnDefault = mcol_Default schemaColumn,
                     col_Constraints =
                       map_option (\<lambda>c. \<lparr> cc_NotNull = mcc_NotNull c \<rparr>) (mcol_Constraints schemaColumn),
                     col_Attributes =
                       map_option (\<lambda>a. \<lparr> ca_AutoIncrement = mca_AutoIncrement a \<rparr>) (mcol_Attributes schemaColumn),
                     col_IsArray = False, col_Charset = mcol_Charset schemaColumn,
                     col_Collation = mcol_Collation schemaColumn, col_IsStatic = False \<rparr>;
          requestedType = my_unalias_requested (mcol_Type schemaColumn)
      in if \<not> my_isParameterizedColumnType requestedType
         then Inr (column \<lparr> col_DataType := requestedType \<rparr>)
         else bindE (my_maybeParseParameterizedColumnType requestedType) (\<lambda>columnType.
           if columnType \<noteq> [] then Inr (column \<lparr> col_DataType := columnType \<rparr>)
           else Inl (ErrNew (''unknown column type. cannot validate column type '' @ Quote (mcol_Type schemaColumn)))))"

definition auto_increment_of :: "Column \<Rightarrow> bool option" where
  "auto_increment_of col = (case col_Attributes col of None \<Rightarrow> None | Some a \<Rightarrow> ca_AutoIncrement a)"

text \<open>The clause for the nullability, or nothing where it is not given.\<close>

definition null_clause :: "bool option \<Rightarrow> string list" where
  "null_clause notNull =
     (case notNull of None \<Rightarrow> [] | Some True \<Rightarrow> [''not null''] | Some False \<Rightarrow> [''null''])"

definition mysqlColumnAsInsert :: "MysqlTableColumn \<Rightarrow> string result" where
  "mysqlColumnAsInsert column =
     bindE (my_schemaColumnToColumn column) (\<lambda>mysqlColumn.
       let formatted = ticked (mcol_Name column) @ '' '' @ col_DataType mysqlColumn;
           formatted = (if col_Charset mysqlColumn \<noteq> [] then formatted @ '' character set '' @ col_Charset mysqlColumn
                        else formatted);
           formatted = (if col_Collation mysqlColumn \<noteq> [] then formatted @ '' collate '' @ col_Collation mysqlColumn
                        else formatted);
           formatted = (case not_null_of mysqlColumn of
                          None \<Rightarrow> formatted
                        | Some True \<Rightarrow> formatted @ '' not null''
                        | Some False \<Rightarrow> formatted @ '' null'');
           formatted = (if auto_increment_of mysqlColumn = Some True then formatted @ '' auto_increment'' else formatted)
       in Inr (case col_ColumnDefault mysqlColumn of
                 None \<Rightarrow> formatted
               | Some d \<Rightarrow>
                   if (col_DataType mysqlColumn = ''datetime'' \<or> col_DataType mysqlColumn = ''timestamp'') \<and>
                      d = ''CURRENT_TIMESTAMP''
                   then formatted @ '' default '' @ d
                   else formatted @ '' default '' @ [squote] @ d @ [squote]))"

definition my_InsertColumnStatement :: "string \<Rightarrow> MysqlTableColumn \<Rightarrow> string result" where
  "my_InsertColumnStatement tableName desiredColumn =
     bindE (mysqlColumnAsInsert desiredColumn) (\<lambda>columnFields.
       Inr (''alter table '' @ ticked tableName @ '' add column '' @ columnFields))"

section \<open>Statements that alter a table (alter_statements.go)\<close>

record AlterModifyColumnStatement =
  amc_TableName :: string
  amc_ExistingColumn :: Column
  amc_Column :: Column

text \<open>The charset and collation clause, when either differs from the existing column and is given.\<close>

definition charset_clause :: "Column \<Rightarrow> Column \<Rightarrow> string list" where
  "charset_clause existing column =
     (if col_Charset column \<noteq> col_Charset existing \<or> col_Collation column \<noteq> col_Collation existing then
        (let stmt = (if col_Charset column \<noteq> [] then ''character set '' @ col_Charset column else []);
             stmt = (if col_Collation column \<noteq> []
                     then (if stmt \<noteq> [] then stmt @ '' '' else stmt) @ ''collate '' @ col_Collation column
                     else stmt)
         in if stmt \<noteq> [] then [stmt] else [])
      else [])"

definition AlterModifyColumnStatement_ddl :: "AlterModifyColumnStatement \<Rightarrow> bool \<Rightarrow> string list" where
  "AlterModifyColumnStatement_ddl s useConstraintsFromExistingColumn =
     (let column = amc_Column s; existing = amc_ExistingColumn s
      in [Join ([''alter table '' @ ticked (amc_TableName s) @ '' modify column '' @ ticked (col_Name column) @ '' '' @
                 col_DataType column] @
                charset_clause existing column @
                null_clause (not_null_of (if useConstraintsFromExistingColumn then existing else column)) @
                (if auto_increment_of column = Some True then [''auto_increment''] else []) @
                (case col_ColumnDefault column of
                   None \<Rightarrow> []
                 | Some d \<Rightarrow> [''default '' @ [dquote] @ d @ [dquote]])) '' ''])"

definition AlterModifyColumnStatement_ddlWithNotNull :: "AlterModifyColumnStatement \<Rightarrow> string list" where
  "AlterModifyColumnStatement_ddlWithNotNull s =
     (case col_ColumnDefault (amc_Column s) of
        None \<Rightarrow> []
      | Some d \<Rightarrow>
          (if col_ColumnDefault (amc_ExistingColumn s) = None \<or> the (col_ColumnDefault (amc_ExistingColumn s)) \<noteq> d
           then AlterModifyColumnStatement_ddl s True else []) @
          [''update '' @ ticked (amc_TableName s) @ '' set '' @ ticked (col_Name (amc_Column s)) @ ''='' @ Quote d @
           '' where '' @ ticked (col_Name (amc_Column s)) @ '' is null'']) @
     AlterModifyColumnStatement_ddl s False"

definition AlterModifyColumnStatement_DDL :: "AlterModifyColumnStatement \<Rightarrow> string list" where
  "AlterModifyColumnStatement_DDL s =
     (let isAddingNotNull =
            (not_null_of (amc_Column s) = Some True \<and> not_null_of (amc_ExistingColumn s) \<noteq> Some True)
      in if isAddingNotNull then AlterModifyColumnStatement_ddlWithNotNull s
         else AlterModifyColumnStatement_ddl s False)"

definition AlterDropColumnStatement_DDL :: "string \<Rightarrow> string \<Rightarrow> string list" where
  "AlterDropColumnStatement_DDL tableName columnName =
     [''alter table '' @ ticked tableName @ '' drop column '' @ ticked columnName]"

definition AlterRemoveConstrantStatement_String :: "string \<Rightarrow> KeyConstraint \<Rightarrow> string" where
  "AlterRemoveConstrantStatement_String tableName constraint =
     (if kc_IsPrimary constraint then ''alter table '' @ ticked tableName @ '' drop primary key''
      else ''alter table '' @ ticked tableName @ '' drop index '' @ ticked (kc_Name constraint))"

definition AlterAddConstrantStatement_String :: "string \<Rightarrow> KeyConstraint \<Rightarrow> string" where
  "AlterAddConstrantStatement_String tableName constraint =
     Join ([''alter table '' @ ticked tableName @ '' add constraint '' @
            ticked (KeyConstraint_GenerateName constraint tableName)] @
           (if kc_IsPrimary constraint then [''primary key''] else []) @
           [''(`'' @ Join (kc_Columns constraint) ''`, `'' @ ''`)'']) '' ''"

section \<open>Altering a column (alter.go)\<close>

definition ensureColumnConstraintsNotNullTrue :: "Column \<Rightarrow> Column" where
  "ensureColumnConstraintsNotNullTrue column = column \<lparr> col_Constraints := Some \<lparr> cc_NotNull = Some True \<rparr> \<rparr>"

definition my_columnsMatch :: "Column \<Rightarrow> Column \<Rightarrow> string \<Rightarrow> string \<Rightarrow> bool" where
  "my_columnsMatch existingCol specCol defaultCharset defaultCollation =
     (if col_DataType existingCol \<noteq> col_DataType specCol then False
      else
        (let existingCharset = (if col_Charset existingCol = [] then defaultCharset else col_Charset existingCol);
             specCharset = (if col_Charset specCol = [] then defaultCharset else col_Charset specCol);
             existingCollation = (if col_Collation existingCol = [] then defaultCollation else col_Collation existingCol)
         in if existingCharset \<noteq> specCharset then False
            else if col_Collation specCol \<noteq> [] \<and> existingCollation \<noteq> col_Collation specCol then False
            else if col_ColumnDefault existingCol \<noteq> col_ColumnDefault specCol then False
            else if \<not> BoolsEqual (not_null_of existingCol) (not_null_of specCol) then False
            else if \<not> BoolsEqual (auto_increment_of existingCol) (auto_increment_of specCol) then False
            else True))"

definition my_alter_matched_column ::
  "string \<Rightarrow> string list \<Rightarrow> Column \<Rightarrow> string \<Rightarrow> string \<Rightarrow> Column \<Rightarrow> string list" where
  "my_alter_matched_column tableName primaryKeys existingColumn defaultCharset defaultCollation column =
     (let isPrimaryKey = list_ex (\<lambda>primaryKey. col_Name column = primaryKey) primaryKeys;
          column = (if isPrimaryKey then ensureColumnConstraintsNotNullTrue column else column)
      in if my_columnsMatch existingColumn column defaultCharset defaultCollation then []
         else AlterModifyColumnStatement_DDL
                \<lparr> amc_TableName = tableName, amc_ExistingColumn = existingColumn, amc_Column = column \<rparr>)"

fun my_AlterColumnStatements ::
  "string \<Rightarrow> string list \<Rightarrow> MysqlTableColumn list \<Rightarrow> Column \<Rightarrow> string \<Rightarrow> string \<Rightarrow> string list result" where
  "my_AlterColumnStatements tableName primaryKeys [] existingColumn defaultCharset defaultCollation =
     Inr (AlterDropColumnStatement_DDL tableName (col_Name existingColumn))"
| "my_AlterColumnStatements tableName primaryKeys (desiredColumn # rest) existingColumn defaultCharset defaultCollation =
     (if mcol_Name desiredColumn = col_Name existingColumn then
        bindE (my_schemaColumnToColumn desiredColumn) (\<lambda>column.
          Inr (my_alter_matched_column tableName primaryKeys existingColumn defaultCharset defaultCollation column))
      else my_AlterColumnStatements tableName primaryKeys rest existingColumn defaultCharset defaultCollation)"

end
