(* ===== verification/My_Plan.thy ===== *)
theory My_Plan
  imports My_Column Named_Diff
begin

text \<open>
  The MySQL plugin: its statement renderers (src/plugins/mysql/lib/create.go, foreignkey.go,
  index.go), the reading of a catalog (tables.go, connection.go), the planner and the execution of
  statements (deploy.go) and the entry points of a connection (connection.go).

  The server is a parameter. A value of \<open>MyServer\<close> answers each query of the source as a function of
  its bind arguments, as in the theory \<open>Pg_Introspect\<close>.
\<close>

section \<open>Seed data and new tables (create.go)\<close>

definition multiline_literal :: "string \<Rightarrow> string" where
  "multiline_literal str =
     Join (''CONCAT_WS(CHAR(10 using utf8)'' # map (\<lambda>s. [squote] @ s @ [squote]) (SplitByte str newline)) '', '' @ '')''"

definition my_seed_value :: "SeedDataValue \<Rightarrow> string" where
  "my_seed_value v =
     (case sdv_Int v of
        Some i \<Rightarrow> Itoa i
      | None \<Rightarrow>
          (case sdv_Str v of
             Some str \<Rightarrow>
               if Contains str [newline] then multiline_literal str else [squote] @ str @ [squote]
           | None \<Rightarrow> [squote, squote]))"

definition my_seed_row :: "string \<Rightarrow> SeedDataRow \<Rightarrow> string" where
  "my_seed_row tableName row =
     (let cols = map sdc_Column row;
          vals = map (\<lambda>col. my_seed_value (sdc_Value col)) row;
          updateVals = map (\<lambda>col. sdc_Column col @ ''='' @ my_seed_value (sdc_Value col)) row
      in ''insert into '' @ tableName @ '' ('' @ Join cols '', '' @ '') values ('' @ Join vals '', '' @
         '') on duplicate key update '' @ Join updateVals '', '')"

definition my_SeedDataStatements :: "string \<Rightarrow> SeedData \<Rightarrow> string list" where
  "my_SeedDataStatements tableName seedData = map (my_seed_row tableName) seedData"

section \<open>Foreign keys and indexes (foreignkey.go, index.go)\<close>

definition my_RemoveForeignKeyStatement :: "string \<Rightarrow> ForeignKey \<Rightarrow> string" where
  "my_RemoveForeignKeyStatement tableName foreignKey =
     ''alter table '' @ tableName @ '' drop constraint '' @ fk_Name foreignKey"

definition my_foreignKeyConstraintClause :: "string \<Rightarrow> MysqlTableForeignKey \<Rightarrow> string" where
  "my_foreignKeyConstraintClause tableName fk =
     (let onDelete = (if mfk_OnDelete fk \<noteq> [] then '' on delete '' @ mfk_OnDelete fk else [])
      in ''constraint '' @ GenerateMysqlFKName tableName fk @ '' foreign key ('' @ Join (mfk_Columns fk) '', '' @
         '') references '' @ mfr_Table (mfk_References fk) @ '' ('' @ Join (mfr_Columns (mfk_References fk)) '', '' @
         '')'' @ onDelete)"

definition my_AddForeignKeyStatement :: "string \<Rightarrow> MysqlTableForeignKey \<Rightarrow> string" where
  "my_AddForeignKeyStatement tableName fk =
     ''alter table '' @ tableName @ '' add '' @ my_foreignKeyConstraintClause tableName fk"

definition my_RemoveIndexStatement :: "string \<Rightarrow> Index \<Rightarrow> string" where
  "my_RemoveIndexStatement tableName index =
     ''alter table '' @ ticked tableName @ '' drop index '' @ ticked (ix_Name index)"

definition my_index_name :: "string \<Rightarrow> MysqlTableIndex \<Rightarrow> string" where
  "my_index_name tableName index =
     (if mix_Name index = [] then GenerateMysqlIndexName tableName index else mix_Name index)"

definition my_AddIndexStatement :: "string \<Rightarrow> MysqlTableIndex \<Rightarrow> string" where
  "my_AddIndexStatement tableName index =
     ''create '' @ (if mix_IsUnique index then ''unique '' else []) @ ''index '' @ my_index_name tableName index @
     '' on '' @ tableName @ '' ('' @ Join (mix_Columns index) '', '' @ '')''"

definition my_RenameIndexStatement :: "string \<Rightarrow> Index \<Rightarrow> MysqlTableIndex \<Rightarrow> string" where
  "my_RenameIndexStatement tableName index schemaIndex =
     ''alter index '' @ ix_Name index @ '' rename to '' @ mix_Name schemaIndex"

definition indexClause :: "string \<Rightarrow> MysqlTableIndex \<Rightarrow> string" where
  "indexClause tableName index =
     (if mix_IsUnique index then ''unique '' else []) @ ''key '' @ my_index_name tableName index @
     '' ('' @ Join (mix_Columns index) '', '' @ '')''"

definition my_CreateTableStatements :: "string \<Rightarrow> MysqlTableSchema \<Rightarrow> string list result" where
  "my_CreateTableStatements tableName schema =
     bindE (mapE mysqlColumnAsInsert (mts_Columns schema)) (\<lambda>columns.
       let columns = columns @
             (if mts_PrimaryKey schema \<noteq> []
              then [''primary key ('' @ Join (map ticked (mts_PrimaryKey schema)) '', '' @ '')''] else []) @
             map (my_foreignKeyConstraintClause tableName) (mts_ForeignKeys schema) @
             map (indexClause tableName) (mts_Indexes schema);
           query = ''create table '' @ ticked tableName @ '' ('' @ Join columns '', '' @ '')'';
           query = (if mts_DefaultCharset schema \<noteq> [] then query @ '' default character set '' @ mts_DefaultCharset schema
                    else query);
           query = (if mts_Collation schema \<noteq> [] then query @ '' collate '' @ mts_Collation schema else query)
       in Inr [query])"

section \<open>Rows and the server\<close>

record MyForeignKeyRow =
  mfkr_ChildColumn :: string
  mfkr_Name :: string
  mfkr_ParentTable :: string
  mfkr_ParentColumn :: string
  mfkr_DeleteRule :: string

record MySchemaColumnRow =
  mysr_Name :: string
  mysr_ColumnDefault :: "string option"
  mysr_IsNullable :: string
  mysr_Extra :: string
  mysr_DataType :: string
  mysr_MaxLength :: "int option"
  mysr_NumericPrecision :: "int option"
  mysr_NumericScale :: "int option"

record MyColumnRow =
  mycr_Name :: string
  mycr_ColumnDefault :: "string option"
  mycr_IsNullable :: string
  mycr_Extra :: string
  mycr_DataType :: string
  mycr_CharMaxLength :: "int option"
  mycr_Charset :: "string option"
  mycr_Collation :: "string option"

record MyServer =
  mys_ping :: "unit result"
  mys_schema_defaults :: "string \<Rightarrow> (string \<times> string) result"
  mys_tables :: "string \<Rightarrow> (string \<times> string \<times> string) rows"
  mys_table_count :: "string \<Rightarrow> string \<Rightarrow> int result"
  mys_table_charset :: "string \<Rightarrow> string \<Rightarrow> (string option \<times> string option) result"
  mys_collation_charset :: "string \<Rightarrow> string result"
  mys_indexes :: "string \<Rightarrow> string \<Rightarrow> (string \<times> bool \<times> string) rows"
  mys_foreign_keys :: "string \<Rightarrow> string \<Rightarrow> MyForeignKeyRow rows"
  mys_primary_key :: "string \<Rightarrow> string \<Rightarrow> (string \<times> string \<times> string) rows"
  mys_columns :: "string \<Rightarrow> string \<Rightarrow> MySchemaColumnRow rows"
  mys_column_details :: "string \<Rightarrow> string \<Rightarrow> MyColumnRow rows"

section \<open>Connections (connection.go)\<close>

record MysqlConnection =
  mc_db :: MyServer
  mc_databaseName :: string
  mc_engineVersion :: string
  mc_uri :: string

text \<open>What is used of the driver: \<^verbatim>\<open>sql.Open\<close> and \<^verbatim>\<open>mysqldriver.ParseDSN\<close>.\<close>

record DSNConfig =
  cfg_User :: string
  cfg_Passwd :: string
  cfg_Addr :: string
  cfg_DBName :: string

record MyEnv =
  mye_open :: "string \<Rightarrow> MyServer result"
  mye_ParseDSN :: "string \<Rightarrow> DSNConfig result"

definition my_parse_dsn :: "MyEnv \<Rightarrow> string \<Rightarrow> DSNConfig result" where
  "my_parse_dsn env uri = wrapE ''failed to parse database uri'' (mye_ParseDSN env uri)"

definition my_DatabaseNameFromURI :: "MyEnv \<Rightarrow> string \<Rightarrow> string result" where
  "my_DatabaseNameFromURI env uri = bindE (my_parse_dsn env uri) (\<lambda>cfg. Inr (cfg_DBName cfg))"

definition UsernameFromURI :: "MyEnv \<Rightarrow> string \<Rightarrow> string result" where
  "UsernameFromURI env uri = bindE (my_parse_dsn env uri) (\<lambda>cfg. Inr (cfg_User cfg))"

definition PasswordFromURI :: "MyEnv \<Rightarrow> string \<Rightarrow> string result" where
  "PasswordFromURI env uri = bindE (my_parse_dsn env uri) (\<lambda>cfg. Inr (cfg_Passwd cfg))"

definition HostnameFromURI :: "MyEnv \<Rightarrow> string \<Rightarrow> string result" where
  "HostnameFromURI env uri = bindE (my_parse_dsn env uri) (\<lambda>cfg. Inr (hd (SplitByte (cfg_Addr cfg) (CHR '':''))))"

definition PortFromURI :: "MyEnv \<Rightarrow> string \<Rightarrow> string result" where
  "PortFromURI env uri =
     bindE (my_parse_dsn env uri) (\<lambda>cfg.
       let addrAndPort = SplitByte (cfg_Addr cfg) (CHR '':'')
       in Inr (if length addrAndPort > 1 then addrAndPort ! 1 else ''3306''))"

definition my_Connect :: "MyEnv \<Rightarrow> string \<Rightarrow> MysqlConnection result" where
  "my_Connect env uri =
     bindE (mye_open env uri) (\<lambda>db.
     bindE (mys_ping db) (\<lambda>_.
     bindE (my_DatabaseNameFromURI env uri) (\<lambda>databaseName.
       Inr \<lparr> mc_db = db, mc_databaseName = databaseName, mc_engineVersion = [], mc_uri = uri \<rparr>)))"

section \<open>Listing catalog objects (tables.go)\<close>

definition my_ListTables :: "MysqlConnection \<Rightarrow> Table list result" where
  "my_ListTables m =
     bindE (wrapE ''failed to select database default charset and collection''
              (mys_schema_defaults (mc_db m) (mc_databaseName m))) (\<lambda>(defaultCharset, defaultCollation).
       query_rows ''failed to query tables'' (\<lambda>e. e)
         (\<lambda>(tableName, tableCollation, tableCharset).
            \<lparr> tb_Name = tableName, tb_Schema = [],
              tb_Charset = (if tableCharset \<noteq> defaultCharset then tableCharset else []),
              tb_Collation = (if tableCollation \<noteq> defaultCollation then tableCollation else []) \<rparr>)
         (mys_tables (mc_db m) (mc_databaseName m)))"

definition my_index_of_row :: "string \<times> bool \<times> string \<Rightarrow> Index" where
  "my_index_of_row r =
     (case r of (name, nonUnique, columns) \<Rightarrow>
        \<lparr> ix_Columns = SplitByte columns (CHR '',''), ix_Name = name, ix_IsUnique = (\<not> nonUnique), ix_With = [],
          ix_Type = [], ix_Where = [], ix_Expressions = [], ix_SortedColumns = [] \<rparr>)"

definition my_ListTableIndexes :: "MysqlConnection \<Rightarrow> string \<Rightarrow> string \<Rightarrow> Index list result" where
  "my_ListTableIndexes m databaseName tableName =
     query_rows ''failed to query indexes'' (\<lambda>e. e) my_index_of_row (mys_indexes (mc_db m) tableName databaseName)"

text \<open>A further row of a composite key, as in the PostgreSQL plugin: the found key gets its column twice.\<close>

fun my_add_foreign_key_row :: "ForeignKey list \<Rightarrow> MyForeignKeyRow \<Rightarrow> ForeignKey list" where
  "my_add_foreign_key_row [] row =
     [\<lparr> fk_ChildColumns = [mfkr_ChildColumn row], fk_ParentTable = mfkr_ParentTable row,
        fk_ParentColumns = [mfkr_ParentColumn row], fk_Name = mfkr_Name row, fk_OnDelete = mfkr_DeleteRule row \<rparr>]"
| "my_add_foreign_key_row (foundFk # rest) row =
     (if fk_Name foundFk = mfkr_Name row
      then foundFk \<lparr> fk_ChildColumns := [mfkr_ChildColumn row] @ [mfkr_ChildColumn row],
                     fk_ParentColumns := [mfkr_ParentColumn row] @ [mfkr_ParentColumn row] \<rparr> # rest
      else foundFk # my_add_foreign_key_row rest row)"

definition my_ListTableForeignKeys :: "MysqlConnection \<Rightarrow> string \<Rightarrow> string \<Rightarrow> ForeignKey list result" where
  "my_ListTableForeignKeys m databaseName tableName =
     bindE (query_rows ''failed to query foreign keys'' (\<lambda>e. e) (\<lambda>row. row)
              (mys_foreign_keys (mc_db m) tableName databaseName))
       (\<lambda>rows. Inr (foldl my_add_foreign_key_row [] rows))"

definition my_GetTablePrimaryKey :: "MysqlConnection \<Rightarrow> string \<Rightarrow> KeyConstraint option result" where
  "my_GetTablePrimaryKey m tableName =
     bindE (query_rows ''failed to query primary keys'' (wrap_error ''failed to scan row'') (\<lambda>row. row)
              (mys_primary_key (mc_db m) tableName (mc_databaseName m)))
       (\<lambda>rows.
          if rows = [] then Inr None
          else Inr (Some \<lparr> kc_Name = fst (last rows), kc_Columns = map (\<lambda>(_, column, _). column) rows,
                           kc_IsPrimary = True \<rparr>))"

definition ignore_max_length :: "string \<Rightarrow> bool" where
  "ignore_max_length dataType =
     (dataType = ''text'' \<or> dataType = ''tinytext'' \<or> dataType = ''mediumtext'' \<or> dataType = ''longtext'' \<or>
      dataType = ''blob'' \<or> dataType = ''tinyblob'' \<or> dataType = ''mediumblob'' \<or> dataType = ''longblob'')"

definition my_column_of_schema_row :: "MySchemaColumnRow \<Rightarrow> Column" where
  "my_column_of_schema_row r =
     (let dataType = (if \<not> ignore_max_length (mysr_DataType r)
                      then with_max_length (mysr_DataType r) (mysr_MaxLength r) else mysr_DataType r);
          dataType = (case (mysr_NumericPrecision r, mysr_NumericScale r) of
                        (Some p, Some s) \<Rightarrow> dataType @ '' ('' @ Itoa p @ '', '' @ Itoa s @ '')''
                      | _ \<Rightarrow> dataType)
      in \<lparr> col_Name = mysr_Name r, col_DataType = dataType, col_ColumnDefault = mysr_ColumnDefault r,
           col_Constraints = Some \<lparr> cc_NotNull = Some (mysr_IsNullable r = ''NO'') \<rparr>,
           col_Attributes = Some \<lparr> ca_AutoIncrement = Some (Contains (mysr_Extra r) ''auto_increment'') \<rparr>,
           col_IsArray = False, col_Charset = [], col_Collation = [], col_IsStatic = False \<rparr>)"

definition my_GetTableSchema :: "MysqlConnection \<Rightarrow> string \<Rightarrow> Column list result" where
  "my_GetTableSchema m tableName =
     query_rows ''failed to query table schema'' (\<lambda>e. e) my_column_of_schema_row
       (mys_columns (mc_db m) tableName (mc_databaseName m))"

section \<open>Charset and collation of a table (deploy.go)\<close>

text \<open>A column of a row that is NULL cannot be scanned into a string.\<close>

definition scan_string :: "string option \<Rightarrow> string result" where
  "scan_string v = (case v of Some s \<Rightarrow> Inr s | None \<Rightarrow> Inl (ErrNew ''converting NULL to string is unsupported''))"

text \<open>
  The desired charset and collation after the defaults are filled in, or \<^const>\<open>None\<close> where the
  source returns without a statement. The source stores them in the schema.
\<close>

definition desired_charset ::
  "MysqlConnection \<Rightarrow> MysqlTableSchema \<Rightarrow> string \<Rightarrow> string \<Rightarrow> string \<Rightarrow> string \<Rightarrow> MysqlTableSchema option result" where
  "desired_charset m schema existingTableCollation existingTableCharset databaseCollation databaseCharset =
     (if mts_Collation schema = [] \<and> mts_DefaultCharset schema = [] \<and>
         existingTableCollation = databaseCollation \<and> existingTableCharset = databaseCharset then Inr None
      else if mts_Collation schema = [] then
        (if mts_DefaultCharset schema = existingTableCharset then Inr None
         else if mts_DefaultCharset schema = []
         then Inr (Some (schema \<lparr> mts_Collation := databaseCollation, mts_DefaultCharset := databaseCharset \<rparr>))
         else Inr (Some schema))
      else if mts_DefaultCharset schema = [] then
        bindE (wrapE (''failed to read charset for collation '' @ mts_Collation schema)
                 (mys_collation_charset (mc_db m) (mts_Collation schema))) (\<lambda>collationCharset.
          Inr (Some (schema \<lparr> mts_DefaultCharset := collationCharset \<rparr>)))
      else Inr (Some schema))"

definition convert_statements :: "string \<Rightarrow> string \<Rightarrow> string \<Rightarrow> string \<Rightarrow> MysqlTableSchema \<Rightarrow> string list" where
  "convert_statements tableName existingTableCollation existingTableCharset databaseCharset schema =
     (let charsetMatches =
            (mts_DefaultCharset schema = existingTableCharset \<or>
             mts_DefaultCharset schema = [] \<and> existingTableCharset = databaseCharset);
          collationMatches = (mts_Collation schema = existingTableCollation)
      in if charsetMatches \<and> collationMatches then []
         else if mts_Collation schema = []
         then [''alter table '' @ tableName @ '' convert to character set '' @ mts_DefaultCharset schema]
         else [''alter table '' @ tableName @ '' convert to character set '' @ mts_DefaultCharset schema @
               '' collate '' @ mts_Collation schema])"

definition buildTableCharsetAndCollationStatements ::
  "MysqlConnection \<Rightarrow> string \<Rightarrow> MysqlTableSchema \<Rightarrow> (string list \<times> MysqlTableSchema) result" where
  "buildTableCharsetAndCollationStatements m tableName schema =
     bindE (wrapE ''failed to read existing table charset and collate''
              (bindE (mys_table_charset (mc_db m) (mc_databaseName m) tableName) (\<lambda>(collation, charset).
               bindE (scan_string collation) (\<lambda>collation.
               bindE (scan_string charset) (\<lambda>charset. Inr (collation, charset))))))
       (\<lambda>(existingTableCollation, existingTableCharset).
     bindE (wrapE ''failed to read existing database charset and collate''
              (mys_schema_defaults (mc_db m) (mc_databaseName m))) (\<lambda>(databaseCharset, databaseCollation).
     bindE (desired_charset m schema existingTableCollation existingTableCharset databaseCollation databaseCharset)
       (\<lambda>desired.
          Inr (case desired of
                 None \<Rightarrow> ([], schema)
               | Some schema \<Rightarrow>
                   (convert_statements tableName existingTableCollation existingTableCharset databaseCharset schema,
                    schema)))))"

definition getDefaultCharsetAndCollationForTable :: "MysqlConnection \<Rightarrow> string \<Rightarrow> (string \<times> string) result" where
  "getDefaultCharsetAndCollationForTable m tableName =
     bindE (wrapE ''scan default charset and collation'' (mys_schema_defaults (mc_db m) (mc_databaseName m)))
       (\<lambda>(defaultCharset, defaultCollation).
     bindE (wrapE ''scan table charset and collation'' (mys_table_charset (mc_db m) (mc_databaseName m) tableName))
       (\<lambda>(tableCollation, tableCharset).
          Inr (case tableCharset of Some c \<Rightarrow> c | None \<Rightarrow> defaultCharset,
               case tableCollation of Some c \<Rightarrow> c | None \<Rightarrow> defaultCollation)))"

section \<open>Columns and keys (deploy.go)\<close>

definition my_catalog_type :: "string \<Rightarrow> int option \<Rightarrow> string result" where
  "my_catalog_type dataType charMaxLength =
     (if my_isParameterizedColumnType dataType
      then wrapE ''failed to parse parameterized column type'' (my_maybeParseParameterizedColumnType dataType)
      else if \<not> ignore_max_length dataType then Inr (with_max_length dataType charMaxLength)
      else Inr dataType)"

definition my_column_of_row :: "MyColumnRow \<Rightarrow> Column result" where
  "my_column_of_row r =
     bindE (my_catalog_type (mycr_DataType r) (mycr_CharMaxLength r)) (\<lambda>dataType.
       Inr \<lparr> col_Name = mycr_Name r, col_DataType = dataType, col_ColumnDefault = mycr_ColumnDefault r,
             col_Constraints = Some \<lparr> cc_NotNull = Some (mycr_IsNullable r = ''NO'') \<rparr>,
             col_Attributes = Some \<lparr> ca_AutoIncrement = Some (Contains (mycr_Extra r) ''auto_increment'') \<rparr>,
             col_IsArray = False,
             col_Charset = (case mycr_Charset r of Some c \<Rightarrow> c | None \<Rightarrow> []),
             col_Collation = (case mycr_Collation r of Some c \<Rightarrow> c | None \<Rightarrow> []), col_IsStatic = False \<rparr>)"

definition buildColumnStatements :: "MysqlConnection \<Rightarrow> string \<Rightarrow> MysqlTableSchema \<Rightarrow> string list result" where
  "buildColumnStatements m tableName schema =
     bindE (wrapE ''get default charset and collation'' (getDefaultCharsetAndCollationForTable m tableName))
       (\<lambda>(defaultCharset, defaultCollation).
     bindE (wrapE ''failed to query from information_schema'' (mys_column_details (mc_db m) (mc_databaseName m) tableName))
       (\<lambda>rows.
     bindE (mapE (\<lambda>row.
              bindE (wrapE ''failed to scan'' row) (\<lambda>r.
              bindE (my_column_of_row r) (\<lambda>existingColumn.
              bindE (wrapE ''failed to create alter column statement''
                       (my_AlterColumnStatements tableName (mts_PrimaryKey schema) (mts_Columns schema) existingColumn
                          defaultCharset defaultCollation))
                (\<lambda>stmts. Inr (mycr_Name r, stmts))))) rows) (\<lambda>altered.
     let foundColumnNames = map fst altered
     in bindE (mapE (\<lambda>desiredColumn.
                 wrapE ''failed to create insert column statement'' (my_InsertColumnStatement tableName desiredColumn))
               (filter (\<lambda>desiredColumn. \<not> list_ex (\<lambda>found. found = mcol_Name desiredColumn) foundColumnNames)
                  (mts_Columns schema)))
          (\<lambda>inserts. Inr (concat (map snd altered) @ inserts)))))"

definition my_desired_key :: "MysqlTableSchema \<Rightarrow> KeyConstraint option" where
  "my_desired_key schema =
     (if mts_PrimaryKey schema \<noteq> []
      then Some \<lparr> kc_Name = [], kc_Columns = mts_PrimaryKey schema, kc_IsPrimary = True \<rparr> else None)"

definition buildRemovePrimaryKeyStatements :: "MysqlConnection \<Rightarrow> string \<Rightarrow> MysqlTableSchema \<Rightarrow> string list result" where
  "buildRemovePrimaryKeyStatements m tableName schema =
     bindE (my_GetTablePrimaryKey m tableName) (\<lambda>currentPrimaryKey.
       if KeyConstraint_Equals (my_desired_key schema) currentPrimaryKey then Inr []
       else Inr (case currentPrimaryKey of
                   None \<Rightarrow> []
                 | Some k \<Rightarrow> [AlterRemoveConstrantStatement_String tableName k]))"

definition buildAddPrimaryKeyStatements :: "MysqlConnection \<Rightarrow> string \<Rightarrow> MysqlTableSchema \<Rightarrow> string list result" where
  "buildAddPrimaryKeyStatements m tableName schema =
     bindE (my_GetTablePrimaryKey m tableName) (\<lambda>currentPrimaryKey.
       if KeyConstraint_Equals (my_desired_key schema) currentPrimaryKey then Inr []
       else Inr (case my_desired_key schema of
                   None \<Rightarrow> []
                 | Some k \<Rightarrow> [AlterAddConstrantStatement_String tableName k]))"

section \<open>Foreign keys and indexes (deploy.go)\<close>

text \<open>
  One desired key. As in the PostgreSQL plugin, the key that is dropped when no current one is
  equal is the last current key, whatever it is; here no record is kept of what was dropped.
\<close>

definition my_desired_fk_statements :: "string \<Rightarrow> ForeignKey list \<Rightarrow> MysqlTableForeignKey \<Rightarrow> string list" where
  "my_desired_fk_statements tableName currentForeignKeys foreignKey =
     (if list_ex (\<lambda>current. ForeignKey_Equals current (MysqlSchemaForeignKeyToForeignKey foreignKey)) currentForeignKeys
      then []
      else (if currentForeignKeys \<noteq> [] then [my_RemoveForeignKeyStatement tableName (last currentForeignKeys)] else []) @
           [my_AddForeignKeyStatement tableName foreignKey])"

definition buildForeignKeyStatements :: "MysqlConnection \<Rightarrow> string \<Rightarrow> MysqlTableSchema \<Rightarrow> string list result" where
  "buildForeignKeyStatements m tableName schema =
     bindE (my_ListTableForeignKeys m (mc_databaseName m) tableName) (\<lambda>currentForeignKeys.
       let removed = filter (\<lambda>current.
             \<not> list_ex (\<lambda>foreignKey. ForeignKey_Equals current (MysqlSchemaForeignKeyToForeignKey foreignKey))
                 (mts_ForeignKeys schema)) currentForeignKeys
       in Inr (concat (map (my_desired_fk_statements tableName currentForeignKeys) (mts_ForeignKeys schema)) @
               map (my_RemoveForeignKeyStatement tableName) removed))"

text \<open>
  The loop over the current indexes stores a generated name in each desired index that has none;
  without a current index the schema stays as it is. \<open>buildAddIndexStatements\<close> sees the stored names.
\<close>

definition my_name_index :: "string \<Rightarrow> MysqlTableIndex \<Rightarrow> MysqlTableIndex" where
  "my_name_index tableName index = index \<lparr> mix_Name := my_index_name tableName index \<rparr>"

definition buildRemoveIndexStatements ::
  "MysqlConnection \<Rightarrow> string \<Rightarrow> MysqlTableSchema \<Rightarrow> (string list \<times> MysqlTableSchema) result" where
  "buildRemoveIndexStatements m tableName schema =
     bindE (my_ListTableIndexes m (mc_databaseName m) tableName) (\<lambda>currentIndexes.
       let schema = (if currentIndexes = [] then schema
                     else schema \<lparr> mts_Indexes := map (my_name_index tableName) (mts_Indexes schema) \<rparr>);
           removed = filter (\<lambda>currentIndex.
             \<not> list_ex (\<lambda>desiredIndex. Index_Equals currentIndex (MysqlSchemaIndexToIndex desiredIndex))
                 (mts_Indexes schema)) currentIndexes
       in Inr (map (my_RemoveIndexStatement tableName) removed, schema))"

definition buildAddIndexStatements :: "MysqlConnection \<Rightarrow> string \<Rightarrow> MysqlTableSchema \<Rightarrow> string list result" where
  "buildAddIndexStatements m tableName schema =
     bindE (my_ListTableIndexes m (mc_databaseName m) tableName) (\<lambda>currentIndexes.
       let added = filter (\<lambda>desiredIndex.
             \<not> list_ex (\<lambda>currentIndex. Index_Equals currentIndex (MysqlSchemaIndexToIndex desiredIndex))
                 currentIndexes) (mts_Indexes schema)
       in Inr (map (my_AddIndexStatement tableName) added))"

section \<open>Plans (deploy.go)\<close>

definition my_alter_table_statements :: "MysqlConnection \<Rightarrow> string \<Rightarrow> MysqlTableSchema \<Rightarrow> string list result" where
  "my_alter_table_statements m tableName schema =
     bindE (wrapE ''failed to build table charset and collation statements''
              (buildTableCharsetAndCollationStatements m tableName schema)) (\<lambda>(s1, schema).
     bindE (wrapE ''failed to build remove primary key statements''
              (buildRemovePrimaryKeyStatements m tableName schema)) (\<lambda>s2.
     bindE (wrapE ''failed to build remove index statements''
              (buildRemoveIndexStatements m tableName schema)) (\<lambda>(s3, schema).
     bindE (wrapE ''failed to build column statements'' (buildColumnStatements m tableName schema)) (\<lambda>s4.
     bindE (wrapE ''failed to build add primary key statements''
              (buildAddPrimaryKeyStatements m tableName schema)) (\<lambda>s5.
     bindE (wrapE ''failed to build foreign key statements'' (buildForeignKeyStatements m tableName schema)) (\<lambda>s6.
     bindE (wrapE ''failed to build add index statements'' (buildAddIndexStatements m tableName schema)) (\<lambda>s7.
       Inr (s1 @ s2 @ s3 @ s4 @ s5 @ s6 @ s7))))))))"

definition my_seed_statements :: "string \<Rightarrow> SeedData option \<Rightarrow> string list" where
  "my_seed_statements tableName seedData =
     (case seedData of None \<Rightarrow> [] | Some sd \<Rightarrow> my_SeedDataStatements tableName sd)"

definition my_table_count :: "MysqlConnection \<Rightarrow> string \<Rightarrow> int result" where
  "my_table_count m tableName = mys_table_count (mc_db m) tableName (mc_databaseName m)"

definition PlanMysqlTable ::
  "MyEnv \<Rightarrow> string \<Rightarrow> string \<Rightarrow> MysqlTableSchema \<Rightarrow> SeedData option \<Rightarrow> string list result" where
  "PlanMysqlTable env uri tableName schema seedData =
     bindE (wrapE ''failed to connect to mysql'' (my_Connect env uri)) (\<lambda>m.
     bindE (wrapE ''failed to scan'' (my_table_count m tableName)) (\<lambda>tableExists.
       if tableExists = 0 \<and> mts_IsDeleted schema then Inr []
       else if tableExists > 0 \<and> mts_IsDeleted schema then Inr [''drop table '' @ ticked tableName]
       else if tableExists = 0 then
         bindE (wrapE ''failed to create table statement'' (my_CreateTableStatements tableName schema)) (\<lambda>queries.
           Inr (queries @ my_seed_statements tableName seedData))
       else
         bindE (my_alter_table_statements m tableName schema) (\<lambda>statements.
           Inr (statements @ my_seed_statements tableName seedData))))"

definition PlanMysqlTableSeedDataOnly :: "MyEnv \<Rightarrow> string \<Rightarrow> string \<Rightarrow> SeedData option \<Rightarrow> string list result" where
  "PlanMysqlTableSeedDataOnly env uri tableName seedData =
     (case seedData of
        None \<Rightarrow> Inr []
      | Some sd \<Rightarrow>
          bindE (wrapE ''failed to connect to mysql'' (my_Connect env uri)) (\<lambda>m.
          bindE (wrapE ''failed to check if table exists'' (my_table_count m tableName)) (\<lambda>tableExists.
            if tableExists = 0
            then Inl (ErrNew (''table '' @ tableName @ '' does not exist, cannot apply seed data without schema''))
            else Inr (my_SeedDataStatements tableName sd))))"

definition PlanMysqlView :: "string \<Rightarrow> string \<Rightarrow> string list result" where
  "PlanMysqlView uri viewName = Inl (ErrNew ''not implemented'')"

fun my_executeStatements ::
  "(string \<Rightarrow> 'db \<Rightarrow> go_error option \<times> 'db) \<Rightarrow> string list \<Rightarrow> 'db \<Rightarrow> go_error option \<times> 'db" where
  "my_executeStatements exec [] db = (None, db)"
| "my_executeStatements exec (statement # rest) db =
     (if statement = [] then my_executeStatements exec rest db
      else (case exec statement db of
              (Some e, db') \<Rightarrow> (Some e, db')
            | (None, db') \<Rightarrow> my_executeStatements exec rest db'))"

definition DeployMysqlStatements ::
  "MyEnv \<Rightarrow> (string \<Rightarrow> 'db \<Rightarrow> go_error option \<times> 'db) \<Rightarrow> string \<Rightarrow> string list \<Rightarrow> 'db \<Rightarrow> go_error option \<times> 'db" where
  "DeployMysqlStatements env exec uri statements db =
     (case my_Connect env uri of
        Inl e \<Rightarrow> (Some e, db)
      | Inr m \<Rightarrow> my_executeStatements exec statements db)"

section \<open>Entry points (connection.go)\<close>

definition my_PlanTableSchema ::
  "MyEnv \<Rightarrow> MysqlConnection \<Rightarrow> string \<Rightarrow> schema_iface \<Rightarrow> SeedData option \<Rightarrow> string list result" where
  "my_PlanTableSchema env m tableName tableSchema seedData =
     (if tableSchema = NilInterface \<and> seedData \<noteq> None
      then PlanMysqlTableSeedDataOnly env (mc_uri m) tableName seedData
      else (case tableSchema of
              MysqlTable (Some schema) \<Rightarrow> PlanMysqlTable env (mc_uri m) tableName schema seedData
            | MysqlTable None \<Rightarrow>
                bindE (wrapE ''failed to connect to mysql'' (my_Connect env (mc_uri m))) (\<lambda>m'.
                bindE (wrapE ''failed to scan'' (my_table_count m' tableName)) (\<lambda>_. nil_dereference))
            | _ \<Rightarrow> Inl (ErrNew ''tableSchema must be *MysqlTableSchema'')))"

definition my_PlanViewSchema :: "MysqlConnection \<Rightarrow> string \<Rightarrow> schema_iface \<Rightarrow> string list result" where
  "my_PlanViewSchema m viewName viewSchema =
     (case viewSchema of
        NotImplementedView _ \<Rightarrow> PlanMysqlView (mc_uri m) viewName
      | _ \<Rightarrow> Inl (ErrNew ''viewSchema must be *NotImplementedViewSchema''))"

definition my_PlanTypeSchema :: "MysqlConnection \<Rightarrow> string \<Rightarrow> schema_iface \<Rightarrow> string list result" where
  "my_PlanTypeSchema m typeName typeSchema = Inl (ErrNew ''type schemas are not supported in MySQL'')"

definition my_PlanFunctionSchema :: "MysqlConnection \<Rightarrow> string \<Rightarrow> schema_iface \<Rightarrow> string list result" where
  "my_PlanFunctionSchema m functionName functionSchema = Inl (ErrNew ''MySQL function planning not yet implemented'')"

definition my_PlanExtensionSchema :: "MysqlConnection \<Rightarrow> string \<Rightarrow> schema_iface \<Rightarrow> string list result" where
  "my_PlanExtensionSchema m extensionName extensionSchema = Inl (ErrNew ''MySQL does not support extensions'')"

definition my_GenerateFixtures :: "TableSpec \<Rightarrow> string list result" where
  "my_GenerateFixtures spec =
     (case Option.bind (tsp_Schema spec) ts_Mysql of
        None \<Rightarrow> Inr []
      | Some s \<Rightarrow>
          if mts_IsDeleted s then Inr []
          else
            bindE (wrapE ''failed to create table statements'' (my_CreateTableStatements (tsp_Name spec) s)) (\<lambda>statements.
              Inr (statements @ my_seed_statements (tsp_Name spec) (tsp_SeedData spec))))"

definition my_NewFixtureOnlyConnection :: "MyServer \<Rightarrow> MysqlConnection" where
  "my_NewFixtureOnlyConnection no_server =
     \<lparr> mc_db = no_server, mc_databaseName = ''schemahero'', mc_engineVersion = ''fixture-only'', mc_uri = [] \<rparr>"

end
