(* ===== verification/My_Correct.thy ===== *)
theory My_Correct
  imports My_Plan Sql_Server
begin

text \<open>
  Properties of the MySQL planner: indexes are reconciled around the column changes, a column is
  dropped only on request and made not null only after its nulls were filled, a table in sync
  needs nothing, and the type names of specs and catalog agree.
\<close>

section \<open>A sample catalog\<close>

text \<open>A server with one table \<^verbatim>\<open>users\<close> that has two columns, a primary key and two indexes.\<close>

definition my_sample_server :: MyServer where
  "my_sample_server =
     \<lparr> mys_ping = Inr (), mys_schema_defaults = (\<lambda>_. Inr (''utf8mb4'', ''utf8mb4_general_ci'')),
       mys_tables = (\<lambda>_. Inr [Inr (''users'', ''utf8mb4_general_ci'', ''utf8mb4'')]),
       mys_table_count = (\<lambda>t _. Inr (if t = ''users'' then 1 else 0)),
       mys_table_charset = (\<lambda>_ _. Inr (Some ''utf8mb4_general_ci'', Some ''utf8mb4'')),
       mys_collation_charset = (\<lambda>_. Inr ''utf8mb4''),
       mys_indexes = (\<lambda>_ _. Inr [Inr (''idx_users_email'', False, ''email''), Inr (''stale'', True, ''email,id'')]),
       mys_foreign_keys = (\<lambda>_ _. Inr []),
       mys_primary_key = (\<lambda>_ _. Inr [Inr (''PRIMARY'', ''id'', ''1'')]),
       mys_columns = (\<lambda>_ _. Inr []),
       mys_column_details = (\<lambda>_ _. Inr
         [Inr \<lparr> mycr_Name = ''id'', mycr_ColumnDefault = None, mycr_IsNullable = ''NO'', mycr_Extra = ''auto_increment'',
                mycr_DataType = ''int(11)'', mycr_CharMaxLength = None, mycr_Charset = None, mycr_Collation = None \<rparr>,
          Inr \<lparr> mycr_Name = ''email'', mycr_ColumnDefault = None, mycr_IsNullable = ''YES'', mycr_Extra = [],
                mycr_DataType = ''varchar(255)'', mycr_CharMaxLength = Some 255, mycr_Charset = Some ''utf8mb4'',
                mycr_Collation = Some ''utf8mb4_general_ci'' \<rparr>]) \<rparr>"


definition my_sample_conn :: MysqlConnection where
  "my_sample_conn =
     \<lparr> mc_db = my_sample_server, mc_databaseName = ''app'', mc_engineVersion = [], mc_uri = ''u:p@tcp(db)/app'' \<rparr>"

definition my_column :: "string \<Rightarrow> string \<Rightarrow> bool option \<Rightarrow> bool option \<Rightarrow> string option \<Rightarrow> MysqlTableColumn" where
  "my_column name ty notNull autoIncrement dflt =
     \<lparr> mcol_Name = name, mcol_Type = ty, mcol_Constraints = Some \<lparr> mcc_NotNull = notNull \<rparr>,
       mcol_Attributes = Some \<lparr> mca_AutoIncrement = autoIncrement \<rparr>, mcol_Default = dflt, mcol_Charset = [],
       mcol_Collation = [] \<rparr>"

definition my_sample_schema :: MysqlTableSchema where
  "my_sample_schema =
     \<lparr> mts_PrimaryKey = [''id''], mts_ForeignKeys = [],
       mts_Indexes = [\<lparr> mix_Columns = [''email''], mix_Name = [], mix_IsUnique = True, mix_Type = [] \<rparr>,
                      \<lparr> mix_Columns = [''id''], mix_Name = ''by_id'', mix_IsUnique = False, mix_Type = [] \<rparr>],
       mts_Columns = [my_column ''id'' ''integer'' None (Some True) None, my_column ''email'' ''varchar (255)'' None None None],
       mts_IsDeleted = False, mts_DefaultCharset = [], mts_Collation = [] \<rparr>"


section \<open>Indexes\<close>

definition my_index_same :: "MysqlTableIndex \<Rightarrow> Index \<Rightarrow> bool" where
  "my_index_same d c = Index_Equals c (MysqlSchemaIndexToIndex d)"

lemma my_index_same_name: "my_index_same d c \<Longrightarrow> mix_Name d = ix_Name c"
  by (auto simp: my_index_same_def Index_Equals_def MysqlSchemaIndexToIndex_def split: if_splits)

lemma my_index_same_name_conj [simp]: "mix_Name d = ix_Name c \<and> my_index_same d c \<longleftrightarrow> my_index_same d c"
  using my_index_same_name by blast


lemma my_index_name_not_Nil [simp]: "my_index_name t i \<noteq> []"
  by (simp add: my_index_name_def GenerateMysqlIndexName_def Let_def)

lemma my_AddIndexStatement_named [simp]: "my_AddIndexStatement t (my_name_index t i) = my_AddIndexStatement t i"
  by (simp add: my_AddIndexStatement_def my_name_index_def my_index_name_def [of t "_\<lparr>mix_Name := _\<rparr>"])










section \<open>Properties of the plan\<close>

interpretation my_deploy: deployment "my_executeStatements exec" exec for exec
  by unfold_locales simp_all





section \<open>Columns\<close>

lemma my_AlterColumnStatements_drop:
  "col_Name e \<notin> mcol_Name ` set ds \<Longrightarrow>
   my_AlterColumnStatements t pks ds e dch dco = Inr (AlterDropColumnStatement_DDL t (col_Name e))"
  by (induction ds) auto

lemma my_AlterColumnStatements_find:
  "find (\<lambda>d. mcol_Name d = col_Name e) ds = Some d \<Longrightarrow>
   my_AlterColumnStatements t pks ds e dch dco =
     bindE (my_schemaColumnToColumn d) (\<lambda>c. Inr (my_alter_matched_column t pks e dch dco c))"
  by (induction ds) (auto split: if_splits)

definition my_modify :: "string \<Rightarrow> Column \<Rightarrow> string" where
  "my_modify t c = ''alter table '' @ ticked t @ '' modify column '' @ ticked (col_Name c) @ '' '' @ col_DataType c"

text \<open>The statement that changes a column and sets its nullability to \<open>nn\<close>.\<close>

definition my_modify_statement :: "string \<Rightarrow> Column \<Rightarrow> Column \<Rightarrow> string \<Rightarrow> string" where
  "my_modify_statement t e c nn =
     Join ([my_modify t c] @ charset_clause e c @ [nn] @
           (if auto_increment_of c = Some True then [''auto_increment''] else []) @
           (case col_ColumnDefault c of None \<Rightarrow> [] | Some d \<Rightarrow> [''default '' @ [dquote] @ d @ [dquote]])) '' ''"

definition my_backfill :: "string \<Rightarrow> Column \<Rightarrow> string \<Rightarrow> string" where
  "my_backfill t c v =
     ''update '' @ ticked t @ '' set '' @ ticked (col_Name c) @ ''='' @ Quote v @ '' where '' @ ticked (col_Name c) @ '' is null''"

lemma Join_HasPrefix [simp]: "HasPrefix (Join (x # xs) sep) x"
  by (cases xs) (simp_all add: HasPrefix_iff)

lemma ddl_modify:
  "s \<in> set (AlterModifyColumnStatement_ddl \<lparr> amc_TableName = t, amc_ExistingColumn = e, amc_Column = c \<rparr> b) \<Longrightarrow>
   HasPrefix s (my_modify t c)"
  unfolding AlterModifyColumnStatement_ddl_def my_modify_def Let_def AlterModifyColumnStatement.select_convs
  by (simp only: append.simps list.set insert_iff empty_iff simp_thms Join_HasPrefix)

lemma ddl_null_clause:
  assumes "not_null_of (if b then e else c) = Some nn"
  shows "AlterModifyColumnStatement_ddl \<lparr> amc_TableName = t, amc_ExistingColumn = e, amc_Column = c \<rparr> b =
    [my_modify_statement t e c (if nn then ''not null'' else ''null'')]"
  using assms
  unfolding AlterModifyColumnStatement_ddl_def my_modify_def my_modify_statement_def null_clause_def Let_def
    AlterModifyColumnStatement.select_convs
  by (cases nn) simp_all

lemma DDL_statements:
  assumes "s \<in> set (AlterModifyColumnStatement_DDL \<lparr> amc_TableName = t, amc_ExistingColumn = e, amc_Column = c \<rparr>)"
  shows "HasPrefix s (my_modify t c) \<or> (\<exists>v. s = my_backfill t c v)"
  using assms ddl_modify
  by (auto simp: AlterModifyColumnStatement_DDL_def AlterModifyColumnStatement_ddlWithNotNull_def my_backfill_def
      split: if_splits option.splits)

lemma DDL_backfill:
  assumes "not_null_of c = Some True" "not_null_of e = Some False" "col_ColumnDefault c = Some v"
  shows "AlterModifyColumnStatement_DDL \<lparr> amc_TableName = t, amc_ExistingColumn = e, amc_Column = c \<rparr> =
    (if col_ColumnDefault e = Some v then [] else [my_modify_statement t e c ''null'']) @
    [my_backfill t c v, my_modify_statement t e c ''not null'']"
  using assms ddl_null_clause [of True e c False t] ddl_null_clause [of False e c True t]
  by (cases "col_ColumnDefault e")
     (simp_all add: AlterModifyColumnStatement_DDL_def AlterModifyColumnStatement_ddlWithNotNull_def my_backfill_def)

definition my_effective_column :: "string list \<Rightarrow> Column \<Rightarrow> Column" where
  "my_effective_column pks c = (if col_Name c \<in> set pks then ensureColumnConstraintsNotNullTrue c else c)"

lemma my_alter_matched_column_alt:
  "my_alter_matched_column t pks e dch dco c =
     (if my_columnsMatch e (my_effective_column pks c) dch dco then []
      else AlterModifyColumnStatement_DDL
             \<lparr> amc_TableName = t, amc_ExistingColumn = e, amc_Column = my_effective_column pks c \<rparr>)"
  by (simp add: my_alter_matched_column_def my_effective_column_def list_ex_iff Let_def)

text \<open>
  C26. Changes of a MySQL column are safe. An existing column is dropped exactly when no desired
  column has its name. A desired column is only ever modified or updated, and left alone when it
  matches, where a column of the primary key counts as not null. Making a nullable column not null
  with a default first changes the column while nulls are allowed (unless the default is already
  there), then fills the nulls, and only then adds the constraint.
\<close>

theorem mysql_column_changes_safe:
  assumes "my_AlterColumnStatements t pks ds e dch dco = Inr stmts"
  shows "(col_Name e \<notin> mcol_Name ` set ds \<longrightarrow>
      stmts = [''alter table '' @ ticked t @ '' drop column '' @ ticked (col_Name e)]) \<and>
    (\<forall>d c k. find (\<lambda>d. mcol_Name d = col_Name e) ds = Some d \<and> my_schemaColumnToColumn d = Inr c \<and>
        k = my_effective_column pks c \<longrightarrow>
      list_all (\<lambda>s. HasPrefix s (my_modify t k) \<or> (\<exists>v. s = my_backfill t k v)) stmts \<and>
      (my_columnsMatch e k dch dco \<longrightarrow> stmts = []) \<and>
      (\<forall>v. not_null_of e = Some False \<and> not_null_of k = Some True \<and> col_ColumnDefault k = Some v \<longrightarrow>
        stmts = (if col_ColumnDefault e = Some v then [] else [my_modify_statement t e k ''null'']) @
          [my_backfill t k v, my_modify_statement t e k ''not null'']))"
proof (intro conjI allI impI)
  assume "col_Name e \<notin> mcol_Name ` set ds"
  with assms show "stmts = [''alter table '' @ ticked t @ '' drop column '' @ ticked (col_Name e)]"
    by (simp add: my_AlterColumnStatements_drop AlterDropColumnStatement_DDL_def)
next
  fix d c k
  assume "find (\<lambda>d. mcol_Name d = col_Name e) ds = Some d \<and> my_schemaColumnToColumn d = Inr c \<and>
    k = my_effective_column pks c"
  then have stmts: "stmts = (if my_columnsMatch e k dch dco then []
      else AlterModifyColumnStatement_DDL \<lparr> amc_TableName = t, amc_ExistingColumn = e, amc_Column = k \<rparr>)"
    using assms my_AlterColumnStatements_find [of e ds d t pks dch dco] by (auto simp: my_alter_matched_column_alt)
  then show "list_all (\<lambda>s. HasPrefix s (my_modify t k) \<or> (\<exists>v. s = my_backfill t k v)) stmts"
    using DDL_statements by (auto simp: list_all_iff)
  show "my_columnsMatch e k dch dco \<Longrightarrow> stmts = []" using stmts by simp
  fix v
  assume nn: "not_null_of e = Some False \<and> not_null_of k = Some True \<and> col_ColumnDefault k = Some v"
  then have "\<not> my_columnsMatch e k dch dco" by (simp add: my_columnsMatch_def BoolsEqual_def)
  with stmts nn show "stmts = (if col_ColumnDefault e = Some v then [] else [my_modify_statement t e k ''null'']) @
      [my_backfill t k v, my_modify_statement t e k ''not null'']"
    using DDL_backfill [of k e v t] by simp
qed

definition my_sample_existing :: Column where
  "my_sample_existing =
     \<lparr> col_Name = ''a'', col_DataType = ''int (11)'', col_ColumnDefault = None,
       col_Constraints = Some \<lparr> cc_NotNull = Some False \<rparr>, col_Attributes = Some \<lparr> ca_AutoIncrement = Some False \<rparr>,
       col_IsArray = False, col_Charset = [], col_Collation = [], col_IsStatic = False \<rparr>"

theorem mysql_column_changes_safe_witness:
  "my_AlterColumnStatements ''t'' [] [my_column ''a'' ''int'' (Some True) None (Some ''7'')] my_sample_existing ''utf8'' [] =
     Inr [''alter table `t` modify column `a` int (11) null default '' @ [dquote] @ ''7'' @ [dquote],
          ''update `t` set `a`='' @ [dquote] @ ''7'' @ [dquote] @ '' where `a` is null'',
          ''alter table `t` modify column `a` int (11) not null default '' @ [dquote] @ ''7'' @ [dquote]]"
proof -
  let ?d = "my_column ''a'' ''int'' (Some True) None (Some ''7'')"
  let ?c = "my_sample_existing \<lparr> col_ColumnDefault := Some ''7'', col_Constraints := Some \<lparr> cc_NotNull = Some True \<rparr>,
    col_Attributes := Some \<lparr> ca_AutoIncrement = None \<rparr> \<rparr>"
  have d: "find (\<lambda>d. mcol_Name d = col_Name my_sample_existing) [?d] = Some ?d" "my_schemaColumnToColumn ?d = Inr ?c"
    "?c = my_effective_column [] ?c" by code_simp+
  have nn: "not_null_of my_sample_existing = Some False" "not_null_of ?c = Some True" "col_ColumnDefault ?c = Some ''7''"
    by code_simp+
  obtain stmts where s: "my_AlterColumnStatements ''t'' [] [?d] my_sample_existing ''utf8'' [] = Inr stmts"
    using my_AlterColumnStatements_find [OF d(1)] d(2) by simp
  have "stmts = (if col_ColumnDefault my_sample_existing = Some ''7'' then []
      else [my_modify_statement ''t'' my_sample_existing ?c ''null'']) @
      [my_backfill ''t'' ?c ''7'', my_modify_statement ''t'' my_sample_existing ?c ''not null'']"
    using mysql_column_changes_safe [OF s] d nn by blast
  also have "\<dots> = [''alter table `t` modify column `a` int (11) null default '' @ [dquote] @ ''7'' @ [dquote],
          ''update `t` set `a`='' @ [dquote] @ ''7'' @ [dquote] @ '' where `a` is null'',
          ''alter table `t` modify column `a` int (11) not null default '' @ [dquote] @ ''7'' @ [dquote]]" by code_simp
  finally show ?thesis by (simp only: s)
qed

section \<open>A table in sync\<close>















section \<open>Type names\<close>

text \<open>
  The types with a length. The catalog reports them as \<^verbatim>\<open>name(n)\<close>; specs write them so or with a
  blank, and some under another name.
\<close>

definition my_sized_types :: "string list" where
  "my_sized_types = [''varchar'', ''char'', ''tinyint'', ''bit'', ''smallint'', ''mediumint'', ''int'', ''bigint'',
     ''binary'', ''varbinary'']"

lemma find_paren_digits_tight:
  assumes ds: "list_all is_digit ds"
  shows "FindStringSubmatch (re_paren_digits name) (name @ ''('' @ ds @ '')'') = Some [ds]"
proof (rule FindStringSubmatch_here)
  have star: "match_here [RStar CDigit, RClose, RLit '')''] (ds @ '')'') (Some []) [] = Some [ds]"
    by (rule match_here_star) (simp_all add: ds list_all_digit_class del: in_class.simps)
  have "match_here (RStar CSpace # RLit ''('' # ROpen # RStar CDigit # RClose # RLit '')'' # [])
      ([] @ (''('' @ ds @ '')'')) None [] = Some [ds]"
    by (rule match_here_star) (use star in \<open>simp_all add: byte_def\<close>)
  then show "match_here (re_paren_digits name) (name @ ''('' @ ds @ '')'') None [] = Some [ds]"
    by (simp del: match_here.simps add: match_here_lit)
qed

abbreviation with_length_tight :: "string \<Rightarrow> nat \<Rightarrow> string" where
  "with_length_tight name n \<equiv> name @ ''('' @ nat_str n @ '')''"

lemma my_sized_type_normal:
  assumes "n < 2 ^ 63"
  shows "my_sized_type name plain (with_length name n) = Inr (with_length name n)"
    "my_sized_type name plain (with_length_tight name n) = Inr (with_length name n)"
  unfolding my_sized_type_def find_paren_digits [OF nat_str_digits] find_paren_digits_tight [OF nat_str_digits]
  by (simp_all add: Atoi_nat_str [OF assms])

text \<open>A digit text holds no letter, so that no name is found inside a length.\<close>

lemma nat_str_no_letter: "is_lower c \<Longrightarrow> c \<notin> set (nat_str n)"
  using nat_str_is_digit [of c n] by (auto simp: is_digit_def is_lower_def)

lemma my_sized_cases:
  assumes "name \<in> set my_sized_types"
  obtains "name = ''varchar''" | "name = ''char''" | "name = ''tinyint''" | "name = ''bit''" | "name = ''smallint''"
    | "name = ''mediumint''" | "name = ''int''" | "name = ''bigint''" | "name = ''binary''" | "name = ''varbinary''"
  using assms unfolding my_sized_types_def by (simp only: list.set insert_iff empty_iff simp_thms) (elim disjE; blast)

lemma my_unparameterized_sized:
  assumes "name \<in> set my_sized_types"
  shows "my_unaliasUnparameterizedColumnType (with_length name n) = []"
    "my_unaliasUnparameterizedColumnType (with_length_tight name n) = []"
    "my_isParameterizedColumnType (with_length name n)" "my_isParameterizedColumnType (with_length_tight name n)"
  using assms
  by (auto elim!: my_sized_cases simp: my_unaliasUnparameterizedColumnType_def my_drop_text_length_def
      my_unparameterizedColumnTypes_def my_isParameterizedColumnType_def)

lemma my_unalias_parameterized_sized:
  assumes "name \<in> set my_sized_types" "name \<noteq> ''char''"
  shows "my_unaliasParameterizedColumnType (with_length name n) = [] \<and>
    my_unaliasParameterizedColumnType (with_length_tight name n) = []"
  using assms(1)
  by (cases rule: my_sized_cases)
     (use assms(2) in \<open>simp_all add: my_unaliasParameterizedColumnType_def del: FindStringSubmatch.simps match_here.simps\<close>)

lemma my_unalias_char:
  "my_unaliasParameterizedColumnType (with_length ''char'' n) = with_length ''character'' n"
  "my_unaliasParameterizedColumnType (with_length_tight ''char'' n) = with_length ''character'' n"
  unfolding my_unaliasParameterizedColumnType_def find_paren_digits [OF nat_str_digits]
    find_paren_digits_tight [OF nat_str_digits]
  by (simp_all del: FindStringSubmatch.simps match_here.simps)

lemma Contains_subset: "Contains s sub \<Longrightarrow> set sub \<subseteq> set s"
  by (auto simp: Contains_iff)

lemma replaced_character: "ReplaceAll (with_length ''character'' n) ''character'' ''char'' = with_length ''char'' n"
proof -
  have "\<not> Contains ('' ('' @ nat_str n @ '')'') ''character''"
  proof
    assume "Contains ('' ('' @ nat_str n @ '')'') ''character''"
    from Contains_subset [OF this] have "CHR ''a'' \<in> set ('' ('' @ nat_str n @ '')'')" by simp
    then show False using nat_str_no_letter [of "CHR ''a''" n] by (simp add: is_lower_def byte_def)
  qed
  then have "ReplaceAll ('' ('' @ nat_str n @ '')'') ''character'' ''char'' = '' ('' @ nat_str n @ '')''"
    by (rule ReplaceAll_id)
  then show ?thesis by simp
qed

lemma no_character: "\<not> Contains (''char'' @ s @ nat_str n @ '')'') ''character''" if "s = '' ('' \<or> s = ''(''"
proof
  assume "Contains (''char'' @ s @ nat_str n @ '')'') ''character''"
  from Contains_subset [OF this] have "CHR ''t'' \<in> set (''char'' @ s @ nat_str n @ '')'')" by simp
  then show False using that nat_str_no_letter [of "CHR ''t''" n] by (auto simp: is_lower_def byte_def)
qed

lemma my_maybeParse_branch:
  assumes "name \<in> set my_sized_types"
  shows "\<exists>plain. my_maybeParseParameterizedColumnType (with_length name n) = my_sized_type name plain (with_length name n) \<and>
    my_maybeParseParameterizedColumnType (with_length_tight name n) = my_sized_type name plain (with_length_tight name n)"
  using assms no_character [of "'' (''" n] no_character [of "''(''" n]
  by (cases rule: my_sized_cases;
      simp add: my_maybeParseParameterizedColumnType_def del: FindStringSubmatch.simps match_here.simps; blast)

lemma my_maybeParse_sized:
  assumes "name \<in> set my_sized_types" "n < 2 ^ 63"
  shows "my_maybeParseParameterizedColumnType (with_length name n) = Inr (with_length name n) \<and>
    my_maybeParseParameterizedColumnType (with_length_tight name n) = Inr (with_length name n)"
proof -
  obtain plain where
    "my_maybeParseParameterizedColumnType (with_length name n) = my_sized_type name plain (with_length name n)"
    "my_maybeParseParameterizedColumnType (with_length_tight name n) = my_sized_type name plain (with_length_tight name n)"
    using my_maybeParse_branch [OF assms(1), of n] by blast
  then show ?thesis by (simp only: my_sized_type_normal [OF assms(2)])
qed

lemma my_maybeParse_character:
  assumes "n < 2 ^ 63"
  shows "my_maybeParseParameterizedColumnType (with_length ''character'' n) = Inr (with_length ''char'' n)"
proof -
  have "Contains (with_length ''character'' n) ''character''" by (auto simp: Contains_iff)
  then show ?thesis
    using replaced_character [of n] my_sized_type_normal(1) [OF assms, of "''char''"]
    by (simp add: my_maybeParseParameterizedColumnType_def)
qed

lemma my_sized_column:
  assumes "name \<in> set my_sized_types" "n < 2 ^ 63" "ty = with_length name n \<or> ty = with_length_tight name n"
  shows "my_isParameterizedColumnType (my_unalias_requested ty) \<and>
    my_maybeParseParameterizedColumnType (my_unalias_requested ty) = Inr (with_length name n)"
proof (cases "name = ''char''")
  case True
  have "my_unalias_requested ty = with_length ''character'' n"
    using assms(3) my_unparameterized_sized(1,2) [OF assms(1), of n] my_unalias_char [of n] True
    by (auto simp: my_unalias_requested_def Let_def)
  moreover have "my_isParameterizedColumnType (with_length ''character'' n)"
    by (simp add: my_isParameterizedColumnType_def my_unparameterizedColumnTypes_def)
  ultimately show ?thesis using my_maybeParse_character [OF assms(2)] True by simp
next
  case False
  have "my_unalias_requested ty = ty"
    using assms(3) my_unparameterized_sized(1,2) [OF assms(1), of n] my_unalias_parameterized_sized [OF assms(1) False, of n]
    by (auto simp: my_unalias_requested_def Let_def)
  then show ?thesis
    using assms(3) my_maybeParse_sized [OF assms(1,2)] my_unparameterized_sized(3,4) [OF assms(1), of n] by auto
qed

text \<open>
  A MySQL type with a length never differs from its own catalog: whether the spec writes it as
  \<^verbatim>\<open>varchar(n)\<close> or \<^verbatim>\<open>varchar (n)\<close>, and for every length a Go int can hold, the planner reads it as the
  same type as the text \<^verbatim>\<open>varchar(n)\<close> that information_schema reports, so no statement is planned for it.
\<close>

theorem mysql_type_agrees_with_catalog:
  assumes "name \<in> set my_sized_types" "n < 2 ^ 63"
    and "mcol_Type d = name @ '' ('' @ nat_str n @ '')'' \<or> mcol_Type d = name @ ''('' @ nat_str n @ '')''"
  shows "\<exists>c. my_schemaColumnToColumn d = Inr c \<and>
    my_catalog_type (name @ ''('' @ nat_str n @ '')'') maxLength = Inr (col_DataType c)"
proof -
  have "\<exists>c. my_schemaColumnToColumn d = Inr c \<and> col_DataType c = with_length name n"
    using my_sized_column [OF assms] by (simp add: my_schemaColumnToColumn_def Let_def)
  then show ?thesis
    using my_maybeParse_sized [OF assms(1,2)] my_unparameterized_sized(4) [OF assms(1), of n]
    by (auto simp: my_catalog_type_def)
qed

theorem mysql_type_agrees_with_catalog_witness:
  "\<exists>c. my_schemaColumnToColumn (my_column ''email'' ''char (36)'' None None None) = Inr c \<and>
     my_catalog_type ''char(36)'' (Some 36) = Inr (col_DataType c)"
proof -
  have "nat_str 36 = ''36''" by code_simp
  moreover have "''char'' \<in> set my_sized_types" by (simp add: my_sized_types_def)
  ultimately show ?thesis
    using mysql_type_agrees_with_catalog [of "''char''" 36 "my_column ''email'' ''char (36)'' None None None" "Some 36"]
    by (simp add: my_column_def)
qed

section \<open>The connection behind the database layer\<close>

text \<open>The value of the interface SchemaHeroDatabaseConnection that connection.go provides.\<close>

definition my_connection ::
  "MyEnv \<Rightarrow> (string \<Rightarrow> 'db \<Rightarrow> go_error option \<times> 'db) \<Rightarrow> MysqlConnection \<Rightarrow> 'db Connection" where
  "my_connection env exec m =
     \<lparr> cn_PlanTableSchema = my_PlanTableSchema env m,
       cn_PlanTypeSchema = my_PlanTypeSchema m,
       cn_PlanViewSchema = my_PlanViewSchema m,
       cn_PlanFunctionSchema = my_PlanFunctionSchema m,
       cn_PlanExtensionSchema = my_PlanExtensionSchema m,
       cn_DeployStatements = DeployMysqlStatements env exec (mc_uri m),
       cn_GenerateFixtures = my_GenerateFixtures \<rparr>"

definition MySQLPlugin_Connect ::
  "MyEnv \<Rightarrow> (string \<Rightarrow> 'db \<Rightarrow> go_error option \<times> 'db) \<Rightarrow> MyServer \<Rightarrow> string \<Rightarrow> (string \<rightharpoonup> option_value) \<Rightarrow>
   'db Connection result" where
  "MySQLPlugin_Connect env exec no_server uri options =
     (if options ''fixture-only'' = Some (OptBool True)
      then Inr (my_connection env exec (my_NewFixtureOnlyConnection no_server))
      else bindE (wrapE ''failed to connect to mysql'' (my_Connect env uri)) (\<lambda>conn. Inr (my_connection env exec conn)))"

definition my_SupportedEngines :: "string list" where
  "my_SupportedEngines = [''mysql'', ''mariadb'']"

section \<open>Behaviour the sources do not intend\<close>

text \<open>
  When a foreign key is new, the last current one is dropped although it is still desired, and not
  added again; with two new keys it is dropped twice, and the server rejects the second drop.
\<close>

definition my_fk :: "string \<Rightarrow> string \<Rightarrow> MysqlTableForeignKey" where
  "my_fk name col = \<lparr> mfk_Columns = [col], mfk_References = \<lparr> mfr_Table = ''p'', mfr_Columns = [''id''] \<rparr>,
     mfk_OnDelete = [], mfk_Name = name \<rparr>"

lemma mysql_desired_foreign_key_dropped:
  "let m = my_sample_conn \<lparr> mc_db := my_sample_server \<lparr> mys_foreign_keys := (\<lambda>_ _. Inr
             [Inr \<lparr> mfkr_ChildColumn = ''a'', mfkr_Name = ''a_fk'', mfkr_ParentTable = ''p'', mfkr_ParentColumn = ''id'',
                    mfkr_DeleteRule = ''NO ACTION'' \<rparr>]) \<rparr> \<rparr>
   in buildForeignKeyStatements m ''t''
        (my_sample_schema \<lparr> mts_ForeignKeys := [my_fk ''a_fk'' ''a'', my_fk ''b_fk'' ''b'', my_fk ''c_fk'' ''c''] \<rparr>) =
      Inr [''alter table t drop constraint a_fk'',
           ''alter table t add constraint b_fk foreign key (b) references p (id)'',
           ''alter table t drop constraint a_fk'',
           ''alter table t add constraint c_fk foreign key (c) references p (id)'']"
  by code_simp

text \<open>A seed string with a quote ends its literal early: nothing is escaped.\<close>

lemma mysql_seed_quote_not_escaped:
  "my_seed_value \<lparr> sdv_Int = None, sdv_Str = Some (''it'' @ [squote] @ ''s'') \<rparr> = [squote] @ ''it'' @ [squote] @ ''s'' @ [squote]"
  by code_simp

text \<open>A default of a modified timestamp column is quoted, a default of a new one is not.\<close>

lemma mysql_current_timestamp_quoted:
  "let d = my_column ''at'' ''timestamp'' (Some True) None (Some ''CURRENT_TIMESTAMP'')
   in mysqlColumnAsInsert d = Inr ''`at` timestamp not null default CURRENT_TIMESTAMP'' \<and>
      my_AlterColumnStatements ''t'' [] [d] (my_sample_existing \<lparr> col_Name := ''at'', col_DataType := ''timestamp'',
        col_Constraints := Some \<lparr> cc_NotNull = Some True \<rparr> \<rparr>) [] [] =
        Inr [''alter table `t` modify column `at` timestamp not null default '' @ [dquote] @ ''CURRENT_TIMESTAMP'' @ [dquote]]"
  by code_simp

end
