(* ===== verification/Lite_Common.thy ===== *)
theory Lite_Common
  imports Db_Query Db_Dialects Named_Diff
begin

text \<open>
  What the plugins for SQLite and rqlite have in common. The sources under src/plugins/sqlite/lib and
  src/plugins/rqlite/lib hold the same loops, once over SqliteTableSchema and once over
  RqliteTableSchema; here they are functions of the accessors of the schema type. The theories
  \<open>Sq_Plan\<close> and \<open>Rq_Plan\<close> instantiate them.

  Rows of a query that are collected in a Go map come out in the order of an iteration over the
  map; the parameter \<open>order\<close> rearranges the entries, which are kept in the order of insertion.
\<close>

abbreviation dquoted :: "string \<Rightarrow> string" where
  "dquoted name \<equiv> [dquote] @ name @ [dquote]"

section \<open>Catalog rows\<close>

record LiteColumnRow =
  lcr_Name :: string
  lcr_DataType :: string
  lcr_PrimaryKey :: int
  lcr_ColumnDefault :: "string option"
  lcr_NotNull :: int

record LiteForeignKeyRow =
  lfk_Id :: int
  lfk_ChildColumn :: string
  lfk_ParentTable :: string
  lfk_ParentColumn :: string
  lfk_DeleteRule :: string

text \<open>The quotes that SQLite keeps around a default value.\<close>

definition strip_default_quotes :: "string \<Rightarrow> string" where
  "strip_default_quotes v =
     (case v of
        [] \<Rightarrow> v
      | c # _ \<Rightarrow>
          if c = dquote then trim_while (\<lambda>b. b = dquote) v
          else if c = squote then trim_while (\<lambda>b. b = squote) v
          else if c = CHR ''`'' then trim_while (\<lambda>b. b = CHR ''`'') v
          else v)"

definition lite_existing_column :: "LiteColumnRow \<Rightarrow> Column" where
  "lite_existing_column r =
     \<lparr> col_Name = lcr_Name r, col_DataType = lcr_DataType r,
       col_ColumnDefault = map_option strip_default_quotes (lcr_ColumnDefault r),
       col_Constraints = Some \<lparr> cc_NotNull = Some (lcr_NotNull r = 1) \<rparr>,
       col_Attributes = Some \<lparr> ca_AutoIncrement = None \<rparr>, col_IsArray = False, col_Charset = [],
       col_Collation = [], col_IsStatic = False \<rparr>"

fun add_index_row :: "Index list \<Rightarrow> string \<times> bool \<times> string \<Rightarrow> Index list" where
  "add_index_row [] (name, isUnique, column) =
     [\<lparr> ix_Columns = [column], ix_Name = name, ix_IsUnique = isUnique, ix_With = [], ix_Type = [], ix_Where = [],
        ix_Expressions = [], ix_SortedColumns = [] \<rparr>]"
| "add_index_row (index # rest) (name, isUnique, column) =
     (if ix_Name index = name then index \<lparr> ix_Columns := ix_Columns index @ [column] \<rparr> # rest
      else index # add_index_row rest (name, isUnique, column))"

fun lite_add_fk_row :: "(int \<times> ForeignKey) list \<Rightarrow> LiteForeignKeyRow \<Rightarrow> (int \<times> ForeignKey) list" where
  "lite_add_fk_row [] row =
     [(lfk_Id row, \<lparr> fk_ChildColumns = [lfk_ChildColumn row], fk_ParentTable = lfk_ParentTable row,
         fk_ParentColumns = [lfk_ParentColumn row], fk_Name = [], fk_OnDelete = lfk_DeleteRule row \<rparr>)]"
| "lite_add_fk_row ((i, fk) # rest) row =
     (if i = lfk_Id row
      then (i, fk \<lparr> fk_ChildColumns := fk_ChildColumns fk @ [lfk_ChildColumn row],
                    fk_ParentColumns := fk_ParentColumns fk @ [lfk_ParentColumn row] \<rparr>) # rest
      else (i, fk) # lite_add_fk_row rest row)"

definition lite_schema_column :: "string \<times> string \<times> string option \<times> bool \<Rightarrow> Column" where
  "lite_schema_column r =
     (case r of (name, dataType, columnDefault, notNull) \<Rightarrow>
        \<lparr> col_Name = name, col_DataType = dataType, col_ColumnDefault = columnDefault,
          col_Constraints = Some \<lparr> cc_NotNull = Some notNull \<rparr>, col_Attributes = None, col_IsArray = False,
          col_Charset = [], col_Collation = [], col_IsStatic = False \<rparr>)"

section \<open>Comparisons\<close>

definition lite_attr_of :: "Column \<Rightarrow> bool option" where
  "lite_attr_of col = (case col_Attributes col of None \<Rightarrow> None | Some a \<Rightarrow> ca_AutoIncrement a)"

definition lite_columnsMatch :: "Column \<Rightarrow> Column \<Rightarrow> bool" where
  "lite_columnsMatch col1 col2 =
     (if \<not> EqualFold (col_DataType col1) (col_DataType col2) then False
      else if col_Collation col1 \<noteq> col_Collation col2 then False
      else if col_ColumnDefault col1 \<noteq> col_ColumnDefault col2 then False
      else if \<not> BoolsEqual (not_null_of col1) (not_null_of col2) then False
      else if \<not> BoolsEqual (lite_attr_of col1) (lite_attr_of col2) then False
      else True)"

definition lite_primary_key_changed :: "string list \<Rightarrow> string list \<Rightarrow> bool" where
  "lite_primary_key_changed existing desired =
     (length existing \<noteq> length desired \<or>
      \<not> list_all (\<lambda>desiredColumn. list_ex (\<lambda>existingColumn. existingColumn = desiredColumn) existing) desired)"

definition lite_foreign_keys_changed :: "ForeignKey list \<Rightarrow> ForeignKey list \<Rightarrow> bool" where
  "lite_foreign_keys_changed existing desired =
     (length existing \<noteq> length desired \<or>
      \<not> list_all (\<lambda>d. list_ex (\<lambda>e. ForeignKey_Equals e d) existing) desired)"

text \<open>A column is modified when the first desired column of its name differs; none is no change.\<close>

definition lite_columns_modified :: "Column list \<Rightarrow> Column list \<Rightarrow> bool" where
  "lite_columns_modified existing desired =
     list_ex (\<lambda>e. case find (\<lambda>d. col_Name e = col_Name d) desired of
        Some d \<Rightarrow> \<not> lite_columnsMatch d e
      | None \<Rightarrow> False) existing"

section \<open>The loops over indexes\<close>

text \<open>
  \<open>isConstraint\<close> asks the server whether an index belongs to a constraint, \<open>name\<close> stores a
  generated name in a desired index that has none, \<open>conv\<close> is its catalog form.
\<close>

fun lite_changed_constraint :: "(string \<Rightarrow> bool result) \<Rightarrow> Index \<Rightarrow> Index list \<Rightarrow> bool result" where
  "lite_changed_constraint isConstraint desired [] = Inr False"
| "lite_changed_constraint isConstraint desired (current # rest) =
     (if Index_Equals current desired then Inr False
      else if ix_Name current = ix_Name desired then
        bindE (wrapE ''failed to check if index is a constraint'' (isConstraint (ix_Name current))) (\<lambda>b.
          if b then Inr True else lite_changed_constraint isConstraint desired rest)
      else lite_changed_constraint isConstraint desired rest)"

fun lite_desired_indexes ::
  "(string \<Rightarrow> bool result) \<Rightarrow> ('i \<Rightarrow> 'i) \<Rightarrow> ('i \<Rightarrow> Index) \<Rightarrow> Index list \<Rightarrow> 'i list \<Rightarrow> (bool \<times> 'i list) result" where
  "lite_desired_indexes isConstraint name conv currentIndexes [] = Inr (False, [])"
| "lite_desired_indexes isConstraint name conv currentIndexes (d # ds) =
     bindE (lite_changed_constraint isConstraint (conv (name d)) currentIndexes) (\<lambda>needed.
       if needed then Inr (True, name d # ds)
       else bindE (lite_desired_indexes isConstraint name conv currentIndexes ds) (\<lambda>(needed, ds').
              Inr (needed, name d # ds')))"

fun lite_removed_constraint :: "(string \<Rightarrow> bool result) \<Rightarrow> string list \<Rightarrow> Index list \<Rightarrow> bool result" where
  "lite_removed_constraint isConstraint desiredNames [] = Inr False"
| "lite_removed_constraint isConstraint desiredNames (current # rest) =
     (if list_ex (\<lambda>n. n = ix_Name current) desiredNames
      then lite_removed_constraint isConstraint desiredNames rest
      else bindE (wrapE ''failed to check if index is a constraint'' (isConstraint (ix_Name current))) (\<lambda>b.
             if b then Inr True else lite_removed_constraint isConstraint desiredNames rest))"

text \<open>The statements for one desired index, already named.\<close>

fun lite_desired_index_statements :: "(Index \<Rightarrow> string) \<Rightarrow> string \<Rightarrow> Index \<Rightarrow> Index list \<Rightarrow> string list" where
  "lite_desired_index_statements remove add desired [] = [add]"
| "lite_desired_index_statements remove add desired (current # rest) =
     (if Index_Equals current desired then []
      else if ix_Name current = ix_Name desired
      then remove current # lite_desired_index_statements remove add desired rest
      else lite_desired_index_statements remove add desired rest)"

section \<open>What the loops compute\<close>

lemma Index_Equals_name: "Index_Equals i j \<Longrightarrow> ix_Name i = ix_Name j"
  by (auto simp: Index_Equals_def split: if_splits)

lemma add_index_row_names:
  "ix_Name ` set (add_index_row is row) = insert (fst row) (ix_Name ` set is)"
  by (induction "is" row rule: add_index_row.induct) auto

lemma add_index_row_distinct:
  "distinct (map ix_Name is) \<Longrightarrow> distinct (map ix_Name (add_index_row is row))"
  by (induction "is" row rule: add_index_row.induct) (auto simp: add_index_row_names simp flip: image_set)

text \<open>The catalog never reports two indexes of one name: its rows are grouped by name.\<close>

lemma grouped_rows_distinct:
  "distinct (map ix_Name is) \<Longrightarrow> distinct (map ix_Name (foldl add_index_row is rows))"
  by (induction rows arbitrary: "is") (simp_all add: add_index_row_distinct)

lemma lite_desired_index_statements_alt:
  assumes "distinct (map ix_Name cur)"
  shows "lite_desired_index_statements remove add desired cur =
    (case find (\<lambda>c. ix_Name c = ix_Name desired) cur of
       None \<Rightarrow> [add]
     | Some c \<Rightarrow> if Index_Equals c desired then [] else [remove c, add])"
  using assms
proof (induction cur)
  case (Cons c cur)
  have "find (\<lambda>c. ix_Name c = ix_Name desired) cur = None" if "ix_Name c = ix_Name desired"
    using Cons.prems that by (auto simp: find_None_iff image_iff)
  then show ?case using Cons Index_Equals_name [of c desired] by auto
qed simp

lemma lite_changed_constraint_found:
  "c \<in> set cur \<Longrightarrow> Index_Equals c d \<Longrightarrow> distinct (map ix_Name cur) \<Longrightarrow> lite_changed_constraint isC d cur = Inr False"
proof (induction cur)
  case (Cons x cur)
  have "ix_Name x \<noteq> ix_Name d" if "c \<noteq> x"
    using Cons.prems that Index_Equals_name [of c d] by (auto simp: image_iff)
  then show ?case using Cons by auto
qed simp

lemma lite_removed_constraint_none:
  "(\<And>c. c \<in> set cur \<Longrightarrow> ix_Name c \<in> set names) \<Longrightarrow> lite_removed_constraint isC names cur = Inr False"
  by (induction cur) (auto simp: list_ex_iff)

lemma lite_desired_indexes_named:
  "lite_desired_indexes isC name conv cur ds = Inr (False, ds') \<Longrightarrow> ds' = map name ds"
  by (induction ds arbitrary: ds') (auto simp: bindE_Inr_iff split: if_splits prod.splits)

definition lite_index_same :: "('i \<Rightarrow> Index) \<Rightarrow> 'i \<Rightarrow> Index \<Rightarrow> bool" where
  "lite_index_same conv d c = Index_Equals c (conv d)"

text \<open>
  The contract between the planners and the conversions of the index types: a conversion keeps the name. The
  planner of indexes then is a planner by name.
\<close>

locale lite_indexes =
  fixes iname :: "'i \<Rightarrow> string" and conv :: "'i \<Rightarrow> Index"
  assumes conv_name: "ix_Name (conv d) = iname d"

sublocale lite_indexes \<subseteq> planner: named_planner iname ix_Name "lite_index_same conv" conv
  by unfold_locales (simp_all add: conv_name lite_index_same_def)

context lite_indexes
begin

lemma statements_render_plan:
  assumes "distinct (map ix_Name cur)"
  shows "concat (map (\<lambda>d. lite_desired_index_statements remove (add d) (conv d) cur) ds) @
     map remove (filter (\<lambda>c. \<not> list_ex (\<lambda>d. ix_Name c = iname d) ds) cur) =
   map (rendered remove add) (named_plan iname ix_Name (lite_index_same conv) ds cur)"
proof -
  have "concat (map (\<lambda>d. lite_desired_index_statements remove (add d) (conv d) cur) ds) =
      map (rendered remove add) (fst (desired_pass iname ix_Name (lite_index_same conv) cur ds))"
    by (induction ds)
       (auto simp: lite_desired_index_statements_alt [OF assms] conv_name lite_index_same_def case_prod_beta split: option.splits)
  moreover have "filter (\<lambda>c. \<not> list_ex (\<lambda>d. ix_Name c = iname d) ds) cur =
      filter (\<lambda>c. ix_Name c \<notin> iname ` set ds) cur"
    by (rule filter_cong) (auto simp: list_ex_iff)
  ultimately show ?thesis by (simp add: named_plan_alt comp_def)
qed

lemma in_step_no_constraint:
  assumes "distinct (map ix_Name cur)" "in_step iname ix_Name (lite_index_same conv) (map name ds) cur"
  shows "lite_desired_indexes isC name conv cur ds = Inr (False, map name ds)"
  using assms(2) unfolding in_step_def
proof (elim conjE)
  assume "list_all (\<lambda>d. case find (\<lambda>c. ix_Name c = iname d) cur of Some c \<Rightarrow> lite_index_same conv d c | None \<Rightarrow> False) (map name ds)"
  then show ?thesis
  proof (induction ds)
    case (Cons d ds)
    then obtain c where "find (\<lambda>c. ix_Name c = iname (name d)) cur = Some c" "Index_Equals c (conv (name d))"
      by (auto simp: lite_index_same_def split: option.splits)
    then have "lite_changed_constraint isC (conv (name d)) cur = Inr False"
      using lite_changed_constraint_found [OF _ _ assms(1)] catalog_of_SomeD [of ix_Name cur] by (metis find_catalog_of)
    then show ?case using Cons by simp
  qed simp
qed

end

section \<open>A table in sync\<close>

text \<open>What the comparison of columns looks at: two columns match exactly when these are the same.\<close>

definition lite_column_key :: "Column \<Rightarrow> string \<times> string \<times> string option \<times> bool \<times> bool" where
  "lite_column_key col =
     (ToLower (col_DataType col), col_Collation col, col_ColumnDefault col, not_null_of col = Some True,
      lite_attr_of col = Some True)"

lemma lite_columnsMatch_iff: "lite_columnsMatch c d \<longleftrightarrow> lite_column_key c = lite_column_key d"
  by (auto simp: lite_columnsMatch_def lite_column_key_def EqualFold_def bools.same_iff)

text \<open>
  The catalog has the desired key and foreign keys, the columns have the same names and keys,
  and the indexes are in step.
\<close>

definition lite_columns_in_sync :: "Column list \<Rightarrow> Column list \<Rightarrow> bool" where
  "lite_columns_in_sync existing desired \<longleftrightarrow>
     list_all (\<lambda>d. list_ex (\<lambda>e. col_Name e = col_Name d) existing) desired \<and>
     list_all (\<lambda>e. case find (\<lambda>d. col_Name e = col_Name d) desired of
        Some d \<Rightarrow> lite_column_key d = lite_column_key e
      | None \<Rightarrow> False) existing"

definition lite_keys_in_sync :: "string list \<Rightarrow> ForeignKey list \<Rightarrow> string list \<Rightarrow> ForeignKey list \<Rightarrow> bool" where
  "lite_keys_in_sync pk fks desired_pk desired_fks \<longleftrightarrow>
     mset pk = mset desired_pk \<and> length fks = length desired_fks \<and>
     list_all (\<lambda>d. list_ex (\<lambda>e. ForeignKey_Equals e d) fks) desired_fks"

lemma lite_primary_key_changed_iff:
  assumes "distinct desired"
  shows "lite_primary_key_changed existing desired \<longleftrightarrow> mset existing \<noteq> mset desired"
proof -
  have "list_all (\<lambda>d. list_ex (\<lambda>e. e = d) existing) desired \<longleftrightarrow> columns_found existing desired"
    by (auto simp: columns_found_iff list_all_iff list_ex_iff)
  then show ?thesis
    using columns_found_perm [OF assms, of existing] mset_eq_length [of existing desired]
    by (auto simp: lite_primary_key_changed_def)
qed

lemma lite_keys_in_sync_iff:
  assumes "distinct desired_pk"
  shows "lite_keys_in_sync pk fks desired_pk desired_fks \<longleftrightarrow>
    \<not> lite_primary_key_changed pk desired_pk \<and> \<not> lite_foreign_keys_changed fks desired_fks"
  by (auto simp: lite_keys_in_sync_def lite_primary_key_changed_iff [OF assms] lite_foreign_keys_changed_def)

lemma lite_columns_in_sync_iff:
  "lite_columns_in_sync existing desired \<longleftrightarrow>
     \<not> lite_columns_modified existing desired \<and>
     filter (\<lambda>d. \<not> list_ex (\<lambda>e. col_Name e = col_Name d) existing) desired = [] \<and>
     filter (\<lambda>e. \<not> list_ex (\<lambda>d. col_Name e = col_Name d) desired) existing = []"
proof -
  have "find (\<lambda>d. col_Name e = col_Name d) desired = None \<longleftrightarrow> \<not> list_ex (\<lambda>d. col_Name e = col_Name d) desired" for e
    by (auto simp: find_None_iff list_ex_iff)
  then show ?thesis
    by (fastforce simp: lite_columns_in_sync_def lite_columns_modified_def filter_empty_conv list_all_iff
        list_ex_iff [of _ existing] lite_columnsMatch_iff split: option.splits)
qed

end
