(* ===== verification/Sq_Plan.thy ===== *)
theory Sq_Plan
  imports Lite_Common Sha256
begin

text \<open>
  The SQLite plugin: src/plugins/sqlite/lib (column.go, create.go, foreignkey.go, index.go, tables.go,
  alter.go, deploy.go, connection.go). The loops it shares with the rqlite plugin are in \<open>Lite_Common\<close>.
  A function that has the name of one of the PostgreSQL plugin carries the prefix \<open>sq_\<close>.

  The server is a parameter: \<open>SqServer\<close> answers each query as a function of its arguments. \<open>SqEnv\<close> has
  the driver's Open, the JSON encoder that the hash of a schema is made of, and the order in which Go
  iterates over the maps of indexes and foreign keys.
\<close>

section \<open>Columns (column.go)\<close>

text \<open>The conversion of a column never fails; the error it returns is always nil.\<close>

definition sq_schemaColumnToColumn :: "SqliteTableColumn \<Rightarrow> Column" where
  "sq_schemaColumnToColumn schemaColumn =
     \<lparr> col_Name = scol_Name schemaColumn, col_DataType = scol_Type schemaColumn,
       col_ColumnDefault = scol_Default schemaColumn,
       col_Constraints = map_option (\<lambda>c. \<lparr> cc_NotNull = scc_NotNull c \<rparr>) (scol_Constraints schemaColumn),
       col_Attributes = map_option (\<lambda>a. \<lparr> ca_AutoIncrement = sca_AutoIncrement a \<rparr>) (scol_Attributes schemaColumn),
       col_IsArray = False, col_Charset = [], col_Collation = [], col_IsStatic = False \<rparr>"

definition sqliteColumnAsInsert :: "SqliteTableColumn \<Rightarrow> string" where
  "sqliteColumnAsInsert column =
     (let sqliteColumn = sq_schemaColumnToColumn column;
          formatted = dquoted (scol_Name column) @ '' '' @ col_DataType sqliteColumn;
          formatted = (if col_Collation sqliteColumn \<noteq> [] then formatted @ '' collate '' @ col_Collation sqliteColumn
                       else formatted);
          formatted = (case not_null_of sqliteColumn of
                         None \<Rightarrow> formatted
                       | Some True \<Rightarrow> formatted @ '' not null''
                       | Some False \<Rightarrow> formatted @ '' null'');
          formatted = (if lite_attr_of sqliteColumn = Some True then formatted @ '' autoincrement'' else formatted)
      in case col_ColumnDefault sqliteColumn of
           None \<Rightarrow> formatted
         | Some d \<Rightarrow> formatted @ '' default '' @ [squote] @ d @ [squote])"

definition sq_InsertColumnStatement :: "string \<Rightarrow> SqliteTableColumn \<Rightarrow> string" where
  "sq_InsertColumnStatement tableName desiredColumn =
     ''alter table '' @ dquoted tableName @ '' add column '' @ sqliteColumnAsInsert desiredColumn"

definition sq_DropColumnStatement :: "string \<Rightarrow> Column \<Rightarrow> string" where
  "sq_DropColumnStatement tableName existingColumn =
     ''alter table '' @ dquoted tableName @ '' drop column '' @ dquoted (col_Name existingColumn)"

section \<open>Foreign keys, indexes and new tables (foreignkey.go, index.go, create.go)\<close>

definition sq_foreignKeyConstraintClause :: "string \<Rightarrow> SqliteTableForeignKey \<Rightarrow> string" where
  "sq_foreignKeyConstraintClause tableName fk =
     (let onDelete = (if sfk_OnDelete fk \<noteq> [] then '' on delete '' @ sfk_OnDelete fk else [])
      in ''constraint '' @ GenerateSqliteFKName tableName fk @ '' foreign key ('' @ Join (sfk_Columns fk) '', '' @
         '') references '' @ sfr_Table (sfk_References fk) @ '' ('' @ Join (sfr_Columns (sfk_References fk)) '', '' @
         '')'' @ onDelete)"

definition sq_RemoveIndexStatement :: "string \<Rightarrow> Index \<Rightarrow> string" where
  "sq_RemoveIndexStatement tableName index =
     (if ix_IsUnique index then ''drop index if exists '' @ ix_Name index else ''drop index '' @ ix_Name index)"

definition sq_index_name :: "string \<Rightarrow> SqliteTableIndex \<Rightarrow> string" where
  "sq_index_name tableName index =
     (if six_Name index = [] then GenerateSqliteIndexName tableName index else six_Name index)"

definition sq_AddIndexStatement :: "string \<Rightarrow> SqliteTableIndex \<Rightarrow> string" where
  "sq_AddIndexStatement tableName index =
     ''create '' @ (if six_IsUnique index then ''unique '' else []) @ ''index '' @ sq_index_name tableName index @
     '' on '' @ tableName @ '' ('' @ Join (six_Columns index) '', '' @ '')''"

text \<open>A value with neither an int nor a string adds a column and no value.\<close>

definition sq_seed_row :: "string \<Rightarrow> SeedDataRow \<Rightarrow> string" where
  "sq_seed_row tableName row =
     (let cols = map sdc_Column row;
          vals = concat (map (\<lambda>col.
            case (sdv_Int (sdc_Value col), sdv_Str (sdc_Value col)) of
              (Some i, _) \<Rightarrow> [Itoa i]
            | (None, Some str) \<Rightarrow> [[squote] @ str @ [squote]]
            | (None, None) \<Rightarrow> []) row)
      in ''replace into '' @ tableName @ '' ('' @ Join cols '', '' @ '') values ('' @ Join vals '', '' @ '')'')"

definition sq_SeedDataStatements :: "string \<Rightarrow> SeedData \<Rightarrow> string list" where
  "sq_SeedDataStatements tableName seedData = map (sq_seed_row tableName) seedData"

definition sq_CreateTableStatements :: "string \<Rightarrow> SqliteTableSchema \<Rightarrow> string list" where
  "sq_CreateTableStatements tableName schema =
     (let columns = map sqliteColumnAsInsert (sts_Columns schema) @
            (if sts_PrimaryKey schema \<noteq> []
             then [''primary key ('' @ Join (map dquoted (sts_PrimaryKey schema)) '', '' @ '')''] else []) @
            map (sq_foreignKeyConstraintClause tableName) (sts_ForeignKeys schema);
          query = ''create table '' @ dquoted tableName @ '' ('' @ Join columns '', '' @ '')'';
          query = (if sts_Strict schema then query @ '' strict'' else query)
      in query # map (sq_AddIndexStatement tableName) (sts_Indexes schema))"

section \<open>The server and connections (connection.go)\<close>

record SqServer =
  sqs_tables :: "string rows"
  sqs_table_count :: "string \<Rightarrow> int result"
  sqs_column_rows :: "string \<Rightarrow> LiteColumnRow rows"
  sqs_indexes :: "string \<Rightarrow> (string \<times> bool \<times> string) rows"
  sqs_index_origin :: "string \<Rightarrow> string \<Rightarrow> string result"
  sqs_foreign_keys :: "string \<Rightarrow> LiteForeignKeyRow rows"
  sqs_primary_key :: "string \<Rightarrow> string rows"
  sqs_schema :: "string \<Rightarrow> (string \<times> string \<times> string option \<times> bool) rows"
  sqs_version :: "string result"
  sqs_ping :: "unit result"

record SqEnv =
  sqe_open :: "string \<Rightarrow> SqServer result"
  sqe_marshal :: "SqliteTableSchema \<Rightarrow> string result"
  sqe_index_order :: "Index list \<Rightarrow> Index list"
  sqe_fk_order :: "ForeignKey list \<Rightarrow> ForeignKey list"

record SqliteConnection =
  sqc_db :: "SqServer option"
  sqc_uri :: string

definition sq_Connect :: "SqEnv \<Rightarrow> string \<Rightarrow> SqliteConnection result" where
  "sq_Connect env dsn = bindE (sqe_open env dsn) (\<lambda>db. Inr \<lparr> sqc_db = Some db, sqc_uri = dsn \<rparr>)"

text \<open>Reading through a connection without a database is a nil dereference.\<close>

definition sq_query :: "SqliteConnection \<Rightarrow> (SqServer \<Rightarrow> 'a result) \<Rightarrow> 'a result" where
  "sq_query s q = (case sqc_db s of Some db \<Rightarrow> q db | None \<Rightarrow> nil_dereference)"

definition sq_IsConnected :: "SqliteConnection \<Rightarrow> bool" where
  "sq_IsConnected s = (case sqc_db s of None \<Rightarrow> False | Some db \<Rightarrow> (case sqs_ping db of Inr _ \<Rightarrow> True | Inl _ \<Rightarrow> False))"

definition sq_EngineVersion :: "SqliteConnection \<Rightarrow> string" where
  "sq_EngineVersion s =
     (case sqc_db s of
        None \<Rightarrow> ''fixture-only''
      | Some db \<Rightarrow> (case sqs_version db of Inr version \<Rightarrow> version | Inl _ \<Rightarrow> ''unknown''))"

section \<open>Listing catalog objects (tables.go)\<close>

definition sq_ListTables :: "SqliteConnection \<Rightarrow> Table list result" where
  "sq_ListTables s =
     sq_query s (\<lambda>db. query_rows ''failed to query'' (wrap_error ''failed to scan row'')
       (\<lambda>tableName. \<lparr> tb_Name = tableName, tb_Schema = [], tb_Charset = [], tb_Collation = [] \<rparr>) (sqs_tables db))"

definition sq_ListTableIndexes :: "SqEnv \<Rightarrow> SqliteConnection \<Rightarrow> string \<Rightarrow> Index list result" where
  "sq_ListTableIndexes env s tableName =
     sq_query s (\<lambda>db. bindE (query_rows ''failed to query indexes'' (\<lambda>e. e) (\<lambda>row. row) (sqs_indexes db tableName))
       (\<lambda>rows. Inr (sqe_index_order env (foldl add_index_row [] rows))))"

definition sq_IndexIsAConstraint :: "SqliteConnection \<Rightarrow> string \<Rightarrow> string \<Rightarrow> bool result" where
  "sq_IndexIsAConstraint s tableName indexName =
     sq_query s (\<lambda>db. bindE (wrapE ''failed to scan'' (sqs_index_origin db tableName indexName)) (\<lambda>origin.
       Inr (origin \<noteq> ''c'')))"

definition sq_ListTableForeignKeys :: "SqEnv \<Rightarrow> SqliteConnection \<Rightarrow> string \<Rightarrow> ForeignKey list result" where
  "sq_ListTableForeignKeys env s tableName =
     sq_query s (\<lambda>db. bindE (query_rows ''failed to query foreign keys'' (\<lambda>e. e) (\<lambda>row. row) (sqs_foreign_keys db tableName))
       (\<lambda>rows. Inr (sqe_fk_order env (map snd (foldl lite_add_fk_row [] rows)))))"

definition sq_GetTablePrimaryKey :: "SqliteConnection \<Rightarrow> string \<Rightarrow> KeyConstraint option result" where
  "sq_GetTablePrimaryKey s tableName =
     sq_query s (\<lambda>db. bindE (query_rows ''failed to query primary keys'' (wrap_error ''failed to scan'') (\<lambda>row. row)
       (sqs_primary_key db tableName))
       (\<lambda>rows. Inr (if rows = [] then None else Some \<lparr> kc_Name = [], kc_Columns = rows, kc_IsPrimary = True \<rparr>)))"

definition sq_GetTablePrimaryKeyColumns :: "SqliteConnection \<Rightarrow> string \<Rightarrow> string list result" where
  "sq_GetTablePrimaryKeyColumns s tableName =
     bindE (wrapE ''failed to get primary key'' (sq_GetTablePrimaryKey s tableName)) (\<lambda>primaryKey.
       Inr (case primaryKey of None \<Rightarrow> [] | Some k \<Rightarrow> kc_Columns k))"

definition sq_GetTableSchema :: "SqliteConnection \<Rightarrow> string \<Rightarrow> Column list result" where
  "sq_GetTableSchema s tableName =
     sq_query s (\<lambda>db. query_rows ''failed to query table schema'' (\<lambda>e. e) lite_schema_column (sqs_schema db tableName))"

section \<open>Changing a table (alter.go, deploy.go)\<close>

definition sq_RecreateTableStatements :: "SqEnv \<Rightarrow> string \<Rightarrow> SqliteTableSchema \<Rightarrow> string list result" where
  "sq_RecreateTableStatements env tableName schema =
     bindE (wrapE ''failed to marshal'' (sqe_marshal env schema)) (\<lambda>b.
       let tempTableName = tableName @ ''_'' @ sha256_hex b;
           columnNames = map scol_Name (sts_Columns schema)
       in Inr ([''begin transaction''] @
               [''alter table '' @ dquoted tableName @ '' rename to '' @ dquoted tempTableName] @
               sq_CreateTableStatements tableName schema @
               [''insert into '' @ tableName @ '' ('' @ Join columnNames '', '' @ '') select '' @
                Join columnNames '', '' @ '' from '' @ tempTableName,
                ''drop table '' @ tempTableName, ''commit'']))"

definition sq_name_index :: "string \<Rightarrow> SqliteTableIndex \<Rightarrow> SqliteTableIndex" where
  "sq_name_index tableName index = index \<lparr> six_Name := sq_index_name tableName index \<rparr>"

definition sq_BuildAlterIndexStatements :: "SqEnv \<Rightarrow> SqliteConnection \<Rightarrow> string \<Rightarrow> SqliteTableSchema \<Rightarrow> string list result" where
  "sq_BuildAlterIndexStatements env r tableName schema =
     bindE (wrapE ''failed to list table indexes'' (sq_ListTableIndexes env r tableName)) (\<lambda>currentIndexes.
       let indexes = map (sq_name_index tableName) (sts_Indexes schema)
       in Inr (concat (map (\<lambda>desiredIndex.
                 lite_desired_index_statements (sq_RemoveIndexStatement tableName) (sq_AddIndexStatement tableName desiredIndex)
                   (SqliteSchemaIndexToIndex desiredIndex) currentIndexes) indexes) @
               map (sq_RemoveIndexStatement tableName)
                 (filter (\<lambda>currentIndex. \<not> list_ex (\<lambda>desiredIndex. ix_Name currentIndex = six_Name desiredIndex) indexes)
                    currentIndexes)))"

text \<open>Whether the table must be recreated, with the schema in which index names were stored.\<close>

definition sq_checkTableNeedsRecreate ::
  "SqEnv \<Rightarrow> SqliteConnection \<Rightarrow> string \<Rightarrow> SqliteTableSchema \<Rightarrow> Column list \<Rightarrow> (bool \<times> SqliteTableSchema) result" where
  "sq_checkTableNeedsRecreate env s tableName schema existingColumns =
     bindE (wrapE ''failed to get table primary key'' (sq_GetTablePrimaryKeyColumns s tableName)) (\<lambda>existingPrimaryKey.
     if lite_primary_key_changed existingPrimaryKey (sts_PrimaryKey schema) then Inr (True, schema)
     else bindE (wrapE ''failed to list table foreign keys'' (sq_ListTableForeignKeys env s tableName)) (\<lambda>existingForeignKeys.
     if lite_foreign_keys_changed existingForeignKeys (map SqliteSchemaForeignKeyToForeignKey (sts_ForeignKeys schema))
     then Inr (True, schema)
     else if lite_columns_modified existingColumns (map sq_schemaColumnToColumn (sts_Columns schema)) then Inr (True, schema)
     else bindE (wrapE ''failed to list table indexes'' (sq_ListTableIndexes env s tableName)) (\<lambda>currentIndexes.
     bindE (lite_desired_indexes (sq_IndexIsAConstraint s tableName) (sq_name_index tableName) SqliteSchemaIndexToIndex
              currentIndexes (sts_Indexes schema)) (\<lambda>(needed, indexes).
     let schema = schema \<lparr> sts_Indexes := indexes \<rparr>
     in if needed then Inr (True, schema)
        else bindE (lite_removed_constraint (sq_IndexIsAConstraint s tableName) (map six_Name indexes) currentIndexes)
               (\<lambda>needed. Inr (needed, schema))))))"

text \<open>An existing table that is not recreated: new columns, indexes, and then the columns to drop.\<close>

definition sq_alter_in_place ::
  "SqEnv \<Rightarrow> SqliteConnection \<Rightarrow> string \<Rightarrow> SqliteTableSchema \<Rightarrow> Column list \<Rightarrow> string list result" where
  "sq_alter_in_place env s tableName schema existingColumns =
     bindE (wrapE ''failed to build alter index statements'' (sq_BuildAlterIndexStatements env s tableName schema))
       (\<lambda>indexStatements.
          Inr (map (sq_InsertColumnStatement tableName)
                 (filter (\<lambda>desired. \<not> list_ex (\<lambda>existing. col_Name existing = scol_Name desired) existingColumns)
                    (sts_Columns schema)) @
               indexStatements @
               map (sq_DropColumnStatement tableName)
                 (filter (\<lambda>existing. \<not> list_ex (\<lambda>desired. col_Name existing = scol_Name desired) (sts_Columns schema))
                    existingColumns)))"

definition sq_buildStatements :: "SqEnv \<Rightarrow> SqliteConnection \<Rightarrow> string \<Rightarrow> SqliteTableSchema \<Rightarrow> string list result" where
  "sq_buildStatements env s tableName schema =
     bindE (sq_query s (\<lambda>db. query_rows ''failed to query from sqlite_master'' (wrap_error ''failed to scan'')
       lite_existing_column (sqs_column_rows db tableName))) (\<lambda>existingColumns.
     bindE (wrapE ''failed to check if table needs recreate''
              (sq_checkTableNeedsRecreate env s tableName schema existingColumns)) (\<lambda>(tableNeedsRecreate, schema).
       if tableNeedsRecreate
       then wrapE ''failed to create recreate table statements'' (sq_RecreateTableStatements env tableName schema)
       else sq_alter_in_place env s tableName schema existingColumns))"

section \<open>Plans and execution (deploy.go)\<close>

definition sq_table_count :: "string \<Rightarrow> SqliteConnection \<Rightarrow> string \<Rightarrow> int result" where
  "sq_table_count msg s tableName = wrapE msg (sq_query s (\<lambda>db. sqs_table_count db tableName))"

definition sq_seed_statements :: "string \<Rightarrow> SeedData option \<Rightarrow> string list" where
  "sq_seed_statements tableName seedData =
     (case seedData of None \<Rightarrow> [] | Some sd \<Rightarrow> sq_SeedDataStatements tableName sd)"

definition PlanSqliteTable ::
  "SqEnv \<Rightarrow> string \<Rightarrow> string \<Rightarrow> SqliteTableSchema \<Rightarrow> SeedData option \<Rightarrow> string list result" where
  "PlanSqliteTable env dsn tableName schema seedData =
     bindE (wrapE ''failed to connect to sqlite'' (sq_Connect env dsn)) (\<lambda>s.
     bindE (sq_table_count ''failed to scan'' s tableName) (\<lambda>tableExists.
       if tableExists = 0 \<and> sts_IsDeleted schema then Inr []
       else if tableExists > 0 \<and> sts_IsDeleted schema then Inr [''drop table '' @ dquoted tableName]
       else if tableExists = 0
       then Inr (sq_CreateTableStatements tableName schema @ sq_seed_statements tableName seedData)
       else bindE (wrapE ''failed to build column statements'' (sq_buildStatements env s tableName schema)) (\<lambda>statements.
              Inr (statements @ sq_seed_statements tableName seedData))))"

definition PlanSqliteTableSeedDataOnly :: "SqEnv \<Rightarrow> string \<Rightarrow> string \<Rightarrow> SeedData option \<Rightarrow> string list result" where
  "PlanSqliteTableSeedDataOnly env dsn tableName seedData =
     (case seedData of
        None \<Rightarrow> Inr []
      | Some sd \<Rightarrow>
          bindE (wrapE ''failed to connect to sqlite'' (sq_Connect env dsn)) (\<lambda>s.
          bindE (sq_table_count ''failed to check if table exists'' s tableName) (\<lambda>tableExists.
            if tableExists = 0
            then Inl (ErrNew (''table '' @ tableName @ '' does not exist, cannot apply seed data without schema''))
            else Inr (sq_SeedDataStatements tableName sd))))"

definition PlanSqliteView :: "string \<Rightarrow> string \<Rightarrow> string list result" where
  "PlanSqliteView dsn viewName = Inl (ErrNew ''not implemented'')"

fun sq_executeStatements ::
  "(string \<Rightarrow> 'db \<Rightarrow> go_error option \<times> 'db) \<Rightarrow> string list \<Rightarrow> 'db \<Rightarrow> go_error option \<times> 'db" where
  "sq_executeStatements exec [] db = (None, db)"
| "sq_executeStatements exec (statement # rest) db =
     (if statement = [] then sq_executeStatements exec rest db
      else (case exec statement db of
              (Some e, db') \<Rightarrow> (Some (wrap_error ''failed to execute'' e), db')
            | (None, db') \<Rightarrow> sq_executeStatements exec rest db'))"

definition DeploySqliteStatements ::
  "SqEnv \<Rightarrow> (string \<Rightarrow> 'db \<Rightarrow> go_error option \<times> 'db) \<Rightarrow> string \<Rightarrow> string list \<Rightarrow> 'db \<Rightarrow> go_error option \<times> 'db" where
  "DeploySqliteStatements env exec dsn statements db =
     (case sq_Connect env dsn of
        Inl e \<Rightarrow> (Some e, db)
      | Inr s \<Rightarrow>
          (case sq_executeStatements exec statements db of
             (Some e, db') \<Rightarrow> (Some (wrap_error ''failed to execute statements'' e), db')
           | (None, db') \<Rightarrow> (None, db')))"


section \<open>Entry points (connection.go)\<close>

definition sq_PlanTableSchema ::
  "SqEnv \<Rightarrow> SqliteConnection \<Rightarrow> string \<Rightarrow> schema_iface \<Rightarrow> SeedData option \<Rightarrow> string list result" where
  "sq_PlanTableSchema env s tableName tableSchema seedData =
     (if tableSchema = NilInterface \<and> seedData \<noteq> None
      then PlanSqliteTableSeedDataOnly env (sqc_uri s) tableName seedData
      else (case tableSchema of
              SqliteTable schema \<Rightarrow>
                (case schema of
                   Some schema \<Rightarrow> PlanSqliteTable env (sqc_uri s) tableName schema seedData
                 | None \<Rightarrow>
                     bindE (wrapE ''failed to connect to sqlite'' (sq_Connect env (sqc_uri s))) (\<lambda>s'.
                     bindE (sq_table_count ''failed to scan'' s' tableName) (\<lambda>_. nil_dereference)))
            | _ \<Rightarrow> Inl (ErrNew (''expected SqliteTableSchema, got '' @ dynamic_type tableSchema))))"

definition sq_PlanViewSchema :: "SqliteConnection \<Rightarrow> string \<Rightarrow> schema_iface \<Rightarrow> string list result" where
  "sq_PlanViewSchema s viewName viewSchema = Inl (ErrNew ''SQLite view planning not yet implemented'')"

definition sq_PlanTypeSchema :: "SqliteConnection \<Rightarrow> string \<Rightarrow> schema_iface \<Rightarrow> string list result" where
  "sq_PlanTypeSchema s typeName typeSchema = Inl (ErrNew ''type schemas are not supported in SQLite'')"

definition sq_PlanFunctionSchema :: "SqliteConnection \<Rightarrow> string \<Rightarrow> schema_iface \<Rightarrow> string list result" where
  "sq_PlanFunctionSchema s functionName functionSchema = Inl (ErrNew ''SQLite does not support stored functions'')"

definition sq_PlanExtensionSchema :: "SqliteConnection \<Rightarrow> string \<Rightarrow> schema_iface \<Rightarrow> string list result" where
  "sq_PlanExtensionSchema s extensionName extensionSchema = Inl (ErrNew ''SQLite does not support extensions'')"

definition sq_GenerateFixtures :: "TableSpec \<Rightarrow> string list result" where
  "sq_GenerateFixtures spec =
     (case Option.bind (tsp_Schema spec) ts_SQLite of
        None \<Rightarrow> Inr []
      | Some s \<Rightarrow>
          if sts_IsDeleted s then Inr []
          else Inr (sq_CreateTableStatements (tsp_Name spec) s @ sq_seed_statements (tsp_Name spec) (tsp_SeedData spec)))"

definition sq_NewFixtureOnlyConnection :: "SqliteConnection" where
  "sq_NewFixtureOnlyConnection = \<lparr> sqc_db = None, sqc_uri = '':memory:'' \<rparr>"

end
