(* ===== verification/Lite_Recreate.thy ===== *)
theory Lite_Recreate
  imports Lite_Common Sha256 Database_Sync "HOL-Library.Multiset"
begin

text \<open>
  Recreating a table. SQLite cannot change a column in place, so alter.go of the SQLite plugin renames the table,
  creates it anew with its indexes, copies the rows and drops the renamed table.

  The server is not part of the program. It is given by the function that executes a text and by the view \<open>tbl\<close> of a
  table in a state: its columns and its rows, a row being a map from columns to values. What the recreation relies
  on is stated for each text, for the case that the text is executed without an error and only for the two tables
  that it names. \<open>stored c v v'\<close> says that the value \<open>v\<close> is read back as \<open>v'\<close> after it was inserted into the column \<open>c\<close>, since
  the server converts a value by the affinity of the column.
\<close>

type_synonym 'v table_view = "(string list \<times> (string \<rightharpoonup> 'v) multiset) option"

section \<open>What is assumed of the texts\<close>

definition leaves_tables ::
  "('db \<Rightarrow> string \<Rightarrow> 'v table_view) \<Rightarrow> (string \<Rightarrow> 'db \<Rightarrow> go_error option \<times> 'db) \<Rightarrow> string list \<Rightarrow> string \<Rightarrow> bool" where
  "leaves_tables tbl exec ts stmt \<longleftrightarrow>
     (\<forall>db db'. exec stmt db = (None, db') \<longrightarrow> (\<forall>t \<in> set ts. tbl db' t = tbl db t))"

definition renames_table ::
  "('db \<Rightarrow> string \<Rightarrow> 'v table_view) \<Rightarrow> (string \<Rightarrow> 'db \<Rightarrow> go_error option \<times> 'db) \<Rightarrow> string \<Rightarrow> string \<Rightarrow> string \<Rightarrow> bool" where
  "renames_table tbl exec a b stmt \<longleftrightarrow>
     (\<forall>db db'. exec stmt db = (None, db') \<longrightarrow> tbl db a \<noteq> None \<and> tbl db' b = tbl db a \<and> tbl db' a = None)"

definition creates_table ::
  "('db \<Rightarrow> string \<Rightarrow> 'v table_view) \<Rightarrow> (string \<Rightarrow> 'db \<Rightarrow> go_error option \<times> 'db) \<Rightarrow> string \<Rightarrow> string list \<Rightarrow> string \<Rightarrow> string \<Rightarrow> bool" where
  "creates_table tbl exec a cols b stmt \<longleftrightarrow>
     (\<forall>db db'. exec stmt db = (None, db') \<longrightarrow> tbl db' a = Some (cols, {#}) \<and> tbl db' b = tbl db b)"

definition copied_row :: "(string \<Rightarrow> 'v \<Rightarrow> 'v \<Rightarrow> bool) \<Rightarrow> string list \<Rightarrow> (string \<rightharpoonup> 'v) \<Rightarrow> (string \<rightharpoonup> 'v) \<Rightarrow> bool" where
  "copied_row stored cols r r' \<longleftrightarrow>
     dom r' \<subseteq> set cols \<and> (\<forall>c \<in> set cols. \<exists>v v'. r c = Some v \<and> r' c = Some v' \<and> stored c v v')"

definition copies_rows ::
  "('db \<Rightarrow> string \<Rightarrow> 'v table_view) \<Rightarrow> (string \<Rightarrow> 'v \<Rightarrow> 'v \<Rightarrow> bool) \<Rightarrow> (string \<Rightarrow> 'db \<Rightarrow> go_error option \<times> 'db) \<Rightarrow>
   string \<Rightarrow> string list \<Rightarrow> string \<Rightarrow> string \<Rightarrow> bool" where
  "copies_rows tbl stored exec a cols b stmt \<longleftrightarrow>
     (\<forall>db db' acols bcols arows brows.
        exec stmt db = (None, db') \<and> tbl db a = Some (acols, arows) \<and> tbl db b = Some (bcols, brows) \<longrightarrow>
        tbl db' b = tbl db b \<and>
        (\<exists>new. tbl db' a = Some (acols, arows + new) \<and> rel_mset (copied_row stored cols) brows new))"

definition drops_table ::
  "('db \<Rightarrow> string \<Rightarrow> 'v table_view) \<Rightarrow> (string \<Rightarrow> 'db \<Rightarrow> go_error option \<times> 'db) \<Rightarrow> string \<Rightarrow> string \<Rightarrow> string \<Rightarrow> bool" where
  "drops_table tbl exec b a stmt \<longleftrightarrow>
     (\<forall>db db'. exec stmt db = (None, db') \<longrightarrow> tbl db' b = None \<and> tbl db' a = tbl db a)"

lemmas recreation_laws = leaves_tables_def renames_table_def creates_table_def copies_rows_def drops_table_def

section \<open>A recreation that succeeds\<close>

context deployment
begin

lemma deploy_append_ok:
  "deploy (xs @ ys) db = (None, db') \<longleftrightarrow> (\<exists>mid. deploy xs db = (None, mid) \<and> deploy ys mid = (None, db'))"
  by (auto simp: deploy_append split: prod.splits option.splits)

lemma deploy_step_ok:
  "deploy (s # ss) db = (None, db') \<longleftrightarrow>
     (if s = [] then deploy ss db = (None, db') else \<exists>mid. exec s db = (None, mid) \<and> deploy ss mid = (None, db'))"
  by (auto simp: deploy_Cons split: prod.splits option.splits)

lemma deploy_leaves:
  assumes "\<And>s. s \<in> set ss \<Longrightarrow> leaves_tables tbl exec ts s" "deploy ss db = (None, db')" "t \<in> set ts"
  shows "tbl db' t = tbl db t"
  using assms(1,2)
proof (induction ss arbitrary: db)
  case (Cons s ss)
  show ?case
  proof (cases "s = []")
    case True
    then show ?thesis using Cons.IH [of db] Cons.prems by (simp add: deploy_step_ok)
  next
    case False
    then obtain mid where mid: "exec s db = (None, mid)" "deploy ss mid = (None, db')"
      using Cons.prems(2) by (auto simp: deploy_step_ok)
    then have "tbl mid t = tbl db t" using Cons.prems(1) [of s] assms(3) by (simp add: leaves_tables_def)
    then show ?thesis using Cons.IH [of mid] Cons.prems(1) mid(2) by simp
  qed
qed (simp add: deploy_Nil)

lemma recreation_keeps_rows:
  assumes "renames_table tbl exec t temp ren" "creates_table tbl exec t cols temp create"
    and "copies_rows tbl stored exec t cols temp copy" "drops_table tbl exec temp t drp"
    and "\<And>s. s \<in> set (pre @ indexes @ post) \<Longrightarrow> leaves_tables tbl exec [t, temp] s"
    and "ren \<noteq> []" "create \<noteq> []" "copy \<noteq> []" "drp \<noteq> []"
    and run: "deploy (pre @ [ren, create] @ indexes @ [copy, drp] @ post) db = (None, db')"
  shows "\<exists>old rows rows'. tbl db t = Some (old, rows) \<and> tbl db' t = Some (cols, rows') \<and> tbl db' temp = None \<and>
    rel_mset (copied_row stored cols) rows rows'"
proof -
  obtain d1 d2 d3 d4 d5 d6 where steps: "deploy pre db = (None, d1)" "exec ren d1 = (None, d2)" "exec create d2 = (None, d3)"
      "deploy indexes d3 = (None, d4)" "exec copy d4 = (None, d5)" "exec drp d5 = (None, d6)" "deploy post d6 = (None, db')"
    using run assms(6-9) by (auto simp: deploy_append_ok deploy_step_ok deploy_Nil)
  have 1: "tbl d1 t = tbl db t" by (rule deploy_leaves [OF _ steps(1)]) (use assms(5) in auto)
  have 4: "tbl d4 u = tbl d3 u" if "u = t \<or> u = temp" for u
    by (rule deploy_leaves [OF _ steps(4)]) (use assms(5) that in auto)
  have 7: "tbl db' u = tbl d6 u" if "u = t \<or> u = temp" for u
    by (rule deploy_leaves [OF _ steps(7)]) (use assms(5) that in auto)
  have 2: "tbl d1 t \<noteq> None" "tbl d2 temp = tbl d1 t" using assms(1) steps(2) by (simp_all add: renames_table_def)
  then obtain old rows where rows: "tbl db t = Some (old, rows)" "tbl d2 temp = Some (old, rows)" using 1 by auto
  have 3: "tbl d3 t = Some (cols, {#})" "tbl d3 temp = Some (old, rows)"
    using assms(2) steps(3) rows(2) by (auto simp: creates_table_def)
  obtain new where "tbl d5 t = Some (cols, {#} + new)" "rel_mset (copied_row stored cols) rows new"
    using assms(3) steps(5) 3 4 unfolding copies_rows_def by metis
  moreover have "tbl db' t = tbl d5 t" "tbl db' temp = None"
    using assms(4) steps(6) 7 by (auto simp: drops_table_def)
  ultimately show ?thesis using rows(1) by simp
qed

end

end
