(* ===== verification/Sq_Correct.thy ===== *)
theory Sq_Correct
  imports Sq_Plan Lite_Recreate
begin

text \<open>
  Properties of the SQLite planner: the plan of a table is empty exactly when the table is in sync, indexes are
  planned by name, and recreating a table keeps its rows if it succeeds. The shared parts of the proofs are in
  \<open>Lite_Common\<close> and \<open>Lite_Recreate\<close>.
\<close>

section \<open>A sample catalog\<close>

definition sq_sample_server :: SqServer where
  "sq_sample_server =
     \<lparr> sqs_tables = Inr [Inr ''users''],
       sqs_table_count = (\<lambda>t. Inr (if t = ''users'' then 1 else 0)),
       sqs_column_rows = (\<lambda>_. Inr
         [Inr \<lparr> lcr_Name = ''id'', lcr_DataType = ''integer'', lcr_PrimaryKey = 1, lcr_ColumnDefault = None, lcr_NotNull = 1 \<rparr>,
          Inr \<lparr> lcr_Name = ''email'', lcr_DataType = ''TEXT'', lcr_PrimaryKey = 0,
                lcr_ColumnDefault = Some (dquoted ''none''), lcr_NotNull = 0 \<rparr>]),
       sqs_indexes = (\<lambda>_. Inr [Inr (''by_both'', True, ''email''), Inr (''stale'', False, ''email''), Inr (''by_both'', True, ''id'')]),
       sqs_index_origin = (\<lambda>_ _. Inr ''c''),
       sqs_foreign_keys = (\<lambda>_. Inr []),
       sqs_primary_key = (\<lambda>_. Inr [Inr ''id'']),
       sqs_schema = (\<lambda>_. Inr []), sqs_version = Inr ''3.45'', sqs_ping = Inr () \<rparr>"

definition sq_sample_env :: SqEnv where
  "sq_sample_env =
     \<lparr> sqe_open = (\<lambda>_. Inr sq_sample_server), sqe_marshal = (\<lambda>_. Inr ''{}''), sqe_index_order = (\<lambda>l. l),
       sqe_fk_order = (\<lambda>l. l) \<rparr>"

definition sq_sample_conn :: SqliteConnection where
  "sq_sample_conn = \<lparr> sqc_db = Some sq_sample_server, sqc_uri = ''file.db'' \<rparr>"

definition sq_column :: "string \<Rightarrow> string \<Rightarrow> bool option \<Rightarrow> bool option \<Rightarrow> string option \<Rightarrow> SqliteTableColumn" where
  "sq_column name ty notNull autoIncrement dflt =
     \<lparr> scol_Name = name, scol_Type = ty, scol_Constraints = Some \<lparr> scc_NotNull = notNull \<rparr>,
       scol_Attributes = Some \<lparr> sca_AutoIncrement = autoIncrement \<rparr>, scol_Default = dflt \<rparr>"

definition sq_index :: "string \<Rightarrow> bool \<Rightarrow> string list \<Rightarrow> SqliteTableIndex" where
  "sq_index name unique cols = \<lparr> six_Columns = cols, six_Name = name, six_IsUnique = unique, six_Type = [] \<rparr>"

definition sq_sample_schema :: SqliteTableSchema where
  "sq_sample_schema =
     \<lparr> sts_PrimaryKey = [''id''], sts_ForeignKeys = [],
       sts_Indexes = [sq_index ''by_both'' True [''email'', ''id''], sq_index [] False [''email'']],
       sts_Columns = [sq_column ''id'' ''integer'' (Some True) None None, sq_column ''email'' ''text'' None None (Some ''none'')],
       sts_IsDeleted = False, sts_Strict = False \<rparr>"

section \<open>Indexes\<close>

interpretation sq_indexes: lite_indexes six_Name SqliteSchemaIndexToIndex
  by unfold_locales (simp add: SqliteSchemaIndexToIndex_def)

abbreviation sq_index_same :: "SqliteTableIndex \<Rightarrow> Index \<Rightarrow> bool" where
  "sq_index_same \<equiv> lite_index_same SqliteSchemaIndexToIndex"

lemma sq_index_name_named [simp]: "sq_index_name t (sq_name_index t i) = sq_index_name t i"
  by (auto simp: sq_index_name_def sq_name_index_def GenerateSqliteIndexName_def)

lemma sq_name_index_idem [simp]: "sq_name_index t (sq_name_index t i) = sq_name_index t i"
  by (simp add: sq_name_index_def [of t "sq_name_index t i"]) (simp add: sq_name_index_def)

lemma sq_named_name [simp]: "six_Name (sq_name_index t i) = sq_index_name t i"
  by (simp add: sq_name_index_def)

lemma sq_name_index_comp [simp]: "sq_name_index t \<circ> sq_name_index t = sq_name_index t"
  by (simp add: fun_eq_iff)

lemma sq_ListTableIndexes_distinct:
  assumes "sq_ListTableIndexes env s t = Inr cur" "\<And>l. mset (sqe_index_order env l) = mset l"
  shows "distinct (map ix_Name cur)"
proof -
  obtain rows where "cur = sqe_index_order env (foldl add_index_row [] rows)"
    using assms(1) by (auto simp: sq_ListTableIndexes_def sq_query_def bindE_Inr_iff nil_dereference_def split: option.splits)
  then have "mset (map ix_Name cur) = mset (map ix_Name (foldl add_index_row [] rows))"
    by (simp add: assms(2))
  then show ?thesis using grouped_rows_distinct [of "[]" rows] mset_eq_imp_distinct_iff by fastforce
qed

lemma sq_BuildAlterIndexStatements_plan:
  assumes "sq_ListTableIndexes env s t = Inr cur" "\<And>l. mset (sqe_index_order env l) = mset l"
  shows "sq_BuildAlterIndexStatements env s t schema =
    Inr (map (rendered (sq_RemoveIndexStatement t) (sq_AddIndexStatement t))
      (named_plan six_Name ix_Name sq_index_same (map (sq_name_index t) (sts_Indexes schema)) cur))"
  using assms(1) sq_indexes.statements_render_plan [OF sq_ListTableIndexes_distinct [OF assms],
      of "sq_RemoveIndexStatement t" "sq_AddIndexStatement t" "map (sq_name_index t) (sts_Indexes schema)"]
  by (simp add: sq_BuildAlterIndexStatements_def Let_def)

section \<open>A plan is empty exactly for a table in sync\<close>

definition sq_in_sync ::
  "string \<Rightarrow> SqliteTableSchema \<Rightarrow> string list \<Rightarrow> ForeignKey list \<Rightarrow> Column list \<Rightarrow> Index list \<Rightarrow> bool" where
  "sq_in_sync t schema pk fks cols ixs \<longleftrightarrow>
     lite_keys_in_sync pk fks (sts_PrimaryKey schema) (map SqliteSchemaForeignKeyToForeignKey (sts_ForeignKeys schema)) \<and>
     lite_columns_in_sync cols (map sq_schemaColumnToColumn (sts_Columns schema)) \<and>
     in_step six_Name ix_Name sq_index_same (map (sq_name_index t) (sts_Indexes schema)) ixs"

lemma sq_schemaColumnToColumn_name [simp]: "col_Name (sq_schemaColumnToColumn c) = scol_Name c"
  by (simp add: sq_schemaColumnToColumn_def)

lemma sq_recreate_not_empty: "sq_RecreateTableStatements env t schema \<noteq> Inr []"
  by (simp add: sq_RecreateTableStatements_def bindE_Inr_iff Let_def)

lemma sq_alter_in_place_empty:
  assumes "sq_ListTableIndexes env s t = Inr ixs" "\<And>l. mset (sqe_index_order env l) = mset l"
  shows "sq_alter_in_place env s t schema cols = Inr [] \<longleftrightarrow>
    filter (\<lambda>d. \<not> list_ex (\<lambda>e. col_Name e = col_Name d) cols) (map sq_schemaColumnToColumn (sts_Columns schema)) = [] \<and>
    filter (\<lambda>e. \<not> list_ex (\<lambda>d. col_Name e = col_Name d) (map sq_schemaColumnToColumn (sts_Columns schema))) cols = [] \<and>
    in_step six_Name ix_Name sq_index_same (map (sq_name_index t) (sts_Indexes schema)) ixs"
  by (auto simp: sq_alter_in_place_def sq_BuildAlterIndexStatements_plan [OF assms] sq_indexes.planner.plan_empty_iff
      filter_empty_conv list_ex_iff)

lemma sq_removed_in_step:
  assumes "in_step six_Name ix_Name sq_index_same (map (sq_name_index t) is) ixs"
  shows "lite_removed_constraint isC (map six_Name (map (sq_name_index t) is)) ixs = Inr False"
proof (rule lite_removed_constraint_none)
  fix c assume "c \<in> set ixs"
  then obtain i where "i \<in> set is" "sq_index_name t i = ix_Name c"
    using assms by (auto simp: in_step_def list_all_iff list_ex_iff)
  then show "ix_Name c \<in> set (map six_Name (map (sq_name_index t) is))" by (auto simp: image_iff intro: bexI [of _ i])
qed

lemma sq_buildStatements_empty:
  assumes "sq_query s (\<lambda>db. query_rows ''failed to query from sqlite_master'' (wrap_error ''failed to scan'')
      lite_existing_column (sqs_column_rows db t)) = Inr cols"
    and pk: "sq_GetTablePrimaryKeyColumns s t = Inr pk" and fks: "sq_ListTableForeignKeys env s t = Inr fks"
    and ixs: "sq_ListTableIndexes env s t = Inr ixs" and order: "\<And>l. mset (sqe_index_order env l) = mset l"
    and "distinct (sts_PrimaryKey schema)"
  shows "sq_buildStatements env s t schema = Inr [] \<longleftrightarrow> sq_in_sync t schema pk fks cols ixs"
proof
  note keys = lite_keys_in_sync_iff [OF assms(6)]
  assume "sq_buildStatements env s t schema = Inr []"
  then obtain schema' where c: "sq_checkTableNeedsRecreate env s t schema cols = Inr (False, schema')"
    and a: "sq_alter_in_place env s t schema' cols = Inr []"
    using assms(1) sq_recreate_not_empty by (auto simp: sq_buildStatements_def bindE_Inr_iff split: if_splits)
  then have "schema' = schema \<lparr> sts_Indexes := map (sq_name_index t) (sts_Indexes schema) \<rparr>"
    and "\<not> lite_primary_key_changed pk (sts_PrimaryKey schema)"
    and "\<not> lite_foreign_keys_changed fks (map SqliteSchemaForeignKeyToForeignKey (sts_ForeignKeys schema))"
    and "\<not> lite_columns_modified cols (map sq_schemaColumnToColumn (sts_Columns schema))"
    using pk fks ixs by (auto simp: sq_checkTableNeedsRecreate_def bindE_Inr_iff Let_def split: if_splits dest: lite_desired_indexes_named)
  then show "sq_in_sync t schema pk fks cols ixs"
    using a by (simp add: sq_in_sync_def sq_alter_in_place_empty [OF ixs order] lite_columns_in_sync_iff keys)
next
  note keys = lite_keys_in_sync_iff [OF assms(6)]
  assume sync: "sq_in_sync t schema pk fks cols ixs"
  then have step: "in_step six_Name ix_Name sq_index_same (map (sq_name_index t) (sts_Indexes schema)) ixs"
    by (simp add: sq_in_sync_def)
  have "sq_checkTableNeedsRecreate env s t schema cols =
      Inr (False, schema \<lparr> sts_Indexes := map (sq_name_index t) (sts_Indexes schema) \<rparr>)"
    using sync pk fks ixs sq_indexes.in_step_no_constraint [OF sq_ListTableIndexes_distinct [OF ixs order] step]
      sq_removed_in_step [OF step]
    by (simp add: sq_checkTableNeedsRecreate_def sq_in_sync_def keys lite_columns_in_sync_iff)
  moreover have "sq_alter_in_place env s t (schema \<lparr> sts_Indexes := map (sq_name_index t) (sts_Indexes schema) \<rparr>) cols = Inr []"
    using sync by (simp add: sq_alter_in_place_empty [OF ixs order] sq_in_sync_def lite_columns_in_sync_iff)
  ultimately show "sq_buildStatements env s t schema = Inr []"
    using assms(1) by (simp add: sq_buildStatements_def)
qed

section \<open>Recreating a table\<close>

text \<open>The statements of a recreation. The copy selects every desired column from the old table, new ones too, and the indexes are
  created while the old table still has its own.\<close>

lemma sq_recreate_statements:
  assumes "sqe_marshal env schema = Inr b" "temp = t @ ''_'' @ sha256_hex b" "cols = map scol_Name (sts_Columns schema)"
  shows "sq_RecreateTableStatements env t schema =
    Inr ([''begin transaction''] @
      [''alter table '' @ dquoted t @ '' rename to '' @ dquoted temp, hd (sq_CreateTableStatements t schema)] @
      map (sq_AddIndexStatement t) (sts_Indexes schema) @
      [''insert into '' @ t @ '' ('' @ Join cols '', '' @ '') select '' @ Join cols '', '' @ '' from '' @ temp, ''drop table '' @ temp] @
      [''commit''])"
  using assms by (simp add: sq_RecreateTableStatements_def sq_CreateTableStatements_def Let_def)

lemma sq_create_text:
  "hd (sq_CreateTableStatements t schema) = ''create table '' @ dquoted t @ '' ('' @
      Join (map sqliteColumnAsInsert (sts_Columns schema) @
            (if sts_PrimaryKey schema = [] then []
             else [''primary key ('' @ Join (map dquoted (sts_PrimaryKey schema)) '', '' @ '')'']) @
            map (sq_foreignKeyConstraintClause t) (sts_ForeignKeys schema)) '', '' @ '')'' @
      (if sts_Strict schema then '' strict'' else [])"
  unfolding sq_CreateTableStatements_def Let_def list.sel
  by (cases "sts_PrimaryKey schema = []"; cases "sts_Strict schema") (simp_all only: if_True if_False not_True_eq_False not_False_eq_True append_assoc simp_thms append_Nil append_Nil2)

section \<open>The connection behind the database layer\<close>

definition sq_connection ::
  "SqEnv \<Rightarrow> (string \<Rightarrow> 'db \<Rightarrow> go_error option \<times> 'db) \<Rightarrow> SqliteConnection \<Rightarrow> 'db Connection" where
  "sq_connection env exec s =
     \<lparr> cn_PlanTableSchema = sq_PlanTableSchema env s,
       cn_PlanTypeSchema = sq_PlanTypeSchema s,
       cn_PlanViewSchema = sq_PlanViewSchema s,
       cn_PlanFunctionSchema = sq_PlanFunctionSchema s,
       cn_PlanExtensionSchema = sq_PlanExtensionSchema s,
       cn_DeployStatements = DeploySqliteStatements env exec (sqc_uri s),
       cn_GenerateFixtures = sq_GenerateFixtures \<rparr>"

definition SqlitePlugin_Connect ::
  "SqEnv \<Rightarrow> (string \<Rightarrow> 'db \<Rightarrow> go_error option \<times> 'db) \<Rightarrow> string \<Rightarrow> (string \<rightharpoonup> option_value) \<Rightarrow> 'db Connection result" where
  "SqlitePlugin_Connect env exec uri options =
     (if options ''fixture-only'' = Some (OptBool True)
      then Inr (sq_connection env exec sq_NewFixtureOnlyConnection)
      else bindE (wrapE ''failed to connect to sqlite'' (sq_Connect env uri)) (\<lambda>conn. Inr (sq_connection env exec conn)))"

definition sq_SupportedEngines :: "string list" where
  "sq_SupportedEngines = [''sqlite'', ''sqlite3'']"

text \<open>
  The errors of the driver are wrapped; apart from that a deployment stops at the first error
  as the contract says.
\<close>

definition sq_exec_wrapped ::
  "(string \<Rightarrow> 'db \<Rightarrow> go_error option \<times> 'db) \<Rightarrow> string \<Rightarrow> 'db \<Rightarrow> go_error option \<times> 'db" where
  "sq_exec_wrapped exec stmt db = map_prod (map_option (wrap_error ''failed to execute'')) (\<lambda>db. db) (exec stmt db)"

interpretation sq_deploy: deployment "sq_executeStatements exec" "sq_exec_wrapped exec" for exec
  by unfold_locales (auto simp: sq_exec_wrapped_def split: prod.splits option.splits)

lemma sq_exec_wrapped_ok: "sq_exec_wrapped exec s db = (None, db') \<longleftrightarrow> exec s db = (None, db')"
  by (cases "exec s db") (auto simp: sq_exec_wrapped_def)

lemma sq_wrapped_laws:
  "leaves_tables tbl (sq_exec_wrapped exec) = leaves_tables tbl exec" "renames_table tbl (sq_exec_wrapped exec) = renames_table tbl exec"
  "creates_table tbl (sq_exec_wrapped exec) = creates_table tbl exec" "drops_table tbl (sq_exec_wrapped exec) = drops_table tbl exec"
  "copies_rows tbl stored (sq_exec_wrapped exec) = copies_rows tbl stored exec"
  by (simp_all add: fun_eq_iff recreation_laws sq_exec_wrapped_ok)

section \<open>The properties\<close>

text \<open>
  The SQLite planner and the indexes of a table that is not recreated: in whatever order Go iterates over the indexes of
  the catalog, the statements are the rendering of actions that, read by name, lead exactly to the desired
  indexes and neither drop nor recreate one that matches.
\<close>

theorem sqlite_index_plan_reconciles:
  assumes "sq_ListTableIndexes env s t = Inr cur" "\<And>l. mset (sqe_index_order env l) = mset l"
    and "distinct (map (sq_index_name t) (sts_Indexes schema))"
  shows "\<exists>acts. sq_BuildAlterIndexStatements env s t schema =
      Inr (map (rendered (sq_RemoveIndexStatement t) (sq_AddIndexStatement t)) acts) \<and>
    reconciles six_Name ix_Name (\<lambda>d c. Index_Equals c (SqliteSchemaIndexToIndex d)) SqliteSchemaIndexToIndex
      (map (sq_name_index t) (sts_Indexes schema)) cur acts"
proof -
  have "(\<lambda>d c. Index_Equals c (SqliteSchemaIndexToIndex d)) = sq_index_same"
    by (simp add: fun_eq_iff lite_index_same_def)
  moreover have "distinct (map six_Name (map (sq_name_index t) (sts_Indexes schema)))"
    using assms(3) by (simp add: comp_def)
  ultimately show ?thesis
    using sq_BuildAlterIndexStatements_plan [OF assms(1,2)]
      sq_indexes.planner.plan_reconciles [OF sq_ListTableIndexes_distinct [OF assms(1,2)]] by auto
qed

theorem sqlite_index_plan_reconciles_witness:
  "\<exists>cur acts. sq_ListTableIndexes sq_sample_env sq_sample_conn ''users'' = Inr cur \<and>
    sq_BuildAlterIndexStatements sq_sample_env sq_sample_conn ''users'' sq_sample_schema =
      Inr (map (rendered (sq_RemoveIndexStatement ''users'') (sq_AddIndexStatement ''users'')) acts) \<and>
    reconciles six_Name ix_Name (\<lambda>d c. Index_Equals c (SqliteSchemaIndexToIndex d)) SqliteSchemaIndexToIndex
      (map (sq_name_index ''users'') (sts_Indexes sq_sample_schema)) cur acts"
proof -
  obtain cur where "sq_ListTableIndexes sq_sample_env sq_sample_conn ''users'' = Inr cur"
    by (simp add: sq_ListTableIndexes_def sq_query_def sq_sample_conn_def sq_sample_server_def query_rows_def scan_rows_def)
  moreover have "mset (sqe_index_order sq_sample_env l) = mset l" for l by (simp add: sq_sample_env_def)
  moreover have "distinct (map (sq_index_name ''users'') (sts_Indexes sq_sample_schema))" by code_simp
  ultimately show ?thesis using sqlite_index_plan_reconciles by blast
qed

text \<open>
  C27. A recreation of a SQLite table that succeeds keeps its rows. The server is a parameter, and what is assumed of it is said of the
  very texts of the plan and only if they are executed without an error: the create statement with the definitions
  of all desired columns in their order, the primary key and the foreign keys makes an empty table with these columns, the rename, the
  copy and the drop do what they say to the two tables that they name, and creating an index or starting and ending the
  transaction changes no row. Then, if the whole list of statements runs without an error, the table existed before, it
  now has exactly the desired columns, its rows are the old ones cut to these columns, each value as the server stores it in its new
  column, and the temporary table is gone. Nothing is claimed of other tables, views and triggers, nor that the statements succeed.
\<close>

theorem sqlite_recreate_keeps_rows:
  assumes "sqe_marshal env schema = Inr b" and "temp = t @ ''_'' @ sha256_hex b" and "cols = map scol_Name (sts_Columns schema)"
    and "renames_table tbl exec t temp (''alter table '' @ dquoted t @ '' rename to '' @ dquoted temp)"
    and "creates_table tbl exec t cols temp (''create table '' @ dquoted t @ '' ('' @
      Join (map sqliteColumnAsInsert (sts_Columns schema) @
            (if sts_PrimaryKey schema = [] then []
             else [''primary key ('' @ Join (map dquoted (sts_PrimaryKey schema)) '', '' @ '')'']) @
            map (sq_foreignKeyConstraintClause t) (sts_ForeignKeys schema)) '', '' @ '')'' @
      (if sts_Strict schema then '' strict'' else []))"
    and "copies_rows tbl stored exec t cols temp
      (''insert into '' @ t @ '' ('' @ Join cols '', '' @ '') select '' @ Join cols '', '' @ '' from '' @ temp)"
    and "drops_table tbl exec temp t (''drop table '' @ temp)"
    and "\<forall>s \<in> set ([''begin transaction'', ''commit''] @ map (sq_AddIndexStatement t) (sts_Indexes schema)).
      leaves_tables tbl exec [t, temp] s"
  shows "\<exists>stmts. sq_RecreateTableStatements env t schema = Inr stmts \<and>
    (\<forall>db db'. sq_executeStatements exec stmts db = (None, db') \<longrightarrow>
      (\<exists>old rows rows'. tbl db t = Some (old, rows) \<and> tbl db' t = Some (cols, rows') \<and> tbl db' temp = None \<and>
         rel_mset (copied_row stored cols) rows rows'))"
proof -
  let ?ren = "''alter table '' @ dquoted t @ '' rename to '' @ dquoted temp" and ?create = "hd (sq_CreateTableStatements t schema)"
  let ?copy = "''insert into '' @ t @ '' ('' @ Join cols '', '' @ '') select '' @ Join cols '', '' @ '' from '' @ temp"
  let ?stmts = "[''begin transaction''] @ [?ren, ?create] @ map (sq_AddIndexStatement t) (sts_Indexes schema) @
    [?copy, ''drop table '' @ temp] @ [''commit'']"
  have create: "creates_table tbl exec t cols temp ?create" using assms(5) unfolding sq_create_text .
  have ne: "?create \<noteq> []" unfolding sq_create_text by simp
  have "\<exists>old rows rows'. tbl db t = Some (old, rows) \<and> tbl db' t = Some (cols, rows') \<and> tbl db' temp = None \<and>
      rel_mset (copied_row stored cols) rows rows'" if run: "sq_executeStatements exec ?stmts db = (None, db')" for db db'
    by (rule sq_deploy.recreation_keeps_rows [unfolded sq_wrapped_laws, OF assms(4) create assms(6,7) _ _ ne _ _ run])
       (use assms(8) in auto)
  then show ?thesis using sq_recreate_statements [OF assms(1-3)] by blast
qed

text \<open>The definition of a column opens with its quoted name and its type.\<close>

lemma sqlite_column_text:
  "\<exists>rest. sqliteColumnAsInsert c = dquoted (scol_Name c) @ '' '' @ col_DataType (sq_schemaColumnToColumn c) @ rest"
  by (auto simp: sqliteColumnAsInsert_def Let_def split: option.split bool.split)

text \<open>A server that knows the statements of one recreation and stores values as they are.\<close>

definition lite_text_server ::
  "string \<Rightarrow> string \<Rightarrow> string list \<Rightarrow> string \<Rightarrow> string \<Rightarrow> (string \<Rightarrow> 'v table_view) \<Rightarrow> go_error option \<times> (string \<Rightarrow> 'v table_view)" where
  "lite_text_server t temp cols create s db =
     (if s = ''alter table '' @ dquoted t @ '' rename to '' @ dquoted temp
      then (if db t = None then (Some (ErrNew s), db) else (None, db(temp := db t, t := None)))
      else if s = create then (None, db(t := Some (cols, {#})))
      else if s = ''insert into '' @ t @ '' ('' @ Join cols '', '' @ '') select '' @ Join cols '', '' @ '' from '' @ temp
      then (case (db t, db temp) of
              (Some (acols, arows), Some (bcols, brows)) \<Rightarrow>
                if \<forall>r \<in># brows. set cols \<subseteq> dom r
                then (None, db(t := Some (acols, arows + image_mset (\<lambda>r. r |` set cols) brows)))
                else (Some (ErrNew s), db)
            | _ \<Rightarrow> (Some (ErrNew s), db))
      else if s = ''drop table '' @ temp then (None, db(temp := None))
      else (None, db))"

theorem sqlite_recreate_keeps_rows_witness:
  "\<exists>stmts db' rows'. sq_RecreateTableStatements sq_sample_env ''users'' sq_sample_schema = Inr stmts \<and>
     sq_executeStatements (lite_text_server ''users'' (''users_'' @ sha256_hex ''{}'') [''id'', ''email'']
         (hd (sq_CreateTableStatements ''users'' sq_sample_schema))) stmts
       [''users'' \<mapsto> ([''id'', ''email'', ''age''], {#[''id'' \<mapsto> 1 :: nat, ''email'' \<mapsto> 2, ''age'' \<mapsto> 3]#})] = (None, db') \<and>
     db' ''users'' = Some ([''id'', ''email''], rows') \<and>
     rel_mset (copied_row (\<lambda>_. (=)) [''id'', ''email'']) {#[''id'' \<mapsto> 1, ''email'' \<mapsto> 2, ''age'' \<mapsto> 3]#} rows'"
proof -
  let ?t = "''users''" and ?temp = "''users_'' @ sha256_hex ''{}''" and ?cols = "[''id'', ''email'']"
  let ?exec = "lite_text_server ?t ?temp ?cols (hd (sq_CreateTableStatements ?t sq_sample_schema)) ::
      string \<Rightarrow> (string \<Rightarrow> nat table_view) \<Rightarrow> go_error option \<times> (string \<Rightarrow> nat table_view)"
  let ?db = "[?t \<mapsto> ([''id'', ''email'', ''age''], {#[''id'' \<mapsto> 1 :: nat, ''email'' \<mapsto> 2, ''age'' \<mapsto> 3]#})]"
  let ?create = "hd (sq_CreateTableStatements ?t sq_sample_schema)"
  have start: "\<exists>w. ?create = ''create table '' @ w" unfolding sq_create_text by blast
  have h: "sqe_marshal sq_sample_env sq_sample_schema = Inr ''{}''" "?temp = ?t @ ''_'' @ sha256_hex ''{}''"
    "?cols = map scol_Name (sts_Columns sq_sample_schema)"
    by (simp_all add: sq_sample_env_def sq_sample_schema_def sq_column_def)
  have copied: "rel_mset (copied_row (\<lambda>_. (=)) ?cols) rows (image_mset (\<lambda>r. r |` set ?cols) rows)"
    if "\<forall>r \<in># rows. set ?cols \<subseteq> dom r" for rows :: "(string \<rightharpoonup> nat) multiset"
    using that by (induction rows)
      (auto simp: rel_mset_Zero copied_row_def restrict_map_def intro!: rel_mset_Plus split: if_splits)
  have law: "renames_table (\<lambda>db. db) ?exec ?t ?temp (''alter table '' @ dquoted ?t @ '' rename to '' @ dquoted ?temp)"
    "creates_table (\<lambda>db. db) ?exec ?t ?cols ?temp ?create"
    "drops_table (\<lambda>db. db) ?exec ?temp ?t (''drop table '' @ ?temp)"
    "\<forall>s \<in> set ([''begin transaction'', ''commit''] @ map (sq_AddIndexStatement ?t) (sts_Indexes sq_sample_schema)).
      leaves_tables (\<lambda>db. db) ?exec [?t, ?temp] s"
    "copies_rows (\<lambda>db. db) (\<lambda>_. (=)) ?exec ?t ?cols ?temp
      (''insert into '' @ ?t @ '' ('' @ Join ?cols '', '' @ '') select '' @ Join ?cols '', '' @ '' from '' @ ?temp)"
    using start copied by (auto simp: recreation_laws lite_text_server_def sq_AddIndexStatement_def split: if_splits option.splits)
  obtain stmts where stmts: "sq_RecreateTableStatements sq_sample_env ?t sq_sample_schema = Inr stmts"
    and keeps: "\<And>db db'. sq_executeStatements ?exec stmts db = (None, db') \<Longrightarrow>
      \<exists>old rows rows'. db ?t = Some (old, rows) \<and> db' ?t = Some (?cols, rows') \<and> db' ?temp = None \<and>
         rel_mset (copied_row (\<lambda>_. (=)) ?cols) rows rows'"
    using sqlite_recreate_keeps_rows [folded sq_create_text, OF h law(1,2,5,3,4)] by blast
  have "\<exists>db'. sq_executeStatements ?exec stmts ?db = (None, db')"
    using start sq_recreate_statements [OF h] stmts
    by (auto simp: lite_text_server_def sq_AddIndexStatement_def sq_sample_schema_def)
  then obtain db' where run: "sq_executeStatements ?exec stmts ?db = (None, db')" ..
  from keeps [OF run] stmts run show ?thesis by auto
qed

text \<open>The plan of a SQLite table is empty exactly when the table is in sync.\<close>

lemma sqlite_plan_empty_iff_in_sync:
  assumes "sq_Connect env dsn = Inr s" "sq_table_count ''failed to scan'' s t = Inr n" "n > 0" "\<not> sts_IsDeleted schema"
    and "sq_query s (\<lambda>db. query_rows ''failed to query from sqlite_master'' (wrap_error ''failed to scan'')
      lite_existing_column (sqs_column_rows db t)) = Inr cols"
    and "sq_GetTablePrimaryKeyColumns s t = Inr pk" "sq_ListTableForeignKeys env s t = Inr fks"
    and "sq_ListTableIndexes env s t = Inr ixs" "\<And>l. mset (sqe_index_order env l) = mset l"
    and "distinct (sts_PrimaryKey schema)"
  shows "PlanSqliteTable env dsn t schema None = Inr [] \<longleftrightarrow> sq_in_sync t schema pk fks cols ixs"
  unfolding sq_buildStatements_empty [OF assms(5-10), symmetric]
  using assms(1-4) by (auto simp: PlanSqliteTable_def sq_seed_statements_def bindE_Inr_iff)

section \<open>Behaviour the sources do not intend\<close>

text \<open>
  No catalog column has the attribute autoincrement, so that a table with an autoincrement column is
  recreated by every plan.
\<close>

lemma sqlite_autoincrement_always_recreated:
  assumes "e \<in> set cols" "lite_attr_of e = None"
    and "find (\<lambda>d. col_Name e = col_Name d) (map sq_schemaColumnToColumn (sts_Columns schema)) = Some d"
    and "lite_attr_of d = Some True"
  shows "lite_columns_modified cols (map sq_schemaColumnToColumn (sts_Columns schema))"
proof -
  have "\<not> lite_columnsMatch d e" using assms(2,4) by (simp add: lite_columnsMatch_iff lite_column_key_def)
  then show ?thesis using assms(1,3) by (auto simp: lite_columns_modified_def list_ex_iff intro!: bexI [of _ e])
qed

text \<open>A seed value that is neither an int nor a string names a column without a value.\<close>

lemma sqlite_seed_value_missing:
  "sq_seed_row ''t''
     [\<lparr> sdc_Column = ''a'', sdc_Value = \<lparr> sdv_Int = Some 1, sdv_Str = None \<rparr> \<rparr>,
      \<lparr> sdc_Column = ''b'', sdc_Value = \<lparr> sdv_Int = None, sdv_Str = None \<rparr> \<rparr>] =
   ''replace into t (a, b) values (1)''"
  by code_simp

end
