(* ===== verification/Rq_Plan.thy ===== *)
theory Rq_Plan
  imports Lite_Common Sha256
begin

text \<open>
  The rqlite plugin: src/plugins/rqlite/lib (column.go, create.go, foreignkey.go, index.go, tables.go,
  alter.go, deploy.go, connection.go). The loops it shares with the SQLite plugin are in \<open>Lite_Common\<close>.
  A function that has the name of one of the PostgreSQL plugin carries the prefix \<open>rq_\<close>.

  The server is a parameter: \<open>RqServer\<close> answers each query as a function of its arguments. \<open>RqEnv\<close> has
  the driver's Open, the JSON encoder that the hash of a schema is made of, and the order in which Go
  iterates over the maps of indexes and foreign keys.
\<close>

section \<open>Columns (column.go)\<close>

text \<open>The conversion of a column never fails; the error it returns is always nil.\<close>

definition rq_default :: "string option \<Rightarrow> string option" where
  "rq_default dflt =
     map_option (\<lambda>d. if d = ''__SCHEMAHERO_EMPTY_STRING_DEFAULT__'' then [] else d) dflt"

definition rq_schemaColumnToColumn :: "RqliteTableColumn \<Rightarrow> Column" where
  "rq_schemaColumnToColumn schemaColumn =
     \<lparr> col_Name = rcol_Name schemaColumn, col_DataType = rcol_Type schemaColumn,
       col_ColumnDefault = rq_default (rcol_Default schemaColumn),
       col_Constraints = map_option (\<lambda>c. \<lparr> cc_NotNull = rcc_NotNull c \<rparr>) (rcol_Constraints schemaColumn),
       col_Attributes = map_option (\<lambda>a. \<lparr> ca_AutoIncrement = rca_AutoIncrement a \<rparr>) (rcol_Attributes schemaColumn),
       col_IsArray = False, col_Charset = [], col_Collation = [], col_IsStatic = False \<rparr>"

definition rqliteColumnAsInsert :: "RqliteTableColumn \<Rightarrow> string" where
  "rqliteColumnAsInsert column =
     (let rqliteColumn = rq_schemaColumnToColumn column;
          formatted = dquoted (rcol_Name column) @ '' '' @ col_DataType rqliteColumn;
          formatted = (if col_Collation rqliteColumn \<noteq> [] then formatted @ '' collate '' @ col_Collation rqliteColumn
                       else formatted);
          formatted = (case not_null_of rqliteColumn of
                         None \<Rightarrow> formatted
                       | Some True \<Rightarrow> formatted @ '' not null''
                       | Some False \<Rightarrow> formatted @ '' null'');
          formatted = (if lite_attr_of rqliteColumn = Some True then formatted @ '' autoincrement'' else formatted)
      in case col_ColumnDefault rqliteColumn of
           None \<Rightarrow> formatted
         | Some d \<Rightarrow> formatted @ '' default '' @ [squote] @ d @ [squote])"

definition rq_InsertColumnStatement :: "string \<Rightarrow> RqliteTableColumn \<Rightarrow> string" where
  "rq_InsertColumnStatement tableName desiredColumn =
     ''alter table '' @ dquoted tableName @ '' add column '' @ rqliteColumnAsInsert desiredColumn"

definition rq_DropColumnStatement :: "string \<Rightarrow> Column \<Rightarrow> string" where
  "rq_DropColumnStatement tableName existingColumn =
     ''alter table '' @ dquoted tableName @ '' drop column '' @ dquoted (col_Name existingColumn)"

section \<open>Foreign keys, indexes and new tables (foreignkey.go, index.go, create.go)\<close>

definition rq_foreignKeyConstraintClause :: "string \<Rightarrow> RqliteTableForeignKey \<Rightarrow> string" where
  "rq_foreignKeyConstraintClause tableName fk =
     (let onDelete = (if rfk_OnDelete fk \<noteq> [] then '' on delete '' @ rfk_OnDelete fk else [])
      in ''constraint '' @ GenerateRqliteFKName tableName fk @ '' foreign key ('' @ Join (rfk_Columns fk) '', '' @
         '') references '' @ rfr_Table (rfk_References fk) @ '' ('' @ Join (rfr_Columns (rfk_References fk)) '', '' @
         '')'' @ onDelete)"

definition rq_RemoveIndexStatement :: "string \<Rightarrow> Index \<Rightarrow> string" where
  "rq_RemoveIndexStatement tableName index =
     (if ix_IsUnique index then ''drop index if exists '' @ ix_Name index else ''drop index '' @ ix_Name index)"

definition rq_index_name :: "string \<Rightarrow> RqliteTableIndex \<Rightarrow> string" where
  "rq_index_name tableName index =
     (if rix_Name index = [] then GenerateRqliteIndexName tableName index else rix_Name index)"

definition rq_AddIndexStatement :: "string \<Rightarrow> RqliteTableIndex \<Rightarrow> string" where
  "rq_AddIndexStatement tableName index =
     ''create '' @ (if rix_IsUnique index then ''unique '' else []) @ ''index '' @ rq_index_name tableName index @
     '' on '' @ tableName @ '' ('' @ Join (rix_Columns index) '', '' @ '')''"

text \<open>A value with neither an int nor a string adds a column and no value.\<close>

definition rq_seed_row :: "string \<Rightarrow> SeedDataRow \<Rightarrow> string" where
  "rq_seed_row tableName row =
     (let cols = map sdc_Column row;
          vals = concat (map (\<lambda>col.
            case (sdv_Int (sdc_Value col), sdv_Str (sdc_Value col)) of
              (Some i, _) \<Rightarrow> [Itoa i]
            | (None, Some str) \<Rightarrow> [[squote] @ str @ [squote]]
            | (None, None) \<Rightarrow> []) row)
      in ''replace into '' @ tableName @ '' ('' @ Join cols '', '' @ '') values ('' @ Join vals '', '' @ '')'')"

definition rq_SeedDataStatements :: "string \<Rightarrow> SeedData \<Rightarrow> string list" where
  "rq_SeedDataStatements tableName seedData = map (rq_seed_row tableName) seedData"

definition rq_CreateTableStatements :: "string \<Rightarrow> RqliteTableSchema \<Rightarrow> string list" where
  "rq_CreateTableStatements tableName schema =
     (let columns = map rqliteColumnAsInsert (rts_Columns schema) @
            (if rts_PrimaryKey schema \<noteq> []
             then [''primary key ('' @ Join (map dquoted (rts_PrimaryKey schema)) '', '' @ '')''] else []) @
            map (rq_foreignKeyConstraintClause tableName) (rts_ForeignKeys schema);
          query = ''create table '' @ dquoted tableName @ '' ('' @ Join columns '', '' @ '')'';
          query = (if rts_Strict schema then query @ '' strict'' else query)
      in query # map (rq_AddIndexStatement tableName) (rts_Indexes schema))"

section \<open>The server and connections (connection.go)\<close>

record RqServer =
  rqs_tables :: "string rows"
  rqs_table_count :: "string \<Rightarrow> int result result"
  rqs_column_rows :: "string \<Rightarrow> LiteColumnRow rows"
  rqs_indexes :: "string \<Rightarrow> (string \<times> bool \<times> string) rows"
  rqs_index_origin :: "string \<Rightarrow> string \<Rightarrow> string rows"
  rqs_foreign_keys :: "string \<Rightarrow> LiteForeignKeyRow rows"
  rqs_primary_key :: "string \<Rightarrow> string rows"
  rqs_schema :: "string \<Rightarrow> (string \<times> string \<times> string option \<times> bool) rows"

text \<open>What is used of a parsed URL: the user with an optional password, and the host.\<close>

record rq_url =
  url_User :: "(string \<times> string option) option"
  url_Host :: string

record RqEnv =
  rqe_open :: "string \<Rightarrow> RqServer result"
  rqe_marshal :: "RqliteTableSchema \<Rightarrow> string result"
  rqe_index_order :: "Index list \<Rightarrow> Index list"
  rqe_fk_order :: "ForeignKey list \<Rightarrow> ForeignKey list"
  rqe_parse :: "string \<Rightarrow> rq_url result"
  rqe_SplitHostPort :: "string \<Rightarrow> (string \<times> string) result"

record RqliteConnection =
  rqc_db :: "RqServer option"
  rqc_uri :: string

definition rq_Connect :: "RqEnv \<Rightarrow> string \<Rightarrow> RqliteConnection result" where
  "rq_Connect env url = bindE (rqe_open env url) (\<lambda>db. Inr \<lparr> rqc_db = Some db, rqc_uri = url \<rparr>)"

text \<open>Reading through a connection without a database is a nil dereference.\<close>

definition rq_query :: "RqliteConnection \<Rightarrow> (RqServer \<Rightarrow> 'a result) \<Rightarrow> 'a result" where
  "rq_query s q = (case rqc_db s of Some db \<Rightarrow> q db | None \<Rightarrow> nil_dereference)"

definition UsernameFromURL :: "RqEnv \<Rightarrow> string \<Rightarrow> string result" where
  "UsernameFromURL env url =
     bindE (wrapE ''failed to parse url'' (rqe_parse env url)) (\<lambda>u.
       Inr (case url_User u of None \<Rightarrow> [] | Some (username, _) \<Rightarrow> username))"

definition PasswordFromURL :: "RqEnv \<Rightarrow> string \<Rightarrow> string result" where
  "PasswordFromURL env url =
     bindE (wrapE ''failed to parse url'' (rqe_parse env url)) (\<lambda>u.
       Inr (case url_User u of Some (_, Some pass) \<Rightarrow> pass | _ \<Rightarrow> []))"

definition HostnameFromURL :: "RqEnv \<Rightarrow> string \<Rightarrow> string result" where
  "HostnameFromURL env url =
     bindE (wrapE ''failed to parse url'' (rqe_parse env url)) (\<lambda>u.
     bindE (wrapE ''failed to split host port'' (rqe_SplitHostPort env (url_Host u))) (\<lambda>(host, port). Inr host))"

definition PortFromURL :: "RqEnv \<Rightarrow> string \<Rightarrow> string result" where
  "PortFromURL env url =
     bindE (wrapE ''failed to parse url'' (rqe_parse env url)) (\<lambda>u.
     bindE (wrapE ''failed to split host port'' (rqe_SplitHostPort env (url_Host u))) (\<lambda>(host, port). Inr port))"

section \<open>Listing catalog objects (tables.go)\<close>

definition rq_ListTables :: "RqliteConnection \<Rightarrow> Table list result" where
  "rq_ListTables s =
     rq_query s (\<lambda>db. query_rows ''failed to list tables'' (wrap_error ''failed to scan row'')
       (\<lambda>tableName. \<lparr> tb_Name = tableName, tb_Schema = [], tb_Charset = [], tb_Collation = [] \<rparr>) (rqs_tables db))"

definition rq_ListTableIndexes :: "RqEnv \<Rightarrow> RqliteConnection \<Rightarrow> string \<Rightarrow> Index list result" where
  "rq_ListTableIndexes env s tableName =
     rq_query s (\<lambda>db. bindE (query_rows ''failed to query indexes'' (\<lambda>e. e) (\<lambda>row. row) (rqs_indexes db tableName))
       (\<lambda>rows. Inr (rqe_index_order env (foldl add_index_row [] rows))))"

text \<open>The last row decides; without a row the index is no constraint.\<close>

definition rq_IndexIsAConstraint :: "RqliteConnection \<Rightarrow> string \<Rightarrow> string \<Rightarrow> bool result" where
  "rq_IndexIsAConstraint r tableName indexName =
     rq_query r (\<lambda>db. bindE (query_rows ''failed to query indexes'' (\<lambda>e. e) (\<lambda>origin. origin \<noteq> ''c'')
       (rqs_index_origin db tableName indexName)) (\<lambda>constraints.
         Inr (if constraints = [] then False else last constraints)))"

definition rq_ListTableForeignKeys :: "RqEnv \<Rightarrow> RqliteConnection \<Rightarrow> string \<Rightarrow> ForeignKey list result" where
  "rq_ListTableForeignKeys env s tableName =
     rq_query s (\<lambda>db. bindE (query_rows ''failed to query foreign keys'' (\<lambda>e. e) (\<lambda>row. row) (rqs_foreign_keys db tableName))
       (\<lambda>rows. Inr (rqe_fk_order env (map snd (foldl lite_add_fk_row [] rows)))))"

definition rq_GetTablePrimaryKey :: "RqliteConnection \<Rightarrow> string \<Rightarrow> KeyConstraint option result" where
  "rq_GetTablePrimaryKey s tableName =
     rq_query s (\<lambda>db. bindE (query_rows ''failed to query primary keys'' (\<lambda>e. e) (\<lambda>row. row)
       (rqs_primary_key db tableName))
       (\<lambda>rows. Inr (if rows = [] then None else Some \<lparr> kc_Name = [], kc_Columns = rows, kc_IsPrimary = True \<rparr>)))"

definition rq_GetTablePrimaryKeyColumns :: "RqliteConnection \<Rightarrow> string \<Rightarrow> string list result" where
  "rq_GetTablePrimaryKeyColumns s tableName =
     bindE (wrapE ''failed to get primary key'' (rq_GetTablePrimaryKey s tableName)) (\<lambda>primaryKey.
       Inr (case primaryKey of None \<Rightarrow> [] | Some k \<Rightarrow> kc_Columns k))"

definition rq_GetTableSchema :: "RqliteConnection \<Rightarrow> string \<Rightarrow> Column list result" where
  "rq_GetTableSchema s tableName =
     rq_query s (\<lambda>db. query_rows ''failed to query table schema'' (\<lambda>e. e) lite_schema_column (rqs_schema db tableName))"

section \<open>Changing a table (alter.go, deploy.go)\<close>

definition rq_RecreateTableStatements :: "RqEnv \<Rightarrow> string \<Rightarrow> RqliteTableSchema \<Rightarrow> string list result" where
  "rq_RecreateTableStatements env tableName schema =
     bindE (wrapE ''failed to marshal'' (rqe_marshal env schema)) (\<lambda>b.
       let tempTableName = tableName @ ''_'' @ sha256_hex b;
           columnNames = map rcol_Name (rts_Columns schema)
       in Inr ([''alter table '' @ dquoted tableName @ '' rename to '' @ dquoted tempTableName] @
               rq_CreateTableStatements tableName schema @
               [''insert into '' @ tableName @ '' ('' @ Join columnNames '', '' @ '') select '' @
                Join columnNames '', '' @ '' from '' @ tempTableName,
                ''drop table '' @ tempTableName]))"

definition rq_name_index :: "string \<Rightarrow> RqliteTableIndex \<Rightarrow> RqliteTableIndex" where
  "rq_name_index tableName index = index \<lparr> rix_Name := rq_index_name tableName index \<rparr>"

definition rq_BuildAlterIndexStatements :: "RqEnv \<Rightarrow> RqliteConnection \<Rightarrow> string \<Rightarrow> RqliteTableSchema \<Rightarrow> string list result" where
  "rq_BuildAlterIndexStatements env r tableName schema =
     bindE (wrapE ''failed to list table indexes'' (rq_ListTableIndexes env r tableName)) (\<lambda>currentIndexes.
       let indexes = map (rq_name_index tableName) (rts_Indexes schema)
       in Inr (concat (map (\<lambda>desiredIndex.
                 lite_desired_index_statements (rq_RemoveIndexStatement tableName) (rq_AddIndexStatement tableName desiredIndex)
                   (RqliteSchemaIndexToIndex desiredIndex) currentIndexes) indexes) @
               map (rq_RemoveIndexStatement tableName)
                 (filter (\<lambda>currentIndex. \<not> list_ex (\<lambda>desiredIndex. ix_Name currentIndex = rix_Name desiredIndex) indexes)
                    currentIndexes)))"

text \<open>Whether the table must be recreated, with the schema in which index names were stored.\<close>

definition rq_checkTableNeedsRecreate ::
  "RqEnv \<Rightarrow> RqliteConnection \<Rightarrow> string \<Rightarrow> RqliteTableSchema \<Rightarrow> Column list \<Rightarrow> (bool \<times> RqliteTableSchema) result" where
  "rq_checkTableNeedsRecreate env s tableName schema existingColumns =
     bindE (wrapE ''failed to get table primary key'' (rq_GetTablePrimaryKeyColumns s tableName)) (\<lambda>existingPrimaryKey.
     if lite_primary_key_changed existingPrimaryKey (rts_PrimaryKey schema) then Inr (True, schema)
     else bindE (wrapE ''failed to list table foreign keys'' (rq_ListTableForeignKeys env s tableName)) (\<lambda>existingForeignKeys.
     if lite_foreign_keys_changed existingForeignKeys (map RqliteSchemaForeignKeyToForeignKey (rts_ForeignKeys schema))
     then Inr (True, schema)
     else if lite_columns_modified existingColumns (map rq_schemaColumnToColumn (rts_Columns schema)) then Inr (True, schema)
     else bindE (wrapE ''failed to list table indexes'' (rq_ListTableIndexes env s tableName)) (\<lambda>currentIndexes.
     bindE (lite_desired_indexes (rq_IndexIsAConstraint s tableName) (rq_name_index tableName) RqliteSchemaIndexToIndex
              currentIndexes (rts_Indexes schema)) (\<lambda>(needed, indexes).
     let schema = schema \<lparr> rts_Indexes := indexes \<rparr>
     in if needed then Inr (True, schema)
        else bindE (lite_removed_constraint (rq_IndexIsAConstraint s tableName) (map (rq_index_name tableName) indexes) currentIndexes)
               (\<lambda>needed. Inr (needed, schema))))))"

text \<open>An existing table that is not recreated: new columns, indexes, and then the columns to drop.\<close>

definition rq_alter_in_place ::
  "RqEnv \<Rightarrow> RqliteConnection \<Rightarrow> string \<Rightarrow> RqliteTableSchema \<Rightarrow> Column list \<Rightarrow> string list result" where
  "rq_alter_in_place env s tableName schema existingColumns =
     bindE (wrapE ''failed to build alter index statements'' (rq_BuildAlterIndexStatements env s tableName schema))
       (\<lambda>indexStatements.
          Inr (map (rq_InsertColumnStatement tableName)
                 (filter (\<lambda>desired. \<not> list_ex (\<lambda>existing. col_Name existing = rcol_Name desired) existingColumns)
                    (rts_Columns schema)) @
               indexStatements @
               map (rq_DropColumnStatement tableName)
                 (filter (\<lambda>existing. \<not> list_ex (\<lambda>desired. col_Name existing = rcol_Name desired) (rts_Columns schema))
                    existingColumns)))"

definition rq_buildStatements :: "RqEnv \<Rightarrow> RqliteConnection \<Rightarrow> string \<Rightarrow> RqliteTableSchema \<Rightarrow> string list result" where
  "rq_buildStatements env s tableName schema =
     bindE (rq_query s (\<lambda>db. query_rows ''failed to query from sqlite_master'' (wrap_error ''failed to scan'')
       lite_existing_column (rqs_column_rows db tableName))) (\<lambda>existingColumns.
     bindE (wrapE ''failed to check if table needs recreate''
              (rq_checkTableNeedsRecreate env s tableName schema existingColumns)) (\<lambda>(tableNeedsRecreate, schema).
       if tableNeedsRecreate
       then wrapE ''failed to create recreate table statements'' (rq_RecreateTableStatements env tableName schema)
       else rq_alter_in_place env s tableName schema existingColumns))"

section \<open>Plans and execution (deploy.go)\<close>

text \<open>The query and the scan of its row fail separately.\<close>

definition rq_table_count :: "string \<Rightarrow> RqliteConnection \<Rightarrow> string \<Rightarrow> int result" where
  "rq_table_count msg r tableName =
     bindE (wrapE msg (rq_query r (\<lambda>db. rqs_table_count db tableName))) (wrapE ''failed to scan'')"

definition rq_seed_statements :: "string \<Rightarrow> SeedData option \<Rightarrow> string list" where
  "rq_seed_statements tableName seedData =
     (case seedData of None \<Rightarrow> [] | Some sd \<Rightarrow> rq_SeedDataStatements tableName sd)"

definition PlanRqliteTable ::
  "RqEnv \<Rightarrow> string \<Rightarrow> string \<Rightarrow> RqliteTableSchema \<Rightarrow> SeedData option \<Rightarrow> string list result" where
  "PlanRqliteTable env url tableName schema seedData =
     bindE (wrapE ''failed to connect to rqlite'' (rq_Connect env url)) (\<lambda>s.
     bindE (rq_table_count ''failed to query from sqlite_master'' s tableName) (\<lambda>tableExists.
       if tableExists = 0 \<and> rts_IsDeleted schema then Inr []
       else if tableExists > 0 \<and> rts_IsDeleted schema then Inr [''drop table '' @ dquoted tableName]
       else if tableExists = 0
       then Inr (rq_CreateTableStatements tableName schema @ rq_seed_statements tableName seedData)
       else bindE (wrapE ''failed to build column statements'' (rq_buildStatements env s tableName schema)) (\<lambda>statements.
              Inr (statements @ rq_seed_statements tableName seedData))))"

definition PlanRqliteTableSeedDataOnly :: "RqEnv \<Rightarrow> string \<Rightarrow> string \<Rightarrow> SeedData option \<Rightarrow> string list result" where
  "PlanRqliteTableSeedDataOnly env url tableName seedData =
     (case seedData of
        None \<Rightarrow> Inr []
      | Some sd \<Rightarrow>
          if url = [] then Inl (ErrNew ''URI not set in RqliteConnection'')
          else
          bindE (wrapE ''failed to connect to rqlite'' (rq_Connect env url)) (\<lambda>s.
          bindE (rq_table_count ''failed to check if table exists'' s tableName) (\<lambda>tableExists.
            if tableExists = 0
            then Inl (ErrNew (''table '' @ tableName @ '' does not exist, cannot apply seed data without schema''))
            else Inr (rq_SeedDataStatements tableName sd))))"

definition PlanRQLiteView :: "string \<Rightarrow> string \<Rightarrow> string list result" where
  "PlanRQLiteView url viewName = Inl (ErrNew ''not implemented'')"

text \<open>
  All statements are handed to the server in one call; \<open>write\<close> gives the error it returns, with the
  text of the errors of the single statements, and the new state.
\<close>

definition rq_executeStatements ::
  "(string list \<Rightarrow> 'db \<Rightarrow> string option \<times> 'db) \<Rightarrow> string list \<Rightarrow> 'db \<Rightarrow> go_error option \<times> 'db" where
  "rq_executeStatements write statements db =
     (let filteredStatements = filter (\<lambda>statement. statement \<noteq> []) statements
      in if filteredStatements = [] then (None, db)
         else (case write filteredStatements db of
                 (None, db') \<Rightarrow> (None, db')
               | (Some errs, db') \<Rightarrow> (Some (ErrNew (''failed to write: '' @ errs)), db')))"

definition DeployRqliteStatements ::
  "RqEnv \<Rightarrow> (string list \<Rightarrow> 'db \<Rightarrow> string option \<times> 'db) \<Rightarrow> string \<Rightarrow> string list \<Rightarrow> 'db \<Rightarrow> go_error option \<times> 'db" where
  "DeployRqliteStatements env write url statements db =
     (case rq_Connect env url of
        Inl e \<Rightarrow> (Some (wrap_error ''failed to connect'' e), db)
      | Inr r \<Rightarrow>
          (case rq_executeStatements write statements db of
             (Some e, db') \<Rightarrow> (Some (wrap_error ''failed to execute statements'' e), db')
           | (None, db') \<Rightarrow> (None, db')))"

definition rq_DeployStatements ::
  "RqEnv \<Rightarrow> (string list \<Rightarrow> 'db \<Rightarrow> string option \<times> 'db) \<Rightarrow> RqliteConnection \<Rightarrow> string list \<Rightarrow> 'db \<Rightarrow> go_error option \<times> 'db" where
  "rq_DeployStatements env write r statements db =
     (if rqc_uri r = [] then (Some (ErrNew ''URI not set in RqliteConnection''), db)
      else DeployRqliteStatements env write (rqc_uri r) statements db)"


section \<open>Entry points (connection.go)\<close>

definition rq_PlanTableSchema ::
  "RqEnv \<Rightarrow> RqliteConnection \<Rightarrow> string \<Rightarrow> schema_iface \<Rightarrow> SeedData option \<Rightarrow> string list result" where
  "rq_PlanTableSchema env s tableName tableSchema seedData =
     (if tableSchema = NilInterface \<and> seedData \<noteq> None
      then PlanRqliteTableSeedDataOnly env (rqc_uri s) tableName seedData
      else (case tableSchema of
              RqliteTable schema \<Rightarrow>
                if rqc_uri s = [] then Inl (ErrNew ''URI not set in RqliteConnection'')
                else
                (case schema of
                   Some schema \<Rightarrow> PlanRqliteTable env (rqc_uri s) tableName schema seedData
                 | None \<Rightarrow>
                     bindE (wrapE ''failed to connect to rqlite'' (rq_Connect env (rqc_uri s))) (\<lambda>s'.
                     bindE (rq_table_count ''failed to query from sqlite_master'' s' tableName) (\<lambda>_. nil_dereference)))
            | _ \<Rightarrow> Inl (ErrNew ''tableSchema must be *RqliteTableSchema'')))"

definition rq_PlanViewSchema :: "RqliteConnection \<Rightarrow> string \<Rightarrow> schema_iface \<Rightarrow> string list result" where
  "rq_PlanViewSchema s viewName viewSchema = Inl (ErrNew ''RQLite does not support views'')"

definition rq_PlanTypeSchema :: "RqliteConnection \<Rightarrow> string \<Rightarrow> schema_iface \<Rightarrow> string list result" where
  "rq_PlanTypeSchema s typeName typeSchema = Inl (ErrNew ''type schemas are not supported in RQLite'')"

definition rq_PlanFunctionSchema :: "RqliteConnection \<Rightarrow> string \<Rightarrow> schema_iface \<Rightarrow> string list result" where
  "rq_PlanFunctionSchema s functionName functionSchema = Inl (ErrNew ''RQLite does not support stored functions'')"

definition rq_PlanExtensionSchema :: "RqliteConnection \<Rightarrow> string \<Rightarrow> schema_iface \<Rightarrow> string list result" where
  "rq_PlanExtensionSchema s extensionName extensionSchema = Inl (ErrNew ''RQLite does not support extensions'')"

definition rq_GenerateFixtures :: "TableSpec \<Rightarrow> string list result" where
  "rq_GenerateFixtures spec =
     (case Option.bind (tsp_Schema spec) ts_RQLite of
        None \<Rightarrow> Inr []
      | Some s \<Rightarrow>
          if rts_IsDeleted s then Inr []
          else Inr (rq_CreateTableStatements (tsp_Name spec) s @ rq_seed_statements (tsp_Name spec) (tsp_SeedData spec)))"

definition rq_NewFixtureOnlyConnection :: "RqliteConnection" where
  "rq_NewFixtureOnlyConnection = \<lparr> rqc_db = None, rqc_uri = [] \<rparr>"

end
