(* ===== verification/Rq_Correct.thy ===== *)
theory Rq_Correct
  imports Rq_Plan Database_Sync
begin

text \<open>
  Properties of the rqlite planner: the plan of a table is empty exactly when the table is in sync, indexes are
  planned by name, and a deployment is one call of the server. The shared parts of the proofs are in \<open>Lite_Common\<close>.
\<close>

section \<open>A sample catalog\<close>

definition rq_sample_server :: RqServer where
  "rq_sample_server =
     \<lparr> rqs_tables = Inr [Inr ''users''],
       rqs_table_count = (\<lambda>t. Inr (Inr (if t = ''users'' then 1 else 0))),
       rqs_column_rows = (\<lambda>_. Inr
         [Inr \<lparr> lcr_Name = ''id'', lcr_DataType = ''integer'', lcr_PrimaryKey = 1, lcr_ColumnDefault = None, lcr_NotNull = 1 \<rparr>,
          Inr \<lparr> lcr_Name = ''email'', lcr_DataType = ''TEXT'', lcr_PrimaryKey = 0,
                lcr_ColumnDefault = Some (dquoted ''none''), lcr_NotNull = 0 \<rparr>]),
       rqs_indexes = (\<lambda>_. Inr [Inr (''by_both'', True, ''email''), Inr (''stale'', False, ''email''), Inr (''by_both'', True, ''id'')]),
       rqs_index_origin = (\<lambda>_ _. Inr [Inr ''c'']),
       rqs_foreign_keys = (\<lambda>_. Inr []),
       rqs_primary_key = (\<lambda>_. Inr [Inr ''id'']),
       rqs_schema = (\<lambda>_. Inr []) \<rparr>"

definition rq_sample_env :: RqEnv where
  "rq_sample_env =
     \<lparr> rqe_open = (\<lambda>_. Inr rq_sample_server), rqe_marshal = (\<lambda>_. Inr ''{}''), rqe_index_order = (\<lambda>l. l),
       rqe_fk_order = (\<lambda>l. l),
       rqe_parse = (\<lambda>_. Inr \<lparr> url_User = None, url_Host = ''n:4001'' \<rparr>), rqe_SplitHostPort = (\<lambda>_. Inr (''n'', ''4001'')) \<rparr>"

definition rq_sample_conn :: RqliteConnection where
  "rq_sample_conn = \<lparr> rqc_db = Some rq_sample_server, rqc_uri = ''http://n:4001'' \<rparr>"

definition rq_column :: "string \<Rightarrow> string \<Rightarrow> bool option \<Rightarrow> bool option \<Rightarrow> string option \<Rightarrow> RqliteTableColumn" where
  "rq_column name ty notNull autoIncrement dflt =
     \<lparr> rcol_Name = name, rcol_Type = ty, rcol_Constraints = Some \<lparr> rcc_NotNull = notNull \<rparr>,
       rcol_Attributes = Some \<lparr> rca_AutoIncrement = autoIncrement \<rparr>, rcol_Default = dflt \<rparr>"

definition rq_index :: "string \<Rightarrow> bool \<Rightarrow> string list \<Rightarrow> RqliteTableIndex" where
  "rq_index name unique cols = \<lparr> rix_Columns = cols, rix_Name = name, rix_IsUnique = unique, rix_Type = [] \<rparr>"

definition rq_sample_schema :: RqliteTableSchema where
  "rq_sample_schema =
     \<lparr> rts_PrimaryKey = [''id''], rts_ForeignKeys = [],
       rts_Indexes = [rq_index ''by_both'' True [''email'', ''id''], rq_index [] False [''email'']],
       rts_Columns = [rq_column ''id'' ''integer'' (Some True) None None, rq_column ''email'' ''text'' None None (Some ''none'')],
       rts_IsDeleted = False, rts_Strict = False \<rparr>"

section \<open>Indexes\<close>

interpretation rq_indexes: lite_indexes rix_Name RqliteSchemaIndexToIndex
  by unfold_locales (simp add: RqliteSchemaIndexToIndex_def)

abbreviation rq_index_same :: "RqliteTableIndex \<Rightarrow> Index \<Rightarrow> bool" where
  "rq_index_same \<equiv> lite_index_same RqliteSchemaIndexToIndex"

lemma rq_index_name_named [simp]: "rq_index_name t (rq_name_index t i) = rq_index_name t i"
  by (auto simp: rq_index_name_def rq_name_index_def GenerateRqliteIndexName_def)

lemma rq_name_index_idem [simp]: "rq_name_index t (rq_name_index t i) = rq_name_index t i"
  by (simp add: rq_name_index_def [of t "rq_name_index t i"]) (simp add: rq_name_index_def)

lemma rq_named_name [simp]: "rix_Name (rq_name_index t i) = rq_index_name t i"
  by (simp add: rq_name_index_def)

lemma rq_name_index_comp [simp]: "rq_name_index t \<circ> rq_name_index t = rq_name_index t"
  by (simp add: fun_eq_iff)

lemma rq_ListTableIndexes_distinct:
  assumes "rq_ListTableIndexes env s t = Inr cur" "\<And>l. mset (rqe_index_order env l) = mset l"
  shows "distinct (map ix_Name cur)"
proof -
  obtain rows where "cur = rqe_index_order env (foldl add_index_row [] rows)"
    using assms(1) by (auto simp: rq_ListTableIndexes_def rq_query_def bindE_Inr_iff nil_dereference_def split: option.splits)
  then have "mset (map ix_Name cur) = mset (map ix_Name (foldl add_index_row [] rows))"
    by (simp add: assms(2))
  then show ?thesis using grouped_rows_distinct [of "[]" rows] mset_eq_imp_distinct_iff by fastforce
qed

lemma rq_BuildAlterIndexStatements_plan:
  assumes "rq_ListTableIndexes env s t = Inr cur" "\<And>l. mset (rqe_index_order env l) = mset l"
  shows "rq_BuildAlterIndexStatements env s t schema =
    Inr (map (rendered (rq_RemoveIndexStatement t) (rq_AddIndexStatement t))
      (named_plan rix_Name ix_Name rq_index_same (map (rq_name_index t) (rts_Indexes schema)) cur))"
  using assms(1) rq_indexes.statements_render_plan [OF rq_ListTableIndexes_distinct [OF assms],
      of "rq_RemoveIndexStatement t" "rq_AddIndexStatement t" "map (rq_name_index t) (rts_Indexes schema)"]
  by (simp add: rq_BuildAlterIndexStatements_def Let_def)

section \<open>A plan is empty exactly for a table in sync\<close>

definition rq_in_sync ::
  "string \<Rightarrow> RqliteTableSchema \<Rightarrow> string list \<Rightarrow> ForeignKey list \<Rightarrow> Column list \<Rightarrow> Index list \<Rightarrow> bool" where
  "rq_in_sync t schema pk fks cols ixs \<longleftrightarrow>
     lite_keys_in_sync pk fks (rts_PrimaryKey schema) (map RqliteSchemaForeignKeyToForeignKey (rts_ForeignKeys schema)) \<and>
     lite_columns_in_sync cols (map rq_schemaColumnToColumn (rts_Columns schema)) \<and>
     in_step rix_Name ix_Name rq_index_same (map (rq_name_index t) (rts_Indexes schema)) ixs"

lemma rq_schemaColumnToColumn_name [simp]: "col_Name (rq_schemaColumnToColumn c) = rcol_Name c"
  by (simp add: rq_schemaColumnToColumn_def)

lemma rq_recreate_not_empty: "rq_RecreateTableStatements env t schema \<noteq> Inr []"
  by (simp add: rq_RecreateTableStatements_def bindE_Inr_iff Let_def)

lemma rq_alter_in_place_empty:
  assumes "rq_ListTableIndexes env s t = Inr ixs" "\<And>l. mset (rqe_index_order env l) = mset l"
  shows "rq_alter_in_place env s t schema cols = Inr [] \<longleftrightarrow>
    filter (\<lambda>d. \<not> list_ex (\<lambda>e. col_Name e = col_Name d) cols) (map rq_schemaColumnToColumn (rts_Columns schema)) = [] \<and>
    filter (\<lambda>e. \<not> list_ex (\<lambda>d. col_Name e = col_Name d) (map rq_schemaColumnToColumn (rts_Columns schema))) cols = [] \<and>
    in_step rix_Name ix_Name rq_index_same (map (rq_name_index t) (rts_Indexes schema)) ixs"
  by (auto simp: rq_alter_in_place_def rq_BuildAlterIndexStatements_plan [OF assms] rq_indexes.planner.plan_empty_iff
      filter_empty_conv list_ex_iff)

lemma rq_removed_in_step:
  assumes "in_step rix_Name ix_Name rq_index_same (map (rq_name_index t) is) ixs"
  shows "lite_removed_constraint isC (map (rq_index_name t) (map (rq_name_index t) is)) ixs = Inr False"
proof (rule lite_removed_constraint_none)
  fix c assume "c \<in> set ixs"
  then obtain i where "i \<in> set is" "rq_index_name t i = ix_Name c"
    using assms by (auto simp: in_step_def list_all_iff list_ex_iff)
  then show "ix_Name c \<in> set (map (rq_index_name t) (map (rq_name_index t) is))" by (auto simp: image_iff intro: bexI [of _ i])
qed

lemma rq_buildStatements_empty:
  assumes "rq_query s (\<lambda>db. query_rows ''failed to query from sqlite_master'' (wrap_error ''failed to scan'')
      lite_existing_column (rqs_column_rows db t)) = Inr cols"
    and pk: "rq_GetTablePrimaryKeyColumns s t = Inr pk" and fks: "rq_ListTableForeignKeys env s t = Inr fks"
    and ixs: "rq_ListTableIndexes env s t = Inr ixs" and order: "\<And>l. mset (rqe_index_order env l) = mset l"
    and "distinct (rts_PrimaryKey schema)"
  shows "rq_buildStatements env s t schema = Inr [] \<longleftrightarrow> rq_in_sync t schema pk fks cols ixs"
proof
  note keys = lite_keys_in_sync_iff [OF assms(6)]
  assume "rq_buildStatements env s t schema = Inr []"
  then obtain schema' where c: "rq_checkTableNeedsRecreate env s t schema cols = Inr (False, schema')"
    and a: "rq_alter_in_place env s t schema' cols = Inr []"
    using assms(1) rq_recreate_not_empty by (auto simp: rq_buildStatements_def bindE_Inr_iff split: if_splits)
  then have "schema' = schema \<lparr> rts_Indexes := map (rq_name_index t) (rts_Indexes schema) \<rparr>"
    and "\<not> lite_primary_key_changed pk (rts_PrimaryKey schema)"
    and "\<not> lite_foreign_keys_changed fks (map RqliteSchemaForeignKeyToForeignKey (rts_ForeignKeys schema))"
    and "\<not> lite_columns_modified cols (map rq_schemaColumnToColumn (rts_Columns schema))"
    using pk fks ixs by (auto simp: rq_checkTableNeedsRecreate_def bindE_Inr_iff Let_def split: if_splits dest: lite_desired_indexes_named)
  then show "rq_in_sync t schema pk fks cols ixs"
    using a by (simp add: rq_in_sync_def rq_alter_in_place_empty [OF ixs order] lite_columns_in_sync_iff keys)
next
  note keys = lite_keys_in_sync_iff [OF assms(6)]
  assume sync: "rq_in_sync t schema pk fks cols ixs"
  then have step: "in_step rix_Name ix_Name rq_index_same (map (rq_name_index t) (rts_Indexes schema)) ixs"
    by (simp add: rq_in_sync_def)
  have "rq_checkTableNeedsRecreate env s t schema cols =
      Inr (False, schema \<lparr> rts_Indexes := map (rq_name_index t) (rts_Indexes schema) \<rparr>)"
    using sync pk fks ixs rq_indexes.in_step_no_constraint [OF rq_ListTableIndexes_distinct [OF ixs order] step]
      rq_removed_in_step [OF step]
    by (simp add: rq_checkTableNeedsRecreate_def rq_in_sync_def keys lite_columns_in_sync_iff)
  moreover have "rq_alter_in_place env s t (schema \<lparr> rts_Indexes := map (rq_name_index t) (rts_Indexes schema) \<rparr>) cols = Inr []"
    using sync by (simp add: rq_alter_in_place_empty [OF ixs order] rq_in_sync_def lite_columns_in_sync_iff)
  ultimately show "rq_buildStatements env s t schema = Inr []"
    using assms(1) by (simp add: rq_buildStatements_def)
qed

section \<open>The connection behind the database layer\<close>

definition rq_connection ::
  "RqEnv \<Rightarrow> (string list \<Rightarrow> 'db \<Rightarrow> string option \<times> 'db) \<Rightarrow> RqliteConnection \<Rightarrow> 'db Connection" where
  "rq_connection env exec s =
     \<lparr> cn_PlanTableSchema = rq_PlanTableSchema env s,
       cn_PlanTypeSchema = rq_PlanTypeSchema s,
       cn_PlanViewSchema = rq_PlanViewSchema s,
       cn_PlanFunctionSchema = rq_PlanFunctionSchema s,
       cn_PlanExtensionSchema = rq_PlanExtensionSchema s,
       cn_DeployStatements = rq_DeployStatements env exec s,
       cn_GenerateFixtures = rq_GenerateFixtures \<rparr>"

definition RqlitePlugin_Connect ::
  "RqEnv \<Rightarrow> (string list \<Rightarrow> 'db \<Rightarrow> string option \<times> 'db) \<Rightarrow> string \<Rightarrow> (string \<rightharpoonup> option_value) \<Rightarrow> 'db Connection result" where
  "RqlitePlugin_Connect env exec uri options =
     (if options ''fixture-only'' = Some (OptBool True)
      then Inr (rq_connection env exec rq_NewFixtureOnlyConnection)
      else bindE (wrapE ''failed to connect to rqlite'' (rq_Connect env uri)) (\<lambda>conn. Inr (rq_connection env exec conn)))"

definition rq_SupportedEngines :: "string list" where
  "rq_SupportedEngines = [''rqlite'']"

section \<open>The properties\<close>

text \<open>
  C28. An rqlite table is planned for exactly when the planner sees a difference. If the desired primary key names no column twice, the
  plan of an existing table without seed data is empty if and only if the primary key in the catalog has the same
  columns, there are as many foreign keys as desired and a counterpart for every desired one, the columns have the same
  names, and each its type (whatever the case), collation, default, not null and autoincrement, and the indexes are in
  step by name, uniqueness, method and columns. That is all that is compared: a change of strict, or of the order of
  the columns of the primary key or of an index, is not planned. And since the catalog is read without
  autoincrement and with the literal names of the columns in place of the foreign keys, a table with either is recreated by every plan.
\<close>

theorem rqlite_plan_empty_iff_in_sync:
  assumes "rq_Connect env url = Inr s" "rq_table_count ''failed to query from sqlite_master'' s t = Inr n" "n > 0"
    and "\<not> rts_IsDeleted schema"
    and "rq_query s (\<lambda>db. query_rows ''failed to query from sqlite_master'' (wrap_error ''failed to scan'')
      lite_existing_column (rqs_column_rows db t)) = Inr cols"
    and "rq_GetTablePrimaryKeyColumns s t = Inr pk" "rq_ListTableForeignKeys env s t = Inr fks"
    and "rq_ListTableIndexes env s t = Inr ixs" "\<And>l. mset (rqe_index_order env l) = mset l"
    and "distinct (rts_PrimaryKey schema)"
  shows "PlanRqliteTable env url t schema None = Inr [] \<longleftrightarrow> rq_in_sync t schema pk fks cols ixs"
  unfolding rq_buildStatements_empty [OF assms(5-10), symmetric]
  using assms(1-4) by (auto simp: PlanRqliteTable_def rq_seed_statements_def bindE_Inr_iff)

theorem rqlite_plan_empty_iff_in_sync_witness:
  "PlanRqliteTable rq_sample_env ''http://n:4001'' ''users''
     (rq_sample_schema \<lparr> rts_Indexes := [rq_index ''stale'' False [''email''], rq_index ''by_both'' True [''id'', ''email'']] \<rparr>) None =
   Inr []"
proof -
  let ?s = "rq_sample_schema \<lparr> rts_Indexes := [rq_index ''stale'' False [''email''], rq_index ''by_both'' True [''id'', ''email'']] \<rparr>"
  let ?cols = "map lite_existing_column
      [\<lparr> lcr_Name = ''id'', lcr_DataType = ''integer'', lcr_PrimaryKey = 1, lcr_ColumnDefault = None, lcr_NotNull = 1 \<rparr>,
       \<lparr> lcr_Name = ''email'', lcr_DataType = ''TEXT'', lcr_PrimaryKey = 0, lcr_ColumnDefault = Some (dquoted ''none''),
         lcr_NotNull = 0 \<rparr>]"
  let ?ixs = "foldl add_index_row [] [(''by_both'', True, ''email''), (''stale'', False, ''email''), (''by_both'', True, ''id'')]"
  note reads = rq_query_def query_rows_def scan_rows_def rq_sample_conn_def rq_sample_server_def
  have read: "rq_Connect rq_sample_env ''http://n:4001'' = Inr rq_sample_conn"
    "rq_table_count ''failed to query from sqlite_master'' rq_sample_conn ''users'' = Inr 1" "0 < (1 :: int)"
    "\<not> rts_IsDeleted ?s"
    "rq_query rq_sample_conn (\<lambda>db. query_rows ''failed to query from sqlite_master''
      (wrap_error ''failed to scan'') lite_existing_column (rqs_column_rows db ''users'')) = Inr ?cols"
    "rq_GetTablePrimaryKeyColumns rq_sample_conn ''users'' = Inr [''id'']"
    "rq_ListTableForeignKeys rq_sample_env rq_sample_conn ''users'' = Inr []"
    "rq_ListTableIndexes rq_sample_env rq_sample_conn ''users'' = Inr ?ixs"
    "\<And>l. mset (rqe_index_order rq_sample_env l) = mset l" "distinct (rts_PrimaryKey ?s)"
    by (simp_all add: rq_Connect_def rq_table_count_def rq_GetTablePrimaryKeyColumns_def rq_GetTablePrimaryKey_def
        rq_ListTableForeignKeys_def rq_ListTableIndexes_def rq_sample_env_def rq_sample_schema_def reads)
  have "lite_columns_in_sync ?cols (map rq_schemaColumnToColumn (rts_Columns ?s))"
    "in_step rix_Name ix_Name rq_index_same (map (rq_name_index ''users'') (rts_Indexes ?s)) ?ixs" by code_simp+
  then have "rq_in_sync ''users'' ?s [''id''] [] ?cols ?ixs"
    unfolding rq_in_sync_def by (simp add: lite_keys_in_sync_def rq_sample_schema_def)
  then show ?thesis using rqlite_plan_empty_iff_in_sync [OF read] by blast
qed

text \<open>
  The statements that recreate an rqlite table are those for SQLite without a transaction: the copy selects every desired
  column from the old table, new ones too, and the indexes are created while the old table still has its own.
\<close>

lemma rqlite_recreate_statements:
  assumes "rqe_marshal env schema = Inr b" "temp = t @ ''_'' @ sha256_hex b" "cols = map rcol_Name (rts_Columns schema)"
  shows "rq_RecreateTableStatements env t schema =
    Inr ([''alter table '' @ dquoted t @ '' rename to '' @ dquoted temp, hd (rq_CreateTableStatements t schema)] @
      map (rq_AddIndexStatement t) (rts_Indexes schema) @
      [''insert into '' @ t @ '' ('' @ Join cols '', '' @ '') select '' @ Join cols '', '' @ '' from '' @ temp, ''drop table '' @ temp])"
  using assms by (simp add: rq_RecreateTableStatements_def rq_CreateTableStatements_def Let_def)

section \<open>Execution\<close>

text \<open>
  A deployment calls the server once, with the non-empty statements in their order, or not at all.
\<close>

lemma rqlite_deploys_at_once:
  assumes "rq_Connect env url = Inr s" "filter (\<lambda>stmt. stmt \<noteq> []) statements = stmts"
  shows "DeployRqliteStatements env write url statements db =
    (if stmts = [] then (None, db)
     else (map_option (\<lambda>errs. wrap_error ''failed to execute statements'' (ErrNew (''failed to write: '' @ errs)))
             (fst (write stmts db)), snd (write stmts db)))"
  using assms by (auto simp: DeployRqliteStatements_def rq_executeStatements_def Let_def split: prod.splits option.splits)

end
