(* ===== verification/Ca_Plan.thy ===== *)
theory Ca_Plan
  imports Db_Query Api_Specs
begin

text \<open>
  The Cassandra plugin: src/plugins/cassandra/lib (alias.go, alter.go, column.go, type.go, create.go,
  connection.go, deploy.go) and the YAML decoder of table properties in
  src/pkg/apis/schemas/v1alpha4/cassandra.go. A function that has the name of one of the PostgreSQL plugin
  carries the prefix \<open>ca_\<close>.

  The server is a parameter: \<open>CaServer\<close> answers each query as a function of its arguments, \<open>CaEnv\<close> opens
  sessions. A query read with an iterator gives its rows or the error that closing the iterator
  returns; one read with a scanner gives its rows, after which the source does not ask for an error.
\<close>

section \<open>The standard library: floats, maps and JSON\<close>

text \<open>
  A float64 is a sign, a mantissa and a binary exponent, an infinity or not a number. The verb %f of
  fmt.Sprintf prints six decimals of the exact value, rounded to the nearest, ties to even.
\<close>

datatype float64 = Finite bool nat int | Infinite bool | NotANumber

definition scaled_round :: "nat \<Rightarrow> nat \<Rightarrow> nat" where
  "scaled_round n d =
     (let q = n div d; r = 2 * (n mod d)
      in if d < r \<or> d = r \<and> odd q then q + 1 else q)"

definition millionths :: "nat \<Rightarrow> int \<Rightarrow> nat" where
  "millionths m e =
     (if 0 \<le> e then m * 2 ^ nat e * 10 ^ 6 else scaled_round (m * 10 ^ 6) (2 ^ nat (- e)))"

definition pad_left :: "nat \<Rightarrow> string \<Rightarrow> string" where
  "pad_left n s = replicate (n - length s) (CHR ''0'') @ s"

fun Sprintf_f :: "float64 \<Rightarrow> string" where
  "Sprintf_f (Finite neg m e) =
     (let v = millionths m e
      in (if neg then ''-'' else []) @ nat_str (v div 10 ^ 6) @ ''.'' @ pad_left 6 (nat_str (v mod 10 ^ 6)))"
| "Sprintf_f (Infinite neg) = (if neg then ''-Inf'' else ''+Inf'')"
| "Sprintf_f NotANumber = ''NaN''"

text \<open>reflect.DeepEqual on maps from strings to strings; None is the nil map.\<close>

fun DeepEqual_map :: "(string \<times> string) list option \<Rightarrow> (string \<times> string) list option \<Rightarrow> bool" where
  "DeepEqual_map None None = True"
| "DeepEqual_map (Some a) (Some b) =
     (list_all (\<lambda>k. map_of a k = map_of b k) (map fst a) \<and> list_all (\<lambda>k. map_of a k = map_of b k) (map fst b))"
| "DeepEqual_map _ _ = False"

text \<open>json.Marshal of a map from strings to strings, whose keys it sorts.\<close>

definition json_char :: "char \<Rightarrow> string" where
  "json_char c =
     (if c = dquote \<or> c = backslash then [backslash, c]
      else if byte c = 8 then [backslash, CHR ''b'']
      else if byte c = 12 then [backslash, CHR ''f'']
      else if byte c = 10 then [backslash, CHR ''n'']
      else if byte c = 13 then [backslash, CHR ''r'']
      else if byte c = 9 then [backslash, CHR ''t'']
      else if byte c < 32 \<or> c = CHR ''<'' \<or> c = CHR ''>'' \<or> c = CHR ''&''
      then backslash # ''u00'' @ [hex_digit (byte c div 16), hex_digit (byte c mod 16)]
      else [c])"

definition json_string :: "string \<Rightarrow> string" where
  "json_string s = dquote # concat (map json_char s) @ [dquote]"

definition value_at :: "(string \<times> string) list \<Rightarrow> string \<Rightarrow> string" where
  "value_at m k = (case map_of m k of Some v \<Rightarrow> v | None \<Rightarrow> [])"

definition json_map :: "(string \<times> string) list \<Rightarrow> string" where
  "json_map m =
     ''{'' @ Join (map (\<lambda>k. json_string k @ '':'' @ json_string (value_at m k)) (sort (map fst m))) '','' @ ''}''"

section \<open>Decoding table properties (cassandra.go)\<close>

text \<open>What the YAML decoder puts into an interface value.\<close>

datatype yaml_value =
    YString string | YInt int | YMap "(yaml_value \<times> yaml_value) list" | YOther

definition yaml_string :: "(string \<times> yaml_value) list \<Rightarrow> string \<Rightarrow> string \<Rightarrow> string" where
  "yaml_string raw key current = (case map_of raw key of Some (YString str) \<Rightarrow> str | _ \<Rightarrow> current)"

definition yaml_int :: "(string \<times> yaml_value) list \<Rightarrow> string \<Rightarrow> int option \<Rightarrow> int option" where
  "yaml_int raw key current = (case map_of raw key of Some (YInt i) \<Rightarrow> Some i | _ \<Rightarrow> current)"

text \<open>A key or a value that is not a string is a panic of the type assertion.\<close>

definition yaml_entry :: "yaml_value \<times> yaml_value \<Rightarrow> (string \<times> string) result" where
  "yaml_entry kv =
     (case kv of (YString k, YString v) \<Rightarrow> Inr (k, v) | _ \<Rightarrow> Inl (GoPanic ''interface conversion: interface is not string''))"

definition yaml_map ::
  "(string \<times> yaml_value) list \<Rightarrow> string \<Rightarrow> (string \<times> string) list option \<Rightarrow> (string \<times> string) list option result" where
  "yaml_map raw key current =
     (case map_of raw key of
        Some (YMap m) \<Rightarrow> bindE (mapE yaml_entry m) (\<lambda>entries. Inr (Some entries))
      | _ \<Rightarrow> Inr current)"

definition UnmarshalYAML ::
  "CassandraTableProperties \<Rightarrow> (string \<times> yaml_value) list result \<Rightarrow> CassandraTableProperties result" where
  "UnmarshalYAML p unmarshal =
     bindE unmarshal (\<lambda>raw.
       let p = p \<lparr> ctp_BloomFilterFPChance := yaml_string raw ''bloomFilterFPChance'' (ctp_BloomFilterFPChance p) \<rparr>;
           p = p \<lparr> ctp_Comment := yaml_string raw ''comment'' (ctp_Comment p) \<rparr>;
           p = p \<lparr> ctp_CRCCheckChance := yaml_string raw ''crcCheckChance'' (ctp_CRCCheckChance p) \<rparr>;
           p = p \<lparr> ctp_DCLocalReadRepairChance := yaml_string raw ''dcLocalReadRepairChance'' (ctp_DCLocalReadRepairChance p) \<rparr>;
           p = p \<lparr> ctp_ReadRepairChance := yaml_string raw ''readRepairChance'' (ctp_ReadRepairChance p) \<rparr>;
           p = p \<lparr> ctp_SpeculativeRetry := yaml_string raw ''speculativeRetry'' (ctp_SpeculativeRetry p) \<rparr>
       in bindE (yaml_map raw ''caching'' (ctp_Caching p)) (\<lambda>caching.
          bindE (yaml_map raw ''compaction'' (ctp_Compaction p)) (\<lambda>compaction.
          bindE (yaml_map raw ''compression'' (ctp_Compression p)) (\<lambda>compression.
            let p = p \<lparr> ctp_Caching := caching, ctp_Compaction := compaction, ctp_Compression := compression \<rparr>;
                p = p \<lparr> ctp_DefaultTTL := yaml_int raw ''defaultTTL'' (ctp_DefaultTTL p) \<rparr>;
                p = p \<lparr> ctp_GCGraceSeconds := yaml_int raw ''gcGraceSeconds'' (ctp_GCGraceSeconds p) \<rparr>;
                p = p \<lparr> ctp_MaxIndexInterval := yaml_int raw ''maxIndexInterval'' (ctp_MaxIndexInterval p) \<rparr>;
                p = p \<lparr> ctp_MemtableFlushPeriodMS := yaml_int raw ''memtableFlushPeriodMs'' (ctp_MemtableFlushPeriodMS p) \<rparr>;
                p = p \<lparr> ctp_MinIndexInterval := yaml_int raw ''minIndexInterval'' (ctp_MinIndexInterval p) \<rparr>
            in Inr p))))"

section \<open>Columns and types (alias.go, column.go, type.go, alter.go)\<close>

definition ca_unaliasUnparameterizedColumnType :: "string \<Rightarrow> string" where
  "ca_unaliasUnparameterizedColumnType requestedType =
     (if requestedType = ''varchar'' then ''text'' else requestedType)"

definition ca_schemaColumnToColumn :: "CassandraColumn \<Rightarrow> Column" where
  "ca_schemaColumnToColumn schemaColumn =
     (let unaliased = ca_unaliasUnparameterizedColumnType (ccol_Type schemaColumn);
          dataType = (if unaliased \<noteq> [] then unaliased else []);
          dataType = (if dataType = [] then ccol_Type schemaColumn else dataType)
      in \<lparr> col_Name = ccol_Name schemaColumn, col_DataType = dataType, col_ColumnDefault = None, col_Constraints = None,
           col_Attributes = None, col_IsArray = False, col_Charset = [], col_Collation = [],
           col_IsStatic = (ccol_IsStatic schemaColumn = Some True) \<rparr>)"

definition cassandraColumnAsInsert :: "CassandraColumn \<Rightarrow> string" where
  "cassandraColumnAsInsert column =
     ccol_Name column @ '' '' @ ccol_Type column @ (if ccol_IsStatic column = Some True then '' static'' else [])"

definition ca_InsertColumnStatement :: "string \<Rightarrow> CassandraColumn \<Rightarrow> string" where
  "ca_InsertColumnStatement tableName desiredColumn =
     ''alter table '' @ [dquote] @ tableName @ [dquote] @ '' add '' @ cassandraColumnAsInsert desiredColumn"

definition cassandraTypeAsInsert :: "CassandraField \<Rightarrow> string" where
  "cassandraTypeAsInsert field = cfd_Name field @ '' '' @ cfd_Type field"

definition ca_columnsMatch :: "Column \<Rightarrow> Column \<Rightarrow> bool" where
  "ca_columnsMatch col1 col2 =
     (if col_DataType col1 \<noteq> col_DataType col2 then False
      else if col_IsStatic col1 \<noteq> col_IsStatic col2 then False
      else True)"

fun ca_AlterColumnStatements :: "string \<Rightarrow> CassandraColumn list \<Rightarrow> Column \<Rightarrow> string list" where
  "ca_AlterColumnStatements tableName [] existingColumn =
     [''alter table '' @ [dquote] @ tableName @ [dquote] @ '' drop column '' @ col_Name existingColumn]"
| "ca_AlterColumnStatements tableName (desiredColumn # rest) existingColumn =
     (if ccol_Name desiredColumn = col_Name existingColumn then
        (let column = ca_schemaColumnToColumn desiredColumn;
             changes = (if col_DataType existingColumn \<noteq> col_DataType column
                        then [''alter '' @ col_Name existingColumn @ '' type '' @ col_DataType column] else [])
         in if ca_columnsMatch existingColumn column then []
            else if changes = [] then []
            else [''alter table '' @ [dquote] @ tableName @ [dquote] @ '' '' @ Join changes '', ''])
      else ca_AlterColumnStatements tableName rest existingColumn)"

section \<open>New tables and types (create.go)\<close>

definition CreateTypeStatement :: "string \<Rightarrow> CassandraDataTypeSchema \<Rightarrow> string" where
  "CreateTypeStatement typeName typeSchema =
     ''create type '' @ Quote typeName @ '' ('' @ Join (map cassandraTypeAsInsert (cdt_Fields typeSchema)) '', '' @ '')''"

definition primary_key_clause :: "string list list \<Rightarrow> string" where
  "primary_key_clause keys =
     ''primary key ('' @
     Join (map (\<lambda>primaryKey. if length primaryKey = 1 then primaryKey ! 0 else ''('' @ Join primaryKey '', '' @ '')'') keys) '', '' @
     '')''"

definition clustering_clause :: "CassandraClusteringOrder \<Rightarrow> string" where
  "clustering_clause order =
     ''with clustering order by ('' @ cco_Column order @ (if cco_IsDescending order = Some True then '' desc'' else []) @ '')''"

definition map_property :: "string \<Rightarrow> (string \<times> string) list \<Rightarrow> string" where
  "map_property name m =
     name @ '' = {'' @
     Join (map (\<lambda>k. [squote] @ k @ [squote] @ '':'' @ [squote] @ value_at m k @ [squote]) (sort (map fst m))) '','' @ ''}''"

definition text_property :: "string \<Rightarrow> string \<Rightarrow> string list" where
  "text_property name v = (if v \<noteq> [] then [name @ '' = '' @ v] else [])"

definition quoted_property :: "string \<Rightarrow> string \<Rightarrow> string list" where
  "quoted_property name v = (if v \<noteq> [] then [name @ '' = '' @ [squote] @ v @ [squote]] else [])"

definition int_property :: "string \<Rightarrow> int option \<Rightarrow> string list" where
  "int_property name v = (case v of None \<Rightarrow> [] | Some i \<Rightarrow> [name @ '' = '' @ Itoa i])"

definition optional_map_property :: "string \<Rightarrow> (string \<times> string) list option \<Rightarrow> string list" where
  "optional_map_property name m = (case m of None \<Rightarrow> [] | Some m \<Rightarrow> [map_property name m])"

definition table_properties :: "CassandraTableProperties \<Rightarrow> string list" where
  "table_properties p =
     text_property ''bloom_filter_fp_chance'' (ctp_BloomFilterFPChance p) @
     optional_map_property ''caching'' (ctp_Caching p) @
     quoted_property ''comment'' (ctp_Comment p) @
     optional_map_property ''compaction'' (ctp_Compaction p) @
     optional_map_property ''compression'' (ctp_Compression p) @
     text_property ''crc_check_chance'' (ctp_CRCCheckChance p) @
     text_property ''dclocal_read_repair_chance'' (ctp_DCLocalReadRepairChance p) @
     int_property ''default_time_to_live'' (ctp_DefaultTTL p) @
     int_property ''gc_grace_seconds'' (ctp_GCGraceSeconds p) @
     int_property ''max_index_interval'' (ctp_MaxIndexInterval p) @
     int_property ''memtable_flush_period_in_ms'' (ctp_MemtableFlushPeriodMS p) @
     int_property ''min_index_interval'' (ctp_MinIndexInterval p) @
     text_property ''read_repair_chance'' (ctp_ReadRepairChance p) @
     quoted_property ''speculative_retry'' (ctp_SpeculativeRetry p)"

definition ca_CreateTableStatements :: "string \<Rightarrow> CassandraTableSchema \<Rightarrow> string list" where
  "ca_CreateTableStatements tableName tableSchema =
     (let columns = map cassandraColumnAsInsert (cts_Columns tableSchema) @
            (case cts_PrimaryKey tableSchema of None \<Rightarrow> [] | Some keys \<Rightarrow> [primary_key_clause keys]);
          query = ''create table '' @ [dquote] @ tableName @ [dquote] @ '' ('' @ Join columns '', '' @ '')'';
          query = (case cts_ClusteringOrder tableSchema of None \<Rightarrow> query | Some order \<Rightarrow> query @ '' '' @ clustering_clause order);
          tableProperties = (case cts_Properties tableSchema of None \<Rightarrow> [] | Some p \<Rightarrow> table_properties p)
      in [if tableProperties \<noteq> [] then query @ '' with '' @ Join tableProperties '' AND '' else query])"

text \<open>A value with neither an int nor a string adds a column and no value.\<close>

definition ca_seed_row :: "string \<Rightarrow> string \<Rightarrow> SeedDataRow \<Rightarrow> string" where
  "ca_seed_row keyspace tableName row =
     (let cols = map sdc_Column row;
          vals = concat (map (\<lambda>col.
            case (sdv_Int (sdc_Value col), sdv_Str (sdc_Value col)) of
              (Some i, _) \<Rightarrow> [Itoa i]
            | (None, Some str) \<Rightarrow> [[squote] @ str @ [squote]]
            | (None, None) \<Rightarrow> []) row)
      in ''INSERT INTO '' @ keyspace @ ''.'' @ tableName @ '' ('' @ Join cols '', '' @ '') VALUES ('' @ Join vals '', '' @ '')'')"

definition ca_SeedDataStatements :: "string \<Rightarrow> string \<Rightarrow> SeedData \<Rightarrow> string list" where
  "ca_SeedDataStatements keyspace tableName seedData = map (ca_seed_row keyspace tableName) seedData"

section \<open>The server and connections (connection.go)\<close>

record CaPropertiesRow =
  cpr_bloomFilterFPChance :: float64
  cpr_caching :: "(string \<times> string) list option"
  cpr_comment :: string
  cpr_compaction :: "(string \<times> string) list option"
  cpr_compression :: "(string \<times> string) list option"
  cpr_crcCheckChance :: float64
  cpr_dcLocalReadRepairChance :: float64

record CaServer =
  cas_now :: "unit result"
  cas_version :: "string result"
  cas_tables :: "string \<Rightarrow> string list result"
  cas_indexes :: "string \<Rightarrow> string \<Rightarrow> (string \<times> (string \<times> string) list) list result"
  cas_partition_keys :: "string \<Rightarrow> string \<Rightarrow> string list result"
  cas_clustering_keys :: "string \<Rightarrow> string \<Rightarrow> string list result"
  cas_schema :: "string \<Rightarrow> string \<Rightarrow> (string \<times> string \<times> string) list result"
  cas_type_count :: "string \<Rightarrow> string \<Rightarrow> int result"
  cas_table_count :: "string \<Rightarrow> string \<Rightarrow> int result"
  cas_columns :: "string \<Rightarrow> string \<Rightarrow> (string \<times> string) result list"
  cas_properties :: "string \<Rightarrow> string \<Rightarrow> CaPropertiesRow result"

record CaEnv =
  cae_CreateSession :: "string list \<Rightarrow> (string \<times> string) option \<Rightarrow> string \<Rightarrow> CaServer result"

record CassandraConnection =
  cac_session :: "CaServer option"
  cac_keyspace :: string

definition ca_Connect :: "CaEnv \<Rightarrow> string list \<Rightarrow> string \<Rightarrow> string \<Rightarrow> string \<Rightarrow> CassandraConnection result" where
  "ca_Connect env hosts username password keyspace =
     (let authenticator = (if username \<noteq> [] then Some (username, password) else None)
      in bindE (wrapE ''failed to create cassandra session'' (cae_CreateSession env hosts authenticator keyspace)) (\<lambda>session.
           Inr \<lparr> cac_session = Some session, cac_keyspace = keyspace \<rparr>))"

text \<open>Reading through a connection without a session is a nil dereference.\<close>

definition ca_query :: "CassandraConnection \<Rightarrow> (CaServer \<Rightarrow> 'a result) \<Rightarrow> 'a result" where
  "ca_query c q = (case cac_session c of Some session \<Rightarrow> q session | None \<Rightarrow> nil_dereference)"

definition ca_IsConnected :: "CassandraConnection \<Rightarrow> bool" where
  "ca_IsConnected c =
     (case cac_session c of None \<Rightarrow> False | Some session \<Rightarrow> (case cas_now session of Inr _ \<Rightarrow> True | Inl _ \<Rightarrow> False))"

definition ca_EngineVersion :: "CassandraConnection \<Rightarrow> string" where
  "ca_EngineVersion c =
     (case cac_session c of
        None \<Rightarrow> ''fixture-only''
      | Some session \<Rightarrow> (case cas_version session of Inr version \<Rightarrow> version | Inl _ \<Rightarrow> ''unknown''))"

definition ca_ListTables :: "CassandraConnection \<Rightarrow> Table list result" where
  "ca_ListTables c =
     ca_query c (\<lambda>session. bindE (wrapE ''failed to list tables'' (cas_tables session (cac_keyspace c))) (\<lambda>names.
       Inr (map (\<lambda>tableName. \<lparr> tb_Name = tableName, tb_Schema = [], tb_Charset = [], tb_Collation = [] \<rparr>) names)))"

definition ca_ListTableForeignKeys :: "CassandraConnection \<Rightarrow> string \<Rightarrow> string \<Rightarrow> ForeignKey list result" where
  "ca_ListTableForeignKeys c databaseName tableName = Inr []"

definition ca_ListTableIndexes :: "CassandraConnection \<Rightarrow> string \<Rightarrow> Index list result" where
  "ca_ListTableIndexes c tableName =
     ca_query c (\<lambda>session. bindE (wrapE ''failed to list indexes'' (cas_indexes session (cac_keyspace c) tableName)) (\<lambda>rows.
       Inr (map (\<lambda>(indexName, options).
         \<lparr> ix_Columns = (case map_of options ''target'' of Some target \<Rightarrow> [target] | None \<Rightarrow> []), ix_Name = indexName,
           ix_IsUnique = False, ix_With = [], ix_Type = [], ix_Where = [], ix_Expressions = [], ix_SortedColumns = [] \<rparr>) rows)))"

definition ca_GetTablePrimaryKey :: "CassandraConnection \<Rightarrow> string \<Rightarrow> KeyConstraint option result" where
  "ca_GetTablePrimaryKey c tableName =
     ca_query c (\<lambda>session.
       bindE (wrapE ''failed to get partition keys'' (cas_partition_keys session (cac_keyspace c) tableName)) (\<lambda>partitionKeys.
       bindE (wrapE ''failed to get clustering keys'' (cas_clustering_keys session (cac_keyspace c) tableName)) (\<lambda>clusteringKeys.
         let allKeys = partitionKeys @ clusteringKeys
         in Inr (if allKeys = [] then None else Some \<lparr> kc_Name = [], kc_Columns = allKeys, kc_IsPrimary = False \<rparr>))))"

definition ca_GetTableSchema :: "CassandraConnection \<Rightarrow> string \<Rightarrow> Column list result" where
  "ca_GetTableSchema c tableName =
     ca_query c (\<lambda>session. bindE (wrapE ''failed to get table schema'' (cas_schema session (cac_keyspace c) tableName)) (\<lambda>rows.
       Inr (map (\<lambda>(columnName, columnType, kind).
         \<lparr> col_Name = columnName, col_DataType = columnType, col_ColumnDefault = None,
           col_Constraints = (if kind = ''partition_key'' \<or> kind = ''clustering'' then Some \<lparr> cc_NotNull = Some True \<rparr> else None),
           col_Attributes = None, col_IsArray = False, col_Charset = [], col_Collation = [], col_IsStatic = False \<rparr>) rows)))"

section \<open>Planning (deploy.go)\<close>

text \<open>
  A property of the catalog that is never read stays at the zero value of its type: the empty
  string, or a nil pointer, which differs from every pointer that is not nil.
\<close>

definition changed_text :: "string \<Rightarrow> string \<Rightarrow> string \<Rightarrow> string list" where
  "changed_text name current desired = (if current \<noteq> desired then [name @ '' = '' @ desired] else [])"

definition changed_quoted :: "string \<Rightarrow> string \<Rightarrow> string \<Rightarrow> string list" where
  "changed_quoted name current desired =
     (if current \<noteq> desired then [name @ '' = '' @ [squote] @ desired @ [squote]] else [])"

definition changed_map :: "string \<Rightarrow> (string \<times> string) list option \<Rightarrow> (string \<times> string) list option \<Rightarrow> string list" where
  "changed_map name current desired =
     (if DeepEqual_map current desired then []
      else (case desired of
              None \<Rightarrow> [name @ '' = null'']
            | Some m \<Rightarrow> [name @ '' = '' @ ReplaceAll (json_map m) [dquote] [squote]]))"

definition changed_properties :: "CaPropertiesRow \<Rightarrow> CassandraTableProperties \<Rightarrow> string list" where
  "changed_properties row p =
     changed_text ''bloom_filter_fp_chance'' (Sprintf_f (cpr_bloomFilterFPChance row)) (ctp_BloomFilterFPChance p) @
     changed_map ''caching'' (cpr_caching row) (ctp_Caching p) @
     changed_quoted ''comment'' (cpr_comment row) (ctp_Comment p) @
     changed_map ''compaction'' (cpr_compaction row) (ctp_Compaction p) @
     changed_map ''compression'' (cpr_compression row) (ctp_Compression p) @
     changed_quoted ''crc_check_chance'' (Sprintf_f (cpr_crcCheckChance row)) (ctp_CRCCheckChance p) @
     changed_quoted ''dclocal_read_repair_chance'' (Sprintf_f (cpr_dcLocalReadRepairChance row)) (ctp_DCLocalReadRepairChance p) @
     int_property ''default_time_to_live'' (ctp_DefaultTTL p) @
     int_property ''gc_grace_period_seconds'' (ctp_GCGraceSeconds p) @
     int_property ''max_index_interval'' (ctp_MaxIndexInterval p) @
     int_property ''memtable_flush_period_in_ms'' (ctp_MemtableFlushPeriodMS p) @
     int_property ''min_index_interval'' (ctp_MinIndexInterval p) @
     changed_quoted ''read_repair_chance'' [] (ctp_ReadRepairChance p) @
     changed_quoted ''speculative_retry'' [] (ctp_SpeculativeRetry p)"

definition buildPropertiesStatements :: "CassandraConnection \<Rightarrow> string \<Rightarrow> CassandraTableSchema \<Rightarrow> string list result" where
  "buildPropertiesStatements c tableName cassandraTableSchema =
     bindE (wrapE ''failed to scan'' (ca_query c (\<lambda>session. cas_properties session (cac_keyspace c) tableName))) (\<lambda>row.
       let needsUpdating = (case cts_Properties cassandraTableSchema of None \<Rightarrow> [] | Some p \<Rightarrow> changed_properties row p)
       in Inr (if needsUpdating = [] then []
               else [''alter table '' @ tableName @ '' with '' @ Join needsUpdating '' and '']))"

definition ca_existing_column :: "string \<times> string \<Rightarrow> Column" where
  "ca_existing_column r =
     (case r of (columnName, columnType) \<Rightarrow>
        \<lparr> col_Name = columnName, col_DataType = columnType, col_ColumnDefault = None, col_Constraints = None,
          col_Attributes = None, col_IsArray = False, col_Charset = [], col_Collation = [], col_IsStatic = False \<rparr>)"

definition ca_buildColumnStatements :: "CassandraConnection \<Rightarrow> string \<Rightarrow> CassandraTableSchema \<Rightarrow> string list result" where
  "ca_buildColumnStatements c tableName cassandraTableSchema =
     ca_query c (\<lambda>session.
       bindE (scan_rows (wrap_error ''failed to scan'') ca_existing_column (cas_columns session (cac_keyspace c) tableName)) (\<lambda>existing.
         Inr (concat (map (ca_AlterColumnStatements tableName (cts_Columns cassandraTableSchema)) existing) @
              map (ca_InsertColumnStatement tableName)
                (filter (\<lambda>desired. \<not> list_ex (\<lambda>found. col_Name found = ccol_Name desired) existing)
                   (cts_Columns cassandraTableSchema)))))"

text \<open>The part of the plan that PlanCassandraTable and the method of the connection have in common.\<close>

definition planCassandraTable :: "CassandraConnection \<Rightarrow> string \<Rightarrow> CassandraTableSchema \<Rightarrow> string list result" where
  "planCassandraTable c tableName cassandraTableSchema =
     bindE (wrapE ''failed to scan'' (ca_query c (\<lambda>session. cas_table_count session (cac_keyspace c) tableName))) (\<lambda>tableExists.
       if tableExists = 0 \<and> cts_IsDeleted cassandraTableSchema then Inr []
       else if tableExists > 0 \<and> cts_IsDeleted cassandraTableSchema
       then Inr [''drop table '' @ cac_keyspace c @ ''.'' @ tableName]
       else if tableExists = 0 then Inr (ca_CreateTableStatements tableName cassandraTableSchema)
       else bindE (wrapE ''failed to build column statements'' (ca_buildColumnStatements c tableName cassandraTableSchema))
              (\<lambda>columnStatements.
            bindE (wrapE ''failed to build properties statements'' (buildPropertiesStatements c tableName cassandraTableSchema))
              (\<lambda>propertiesStatements. Inr (columnStatements @ propertiesStatements))))"

definition PlanCassandraTable ::
  "CaEnv \<Rightarrow> string list \<Rightarrow> string \<Rightarrow> string \<Rightarrow> string \<Rightarrow> string \<Rightarrow> CassandraTableSchema \<Rightarrow> string list result" where
  "PlanCassandraTable env hosts username password keyspace tableName cassandraTableSchema =
     bindE (wrapE ''failed to connect to cassandra'' (ca_Connect env hosts username password keyspace)) (\<lambda>c.
       planCassandraTable c tableName cassandraTableSchema)"

definition PlanCassandraType ::
  "CaEnv \<Rightarrow> string list \<Rightarrow> string \<Rightarrow> string \<Rightarrow> string \<Rightarrow> string \<Rightarrow> CassandraDataTypeSchema \<Rightarrow> string list result" where
  "PlanCassandraType env hosts username password keyspace typeName cassandraTypeSchema =
     bindE (wrapE ''failed to connect to cassandra'' (ca_Connect env hosts username password keyspace)) (\<lambda>c.
     bindE (wrapE ''failed to scan'' (ca_query c (\<lambda>session. cas_type_count session keyspace typeName))) (\<lambda>typeExists.
       if typeExists = 0 \<and> cdt_IsDeleted cassandraTypeSchema then Inr []
       else if typeExists > 0 \<and> cdt_IsDeleted cassandraTypeSchema
       then Inr [''drop ttype '' @ keyspace @ ''.'' @ typeName]
       else if typeExists = 0 then Inr [CreateTypeStatement typeName cassandraTypeSchema]
       else Inl (ErrNew ''not implemented'')))"

definition PlanCassandraView :: "string list \<Rightarrow> string \<Rightarrow> string \<Rightarrow> string \<Rightarrow> string \<Rightarrow> string list result" where
  "PlanCassandraView hosts username password keyspace viewName = Inl (ErrNew ''not implemented'')"

fun ca_executeStatements ::
  "(string \<Rightarrow> 'db \<Rightarrow> go_error option \<times> 'db) \<Rightarrow> string list \<Rightarrow> 'db \<Rightarrow> go_error option \<times> 'db" where
  "ca_executeStatements exec [] db = (None, db)"
| "ca_executeStatements exec (statement # rest) db =
     (if statement = [] then ca_executeStatements exec rest db
      else (case exec statement db of
              (Some e, db') \<Rightarrow> (Some (wrap_error (''failed to execute statement: '' @ statement) e), db')
            | (None, db') \<Rightarrow> ca_executeStatements exec rest db'))"

definition DeployCassandraStatements ::
  "CaEnv \<Rightarrow> (string \<Rightarrow> 'db \<Rightarrow> go_error option \<times> 'db) \<Rightarrow> string list \<Rightarrow> string \<Rightarrow> string \<Rightarrow> string \<Rightarrow> string list \<Rightarrow> 'db \<Rightarrow>
   go_error option \<times> 'db" where
  "DeployCassandraStatements env exec hosts username password keyspace statements db =
     (case ca_Connect env hosts username password keyspace of
        Inl e \<Rightarrow> (Some e, db)
      | Inr c \<Rightarrow> ca_executeStatements exec statements db)"

section \<open>Entry points (connection.go)\<close>

definition planCassandraTableSeedDataOnly :: "CassandraConnection \<Rightarrow> string \<Rightarrow> SeedData option \<Rightarrow> string list result" where
  "planCassandraTableSeedDataOnly c tableName seedData =
     (case seedData of
        None \<Rightarrow> Inr []
      | Some sd \<Rightarrow>
          bindE (wrapE ''failed to check if table exists'' (ca_query c (\<lambda>session. cas_table_count session (cac_keyspace c) tableName)))
            (\<lambda>tableExists.
               if tableExists = 0
               then Inl (ErrNew (''table '' @ tableName @ '' does not exist, cannot apply seed data without schema''))
               else Inr (ca_SeedDataStatements (cac_keyspace c) tableName sd)))"

definition ca_PlanTableSchema ::
  "CassandraConnection \<Rightarrow> string \<Rightarrow> schema_iface \<Rightarrow> SeedData option \<Rightarrow> string list result" where
  "ca_PlanTableSchema c tableName tableSchema seedData =
     (if tableSchema = NilInterface \<and> seedData \<noteq> None then planCassandraTableSeedDataOnly c tableName seedData
      else (case tableSchema of
              CassandraTable schema \<Rightarrow>
                (case schema of
                   Some schema \<Rightarrow> planCassandraTable c tableName schema
                 | None \<Rightarrow>
                     bindE (wrapE ''failed to scan'' (ca_query c (\<lambda>session. cas_table_count session (cac_keyspace c) tableName)))
                       (\<lambda>_. nil_dereference))
            | _ \<Rightarrow> Inl (ErrNew (''expected CassandraTableSchema, got '' @ dynamic_type tableSchema))))"

definition type_statements :: "string \<Rightarrow> CassandraDataTypeSchema \<Rightarrow> int \<Rightarrow> string list" where
  "type_statements typeName schema typeExists =
     (if typeExists = 0 \<and> cdt_IsDeleted schema then []
      else if typeExists > 0 \<and> cdt_IsDeleted schema then [''drop type '' @ [dquote] @ typeName @ [dquote]]
      else if typeExists = 0
      then [''create type '' @ [dquote] @ typeName @ [dquote] @ '' ('' @
            Join (map (\<lambda>field. cfd_Name field @ '' '' @ cfd_Type field) (cdt_Fields schema)) '', '' @ '')'']
      else [])"

definition ca_PlanTypeSchema :: "CassandraConnection \<Rightarrow> string \<Rightarrow> schema_iface \<Rightarrow> string list result" where
  "ca_PlanTypeSchema c typeName typeSchema =
     (case typeSchema of
        CassandraDataType schema \<Rightarrow>
          bindE (wrapE ''failed to check if type exists'' (ca_query c (\<lambda>session. cas_type_count session (cac_keyspace c) typeName)))
            (\<lambda>typeExists. case schema of
               None \<Rightarrow> nil_dereference
             | Some schema \<Rightarrow> Inr (type_statements typeName schema typeExists))
      | _ \<Rightarrow> Inl (ErrNew (''expected CassandraDataTypeSchema, got '' @ dynamic_type typeSchema)))"

definition ca_PlanViewSchema :: "CassandraConnection \<Rightarrow> string \<Rightarrow> schema_iface \<Rightarrow> string list result" where
  "ca_PlanViewSchema c viewName viewSchema = Inl (ErrNew ''cassandra view planning not yet implemented'')"

definition ca_PlanFunctionSchema :: "CassandraConnection \<Rightarrow> string \<Rightarrow> schema_iface \<Rightarrow> string list result" where
  "ca_PlanFunctionSchema c functionName functionSchema = Inl (ErrNew ''cassandra does not support stored functions'')"

definition ca_PlanExtensionSchema :: "CassandraConnection \<Rightarrow> string \<Rightarrow> schema_iface \<Rightarrow> string list result" where
  "ca_PlanExtensionSchema c extensionName extensionSchema = Inl (ErrNew ''cassandra does not support extensions'')"

text \<open>The loop of executeStatements again; without a session the first statement is a nil dereference.\<close>

definition ca_DeployStatements ::
  "(string \<Rightarrow> 'db \<Rightarrow> go_error option \<times> 'db) \<Rightarrow> CassandraConnection \<Rightarrow> string list \<Rightarrow> 'db \<Rightarrow> go_error option \<times> 'db" where
  "ca_DeployStatements exec c statements db =
     (case cac_session c of
        Some _ \<Rightarrow> ca_executeStatements exec statements db
      | None \<Rightarrow>
          if list_all (\<lambda>statement. statement = []) statements then (None, db)
          else (Some (GoPanic ''invalid memory address or nil pointer dereference''), db))"

definition ca_GenerateFixtures :: "CassandraConnection \<Rightarrow> TableSpec \<Rightarrow> string list result" where
  "ca_GenerateFixtures c spec =
     (case Option.bind (tsp_Schema spec) ts_Cassandra of
        None \<Rightarrow> Inr []
      | Some schema \<Rightarrow>
          if cts_IsDeleted schema then Inr []
          else Inr (ca_CreateTableStatements (tsp_Name spec) schema @
                    (case tsp_SeedData spec of
                       None \<Rightarrow> []
                     | Some sd \<Rightarrow> ca_SeedDataStatements (cac_keyspace c) (tsp_Name spec) sd)))"

definition ca_NewFixtureOnlyConnection :: CassandraConnection where
  "ca_NewFixtureOnlyConnection = \<lparr> cac_session = None, cac_keyspace = ''schemahero'' \<rparr>"

end
