(* ===== verification/Ca_Correct.thy ===== *)
theory Ca_Correct
  imports Ca_Plan Database_Sync
begin

text \<open>
  Properties of the Cassandra plugin: the column statements of a plan are exactly those for the columns
  that differ, table properties survive the YAML decoder, and the connection behind the database layer.
\<close>

section \<open>Column changes\<close>

text \<open>The type that a spec asks for, under the name that the catalog has for it: text for varchar.\<close>

definition ca_desired_type :: "CassandraColumn list \<Rightarrow> string \<rightharpoonup> string" where
  "ca_desired_type ds n =
     map_option (\<lambda>d. ca_unaliasUnparameterizedColumnType (ccol_Type d)) (find (\<lambda>d. ccol_Name d = n) ds)"

lemma ca_schema_type [simp]:
  "col_DataType (ca_schemaColumnToColumn d) = ca_unaliasUnparameterizedColumnType (ccol_Type d)"
  by (simp add: ca_schemaColumnToColumn_def ca_unaliasUnparameterizedColumnType_def Let_def)

lemma ca_AlterColumnStatements_text:
  "ca_AlterColumnStatements t ds e =
     (case ca_desired_type ds (col_Name e) of
        None \<Rightarrow> [''alter table '' @ [dquote] @ t @ [dquote] @ '' drop column '' @ col_Name e]
      | Some ty \<Rightarrow>
          if ty = col_DataType e then []
          else [''alter table '' @ [dquote] @ t @ [dquote] @ '' alter '' @ col_Name e @ '' type '' @ ty])"
  by (induction t ds e rule: ca_AlterColumnStatements.induct) (auto simp: ca_desired_type_def ca_columnsMatch_def)

lemma ca_existing_fields [simp]: "col_Name (ca_existing_column r) = fst r" "col_DataType (ca_existing_column r) = snd r"
  by (simp_all add: ca_existing_column_def case_prod_beta)

text \<open>The catalog has the desired columns exactly if none of them has to be dropped, changed or added.\<close>

lemma ca_catalog_desired_iff:
  assumes "distinct (map fst rows)"
  shows "map_of rows = ca_desired_type ds \<longleftrightarrow>
    (\<forall>(n, ty) \<in> set rows. ca_desired_type ds n = Some ty) \<and> ccol_Name ` set ds \<subseteq> fst ` set rows"
proof
  assume eq: "map_of rows = ca_desired_type ds"
  have "ca_desired_type ds n = Some ty" if "(n, ty) \<in> set rows" for n ty
    using map_of_is_SomeI [OF assms that] eq by simp
  moreover have "ccol_Name d \<in> fst ` set rows" if "d \<in> set ds" for d
  proof -
    have "ca_desired_type ds (ccol_Name d) \<noteq> None" using that by (auto simp: ca_desired_type_def find_None_iff)
    then show ?thesis unfolding eq [symmetric] by (simp add: map_of_eq_None_iff)
  qed
  ultimately show "(\<forall>(n, ty) \<in> set rows. ca_desired_type ds n = Some ty) \<and> ccol_Name ` set ds \<subseteq> fst ` set rows" by auto
next
  assume h: "(\<forall>(n, ty) \<in> set rows. ca_desired_type ds n = Some ty) \<and> ccol_Name ` set ds \<subseteq> fst ` set rows"
  show "map_of rows = ca_desired_type ds"
  proof
    fix n
    show "map_of rows n = ca_desired_type ds n"
    proof (cases "map_of rows n")
      case None
      then have "n \<notin> ccol_Name ` set ds" using h by (auto simp: map_of_eq_None_iff)
      then have "find (\<lambda>d. ccol_Name d = n) ds = None" by (auto simp: find_None_iff)
      then show ?thesis using None by (simp add: ca_desired_type_def)
    next
      case (Some ty)
      then show ?thesis using h map_of_SomeD [OF Some] by auto
    qed
  qed
qed

text \<open>
  C29. The column statements that the Cassandra planner emits for an existing table, if the catalog lists no column twice, are exactly these: for
  each column of the catalog in its order, a \<^verbatim>\<open>drop column\<close> if the spec does not name it, nothing if its type is the
  desired one, and otherwise an \<^verbatim>\<open>alter .. type\<close> to the type of the spec under the name that the catalog has for it; then an
  \<^verbatim>\<open>add\<close>, with its type and static, for each column of the spec that the catalog does not list, in the order of the spec.
  So the plan is empty exactly if the catalog has the desired columns with the desired types. Nothing is claimed
  of what the server does with the statements.
\<close>

theorem cassandra_column_plan_exact:
  assumes "cac_session c = Some session" "cas_columns session (cac_keyspace c) t = map Inr rows"
    and "distinct (map fst rows)" and "ds = cts_Columns schema"
  shows "\<exists>stmts. ca_buildColumnStatements c t schema = Inr stmts \<and>
    stmts =
      concat (map (\<lambda>(n, ty).
        case ca_desired_type ds n of
          None \<Rightarrow> [''alter table '' @ [dquote] @ t @ [dquote] @ '' drop column '' @ n]
        | Some ty' \<Rightarrow>
            if ty' = ty then [] else [''alter table '' @ [dquote] @ t @ [dquote] @ '' alter '' @ n @ '' type '' @ ty']) rows) @
      map (\<lambda>d. ''alter table '' @ [dquote] @ t @ [dquote] @ '' add '' @ ccol_Name d @ '' '' @ ccol_Type d @
             (if ccol_IsStatic d = Some True then '' static'' else []))
        (filter (\<lambda>d. ccol_Name d \<notin> fst ` set rows) ds) \<and>
    (stmts = [] \<longleftrightarrow> map_of rows = ca_desired_type ds)"
proof -
  let ?alter = "\<lambda>(n, ty). case ca_desired_type ds n of
      None \<Rightarrow> [''alter table '' @ [dquote] @ t @ [dquote] @ '' drop column '' @ n]
    | Some ty' \<Rightarrow> if ty' = ty then [] else [''alter table '' @ [dquote] @ t @ [dquote] @ '' alter '' @ n @ '' type '' @ ty']"
  let ?stmts = "concat (map ?alter rows) @ map (ca_InsertColumnStatement t) (filter (\<lambda>d. ccol_Name d \<notin> fst ` set rows) ds)"
  have "scan_rows (wrap_error ''failed to scan'') ca_existing_column (map Inr rows) = Inr (map ca_existing_column rows)"
    by (induction rows) (simp_all add: scan_rows_def)
  moreover have "filter (\<lambda>d. \<not> list_ex (\<lambda>found. col_Name found = ccol_Name d) (map ca_existing_column rows)) ds =
      filter (\<lambda>d. ccol_Name d \<notin> fst ` set rows) ds"
    by (rule filter_cong [OF refl]) (auto simp: list_ex_iff image_iff)
  moreover have "ca_AlterColumnStatements t ds (ca_existing_column r) = ?alter r" for r
    by (cases r) (simp add: ca_AlterColumnStatements_text split: option.split)
  ultimately have plan: "ca_buildColumnStatements c t schema = Inr ?stmts"
    using assms(1,2) by (simp add: ca_buildColumnStatements_def ca_query_def comp_def assms(4) [symmetric])
  have "?alter (n, ty) = [] \<longleftrightarrow> ca_desired_type ds n = Some ty" for n ty by (auto split: option.splits)
  then have "(?stmts = []) = (map_of rows = ca_desired_type ds)"
    unfolding ca_catalog_desired_iff [OF assms(3)] by (auto simp: filter_empty_conv simp del: prod.case)
  then show ?thesis
    using plan by (intro exI [of _ ?stmts] conjI) (auto simp: ca_InsertColumnStatement_def cassandraColumnAsInsert_def)
qed

definition ca_sample_server :: CaServer where
  "ca_sample_server =
     \<lparr> cas_now = Inr (), cas_version = Inr ''4.1'', cas_tables = (\<lambda>_. Inr [''users'']), cas_indexes = (\<lambda>_ _. Inr []),
       cas_partition_keys = (\<lambda>_ _. Inr [''id'']), cas_clustering_keys = (\<lambda>_ _. Inr []), cas_schema = (\<lambda>_ _. Inr []),
       cas_type_count = (\<lambda>_ _. Inr 0), cas_table_count = (\<lambda>_ _. Inr 1),
       cas_columns = (\<lambda>_ _. map Inr [(''id'', ''int''), (''name'', ''text''), (''old'', ''text'')]),
       cas_properties = (\<lambda>_ _. Inr
         \<lparr> cpr_bloomFilterFPChance = Finite False 5764607523034235 (- 59), cpr_caching = Some [(''keys'', ''ALL'')], cpr_comment = [],
           cpr_compaction = Some [], cpr_compression = Some [], cpr_crcCheckChance = Finite False 1 0,
           cpr_dcLocalReadRepairChance = Finite False 0 0 \<rparr>) \<rparr>"

definition ca_sample_conn :: CassandraConnection where
  "ca_sample_conn = \<lparr> cac_session = Some ca_sample_server, cac_keyspace = ''ks'' \<rparr>"

definition ca_sample_schema :: CassandraTableSchema where
  "ca_sample_schema =
     \<lparr> cts_IsDeleted = False, cts_PrimaryKey = Some [[''id'']], cts_ClusteringOrder = None,
       cts_Columns = [\<lparr> ccol_Name = ''id'', ccol_Type = ''bigint'', ccol_IsStatic = None \<rparr>,
                      \<lparr> ccol_Name = ''name'', ccol_Type = ''varchar'', ccol_IsStatic = None \<rparr>,
                      \<lparr> ccol_Name = ''at'', ccol_Type = ''timestamp'', ccol_IsStatic = Some True \<rparr>],
       cts_Properties = None \<rparr>"

theorem cassandra_column_plan_exact_witness:
  "\<exists>stmts. ca_buildColumnStatements ca_sample_conn ''users'' ca_sample_schema = Inr stmts \<and>
     stmts = [''alter table '' @ [dquote] @ ''users'' @ [dquote] @ '' alter id type bigint'',
              ''alter table '' @ [dquote] @ ''users'' @ [dquote] @ '' drop column old'',
              ''alter table '' @ [dquote] @ ''users'' @ [dquote] @ '' add at timestamp static'']"
proof -
  have h: "cac_session ca_sample_conn = Some ca_sample_server"
    "cas_columns ca_sample_server (cac_keyspace ca_sample_conn) ''users'' =
      map Inr [(''id'', ''int''), (''name'', ''text''), (''old'', ''text'')]"
    "distinct (map fst [(''id'', ''int''), (''name'', ''text''), (''old'', ''text'')])"
    by (simp_all add: ca_sample_conn_def ca_sample_server_def)
  have ty: "ca_desired_type (cts_Columns ca_sample_schema) ''id'' = Some ''bigint''"
    "ca_desired_type (cts_Columns ca_sample_schema) ''name'' = Some ''text''"
    "ca_desired_type (cts_Columns ca_sample_schema) ''old'' = None" by code_simp+
  show ?thesis
    using cassandra_column_plan_exact [OF h refl, of ca_sample_schema] ty by (auto simp: ca_sample_schema_def)
qed

section \<open>Table properties\<close>

text \<open>The YAML of table properties, in which a field that has no value is left out.\<close>

definition no_properties :: CassandraTableProperties where
  "no_properties =
     \<lparr> ctp_BloomFilterFPChance = [], ctp_Caching = None, ctp_Comment = [], ctp_Compaction = None, ctp_Compression = None,
       ctp_CRCCheckChance = [], ctp_DCLocalReadRepairChance = [], ctp_DefaultTTL = None, ctp_GCGraceSeconds = None,
       ctp_MaxIndexInterval = None, ctp_MemtableFlushPeriodMS = None, ctp_MinIndexInterval = None, ctp_ReadRepairChance = [],
       ctp_SpeculativeRetry = [] \<rparr>"

definition yaml_text_field :: "string \<Rightarrow> string \<Rightarrow> (string \<times> yaml_value) list" where
  "yaml_text_field key v = (if v = [] then [] else [(key, YString v)])"

definition yaml_int_field :: "string \<Rightarrow> int option \<Rightarrow> (string \<times> yaml_value) list" where
  "yaml_int_field key v = (case v of None \<Rightarrow> [] | Some i \<Rightarrow> [(key, YInt i)])"

definition yaml_map_field :: "string \<Rightarrow> (string \<times> string) list option \<Rightarrow> (string \<times> yaml_value) list" where
  "yaml_map_field key v =
     (case v of None \<Rightarrow> [] | Some m \<Rightarrow> [(key, YMap (map (\<lambda>(k, x). (YString k, YString x)) m))])"

definition properties_yaml :: "CassandraTableProperties \<Rightarrow> (string \<times> yaml_value) list" where
  "properties_yaml p =
     yaml_text_field ''bloomFilterFPChance'' (ctp_BloomFilterFPChance p) @ yaml_map_field ''caching'' (ctp_Caching p) @
     yaml_text_field ''comment'' (ctp_Comment p) @ yaml_map_field ''compaction'' (ctp_Compaction p) @
     yaml_map_field ''compression'' (ctp_Compression p) @ yaml_text_field ''crcCheckChance'' (ctp_CRCCheckChance p) @
     yaml_text_field ''dcLocalReadRepairChance'' (ctp_DCLocalReadRepairChance p) @ yaml_int_field ''defaultTTL'' (ctp_DefaultTTL p) @
     yaml_int_field ''gcGraceSeconds'' (ctp_GCGraceSeconds p) @ yaml_int_field ''maxIndexInterval'' (ctp_MaxIndexInterval p) @
     yaml_int_field ''memtableFlushPeriodMs'' (ctp_MemtableFlushPeriodMS p) @
     yaml_int_field ''minIndexInterval'' (ctp_MinIndexInterval p) @
     yaml_text_field ''readRepairChance'' (ctp_ReadRepairChance p) @
     yaml_text_field ''speculativeRetry'' (ctp_SpeculativeRetry p)"

lemma map_of_yaml_field [simp]:
  "map_of (yaml_text_field key v) k = (if k = key \<and> v \<noteq> [] then Some (YString v) else None)"
  "map_of (yaml_int_field key i) k = (if k = key then map_option YInt i else None)"
  "map_of (yaml_map_field key m) k =
     (if k = key then map_option (\<lambda>m. YMap (map (\<lambda>(k, x). (YString k, YString x)) m)) m else None)"
  by (auto simp: yaml_text_field_def yaml_int_field_def yaml_map_field_def split: option.splits)

lemma yaml_entries_roundtrip: "mapE yaml_entry (map (\<lambda>(k, x). (YString k, YString x)) m) = Inr m"
  by (induction m) (auto simp: yaml_entry_def)

lemmas yaml_lookup = yaml_string_def yaml_int_def yaml_map_def properties_yaml_def map_add_def

text \<open>
  Table properties of Cassandra survive the YAML decoder: decoding what was written gives every
  property back, an explicit zero of an integer property and an empty map included.
\<close>

theorem cassandra_properties_roundtrip:
  "UnmarshalYAML no_properties (Inr (properties_yaml p)) = Inr p"
proof -
  have texts: "yaml_string (properties_yaml p) ''bloomFilterFPChance'' [] = ctp_BloomFilterFPChance p"
    "yaml_string (properties_yaml p) ''comment'' [] = ctp_Comment p"
    "yaml_string (properties_yaml p) ''crcCheckChance'' [] = ctp_CRCCheckChance p"
    "yaml_string (properties_yaml p) ''dcLocalReadRepairChance'' [] = ctp_DCLocalReadRepairChance p"
    "yaml_string (properties_yaml p) ''readRepairChance'' [] = ctp_ReadRepairChance p"
    "yaml_string (properties_yaml p) ''speculativeRetry'' [] = ctp_SpeculativeRetry p"
    by (simp_all add: yaml_lookup)
  have ints: "yaml_int (properties_yaml p) ''defaultTTL'' None = ctp_DefaultTTL p"
    "yaml_int (properties_yaml p) ''gcGraceSeconds'' None = ctp_GCGraceSeconds p"
    "yaml_int (properties_yaml p) ''maxIndexInterval'' None = ctp_MaxIndexInterval p"
    "yaml_int (properties_yaml p) ''memtableFlushPeriodMs'' None = ctp_MemtableFlushPeriodMS p"
    "yaml_int (properties_yaml p) ''minIndexInterval'' None = ctp_MinIndexInterval p"
    by (auto simp: yaml_lookup split: option.splits)
  have maps: "yaml_map (properties_yaml p) ''caching'' None = Inr (ctp_Caching p)"
    "yaml_map (properties_yaml p) ''compaction'' None = Inr (ctp_Compaction p)"
    "yaml_map (properties_yaml p) ''compression'' None = Inr (ctp_Compression p)"
    by (auto simp: yaml_lookup yaml_entries_roundtrip split: option.splits)
  show ?thesis by (simp add: UnmarshalYAML_def no_properties_def texts ints maps Let_def)
qed

section \<open>The connection behind the database layer\<close>

definition ca_connection ::
  "(string \<Rightarrow> 'db \<Rightarrow> go_error option \<times> 'db) \<Rightarrow> CassandraConnection \<Rightarrow> 'db Connection" where
  "ca_connection exec c =
     \<lparr> cn_PlanTableSchema = ca_PlanTableSchema c,
       cn_PlanTypeSchema = ca_PlanTypeSchema c,
       cn_PlanViewSchema = ca_PlanViewSchema c,
       cn_PlanFunctionSchema = ca_PlanFunctionSchema c,
       cn_PlanExtensionSchema = ca_PlanExtensionSchema c,
       cn_DeployStatements = ca_DeployStatements exec c,
       cn_GenerateFixtures = ca_GenerateFixtures c \<rparr>"

definition hosts_option :: "(string \<rightharpoonup> option_value) \<Rightarrow> string list result" where
  "hosts_option options =
     (case options ''hosts'' of
        None \<Rightarrow> Inl (ErrNew ''hosts parameter is required for cassandra connections'')
      | Some (OptStrings hosts) \<Rightarrow> Inr hosts
      | Some (OptString host) \<Rightarrow> Inr [host]
      | Some (OptBool _) \<Rightarrow> Inl (ErrNew ''hosts parameter must be a string array or single string''))"

definition keyspace_option :: "(string \<rightharpoonup> option_value) \<Rightarrow> string result" where
  "keyspace_option options =
     (case options ''keyspace'' of
        None \<Rightarrow> Inl (ErrNew ''keyspace parameter is required for cassandra connections'')
      | Some (OptString keyspace) \<Rightarrow> Inr keyspace
      | Some _ \<Rightarrow> Inl (ErrNew ''keyspace parameter must be a string''))"

definition credential_option :: "(string \<rightharpoonup> option_value) \<Rightarrow> string \<Rightarrow> string" where
  "credential_option options key = (case options key of Some (OptString v) \<Rightarrow> v | _ \<Rightarrow> [])"

definition CassandraPlugin_Connect ::
  "CaEnv \<Rightarrow> (string \<Rightarrow> 'db \<Rightarrow> go_error option \<times> 'db) \<Rightarrow> string \<Rightarrow> (string \<rightharpoonup> option_value) \<Rightarrow> 'db Connection result" where
  "CassandraPlugin_Connect env exec uri options =
     (if options ''fixture-only'' = Some (OptBool True) then Inr (ca_connection exec ca_NewFixtureOnlyConnection)
      else bindE (hosts_option options) (\<lambda>hosts.
           bindE (keyspace_option options) (\<lambda>keyspace.
           bindE (wrapE ''failed to connect to cassandra''
             (ca_Connect env hosts (credential_option options ''username'') (credential_option options ''password'') keyspace))
             (\<lambda>conn. Inr (ca_connection exec conn)))))"

text \<open>The value of a configuration map; a missing entry of the map is None, a nil value \<open>Some None\<close>.\<close>

definition CassandraPlugin_Validate :: "(string \<rightharpoonup> option_value option) \<Rightarrow> go_error option" where
  "CassandraPlugin_Validate config =
     (if config ''hosts'' = None \<or> config ''hosts'' = Some None
      then Some (ErrNew ''hosts parameter is required for cassandra connections'')
      else if config ''keyspace'' = None \<or> config ''keyspace'' = Some (Some (OptString []))
      then Some (ErrNew ''keyspace parameter is required for cassandra connections'')
      else None)"

definition ca_SupportedEngines :: "string list" where
  "ca_SupportedEngines = [''cassandra'']"

definition ca_exec_wrapped ::
  "(string \<Rightarrow> 'db \<Rightarrow> go_error option \<times> 'db) \<Rightarrow> string \<Rightarrow> 'db \<Rightarrow> go_error option \<times> 'db" where
  "ca_exec_wrapped exec stmt db =
     map_prod (map_option (wrap_error (''failed to execute statement: '' @ stmt))) (\<lambda>db. db) (exec stmt db)"

interpretation ca_deploy: deployment "ca_executeStatements exec" "ca_exec_wrapped exec" for exec
  by unfold_locales (auto simp: ca_exec_wrapped_def split: prod.splits option.splits)

text \<open>
  The options that the database layer passes for the driver cassandra are the ones Connect reads: the
  connection it opens is that of the hosts, the credentials and the keyspace of the database.
\<close>

lemma cassandra_options_agree:
  assumes "db_Driver d = ''cassandra''" "db_Hosts d \<noteq> []" "db_Keyspace d \<noteq> []"
  shows "CassandraPlugin_Connect env exec uri (connection_options d) =
    bindE (wrapE ''failed to connect to cassandra''
      (ca_Connect env (db_Hosts d) (db_Username d) (db_Password d) (db_Keyspace d))) (\<lambda>conn. Inr (ca_connection exec conn))"
  using assms by (simp add: CassandraPlugin_Connect_def hosts_option_def keyspace_option_def credential_option_def
      connection_options_def Let_def)

section \<open>Behaviour the sources do not intend\<close>

text \<open>
  The chances of the catalog are compared as texts with six decimals, so that a spec that writes
  0.01, or has properties but none of this name, is planned again each time; in the latter case the
  statement has no value.
\<close>

lemma Sprintf_f_samples:
  "Sprintf_f (Finite False 5764607523034235 (- 59)) = ''0.010000''" "Sprintf_f (Finite False 1 0) = ''1.000000''"
  "Sprintf_f (Finite False 0 0) = ''0.000000''"
proof -
  have "digit_char 0 = CHR ''0''" "digit_char 1 = CHR ''1''" by code_simp+
  then have digits: "nat_str 10000 = ''10000''" "nat_str 0 = ''0''" "nat_str 1 = ''1''" by (simp_all add: nat_str.simps)
  have pads: "pad_left 6 ''10000'' = ''010000''" "pad_left 6 ''0'' = ''000000''" by code_simp+
  show "Sprintf_f (Finite False 5764607523034235 (- 59)) = ''0.010000''" "Sprintf_f (Finite False 1 0) = ''1.000000''"
    "Sprintf_f (Finite False 0 0) = ''0.000000''"
    using digits pads by (simp_all add: millionths_def scaled_round_def)
qed

lemma cassandra_chance_never_matches:
  "buildPropertiesStatements ca_sample_conn ''users''
     (ca_sample_schema \<lparr> cts_Properties := Some (no_properties \<lparr> ctp_Caching := Some [(''keys'', ''ALL'')], ctp_Compaction := Some [],
        ctp_Compression := Some [], ctp_CRCCheckChance := ''1.000000'', ctp_DCLocalReadRepairChance := ''0.000000'' \<rparr>) \<rparr>) =
     Inr [''alter table users with bloom_filter_fp_chance = '']"
  by (simp del: Sprintf_f.simps add: Sprintf_f_samples Sprintf_f_samples(2) [simplified One_nat_def] buildPropertiesStatements_def ca_query_def ca_sample_conn_def ca_sample_server_def
      changed_properties_def changed_text_def changed_map_def changed_quoted_def int_property_def no_properties_def)

text \<open>The integer properties and the last two texts are never read from the catalog; they are set again by every plan.\<close>

lemma cassandra_integers_set_again:
  assumes "ctp_DefaultTTL p \<noteq> None \<or> ctp_GCGraceSeconds p \<noteq> None \<or> ctp_MaxIndexInterval p \<noteq> None \<or>
    ctp_MemtableFlushPeriodMS p \<noteq> None \<or> ctp_MinIndexInterval p \<noteq> None \<or> ctp_ReadRepairChance p \<noteq> [] \<or> ctp_SpeculativeRetry p \<noteq> []"
  shows "changed_properties row p \<noteq> []"
  using assms by (auto simp: changed_properties_def int_property_def changed_quoted_def split: option.splits)

text \<open>A static column that is desired as an ordinary one, or the other way round, is left as it is.\<close>

lemma cassandra_static_change_ignored:
  "ca_AlterColumnStatements ''t'' [\<lparr> ccol_Name = ''a'', ccol_Type = ''int'', ccol_IsStatic = Some True \<rparr>]
     (ca_existing_column (''a'', ''int'')) = []"
  by code_simp

text \<open>Seed data that comes with a schema does not reach the plan.\<close>

lemma cassandra_seed_data_ignored:
  "ca_PlanTableSchema c t (CassandraTable (Some schema)) seedData = ca_PlanTableSchema c t (CassandraTable (Some schema)) None"
  by (simp add: ca_PlanTableSchema_def)

end
