(* ===== verification/Ts_Plan.thy ===== *)
theory Ts_Plan
  imports Pg_Plan
begin

text \<open>
  The TimescaleDB plugin: src/plugins/timescaledb (connection.go, plugin.go) and its internal package
  (create.go, hypertable.go, deploy.go). It plans columns, keys and foreign keys with the functions of the
  PostgreSQL plugin; here are the parts of its own. A function that has the name of one of the
  PostgreSQL plugin carries the prefix \<open>ts_\<close>.

  \<open>TsCatalog\<close> answers the queries of the plugin itself, next to those of \<open>PgServer\<close>; a query for one row
  that finds none gives None. \<open>san\<close> quotes an identifier as the pgx driver does.
\<close>

section \<open>The catalog of TimescaleDB\<close>

record TsCatalog =
  tsc_view_count :: "string \<Rightarrow> int result"
  tsc_continuous_agg_count :: "string \<Rightarrow> int result"
  tsc_table_count :: "string \<Rightarrow> int result"
  tsc_hypertable :: "string \<Rightarrow> string option result"
  tsc_time_column :: "string \<Rightarrow> string option result"

record TsEnv =
  tse_pg :: PgEnv
  tse_catalog :: "string \<Rightarrow> TsCatalog"

section \<open>Statements (create.go)\<close>

definition toPostgresTableSchema :: "TimescaleDBTableSchema \<Rightarrow> PostgresqlTableSchema" where
  "toPostgresTableSchema tableSchema =
     empty_table_schema
       \<lparr> pts_PrimaryKey := tts_PrimaryKey tableSchema, pts_ForeignKeys := tts_ForeignKeys tableSchema,
         pts_Indexes := tts_Indexes tableSchema, pts_Columns := tts_Columns tableSchema,
         pts_IsDeleted := tts_IsDeleted tableSchema, pts_Triggers := tts_Triggers tableSchema \<rparr>"

definition columnExists :: "string \<Rightarrow> PostgresqlTableColumn list \<Rightarrow> bool" where
  "columnExists name columns = list_ex (\<lambda>column. pcol_Name column = name) columns"

definition isValidInterval :: "string \<Rightarrow> bool" where
  "isValidInterval val = True"

definition CreateViewStatements :: "(string list \<Rightarrow> string) \<Rightarrow> string \<Rightarrow> TimescaleDBViewSchema \<Rightarrow> string list result" where
  "CreateViewStatements san viewName viewSchema =
     (if tvs_IsContinuousAggregate viewSchema = Some True then
        (let withDataStatement = (if tvs_WithNoData viewSchema = Some True then ''with no data'' else ''with data'')
         in Inr [''create materialized view '' @ san [viewName] @ '' with (timescaledb.continuous) as '' @ tvs_Query viewSchema @
                 '' '' @ withDataStatement])
      else Inl (ErrNew ''not implemented''))"

definition single_quoted :: "(string list \<Rightarrow> string) \<Rightarrow> string \<Rightarrow> string" where
  "single_quoted san name = ReplaceAll (san [name]) [dquote] [squote]"

text \<open>The verb %t.\<close>

definition bool_text :: "bool \<Rightarrow> string" where
  "bool_text b = (if b then ''true'' else ''false'')"

definition text_param :: "string \<Rightarrow> string option \<Rightarrow> string list" where
  "text_param name v = (case v of None \<Rightarrow> [] | Some x \<Rightarrow> [name @ '' => '' @ [squote] @ x @ [squote]])"

definition bool_param :: "string \<Rightarrow> bool option \<Rightarrow> string list" where
  "bool_param name v = (case v of None \<Rightarrow> [] | Some b \<Rightarrow> [name @ '' => '' @ bool_text b])"

definition partitioning_params ::
  "(string list \<Rightarrow> string) \<Rightarrow> TimescaleDBHypertable \<Rightarrow> PostgresqlTableColumn list \<Rightarrow> string list result" where
  "partitioning_params san hypertable columns =
     (case tht_PartitioningColumn hypertable of
        None \<Rightarrow> Inr []
      | Some column \<Rightarrow>
          (case tht_NumberPartitions hypertable of
             None \<Rightarrow> Inl (ErrNew ''must specify number partitions when specifying additional partitioning columns'')
           | Some n \<Rightarrow>
               if n = 0 then Inl (ErrNew ''must specify number partitions when specifying additional partitioning columns'')
               else if tht_TimeColumnName hypertable = Some column
               then Inl (ErrNew ''additional partitioning columns cannot be the same as the time column'')
               else if \<not> columnExists column columns
               then Inl (ErrNew ''additional partitioning column not defined in schema'')
               else Inr [''partitioning_column => '' @ san [column], ''number_partitions => '' @ Itoa n]))"

definition chunk_params :: "TimescaleDBHypertable \<Rightarrow> string list result" where
  "chunk_params hypertable =
     (case tht_ChunkTimeInterval hypertable of
        None \<Rightarrow> Inr []
      | Some interval \<Rightarrow>
          if \<not> isValidInterval interval then Inl (ErrNew ''invalid chunk time interval'')
          else Inr [''chunk_time_interval => INTERVAL '' @ [squote] @ interval @ [squote]])"

definition getHypertableParams ::
  "(string list \<Rightarrow> string) \<Rightarrow> TimescaleDBHypertable \<Rightarrow> PostgresqlTableColumn list \<Rightarrow> string list result" where
  "getHypertableParams san hypertable columns =
     bindE (partitioning_params san hypertable columns) (\<lambda>partitioning.
     bindE (chunk_params hypertable) (\<lambda>chunk.
       Inr (partitioning @ chunk @
            bool_param ''create_default_indexes'' (tht_CreateDefaultIndexes hypertable) @
            bool_param ''if_not_exists'' (tht_IfNotExists hypertable) @
            text_param ''partitioning_func'' (tht_PartitioningFunc hypertable) @
            text_param ''associated_schema_name'' (tht_AssociatedSchemaName hypertable) @
            text_param ''associated_table_prefix'' (tht_AssociatedTablePrefix hypertable) @
            bool_param ''migrate_data'' (tht_MigrateData hypertable) @
            text_param ''time_partitioning_func'' (tht_TimePartitioningFunc hypertable) @
            (case tht_ReplicationFactor hypertable of None \<Rightarrow> [] | Some n \<Rightarrow> [''replication_factor => '' @ Itoa n]))))"

section \<open>Hypertables (hypertable.go)\<close>

text \<open>Without a time column the statement is empty.\<close>

definition createHypertableStatement ::
  "(string list \<Rightarrow> string) \<Rightarrow> string \<Rightarrow> TimescaleDBHypertable \<Rightarrow> PostgresqlTableColumn list \<Rightarrow> string result" where
  "createHypertableStatement san tableName hypertable columns =
     (case tht_TimeColumnName hypertable of
        None \<Rightarrow> Inr []
      | Some timeColumn \<Rightarrow>
          if \<not> columnExists timeColumn columns
          then Inl (ErrNew (''cannot create hypertable on column '' @ timeColumn @ '' because column not included in schema''))
          else bindE (wrapE ''get hypertable params'' (getHypertableParams san hypertable columns)) (\<lambda>params.
                 let serializedParams = Join params '', '';
                     stmt = ''select create_hypertable('' @ single_quoted san tableName @ '', '' @ single_quoted san timeColumn
                 in Inr (if serializedParams \<noteq> [] then stmt @ '', '' @ serializedParams @ '')'' else stmt @ '')'')))"

definition createRetentionStatements ::
  "(string list \<Rightarrow> string) \<Rightarrow> string \<Rightarrow> TimescaleDBHypertable \<Rightarrow> string list result" where
  "createRetentionStatements san tableName hypertable =
     (case tht_Retention hypertable of
        None \<Rightarrow> Inr []
      | Some retention \<Rightarrow>
          if tre_Interval retention = [] then Inr []
          else if \<not> isValidInterval (tre_Interval retention) then Inl (ErrNew ''invalid interval'')
          else Inr [''select add_retention_policy('' @ single_quoted san tableName @ '', interval '' @ [squote] @
                    tre_Interval retention @ [squote] @ '')''])"

definition createCompressionStatements ::
  "(string list \<Rightarrow> string) \<Rightarrow> string \<Rightarrow> TimescaleDBHypertable \<Rightarrow> PostgresqlTableColumn list \<Rightarrow> string list result" where
  "createCompressionStatements san tableName hypertable columns =
     (case tht_Compression hypertable of
        None \<Rightarrow> Inr []
      | Some compression \<Rightarrow>
          bindE (case tco_SegmentBy compression of
                   None \<Rightarrow> Inr []
                 | Some segmentBy \<Rightarrow>
                     if \<not> columnExists segmentBy columns then Inl (ErrNew ''compression column not found'')
                     else Inr [''alter table '' @ san [tableName] @ '' set (timescaledb.compress, timescaledb.compress_segmentby = '' @
                               san [segmentBy] @ '')'']) (\<lambda>segment.
          bindE (case tco_Interval compression of
                   None \<Rightarrow> Inr []
                 | Some interval \<Rightarrow>
                     if \<not> isValidInterval interval then Inl (ErrNew ''invalid interval'')
                     else Inr [''select add_compression_policy('' @ single_quoted san tableName @ '', INTERVAL '' @ [squote] @
                               interval @ [squote] @ '')'']) (\<lambda>policy.
            Inr (segment @ policy))))"

definition ts_CreateTableStatements ::
  "(string list \<Rightarrow> string) \<Rightarrow> string \<Rightarrow> TimescaleDBTableSchema \<Rightarrow> string list result" where
  "ts_CreateTableStatements san tableName tableSchema =
     bindE (wrapE ''create postgres table statements'' (CreateTableStatements san tableName (toPostgresTableSchema tableSchema)))
       (\<lambda>statements.
        case tts_Hypertable tableSchema of
          None \<Rightarrow> Inr statements
        | Some hypertable \<Rightarrow>
            bindE (wrapE ''create hypertable statement''
                     (createHypertableStatement san tableName hypertable (tts_Columns tableSchema))) (\<lambda>stmt.
            bindE (wrapE ''create compression statements''
                     (createCompressionStatements san tableName hypertable (tts_Columns tableSchema))) (\<lambda>compression.
            bindE (wrapE ''create retention statements'' (createRetentionStatements san tableName hypertable)) (\<lambda>retention.
              Inr (statements @ (if stmt \<noteq> [] then [stmt] else []) @ compression @ retention)))))"

definition ts_SeedDataStatements ::
  "(string list \<Rightarrow> string) \<Rightarrow> string \<Rightarrow> TimescaleDBTableSchema \<Rightarrow> SeedData \<Rightarrow> string list" where
  "ts_SeedDataStatements san tableName tableSchema seedData =
     SeedDataStatements san tableName (toPostgresTableSchema tableSchema) seedData"

definition ts_SeedDataStatementsWithExistingSchema ::
  "(string list \<Rightarrow> string) \<Rightarrow> TsEnv \<Rightarrow> string \<Rightarrow> string \<Rightarrow> SeedData \<Rightarrow> string list result" where
  "ts_SeedDataStatementsWithExistingSchema san env uri tableName seedData =
     SeedDataStatementsWithExistingSchema san (tse_pg env) uri tableName seedData"

text \<open>A table that is a hypertable without a dimension of time counts as an ordinary one.\<close>

definition getHypertableForTable :: "TsCatalog \<Rightarrow> string \<Rightarrow> string option result" where
  "getHypertableForTable cat tableName =
     bindE (wrapE ''failed to query hypertable information'' (tsc_hypertable cat tableName)) (\<lambda>hypertableName.
       case hypertableName of
         None \<Rightarrow> Inr None
       | Some _ \<Rightarrow> wrapE ''failed to query time column name'' (tsc_time_column cat tableName))"

definition BuildHypertableStatements ::
  "(string list \<Rightarrow> string) \<Rightarrow> TsCatalog \<Rightarrow> string \<Rightarrow> TimescaleDBTableSchema \<Rightarrow> string list result" where
  "BuildHypertableStatements san cat tableName tableSchema =
     bindE (wrapE ''failed to get hypertable for table'' (getHypertableForTable cat tableName)) (\<lambda>currentHypertable.
       case (currentHypertable, tts_Hypertable tableSchema) of
         (None, Some hypertable) \<Rightarrow>
           bindE (wrapE ''failed to create hypertable statement''
                    (createHypertableStatement san tableName hypertable (tts_Columns tableSchema))) (\<lambda>createStmt. Inr [createStmt])
       | _ \<Rightarrow> Inr [])"

section \<open>Indexes (deploy.go)\<close>

text \<open>TimescaleDB creates an index on the time column of a hypertable; such an index is never removed as undesired.\<close>

definition on_time_column :: "TimescaleDBTableSchema \<Rightarrow> Index \<Rightarrow> bool" where
  "on_time_column tableSchema index =
     (case Option.bind (tts_Hypertable tableSchema) tht_TimeColumnName of
        None \<Rightarrow> False
      | Some timeColumn \<Rightarrow> ix_Columns index = [timeColumn])"

definition ts_BuildIndexStatements ::
  "(string list \<Rightarrow> string) \<Rightarrow> PostgresConnection \<Rightarrow> string \<Rightarrow> TimescaleDBTableSchema \<Rightarrow> string list result" where
  "ts_BuildIndexStatements san p tableName tableSchema =
     bindE (wrapE ''failed to list table indexes'' (ListTableIndexes p (pg_databaseName p) tableName)) (\<lambda>currentIndexes.
     bindE (wrapE ''failed to list table constraints'' (ListTableConstraints p (pg_databaseName p) tableName)) (\<lambda>currentConstraints.
       let indexes = map (name_index True tableName) (tts_Indexes tableSchema);
           (statements, droppedIndexes) =
             fold (desired_index_step san tableName True currentConstraints currentIndexes) indexes ([], []);
           removed = filter (\<lambda>current.
             \<not> list_ex (\<lambda>index. Index_Equals current (PostgresqlSchemaIndexToIndex index)) indexes \<and>
             \<not> list_ex (\<lambda>dropped. dropped = ix_Name current) droppedIndexes \<and>
             \<not> on_time_column tableSchema current) currentIndexes
       in Inr (statements @ map (remove_index_statement san tableName currentConstraints) removed)))"

section \<open>Plans (deploy.go)\<close>

text \<open>The nil pointer of a view or table schema is dereferenced after the queries that come first.\<close>

definition PlanTimescaleDBView ::
  "(string list \<Rightarrow> string) \<Rightarrow> TsEnv \<Rightarrow> string \<Rightarrow> string \<Rightarrow> TimescaleDBViewSchema option \<Rightarrow> string list result" where
  "PlanTimescaleDBView san env uri viewName viewSchema =
     bindE (wrapE ''failed to connect to timescaledb'' (Connect (tse_pg env) uri)) (\<lambda>p.
     bindE (wrapE ''failed to scan'' (tsc_view_count (tse_catalog env uri) viewName)) (\<lambda>viewExists.
     bindE (if viewExists > 0 then wrapE ''failed to scan'' (tsc_continuous_agg_count (tse_catalog env uri) viewName) else Inr 0)
       (\<lambda>continuousAggregateCount.
       case viewSchema of
         None \<Rightarrow> nil_dereference
       | Some viewSchema \<Rightarrow>
           if viewExists = 0 \<and> tvs_IsDeleted viewSchema then Inr []
           else if viewExists > 0 \<and> tvs_IsDeleted viewSchema then
             (if continuousAggregateCount > 0 then Inr [''drop materialized view '' @ san [viewName]]
              else Inr [''drop view '' @ san [viewName]])
           else if viewExists = 0 then wrapE ''failed to create view statement'' (CreateViewStatements san viewName viewSchema)
           else Inr [])))"

definition ts_alter_table_statements ::
  "(string list \<Rightarrow> string) \<Rightarrow> TsCatalog \<Rightarrow> PostgresConnection \<Rightarrow> string \<Rightarrow> TimescaleDBTableSchema \<Rightarrow> string list result" where
  "ts_alter_table_statements san cat p tableName tableSchema =
     (let postgresTableSchema = toPostgresTableSchema tableSchema
      in bindE (wrapE ''failed to build column statement'' (BuildColumnStatements san p tableName postgresTableSchema)) (\<lambda>s1.
         bindE (wrapE ''failed to build primary key statements'' (BuildPrimaryKeyStatements san p tableName postgresTableSchema)) (\<lambda>s2.
         bindE (wrapE ''failed to build foreign key statements'' (BuildForeignKeyStatements san p tableName postgresTableSchema)) (\<lambda>s3.
         bindE (wrapE ''failed to build index statements'' (ts_BuildIndexStatements san p tableName tableSchema)) (\<lambda>s4.
         bindE (wrapE ''failed to build hypertable statements'' (BuildHypertableStatements san cat tableName tableSchema)) (\<lambda>s5.
           Inr (s1 @ s2 @ s3 @ s4 @ s5)))))))"

definition PlanTimescaleDBTable ::
  "(string list \<Rightarrow> string) \<Rightarrow> TsEnv \<Rightarrow> string \<Rightarrow> string \<Rightarrow> TimescaleDBTableSchema option \<Rightarrow> SeedData option \<Rightarrow> string list result" where
  "PlanTimescaleDBTable san env uri tableName tableSchema seedData =
     bindE (wrapE ''failed to connect to timescaledb'' (Connect (tse_pg env) uri)) (\<lambda>p.
     bindE (wrapE ''failed to scan'' (tsc_table_count (tse_catalog env uri) tableName)) (\<lambda>tableExists.
       case tableSchema of
         None \<Rightarrow> nil_dereference
       | Some tableSchema \<Rightarrow>
           if tableExists = 0 \<and> tts_IsDeleted tableSchema then Inr []
           else if tableExists > 0 \<and> tts_IsDeleted tableSchema then Inr [''drop table '' @ san [tableName]]
           else
             (let seedDataStatements = seed_statements san tableName (toPostgresTableSchema tableSchema) seedData
              in if tableExists = 0 then
                   bindE (wrapE ''failed to create table statement'' (ts_CreateTableStatements san tableName tableSchema)) (\<lambda>queries.
                     Inr (queries @ seedDataStatements))
                 else
                   bindE (ts_alter_table_statements san (tse_catalog env uri) p tableName tableSchema) (\<lambda>statements.
                     Inr (statements @ seedDataStatements)))))"

section \<open>The connection (connection.go)\<close>

record TimescaleDBConnection =
  tdb_PostgresConnection :: PostgresConnection
  tdb_uri :: string

definition NewTimescaleDBConnection :: "PostgresConnection \<Rightarrow> string \<Rightarrow> TimescaleDBConnection" where
  "NewTimescaleDBConnection pgConn uri = \<lparr> tdb_PostgresConnection = pgConn, tdb_uri = uri \<rparr>"

definition ts_PlanTableSchema ::
  "(string list \<Rightarrow> string) \<Rightarrow> TsEnv \<Rightarrow> TimescaleDBConnection \<Rightarrow> string \<Rightarrow> schema_iface \<Rightarrow> SeedData option \<Rightarrow> string list result" where
  "ts_PlanTableSchema san env t tableName tableSchema seedData =
     (case tableSchema of
        TimescaleDBTable tsSchema \<Rightarrow> PlanTimescaleDBTable san env (tdb_uri t) tableName tsSchema seedData
      | _ \<Rightarrow> PlanTableSchema san (tse_pg env) (tdb_PostgresConnection t) tableName tableSchema seedData)"

definition ts_PlanViewSchema ::
  "(string list \<Rightarrow> string) \<Rightarrow> TsEnv \<Rightarrow> TimescaleDBConnection \<Rightarrow> string \<Rightarrow> schema_iface \<Rightarrow> string list result" where
  "ts_PlanViewSchema san env t viewName viewSchema =
     (case viewSchema of
        TimescaleDBView tsViewSchema \<Rightarrow> PlanTimescaleDBView san env (tdb_uri t) viewName tsViewSchema
      | _ \<Rightarrow> PlanViewSchema (tdb_PostgresConnection t) viewName viewSchema)"

definition ts_GenerateFixtures :: "(string list \<Rightarrow> string) \<Rightarrow> TableSpec \<Rightarrow> string list result" where
  "ts_GenerateFixtures san spec =
     (case tsp_Schema spec of
        None \<Rightarrow> Inr []
      | Some schema \<Rightarrow>
          (case ts_TimescaleDB schema of
             Some tsSchema \<Rightarrow>
               if tts_IsDeleted tsSchema then Inr []
               else
                 bindE (wrapE ''failed to create table statements'' (ts_CreateTableStatements san (tsp_Name spec) tsSchema))
                   (\<lambda>statements.
                      Inr (statements @ (case tsp_SeedData spec of
                                           None \<Rightarrow> []
                                         | Some sd \<Rightarrow> ts_SeedDataStatements san (tsp_Name spec) tsSchema sd)))
           | None \<Rightarrow> GenerateFixtures san spec))"

end
