(* ===== verification/Ts_Correct.thy ===== *)
theory Ts_Correct
  imports Ts_Plan Pg_Sync
begin

text \<open>
  Properties of the TimescaleDB plugin: its index plan reconciles the catalog but spares the index on the
  time column, a hypertable is created once and only on columns of the table, and the connection
  behind the database layer.
\<close>

section \<open>Indexes\<close>

definition ts_index_actions ::
  "string \<Rightarrow> TimescaleDBTableSchema \<Rightarrow> Index list \<Rightarrow> (Index, PostgresqlTableIndex) action list" where
  "ts_index_actions t schema cur =
     (let ds = map (name_index True t) (tts_Indexes schema)
      in fst (desired_pass pix_Name ix_Name index_same cur ds) @
         map Drop_existing (filter (\<lambda>c. ix_Name c \<notin> pix_Name ` set ds \<and> \<not> on_time_column schema c) cur))"

lemma ts_BuildIndexStatements_refines:
  assumes cur: "ListTableIndexes p (pg_databaseName p) t = Inr cur" "distinct (map ix_Name cur)"
    and con: "ListTableConstraints p (pg_databaseName p) t = Inr constraints"
  shows "ts_BuildIndexStatements san p t schema = Inr (map (render_index san t constraints) (ts_index_actions t schema cur))"
proof -
  let ?ds = "map (name_index True t) (tts_Indexes schema)"
  let ?drop = "snd (desired_pass pix_Name ix_Name index_same cur ?ds)"
  have step: "desired_index_step san t True constraints cur =
      emit_step pix_Name ix_Name index_same (remove_index_statement san t constraints) (AddIndexStatement san t) cur"
    using desired_index_step_emit [OF cur(2)] by (intro ext) simp
  have "filter (\<lambda>c. \<not> list_ex (\<lambda>d. index_same d c) ?ds \<and> \<not> list_ex (\<lambda>n. n = ix_Name c) ?drop) cur =
      filter (\<lambda>c. ix_Name c \<notin> pix_Name ` set ?ds) cur"
    using index_removed [OF cur(2), of ?ds] existing_pass_alt [of pix_Name ix_Name index_same cur ?ds]
    by (simp add: existing_pass_def inj_map_eq_map [of Drop_existing] inj_def)
  from arg_cong [OF this, of "filter (\<lambda>c. \<not> on_time_column schema c)"]
  have "filter (\<lambda>c. \<not> list_ex (\<lambda>d. index_same d c) ?ds \<and> \<not> list_ex (\<lambda>n. n = ix_Name c) ?drop \<and> \<not> on_time_column schema c) cur =
      filter (\<lambda>c. ix_Name c \<notin> pix_Name ` set ?ds \<and> \<not> on_time_column schema c) cur"
    by (simp add: conj_commute conj_left_commute)
  then show ?thesis
    unfolding ts_BuildIndexStatements_def cur con wrapE.simps bindE.simps step Let_def fold_emit_step prod.case
      index_same_def [symmetric] append_Nil ts_index_actions_def by (simp add: comp_def)
qed

text \<open>
  C30. TimescaleDB indexes are brought in line, but an index on just the time column of the hypertable, which the
  server creates by itself, is left alone. The server is a parameter that executes the texts of the plan as meant:
  an index is removed as a constraint if it backs one and otherwise by \<^verbatim>\<open>drop index if exists\<close> with its bare name, so the assumption does
  not hold for a table outside the search path. The names of the existing indexes are distinct and so are those of
  the desired ones (two unnamed indexes on the same columns get one generated name and are excluded). Then the plan
  runs without an error, afterwards every desired index is there, an index that is not desired by name is gone exactly if it is not on
  just the time column, and no index that matches a desired one has been touched.
\<close>

theorem timescaledb_index_plan_spares_time_index:
  assumes "ListTableIndexes p (pg_databaseName p) t = Inr cur" "distinct (map ix_Name cur)"
    and "ListTableConstraints p (pg_databaseName p) t = Inr constraints"
    and "ds = map (name_index True t) (tts_Indexes schema)" "distinct (map pix_Name ds)"
    and "drops_objects ok catalog exec ix_Name
      (\<lambda>c. if ix_Name c \<in> set constraints
           then ''alter table '' @ sanitizeTableName san t @ '' drop constraint '' @ san [ix_Name c]
           else ''drop index if exists '' @ san [ix_Name c]) cur"
    and "adds_objects ok catalog exec pix_Name ix_Name index_same (AddIndexStatement san t) ds"
    and "ok db" and "catalog db = catalog_of ix_Name cur"
  shows "\<exists>stmts db'. ts_BuildIndexStatements san p t schema = Inr stmts \<and> executeStatements exec stmts db = (None, db') \<and>
    (\<forall>d \<in> set ds. \<exists>c. catalog db' (pix_Name d) = Some c \<and> index_same d c) \<and>
    (\<forall>c \<in> set cur. ix_Name c \<notin> pix_Name ` set ds \<longrightarrow>
       catalog db' (ix_Name c) = (if on_time_column schema c then Some c else None)) \<and>
    (\<forall>d \<in> set ds. \<forall>c \<in> set cur. index_same d c \<longrightarrow> catalog db' (pix_Name d) = Some c)"
proof -
  have "drops_objects ok catalog exec ix_Name (remove_index_statement san t constraints) cur"
    using assms(6) by (simp only: remove_index_text)
  from index_deploy.deploy_sparing [OF assms(2,5) this assms(7-9) index_texts, of "on_time_column schema"]
  obtain db' where "executeStatements exec (map (render_index san t constraints) (ts_index_actions t schema cur)) db = (None, db')"
    "\<forall>d \<in> set ds. \<exists>c. catalog db' (pix_Name d) = Some c \<and> index_same d c"
    "\<forall>c \<in> set cur. ix_Name c \<notin> pix_Name ` set ds \<longrightarrow> catalog db' (ix_Name c) = (if on_time_column schema c then Some c else None)"
    "\<forall>d \<in> set ds. \<forall>c \<in> set cur. ix_Name c = pix_Name d \<and> index_same d c \<longrightarrow> catalog db' (pix_Name d) = Some c"
    unfolding ts_index_actions_def Let_def assms(4) [symmetric] by blast
  then show ?thesis
    using ts_BuildIndexStatements_refines [OF assms(1-3), of san schema] index_same_name by blast
qed

definition ts_sample_schema :: TimescaleDBTableSchema where
  "ts_sample_schema =
     \<lparr> tts_PrimaryKey = [''id''], tts_ForeignKeys = [],
       tts_Indexes = [\<lparr> pix_Columns = [''id'', ''email''], pix_Name = [], pix_IsUnique = True, pix_Type = [],
         pix_With = [], pix_Where = [], pix_Expressions = [], pix_SortedColumns = [] \<rparr>],
       tts_Columns = pts_Columns sample_schema, tts_IsDeleted = False, tts_Triggers = [],
       tts_Hypertable = Some \<lparr> tht_TimeColumnName = Some ''email'', tht_PartitioningColumn = None, tht_NumberPartitions = None,
         tht_ChunkTimeInterval = None, tht_CreateDefaultIndexes = None, tht_IfNotExists = None, tht_PartitioningFunc = None,
         tht_AssociatedSchemaName = None, tht_AssociatedTablePrefix = None, tht_MigrateData = None,
         tht_TimePartitioningFunc = None, tht_ReplicationFactor = None, tht_DataNodes = [], tht_Compression = None,
         tht_Retention = None \<rparr> \<rparr>"

theorem timescaledb_index_plan_spares_time_index_witness:
  "\<exists>stmts db'. ts_BuildIndexStatements concat sample_conn ''users'' ts_sample_schema = Inr stmts \<and>
     executeStatements (text_server pix_Name ix_Name PostgresqlSchemaIndexToIndex
        (\<lambda>c. if ix_Name c \<in> set [''users_pkey'']
             then ''alter table '' @ sanitizeTableName concat ''users'' @ '' drop constraint '' @ concat [ix_Name c]
             else ''drop index if exists '' @ concat [ix_Name c])
        (AddIndexStatement concat ''users'') (map (name_index True ''users'') (tts_Indexes ts_sample_schema)) current_indexes)
       stmts (catalog_of ix_Name current_indexes) = (None, db') \<and>
     db' ''idx_users_email'' = Some (hd current_indexes) \<and>
     (\<forall>d \<in> set (map (name_index True ''users'') (tts_Indexes ts_sample_schema)).
        \<exists>c. db' (pix_Name d) = Some c \<and> index_same d c)"
proof -
  let ?ds = "map (name_index True ''users'') (tts_Indexes ts_sample_schema)"
  let ?drop = "\<lambda>c. if ix_Name c \<in> set [''users_pkey'']
      then ''alter table '' @ sanitizeTableName concat ''users'' @ '' drop constraint '' @ concat [ix_Name c]
      else ''drop index if exists '' @ concat [ix_Name c]"
  let ?exec = "text_server pix_Name ix_Name PostgresqlSchemaIndexToIndex ?drop (AddIndexStatement concat ''users'') ?ds current_indexes"
  have 1: "ListTableIndexes sample_conn (pg_databaseName sample_conn) ''users'' = Inr current_indexes"
    "distinct (map ix_Name current_indexes)"
    "ListTableConstraints sample_conn (pg_databaseName sample_conn) ''users'' = Inr [''users_pkey'']" by code_simp+
  have 2: "distinct (map pix_Name ?ds)"
    "distinct (map ?drop current_indexes @ map (AddIndexStatement concat ''users'') ?ds)"
    "on_time_column ts_sample_schema (hd current_indexes)" "hd current_indexes \<in> set current_indexes"
    "ix_Name (hd current_indexes) = ''idx_users_email''" "\<not> list_ex (\<lambda>d. pix_Name d = ix_Name (hd current_indexes)) ?ds"
    by code_simp+
  have 3: "drops_objects (\<lambda>_. True) (\<lambda>m. m) ?exec ix_Name ?drop current_indexes"
    "adds_objects (\<lambda>_. True) (\<lambda>m. m) ?exec pix_Name ix_Name index_same (AddIndexStatement concat ''users'') ?ds"
    by (rule text_server_obeys [OF 2(2)])+ (rule conjI [OF index_plan.store_name index_plan.store_same])
  obtain stmts db' where "ts_BuildIndexStatements concat sample_conn ''users'' ts_sample_schema = Inr stmts"
      "executeStatements ?exec stmts (catalog_of ix_Name current_indexes) = (None, db')"
      "\<forall>d \<in> set ?ds. \<exists>c. db' (pix_Name d) = Some c \<and> index_same d c"
    and spared: "\<forall>c \<in> set current_indexes. ix_Name c \<notin> pix_Name ` set ?ds \<longrightarrow>
       db' (ix_Name c) = (if on_time_column ts_sample_schema c then Some c else None)"
    using timescaledb_index_plan_spares_time_index [where san = concat and db = "catalog_of ix_Name current_indexes", OF 1 refl 2(1) 3 TrueI refl] by (elim exE conjE) (rule that)
  moreover have "ix_Name (hd current_indexes) \<notin> pix_Name ` set ?ds" using 2(6) unfolding list_ex_iff by force
  then have "db' ''idx_users_email'' = Some (hd current_indexes)" using spared 2(3-5) by metis
  ultimately show ?thesis by (intro exI conjI)
qed

section \<open>Hypertables\<close>

text \<open>
  A statement that creates a hypertable names a time column of the table and, if there is one, another column
  of the table to partition by, with a number of partitions other than zero; and none is planned for
  a table that already is a hypertable.
\<close>

lemma hypertable_statement_valid:
  assumes "createHypertableStatement san t h cols = Inr stmt" "stmt \<noteq> []"
  shows "\<exists>tc. tht_TimeColumnName h = Some tc \<and> tc \<in> pcol_Name ` set cols \<and>
    (\<forall>pc. tht_PartitioningColumn h = Some pc \<longrightarrow>
       pc \<in> pcol_Name ` set cols \<and> pc \<noteq> tc \<and> (\<exists>n. tht_NumberPartitions h = Some n \<and> n \<noteq> 0))"
proof -
  obtain tc params where tc: "tht_TimeColumnName h = Some tc" "columnExists tc cols" "getHypertableParams san h cols = Inr params"
    using assms by (auto simp: createHypertableStatement_def bindE_Inr_iff split: option.splits if_splits)
  have ex: "columnExists c cols \<Longrightarrow> c \<in> pcol_Name ` set cols" for c
    by (auto simp: columnExists_def list_ex_iff)
  have "pc \<in> pcol_Name ` set cols \<and> pc \<noteq> tc \<and> (\<exists>n. tht_NumberPartitions h = Some n \<and> n \<noteq> 0)"
    if "tht_PartitioningColumn h = Some pc" for pc
    using tc(1,3) that ex
    by (auto simp: getHypertableParams_def partitioning_params_def bindE_Inr_iff split: option.splits if_splits)
  then show ?thesis using tc ex by blast
qed

lemma hypertable_created_once:
  assumes "getHypertableForTable cat t = Inr (Some timeColumn)"
  shows "BuildHypertableStatements san cat t schema = Inr []"
  using assms by (simp add: BuildHypertableStatements_def)

section \<open>The connection behind the database layer\<close>

definition ts_connection ::
  "(string list \<Rightarrow> string) \<Rightarrow> TsEnv \<Rightarrow> (string \<Rightarrow> 'db \<Rightarrow> go_error option \<times> 'db) \<Rightarrow> TimescaleDBConnection \<Rightarrow> 'db Connection" where
  "ts_connection san env exec t =
     \<lparr> cn_PlanTableSchema = ts_PlanTableSchema san env t,
       cn_PlanTypeSchema = PlanTypeSchema (tdb_PostgresConnection t),
       cn_PlanViewSchema = ts_PlanViewSchema san env t,
       cn_PlanFunctionSchema = PlanFunctionSchema (tse_pg env) (tdb_PostgresConnection t),
       cn_PlanExtensionSchema = PlanExtensionSchema san (tse_pg env) (tdb_PostgresConnection t),
       cn_DeployStatements = DeployPostgresStatements (tse_pg env) exec (pg_uri (tdb_PostgresConnection t)),
       cn_GenerateFixtures = ts_GenerateFixtures san \<rparr>"

definition NewFixtureOnlyTimescaleDBConnection :: "PgServer \<Rightarrow> TimescaleDBConnection" where
  "NewFixtureOnlyTimescaleDBConnection no_server =
     \<lparr> tdb_PostgresConnection = NewFixtureOnlyConnection no_server, tdb_uri = [] \<rparr>"

definition TimescaleDBPlugin_Connect ::
  "(string list \<Rightarrow> string) \<Rightarrow> TsEnv \<Rightarrow> (string \<Rightarrow> 'db \<Rightarrow> go_error option \<times> 'db) \<Rightarrow> PgServer \<Rightarrow>
   string \<Rightarrow> (string \<rightharpoonup> option_value) \<Rightarrow> 'db Connection result" where
  "TimescaleDBPlugin_Connect san env exec no_server uri options =
     (if options ''fixture-only'' = Some (OptBool True)
      then Inr (ts_connection san env exec (NewFixtureOnlyTimescaleDBConnection no_server))
      else bindE (wrapE ''failed to connect to timescaledb'' (Connect (tse_pg env) uri)) (\<lambda>pgConn.
             Inr (ts_connection san env exec (NewTimescaleDBConnection pgConn uri))))"

definition ts_SupportedEngines :: "string list" where
  "ts_SupportedEngines = [''timescaledb'']"

section \<open>Behaviour the sources do not intend\<close>

text \<open>The triggers of a spec are created with a new table, but never compared with an existing one.\<close>

lemma timescaledb_triggers_not_planned:
  "ts_alter_table_statements san cat p t (schema \<lparr> tts_Triggers := triggers \<rparr>) = ts_alter_table_statements san cat p t schema"
proof -
  let ?pg = toPostgresTableSchema and ?s = "schema \<lparr> tts_Triggers := triggers \<rparr>"
  have pg: "pts_Columns (?pg ?s) = pts_Columns (?pg schema)" "pts_PrimaryKey (?pg ?s) = pts_PrimaryKey (?pg schema)"
    "pts_ForeignKeys (?pg ?s) = pts_ForeignKeys (?pg schema)" by (simp_all add: toPostgresTableSchema_def)
  have "BuildColumnStatements san p t (?pg ?s) = BuildColumnStatements san p t (?pg schema)"
    unfolding BuildColumnStatements_def pg by (rule refl)
  moreover have "BuildPrimaryKeyStatements san p t (?pg ?s) = BuildPrimaryKeyStatements san p t (?pg schema)"
    unfolding BuildPrimaryKeyStatements_def pg by (rule refl)
  moreover have "BuildForeignKeyStatements san p t (?pg ?s) = BuildForeignKeyStatements san p t (?pg schema)"
    unfolding BuildForeignKeyStatements_def pg by (rule refl)
  moreover have "on_time_column ?s = on_time_column schema" by (simp add: fun_eq_iff on_time_column_def)
  then have "ts_BuildIndexStatements san p t ?s = ts_BuildIndexStatements san p t schema"
    by (simp add: ts_BuildIndexStatements_def)
  moreover have "BuildHypertableStatements san cat t ?s = BuildHypertableStatements san cat t schema"
    by (simp add: BuildHypertableStatements_def cong: option.case_cong)
  ultimately show ?thesis unfolding ts_alter_table_statements_def Let_def by (simp only:)
qed

text \<open>The plan of a new table has no statement for an index that cannot be part of the create statement.\<close>

lemma timescaledb_new_table_without_index:
  assumes "\<not> list_ex isInlineFoldableUniqueIndex (tts_Indexes schema)"
  shows "ts_CreateTableStatements san t schema = ts_CreateTableStatements san t (schema \<lparr> tts_Indexes := [] \<rparr>)"
proof -
  let ?pg = toPostgresTableSchema and ?s = "schema \<lparr> tts_Indexes := [] \<rparr>"
  have "filter isInlineFoldableUniqueIndex (tts_Indexes schema) = []"
    using assms by (auto simp: filter_empty_conv list_ex_iff)
  then have eqs: "filter isInlineFoldableUniqueIndex (pts_Indexes (?pg schema)) = filter isInlineFoldableUniqueIndex (pts_Indexes (?pg ?s))"
    "pts_Columns (?pg schema) = pts_Columns (?pg ?s)" "pts_PrimaryKey (?pg schema) = pts_PrimaryKey (?pg ?s)"
    "pts_ForeignKeys (?pg schema) = pts_ForeignKeys (?pg ?s)" "pts_Checks (?pg schema) = pts_Checks (?pg ?s)"
    "pts_ExclusionConstraints (?pg schema) = pts_ExclusionConstraints (?pg ?s)"
    "schema_qualified (?pg schema) = schema_qualified (?pg ?s)" "desired_triggers (?pg schema) = desired_triggers (?pg ?s)"
    "new_table_rls_statements san n (?pg schema) = new_table_rls_statements san n (?pg ?s)" for n
    by (simp_all add: toPostgresTableSchema_def empty_table_schema_def fun_eq_iff schema_qualified_def desired_triggers_def
        new_table_rls_statements_def)
  have "CreateTableStatements san t (?pg schema) = CreateTableStatements san t (?pg ?s)"
    unfolding CreateTableStatements_def eqs by (rule refl)
  then show ?thesis unfolding ts_CreateTableStatements_def by (simp cong: option.case_cong)
qed

end
