(* ===== verification/Gob.thy ===== *)
theory Gob
  imports Api_Specs Db_Types
begin

text \<open>
  What the package encoding/gob keeps of a value that crosses the boundary between SchemaHero and a
  plugin process (the types registered in src/pkg/database/plugin/shared/shared.go). Gob flattens
  pointers and omits a field whose value is zero, so that a pointer to an empty string, to 0 or to
  false arrives as nil; the same holds of an empty slice. A struct is always sent, and so is a pointer
  to one, a map that is not nil, and an element of a slice. One function \<open>gob_\<close> per type gives the
  value that the other side decodes; a type without a pointer to a scalar arrives unchanged and has
  none.

  The functions \<open>mask_\<close> and \<open>restore_\<close> are the workaround that src/pkg/database/plugin/connection_proxy.go
  and src/pkg/database/plugin/rpc.go apply around the call: the zero values that gob would lose in the
  defaults of the columns and in two properties of Cassandra travel as sentinels. The predicates
  \<open>kept_\<close> describe the values that survive the trip with that workaround.
\<close>

named_theorems gob_defs \<open>what gob keeps of the schema types\<close>
named_theorems mask_defs \<open>the sentinels of the proxy and of the server\<close>
named_theorems kept_defs \<open>the values that the trip keeps\<close>
named_theorems kept_iff \<open>the trip keeps a value exactly if it is one of those\<close>

section \<open>The encoding\<close>

definition gob_ptr :: "'a \<Rightarrow> 'a option \<Rightarrow> 'a option" where
  "gob_ptr zero p = (if p = Some zero then None else p)"

subsection \<open>Seed data\<close>

definition gob_SeedDataValue :: "SeedDataValue \<Rightarrow> SeedDataValue" where
  [gob_defs]: "gob_SeedDataValue x = x\<lparr>
       sdv_Int := gob_ptr 0 (sdv_Int x), sdv_Str := gob_ptr [] (sdv_Str x) \<rparr>"

definition gob_SeedDataColumn :: "SeedDataColumn \<Rightarrow> SeedDataColumn" where
  [gob_defs]: "gob_SeedDataColumn x = x\<lparr>
       sdc_Value := gob_SeedDataValue (sdc_Value x) \<rparr>"

subsection \<open>PostgreSQL\<close>

definition gob_PostgresqlTableTrigger :: "PostgresqlTableTrigger \<Rightarrow> PostgresqlTableTrigger" where
  [gob_defs]: "gob_PostgresqlTableTrigger x = x\<lparr>
       ptt_ConstraintTrigger := gob_ptr False (ptt_ConstraintTrigger x),
       ptt_ForEachStatement := gob_ptr False (ptt_ForEachStatement x),
       ptt_ForEachRow := gob_ptr False (ptt_ForEachRow x),
       ptt_Condition := gob_ptr [] (ptt_Condition x) \<rparr>"

definition gob_PostgresqlTableColumnConstraints :: "PostgresqlTableColumnConstraints \<Rightarrow> PostgresqlTableColumnConstraints" where
  [gob_defs]: "gob_PostgresqlTableColumnConstraints x = x\<lparr>
       pcc_NotNull := gob_ptr False (pcc_NotNull x) \<rparr>"

definition gob_PostgresqlTableColumnAttributes :: "PostgresqlTableColumnAttributes \<Rightarrow> PostgresqlTableColumnAttributes" where
  [gob_defs]: "gob_PostgresqlTableColumnAttributes x = x\<lparr>
       pca_AutoIncrement := gob_ptr False (pca_AutoIncrement x) \<rparr>"

definition gob_PostgresqlTableColumn :: "PostgresqlTableColumn \<Rightarrow> PostgresqlTableColumn" where
  [gob_defs]: "gob_PostgresqlTableColumn x = x\<lparr>
       pcol_Constraints := map_option gob_PostgresqlTableColumnConstraints (pcol_Constraints x),
       pcol_Attributes := map_option gob_PostgresqlTableColumnAttributes (pcol_Attributes x),
       pcol_Default := gob_ptr [] (pcol_Default x) \<rparr>"

definition gob_PostgresqlTablePolicy :: "PostgresqlTablePolicy \<Rightarrow> PostgresqlTablePolicy" where
  [gob_defs]: "gob_PostgresqlTablePolicy x = x\<lparr>
       ppo_Using := gob_ptr [] (ppo_Using x), ppo_WithCheck := gob_ptr [] (ppo_WithCheck x) \<rparr>"

definition gob_PostgresqlTableSchema :: "PostgresqlTableSchema \<Rightarrow> PostgresqlTableSchema" where
  [gob_defs]: "gob_PostgresqlTableSchema x = x\<lparr>
       pts_Columns := map gob_PostgresqlTableColumn (pts_Columns x),
       pts_JSONTriggers := map gob_PostgresqlTableTrigger (pts_JSONTriggers x),
       pts_Triggers := map gob_PostgresqlTableTrigger (pts_Triggers x),
       pts_Policies := map gob_PostgresqlTablePolicy (pts_Policies x) \<rparr>"

definition gob_PostgresDatabaseExtension :: "PostgresDatabaseExtension \<Rightarrow> PostgresDatabaseExtension" where
  [gob_defs]: "gob_PostgresDatabaseExtension x = x\<lparr>
       pex_Version := gob_ptr [] (pex_Version x), pex_Schema := gob_ptr [] (pex_Schema x) \<rparr>"

subsection \<open>MySQL, SQLite and rqlite\<close>

definition gob_MysqlTableColumnConstraints :: "MysqlTableColumnConstraints \<Rightarrow> MysqlTableColumnConstraints" where
  [gob_defs]: "gob_MysqlTableColumnConstraints x = x\<lparr>
       mcc_NotNull := gob_ptr False (mcc_NotNull x) \<rparr>"

definition gob_MysqlTableColumnAttributes :: "MysqlTableColumnAttributes \<Rightarrow> MysqlTableColumnAttributes" where
  [gob_defs]: "gob_MysqlTableColumnAttributes x = x\<lparr>
       mca_AutoIncrement := gob_ptr False (mca_AutoIncrement x) \<rparr>"

definition gob_MysqlTableColumn :: "MysqlTableColumn \<Rightarrow> MysqlTableColumn" where
  [gob_defs]: "gob_MysqlTableColumn x = x\<lparr>
       mcol_Constraints := map_option gob_MysqlTableColumnConstraints (mcol_Constraints x),
       mcol_Attributes := map_option gob_MysqlTableColumnAttributes (mcol_Attributes x),
       mcol_Default := gob_ptr [] (mcol_Default x) \<rparr>"

definition gob_MysqlTableSchema :: "MysqlTableSchema \<Rightarrow> MysqlTableSchema" where
  [gob_defs]: "gob_MysqlTableSchema x = x\<lparr>
       mts_Columns := map gob_MysqlTableColumn (mts_Columns x) \<rparr>"

definition gob_SqliteTableColumnConstraints :: "SqliteTableColumnConstraints \<Rightarrow> SqliteTableColumnConstraints" where
  [gob_defs]: "gob_SqliteTableColumnConstraints x = x\<lparr>
       scc_NotNull := gob_ptr False (scc_NotNull x) \<rparr>"

definition gob_SqliteTableColumnAttributes :: "SqliteTableColumnAttributes \<Rightarrow> SqliteTableColumnAttributes" where
  [gob_defs]: "gob_SqliteTableColumnAttributes x = x\<lparr>
       sca_AutoIncrement := gob_ptr False (sca_AutoIncrement x) \<rparr>"

definition gob_SqliteTableColumn :: "SqliteTableColumn \<Rightarrow> SqliteTableColumn" where
  [gob_defs]: "gob_SqliteTableColumn x = x\<lparr>
       scol_Constraints := map_option gob_SqliteTableColumnConstraints (scol_Constraints x),
       scol_Attributes := map_option gob_SqliteTableColumnAttributes (scol_Attributes x),
       scol_Default := gob_ptr [] (scol_Default x) \<rparr>"

definition gob_SqliteTableSchema :: "SqliteTableSchema \<Rightarrow> SqliteTableSchema" where
  [gob_defs]: "gob_SqliteTableSchema x = x\<lparr>
       sts_Columns := map gob_SqliteTableColumn (sts_Columns x) \<rparr>"

definition gob_RqliteTableColumnConstraints :: "RqliteTableColumnConstraints \<Rightarrow> RqliteTableColumnConstraints" where
  [gob_defs]: "gob_RqliteTableColumnConstraints x = x\<lparr>
       rcc_NotNull := gob_ptr False (rcc_NotNull x) \<rparr>"

definition gob_RqliteTableColumnAttributes :: "RqliteTableColumnAttributes \<Rightarrow> RqliteTableColumnAttributes" where
  [gob_defs]: "gob_RqliteTableColumnAttributes x = x\<lparr>
       rca_AutoIncrement := gob_ptr False (rca_AutoIncrement x) \<rparr>"

definition gob_RqliteTableColumn :: "RqliteTableColumn \<Rightarrow> RqliteTableColumn" where
  [gob_defs]: "gob_RqliteTableColumn x = x\<lparr>
       rcol_Constraints := map_option gob_RqliteTableColumnConstraints (rcol_Constraints x),
       rcol_Attributes := map_option gob_RqliteTableColumnAttributes (rcol_Attributes x),
       rcol_Default := gob_ptr [] (rcol_Default x) \<rparr>"

definition gob_RqliteTableSchema :: "RqliteTableSchema \<Rightarrow> RqliteTableSchema" where
  [gob_defs]: "gob_RqliteTableSchema x = x\<lparr>
       rts_Columns := map gob_RqliteTableColumn (rts_Columns x) \<rparr>"

subsection \<open>Cassandra\<close>

definition gob_CassandraColumn :: "CassandraColumn \<Rightarrow> CassandraColumn" where
  [gob_defs]: "gob_CassandraColumn x = x\<lparr>
       ccol_IsStatic := gob_ptr False (ccol_IsStatic x) \<rparr>"

definition gob_CassandraClusteringOrder :: "CassandraClusteringOrder \<Rightarrow> CassandraClusteringOrder" where
  [gob_defs]: "gob_CassandraClusteringOrder x = x\<lparr>
       cco_IsDescending := gob_ptr False (cco_IsDescending x) \<rparr>"

definition gob_CassandraTableProperties :: "CassandraTableProperties \<Rightarrow> CassandraTableProperties" where
  [gob_defs]: "gob_CassandraTableProperties x = x\<lparr>
       ctp_DefaultTTL := gob_ptr 0 (ctp_DefaultTTL x),
       ctp_GCGraceSeconds := gob_ptr 0 (ctp_GCGraceSeconds x),
       ctp_MaxIndexInterval := gob_ptr 0 (ctp_MaxIndexInterval x),
       ctp_MemtableFlushPeriodMS := gob_ptr 0 (ctp_MemtableFlushPeriodMS x),
       ctp_MinIndexInterval := gob_ptr 0 (ctp_MinIndexInterval x) \<rparr>"

definition gob_CassandraTableSchema :: "CassandraTableSchema \<Rightarrow> CassandraTableSchema" where
  [gob_defs]: "gob_CassandraTableSchema x = x\<lparr>
       cts_PrimaryKey := gob_ptr [] (cts_PrimaryKey x),
       cts_ClusteringOrder := map_option gob_CassandraClusteringOrder (cts_ClusteringOrder x),
       cts_Columns := map gob_CassandraColumn (cts_Columns x),
       cts_Properties := map_option gob_CassandraTableProperties (cts_Properties x) \<rparr>"

subsection \<open>TimescaleDB\<close>

definition gob_TimescaleDBCompression :: "TimescaleDBCompression \<Rightarrow> TimescaleDBCompression" where
  [gob_defs]: "gob_TimescaleDBCompression x = x\<lparr>
       tco_SegmentBy := gob_ptr [] (tco_SegmentBy x), tco_Interval := gob_ptr [] (tco_Interval x) \<rparr>"

definition gob_TimescaleDBHypertable :: "TimescaleDBHypertable \<Rightarrow> TimescaleDBHypertable" where
  [gob_defs]: "gob_TimescaleDBHypertable x = x\<lparr>
       tht_TimeColumnName := gob_ptr [] (tht_TimeColumnName x),
       tht_PartitioningColumn := gob_ptr [] (tht_PartitioningColumn x),
       tht_NumberPartitions := gob_ptr 0 (tht_NumberPartitions x),
       tht_ChunkTimeInterval := gob_ptr [] (tht_ChunkTimeInterval x),
       tht_CreateDefaultIndexes := gob_ptr False (tht_CreateDefaultIndexes x),
       tht_IfNotExists := gob_ptr False (tht_IfNotExists x),
       tht_PartitioningFunc := gob_ptr [] (tht_PartitioningFunc x),
       tht_AssociatedSchemaName := gob_ptr [] (tht_AssociatedSchemaName x),
       tht_AssociatedTablePrefix := gob_ptr [] (tht_AssociatedTablePrefix x),
       tht_MigrateData := gob_ptr False (tht_MigrateData x),
       tht_TimePartitioningFunc := gob_ptr [] (tht_TimePartitioningFunc x),
       tht_ReplicationFactor := gob_ptr 0 (tht_ReplicationFactor x),
       tht_Compression := map_option gob_TimescaleDBCompression (tht_Compression x) \<rparr>"

definition gob_TimescaleDBTableSchema :: "TimescaleDBTableSchema \<Rightarrow> TimescaleDBTableSchema" where
  [gob_defs]: "gob_TimescaleDBTableSchema x = x\<lparr>
       tts_Columns := map gob_PostgresqlTableColumn (tts_Columns x),
       tts_Triggers := map gob_PostgresqlTableTrigger (tts_Triggers x),
       tts_Hypertable := map_option gob_TimescaleDBHypertable (tts_Hypertable x) \<rparr>"

definition gob_TimescaleDBViewSchema :: "TimescaleDBViewSchema \<Rightarrow> TimescaleDBViewSchema" where
  [gob_defs]: "gob_TimescaleDBViewSchema x = x\<lparr>
       tvs_IsContinuousAggregate := gob_ptr False (tvs_IsContinuousAggregate x),
       tvs_WithNoData := gob_ptr False (tvs_WithNoData x) \<rparr>"

section \<open>The sentinels\<close>

definition emptyStringSentinel :: string where
  "emptyStringSentinel = ''__SCHEMAHERO_EMPTY_STRING_DEFAULT__''"

definition zeroIntSentinel :: int where
  "zeroIntSentinel = -999999999"

definition mask_default :: "string option \<Rightarrow> string option" where
  "mask_default d = (if d = Some [] then Some emptyStringSentinel else d)"

definition restore_default :: "string option \<Rightarrow> string option" where
  "restore_default d = (if d = Some emptyStringSentinel then Some [] else d)"

definition mask_zero :: "int option \<Rightarrow> int option" where
  "mask_zero n = (if n = Some 0 then Some zeroIntSentinel else n)"

definition restore_zero :: "int option \<Rightarrow> int option" where
  "restore_zero n = (if n = Some zeroIntSentinel then Some 0 else n)"

definition mask_PostgresqlTableSchema :: "PostgresqlTableSchema \<Rightarrow> PostgresqlTableSchema" where
  [mask_defs]: "mask_PostgresqlTableSchema s = s\<lparr> pts_Columns :=
     map (\<lambda>col. col\<lparr> pcol_Default := mask_default (pcol_Default col) \<rparr>) (pts_Columns s) \<rparr>"

definition mask_MysqlTableSchema :: "MysqlTableSchema \<Rightarrow> MysqlTableSchema" where
  [mask_defs]: "mask_MysqlTableSchema s = s\<lparr> mts_Columns :=
     map (\<lambda>col. col\<lparr> mcol_Default := mask_default (mcol_Default col) \<rparr>) (mts_Columns s) \<rparr>"

definition mask_SqliteTableSchema :: "SqliteTableSchema \<Rightarrow> SqliteTableSchema" where
  [mask_defs]: "mask_SqliteTableSchema s = s\<lparr> sts_Columns :=
     map (\<lambda>col. col\<lparr> scol_Default := mask_default (scol_Default col) \<rparr>) (sts_Columns s) \<rparr>"

definition mask_RqliteTableSchema :: "RqliteTableSchema \<Rightarrow> RqliteTableSchema" where
  [mask_defs]: "mask_RqliteTableSchema s = s\<lparr> rts_Columns :=
     map (\<lambda>col. col\<lparr> rcol_Default := mask_default (rcol_Default col) \<rparr>) (rts_Columns s) \<rparr>"

definition mask_TimescaleDBTableSchema :: "TimescaleDBTableSchema \<Rightarrow> TimescaleDBTableSchema" where
  [mask_defs]: "mask_TimescaleDBTableSchema s = s\<lparr> tts_Columns :=
     map (\<lambda>col. col\<lparr> pcol_Default := mask_default (pcol_Default col) \<rparr>) (tts_Columns s) \<rparr>"

definition mask_CassandraTableSchema :: "CassandraTableSchema \<Rightarrow> CassandraTableSchema" where
  [mask_defs]: "mask_CassandraTableSchema s = s\<lparr> cts_Properties :=
     map_option (\<lambda>p. p\<lparr> ctp_DefaultTTL := mask_zero (ctp_DefaultTTL p),
       ctp_MemtableFlushPeriodMS := mask_zero (ctp_MemtableFlushPeriodMS p) \<rparr>) (cts_Properties s) \<rparr>"

definition restore_PostgresqlTableSchema :: "PostgresqlTableSchema \<Rightarrow> PostgresqlTableSchema" where
  [mask_defs]: "restore_PostgresqlTableSchema s = s\<lparr> pts_Columns :=
     map (\<lambda>col. col\<lparr> pcol_Default := restore_default (pcol_Default col) \<rparr>) (pts_Columns s) \<rparr>"

definition restore_MysqlTableSchema :: "MysqlTableSchema \<Rightarrow> MysqlTableSchema" where
  [mask_defs]: "restore_MysqlTableSchema s = s\<lparr> mts_Columns :=
     map (\<lambda>col. col\<lparr> mcol_Default := restore_default (mcol_Default col) \<rparr>) (mts_Columns s) \<rparr>"

definition restore_SqliteTableSchema :: "SqliteTableSchema \<Rightarrow> SqliteTableSchema" where
  [mask_defs]: "restore_SqliteTableSchema s = s\<lparr> sts_Columns :=
     map (\<lambda>col. col\<lparr> scol_Default := restore_default (scol_Default col) \<rparr>) (sts_Columns s) \<rparr>"

definition restore_RqliteTableSchema :: "RqliteTableSchema \<Rightarrow> RqliteTableSchema" where
  [mask_defs]: "restore_RqliteTableSchema s = s\<lparr> rts_Columns :=
     map (\<lambda>col. col\<lparr> rcol_Default := restore_default (rcol_Default col) \<rparr>) (rts_Columns s) \<rparr>"

definition restore_TimescaleDBTableSchema :: "TimescaleDBTableSchema \<Rightarrow> TimescaleDBTableSchema" where
  [mask_defs]: "restore_TimescaleDBTableSchema s = s\<lparr> tts_Columns :=
     map (\<lambda>col. col\<lparr> pcol_Default := restore_default (pcol_Default col) \<rparr>) (tts_Columns s) \<rparr>"

definition restore_CassandraTableSchema :: "CassandraTableSchema \<Rightarrow> CassandraTableSchema" where
  [mask_defs]: "restore_CassandraTableSchema s = s\<lparr> cts_Properties :=
     map_option (\<lambda>p. p\<lparr> ctp_DefaultTTL := restore_zero (ctp_DefaultTTL p),
       ctp_MemtableFlushPeriodMS := restore_zero (ctp_MemtableFlushPeriodMS p) \<rparr>) (cts_Properties s) \<rparr>"

text \<open>The type switch of PlanTableSchema. Ranging over the columns of a nil pointer panics.\<close>

definition on_schema :: "('a \<Rightarrow> 'a) \<Rightarrow> ('a option \<Rightarrow> schema_iface) \<Rightarrow> 'a option \<Rightarrow> schema_iface result" where
  "on_schema f tag p =
     (case p of None \<Rightarrow> Inl (GoPanic ''invalid memory address or nil pointer dereference'')
      | Some s \<Rightarrow> Inr (tag (Some (f s))))"

fun mask_iface :: "schema_iface \<Rightarrow> schema_iface result" where
  "mask_iface (PostgresqlTable p) = on_schema mask_PostgresqlTableSchema PostgresqlTable p"
| "mask_iface (MysqlTable p) = on_schema mask_MysqlTableSchema MysqlTable p"
| "mask_iface (SqliteTable p) = on_schema mask_SqliteTableSchema SqliteTable p"
| "mask_iface (RqliteTable p) = on_schema mask_RqliteTableSchema RqliteTable p"
| "mask_iface (TimescaleDBTable p) = on_schema mask_TimescaleDBTableSchema TimescaleDBTable p"
| "mask_iface (CassandraTable p) = on_schema mask_CassandraTableSchema CassandraTable p"
| "mask_iface s = Inr s"

fun restore_iface :: "schema_iface \<Rightarrow> schema_iface result" where
  "restore_iface (PostgresqlTable p) = on_schema restore_PostgresqlTableSchema PostgresqlTable p"
| "restore_iface (MysqlTable p) = on_schema restore_MysqlTableSchema MysqlTable p"
| "restore_iface (SqliteTable p) = on_schema restore_SqliteTableSchema SqliteTable p"
| "restore_iface (RqliteTable p) = on_schema restore_RqliteTableSchema RqliteTable p"
| "restore_iface (TimescaleDBTable p) = on_schema restore_TimescaleDBTableSchema TimescaleDBTable p"
| "restore_iface (CassandraTable p) = on_schema restore_CassandraTableSchema CassandraTable p"
| "restore_iface s = Inr s"

text \<open>
  An \<^verbatim>\<open>interface{}\<close> is sent as the name of its dynamic type and the value; a nil pointer in
  it cannot be encoded.
\<close>

definition gob_pointer :: "('a \<Rightarrow> 'a) \<Rightarrow> ('a option \<Rightarrow> schema_iface) \<Rightarrow> 'a option \<Rightarrow> schema_iface result" where
  "gob_pointer f tag p =
     (case p of
        None \<Rightarrow> Inl (ErrNew (''gob: gob: cannot encode nil pointer of type '' @ dynamic_type (tag None)))
      | Some s \<Rightarrow> Inr (tag (Some (f s))))"

fun gob_iface :: "schema_iface \<Rightarrow> schema_iface result" where
  "gob_iface NilInterface = Inr NilInterface"
| "gob_iface (PostgresqlTable p) = gob_pointer gob_PostgresqlTableSchema PostgresqlTable p"
| "gob_iface (MysqlTable p) = gob_pointer gob_MysqlTableSchema MysqlTable p"
| "gob_iface (CassandraTable p) = gob_pointer gob_CassandraTableSchema CassandraTable p"
| "gob_iface (TimescaleDBTable p) = gob_pointer gob_TimescaleDBTableSchema TimescaleDBTable p"
| "gob_iface (SqliteTable p) = gob_pointer gob_SqliteTableSchema SqliteTable p"
| "gob_iface (RqliteTable p) = gob_pointer gob_RqliteTableSchema RqliteTable p"
| "gob_iface (NotImplementedView p) = gob_pointer (\<lambda>s. s) NotImplementedView p"
| "gob_iface (TimescaleDBView p) = gob_pointer gob_TimescaleDBViewSchema TimescaleDBView p"
| "gob_iface (CassandraDataType p) = gob_pointer (\<lambda>s. s) CassandraDataType p"
| "gob_iface (PostgresqlFunction p) = gob_pointer (\<lambda>s. s) PostgresqlFunction p"
| "gob_iface (PostgresExtension p) = gob_pointer gob_PostgresDatabaseExtension PostgresExtension p"

definition gob_SeedData :: "SeedData \<Rightarrow> SeedData" where
  [gob_defs]: "gob_SeedData rows = map (map gob_SeedDataColumn) rows"

section \<open>The spec of a table, for fixtures\<close>

text \<open>Only the first of four schemas that is there is masked: those of CockroachDB, rqlite and TimescaleDB are not.\<close>

definition mask_TableSchema :: "TableSchema \<Rightarrow> TableSchema" where
  [mask_defs]: "mask_TableSchema s =
     (if ts_Postgres s \<noteq> None then s\<lparr> ts_Postgres := map_option mask_PostgresqlTableSchema (ts_Postgres s) \<rparr>
      else if ts_Mysql s \<noteq> None then s\<lparr> ts_Mysql := map_option mask_MysqlTableSchema (ts_Mysql s) \<rparr>
      else if ts_SQLite s \<noteq> None then s\<lparr> ts_SQLite := map_option mask_SqliteTableSchema (ts_SQLite s) \<rparr>
      else if ts_Cassandra s \<noteq> None then s\<lparr> ts_Cassandra := map_option mask_CassandraTableSchema (ts_Cassandra s) \<rparr>
      else s)"

definition restore_TableSchema :: "TableSchema \<Rightarrow> TableSchema" where
  [mask_defs]: "restore_TableSchema s =
     (if ts_Postgres s \<noteq> None then s\<lparr> ts_Postgres := map_option restore_PostgresqlTableSchema (ts_Postgres s) \<rparr>
      else if ts_Mysql s \<noteq> None then s\<lparr> ts_Mysql := map_option restore_MysqlTableSchema (ts_Mysql s) \<rparr>
      else if ts_SQLite s \<noteq> None then s\<lparr> ts_SQLite := map_option restore_SqliteTableSchema (ts_SQLite s) \<rparr>
      else if ts_Cassandra s \<noteq> None then s\<lparr> ts_Cassandra := map_option restore_CassandraTableSchema (ts_Cassandra s) \<rparr>
      else s)"

definition gob_TableSchema :: "TableSchema \<Rightarrow> TableSchema" where
  [gob_defs]: "gob_TableSchema s = s\<lparr>
     ts_Postgres := map_option gob_PostgresqlTableSchema (ts_Postgres s),
     ts_Mysql := map_option gob_MysqlTableSchema (ts_Mysql s),
     ts_CockroachDB := map_option gob_PostgresqlTableSchema (ts_CockroachDB s),
     ts_Cassandra := map_option gob_CassandraTableSchema (ts_Cassandra s),
     ts_TimescaleDB := map_option gob_TimescaleDBTableSchema (ts_TimescaleDB s),
     ts_SQLite := map_option gob_SqliteTableSchema (ts_SQLite s),
     ts_RQLite := map_option gob_RqliteTableSchema (ts_RQLite s) \<rparr>"

definition mask_TableSpec :: "TableSpec \<Rightarrow> TableSpec" where
  [mask_defs]: "mask_TableSpec spec = spec\<lparr> tsp_Schema := map_option mask_TableSchema (tsp_Schema spec) \<rparr>"

definition restore_TableSpec :: "TableSpec \<Rightarrow> TableSpec" where
  [mask_defs]: "restore_TableSpec spec = spec\<lparr> tsp_Schema := map_option restore_TableSchema (tsp_Schema spec) \<rparr>"

definition gob_TableSpec :: "TableSpec \<Rightarrow> TableSpec" where
  [gob_defs]: "gob_TableSpec spec = spec\<lparr> tsp_Schema := map_option gob_TableSchema (tsp_Schema spec),
     tsp_SeedData := map_option gob_SeedData (tsp_SeedData spec) \<rparr>"

section \<open>The types of the replies\<close>

definition gob_ColumnConstraints :: "ColumnConstraints \<Rightarrow> ColumnConstraints" where
  [gob_defs]: "gob_ColumnConstraints x = x\<lparr> cc_NotNull := gob_ptr False (cc_NotNull x) \<rparr>"

definition gob_ColumnAttributes :: "ColumnAttributes \<Rightarrow> ColumnAttributes" where
  [gob_defs]: "gob_ColumnAttributes x = x\<lparr> ca_AutoIncrement := gob_ptr False (ca_AutoIncrement x) \<rparr>"

definition gob_Column :: "Column \<Rightarrow> Column" where
  [gob_defs]: "gob_Column x = x\<lparr> col_ColumnDefault := gob_ptr [] (col_ColumnDefault x),
     col_Constraints := map_option gob_ColumnConstraints (col_Constraints x),
     col_Attributes := map_option gob_ColumnAttributes (col_Attributes x) \<rparr>"

section \<open>What survives\<close>

definition kept_SeedDataValue :: "SeedDataValue \<Rightarrow> bool" where
  [kept_defs]: "kept_SeedDataValue x \<longleftrightarrow>
       sdv_Int x \<noteq> Some 0 \<and> sdv_Str x \<noteq> Some []"

definition kept_SeedDataColumn :: "SeedDataColumn \<Rightarrow> bool" where
  [kept_defs]: "kept_SeedDataColumn x \<longleftrightarrow>
       kept_SeedDataValue (sdc_Value x)"

definition kept_PostgresqlTableTrigger :: "PostgresqlTableTrigger \<Rightarrow> bool" where
  [kept_defs]: "kept_PostgresqlTableTrigger x \<longleftrightarrow>
       ptt_ConstraintTrigger x \<noteq> Some False \<and>
       ptt_ForEachStatement x \<noteq> Some False \<and> ptt_ForEachRow x \<noteq> Some False \<and>
       ptt_Condition x \<noteq> Some []"

definition kept_PostgresqlTableColumnConstraints :: "PostgresqlTableColumnConstraints \<Rightarrow> bool" where
  [kept_defs]: "kept_PostgresqlTableColumnConstraints x \<longleftrightarrow>
       pcc_NotNull x \<noteq> Some False"

definition kept_PostgresqlTableColumnAttributes :: "PostgresqlTableColumnAttributes \<Rightarrow> bool" where
  [kept_defs]: "kept_PostgresqlTableColumnAttributes x \<longleftrightarrow>
       pca_AutoIncrement x \<noteq> Some False"

definition kept_PostgresqlTableColumn :: "PostgresqlTableColumn \<Rightarrow> bool" where
  [kept_defs]: "kept_PostgresqlTableColumn x \<longleftrightarrow>
       pred_option kept_PostgresqlTableColumnConstraints (pcol_Constraints x) \<and>
       pred_option kept_PostgresqlTableColumnAttributes (pcol_Attributes x) \<and>
       pcol_Default x \<noteq> Some emptyStringSentinel"

definition kept_PostgresqlTablePolicy :: "PostgresqlTablePolicy \<Rightarrow> bool" where
  [kept_defs]: "kept_PostgresqlTablePolicy x \<longleftrightarrow>
       ppo_Using x \<noteq> Some [] \<and> ppo_WithCheck x \<noteq> Some []"

definition kept_PostgresqlTableSchema :: "PostgresqlTableSchema \<Rightarrow> bool" where
  [kept_defs]: "kept_PostgresqlTableSchema x \<longleftrightarrow>
       list_all kept_PostgresqlTableColumn (pts_Columns x) \<and>
       list_all kept_PostgresqlTableTrigger (pts_JSONTriggers x) \<and>
       list_all kept_PostgresqlTableTrigger (pts_Triggers x) \<and>
       list_all kept_PostgresqlTablePolicy (pts_Policies x)"

definition kept_PostgresDatabaseExtension :: "PostgresDatabaseExtension \<Rightarrow> bool" where
  [kept_defs]: "kept_PostgresDatabaseExtension x \<longleftrightarrow>
       pex_Version x \<noteq> Some [] \<and> pex_Schema x \<noteq> Some []"

definition kept_MysqlTableColumnConstraints :: "MysqlTableColumnConstraints \<Rightarrow> bool" where
  [kept_defs]: "kept_MysqlTableColumnConstraints x \<longleftrightarrow>
       mcc_NotNull x \<noteq> Some False"

definition kept_MysqlTableColumnAttributes :: "MysqlTableColumnAttributes \<Rightarrow> bool" where
  [kept_defs]: "kept_MysqlTableColumnAttributes x \<longleftrightarrow>
       mca_AutoIncrement x \<noteq> Some False"

definition kept_MysqlTableColumn :: "MysqlTableColumn \<Rightarrow> bool" where
  [kept_defs]: "kept_MysqlTableColumn x \<longleftrightarrow>
       pred_option kept_MysqlTableColumnConstraints (mcol_Constraints x) \<and>
       pred_option kept_MysqlTableColumnAttributes (mcol_Attributes x) \<and>
       mcol_Default x \<noteq> Some emptyStringSentinel"

definition kept_MysqlTableSchema :: "MysqlTableSchema \<Rightarrow> bool" where
  [kept_defs]: "kept_MysqlTableSchema x \<longleftrightarrow>
       list_all kept_MysqlTableColumn (mts_Columns x)"

definition kept_SqliteTableColumnConstraints :: "SqliteTableColumnConstraints \<Rightarrow> bool" where
  [kept_defs]: "kept_SqliteTableColumnConstraints x \<longleftrightarrow>
       scc_NotNull x \<noteq> Some False"

definition kept_SqliteTableColumnAttributes :: "SqliteTableColumnAttributes \<Rightarrow> bool" where
  [kept_defs]: "kept_SqliteTableColumnAttributes x \<longleftrightarrow>
       sca_AutoIncrement x \<noteq> Some False"

definition kept_SqliteTableColumn :: "SqliteTableColumn \<Rightarrow> bool" where
  [kept_defs]: "kept_SqliteTableColumn x \<longleftrightarrow>
       pred_option kept_SqliteTableColumnConstraints (scol_Constraints x) \<and>
       pred_option kept_SqliteTableColumnAttributes (scol_Attributes x) \<and>
       scol_Default x \<noteq> Some emptyStringSentinel"

definition kept_SqliteTableSchema :: "SqliteTableSchema \<Rightarrow> bool" where
  [kept_defs]: "kept_SqliteTableSchema x \<longleftrightarrow>
       list_all kept_SqliteTableColumn (sts_Columns x)"

definition kept_RqliteTableColumnConstraints :: "RqliteTableColumnConstraints \<Rightarrow> bool" where
  [kept_defs]: "kept_RqliteTableColumnConstraints x \<longleftrightarrow>
       rcc_NotNull x \<noteq> Some False"

definition kept_RqliteTableColumnAttributes :: "RqliteTableColumnAttributes \<Rightarrow> bool" where
  [kept_defs]: "kept_RqliteTableColumnAttributes x \<longleftrightarrow>
       rca_AutoIncrement x \<noteq> Some False"

definition kept_RqliteTableColumn :: "RqliteTableColumn \<Rightarrow> bool" where
  [kept_defs]: "kept_RqliteTableColumn x \<longleftrightarrow>
       pred_option kept_RqliteTableColumnConstraints (rcol_Constraints x) \<and>
       pred_option kept_RqliteTableColumnAttributes (rcol_Attributes x) \<and>
       rcol_Default x \<noteq> Some emptyStringSentinel"

definition kept_RqliteTableSchema :: "RqliteTableSchema \<Rightarrow> bool" where
  [kept_defs]: "kept_RqliteTableSchema x \<longleftrightarrow>
       list_all kept_RqliteTableColumn (rts_Columns x)"

definition kept_CassandraColumn :: "CassandraColumn \<Rightarrow> bool" where
  [kept_defs]: "kept_CassandraColumn x \<longleftrightarrow>
       ccol_IsStatic x \<noteq> Some False"

definition kept_CassandraClusteringOrder :: "CassandraClusteringOrder \<Rightarrow> bool" where
  [kept_defs]: "kept_CassandraClusteringOrder x \<longleftrightarrow>
       cco_IsDescending x \<noteq> Some False"

definition kept_CassandraTableProperties :: "CassandraTableProperties \<Rightarrow> bool" where
  [kept_defs]: "kept_CassandraTableProperties x \<longleftrightarrow>
       ctp_DefaultTTL x \<noteq> Some zeroIntSentinel \<and>
       ctp_GCGraceSeconds x \<noteq> Some 0 \<and> ctp_MaxIndexInterval x \<noteq> Some 0 \<and>
       ctp_MemtableFlushPeriodMS x \<noteq> Some zeroIntSentinel \<and>
       ctp_MinIndexInterval x \<noteq> Some 0"

definition kept_CassandraTableSchema :: "CassandraTableSchema \<Rightarrow> bool" where
  [kept_defs]: "kept_CassandraTableSchema x \<longleftrightarrow>
       cts_PrimaryKey x \<noteq> Some [] \<and>
       pred_option kept_CassandraClusteringOrder (cts_ClusteringOrder x) \<and>
       list_all kept_CassandraColumn (cts_Columns x) \<and>
       pred_option kept_CassandraTableProperties (cts_Properties x)"

definition kept_TimescaleDBCompression :: "TimescaleDBCompression \<Rightarrow> bool" where
  [kept_defs]: "kept_TimescaleDBCompression x \<longleftrightarrow>
       tco_SegmentBy x \<noteq> Some [] \<and> tco_Interval x \<noteq> Some []"

definition kept_TimescaleDBHypertable :: "TimescaleDBHypertable \<Rightarrow> bool" where
  [kept_defs]: "kept_TimescaleDBHypertable x \<longleftrightarrow>
       tht_TimeColumnName x \<noteq> Some [] \<and> tht_PartitioningColumn x \<noteq> Some [] \<and>
       tht_NumberPartitions x \<noteq> Some 0 \<and> tht_ChunkTimeInterval x \<noteq> Some [] \<and>
       tht_CreateDefaultIndexes x \<noteq> Some False \<and>
       tht_IfNotExists x \<noteq> Some False \<and> tht_PartitioningFunc x \<noteq> Some [] \<and>
       tht_AssociatedSchemaName x \<noteq> Some [] \<and>
       tht_AssociatedTablePrefix x \<noteq> Some [] \<and>
       tht_MigrateData x \<noteq> Some False \<and>
       tht_TimePartitioningFunc x \<noteq> Some [] \<and>
       tht_ReplicationFactor x \<noteq> Some 0 \<and>
       pred_option kept_TimescaleDBCompression (tht_Compression x)"

definition kept_TimescaleDBTableSchema :: "TimescaleDBTableSchema \<Rightarrow> bool" where
  [kept_defs]: "kept_TimescaleDBTableSchema x \<longleftrightarrow>
       list_all kept_PostgresqlTableColumn (tts_Columns x) \<and>
       list_all kept_PostgresqlTableTrigger (tts_Triggers x) \<and>
       pred_option kept_TimescaleDBHypertable (tts_Hypertable x)"

definition kept_TimescaleDBViewSchema :: "TimescaleDBViewSchema \<Rightarrow> bool" where
  [kept_defs]: "kept_TimescaleDBViewSchema x \<longleftrightarrow>
       tvs_IsContinuousAggregate x \<noteq> Some False \<and> tvs_WithNoData x \<noteq> Some False"

text \<open>A schema that a table is planned from.\<close>

fun kept_iface :: "schema_iface \<Rightarrow> bool" where
  "kept_iface (PostgresqlTable p) \<longleftrightarrow> p \<noteq> None \<and> pred_option kept_PostgresqlTableSchema p"
| "kept_iface (MysqlTable p) \<longleftrightarrow> p \<noteq> None \<and> pred_option kept_MysqlTableSchema p"
| "kept_iface (SqliteTable p) \<longleftrightarrow> p \<noteq> None \<and> pred_option kept_SqliteTableSchema p"
| "kept_iface (RqliteTable p) \<longleftrightarrow> p \<noteq> None \<and> pred_option kept_RqliteTableSchema p"
| "kept_iface (TimescaleDBTable p) \<longleftrightarrow> p \<noteq> None \<and> pred_option kept_TimescaleDBTableSchema p"
| "kept_iface (CassandraTable p) \<longleftrightarrow> p \<noteq> None \<and> pred_option kept_CassandraTableSchema p"
| "kept_iface (TimescaleDBView p) \<longleftrightarrow> p \<noteq> None \<and> pred_option kept_TimescaleDBViewSchema p"
| "kept_iface (PostgresExtension p) \<longleftrightarrow> p \<noteq> None \<and> pred_option kept_PostgresDatabaseExtension p"
| "kept_iface (NotImplementedView p) \<longleftrightarrow> p \<noteq> None"
| "kept_iface (CassandraDataType p) \<longleftrightarrow> p \<noteq> None"
| "kept_iface (PostgresqlFunction p) \<longleftrightarrow> p \<noteq> None"
| "kept_iface NilInterface \<longleftrightarrow> True"

definition kept_SeedData :: "SeedData \<Rightarrow> bool" where
  [kept_defs]: "kept_SeedData rows \<longleftrightarrow> list_all (list_all kept_SeedDataColumn) rows"

section \<open>The trip\<close>

lemma gob_ptr_iff [kept_iff]: "gob_ptr zero p = p \<longleftrightarrow> p \<noteq> Some zero"
  by (auto simp: gob_ptr_def)

lemma default_trip_iff [kept_iff]:
  "restore_default (gob_ptr [] (mask_default d)) = d \<longleftrightarrow> d \<noteq> Some emptyStringSentinel"
  by (simp add: gob_ptr_def mask_default_def restore_default_def emptyStringSentinel_def)

lemma zero_trip_iff [kept_iff]:
  "restore_zero (gob_ptr 0 (mask_zero n)) = n \<longleftrightarrow> n \<noteq> Some zeroIntSentinel"
  by (simp add: gob_ptr_def mask_zero_def restore_zero_def zeroIntSentinel_def)

lemma map_fixed_iff: "(\<And>x. f x = x \<longleftrightarrow> P x) \<Longrightarrow> map f xs = xs \<longleftrightarrow> list_all P xs"
  by (induction xs) simp_all

lemma map_option_fixed_iff: "(\<And>x. f x = x \<longleftrightarrow> P x) \<Longrightarrow> map_option f p = p \<longleftrightarrow> pred_option P p"
  by (cases p) simp_all

lemma seed_kept_iff: "gob_SeedData rows = rows \<longleftrightarrow> kept_SeedData rows"
proof -
  have "gob_SeedDataColumn c = c \<longleftrightarrow> kept_SeedDataColumn c" for c
    by (cases c; cases "sdc_Value c") (simp add: gob_defs kept_defs kept_iff)
  then show ?thesis
    by (simp add: gob_SeedData_def kept_SeedData_def map_fixed_iff)
qed

lemma attributes_kept_iff [kept_iff]:
  "gob_PostgresqlTableColumnConstraints pc = pc \<longleftrightarrow> kept_PostgresqlTableColumnConstraints pc"
  "gob_PostgresqlTableColumnAttributes pa = pa \<longleftrightarrow> kept_PostgresqlTableColumnAttributes pa"
  "gob_MysqlTableColumnConstraints mc = mc \<longleftrightarrow> kept_MysqlTableColumnConstraints mc"
  "gob_MysqlTableColumnAttributes ma = ma \<longleftrightarrow> kept_MysqlTableColumnAttributes ma"
  "gob_SqliteTableColumnConstraints sc = sc \<longleftrightarrow> kept_SqliteTableColumnConstraints sc"
  "gob_SqliteTableColumnAttributes sa = sa \<longleftrightarrow> kept_SqliteTableColumnAttributes sa"
  "gob_RqliteTableColumnConstraints rc = rc \<longleftrightarrow> kept_RqliteTableColumnConstraints rc"
  "gob_RqliteTableColumnAttributes ra = ra \<longleftrightarrow> kept_RqliteTableColumnAttributes ra"
  "gob_CassandraColumn cc = cc \<longleftrightarrow> kept_CassandraColumn cc"
  "gob_CassandraClusteringOrder co = co \<longleftrightarrow> kept_CassandraClusteringOrder co"
  "gob_TimescaleDBCompression tc = tc \<longleftrightarrow> kept_TimescaleDBCompression tc"
  by (cases pc, simp add: gob_defs kept_defs kept_iff)
     (cases pa, simp add: gob_defs kept_defs kept_iff,
      cases mc, simp add: gob_defs kept_defs kept_iff,
      cases ma, simp add: gob_defs kept_defs kept_iff,
      cases sc, simp add: gob_defs kept_defs kept_iff,
      cases sa, simp add: gob_defs kept_defs kept_iff,
      cases rc, simp add: gob_defs kept_defs kept_iff,
      cases ra, simp add: gob_defs kept_defs kept_iff,
      cases cc, simp add: gob_defs kept_defs kept_iff,
      cases co, simp add: gob_defs kept_defs kept_iff,
      cases tc, simp add: gob_defs kept_defs kept_iff)

lemma parts_kept_iff [kept_iff]:
  "gob_PostgresqlTableTrigger tr = tr \<longleftrightarrow> kept_PostgresqlTableTrigger tr"
  "gob_PostgresqlTablePolicy po = po \<longleftrightarrow> kept_PostgresqlTablePolicy po"
  "gob_TimescaleDBHypertable ht = ht \<longleftrightarrow> kept_TimescaleDBHypertable ht"
  "gob_TimescaleDBViewSchema v = v \<longleftrightarrow> kept_TimescaleDBViewSchema v"
  "gob_PostgresDatabaseExtension ext = ext \<longleftrightarrow> kept_PostgresDatabaseExtension ext"
  by (cases tr, simp add: gob_defs kept_defs kept_iff)
     (cases po, simp add: gob_defs kept_defs kept_iff,
      cases ht, simp add: gob_TimescaleDBHypertable_def kept_TimescaleDBHypertable_def kept_iff map_option_fixed_iff,
      cases v, simp add: gob_defs kept_defs kept_iff,
      cases ext, simp add: gob_defs kept_defs kept_iff)

text \<open>A column: masked, encoded, and restored.\<close>

lemma columns_kept_iff [kept_iff]:
  "(gob_PostgresqlTableColumn (p\<lparr> pcol_Default := mask_default (pcol_Default p) \<rparr>))
     \<lparr> pcol_Default := restore_default (pcol_Default (gob_PostgresqlTableColumn (p\<lparr> pcol_Default := mask_default (pcol_Default p) \<rparr>))) \<rparr> = p \<longleftrightarrow>
   kept_PostgresqlTableColumn p"
  "(gob_MysqlTableColumn (m\<lparr> mcol_Default := mask_default (mcol_Default m) \<rparr>))
     \<lparr> mcol_Default := restore_default (mcol_Default (gob_MysqlTableColumn (m\<lparr> mcol_Default := mask_default (mcol_Default m) \<rparr>))) \<rparr> = m \<longleftrightarrow>
   kept_MysqlTableColumn m"
  "(gob_SqliteTableColumn (s\<lparr> scol_Default := mask_default (scol_Default s) \<rparr>))
     \<lparr> scol_Default := restore_default (scol_Default (gob_SqliteTableColumn (s\<lparr> scol_Default := mask_default (scol_Default s) \<rparr>))) \<rparr> = s \<longleftrightarrow>
   kept_SqliteTableColumn s"
  "(gob_RqliteTableColumn (r\<lparr> rcol_Default := mask_default (rcol_Default r) \<rparr>))
     \<lparr> rcol_Default := restore_default (rcol_Default (gob_RqliteTableColumn (r\<lparr> rcol_Default := mask_default (rcol_Default r) \<rparr>))) \<rparr> = r \<longleftrightarrow>
   kept_RqliteTableColumn r"
  by (cases p, simp add: gob_PostgresqlTableColumn_def kept_PostgresqlTableColumn_def kept_iff map_option_fixed_iff)
     (cases m, simp add: gob_MysqlTableColumn_def kept_MysqlTableColumn_def kept_iff map_option_fixed_iff,
      cases s, simp add: gob_SqliteTableColumn_def kept_SqliteTableColumn_def kept_iff map_option_fixed_iff,
      cases r, simp add: gob_RqliteTableColumn_def kept_RqliteTableColumn_def kept_iff map_option_fixed_iff)

lemma properties_kept_iff [kept_iff]:
  "(gob_CassandraTableProperties (p\<lparr> ctp_DefaultTTL := mask_zero (ctp_DefaultTTL p),
        ctp_MemtableFlushPeriodMS := mask_zero (ctp_MemtableFlushPeriodMS p) \<rparr>))
     \<lparr> ctp_DefaultTTL := restore_zero (ctp_DefaultTTL (gob_CassandraTableProperties (p\<lparr> ctp_DefaultTTL := mask_zero (ctp_DefaultTTL p),
        ctp_MemtableFlushPeriodMS := mask_zero (ctp_MemtableFlushPeriodMS p) \<rparr>))),
       ctp_MemtableFlushPeriodMS := restore_zero (ctp_MemtableFlushPeriodMS (gob_CassandraTableProperties (p\<lparr> ctp_DefaultTTL := mask_zero (ctp_DefaultTTL p),
        ctp_MemtableFlushPeriodMS := mask_zero (ctp_MemtableFlushPeriodMS p) \<rparr>))) \<rparr> = p \<longleftrightarrow>
   kept_CassandraTableProperties p"
  by (cases p) (simp add: gob_CassandraTableProperties_def kept_CassandraTableProperties_def kept_iff)

lemma schemas_kept_iff [kept_iff]:
  "restore_PostgresqlTableSchema (gob_PostgresqlTableSchema (mask_PostgresqlTableSchema p)) = p \<longleftrightarrow> kept_PostgresqlTableSchema p"
  "restore_MysqlTableSchema (gob_MysqlTableSchema (mask_MysqlTableSchema m)) = m \<longleftrightarrow> kept_MysqlTableSchema m"
  "restore_SqliteTableSchema (gob_SqliteTableSchema (mask_SqliteTableSchema s)) = s \<longleftrightarrow> kept_SqliteTableSchema s"
  "restore_RqliteTableSchema (gob_RqliteTableSchema (mask_RqliteTableSchema r)) = r \<longleftrightarrow> kept_RqliteTableSchema r"
  "restore_TimescaleDBTableSchema (gob_TimescaleDBTableSchema (mask_TimescaleDBTableSchema t)) = t \<longleftrightarrow> kept_TimescaleDBTableSchema t"
  "restore_CassandraTableSchema (gob_CassandraTableSchema (mask_CassandraTableSchema c)) = c \<longleftrightarrow> kept_CassandraTableSchema c"
  by (cases p, simp add: restore_PostgresqlTableSchema_def gob_PostgresqlTableSchema_def mask_PostgresqlTableSchema_def kept_PostgresqlTableSchema_def
        comp_def option.map_comp kept_iff map_fixed_iff map_option_fixed_iff)
     (cases m, simp add: restore_MysqlTableSchema_def gob_MysqlTableSchema_def mask_MysqlTableSchema_def kept_MysqlTableSchema_def
        comp_def option.map_comp kept_iff map_fixed_iff map_option_fixed_iff,
      cases s, simp add: restore_SqliteTableSchema_def gob_SqliteTableSchema_def mask_SqliteTableSchema_def kept_SqliteTableSchema_def
        comp_def option.map_comp kept_iff map_fixed_iff map_option_fixed_iff,
      cases r, simp add: restore_RqliteTableSchema_def gob_RqliteTableSchema_def mask_RqliteTableSchema_def kept_RqliteTableSchema_def
        comp_def option.map_comp kept_iff map_fixed_iff map_option_fixed_iff,
      cases t, simp add: restore_TimescaleDBTableSchema_def gob_TimescaleDBTableSchema_def mask_TimescaleDBTableSchema_def kept_TimescaleDBTableSchema_def
        comp_def option.map_comp kept_iff map_fixed_iff map_option_fixed_iff,
      cases c, simp add: restore_CassandraTableSchema_def gob_CassandraTableSchema_def mask_CassandraTableSchema_def kept_CassandraTableSchema_def
        comp_def option.map_comp kept_iff map_fixed_iff map_option_fixed_iff)

text \<open>
  The schema as the server hands it to the connection of the plugin, from the schema that the proxy was
  given: a panic of the proxy, an error of the encoder, or the restored schema.
\<close>

definition received_schema :: "schema_iface \<Rightarrow> schema_iface result" where
  "received_schema schema = bindE (mask_iface schema) (\<lambda>s. bindE (gob_iface s) restore_iface)"

lemma received_schema_iff: "received_schema schema = Inr schema \<longleftrightarrow> kept_iface schema"
  by (cases schema)
     (simp_all add: received_schema_def on_schema_def gob_pointer_def kept_iff split: option.split)

text \<open>The schemas of views, data types, functions and extensions travel without the workaround.\<close>

lemma received_plain_schema:
  "received_schema (NotImplementedView v) = gob_iface (NotImplementedView v)"
  "received_schema (TimescaleDBView t) = gob_iface (TimescaleDBView t)"
  "received_schema (CassandraDataType d) = gob_iface (CassandraDataType d)"
  "received_schema (PostgresqlFunction f) = gob_iface (PostgresqlFunction f)"
  "received_schema (PostgresExtension e) = gob_iface (PostgresExtension e)"
  by (simp_all add: received_schema_def gob_pointer_def split: option.split)

text \<open>The sentinel stays in the table of the caller: masking replaces the pointers in place.\<close>

lemma mask_changes_schema:
  "mask_PostgresqlTableSchema s = s \<longleftrightarrow> list_all (\<lambda>c. pcol_Default c \<noteq> Some []) (pts_Columns s)"
proof -
  have "c\<lparr> pcol_Default := mask_default (pcol_Default c) \<rparr> = c \<longleftrightarrow> pcol_Default c \<noteq> Some []" for c
    by (cases c) (simp add: mask_default_def emptyStringSentinel_def)
  then have "map (\<lambda>c. c\<lparr> pcol_Default := mask_default (pcol_Default c) \<rparr>) cs = cs \<longleftrightarrow>
      list_all (\<lambda>c. pcol_Default c \<noteq> Some []) cs" for cs
    by (rule map_fixed_iff)
  then show ?thesis
    by (cases s) (simp add: mask_PostgresqlTableSchema_def)
qed

end
