(* ===== verification/Rpc.thy ===== *)
theory Rpc
  imports Gob Database_Sync "HOL-Library.Word"
begin

text \<open>
  src/pkg/database/plugin/rpc.go and src/pkg/database/plugin/connection_proxy.go: the plugin runs in a
  process of its own, and SchemaHero talks to it over net/rpc. In the plugin process an \<open>RPCServer\<close>
  wraps the plugin and keeps the connections it opened, by ID. On the other side an \<open>RPCClient\<close> is the
  plugin and a \<open>ConnectionProxy\<close> the connection: every method sends its arguments, and turns the Error
  field of the reply back into an error.

  A call (\<open>rpc_call\<close>) sends the arguments through gob (theory \<open>Gob\<close>), runs the method, and sends the
  reply back. A panic of the method ends the plugin process, since net/rpc does not recover: the call in
  flight fails with an unexpected EOF and all later ones because the connection is shut down. Arguments
  that gob refuses leave the header of the request in the buffer of the client, so that the server cannot
  read the next request. The locks only make each access of the connection map atomic, and the counter
  of connections is taken as unbounded. The text of an error, its method Error, is a parameter, as the
  errors of the database drivers are.
\<close>

section \<open>Connections and plugins\<close>

text \<open>The interface SchemaHeroDatabaseConnection with the methods that only introspect.\<close>

record 'db FullConnection = "'db Connection" +
  cn_Close :: "go_error option"
  cn_DatabaseName :: string
  cn_EngineVersion :: string
  cn_ListTables :: "Table list result"
  cn_ListTableForeignKeys :: "string \<Rightarrow> string \<Rightarrow> ForeignKey list result"
  cn_ListTableIndexes :: "string \<Rightarrow> string \<Rightarrow> Index list result"
  cn_GetTablePrimaryKey :: "string \<Rightarrow> KeyConstraint option result"
  cn_GetTableSchema :: "string \<Rightarrow> Column list result"

type_synonym options = "string \<rightharpoonup> option_value"

text \<open>The interface DatabasePlugin of src/pkg/database/plugin/interface.go, over its connections.\<close>

record 'conn DatabasePlugin =
  pl_Name :: string
  pl_Version :: string
  pl_SupportedEngines :: "string list"
  pl_Connect :: "string \<Rightarrow> options option \<Rightarrow> 'conn result"
  pl_Validate :: "options option \<Rightarrow> go_error option"
  pl_Initialize :: "go_error option"
  pl_Shutdown :: "go_error option"

section \<open>Calls\<close>

datatype 's link = Open 's | Garbled | Closed

definition ErrShutdown :: go_error where
  "ErrShutdown = ErrNew ''connection is shut down''"

definition ErrUnexpectedEOF :: go_error where
  "ErrUnexpectedEOF = ErrNew ''unexpected EOF''"

text \<open>
  The encoder of the arguments, the method on the state of the server and on the database, and what
  gob keeps of the reply.
\<close>

definition rpc_call ::
  "('a \<Rightarrow> 'a result) \<Rightarrow> ('r \<Rightarrow> 'r) \<Rightarrow> ('a \<Rightarrow> 's \<Rightarrow> 'db \<Rightarrow> 'r result \<times> 's \<times> 'db) \<Rightarrow>
   'a \<Rightarrow> 's link \<Rightarrow> 'db \<Rightarrow> 'r result \<times> 's link \<times> 'db" where
  "rpc_call encode decode method args l db =
     (case l of
        Closed \<Rightarrow> (Inl ErrShutdown, Closed, db)
      | Garbled \<Rightarrow>
          (case encode args of Inl e \<Rightarrow> (Inl e, Garbled, db) | Inr _ \<Rightarrow> (Inl ErrUnexpectedEOF, Closed, db))
      | Open s \<Rightarrow>
          (case encode args of
             Inl e \<Rightarrow> (Inl e, Garbled, db)
           | Inr a \<Rightarrow>
               (case method a s db of
                  (Inl _, _, db') \<Rightarrow> (Inl ErrUnexpectedEOF, Closed, db')
                | (Inr r, s', db') \<Rightarrow> (Inr (decode r), Open s', db'))))"

text \<open>The reply of most methods: a value and the text of an error.\<close>

record 'v Reply =
  rp_Value :: 'v
  rp_Error :: string

definition decode_reply :: "('v \<Rightarrow> 'v) \<Rightarrow> 'v Reply \<Rightarrow> 'v Reply" where
  "decode_reply f r = r\<lparr> rp_Value := f (rp_Value r) \<rparr>"

text \<open>Filling the reply from the result of a method: the zero value stays if it is an error.\<close>

definition reply_of :: "(go_error \<Rightarrow> string) \<Rightarrow> 'v \<Rightarrow> 'v result \<Rightarrow> 'v Reply result" where
  "reply_of text_of zero r =
     (case r of
        Inl (GoPanic msg) \<Rightarrow> Inl (GoPanic msg)
      | Inl err \<Rightarrow> Inr \<lparr> rp_Value = zero, rp_Error = text_of err \<rparr>
      | Inr v \<Rightarrow> Inr \<lparr> rp_Value = v, rp_Error = [] \<rparr>)"

text \<open>What a method of the proxy makes of the outcome of the call; \<open>BasicError\<close> is an error with a text.\<close>

definition BasicError :: "string \<Rightarrow> go_error" where
  "BasicError msg = ErrNew msg"

definition reply_result :: "'v Reply result \<Rightarrow> 'v result" where
  "reply_result r =
     bindE r (\<lambda>reply. if rp_Error reply \<noteq> [] then Inl (BasicError (rp_Error reply)) else Inr (rp_Value reply))"


text \<open>Calls of methods that leave the database alone.\<close>

definition rpc_read ::
  "('a \<Rightarrow> 'a result) \<Rightarrow> ('r \<Rightarrow> 'r) \<Rightarrow> ('a \<Rightarrow> 's \<Rightarrow> 'r result \<times> 's) \<Rightarrow> 'a \<Rightarrow> 's link \<Rightarrow> 'r result \<times> 's link" where
  "rpc_read encode decode method args l =
     (let (r, l', _) = rpc_call encode decode (\<lambda>a s u. let (r, s') = method a s in (r, s', u)) args l ()
      in (r, l'))"

section \<open>The server (rpc.go)\<close>

record 'conn RPCServer =
  sv_Impl :: "'conn DatabasePlugin"
  sv_connections :: "string \<rightharpoonup> 'conn"
  sv_nextConnectionID :: "64 word"

definition Server :: "'conn DatabasePlugin \<Rightarrow> 'conn RPCServer" where
  "Server impl = \<lparr> sv_Impl = impl, sv_connections = Map.empty, sv_nextConnectionID = 0 \<rparr>"

definition sv_Name :: "unit \<Rightarrow> 'conn RPCServer \<Rightarrow> string result \<times> 'conn RPCServer" where
  "sv_Name args s = (Inr (pl_Name (sv_Impl s)), s)"

definition sv_Version :: "unit \<Rightarrow> 'conn RPCServer \<Rightarrow> string result \<times> 'conn RPCServer" where
  "sv_Version args s = (Inr (pl_Version (sv_Impl s)), s)"

definition sv_SupportedEngines :: "unit \<Rightarrow> 'conn RPCServer \<Rightarrow> string list result \<times> 'conn RPCServer" where
  "sv_SupportedEngines args s = (Inr (pl_SupportedEngines (sv_Impl s)), s)"

record ConnectArgs =
  cna_URI :: string
  cna_Options :: "options option"

record ConnectReply =
  cnr_Success :: bool
  cnr_Error :: string
  cnr_ConnectionID :: string

definition connection_id :: "64 word \<Rightarrow> string" where
  "connection_id n = ''conn-'' @ Itoa (sint n)"

definition add_connection :: "'conn \<Rightarrow> 'conn RPCServer \<Rightarrow> 'conn RPCServer" where
  "add_connection conn s =
     (let n = sv_nextConnectionID s + 1
      in s\<lparr> sv_nextConnectionID := n, sv_connections := (sv_connections s)(connection_id n \<mapsto> conn) \<rparr>)"

definition sv_Connect ::
  "(go_error \<Rightarrow> string) \<Rightarrow> ConnectArgs \<Rightarrow> 'conn RPCServer \<Rightarrow> ConnectReply result \<times> 'conn RPCServer" where
  "sv_Connect text_of args s =
     (case pl_Connect (sv_Impl s) (cna_URI args) (cna_Options args) of
        Inl (GoPanic msg) \<Rightarrow> (Inl (GoPanic msg), s)
      | Inl err \<Rightarrow> (Inr \<lparr> cnr_Success = False, cnr_Error = text_of err, cnr_ConnectionID = [] \<rparr>, s)
      | Inr conn \<Rightarrow>
          (Inr \<lparr> cnr_Success = True, cnr_Error = [], cnr_ConnectionID = connection_id (sv_nextConnectionID s + 1) \<rparr>,
           add_connection conn s))"

text \<open>The reply of Validate, Initialize and Shutdown: whether there was no error, and its text.\<close>

record OkReply =
  okr_Success :: bool
  okr_Error :: string

definition ok_reply :: "(go_error \<Rightarrow> string) \<Rightarrow> go_error option \<Rightarrow> OkReply result" where
  "ok_reply text_of err =
     (case err of
        None \<Rightarrow> Inr \<lparr> okr_Success = True, okr_Error = [] \<rparr>
      | Some (GoPanic msg) \<Rightarrow> Inl (GoPanic msg)
      | Some e \<Rightarrow> Inr \<lparr> okr_Success = False, okr_Error = text_of e \<rparr>)"

definition sv_Validate ::
  "(go_error \<Rightarrow> string) \<Rightarrow> options option \<Rightarrow> 'conn RPCServer \<Rightarrow> OkReply result \<times> 'conn RPCServer" where
  "sv_Validate text_of config s = (ok_reply text_of (pl_Validate (sv_Impl s) config), s)"

definition sv_Initialize ::
  "(go_error \<Rightarrow> string) \<Rightarrow> unit \<Rightarrow> 'conn RPCServer \<Rightarrow> OkReply result \<times> 'conn RPCServer" where
  "sv_Initialize text_of args s = (ok_reply text_of (pl_Initialize (sv_Impl s)), s)"

definition sv_Shutdown ::
  "(go_error \<Rightarrow> string) \<Rightarrow> unit \<Rightarrow> 'conn RPCServer \<Rightarrow> OkReply result \<times> 'conn RPCServer" where
  "sv_Shutdown text_of args s = (ok_reply text_of (pl_Shutdown (sv_Impl s)), s)"

section \<open>The arguments and replies of the connection methods (connection_proxy.go)\<close>

record ConnectionCloseArgs =
  ccl_ConnectionID :: string

record ConnectionDatabaseNameArgs =
  cdn_ConnectionID :: string

record ConnectionEngineVersionArgs =
  cev_ConnectionID :: string

record ConnectionListTablesArgs =
  clt_ConnectionID :: string

record ConnectionListTableForeignKeysArgs =
  clf_ConnectionID :: string
  clf_Schema :: string
  clf_Table :: string

record ConnectionListTableIndexesArgs =
  cli_ConnectionID :: string
  cli_Schema :: string
  cli_Table :: string

record ConnectionGetTablePrimaryKeyArgs =
  cpk_ConnectionID :: string
  cpk_Table :: string

record ConnectionGetTableSchemaArgs =
  cgs_ConnectionID :: string
  cgs_Table :: string

record ConnectionPlanTypeSchemaArgs =
  cty_ConnectionID :: string
  cty_TypeName :: string
  cty_TypeSchema :: schema_iface

record ConnectionPlanTableSchemaArgs =
  cta_ConnectionID :: string
  cta_TableName :: string
  cta_TableSchema :: schema_iface
  cta_SeedData :: "SeedData option"

record ConnectionPlanViewSchemaArgs =
  cvi_ConnectionID :: string
  cvi_ViewName :: string
  cvi_ViewSchema :: schema_iface

record ConnectionPlanFunctionSchemaArgs =
  cfu_ConnectionID :: string
  cfu_FunctionName :: string
  cfu_FunctionSchema :: schema_iface

record ConnectionPlanExtensionSchemaArgs =
  cex_ConnectionID :: string
  cex_ExtensionName :: string
  cex_ExtensionSchema :: schema_iface

record ConnectionDeployStatementsArgs =
  cde_ConnectionID :: string
  cde_Statements :: "string list"

record ConnectionGenerateFixturesArgs =
  cge_ConnectionID :: string
  cge_Spec :: TableSpec

type_synonym ConnectionCloseReply = "unit Reply"
type_synonym ConnectionListTablesReply = "(Table list) Reply"
type_synonym ConnectionListTableForeignKeysReply = "(ForeignKey list) Reply"
type_synonym ConnectionListTableIndexesReply = "(Index list) Reply"
type_synonym ConnectionGetTablePrimaryKeyReply = "(KeyConstraint option) Reply"
type_synonym ConnectionGetTableSchemaReply = "(Column list) Reply"
type_synonym ConnectionPlanTypeSchemaReply = "(string list) Reply"
type_synonym ConnectionPlanTableSchemaReply = "(string list) Reply"
type_synonym ConnectionPlanViewSchemaReply = "(string list) Reply"
type_synonym ConnectionPlanFunctionSchemaReply = "(string list) Reply"
type_synonym ConnectionPlanExtensionSchemaReply = "(string list) Reply"
type_synonym ConnectionDeployStatementsReply = "unit Reply"
type_synonym ConnectionGenerateFixturesReply = "(string list) Reply"

text \<open>The arguments that hold a schema or a value with pointers, as gob sends them.\<close>

definition encode_PlanTypeSchema :: "ConnectionPlanTypeSchemaArgs \<Rightarrow> ConnectionPlanTypeSchemaArgs result" where
  "encode_PlanTypeSchema args = bindE (gob_iface (cty_TypeSchema args)) (\<lambda>schema. Inr (args\<lparr> cty_TypeSchema := schema \<rparr>))"

definition encode_PlanViewSchema :: "ConnectionPlanViewSchemaArgs \<Rightarrow> ConnectionPlanViewSchemaArgs result" where
  "encode_PlanViewSchema args = bindE (gob_iface (cvi_ViewSchema args)) (\<lambda>schema. Inr (args\<lparr> cvi_ViewSchema := schema \<rparr>))"

definition encode_PlanFunctionSchema :: "ConnectionPlanFunctionSchemaArgs \<Rightarrow> ConnectionPlanFunctionSchemaArgs result" where
  "encode_PlanFunctionSchema args = bindE (gob_iface (cfu_FunctionSchema args)) (\<lambda>schema. Inr (args\<lparr> cfu_FunctionSchema := schema \<rparr>))"

definition encode_PlanExtensionSchema :: "ConnectionPlanExtensionSchemaArgs \<Rightarrow> ConnectionPlanExtensionSchemaArgs result" where
  "encode_PlanExtensionSchema args = bindE (gob_iface (cex_ExtensionSchema args)) (\<lambda>schema. Inr (args\<lparr> cex_ExtensionSchema := schema \<rparr>))"

definition encode_PlanTableSchema :: "ConnectionPlanTableSchemaArgs \<Rightarrow> ConnectionPlanTableSchemaArgs result" where
  "encode_PlanTableSchema args = bindE (gob_iface (cta_TableSchema args)) (\<lambda>schema.
     Inr (args\<lparr> cta_TableSchema := schema, cta_SeedData := map_option gob_SeedData (cta_SeedData args) \<rparr>))"

definition encode_GenerateFixtures :: "ConnectionGenerateFixturesArgs \<Rightarrow> ConnectionGenerateFixturesArgs result" where
  "encode_GenerateFixtures args = Inr (args\<lparr> cge_Spec := gob_TableSpec (cge_Spec args) \<rparr>)"

section \<open>The connection methods of the server (rpc.go)\<close>

definition not_found :: "string \<Rightarrow> string" where
  "not_found cid = ''connection '' @ cid @ '' not found''"

text \<open>The connection with the ID, or a reply with the error that there is none.\<close>

definition answer ::
  "(go_error \<Rightarrow> string) \<Rightarrow> string \<Rightarrow> 'v \<Rightarrow> ('conn \<Rightarrow> 'v result) \<Rightarrow> 'conn RPCServer \<Rightarrow> 'v Reply result \<times> 'conn RPCServer" where
  "answer text_of cid zero f s =
     (case sv_connections s cid of
        None \<Rightarrow> (Inr \<lparr> rp_Value = zero, rp_Error = not_found cid \<rparr>, s)
      | Some conn \<Rightarrow> (reply_of text_of zero (f conn), s))"

definition error_result :: "go_error option \<Rightarrow> unit result" where
  "error_result err = (case err of None \<Rightarrow> Inr () | Some e \<Rightarrow> Inl e)"

text \<open>The connection is gone from the map even if closing it fails.\<close>

definition sv_ConnectionClose ::
  "(go_error \<Rightarrow> string) \<Rightarrow> ConnectionCloseArgs \<Rightarrow> 'db FullConnection RPCServer \<Rightarrow>
   ConnectionCloseReply result \<times> 'db FullConnection RPCServer" where
  "sv_ConnectionClose text_of args s =
     (case sv_connections s (ccl_ConnectionID args) of
        None \<Rightarrow> (Inr \<lparr> rp_Value = (), rp_Error = not_found (ccl_ConnectionID args) \<rparr>, s)
      | Some conn \<Rightarrow>
          (reply_of text_of () (error_result (cn_Close conn)),
           s\<lparr> sv_connections := (sv_connections s)(ccl_ConnectionID args := None) \<rparr>))"

definition sv_ConnectionDatabaseName ::
  "ConnectionDatabaseNameArgs \<Rightarrow> 'db FullConnection RPCServer \<Rightarrow> string result \<times> 'db FullConnection RPCServer" where
  "sv_ConnectionDatabaseName args s =
     (case sv_connections s (cdn_ConnectionID args) of
        None \<Rightarrow> (Inr [], s) | Some conn \<Rightarrow> (Inr (cn_DatabaseName conn), s))"

definition sv_ConnectionEngineVersion ::
  "ConnectionEngineVersionArgs \<Rightarrow> 'db FullConnection RPCServer \<Rightarrow> string result \<times> 'db FullConnection RPCServer" where
  "sv_ConnectionEngineVersion args s =
     (case sv_connections s (cev_ConnectionID args) of
        None \<Rightarrow> (Inr [], s) | Some conn \<Rightarrow> (Inr (cn_EngineVersion conn), s))"

definition sv_ConnectionListTables ::
  "(go_error \<Rightarrow> string) \<Rightarrow> ConnectionListTablesArgs \<Rightarrow> 'db FullConnection RPCServer \<Rightarrow>
   ConnectionListTablesReply result \<times> 'db FullConnection RPCServer" where
  "sv_ConnectionListTables text_of args = answer text_of (clt_ConnectionID args) [] (\<lambda>conn.
     cn_ListTables conn)"

definition sv_ConnectionListTableForeignKeys ::
  "(go_error \<Rightarrow> string) \<Rightarrow> ConnectionListTableForeignKeysArgs \<Rightarrow> 'db FullConnection RPCServer \<Rightarrow>
   ConnectionListTableForeignKeysReply result \<times> 'db FullConnection RPCServer" where
  "sv_ConnectionListTableForeignKeys text_of args = answer text_of (clf_ConnectionID args) [] (\<lambda>conn.
     cn_ListTableForeignKeys conn (clf_Schema args) (clf_Table args))"

definition sv_ConnectionListTableIndexes ::
  "(go_error \<Rightarrow> string) \<Rightarrow> ConnectionListTableIndexesArgs \<Rightarrow> 'db FullConnection RPCServer \<Rightarrow>
   ConnectionListTableIndexesReply result \<times> 'db FullConnection RPCServer" where
  "sv_ConnectionListTableIndexes text_of args = answer text_of (cli_ConnectionID args) [] (\<lambda>conn.
     cn_ListTableIndexes conn (cli_Schema args) (cli_Table args))"

definition sv_ConnectionGetTablePrimaryKey ::
  "(go_error \<Rightarrow> string) \<Rightarrow> ConnectionGetTablePrimaryKeyArgs \<Rightarrow> 'db FullConnection RPCServer \<Rightarrow>
   ConnectionGetTablePrimaryKeyReply result \<times> 'db FullConnection RPCServer" where
  "sv_ConnectionGetTablePrimaryKey text_of args = answer text_of (cpk_ConnectionID args) None (\<lambda>conn.
     cn_GetTablePrimaryKey conn (cpk_Table args))"

definition sv_ConnectionGetTableSchema ::
  "(go_error \<Rightarrow> string) \<Rightarrow> ConnectionGetTableSchemaArgs \<Rightarrow> 'db FullConnection RPCServer \<Rightarrow>
   ConnectionGetTableSchemaReply result \<times> 'db FullConnection RPCServer" where
  "sv_ConnectionGetTableSchema text_of args = answer text_of (cgs_ConnectionID args) [] (\<lambda>conn.
     cn_GetTableSchema conn (cgs_Table args))"

definition sv_ConnectionPlanTypeSchema ::
  "(go_error \<Rightarrow> string) \<Rightarrow> ConnectionPlanTypeSchemaArgs \<Rightarrow> 'db FullConnection RPCServer \<Rightarrow>
   ConnectionPlanTypeSchemaReply result \<times> 'db FullConnection RPCServer" where
  "sv_ConnectionPlanTypeSchema text_of args = answer text_of (cty_ConnectionID args) [] (\<lambda>conn.
     cn_PlanTypeSchema conn (cty_TypeName args) (cty_TypeSchema args))"

definition sv_ConnectionPlanTableSchema ::
  "(go_error \<Rightarrow> string) \<Rightarrow> ConnectionPlanTableSchemaArgs \<Rightarrow> 'db FullConnection RPCServer \<Rightarrow>
   ConnectionPlanTableSchemaReply result \<times> 'db FullConnection RPCServer" where
  "sv_ConnectionPlanTableSchema text_of args = answer text_of (cta_ConnectionID args) [] (\<lambda>conn.
     bindE (restore_iface (cta_TableSchema args)) (\<lambda>schema.
        cn_PlanTableSchema conn (cta_TableName args) schema (cta_SeedData args)))"

definition sv_ConnectionPlanViewSchema ::
  "(go_error \<Rightarrow> string) \<Rightarrow> ConnectionPlanViewSchemaArgs \<Rightarrow> 'db FullConnection RPCServer \<Rightarrow>
   ConnectionPlanViewSchemaReply result \<times> 'db FullConnection RPCServer" where
  "sv_ConnectionPlanViewSchema text_of args = answer text_of (cvi_ConnectionID args) [] (\<lambda>conn.
     cn_PlanViewSchema conn (cvi_ViewName args) (cvi_ViewSchema args))"

definition sv_ConnectionPlanFunctionSchema ::
  "(go_error \<Rightarrow> string) \<Rightarrow> ConnectionPlanFunctionSchemaArgs \<Rightarrow> 'db FullConnection RPCServer \<Rightarrow>
   ConnectionPlanFunctionSchemaReply result \<times> 'db FullConnection RPCServer" where
  "sv_ConnectionPlanFunctionSchema text_of args = answer text_of (cfu_ConnectionID args) [] (\<lambda>conn.
     cn_PlanFunctionSchema conn (cfu_FunctionName args) (cfu_FunctionSchema args))"

definition sv_ConnectionPlanExtensionSchema ::
  "(go_error \<Rightarrow> string) \<Rightarrow> ConnectionPlanExtensionSchemaArgs \<Rightarrow> 'db FullConnection RPCServer \<Rightarrow>
   ConnectionPlanExtensionSchemaReply result \<times> 'db FullConnection RPCServer" where
  "sv_ConnectionPlanExtensionSchema text_of args = answer text_of (cex_ConnectionID args) [] (\<lambda>conn.
     cn_PlanExtensionSchema conn (cex_ExtensionName args) (cex_ExtensionSchema args))"

definition sv_ConnectionDeployStatements ::
  "(go_error \<Rightarrow> string) \<Rightarrow> ConnectionDeployStatementsArgs \<Rightarrow> 'db FullConnection RPCServer \<Rightarrow> 'db \<Rightarrow>
   ConnectionDeployStatementsReply result \<times> 'db FullConnection RPCServer \<times> 'db" where
  "sv_ConnectionDeployStatements text_of args s db =
     (case sv_connections s (cde_ConnectionID args) of
        None \<Rightarrow> (Inr \<lparr> rp_Value = (), rp_Error = not_found (cde_ConnectionID args) \<rparr>, s, db)
      | Some conn \<Rightarrow>
          (let (err, db') = cn_DeployStatements conn (cde_Statements args) db
           in (reply_of text_of () (error_result err), s, db')))"

definition sv_ConnectionGenerateFixtures ::
  "(go_error \<Rightarrow> string) \<Rightarrow> ConnectionGenerateFixturesArgs \<Rightarrow> 'db FullConnection RPCServer \<Rightarrow>
   ConnectionGenerateFixturesReply result \<times> 'db FullConnection RPCServer" where
  "sv_ConnectionGenerateFixtures text_of args = answer text_of (cge_ConnectionID args) [] (\<lambda>conn.
     cn_GenerateFixtures conn (restore_TableSpec (cge_Spec args)))"

section \<open>The client and the connection proxy\<close>

text \<open>RPCClient: a failed call of a method without an error gives the zero value.\<close>

definition or_zero :: "'v \<Rightarrow> 'v result \<times> 's link \<Rightarrow> 'v \<times> 's link" where
  "or_zero zero = map_prod (\<lambda>r. case r of Inl _ \<Rightarrow> zero | Inr v \<Rightarrow> v) (\<lambda>l. l)"

definition rc_Name :: "'conn RPCServer link \<Rightarrow> string \<times> 'conn RPCServer link" where
  "rc_Name l = or_zero [] (rpc_read Inr (\<lambda>r. r) sv_Name () l)"

definition rc_Version :: "'conn RPCServer link \<Rightarrow> string \<times> 'conn RPCServer link" where
  "rc_Version l = or_zero [] (rpc_read Inr (\<lambda>r. r) sv_Version () l)"

definition rc_SupportedEngines :: "'conn RPCServer link \<Rightarrow> string list \<times> 'conn RPCServer link" where
  "rc_SupportedEngines l = or_zero [] (rpc_read Inr (\<lambda>r. r) sv_SupportedEngines () l)"

record ConnectionProxy =
  px_connectionID :: string

definition NewConnectionProxy :: "string \<Rightarrow> ConnectionProxy" where
  "NewConnectionProxy connectionID = \<lparr> px_connectionID = connectionID \<rparr>"

definition rc_Connect ::
  "(go_error \<Rightarrow> string) \<Rightarrow> string \<Rightarrow> options option \<Rightarrow> 'conn RPCServer link \<Rightarrow>
   ConnectionProxy result \<times> 'conn RPCServer link" where
  "rc_Connect text_of uri options l =
     map_prod (\<lambda>r. bindE r (\<lambda>reply.
         if cnr_Success reply then Inr (NewConnectionProxy (cnr_ConnectionID reply)) else Inl (BasicError (cnr_Error reply))))
       (\<lambda>l. l) (rpc_read Inr (\<lambda>r. r) (sv_Connect text_of) \<lparr> cna_URI = uri, cna_Options = options \<rparr> l)"

definition ok_error :: "OkReply result \<Rightarrow> go_error option" where
  "ok_error r =
     (case r of
        Inl e \<Rightarrow> Some e
      | Inr reply \<Rightarrow> if okr_Success reply then None else Some (BasicError (okr_Error reply)))"

definition rc_Validate ::
  "(go_error \<Rightarrow> string) \<Rightarrow> options option \<Rightarrow> 'conn RPCServer link \<Rightarrow> go_error option \<times> 'conn RPCServer link" where
  "rc_Validate text_of config l = map_prod ok_error (\<lambda>l. l) (rpc_read Inr (\<lambda>r. r) (sv_Validate text_of) config l)"

definition rc_Initialize ::
  "(go_error \<Rightarrow> string) \<Rightarrow> 'conn RPCServer link \<Rightarrow> go_error option \<times> 'conn RPCServer link" where
  "rc_Initialize text_of l = map_prod ok_error (\<lambda>l. l) (rpc_read Inr (\<lambda>r. r) (sv_Initialize text_of) () l)"

definition rc_Shutdown ::
  "(go_error \<Rightarrow> string) \<Rightarrow> 'conn RPCServer link \<Rightarrow> go_error option \<times> 'conn RPCServer link" where
  "rc_Shutdown text_of l = map_prod ok_error (\<lambda>l. l) (rpc_read Inr (\<lambda>r. r) (sv_Shutdown text_of) () l)"

text \<open>ConnectionProxy.\<close>

type_synonym 'db plugin_link = "'db FullConnection RPCServer link"

definition px_Close ::
  "(go_error \<Rightarrow> string) \<Rightarrow> ConnectionProxy \<Rightarrow> 'db plugin_link \<Rightarrow> unit result \<times> 'db plugin_link" where
  "px_Close text_of c l = map_prod reply_result (\<lambda>l. l)
     (rpc_read Inr (\<lambda>r. r) (sv_ConnectionClose text_of) \<lparr> ccl_ConnectionID = px_connectionID c \<rparr> l)"

definition px_DatabaseName :: "ConnectionProxy \<Rightarrow> 'db plugin_link \<Rightarrow> string \<times> 'db plugin_link" where
  "px_DatabaseName c l = or_zero []
     (rpc_read Inr (\<lambda>r. r) sv_ConnectionDatabaseName \<lparr> cdn_ConnectionID = px_connectionID c \<rparr> l)"

definition px_EngineVersion :: "ConnectionProxy \<Rightarrow> 'db plugin_link \<Rightarrow> string \<times> 'db plugin_link" where
  "px_EngineVersion c l = or_zero []
     (rpc_read Inr (\<lambda>r. r) sv_ConnectionEngineVersion \<lparr> cev_ConnectionID = px_connectionID c \<rparr> l)"

definition px_ListTables ::
  "(go_error \<Rightarrow> string) \<Rightarrow> ConnectionProxy \<Rightarrow> 'db plugin_link \<Rightarrow> Table list result \<times> 'db plugin_link" where
  "px_ListTables text_of c l = map_prod reply_result (\<lambda>l. l)
     (rpc_read Inr (\<lambda>r. r) (sv_ConnectionListTables text_of)
       \<lparr> clt_ConnectionID = px_connectionID c \<rparr> l)"

definition px_ListTableForeignKeys ::
  "(go_error \<Rightarrow> string) \<Rightarrow> ConnectionProxy \<Rightarrow> string \<Rightarrow> string \<Rightarrow> 'db plugin_link \<Rightarrow> ForeignKey list result \<times> 'db plugin_link" where
  "px_ListTableForeignKeys text_of c schema table l = map_prod reply_result (\<lambda>l. l)
     (rpc_read Inr (\<lambda>r. r) (sv_ConnectionListTableForeignKeys text_of)
       \<lparr> clf_ConnectionID = px_connectionID c, clf_Schema = schema, clf_Table = table \<rparr> l)"

definition px_ListTableIndexes ::
  "(go_error \<Rightarrow> string) \<Rightarrow> ConnectionProxy \<Rightarrow> string \<Rightarrow> string \<Rightarrow> 'db plugin_link \<Rightarrow> Index list result \<times> 'db plugin_link" where
  "px_ListTableIndexes text_of c schema table l = map_prod reply_result (\<lambda>l. l)
     (rpc_read Inr (\<lambda>r. r) (sv_ConnectionListTableIndexes text_of)
       \<lparr> cli_ConnectionID = px_connectionID c, cli_Schema = schema, cli_Table = table \<rparr> l)"

definition px_GetTablePrimaryKey ::
  "(go_error \<Rightarrow> string) \<Rightarrow> ConnectionProxy \<Rightarrow> string \<Rightarrow> 'db plugin_link \<Rightarrow> KeyConstraint option result \<times> 'db plugin_link" where
  "px_GetTablePrimaryKey text_of c table l = map_prod reply_result (\<lambda>l. l)
     (rpc_read Inr (\<lambda>r. r) (sv_ConnectionGetTablePrimaryKey text_of)
       \<lparr> cpk_ConnectionID = px_connectionID c, cpk_Table = table \<rparr> l)"

definition px_GetTableSchema ::
  "(go_error \<Rightarrow> string) \<Rightarrow> ConnectionProxy \<Rightarrow> string \<Rightarrow> 'db plugin_link \<Rightarrow> Column list result \<times> 'db plugin_link" where
  "px_GetTableSchema text_of c table l = map_prod reply_result (\<lambda>l. l)
     (rpc_read Inr (decode_reply (map gob_Column)) (sv_ConnectionGetTableSchema text_of)
       \<lparr> cgs_ConnectionID = px_connectionID c, cgs_Table = table \<rparr> l)"

definition px_PlanTypeSchema ::
  "(go_error \<Rightarrow> string) \<Rightarrow> ConnectionProxy \<Rightarrow> string \<Rightarrow> schema_iface \<Rightarrow> 'db plugin_link \<Rightarrow> string list result \<times> 'db plugin_link" where
  "px_PlanTypeSchema text_of c typeName typeSchema l = map_prod reply_result (\<lambda>l. l)
     (rpc_read encode_PlanTypeSchema (\<lambda>r. r) (sv_ConnectionPlanTypeSchema text_of)
       \<lparr> cty_ConnectionID = px_connectionID c, cty_TypeName = typeName, cty_TypeSchema = typeSchema \<rparr> l)"

text \<open>The workaround of the proxy; a schema that is a nil pointer panics there.\<close>

definition px_PlanTableSchema ::
  "(go_error \<Rightarrow> string) \<Rightarrow> ConnectionProxy \<Rightarrow> string \<Rightarrow> schema_iface \<Rightarrow> SeedData option \<Rightarrow> 'db plugin_link \<Rightarrow> string list result \<times> 'db plugin_link" where
  "px_PlanTableSchema text_of c tableName tableSchema seedData l =
     (case mask_iface tableSchema of
        Inl e \<Rightarrow> (Inl e, l)
      | Inr schema \<Rightarrow> map_prod reply_result (\<lambda>l. l)
          (rpc_read encode_PlanTableSchema (\<lambda>r. r) (sv_ConnectionPlanTableSchema text_of)
            \<lparr> cta_ConnectionID = px_connectionID c, cta_TableName = tableName, cta_TableSchema = schema,
              cta_SeedData = seedData \<rparr> l))"

definition px_PlanViewSchema ::
  "(go_error \<Rightarrow> string) \<Rightarrow> ConnectionProxy \<Rightarrow> string \<Rightarrow> schema_iface \<Rightarrow> 'db plugin_link \<Rightarrow> string list result \<times> 'db plugin_link" where
  "px_PlanViewSchema text_of c viewName viewSchema l = map_prod reply_result (\<lambda>l. l)
     (rpc_read encode_PlanViewSchema (\<lambda>r. r) (sv_ConnectionPlanViewSchema text_of)
       \<lparr> cvi_ConnectionID = px_connectionID c, cvi_ViewName = viewName, cvi_ViewSchema = viewSchema \<rparr> l)"

definition px_PlanFunctionSchema ::
  "(go_error \<Rightarrow> string) \<Rightarrow> ConnectionProxy \<Rightarrow> string \<Rightarrow> schema_iface \<Rightarrow> 'db plugin_link \<Rightarrow> string list result \<times> 'db plugin_link" where
  "px_PlanFunctionSchema text_of c functionName functionSchema l = map_prod reply_result (\<lambda>l. l)
     (rpc_read encode_PlanFunctionSchema (\<lambda>r. r) (sv_ConnectionPlanFunctionSchema text_of)
       \<lparr> cfu_ConnectionID = px_connectionID c, cfu_FunctionName = functionName, cfu_FunctionSchema = functionSchema \<rparr> l)"

definition px_PlanExtensionSchema ::
  "(go_error \<Rightarrow> string) \<Rightarrow> ConnectionProxy \<Rightarrow> string \<Rightarrow> schema_iface \<Rightarrow> 'db plugin_link \<Rightarrow> string list result \<times> 'db plugin_link" where
  "px_PlanExtensionSchema text_of c extensionName extensionSchema l = map_prod reply_result (\<lambda>l. l)
     (rpc_read encode_PlanExtensionSchema (\<lambda>r. r) (sv_ConnectionPlanExtensionSchema text_of)
       \<lparr> cex_ConnectionID = px_connectionID c, cex_ExtensionName = extensionName, cex_ExtensionSchema = extensionSchema \<rparr> l)"

definition px_DeployStatements ::
  "(go_error \<Rightarrow> string) \<Rightarrow> ConnectionProxy \<Rightarrow> string list \<Rightarrow> 'db plugin_link \<Rightarrow> 'db \<Rightarrow> unit result \<times> 'db plugin_link \<times> 'db" where
  "px_DeployStatements text_of c statements l db = map_prod reply_result (\<lambda>l. l)
     (rpc_call Inr (\<lambda>r. r) (sv_ConnectionDeployStatements text_of)
       \<lparr> cde_ConnectionID = px_connectionID c, cde_Statements = statements \<rparr> l db)"

definition px_GenerateFixtures ::
  "(go_error \<Rightarrow> string) \<Rightarrow> ConnectionProxy \<Rightarrow> TableSpec \<Rightarrow> 'db plugin_link \<Rightarrow> string list result \<times> 'db plugin_link" where
  "px_GenerateFixtures text_of c spec l = map_prod reply_result (\<lambda>l. l)
     (rpc_read encode_GenerateFixtures (\<lambda>r. r) (sv_ConnectionGenerateFixtures text_of)
       \<lparr> cge_ConnectionID = px_connectionID c, cge_Spec = mask_TableSpec spec \<rparr> l)"

end
