(* ===== verification/Rpc_Correct.thy ===== *)
theory Rpc_Correct
  imports Rpc
begin

text \<open>
  What the plugin boundary preserves. \<open>over_rpc\<close> is what becomes of the result of a method of the
  plugin's connection; the locale \<open>remote_connection\<close> states that a connection answers as another one
  does up to that, for the schemas that survive the trip, and derives the same for the database layer. The
  proxy of a connection that the server opened is an instance. The last section is about the identifiers
  of the connections.
\<close>

section \<open>Results over the boundary\<close>

definition over_rpc :: "(go_error \<Rightarrow> string) \<Rightarrow> 'v \<Rightarrow> 'v result \<Rightarrow> 'v result" where
  "over_rpc text_of zero r =
     (case r of
        Inr v \<Rightarrow> Inr v
      | Inl (GoPanic _) \<Rightarrow> Inl ErrUnexpectedEOF
      | Inl e \<Rightarrow> if text_of e = [] then Inr zero else Inl (BasicError (text_of e)))"

lemma over_rpc_Inr [simp]: "over_rpc text_of zero (Inr v) = Inr v"
  by (simp add: over_rpc_def)

lemmas rpc_defs = rpc_read_def rpc_call_def answer_def reply_of_def reply_result_def over_rpc_def

lemma rpc_read_answer:
  assumes "\<And>a. method a = answer text_of (cid a) zero (f a)"
    and "encode args = Inr a" and "sv_connections s (cid a) = Some conn"
  shows "map_prod reply_result (\<lambda>l. l) (rpc_read encode (\<lambda>r. r) method args (Open s)) =
    (over_rpc text_of zero (f a conn), if \<exists>msg. f a conn = Inl (GoPanic msg) then Closed else Open s)"
  using assms by (auto simp: rpc_defs split: sum.splits go_error.splits)

text \<open>The connection that SchemaHero sees: the methods of the proxy, on the link as it is.\<close>

definition proxy_connection ::
  "(go_error \<Rightarrow> string) \<Rightarrow> ConnectionProxy \<Rightarrow> 'db plugin_link \<Rightarrow> 'db Connection" where
  "proxy_connection text_of c l =
     \<lparr> cn_PlanTableSchema = (\<lambda>name schema seed. fst (px_PlanTableSchema text_of c name schema seed l)),
       cn_PlanTypeSchema = (\<lambda>name schema. fst (px_PlanTypeSchema text_of c name schema l)),
       cn_PlanViewSchema = (\<lambda>name schema. fst (px_PlanViewSchema text_of c name schema l)),
       cn_PlanFunctionSchema = (\<lambda>name schema. fst (px_PlanFunctionSchema text_of c name schema l)),
       cn_PlanExtensionSchema = (\<lambda>name schema. fst (px_PlanExtensionSchema text_of c name schema l)),
       cn_DeployStatements = (\<lambda>statements db.
         let (r, _, db') = px_DeployStatements text_of c statements l db
         in (case r of Inl e \<Rightarrow> Some e | Inr _ \<Rightarrow> None, db')),
       cn_GenerateFixtures = (\<lambda>spec. fst (px_GenerateFixtures text_of c spec l)) \<rparr>"

section \<open>A connection behind the boundary\<close>

definition over_rpc_error :: "(go_error \<Rightarrow> string) \<Rightarrow> go_error option \<Rightarrow> go_error option" where
  "over_rpc_error text_of err =
     (case over_rpc text_of () (error_result err) of Inl e \<Rightarrow> Some e | Inr _ \<Rightarrow> None)"

locale remote_connection =
  fixes direct :: "('db, 'z) Connection_scheme"
    and remote :: "'db Connection"
    and text_of :: "go_error \<Rightarrow> string"
  assumes plan_table: "kept_iface schema \<Longrightarrow> pred_option kept_SeedData seed \<Longrightarrow>
      cn_PlanTableSchema remote name schema seed = over_rpc text_of [] (cn_PlanTableSchema direct name schema seed)"
    and plan_view: "gob_iface schema = Inr schema \<Longrightarrow>
      cn_PlanViewSchema remote name schema = over_rpc text_of [] (cn_PlanViewSchema direct name schema)"
    and plan_type: "gob_iface schema = Inr schema \<Longrightarrow>
      cn_PlanTypeSchema remote name schema = over_rpc text_of [] (cn_PlanTypeSchema direct name schema)"
    and plan_function: "gob_iface schema = Inr schema \<Longrightarrow>
      cn_PlanFunctionSchema remote name schema = over_rpc text_of [] (cn_PlanFunctionSchema direct name schema)"
    and plan_extension: "gob_iface schema = Inr schema \<Longrightarrow>
      cn_PlanExtensionSchema remote name schema = over_rpc text_of [] (cn_PlanExtensionSchema direct name schema)"
    and deploy: "cn_DeployStatements remote statements db =
      map_prod (over_rpc_error text_of) (\<lambda>db. db) (cn_DeployStatements direct statements db)"
begin

text \<open>The database layer in front of either connection plans the same statements for a table.\<close>

lemma same_table_plan:
  assumes d: "db_pluginManager d = Some (\<lambda>_ _ _. Inr remote)"
    and d': "db_pluginManager d' = Some (\<lambda>_ _ _. Inr conn)" "Connection.truncate direct = conn"
    and same: "db_Driver d' = db_Driver d" "db_DeploySeedData d' = db_DeploySeedData d"
    and driver: "db_Driver d \<in> set planned_drivers"
    and schema: "tsp_Schema spec = Some schema" "kept_iface (driver_schema (db_Driver d) schema)"
    and seed: "pred_option kept_SeedData (tsp_SeedData spec)"
  shows "PlanSyncTableSpec d spec = over_rpc text_of [] (PlanSyncTableSpec d' spec)"
proof -
  have "GetConnection d = Inr remote" "GetConnection d' = Inr conn"
    using d d' by (simp_all add: GetConnection_def)
  moreover have "cn_PlanTableSchema conn = cn_PlanTableSchema direct"
    using d'(2) by (auto simp: Connection.truncate_def)
  ultimately show ?thesis
    using same driver schema seed by (simp add: PlanSyncTableSpec_def with_connection_def plan_table)
qed

end

lemma connected_proxy:
  assumes "pl_Connect (sv_Impl s) uri options = Inr conn"
  shows "rc_Connect text_of uri options (Open s) =
    (Inr (NewConnectionProxy (connection_id (sv_nextConnectionID s + 1))), Open (add_connection conn s))"
  using assms by (simp add: rc_Connect_def rpc_read_def rpc_call_def sv_Connect_def)

lemma added_connection:
  "sv_connections (add_connection conn s) (connection_id (sv_nextConnectionID s + 1)) = Some conn"
  by (simp add: add_connection_def Let_def)

lemmas planning_calls =
  px_PlanTableSchema_def encode_PlanTableSchema_def rpc_read_answer [OF sv_ConnectionPlanTableSchema_def]
  px_PlanViewSchema_def encode_PlanViewSchema_def rpc_read_answer [OF sv_ConnectionPlanViewSchema_def]
  px_PlanTypeSchema_def encode_PlanTypeSchema_def rpc_read_answer [OF sv_ConnectionPlanTypeSchema_def]
  px_PlanFunctionSchema_def encode_PlanFunctionSchema_def rpc_read_answer [OF sv_ConnectionPlanFunctionSchema_def]
  px_PlanExtensionSchema_def encode_PlanExtensionSchema_def rpc_read_answer [OF sv_ConnectionPlanExtensionSchema_def]

lemma proxy_plans_table:
  assumes conn: "sv_connections s cid = Some conn"
    and schema: "kept_iface schema" and seed: "pred_option kept_SeedData seed"
  shows "fst (px_PlanTableSchema text_of (NewConnectionProxy cid) name schema seed (Open s)) =
    over_rpc text_of [] (cn_PlanTableSchema conn name schema seed)"
proof -
  from schema obtain m g where "mask_iface schema = Inr m" "gob_iface m = Inr g" "restore_iface g = Inr schema"
    by (auto simp flip: received_schema_iff simp: received_schema_def bindE_Inr_iff)
  moreover have "map_option gob_SeedData seed = seed"
    using seed by (simp add: map_option_fixed_iff seed_kept_iff)
  ultimately show ?thesis
    using conn by (simp add: planning_calls NewConnectionProxy_def)
qed

lemma proxy_plans:
  assumes "sv_connections s cid = Some conn" and "gob_iface schema = Inr schema"
  shows "fst (px_PlanViewSchema text_of (NewConnectionProxy cid) name schema (Open s)) =
      over_rpc text_of [] (cn_PlanViewSchema conn name schema)"
    and "fst (px_PlanTypeSchema text_of (NewConnectionProxy cid) name schema (Open s)) =
      over_rpc text_of [] (cn_PlanTypeSchema conn name schema)"
    and "fst (px_PlanFunctionSchema text_of (NewConnectionProxy cid) name schema (Open s)) =
      over_rpc text_of [] (cn_PlanFunctionSchema conn name schema)"
    and "fst (px_PlanExtensionSchema text_of (NewConnectionProxy cid) name schema (Open s)) =
      over_rpc text_of [] (cn_PlanExtensionSchema conn name schema)"
  using assms by (simp_all add: planning_calls NewConnectionProxy_def)

lemma proxy_deploys:
  assumes "sv_connections s cid = Some conn" "cn_DeployStatements conn statements db = (err, db')"
  shows "px_DeployStatements text_of (NewConnectionProxy cid) statements (Open s) db =
    (over_rpc text_of () (error_result err), if \<exists>msg. err = Some (GoPanic msg) then Closed else Open s, db')"
  using assms by (auto simp: px_DeployStatements_def NewConnectionProxy_def sv_ConnectionDeployStatements_def
      error_result_def rpc_defs split: sum.split go_error.split option.split)

interpretation opened: remote_connection conn
  "proxy_connection text_of (NewConnectionProxy (connection_id (sv_nextConnectionID s + 1))) (Open (add_connection conn s))"
  text_of for conn text_of s
proof unfold_locales
  show "cn_DeployStatements (proxy_connection text_of (NewConnectionProxy (connection_id (sv_nextConnectionID s + 1)))
      (Open (add_connection conn s))) statements db =
    map_prod (over_rpc_error text_of) (\<lambda>db. db) (cn_DeployStatements conn statements db)" for statements db
    by (cases "cn_DeployStatements conn statements db")
      (simp add: proxy_connection_def proxy_deploys [OF added_connection] over_rpc_error_def)
qed (simp_all add: proxy_connection_def proxy_plans [OF added_connection]
    proxy_plans_table [OF added_connection])

section \<open>The identifiers of the connections\<close>

text \<open>
  The runs of a server that change its connections, with the identifiers it has issued so far. Every
  other method leaves the server as it is.
\<close>

inductive server_run ::
  "(go_error \<Rightarrow> string) \<Rightarrow> 'db FullConnection DatabasePlugin \<Rightarrow> 'db FullConnection RPCServer \<Rightarrow> string list \<Rightarrow> bool"
  for text_of :: "go_error \<Rightarrow> string" and impl :: "'db FullConnection DatabasePlugin"
where
  served: "server_run text_of impl (Server impl) []"
| connected: "server_run text_of impl s ids \<Longrightarrow> sv_Connect text_of args s = (Inr reply, s') \<Longrightarrow> cnr_Success reply \<Longrightarrow>
    server_run text_of impl s' (ids @ [cnr_ConnectionID reply])"
| refused: "server_run text_of impl s ids \<Longrightarrow> sv_Connect text_of args s = (Inr reply, s') \<Longrightarrow> \<not> cnr_Success reply \<Longrightarrow>
    server_run text_of impl s' ids"
| closed: "server_run text_of impl s ids \<Longrightarrow> sv_ConnectionClose text_of args s = (Inr reply, s') \<Longrightarrow>
    server_run text_of impl s' ids"

lemma connect_cases:
  assumes "sv_Connect text_of args s = (Inr reply, s')"
  obtains (opened) conn where "cnr_Success reply" "s' = add_connection conn s"
      "cnr_ConnectionID reply = connection_id (sv_nextConnectionID s + 1)"
    | (failed) "\<not> cnr_Success reply" "s' = s"
  using assms by (auto simp: sv_Connect_def split: sum.splits go_error.splits)

lemma close_connections:
  assumes "sv_ConnectionClose text_of args s = (r, s')"
  shows "dom (sv_connections s') \<subseteq> dom (sv_connections s)" "sv_nextConnectionID s' = sv_nextConnectionID s"
  using assms by (auto simp: sv_ConnectionClose_def split: option.splits if_splits)

lemma Itoa_inject [simp]: "Itoa i = Itoa j \<longleftrightarrow> i = j"
proof -
  have minus: "CHR ''-'' # s \<noteq> nat_str n" for s n
  proof
    assume "CHR ''-'' # s = nat_str n"
    then have "CHR ''-'' \<in> set (nat_str n)" by (metis list.set_intros(1))
    from nat_str_is_digit [OF this] show False by (simp add: is_digit_def byte_def)
  qed
  show ?thesis using minus minus [symmetric] by (auto simp: Itoa_def eq_nat_nat_iff)
qed

lemma connection_id_inject [simp]: "connection_id m = connection_id n \<longleftrightarrow> m = n"
  by (auto simp: connection_id_def intro: signed_word_eqI)

text \<open>The identifiers of \<open>n\<close> connections in a row; the counter is an int of 64 bits and wraps.\<close>

definition issued_upto :: "nat \<Rightarrow> string list" where
  "issued_upto n = map (\<lambda>k. connection_id (of_nat k)) [1..<Suc n]"

lemma issued_upto_Suc: "issued_upto (Suc n) = issued_upto n @ [connection_id (of_nat n + 1)]"
  by (simp add: issued_upto_def add.commute)

lemma length_issued_upto [simp]: "length (issued_upto n) = n"
  by (simp add: issued_upto_def)

lemma issued_upto_distinct: "n \<le> 2 ^ 64 \<Longrightarrow> distinct (issued_upto n)"
proof (induction n)
  case (Suc n)
  have "(of_nat n + 1 :: 64 word) \<noteq> of_nat k" if "k \<in> {1..<Suc n}" for k
  proof
    assume "(of_nat n + 1 :: 64 word) = of_nat k"
    then have "unat (of_nat (Suc n) :: 64 word) = unat (of_nat k :: 64 word)" by (simp add: add.commute)
    then have "Suc n mod 2 ^ 64 = k mod 2 ^ 64" by (simp add: unat_of_nat del: of_nat_Suc)
    then show False using that Suc.prems by (cases "Suc n = 2 ^ 64") auto
  qed
  then have "connection_id (of_nat n + 1) \<notin> set (issued_upto n)" by (auto simp: issued_upto_def)
  then show ?case using Suc by (simp add: issued_upto_Suc)
qed (simp add: issued_upto_def)

lemma server_run_invariant:
  assumes "server_run text_of impl s ids"
  shows "ids = issued_upto (length ids) \<and> sv_nextConnectionID s = of_nat (length ids) \<and> dom (sv_connections s) \<subseteq> set ids"
  using assms
proof induction
  case served
  then show ?case by (simp add: Server_def issued_upto_def)
next
  case (connected s ids args reply s')
  from connected(2,3) obtain conn where "s' = add_connection conn s"
      "cnr_ConnectionID reply = connection_id (sv_nextConnectionID s + 1)"
    by (auto elim: connect_cases)
  with connected.IH show ?case
    by (auto simp: add_connection_def Let_def issued_upto_Suc dom_def add.commute split: if_splits)
next
  case (refused s ids args reply s')
  then show ?case by (auto elim: connect_cases)
next
  case (closed s ids args reply s')
  with close_connections [OF closed(2)] show ?case by auto
qed

text \<open>
  C33. In every run of a plugin's server that has issued fewer than \<open>2 ^ 64\<close> identifiers of connections, after which the counter of 64
  bits would start again, the identifiers are pairwise distinct and every open connection has one of them; the next connection that is opened
  gets an identifier that was never issued before, and no other open connection is touched.
\<close>

theorem rpc_connection_ids_unique:
  assumes "server_run text_of impl s ids" and "length ids < 2 ^ 64"
    and "sv_Connect text_of args s = (Inr reply, s')" and "cnr_Success reply"
  shows "distinct ids \<and> dom (sv_connections s) \<subseteq> set ids \<and> cnr_ConnectionID reply \<notin> set ids \<and>
    (\<exists>conn. sv_connections s' = (sv_connections s)(cnr_ConnectionID reply \<mapsto> conn) \<and>
       pl_Connect (sv_Impl s) (cna_URI args) (cna_Options args) = Inr conn)"
proof -
  note inv = server_run_invariant [OF assms(1)]
  have "cnr_ConnectionID reply = connection_id (of_nat (length ids) + 1)"
    using assms(3,4) inv by (auto elim!: connect_cases)
  then have "ids @ [cnr_ConnectionID reply] = issued_upto (Suc (length ids))" using inv by (simp add: issued_upto_Suc)
  then have "distinct (ids @ [cnr_ConnectionID reply])" using issued_upto_distinct [of "Suc (length ids)"] assms(2) by simp
  moreover from assms(3,4) have "\<exists>conn. sv_connections s' = (sv_connections s)(cnr_ConnectionID reply \<mapsto> conn) \<and>
       pl_Connect (sv_Impl s) (cna_URI args) (cna_Options args) = Inr conn"
    by (auto simp: sv_Connect_def add_connection_def Let_def split: sum.splits go_error.splits)
  ultimately show ?thesis using inv by simp
qed

text \<open>A plugin whose connections plan one statement, and a server of it with one open connection.\<close>

definition rpc_sample_conn :: "string list FullConnection" where
  "rpc_sample_conn =
     \<lparr> cn_PlanTableSchema = (\<lambda>name _ _. Inr [''create table '' @ name]), cn_PlanTypeSchema = (\<lambda>_ _. Inr []),
       cn_PlanViewSchema = (\<lambda>_ _. Inr []), cn_PlanFunctionSchema = (\<lambda>_ _. Inr []),
       cn_PlanExtensionSchema = (\<lambda>_ _. Inr []), cn_DeployStatements = (\<lambda>ss db. (None, db @ ss)),
       cn_GenerateFixtures = (\<lambda>_. Inr []), cn_Close = None, cn_DatabaseName = ''app'', cn_EngineVersion = ''16'',
       cn_ListTables = Inr [], cn_ListTableForeignKeys = (\<lambda>_ _. Inr []), cn_ListTableIndexes = (\<lambda>_ _. Inr []),
       cn_GetTablePrimaryKey = (\<lambda>_. Inr None), cn_GetTableSchema = (\<lambda>_. Inr []) \<rparr>"

definition rpc_sample_plugin :: "string list FullConnection DatabasePlugin" where
  "rpc_sample_plugin =
     \<lparr> pl_Name = ''postgres'', pl_Version = ''0.1.0'', pl_SupportedEngines = [''postgres''],
       pl_Connect = (\<lambda>_ _. Inr rpc_sample_conn), pl_Validate = (\<lambda>_. None), pl_Initialize = None, pl_Shutdown = None \<rparr>"

definition rpc_sample_args :: ConnectArgs where
  "rpc_sample_args = \<lparr> cna_URI = ''postgres://db'', cna_Options = None \<rparr>"

lemma rpc_sample_connect:
  "sv_Connect text_of rpc_sample_args (add_connection rpc_sample_conn (Server rpc_sample_plugin)) =
    (Inr \<lparr> cnr_Success = True, cnr_Error = [], cnr_ConnectionID = connection_id 2 \<rparr>,
     add_connection rpc_sample_conn (add_connection rpc_sample_conn (Server rpc_sample_plugin)))"
  by (simp add: sv_Connect_def rpc_sample_args_def rpc_sample_plugin_def Server_def add_connection_def)

lemma rpc_sample_run:
  "server_run (\<lambda>_. []) rpc_sample_plugin (add_connection rpc_sample_conn (Server rpc_sample_plugin)) [connection_id 1]"
  using server_run.connected [OF server_run.served,
      where args = rpc_sample_args and reply = "\<lparr> cnr_Success = True, cnr_Error = [], cnr_ConnectionID = connection_id 1 \<rparr>"
        and s' = "add_connection rpc_sample_conn (Server rpc_sample_plugin)"
        and text_of = "\<lambda>_. []" and impl = rpc_sample_plugin]
  by (simp add: sv_Connect_def rpc_sample_args_def rpc_sample_plugin_def Server_def)

theorem rpc_connection_ids_unique_witness:
  "connection_id 2 \<notin> set [connection_id 1] \<and>
   dom (sv_connections (add_connection rpc_sample_conn (Server rpc_sample_plugin))) \<subseteq> {connection_id 1}"
  using rpc_connection_ids_unique [OF rpc_sample_run _ rpc_sample_connect] by simp

text \<open>
  C31. Planning and deploying through the process of a plugin is planning and deploying with the
  plugin's own connection: once the client has connected, the proxy answers a table plan with what the
  connection of the plugin answers (an error keeps its text, a panic ends the process), provided that the
  schema and the seed data are among the values the boundary keeps, and deploying has the effect on the
  database that the connection has.
\<close>

theorem rpc_connection_transparent:
  assumes "pl_Connect (sv_Impl s) uri options = Inr conn"
    and "rc_Connect text_of uri options (Open s) = (Inr c, l)"
    and "kept_iface schema" and "pred_option kept_SeedData seed"
  shows "fst (px_PlanTableSchema text_of c name schema seed l) =
      over_rpc text_of [] (cn_PlanTableSchema conn name schema seed) \<and>
    snd (snd (px_DeployStatements text_of c statements l db)) = snd (cn_DeployStatements conn statements db) \<and>
    fst (px_DeployStatements text_of c statements l db) =
      over_rpc text_of () (error_result (fst (cn_DeployStatements conn statements db)))"
proof -
  have cl: "c = NewConnectionProxy (connection_id (sv_nextConnectionID s + 1))" "l = Open (add_connection conn s)"
    using assms(2) connected_proxy [OF assms(1)] by simp_all
  have "fst (px_PlanTableSchema text_of c name schema seed l) =
      over_rpc text_of [] (cn_PlanTableSchema conn name schema seed)"
    using assms(3,4) opened.plan_table [of schema seed text_of s conn name]
    by (simp add: cl proxy_connection_def)
  moreover obtain err db' where "cn_DeployStatements conn statements db = (err, db')"
    by fastforce
  ultimately show ?thesis
    by (simp add: cl proxy_deploys [OF added_connection])
qed

definition sample_kept :: schema_iface where
  "sample_kept = PostgresqlTable (Some (empty_table_schema\<lparr> pts_Columns :=
     [\<lparr> pcol_Name = ''note'', pcol_Type = ''text'', pcol_Constraints = None, pcol_Attributes = None,
        pcol_Default = Some [] \<rparr>] \<rparr>))"

theorem rpc_connection_transparent_witness:
  "fst (px_PlanTableSchema (\<lambda>_. []) (NewConnectionProxy (connection_id 1)) ''notes'' sample_kept None
      (Open (add_connection rpc_sample_conn (Server rpc_sample_plugin)))) = Inr [''create table notes'']"
proof -
  have "pl_Connect (sv_Impl (Server rpc_sample_plugin)) [] None = Inr rpc_sample_conn"
    by (simp add: Server_def rpc_sample_plugin_def)
  moreover from connected_proxy [OF this, of "\<lambda>_. []"]
  have "rc_Connect (\<lambda>_. []) [] None (Open (Server rpc_sample_plugin)) =
      (Inr (NewConnectionProxy (connection_id 1)), Open (add_connection rpc_sample_conn (Server rpc_sample_plugin)))"
    by (simp add: Server_def)
  moreover have "kept_iface sample_kept"
    by (simp add: sample_kept_def empty_table_schema_def kept_defs emptyStringSentinel_def)
  ultimately show ?thesis
    using rpc_connection_transparent [of "Server rpc_sample_plugin" "[]" None rpc_sample_conn "\<lambda>_. []" _ _ sample_kept None "''notes''"]
    by (simp add: rpc_sample_conn_def)
qed

text \<open>
  C32. The plugin plans the schema that the user wrote exactly if no pointer in it leads to false, to 0 or
  to an empty string, the defaults of the columns and the two masked Cassandra properties excepted, and no
  value is one of the sentinels; a nil schema is refused or panics. So the workaround is complete for
  column defaults, and only for those.
\<close>

theorem rpc_schema_roundtrip_iff:
  "bindE (mask_iface schema) (\<lambda>masked. bindE (gob_iface masked) restore_iface) = Inr schema \<longleftrightarrow> kept_iface schema"
  using received_schema_iff by (simp add: received_schema_def)

section \<open>What the boundary loses\<close>

text \<open>A seed value of 0 or of an empty string arrives as no value at all.\<close>

lemma rpc_seed_zero_lost:
  "gob_SeedDataValue \<lparr> sdv_Int = Some 0, sdv_Str = None \<rparr> = \<lparr> sdv_Int = None, sdv_Str = None \<rparr>"
  "gob_SeedDataValue \<lparr> sdv_Int = None, sdv_Str = Some [] \<rparr> = \<lparr> sdv_Int = None, sdv_Str = None \<rparr>"
  by (simp_all add: gob_SeedDataValue_def gob_ptr_def)

text \<open>The empty default of a column that the plugin introspects is not seen by the schema generator.\<close>

lemma rpc_introspected_default_lost:
  assumes "sv_connections s cid = Some conn" "cn_GetTableSchema conn table = Inr [col]" "col_ColumnDefault col = Some []"
  shows "\<exists>col'. fst (px_GetTableSchema text_of (NewConnectionProxy cid) table (Open s)) = Inr [col'] \<and> col_ColumnDefault col' = None"
  using assms by (simp add: px_GetTableSchema_def sv_ConnectionGetTableSchema_def NewConnectionProxy_def rpc_defs
      decode_reply_def gob_Column_def gob_ptr_def)

text \<open>A table without a schema for the driver of its database panics in the proxy, in the process of SchemaHero.\<close>

lemma rpc_missing_schema_panics:
  "px_PlanTableSchema text_of c name (PostgresqlTable None) seed l =
     (Inl (GoPanic ''invalid memory address or nil pointer dereference''), l)"
  by (simp add: px_PlanTableSchema_def on_schema_def)

text \<open>The fixtures of a table for rqlite lose an empty default that planning keeps.\<close>

lemma rpc_fixtures_rqlite_default_lost:
  fixes col :: RqliteTableColumn
  assumes "tsp_Schema spec = Some \<lparr> ts_Postgres = None, ts_Mysql = None, ts_CockroachDB = None, ts_Cassandra = None,
      ts_TimescaleDB = None, ts_SQLite = None, ts_RQLite = Some schema \<rparr>"
    and "rts_Columns schema = [col]" "rcol_Default col = Some []"
  shows "\<exists>t r c. tsp_Schema (restore_TableSpec (gob_TableSpec (mask_TableSpec spec))) = Some t \<and>
    ts_RQLite t = Some r \<and> rts_Columns r = [c] \<and> rcol_Default c = None"
  using assms by (simp add: mask_TableSpec_def mask_TableSchema_def gob_TableSpec_def gob_TableSchema_def
      restore_TableSpec_def restore_TableSchema_def gob_RqliteTableSchema_def gob_RqliteTableColumn_def gob_ptr_def)

text \<open>A panic while planning ends the plugin process: all its connections are gone.\<close>

lemma rpc_panic_ends_plugin:
  assumes "sv_connections s cid = Some conn" "kept_iface schema" "pred_option kept_SeedData seed"
    and "cn_PlanTableSchema conn name schema seed = Inl (GoPanic msg)"
    and "px_PlanTableSchema text_of (NewConnectionProxy cid) name schema seed (Open s) = (r, l)"
  shows "r = Inl ErrUnexpectedEOF" "l = Closed"
    "px_DeployStatements text_of c' statements l db = (Inl ErrShutdown, Closed, db)"
proof -
  from assms(2) obtain m g where "mask_iface schema = Inr m" "gob_iface m = Inr g" "restore_iface g = Inr schema"
    by (auto simp flip: received_schema_iff simp: received_schema_def bindE_Inr_iff)
  moreover have "map_option gob_SeedData seed = seed"
    using assms(3) by (simp add: map_option_fixed_iff seed_kept_iff)
  ultimately show "r = Inl ErrUnexpectedEOF" and l: "l = Closed"
    using assms(1,4,5) by (auto simp: planning_calls NewConnectionProxy_def over_rpc_def)
  show "px_DeployStatements text_of c' statements l db = (Inl ErrShutdown, Closed, db)"
    by (simp add: l px_DeployStatements_def rpc_call_def reply_result_def)
qed

end
