(* ===== verification/Plugins.thy ===== *)
theory Plugins
  imports Rpc_Correct "HOL-Library.AList" "HOL-Library.Word"
begin

unbundle bit_operations_syntax

text \<open>
  src/pkg/database/plugin: the registry of known plugins (registry.go), the loader that starts and caches
  plugin processes (loader.go), the downloader (downloader.go) and the manager that ties them together and
  gives out connections (manager.go, config.go).

  A Go map is an association list with distinct keys, since List and Cleanup range over it; the order in
  which Go visits it is an argument of the operations that range. A plugin that a client dispensed is the
  record \<open>DatabasePlugin\<close> of the theory \<open>Rpc\<close>, whose methods answer the same at every call. The processes that
  the loader starts are numbered; \<open>ps_live\<close> holds those that run. What the file system, the go-plugin client
  and the OCI registry answer are arguments, gathered in the records \<open>LoadEnv\<close> and \<open>DownloadEnv\<close>. Locks
  and log messages are left out.
\<close>

section \<open>The package path/filepath\<close>

fun clean_step :: "bool \<Rightarrow> string list \<Rightarrow> string \<Rightarrow> string list" where
  "clean_step rooted stack part =
     (if part = [] \<or> part = ''.'' then stack
      else if part = ''..'' then
        (if stack \<noteq> [] \<and> last stack \<noteq> ''..'' then butlast stack
         else if rooted then stack else stack @ [''..''])
      else stack @ [part])"

definition filepath_Clean :: "string \<Rightarrow> string" where
  "filepath_Clean path =
     (let rooted = HasPrefix path ''/'';
          comps = foldl (clean_step rooted) [] (SplitByte path (CHR ''/''));
          out = (if rooted then ''/'' else []) @ Join comps ''/''
      in if out = [] then ''.'' else out)"

definition filepath_Join :: "string list \<Rightarrow> string" where
  "filepath_Join elem =
     (case dropWhile (\<lambda>e. e = []) elem of [] \<Rightarrow> [] | es \<Rightarrow> filepath_Clean (Join es ''/''))"

definition filepath_Base :: "string \<Rightarrow> string" where
  "filepath_Base path =
     (if path = [] then ''.''
      else let p = rev (dropWhile (\<lambda>c. c = CHR ''/'') (rev path));
               base = rev (takeWhile (\<lambda>c. c \<noteq> CHR ''/'') (rev p))
           in if base = [] then ''/'' else base)"

definition filepath_Dir :: "string \<Rightarrow> string" where
  "filepath_Dir path = filepath_Clean (rev (dropWhile (\<lambda>c. c \<noteq> CHR ''/'') (rev path)))"

definition filepath_SplitList :: "string \<Rightarrow> string list" where
  "filepath_SplitList path = (if path = [] then [] else SplitByte path (CHR '':''))"

section \<open>The registry (registry.go)\<close>

record PluginInfo =
  pi_Name :: string
  pi_Version :: string
  pi_OCIRef :: string
  pi_Digest :: string
  pi_Platform :: string
  pi_Engines :: "string list"
  pi_LocalPath :: string

record PluginSource =
  src_Type :: string
  src_Registry :: string
  src_Repo :: string
  src_Tag :: string
  src_Path :: string

type_synonym 'v go_map = "(string \<times> 'v) list"

record 'l PluginRegistry =
  reg_plugins :: "PluginInfo go_map"
  reg_loader :: "'l option"
  reg_defaultRepo :: string

definition NewPluginRegistry :: "'l PluginRegistry" where
  "NewPluginRegistry = \<lparr> reg_plugins = [], reg_loader = None, reg_defaultRepo = ''docker.io/schemahero/plugins'' \<rparr>"

definition invalid_info :: "PluginInfo \<Rightarrow> go_error option" where
  "invalid_info info =
     (if pi_Name info = [] then Some (ErrNew ''plugin name cannot be empty'')
      else if pi_Version info = [] then Some (ErrNew ''plugin version cannot be empty'')
      else if pi_Engines info = [] then Some (ErrNew ''plugin must support at least one database engine'')
      else None)"

definition PluginRegistry_Register :: "PluginInfo option \<Rightarrow> 'l PluginRegistry \<Rightarrow> go_error option \<times> 'l PluginRegistry" where
  "PluginRegistry_Register info r =
     (case info of
        None \<Rightarrow> (Some (ErrNew ''plugin info cannot be nil''), r)
      | Some i \<Rightarrow>
          (case invalid_info i of
             Some e \<Rightarrow> (Some e, r)
           | None \<Rightarrow> (None, r\<lparr> reg_plugins := AList.update (pi_Name i) i (reg_plugins r) \<rparr>)))"

definition not_registered :: "string \<Rightarrow> go_error" where
  "not_registered name = ErrNew (''plugin '' @ [squote] @ name @ [squote] @ '' not found in registry'')"

text \<open>The copy that Get and List return is the same value.\<close>

definition PluginRegistry_Get :: "string \<Rightarrow> 'l PluginRegistry \<Rightarrow> PluginInfo result" where
  "PluginRegistry_Get name r =
     (if name = [] then Inl (ErrNew ''plugin name cannot be empty'')
      else case map_of (reg_plugins r) name of
             None \<Rightarrow> Inl (not_registered name)
           | Some info \<Rightarrow> Inr info)"

type_synonym 'v map_order = "'v go_map \<Rightarrow> 'v go_map"

definition PluginRegistry_List :: "PluginInfo map_order \<Rightarrow> 'l PluginRegistry \<Rightarrow> PluginInfo list" where
  "PluginRegistry_List order r = map snd (order (reg_plugins r))"

definition PluginRegistry_Remove :: "string \<Rightarrow> 'l PluginRegistry \<Rightarrow> go_error option \<times> 'l PluginRegistry" where
  "PluginRegistry_Remove name r =
     (if name = [] then (Some (ErrNew ''plugin name cannot be empty''), r)
      else if map_of (reg_plugins r) name = None then (Some (not_registered name), r)
      else (None, r\<lparr> reg_plugins := AList.delete name (reg_plugins r) \<rparr>))"

definition SetLoader :: "'l option \<Rightarrow> 'l PluginRegistry \<Rightarrow> 'l PluginRegistry" where
  "SetLoader loader r = r\<lparr> reg_loader := loader \<rparr>"

definition GetLoader :: "'l PluginRegistry \<Rightarrow> 'l option" where
  "GetLoader r = reg_loader r"

definition GetDefaultRepo :: "'l PluginRegistry \<Rightarrow> string" where
  "GetDefaultRepo r = reg_defaultRepo r"

definition SetDefaultRepo :: "string \<Rightarrow> 'l PluginRegistry \<Rightarrow> 'l PluginRegistry" where
  "SetDefaultRepo repo r = r\<lparr> reg_defaultRepo := repo \<rparr>"

section \<open>The loader (loader.go)\<close>

text \<open>os.Stat: the error of a file that is not there, another error, or the file.\<close>

record FileInfo =
  fi_IsRegular :: bool
  fi_IsDir :: bool
  fi_Perm :: "32 word"

datatype stat = NotExist | StatFailed go_error | Found FileInfo

text \<open>
  Starting the process of a path, dispensing the plugin from it, and whether what was dispensed
  implements the interface DatabasePlugin.
\<close>

record 'conn LoadEnv =
  le_Stat :: "string \<Rightarrow> stat"
  le_Client :: "string \<Rightarrow> go_error option"
  le_Dispense :: "string \<Rightarrow> 'conn DatabasePlugin option result"

record Processes =
  ps_next :: nat
  ps_live :: "nat list"

definition spawn :: "Processes \<Rightarrow> Processes" where
  "spawn ps = \<lparr> ps_next = Suc (ps_next ps), ps_live = ps_next ps # ps_live ps \<rparr>"

definition kill :: "nat \<Rightarrow> Processes \<Rightarrow> Processes" where
  "kill pid ps = ps\<lparr> ps_live := removeAll pid (ps_live ps) \<rparr>"

record 'conn PluginLoader =
  ld_pluginDir :: string
  ld_cache :: "'conn DatabasePlugin go_map"
  ld_clients :: "nat go_map"

definition NewPluginLoader :: "string \<Rightarrow> 'conn PluginLoader" where
  "NewPluginLoader pluginDir =
     \<lparr> ld_pluginDir = (if pluginDir = [] then ''/var/lib/schemahero/plugins'' else pluginDir),
       ld_cache = [], ld_clients = [] \<rparr>"

fun empty_engine :: "nat \<Rightarrow> string list \<Rightarrow> go_error option" where
  "empty_engine i [] = None"
| "empty_engine i (engine # engines) =
     (if engine = [] then Some (ErrNew (''engine name at index '' @ Itoa (int i) @ '' cannot be empty''))
      else empty_engine (Suc i) engines)"

definition ValidatePlugin :: "'conn DatabasePlugin \<Rightarrow> go_error option" where
  "ValidatePlugin plugin =
     (if pl_Name plugin = [] then Some (ErrNew ''plugin name cannot be empty'')
      else if pl_Version plugin = [] then Some (ErrNew ''plugin version cannot be empty'')
      else if pl_SupportedEngines plugin = []
      then Some (ErrNew ''plugin must support at least one database engine'')
      else empty_engine 0 (pl_SupportedEngines plugin))"

type_synonym 'conn loader_state = "'conn PluginLoader \<times> Processes"

text \<open>What is checked of the file before it is run.\<close>

definition check_file :: "(string \<Rightarrow> stat) \<Rightarrow> string \<Rightarrow> go_error option" where
  "check_file st path =
     (case st path of
        NotExist \<Rightarrow> Some (ErrNew (''plugin file does not exist: '' @ path))
      | StatFailed err \<Rightarrow> Some (wrap_error (''failed to stat plugin file '' @ path) err)
      | Found fileInfo \<Rightarrow>
          if \<not> fi_IsRegular fileInfo then Some (ErrNew (''plugin path is not a regular file: '' @ path))
          else if fi_Perm fileInfo AND 73 = 0 then Some (ErrNew (''plugin file is not executable: '' @ path))
          else None)"

text \<open>
  The process is killed when it does not start, does not dispense a DatabasePlugin or does not
  initialize; not when the plugin is found invalid.
\<close>

definition LoadLocal ::
  "'conn LoadEnv \<Rightarrow> string \<Rightarrow> 'conn loader_state \<Rightarrow> 'conn DatabasePlugin result \<times> 'conn loader_state" where
  "LoadLocal env path st =
     (let (l, ps) = st
      in if path = [] then (Inl (ErrNew ''plugin path cannot be empty''), l, ps)
         else case check_file (le_Stat env) path of
           Some e \<Rightarrow> (Inl e, l, ps)
         | None \<Rightarrow>
             (let client = ps_next ps; ps = spawn ps
              in case le_Client env path of
                   Some err \<Rightarrow> (Inl (wrap_error (''failed to start plugin client for '' @ path) err), l, kill client ps)
                 | None \<Rightarrow>
                     (case le_Dispense env path of
                        Inl err \<Rightarrow> (Inl (wrap_error (''failed to dispense plugin from '' @ path) err), l, kill client ps)
                      | Inr None \<Rightarrow>
                          (Inl (ErrNew (''plugin from '' @ path @ '' does not implement DatabasePlugin interface'')), l,
                           kill client ps)
                      | Inr (Some plugin) \<Rightarrow>
                          (case pl_Initialize plugin of
                             Some err \<Rightarrow>
                               (Inl (wrap_error (''failed to initialize plugin from '' @ path) err), l, kill client ps)
                           | None \<Rightarrow>
                               (case ValidatePlugin plugin of
                                  Some err \<Rightarrow> (Inl (wrap_error (''plugin validation failed for '' @ path) err), l, ps)
                                | None \<Rightarrow>
                                    (Inr plugin,
                                     l\<lparr> ld_cache := AList.update (pl_Name plugin) plugin (ld_cache l),
                                        ld_clients := AList.update (pl_Name plugin) client (ld_clients l) \<rparr>, ps))))))"

definition GetPlugin :: "string \<Rightarrow> 'conn PluginLoader \<Rightarrow> 'conn DatabasePlugin option" where
  "GetPlugin name l = (if name = [] then None else map_of (ld_cache l) name)"

definition LoadFromInfo ::
  "'conn LoadEnv \<Rightarrow> PluginInfo option \<Rightarrow> 'conn loader_state \<Rightarrow> 'conn DatabasePlugin result \<times> 'conn loader_state" where
  "LoadFromInfo env info st =
     (case info of
        None \<Rightarrow> (Inl (ErrNew ''plugin info cannot be nil''), st)
      | Some i \<Rightarrow>
          if pi_Name i = [] then (Inl (ErrNew ''plugin name cannot be empty''), st)
          else (case GetPlugin (pi_Name i) (fst st) of
                  Some plugin \<Rightarrow> (Inr plugin, st)
                | None \<Rightarrow>
                    if pi_LocalPath i = []
                    then (Inl (ErrNew ''local path is required for plugin loading (OCI support coming in future PR)''), st)
                    else LoadLocal env (pi_LocalPath i) st))"

text \<open>The client of the name is killed and forgotten if there is one.\<close>

definition drop_client :: "string \<Rightarrow> 'conn loader_state \<Rightarrow> 'conn loader_state" where
  "drop_client name = (\<lambda>(l, ps).
     (case map_of (ld_clients l) name of
        None \<Rightarrow> (l, ps)
      | Some client \<Rightarrow> (l\<lparr> ld_clients := AList.delete name (ld_clients l) \<rparr>, kill client ps)))"

definition drop_cached :: "string \<Rightarrow> 'conn loader_state \<Rightarrow> 'conn loader_state" where
  "drop_cached name = map_prod (\<lambda>l. l\<lparr> ld_cache := AList.delete name (ld_cache l) \<rparr>) (\<lambda>ps. ps)"

text \<open>A failing Shutdown is only logged.\<close>

definition Unload :: "string \<Rightarrow> 'conn loader_state \<Rightarrow> go_error option \<times> 'conn loader_state" where
  "Unload name st =
     (if name = [] then (Some (ErrNew ''plugin name cannot be empty''), st)
      else case map_of (ld_cache (fst st)) name of
             None \<Rightarrow> (Some (ErrNew (''plugin '' @ [squote] @ name @ [squote] @ '' is not loaded'')), st)
           | Some plugin \<Rightarrow> (None, drop_cached name (drop_client name st)))"

definition UnloadPlugin :: "string \<Rightarrow> 'conn loader_state \<Rightarrow> 'conn loader_state" where
  "UnloadPlugin name st = (if name = [] then st else drop_client name (drop_cached name st))"

definition Cleanup :: "'conn loader_state \<Rightarrow> 'conn loader_state" where
  "Cleanup = (\<lambda>(l, ps). (l\<lparr> ld_cache := [], ld_clients := [] \<rparr>, fold (\<lambda>(_, client). kill client) (ld_clients l) ps))"

section \<open>The downloader (downloader.go)\<close>

record Overrides =
  ov_pluginRegistry :: string
  ov_pluginTag :: string

definition SetPluginRegistryOverride :: "string \<Rightarrow> Overrides \<Rightarrow> Overrides" where
  "SetPluginRegistryOverride registry ov = ov\<lparr> ov_pluginRegistry := registry \<rparr>"

definition SetPluginTagOverride :: "string \<Rightarrow> Overrides \<Rightarrow> Overrides" where
  "SetPluginTagOverride tag ov = ov\<lparr> ov_pluginTag := tag \<rparr>"

text \<open>
  \<open>dl_downloadOnce\<close> holds the keys whose sync.Once has run: a call that finds one does not run the
  download again.
\<close>

record PluginDownloader =
  dl_cacheDir :: string
  dl_downloadOnce :: "string list"

definition NewPluginDownloader :: "string option \<Rightarrow> string \<Rightarrow> PluginDownloader" where
  "NewPluginDownloader homeDir cacheDir =
     \<lparr> dl_cacheDir =
         (if cacheDir \<noteq> [] then cacheDir
          else case homeDir of
                 Some home \<Rightarrow> filepath_Join [home, ''.schemahero'', ''plugins'']
               | None \<Rightarrow> ''/tmp/plugins''),
       dl_downloadOnce = [] \<rparr>"

definition GetPluginArtifactRef :: "Overrides \<Rightarrow> string \<Rightarrow> string \<Rightarrow> string \<Rightarrow> string" where
  "GetPluginArtifactRef ov goarch driver majorVersion =
     (if ov_pluginRegistry ov \<noteq> []
      then ov_pluginRegistry ov @ ''-'' @ driver @ '':'' @ majorVersion @ ''-'' @ goarch
      else ''docker.io/schemahero/plugin-'' @ driver @ '':0'')"

definition GetCachedPluginPath :: "PluginDownloader \<Rightarrow> string \<Rightarrow> string \<Rightarrow> string" where
  "GetCachedPluginPath d driver majorVersion = filepath_Join [dl_cacheDir d, ''schemahero-'' @ driver]"

type_synonym files = "string \<rightharpoonup> FileInfo"

definition stat_of :: "files \<Rightarrow> string \<Rightarrow> stat" where
  "stat_of fs path = (case fs path of None \<Rightarrow> NotExist | Some info \<Rightarrow> Found info)"

definition IsPluginCached :: "files \<Rightarrow> PluginDownloader \<Rightarrow> string \<Rightarrow> string \<Rightarrow> bool" where
  "IsPluginCached fs d driver majorVersion =
     (case stat_of fs (GetCachedPluginPath d driver majorVersion) of
        Found info \<Rightarrow> \<not> fi_IsDir info \<and> fi_Perm info AND 73 \<noteq> 0
      | _ \<Rightarrow> False)"

record TarHeader =
  th_Name :: string
  th_IsReg :: bool

text \<open>
  The platform, an error of an operation of package os on a path (or of gzip on an archive), the errors
  of opening a repository and a file store and the copy of an artifact from its repository into a directory
  (oras), and the entries of an archive, which end with the end of the file or with an error.
\<close>

record DownloadEnv =
  de_GOOS :: string
  de_GOARCH :: string
  de_Overrides :: Overrides
  de_Os :: "string \<Rightarrow> string \<Rightarrow> go_error option"
  de_NewRepository :: "string \<Rightarrow> go_error option"
  de_NewStore :: "string \<Rightarrow> go_error option"
  de_Fetch :: "string \<Rightarrow> string \<Rightarrow> string \<Rightarrow> files \<Rightarrow> go_error option \<times> files"
  de_Archive :: "files \<Rightarrow> string \<Rightarrow> TarHeader list \<times> go_error option"

definition created_file :: FileInfo where
  "created_file = \<lparr> fi_IsRegular = True, fi_IsDir = False, fi_Perm = 420 \<rparr>"

definition chmod_755 :: "string \<Rightarrow> files \<Rightarrow> files" where
  "chmod_755 path fs = fs(path := map_option (\<lambda>f. f\<lparr> fi_Perm := 493 \<rparr>) (fs path))"

text \<open>The entry of a plain name that contains the name of the binary is written, executable; others are skipped.\<close>

definition unsafe_entry :: "TarHeader \<Rightarrow> bool" where
  "unsafe_entry h \<longleftrightarrow> Contains (th_Name h) ''..'' \<or> Contains (th_Name h) ''/'' \<or> Contains (th_Name h) [backslash]"

fun extract_entries ::
  "DownloadEnv \<Rightarrow> string \<Rightarrow> string \<Rightarrow> TarHeader list \<Rightarrow> go_error option \<Rightarrow> files \<Rightarrow> string result \<times> files" where
  "extract_entries env extractDir expectedBinary [] tail_error fs =
     (case tail_error of
        Some err \<Rightarrow> (Inl (wrap_error ''failed to read tar entry'' err), fs)
      | None \<Rightarrow> (Inl (ErrNew (''binary '' @ expectedBinary @ '' not found in archive'')), fs))"
| "extract_entries env extractDir expectedBinary (h # hs) tail_error fs =
     (if unsafe_entry h then extract_entries env extractDir expectedBinary hs tail_error fs
      else if th_IsReg h \<and> Contains (th_Name h) expectedBinary then
        (let extractPath = filepath_Join [extractDir, filepath_Base (th_Name h)]
         in case de_Os env ''create'' extractPath of
              Some err \<Rightarrow> (Inl (wrap_error ''failed to create extract file'' err), fs)
            | None \<Rightarrow>
                (case de_Os env ''copy'' extractPath of
                   Some err \<Rightarrow> (Inl (wrap_error ''failed to extract file'' err), fs(extractPath \<mapsto> created_file))
                 | None \<Rightarrow>
                     (case de_Os env ''chmod'' extractPath of
                        Some err \<Rightarrow>
                          (Inl (wrap_error ''failed to make extracted binary executable'' err), fs(extractPath \<mapsto> created_file))
                      | None \<Rightarrow> (Inr extractPath, chmod_755 extractPath (fs(extractPath \<mapsto> created_file))))))
      else extract_entries env extractDir expectedBinary hs tail_error fs)"

definition extractPlugin ::
  "DownloadEnv \<Rightarrow> string \<Rightarrow> string \<Rightarrow> string \<Rightarrow> files \<Rightarrow> string result \<times> files" where
  "extractPlugin env archivePath extractDir driver fs =
     (case de_Os env ''open'' archivePath of
        Some err \<Rightarrow> (Inl (wrap_error ''failed to open archive'' err), fs)
      | None \<Rightarrow>
          (case de_Os env ''gzip'' archivePath of
             Some err \<Rightarrow> (Inl (wrap_error ''failed to create gzip reader'' err), fs)
           | None \<Rightarrow>
               (let (entries, tail_error) = de_Archive env fs archivePath
                in extract_entries env extractDir (''schemahero-'' @ driver) entries tail_error fs)))"

definition possiblePaths :: "DownloadEnv \<Rightarrow> string \<Rightarrow> string \<Rightarrow> string list" where
  "possiblePaths env cacheDir driver =
     [filepath_Join [cacheDir, ''schemahero-'' @ driver @ ''-'' @ de_GOOS env @ ''-'' @ de_GOARCH env @ ''.tar.gz''],
      filepath_Join [cacheDir, ''schemahero-'' @ driver],
      filepath_Join [cacheDir, ''plugins'', ''bin'', ''schemahero-'' @ driver],
      filepath_Join [cacheDir, ''plugins'', ''schemahero-'' @ driver]]"

definition rename :: "string \<Rightarrow> string \<Rightarrow> files \<Rightarrow> files" where
  "rename source target fs = (fs(target := fs source))(source := None)"

text \<open>The last steps: the binary is moved to where the cache looks for it and made executable.\<close>

definition install_plugin ::
  "DownloadEnv \<Rightarrow> string \<Rightarrow> string \<Rightarrow> files \<Rightarrow> go_error option \<times> files" where
  "install_plugin env finalPluginPath pluginPath fs =
     (case (if finalPluginPath \<noteq> pluginPath then de_Os env ''rename'' finalPluginPath else None) of
        Some err \<Rightarrow>
          (Some (wrap_error (''failed to move plugin from '' @ finalPluginPath @ '' to '' @ pluginPath) err), fs)
      | None \<Rightarrow>
          (let fs = (if finalPluginPath \<noteq> pluginPath then rename finalPluginPath pluginPath fs else fs)
           in case de_Os env ''chmod'' pluginPath of
                Some err \<Rightarrow> (Some (wrap_error ''failed to make plugin binary executable'' err), fs)
              | None \<Rightarrow> (None, chmod_755 pluginPath fs)))"

definition downloadPluginOnce ::
  "DownloadEnv \<Rightarrow> string \<Rightarrow> string \<Rightarrow> string \<Rightarrow> files \<Rightarrow> go_error option \<times> files" where
  "downloadPluginOnce env driver majorVersion pluginPath fs =
     (let artifactRef = GetPluginArtifactRef (de_Overrides env) (de_GOARCH env) driver majorVersion;
          tag = last (SplitByte artifactRef (CHR '':''));
          cacheDir = filepath_Dir pluginPath;
          repoURL = TrimSuffix artifactRef ('':'' @ tag)
      in case de_Os env ''mkdir'' cacheDir of
           Some err \<Rightarrow> (Some (wrap_error (''failed to create cache directory '' @ cacheDir) err), fs)
         | None \<Rightarrow>
             (case de_NewRepository env repoURL of
                Some err \<Rightarrow> (Some (wrap_error (''failed to create repository reference for '' @ repoURL) err), fs)
              | None \<Rightarrow>
             (case de_NewStore env cacheDir of
                Some err \<Rightarrow> (Some (wrap_error ''failed to create file store'' err), fs)
              | None \<Rightarrow>
             (case de_Fetch env repoURL tag cacheDir fs of
                (Some err, fs) \<Rightarrow>
                  (Some (wrap_error (''failed to download plugin from '' @ artifactRef @ '' (repo: '' @ repoURL @
                     '', tag: '' @ tag @ '')'') err), fs)
              | (None, fs) \<Rightarrow>
                  (case find (\<lambda>path. stat_of fs path \<noteq> NotExist) (possiblePaths env cacheDir driver) of
                     None \<Rightarrow> (Some (ErrNew ''plugin not found in any expected location after download''), fs)
                   | Some foundPath \<Rightarrow>
                       if HasSuffix foundPath ''.tar.gz'' then
                         (case extractPlugin env foundPath cacheDir driver fs of
                            (Inl err, fs) \<Rightarrow> (Some (wrap_error (''failed to extract plugin from '' @ foundPath) err), fs)
                          | (Inr finalPluginPath, fs) \<Rightarrow> install_plugin env finalPluginPath pluginPath fs)
                       else install_plugin env foundPath pluginPath fs)))))"

type_synonym download_state = "PluginDownloader \<times> files"

definition DownloadPlugin ::
  "DownloadEnv \<Rightarrow> string \<Rightarrow> string \<Rightarrow> download_state \<Rightarrow> string result \<times> download_state" where
  "DownloadPlugin env driver majorVersion st =
     (let (d, fs) = st; pluginPath = GetCachedPluginPath d driver majorVersion;
          downloadKey = driver @ '':'' @ majorVersion
      in if driver = [] then (Inl (ErrNew ''driver cannot be empty''), d, fs)
         else if majorVersion = [] then (Inl (ErrNew ''major version cannot be empty''), d, fs)
         else if IsPluginCached fs d driver majorVersion then (Inr pluginPath, d, fs)
         else if downloadKey \<in> set (dl_downloadOnce d) then (Inr pluginPath, d, fs)
         else case downloadPluginOnce env driver majorVersion pluginPath fs of
                (Some err, fs) \<Rightarrow> (Inl err, d, fs)
              | (None, fs) \<Rightarrow> (Inr pluginPath, d\<lparr> dl_downloadOnce := downloadKey # dl_downloadOnce d \<rparr>, fs))"

definition CleanCache :: "DownloadEnv \<Rightarrow> download_state \<Rightarrow> go_error option \<times> download_state" where
  "CleanCache env = (\<lambda>(d, fs).
     (case de_Os env ''removeall'' (dl_cacheDir d) of
        Some err \<Rightarrow> (Some err, d, fs)
      | None \<Rightarrow> (None, d, (\<lambda>p. if p = dl_cacheDir d \<or> HasPrefix p (dl_cacheDir d @ ''/'') then None else fs p))))"

text \<open>os.Remove, its error of a missing file ignored; the directory that is removed is not the one of the binary.\<close>

definition CleanPluginCache ::
  "DownloadEnv \<Rightarrow> (go_error \<Rightarrow> string) \<Rightarrow> string \<Rightarrow> string \<Rightarrow> download_state \<Rightarrow> go_error option \<times> download_state" where
  "CleanPluginCache env text_of driver majorVersion = (\<lambda>(d, fs).
     (let pluginDir = filepath_Join [dl_cacheDir d, majorVersion];
          pluginPath = GetCachedPluginPath d driver majorVersion
      in case (if fs pluginPath = None then None else de_Os env ''remove'' pluginPath) of
           Some err \<Rightarrow> (Some (wrap_error (''failed to remove plugin binary '' @ pluginPath) err), d, fs)
         | None \<Rightarrow>
             (let fs = fs(pluginPath := None)
              in case (if fs pluginDir = None then None else de_Os env ''remove'' pluginDir) of
                   Some err \<Rightarrow>
                     (if Contains (text_of err) ''directory not empty'' then (None, d, fs)
                      else (Some (wrap_error (''failed to remove plugin directory '' @ pluginDir) err), d, fs))
                 | None \<Rightarrow> (None, d, fs(pluginDir := None)))))"

section \<open>The manager (manager.go)\<close>

text \<open>
  The manager with the processes and the files it acts on. The loader that the registry refers to is the
  one of the manager, so the registry only records that it is set.
\<close>

record 'conn PluginManager =
  mg_registry :: "unit PluginRegistry"
  mg_loader :: "'conn PluginLoader"
  mg_downloader :: PluginDownloader
  mg_processes :: Processes
  mg_files :: files

text \<open>What the operations of the manager read: the environment, the plugins and the artifacts, and map orders.\<close>

record 'conn ManagerEnv =
  me_Load :: "'conn LoadEnv"
  me_Download :: DownloadEnv
  me_HomeDir :: "string option"
  me_Getenv :: "string \<Rightarrow> string"
  me_order :: "PluginInfo map_order"

definition NewPluginManager ::
  "'conn ManagerEnv \<Rightarrow> unit PluginRegistry option \<Rightarrow> 'conn PluginLoader option \<Rightarrow> Processes \<Rightarrow> files \<Rightarrow> 'conn PluginManager result" where
  "NewPluginManager env registry loader ps fs =
     (case (registry, loader) of
        (None, _) \<Rightarrow> Inl (GoPanic ''registry cannot be nil'')
      | (_, None) \<Rightarrow> Inl (GoPanic ''loader cannot be nil'')
      | (Some r, Some l) \<Rightarrow>
          Inr \<lparr> mg_registry = r, mg_loader = l, mg_downloader = NewPluginDownloader (me_HomeDir env) [],
                mg_processes = ps, mg_files = fs \<rparr>)"

definition on_loader ::
  "('conn loader_state \<Rightarrow> 'r \<times> 'conn loader_state) \<Rightarrow> 'conn PluginManager \<Rightarrow> 'r \<times> 'conn PluginManager" where
  "on_loader f m =
     (let (r, l, ps) = f (mg_loader m, mg_processes m) in (r, m\<lparr> mg_loader := l, mg_processes := ps \<rparr>))"

definition load_env :: "'conn ManagerEnv \<Rightarrow> 'conn PluginManager \<Rightarrow> 'conn LoadEnv" where
  "load_env env m = (me_Load env)\<lparr> le_Stat := stat_of (mg_files m) \<rparr>"

definition plugin_info :: "'conn DatabasePlugin \<Rightarrow> string \<Rightarrow> PluginInfo" where
  "plugin_info plugin path =
     \<lparr> pi_Name = pl_Name plugin, pi_Version = pl_Version plugin, pi_OCIRef = [], pi_Digest = [], pi_Platform = [],
       pi_Engines = pl_SupportedEngines plugin, pi_LocalPath = path \<rparr>"

definition on_registry ::
  "(unit PluginRegistry \<Rightarrow> 'r \<times> unit PluginRegistry) \<Rightarrow> 'conn PluginManager \<Rightarrow> 'r \<times> 'conn PluginManager" where
  "on_registry f m = (let (r, reg) = f (mg_registry m) in (r, m\<lparr> mg_registry := reg \<rparr>))"

text \<open>If the plugin cannot be registered it is shut down, which changes nothing here, and stays loaded.\<close>

definition LoadPlugin ::
  "'conn ManagerEnv \<Rightarrow> PluginSource option \<Rightarrow> 'conn PluginManager \<Rightarrow> go_error option \<times> 'conn PluginManager" where
  "LoadPlugin env source m =
     (case source of
        None \<Rightarrow> (Some (ErrNew ''plugin source cannot be nil''), m)
      | Some s \<Rightarrow>
          if src_Type s = ''local'' then
            (if src_Path s = [] then (Some (ErrNew ''local source path cannot be empty''), m)
             else case on_loader (LoadLocal (load_env env m) (src_Path s)) m of
                    (Inl err, m) \<Rightarrow>
                      (Some (wrap_error (''failed to load plugin from local path '' @ [squote] @ src_Path s @ [squote]) err), m)
                  | (Inr plugin, m) \<Rightarrow>
                      (case on_registry (PluginRegistry_Register (Some (plugin_info plugin (src_Path s)))) m of
                         (Some err, m) \<Rightarrow>
                           (Some (wrap_error (''failed to register plugin '' @ [squote] @ pl_Name plugin @ [squote]) err), m)
                       | (None, m) \<Rightarrow> (None, m)))
          else if src_Type s = ''oci''
          then (Some (ErrNew ''OCI source type not yet supported (coming in future PR)''), m)
          else (Some (ErrNew (''unsupported plugin source type: '' @ src_Type s)), m))"

definition loadPluginFromPath ::
  "'conn ManagerEnv \<Rightarrow> string \<Rightarrow> string \<Rightarrow> 'conn PluginManager \<Rightarrow> 'conn DatabasePlugin result \<times> 'conn PluginManager" where
  "loadPluginFromPath env engineName pluginPath m =
     (case on_loader (LoadLocal (load_env env m) pluginPath) m of
        (Inl err, m) \<Rightarrow> (Inl (wrap_error (''failed to load plugin from '' @ pluginPath) err), m)
      | (Inr plugin, m) \<Rightarrow>
          (Inr plugin, snd (on_registry (PluginRegistry_Register (Some (plugin_info plugin pluginPath))) m)))"

definition getCurrentMajorVersion :: "Overrides \<Rightarrow> string" where
  "getCurrentMajorVersion ov = (if ov_pluginTag ov \<noteq> [] then ov_pluginTag ov else ''0'')"

definition normalizeEngineForDownload :: "string \<Rightarrow> string" where
  "normalizeEngineForDownload engine =
     (if ToLower engine = ''postgresql'' then ''postgres''
      else if ToLower engine = ''mariadb'' then ''mysql''
      else ToLower engine)"

definition downloadAndLoadPlugin ::
  "'conn ManagerEnv \<Rightarrow> string \<Rightarrow> 'conn PluginManager \<Rightarrow> 'conn DatabasePlugin result \<times> 'conn PluginManager" where
  "downloadAndLoadPlugin env engine m =
     (let majorVersion = getCurrentMajorVersion (de_Overrides (me_Download env));
          normalizedEngine = normalizeEngineForDownload engine
      in if IsPluginCached (mg_files m) (mg_downloader m) normalizedEngine majorVersion
         then loadPluginFromPath env normalizedEngine (GetCachedPluginPath (mg_downloader m) normalizedEngine majorVersion) m
         else case DownloadPlugin (me_Download env) normalizedEngine majorVersion (mg_downloader m, mg_files m) of
                (Inl err, d, fs) \<Rightarrow>
                  (Inl (wrap_error (''failed to download plugin for engine '' @ [squote] @ engine @ [squote]) err),
                   m\<lparr> mg_downloader := d, mg_files := fs \<rparr>)
              | (Inr pluginPath, d, fs) \<Rightarrow>
                  loadPluginFromPath env normalizedEngine pluginPath (m\<lparr> mg_downloader := d, mg_files := fs \<rparr>))"

text \<open>The loops of GetDefaultPlugin: a plugin that does not load is tried again for a later engine of the same name.\<close>

fun try_engines ::
  "'conn ManagerEnv \<Rightarrow> string \<Rightarrow> PluginInfo \<Rightarrow> string list \<Rightarrow> 'conn PluginManager \<Rightarrow>
   'conn DatabasePlugin option \<times> 'conn PluginManager" where
  "try_engines env engine info [] m = (None, m)"
| "try_engines env engine info (supported # engines) m =
     (if supported = engine then
        (case GetPlugin (pi_Name info) (mg_loader m) of
           Some plugin \<Rightarrow> (Some plugin, m)
         | None \<Rightarrow>
             (case on_loader (LoadFromInfo (load_env env m) (Some info)) m of
                (Inr plugin, m) \<Rightarrow> (Some plugin, m)
              | (Inl _, m) \<Rightarrow> try_engines env engine info engines m))
      else try_engines env engine info engines m)"

fun try_plugins ::
  "'conn ManagerEnv \<Rightarrow> string \<Rightarrow> PluginInfo list \<Rightarrow> 'conn PluginManager \<Rightarrow> 'conn DatabasePlugin option \<times> 'conn PluginManager" where
  "try_plugins env engine [] m = (None, m)"
| "try_plugins env engine (info # infos) m =
     (case try_engines env engine info (pi_Engines info) m of
        (Some plugin, m) \<Rightarrow> (Some plugin, m)
      | (None, m) \<Rightarrow> try_plugins env engine infos m)"

definition GetDefaultPlugin ::
  "'conn ManagerEnv \<Rightarrow> string \<Rightarrow> 'conn PluginManager \<Rightarrow> 'conn DatabasePlugin result \<times> 'conn PluginManager" where
  "GetDefaultPlugin env engine m =
     (if engine = [] then (Inl (ErrNew ''database engine cannot be empty''), m)
      else case try_plugins env engine (PluginRegistry_List (me_order env) (mg_registry m)) m of
             (Some plugin, m) \<Rightarrow> (Inr plugin, m)
           | (None, m) \<Rightarrow> downloadAndLoadPlugin env engine m)"

definition PluginManager_GetConnection ::
  "'conn ManagerEnv \<Rightarrow> string \<Rightarrow> string \<Rightarrow> options option \<Rightarrow> 'conn PluginManager \<Rightarrow> 'conn result \<times> 'conn PluginManager" where
  "PluginManager_GetConnection env engine uri options m =
     (if engine = [] then (Inl (ErrNew ''database engine cannot be empty''), m)
      else if uri = [] \<and> engine \<noteq> ''cassandra'' then (Inl (ErrNew ''database URI cannot be empty''), m)
      else case GetDefaultPlugin env engine m of
             (Inl err, m) \<Rightarrow>
               (Inl (wrap_error (''failed to get plugin for engine '' @ [squote] @ engine @ [squote]) err), m)
           | (Inr plugin, m) \<Rightarrow>
               (case (if options \<noteq> None then pl_Validate plugin options else None) of
                  Some err \<Rightarrow> (Inl (wrap_error ''plugin configuration validation failed'' err), m)
                | None \<Rightarrow>
                    (wrapE (''failed to connect to database via plugin '' @ [squote] @ pl_Name plugin @ [squote])
                       (pl_Connect plugin uri options), m)))"

definition RegisterPlugin ::
  "PluginInfo option \<Rightarrow> 'conn PluginManager \<Rightarrow> go_error option \<times> 'conn PluginManager" where
  "RegisterPlugin info m =
     (case info of
        None \<Rightarrow> (Some (ErrNew ''plugin info cannot be nil''), m)
      | Some i \<Rightarrow>
          map_prod (map_option (wrap_error (''failed to register plugin '' @ [squote] @ pi_Name i @ [squote]))) (\<lambda>m. m)
            (on_registry (PluginRegistry_Register info) m))"

definition ListPlugins :: "'conn ManagerEnv \<Rightarrow> 'conn PluginManager \<Rightarrow> PluginInfo list" where
  "ListPlugins env m = PluginRegistry_List (me_order env) (mg_registry m)"

definition PluginManager_Cleanup :: "'conn PluginManager \<Rightarrow> 'conn PluginManager" where
  "PluginManager_Cleanup m = snd (on_loader (\<lambda>st. ((), Cleanup st)) m)"

subsection \<open>Discovery\<close>

definition searchPaths :: "'conn ManagerEnv \<Rightarrow> string list" where
  "searchPaths env =
     [''.'', ''plugins/bin'', ''./plugins/bin''] @
     (case me_HomeDir env of Some home \<Rightarrow> [home @ ''/.schemahero/plugins''] | None \<Rightarrow> []) @
     [''/usr/local/lib/schemahero/plugins'', ''/var/lib/schemahero/plugins''] @
     filter (\<lambda>path. path \<noteq> []) (filepath_SplitList (me_Getenv env ''SCHEMAHERO_PLUGIN_PATH''))"

definition knownPlugins :: "string list" where
  "knownPlugins = [''schemahero-postgres'', ''schemahero-mysql'', ''schemahero-cockroachdb'', ''schemahero-timescaledb'',
     ''schemahero-cassandra'', ''schemahero-sqlite'', ''schemahero-rqlite'', ''schemahero-mongodb'']"

definition discovered_engines :: "string \<Rightarrow> string list" where
  "discovered_engines pluginName =
     (if pluginName = ''postgres'' then [''postgres'', ''postgresql'']
      else if pluginName = ''mysql'' then [''mysql'', ''mariadb'']
      else if pluginName = ''cockroachdb'' then [''cockroachdb'']
      else if pluginName = ''timescaledb'' then [''timescaledb'']
      else [pluginName])"

definition discovered_info :: "string \<Rightarrow> string \<Rightarrow> PluginInfo" where
  "discovered_info pluginName pluginPath =
     \<lparr> pi_Name = pluginName, pi_Version = ''unknown'', pi_OCIRef = [], pi_Digest = [], pi_Platform = [],
       pi_Engines = discovered_engines pluginName, pi_LocalPath = pluginPath \<rparr>"

text \<open>One file name: what is there is registered under the name after the prefix, unless that name is taken. The comment in the code
  speaks of a file that is executable; the code asks only that it is not a directory.\<close>

definition discover_at :: "'conn ManagerEnv \<Rightarrow> string \<Rightarrow> 'conn PluginManager \<Rightarrow> 'conn PluginManager" where
  "discover_at env pluginPath m =
     (case stat_of (mg_files m) pluginPath of
        Found info \<Rightarrow>
          (let baseName = filepath_Base pluginPath; pluginName = drop 11 baseName
           in if fi_IsDir info then m
              else if length baseName > 11 \<and> take 11 baseName = ''schemahero-'' then
                (if list_ex (\<lambda>existing. pi_Name existing = pluginName) (PluginRegistry_List (me_order env) (mg_registry m))
                 then m
                 else snd (RegisterPlugin (Some (discovered_info pluginName pluginPath)) m))
              else m)
      | _ \<Rightarrow> m)"

definition discovery_paths :: "'conn ManagerEnv \<Rightarrow> string list" where
  "discovery_paths env =
     concat (map (\<lambda>searchPath. map (\<lambda>pluginName. filepath_Join [searchPath, pluginName]) knownPlugins) (searchPaths env))"

definition DiscoverPlugins :: "'conn ManagerEnv \<Rightarrow> 'conn PluginManager \<Rightarrow> 'conn PluginManager" where
  "DiscoverPlugins env m = fold (discover_at env) (discovery_paths env) m"

section \<open>The global plugin system (config.go)\<close>

text \<open>The global variable holds the manager that was initialized last, until it is reset.\<close>

type_synonym 'conn globalPluginManager = "'conn PluginManager option"

definition InitializePluginSystem ::
  "'conn ManagerEnv \<Rightarrow> Processes \<Rightarrow> files \<Rightarrow> 
   (Overrides \<times> 'conn globalPluginManager \<times> 'conn PluginManager) result" where
  "InitializePluginSystem env ps fs =
     (let registry_env = me_Getenv env ''SCHEMAHERO_PLUGIN_REGISTRY'';
          ov = de_Overrides (me_Download env);
          ov = (if registry_env \<noteq> [] then SetPluginRegistryOverride registry_env ov else ov);
          registry = NewPluginRegistry; loader = NewPluginLoader ''/var/lib/schemahero/plugins''
      in bindE (NewPluginManager env (Some (SetLoader (Some ()) registry)) (Some loader) ps fs) (\<lambda>manager.
           let manager = DiscoverPlugins env manager in Inr (ov, Some manager, manager)))"

definition GetGlobalPluginManager :: "'conn globalPluginManager \<Rightarrow> 'conn PluginManager option" where
  "GetGlobalPluginManager global = global"

definition ResetGlobalPluginSystem :: "'conn globalPluginManager \<Rightarrow> 'conn globalPluginManager" where
  "ResetGlobalPluginSystem global = None"

end
