(* ===== verification/Plugins_Correct.thy ===== *)
theory Plugins_Correct
  imports Plugins Pg_Sync Sq_Correct Ca_Correct Ts_Correct
begin

text \<open>
  What the plugin system keeps: the registry is a map from names to valid entries (the locale \<open>info_store\<close>
  and its interpretation), discovery registers the first binary of a name on the search path, the loader's
  cache and clients agree and its clients run, and the archive of a download is only unpacked into the
  cache directory.
\<close>

section \<open>Association lists\<close>

lemma list_all_update: "list_all P al \<Longrightarrow> P (k, v) \<Longrightarrow> list_all P (AList.update k v al)"
  by (induction al) auto

lemma list_all_delete: "list_all P al \<Longrightarrow> list_all P (AList.delete k al)"
  by (induction al) auto

section \<open>The registry as a map\<close>


definition registry_ok :: "'l PluginRegistry \<Rightarrow> bool" where
  "registry_ok r \<longleftrightarrow> distinct (map fst (reg_plugins r)) \<and>
     list_all (\<lambda>(k, info). pi_Name info = k \<and> invalid_info info = None) (reg_plugins r)"


lemma registry_ok_register: "registry_ok r \<Longrightarrow> registry_ok (snd (PluginRegistry_Register info r))"
  by (auto simp: registry_ok_def PluginRegistry_Register_def distinct_update intro: list_all_update split: option.splits)



section \<open>Discovery\<close>













definition manager_env :: "string list FullConnection ManagerEnv" where
  "manager_env =
     \<lparr> me_Load = \<lparr> le_Stat = (\<lambda>_. NotExist), le_Client = (\<lambda>_. None), le_Dispense = (\<lambda>_. Inr (Some rpc_sample_plugin)) \<rparr>,
       me_Download = \<lparr> de_GOOS = ''linux'', de_GOARCH = ''amd64'',
         de_Overrides = \<lparr> ov_pluginRegistry = [], ov_pluginTag = [] \<rparr>, de_Os = (\<lambda>_ _. None),
         de_NewRepository = (\<lambda>_. None), de_NewStore = (\<lambda>_. None),
         de_Fetch = (\<lambda>_ _ dir fs. (None, fs(dir @ ''/schemahero-postgres'' \<mapsto> created_file))), de_Archive = (\<lambda>_ _. ([], None)) \<rparr>,
       me_HomeDir = Some ''/root'', me_Getenv = (\<lambda>_. []), me_order = (\<lambda>xs. xs) \<rparr>"

definition sample_manager :: "files \<Rightarrow> string list FullConnection PluginManager" where
  "sample_manager fs =
     \<lparr> mg_registry = NewPluginRegistry, mg_loader = NewPluginLoader [],
       mg_downloader = NewPluginDownloader (Some ''/root'') [],
       mg_processes = \<lparr> ps_next = 0, ps_live = [] \<rparr>, mg_files = fs \<rparr>"


section \<open>The loader\<close>

text \<open>
  The invariant of the loader and its processes: the cache and the clients have the same names, a plugin is
  cached under its own name and is valid, and the clients are distinct processes that run.
\<close>

definition loader_ok :: "'conn loader_state \<Rightarrow> bool" where
  "loader_ok = (\<lambda>(l, ps).
     distinct (map fst (ld_cache l)) \<and> distinct (map fst (ld_clients l)) \<and>
     fst ` set (ld_cache l) = fst ` set (ld_clients l) \<and>
     list_all (\<lambda>(k, plugin). pl_Name plugin = k \<and> ValidatePlugin plugin = None) (ld_cache l) \<and>
     distinct (map snd (ld_clients l)) \<and> snd ` set (ld_clients l) \<subseteq> set (ps_live ps) \<and>
     distinct (ps_live ps) \<and> set (ps_live ps) \<subseteq> {..<ps_next ps})"

lemma load_cases:
  assumes "LoadLocal env path (l, ps) = (r, l', ps')"
  obtains (failed) e where "r = Inl e" "l' = l" "ps' = ps \<or> ps' = kill (ps_next ps) (spawn ps)"
    | (invalid) e plugin where "le_Dispense env path = Inr (Some plugin)" "ValidatePlugin plugin \<noteq> None"
        "r = Inl e" "l' = l" "ps' = spawn ps"
    | (loaded) plugin where "le_Dispense env path = Inr (Some plugin)" "r = Inr plugin" "ValidatePlugin plugin = None" "ps' = spawn ps"
        "l' = l\<lparr> ld_cache := AList.update (pl_Name plugin) plugin (ld_cache l),
               ld_clients := AList.update (pl_Name plugin) (ps_next ps) (ld_clients l) \<rparr>"
  using assms by (auto simp: LoadLocal_def Let_def split: if_splits option.splits sum.splits intro: failed invalid loaded)

lemma update_snds: "snd ` set (AList.update k v al) \<subseteq> insert v (snd ` set al)"
  by (induction al) auto

lemma distinct_snd_update:
  "distinct (map snd al) \<Longrightarrow> v \<notin> snd ` set al \<Longrightarrow> distinct (map snd (AList.update k v al))"
proof (induction al)
  case (Cons entry al)
  then show ?case
    using update_snds [of k v al] by (cases entry) force
qed simp

lemma kill_spawned: "ps_next ps \<notin> set (ps_live ps) \<Longrightarrow> kill (ps_next ps) (spawn ps) = ps\<lparr> ps_next := Suc (ps_next ps) \<rparr>"
  by (simp add: kill_def spawn_def)

lemma loader_ok_load:
  assumes ok: "loader_ok (l, ps)" and "LoadLocal env path (l, ps) = (r, l', ps')"
  shows "loader_ok (l', ps')"
proof -
  have fresh: "ps_next ps \<notin> set (ps_live ps)" "ps_next ps \<notin> snd ` set (ld_clients l)"
    using ok by (auto simp: loader_ok_def)
  from assms(2) show ?thesis
  proof (cases rule: load_cases)
    case (failed e)
    with ok fresh show ?thesis
      by (auto simp: loader_ok_def kill_spawned)
  next
    case (invalid e plugin)
    with ok fresh show ?thesis
      by (auto simp: loader_ok_def spawn_def)
  next
    case (loaded plugin)
    have "snd ` set (ld_clients l) \<subseteq> set (ps_live ps)"
      using ok by (simp add: loader_ok_def)
    then have "snd ` set (AList.update (pl_Name plugin) (ps_next ps) (ld_clients l)) \<subseteq> insert (ps_next ps) (set (ps_live ps))"
      by (rule order_trans [OF update_snds insert_mono])
    with loaded ok fresh show ?thesis
      by (simp add: loader_ok_def spawn_def distinct_update distinct_snd_update dom_update list_all_update lessThan_Suc
          subset_insertI2)
  qed
qed

lemma loader_ok_cached:
  assumes "loader_ok (l, ps)" "map_of (ld_cache l) name = Some plugin"
  shows "pl_Name plugin = name" "ValidatePlugin plugin = None"
    "\<exists>client. map_of (ld_clients l) name = Some client \<and> client \<in> set (ps_live ps)"
proof -
  have "list_all (\<lambda>(k, plugin). pl_Name plugin = k \<and> ValidatePlugin plugin = None) (ld_cache l)"
    using assms(1) by (simp add: loader_ok_def)
  then show "pl_Name plugin = name" "ValidatePlugin plugin = None"
    using map_of_SomeD [OF assms(2)] by (auto simp: list_all_iff)
  have "name \<in> fst ` set (ld_clients l)"
    using assms(1) imageI [OF map_of_SomeD [OF assms(2)], of fst] by (simp add: loader_ok_def)
  then obtain client where "map_of (ld_clients l) name = Some client"
    by (metis map_of_eq_None_iff not_None_eq)
  moreover from this have "client \<in> snd ` set (ld_clients l)"
    by (force dest: map_of_SomeD)
  ultimately show "\<exists>client. map_of (ld_clients l) name = Some client \<and> client \<in> set (ps_live ps)"
    using assms(1) by (auto simp: loader_ok_def)
qed

text \<open>Forgetting a name on both sides, and killing its client.\<close>

definition forget :: "string \<Rightarrow> 'conn loader_state \<Rightarrow> 'conn loader_state" where
  "forget name = (\<lambda>(l, ps).
     (l\<lparr> ld_cache := AList.delete name (ld_cache l), ld_clients := AList.delete name (ld_clients l) \<rparr>,
      case map_of (ld_clients l) name of None \<Rightarrow> ps | Some client \<Rightarrow> kill client ps))"

lemma dom_delete_keys: "fst ` set (AList.delete k al) = fst ` set al - {k}"
  by (induction al) auto

lemma delete_absent: "map_of al k = None \<Longrightarrow> AList.delete k al = al"
  by (simp add: delete_id map_of_eq_None_iff)

lemma drop_both:
  "drop_cached name (drop_client name st) = forget name st" "drop_client name (drop_cached name st) = forget name st"
  by (cases st; auto simp: drop_cached_def drop_client_def forget_def delete_absent split: option.split)+

lemma loader_ok_forget:
  assumes "loader_ok st"
  shows "loader_ok (forget name st)"
proof -
  obtain l ps where st: "st = (l, ps)" by fastforce
  have keys: "fst ` set (AList.delete name (ld_cache l)) = fst ` set (AList.delete name (ld_clients l))"
    using assms st by (simp add: loader_ok_def dom_delete_keys)
  have snds: "distinct (map snd (AList.delete name (ld_clients l)))"
    using assms st by (simp add: loader_ok_def AList.delete_eq distinct_map_filter)
  have live: "snd ` set (AList.delete name (ld_clients l)) \<subseteq> set (ps_live ps) - {client}"
    if "map_of (ld_clients l) name = Some client" for client
  proof -
    have "inj_on snd (set (ld_clients l))" "(name, client) \<in> set (ld_clients l)" "snd ` set (ld_clients l) \<subseteq> set (ps_live ps)"
      using assms st map_of_SomeD [OF that] by (simp_all add: loader_ok_def distinct_map)
    then show ?thesis
      by (fastforce simp: AList.delete_eq inj_on_def)
  qed
  show ?thesis
  proof (cases "map_of (ld_clients l) name")
    case None
    with assms st keys snds show ?thesis
      by (auto simp: loader_ok_def forget_def distinct_delete delete_absent intro: list_all_delete)
  next
    case (Some client)
    with assms st keys snds live [OF Some] show ?thesis
      by (auto simp: loader_ok_def forget_def kill_def distinct_delete distinct_removeAll intro: list_all_delete)
  qed
qed

lemma set_removeAll_fold:
  "ps_live (fold (\<lambda>(_, client). kill client) clients ps) = filter (\<lambda>pid. pid \<notin> snd ` set clients) (ps_live ps)"
  "ps_next (fold (\<lambda>(_, client). kill client) clients ps) = ps_next ps"
  by (induction clients arbitrary: ps) (auto simp: kill_def removeAll_filter_not_eq intro: filter_cong)

lemma loader_ok_cleanup: "loader_ok st \<Longrightarrow> loader_ok (Cleanup st)"
  by (auto simp: Cleanup_def loader_ok_def set_removeAll_fold)

text \<open>
  The runs of a loader. A load is tidy if the process at the path does not dispense a plugin that is invalid or whose name is already
  cached; this is read from the environment, whatever the load then does. The flag says that every load so far was tidy.
\<close>

definition tidy_load :: "'conn LoadEnv \<Rightarrow> string \<Rightarrow> 'conn loader_state \<Rightarrow> bool" where
  "tidy_load env path st =
     (case le_Dispense env path of
        Inr (Some plugin) \<Rightarrow> ValidatePlugin plugin = None \<and> map_of (ld_cache (fst st)) (pl_Name plugin) = None
      | _ \<Rightarrow> True)"

definition tidy_info :: "'conn LoadEnv \<Rightarrow> PluginInfo option \<Rightarrow> 'conn loader_state \<Rightarrow> bool" where
  "tidy_info env info st = (case info of None \<Rightarrow> True | Some i \<Rightarrow> tidy_load env (pi_LocalPath i) st)"

inductive loader_run :: "'conn loader_state \<Rightarrow> bool \<Rightarrow> bool" where
  started: "loader_run (NewPluginLoader dir, \<lparr> ps_next = n, ps_live = [] \<rparr>) True"
| loaded: "loader_run st tidy \<Longrightarrow> LoadLocal env path st = (r, st') \<Longrightarrow> loader_run st' (tidy \<and> tidy_load env path st)"
| from_info: "loader_run st tidy \<Longrightarrow> LoadFromInfo env info st = (r, st') \<Longrightarrow> loader_run st' (tidy \<and> tidy_info env info st)"
| unloaded: "loader_run st tidy \<Longrightarrow> Unload name st = (e, st') \<Longrightarrow> loader_run st' tidy"
| plugin_unloaded: "loader_run st tidy \<Longrightarrow> loader_run (UnloadPlugin name st) tidy"
| cleaned: "loader_run st tidy \<Longrightarrow> loader_run (Cleanup st) tidy"

text \<open>All the processes that run are clients.\<close>

definition all_clients :: "'conn loader_state \<Rightarrow> bool" where
  "all_clients = (\<lambda>(l, ps). set (ps_live ps) \<subseteq> snd ` set (ld_clients l))"

lemma snd_update_fresh: "map_of al k = None \<Longrightarrow> snd ` set (AList.update k v al) = insert v (snd ` set al)"
  by (induction al) (auto split: if_splits)

lemma all_clients_load:
  assumes ok: "loader_ok (l, ps)" and all: "all_clients (l, ps)"
    and load: "LoadLocal env path (l, ps) = (r, l', ps')" and tidy: "tidy_load env path (l, ps)"
  shows "all_clients (l', ps')"
  using load
proof (cases rule: load_cases)
  case (failed e)
  with all show ?thesis by (auto simp: all_clients_def kill_def spawn_def)
next
  case (invalid e plugin)
  with tidy show ?thesis by (simp add: tidy_load_def)
next
  case (loaded plugin)
  with tidy have "map_of (ld_cache l) (pl_Name plugin) = None"
    by (simp add: tidy_load_def)
  then have "map_of (ld_clients l) (pl_Name plugin) = None"
    using ok by (simp add: loader_ok_def map_of_eq_None_iff)
  with loaded all show ?thesis
    by (auto simp: all_clients_def spawn_def snd_update_fresh)
qed

lemma load_step:
  assumes "loader_ok st" "LoadLocal env path st = (r, st')"
  shows "loader_ok st'" "all_clients st \<Longrightarrow> tidy_load env path st \<Longrightarrow> all_clients st'"
proof -
  obtain l ps l' ps' where "st = (l, ps)" "st' = (l', ps')" by fastforce
  with assms show "loader_ok st'" "all_clients st \<Longrightarrow> tidy_load env path st \<Longrightarrow> all_clients st'"
    using loader_ok_load all_clients_load by blast+
qed

lemma all_clients_forget:
  assumes "loader_ok st" "all_clients st"
  shows "all_clients (forget name st)"
proof -
  obtain l ps where st: "st = (l, ps)" by fastforce
  show ?thesis
  proof (cases "map_of (ld_clients l) name")
    case None
    with assms st show ?thesis by (simp add: all_clients_def forget_def delete_absent)
  next
    case (Some client)
    have "pid \<in> snd ` set (AList.delete name (ld_clients l))"
      if "pid \<in> snd ` set (ld_clients l)" "pid \<noteq> client" for pid
    proof -
      from that obtain k where "(k, pid) \<in> set (ld_clients l)" by auto
      moreover have "distinct (map fst (ld_clients l))" using assms st by (simp add: loader_ok_def)
      ultimately have "k \<noteq> name" using that(2) map_of_SomeD [OF Some] eq_key_imp_eq_value by metis
      with \<open>(k, pid) \<in> _\<close> show ?thesis by (force simp: AList.delete_eq)
    qed
    with assms st Some show ?thesis by (auto simp: all_clients_def forget_def kill_def)
  qed
qed

lemma all_clients_cleanup: "all_clients st \<Longrightarrow> all_clients (Cleanup st)"
  by (auto simp: all_clients_def Cleanup_def set_removeAll_fold)

lemma LoadFromInfo_cases:
  assumes "LoadFromInfo env info st = (r, st')"
  obtains (kept) "st' = st" | (loads) i where "info = Some i" "LoadLocal env (pi_LocalPath i) st = (r, st')"
  using assms by (auto simp: LoadFromInfo_def split: option.splits if_splits)

lemma loader_run_invariant:
  assumes "loader_run st tidy"
  shows "loader_ok st \<and> (tidy \<longrightarrow> all_clients st)"
  using assms
proof induction
  case (started dir n)
  show ?case by (simp add: loader_ok_def all_clients_def NewPluginLoader_def)
next
  case (loaded st tidy env path r st')
  then show ?case by (auto dest: load_step)
next
  case (from_info st tidy env info r st')
  from from_info(2) show ?case
  proof (cases rule: LoadFromInfo_cases)
    case kept
    with from_info.IH show ?thesis by simp
  next
    case (loads i)
    with from_info.IH show ?thesis by (auto simp: tidy_info_def dest: load_step)
  qed
next
  case (unloaded st tidy name e st')
  then show ?case
    by (auto simp: Unload_def drop_both loader_ok_forget all_clients_forget split: if_splits option.splits)
next
  case (plugin_unloaded st tidy name)
  then show ?case
    by (auto simp: UnloadPlugin_def drop_both loader_ok_forget all_clients_forget)
next
  case (cleaned st tidy)
  then show ?case
    by (auto simp: loader_ok_cleanup all_clients_cleanup)
qed

text \<open>
  C34. In every run of the loader, a cached plugin is valid, is cached under its own name, and has a client process that runs; Cleanup
  empties the cache and kills exactly the processes of the clients. No process is left after it if no load met a plugin that
  is invalid or has a name already cached: the process of a plugin that does not start, is not dispensed or does not
  initialize has been killed by the load itself.
\<close>

theorem loader_processes:
  assumes "loader_run (l, ps) tidy"
  shows "(\<forall>name plugin. map_of (ld_cache l) name = Some plugin \<longrightarrow>
      pl_Name plugin = name \<and> ValidatePlugin plugin = None \<and>
      (\<exists>client. map_of (ld_clients l) name = Some client \<and> client \<in> set (ps_live ps))) \<and>
    ld_cache (fst (Cleanup (l, ps))) = [] \<and>
    set (ps_live (snd (Cleanup (l, ps)))) = set (ps_live ps) - snd ` set (ld_clients l) \<and>
    (tidy \<longrightarrow> ps_live (snd (Cleanup (l, ps))) = [])"
proof -
  note inv = loader_run_invariant [OF assms]
  have "ps_live (snd (Cleanup (l, ps))) = filter (\<lambda>pid. pid \<notin> snd ` set (ld_clients l)) (ps_live ps)"
    by (simp add: Cleanup_def set_removeAll_fold)
  moreover have "filter (\<lambda>pid. pid \<notin> snd ` set (ld_clients l)) (ps_live ps) = []" if tidy
    using inv that by (auto simp: all_clients_def filter_empty_conv)
  moreover have "ld_cache (fst (Cleanup (l, ps))) = []"
    by (simp add: Cleanup_def)
  ultimately show ?thesis
    using inv loader_ok_cached by auto
qed


definition sample_load :: "'conn DatabasePlugin \<Rightarrow> 'conn LoadEnv" where
  "sample_load plugin = \<lparr> le_Stat = (\<lambda>_. Found \<lparr> fi_IsRegular = True, fi_IsDir = False, fi_Perm = 493 \<rparr>),
     le_Client = (\<lambda>_. None), le_Dispense = (\<lambda>_. Inr (Some plugin)) \<rparr>"

lemma sample_load_runs:
  "LoadLocal (sample_load plugin) ''p'' (l, ps) =
     (case pl_Initialize plugin of
        Some err \<Rightarrow> (Inl (wrap_error ''failed to initialize plugin from p'' err), l, kill (ps_next ps) (spawn ps))
      | None \<Rightarrow>
          (case ValidatePlugin plugin of
             Some err \<Rightarrow> (Inl (wrap_error ''plugin validation failed for p'' err), l, spawn ps)
           | None \<Rightarrow> (Inr plugin, l\<lparr> ld_cache := AList.update (pl_Name plugin) plugin (ld_cache l),
               ld_clients := AList.update (pl_Name plugin) (ps_next ps) (ld_clients l) \<rparr>, spawn ps)))"
  by (simp add: LoadLocal_def sample_load_def check_file_def Let_def cong: option.case_cong)

theorem loader_processes_witness:
  "ps_live (snd (Cleanup (snd (LoadLocal (sample_load rpc_sample_plugin) ''p''
     (NewPluginLoader [], \<lparr> ps_next = 0, ps_live = [] \<rparr>))))) = []"
proof -
  let ?st = "(NewPluginLoader [], \<lparr> ps_next = 0, ps_live = [] \<rparr>) :: string list FullConnection loader_state"
  obtain r l ps where load: "LoadLocal (sample_load rpc_sample_plugin) ''p'' ?st = (r, l, ps)"
    by (cases "LoadLocal (sample_load rpc_sample_plugin) ''p'' ?st") auto
  have "tidy_load (sample_load rpc_sample_plugin) ''p'' ?st"
    by (simp add: tidy_load_def NewPluginLoader_def sample_load_def rpc_sample_plugin_def ValidatePlugin_def)
  with loader_run.loaded [OF loader_run.started load] have "loader_run (l, ps) True"
    by simp
  from loader_processes [OF this] show ?thesis
    using load by simp
qed

text \<open>The process of an invalid plugin keeps running with no client to kill it by.\<close>

lemma invalid_plugin_left_running:
  assumes "pl_Initialize plugin = None" "ValidatePlugin plugin \<noteq> None"
  shows "\<exists>e. LoadLocal (sample_load plugin) ''p'' (l, ps) = (Inl e, l, spawn ps)"
    "ps_next ps \<in> set (ps_live (spawn ps))"
  using assms by (auto simp: sample_load_runs spawn_def)

text \<open>Loading a name again forgets the client of the process that was there.\<close>

lemma reloaded_plugin_left_running:
  assumes "pl_Initialize plugin = None" "ValidatePlugin plugin = None" "loader_ok (l, ps)"
    and "map_of (ld_clients l) (pl_Name plugin) = Some client"
    and "LoadLocal (sample_load plugin) ''p'' (l, ps) = (r, l', ps')"
  shows "client \<in> set (ps_live ps')" "client \<notin> snd ` set (ld_clients l')"
proof -
  have l: "l' = l\<lparr> ld_cache := AList.update (pl_Name plugin) plugin (ld_cache l),
      ld_clients := AList.update (pl_Name plugin) (ps_next ps) (ld_clients l) \<rparr>" "ps' = spawn ps"
    using assms by (auto simp: sample_load_runs)
  have ok: "distinct (map fst (ld_clients l))" "distinct (map snd (ld_clients l))"
      "snd ` set (ld_clients l) \<subseteq> set (ps_live ps)" "set (ps_live ps) \<subseteq> {..<ps_next ps}"
    using assms(3) by (simp_all add: loader_ok_def)
  have c: "client \<in> set (ps_live ps)"
    using ok(3) map_of_SomeD [OF assms(4)] by force
  then show "client \<in> set (ps_live ps')" by (simp add: l spawn_def)
  have "client \<noteq> ps_next ps" using c ok(4) by auto
  show "client \<notin> snd ` set (ld_clients l')"
  proof
    assume "client \<in> snd ` set (ld_clients l')"
    then obtain k where "map_of (ld_clients l') k = Some client"
      using ok(1) by (auto simp: l distinct_update)
    then have "map_of (ld_clients l) k = Some client" "k \<noteq> pl_Name plugin"
      using \<open>client \<noteq> ps_next ps\<close> by (auto simp: l update_conv' split: if_splits)
    then have "(k, client) \<in> set (ld_clients l)" "(pl_Name plugin, client) \<in> set (ld_clients l)"
      using assms(4) by (auto dest: map_of_SomeD)
    moreover have "inj_on snd (set (ld_clients l))"
      using ok(2) by (simp add: distinct_map)
    ultimately show False
      using \<open>k \<noteq> pl_Name plugin\<close> inj_onD [of snd "set (ld_clients l)" "(k, client)" "(pl_Name plugin, client)"] by simp
  qed
qed

section \<open>The manager\<close>

definition manager_ok :: "'conn PluginManager \<Rightarrow> bool" where
  "manager_ok m \<longleftrightarrow> registry_ok (mg_registry m) \<and> loader_ok (mg_loader m, mg_processes m)"

text \<open>The plugin that an operation gives out is in the cache of the loader.\<close>

definition cached :: "'conn PluginManager \<Rightarrow> 'conn DatabasePlugin \<Rightarrow> bool" where
  "cached m plugin \<longleftrightarrow> map_of (ld_cache (mg_loader m)) (pl_Name plugin) = Some plugin"

lemma LoadLocal_caches:
  assumes "LoadLocal env path (l, ps) = (Inr plugin, l', ps')"
  shows "map_of (ld_cache l') (pl_Name plugin) = Some plugin"
  using assms by (cases rule: load_cases) (auto simp: update_conv')

lemma on_loader_load:
  assumes "manager_ok m" "on_loader (LoadLocal env path) m = (r, m')"
  shows "manager_ok m'" "mg_registry m' = mg_registry m" "r = Inr plugin \<Longrightarrow> cached m' plugin"
proof -
  obtain l' ps' where load: "LoadLocal env path (mg_loader m, mg_processes m) = (r, l', ps')"
      "m' = m\<lparr> mg_loader := l', mg_processes := ps' \<rparr>"
    using assms(2) by (auto simp: on_loader_def split: prod.splits)
  then show "manager_ok m'" "mg_registry m' = mg_registry m" "r = Inr plugin \<Longrightarrow> cached m' plugin"
    using assms(1) load_step(1) [of "(mg_loader m, mg_processes m)"] LoadLocal_caches
    by (auto simp: manager_ok_def cached_def)
qed

lemma GetPlugin_cached:
  assumes "manager_ok m" "GetPlugin name (mg_loader m) = Some plugin"
  shows "cached m plugin"
  using assms loader_ok_cached(1) by (fastforce simp: GetPlugin_def cached_def manager_ok_def split: if_splits)

lemma on_loader_info:
  assumes "manager_ok m" "on_loader (LoadFromInfo env info) m = (r, m')"
  shows "manager_ok m'" "mg_registry m' = mg_registry m" "r = Inr plugin \<Longrightarrow> cached m' plugin"
proof -
  let ?st = "(mg_loader m, mg_processes m)"
  obtain st' where load: "LoadFromInfo env info ?st = (r, st')"
    using assms(2) by (auto simp: on_loader_def split: prod.splits)
  have "manager_ok m' \<and> mg_registry m' = mg_registry m \<and> (r = Inr plugin \<longrightarrow> cached m' plugin)"
  proof (cases "\<exists>path. LoadLocal env path ?st = (r, st')")
    case True
    then obtain path where "LoadLocal env path ?st = (r, st')" ..
    then have "on_loader (LoadLocal env path) m = (r, m')"
      using assms(2) load by (simp add: on_loader_def)
    then show ?thesis
      using on_loader_load [OF assms(1)] by blast
  next
    case False
    then have "m' = m" "r = Inr plugin \<Longrightarrow> \<exists>name. GetPlugin name (mg_loader m) = Some plugin"
      using assms(2) load by (auto simp: LoadFromInfo_def on_loader_def split: option.splits if_splits)
    then show ?thesis
      using assms(1) GetPlugin_cached by blast
  qed
  then show "manager_ok m'" "mg_registry m' = mg_registry m" "r = Inr plugin \<Longrightarrow> cached m' plugin"
    by simp_all
qed

lemma try_engines_ok:
  assumes "manager_ok m" "try_engines env engine info engines m = (r, m')"
  shows "manager_ok m' \<and> mg_registry m' = mg_registry m \<and> (\<forall>plugin. r = Some plugin \<longrightarrow> cached m' plugin)"
  using assms
proof (induction engines arbitrary: m)
  case (Cons supported engines)
  consider (other) "supported \<noteq> engine" | (hit) plugin where "supported = engine" "GetPlugin (pi_Name info) (mg_loader m) = Some plugin"
    | (load) "supported = engine" "GetPlugin (pi_Name info) (mg_loader m) = None"
    by fastforce
  then show ?case
  proof cases
    case other
    with Cons show ?thesis by simp
  next
    case hit
    with Cons.prems show ?thesis by (auto intro: GetPlugin_cached)
  next
    case load
    obtain r1 m1 where step: "on_loader (LoadFromInfo (load_env env m) (Some info)) m = (r1, m1)"
      by fastforce
    note step_ok = on_loader_info [OF Cons.prems(1) step]
    show ?thesis
    proof (cases r1)
      case (Inl e)
      with load Cons.prems(2) step have "try_engines env engine info engines m1 = (r, m')" by simp
      with Cons.IH step_ok show ?thesis by simp
    next
      case (Inr plugin)
      with load Cons.prems(2) step have "r = Some plugin" "m' = m1" by simp_all
      with Inr step_ok show ?thesis by simp
    qed
  qed
qed simp

lemma try_plugins_ok:
  assumes "manager_ok m" "try_plugins env engine infos m = (r, m')"
  shows "manager_ok m' \<and> mg_registry m' = mg_registry m \<and> (\<forall>plugin. r = Some plugin \<longrightarrow> cached m' plugin)"
  using assms
proof (induction infos arbitrary: m)
  case (Cons info infos)
  obtain r1 m1 where step: "try_engines env engine info (pi_Engines info) m = (r1, m1)"
    by fastforce
  note step_ok = try_engines_ok [OF Cons.prems(1) step]
  show ?case
  proof (cases r1)
    case None
    with Cons.prems(2) step have "try_plugins env engine infos m1 = (r, m')" by simp
    then show ?thesis using Cons.IH [of m1] step_ok by simp
  next
    case (Some plugin)
    with Cons.prems(2) step step_ok show ?thesis by auto
  qed
qed simp

lemma register_manager_ok:
  assumes "manager_ok m"
  shows "manager_ok (snd (on_registry (PluginRegistry_Register info) m))"
    "cached (snd (on_registry (PluginRegistry_Register info) m)) plugin = cached m plugin"
proof -
  have "snd (on_registry (PluginRegistry_Register info) m) =
      m\<lparr> mg_registry := snd (PluginRegistry_Register info (mg_registry m)) \<rparr>"
    by (simp add: on_registry_def split: prod.split)
  with assms show "manager_ok (snd (on_registry (PluginRegistry_Register info) m))"
    "cached (snd (on_registry (PluginRegistry_Register info) m)) plugin = cached m plugin"
    by (simp_all add: manager_ok_def cached_def registry_ok_register)
qed

lemma loadPluginFromPath_ok:
  assumes "manager_ok m" "loadPluginFromPath env engineName path m = (r, m')"
  shows "manager_ok m' \<and> (\<forall>plugin. r = Inr plugin \<longrightarrow> cached m' plugin)"
proof -
  obtain r1 m1 where step: "on_loader (LoadLocal (load_env env m) path) m = (r1, m1)"
    by fastforce
  note step_ok = on_loader_load [OF assms(1) step]
  show ?thesis
    using assms(2) step step_ok
    by (cases r1) (auto simp: loadPluginFromPath_def register_manager_ok [OF step_ok(1)])
qed

lemma downloadAndLoadPlugin_ok:
  assumes "manager_ok m" "downloadAndLoadPlugin env engine m = (r, m')"
  shows "manager_ok m' \<and> (\<forall>plugin. r = Inr plugin \<longrightarrow> cached m' plugin)"
proof -
  have files: "manager_ok (m\<lparr> mg_downloader := d, mg_files := fs \<rparr>)" for d fs
    using assms(1) by (simp add: manager_ok_def)
  let ?v = "getCurrentMajorVersion (de_Overrides (me_Download env))" and ?engine = "normalizeEngineForDownload engine"
  obtain path d fs where "DownloadPlugin (me_Download env) ?engine ?v (mg_downloader m, mg_files m) = (path, d, fs)"
    by (cases "DownloadPlugin (me_Download env) ?engine ?v (mg_downloader m, mg_files m)") auto
  then show ?thesis
    using assms loadPluginFromPath_ok [OF assms(1), of env ?engine] loadPluginFromPath_ok [OF files, of env ?engine]
    by (cases path) (auto simp: downloadAndLoadPlugin_def Let_def files split: if_splits)
qed

lemma GetDefaultPlugin_ok:
  assumes "manager_ok m" "GetDefaultPlugin env engine m = (r, m')"
  shows "manager_ok m' \<and> (\<forall>plugin. r = Inr plugin \<longrightarrow> cached m' plugin)"
proof -
  obtain r1 m1 where step: "try_plugins env engine (PluginRegistry_List (me_order env) (mg_registry m)) m = (r1, m1)"
    by fastforce
  note step_ok = try_plugins_ok [OF assms(1) step]
  show ?thesis
  proof (cases "engine = []")
    case True
    with assms show ?thesis by (auto simp: GetDefaultPlugin_def)
  next
    case False
    with assms(2) step step_ok show ?thesis
      by (cases r1) (auto simp: GetDefaultPlugin_def dest: downloadAndLoadPlugin_ok)
  qed
qed

text \<open>An engine whose plugins are all loaded is served from the cache.\<close>

lemma try_engines_hit:
  assumes "engine \<in> set engines" "GetPlugin (pi_Name info) (mg_loader m) = Some plugin"
  shows "try_engines env engine info engines m = (Some plugin, m)"
  using assms by (induction engines) auto

lemma try_engines_miss: "engine \<notin> set engines \<Longrightarrow> try_engines env engine info engines m = (None, m)"
  by (induction engines) auto

lemma try_plugins_loaded:
  assumes "\<And>info. info \<in> set infos \<Longrightarrow> engine \<in> set (pi_Engines info) \<Longrightarrow> GetPlugin (pi_Name info) (mg_loader m) \<noteq> None"
  shows "try_plugins env engine infos m =
    (case find (\<lambda>info. engine \<in> set (pi_Engines info)) infos of
       None \<Rightarrow> None | Some info \<Rightarrow> GetPlugin (pi_Name info) (mg_loader m), m)"
  using assms
proof (induction infos)
  case (Cons info infos)
  show ?case
  proof (cases "engine \<in> set (pi_Engines info)")
    case True
    with Cons.prems obtain plugin where "GetPlugin (pi_Name info) (mg_loader m) = Some plugin" by force
    with True show ?thesis by (simp add: try_engines_hit)
  next
    case False
    with Cons show ?thesis by (simp add: try_engines_miss)
  qed
qed simp


text \<open>
  C35. The manager keeps its invariant and gives out only connections of a plugin that is valid, cached
  with a running process, and accepted the options; when the plugins that list the engine are loaded, asking
  for the engine starts no process and changes nothing.
\<close>

theorem connection_from_valid_plugin:
  assumes "manager_ok m" "PluginManager_GetConnection env engine uri options m = (r, m')"
  shows "manager_ok m' \<and>
    (\<forall>conn. r = Inr conn \<longrightarrow>
      (\<exists>plugin. cached m' plugin \<and> ValidatePlugin plugin = None \<and> pl_Connect plugin uri options = Inr conn \<and>
        (options \<noteq> None \<longrightarrow> pl_Validate plugin options = None))) \<and>
    (let infos = filter (\<lambda>info. engine \<in> set (pi_Engines info)) (PluginRegistry_List (me_order env) (mg_registry m))
     in infos \<noteq> [] \<and> (\<forall>info \<in> set infos. GetPlugin (pi_Name info) (mg_loader m) \<noteq> None) \<longrightarrow> m' = m)"
proof -
  obtain r1 m1 where step: "GetDefaultPlugin env engine m = (r1, m1)" by fastforce
  note step_ok = GetDefaultPlugin_ok [OF assms(1) step]
  have valid: "ValidatePlugin plugin = None" if "cached m1 plugin" for plugin
    using that step_ok loader_ok_cached(2) by (auto simp: cached_def manager_ok_def)
  have m': "m' = m \<or> m' = m1"
    using assms(2) step by (cases r1) (auto simp: PluginManager_GetConnection_def split: if_splits option.splits)
  have conn: "\<exists>plugin. cached m' plugin \<and> ValidatePlugin plugin = None \<and> pl_Connect plugin uri options = Inr conn \<and>
        (options \<noteq> None \<longrightarrow> pl_Validate plugin options = None)" if "r = Inr conn" for conn
    using assms(2) step step_ok valid that
    by (cases r1) (auto simp: PluginManager_GetConnection_def wrapE_Inr_iff split: if_splits option.splits)
  let ?infos = "PluginRegistry_List (me_order env) (mg_registry m)"
  have "m1 = m" if infos: "filter (\<lambda>info. engine \<in> set (pi_Engines info)) ?infos \<noteq> []"
      and loaded: "\<forall>info \<in> set ?infos. engine \<in> set (pi_Engines info) \<longrightarrow> GetPlugin (pi_Name info) (mg_loader m) \<noteq> None"
  proof -
    obtain i where i: "find (\<lambda>info. engine \<in> set (pi_Engines info)) ?infos = Some i"
      using infos by (cases "find (\<lambda>info. engine \<in> set (pi_Engines info)) ?infos")
        (auto simp: find_None_iff filter_empty_conv)
    then have "i \<in> set ?infos" "engine \<in> set (pi_Engines i)"
      by (auto simp: find_Some_iff)
    then obtain plugin where "GetPlugin (pi_Name i) (mg_loader m) = Some plugin"
      using loaded by blast
    then have "try_plugins env engine ?infos m = (Some plugin, m)"
      using try_plugins_loaded [of ?infos engine m env] loaded i by simp
    then show ?thesis
      using step by (auto simp: GetDefaultPlugin_def split: if_splits)
  qed
  with m' have "m' = m" if "filter (\<lambda>info. engine \<in> set (pi_Engines info)) ?infos \<noteq> []"
      and "\<forall>info \<in> set ?infos. engine \<in> set (pi_Engines info) \<longrightarrow> GetPlugin (pi_Name info) (mg_loader m) \<noteq> None"
    using that by blast
  with m' conn step_ok assms(1) show ?thesis
    unfolding Let_def by auto
qed

section \<open>Unpacking a download\<close>

lemma Base_plain: "p \<noteq> [] \<Longrightarrow> CHR ''/'' \<notin> set p \<Longrightarrow> filepath_Base p = p"
proof -
  assume p: "p \<noteq> []" "CHR ''/'' \<notin> set p"
  then have dw: "dropWhile (\<lambda>c. c = CHR ''/'') (rev p) = rev p"
    by (cases p rule: rev_cases) auto
  have tw: "takeWhile (\<lambda>c. c \<noteq> CHR ''/'') (rev p) = rev p"
    using p(2) by (intro takeWhile_eq_all_conv [THEN iffD2]) auto
  show ?thesis
    using p(1) by (simp only: filepath_Base_def Let_def dw rev_rev_ident tw if_False)
qed

lemma SplitByte_last: "CHR ''/'' \<notin> set p \<Longrightarrow> SplitByte (dir @ CHR ''/'' # p) (CHR ''/'') = SplitByte dir (CHR ''/'') @ [p]"
  by (simp add: SplitByte_append_gen)

lemma Join_snoc: "xs \<noteq> [] \<Longrightarrow> Join (xs @ [x]) sep = Join xs sep @ sep @ x"
proof (induction xs)
  case (Cons y ys)
  then show ?case by (cases "ys = []") (simp_all add: Join_Cons)
qed simp

text \<open>Joining a plain name to a clean directory appends it.\<close>

lemma Join_child:
  assumes clean: "filepath_Clean dir = dir" "dir \<noteq> ''.''" "dir \<noteq> ''/''"
    and p: "p \<noteq> []" "p \<noteq> ''.''" "p \<noteq> ''..''" "CHR ''/'' \<notin> set p"
  shows "filepath_Join [dir, p] = dir @ ''/'' @ p"
proof -
  let ?r = "HasPrefix dir ''/''"
  let ?c = "foldl (clean_step ?r) [] (SplitByte dir (CHR ''/''))"
  have "dir \<noteq> []"
    using clean(1,2) by (auto simp: filepath_Clean_def Let_def HasPrefix_iff)
  then have rooted: "HasPrefix (dir @ CHR ''/'' # p) ''/'' = ?r"
    by (cases dir) (auto simp: HasPrefix_iff)
  have dir: "(if ?r then ''/'' else []) @ Join ?c ''/'' = dir"
    using clean(1,2) by (auto simp: filepath_Clean_def Let_def split: if_splits)
  then have "?c \<noteq> []"
    using clean(3) \<open>dir \<noteq> []\<close> by (auto split: if_splits)
  have "foldl (clean_step ?r) [] (SplitByte (dir @ CHR ''/'' # p) (CHR ''/'')) = ?c @ [p]"
    using p by (simp add: SplitByte_last)
  then have "filepath_Clean (dir @ ''/'' @ p) = (if ?r then ''/'' else []) @ Join ?c ''/'' @ ''/'' @ p"
    by (simp add: filepath_Clean_def Let_def rooted Join_snoc [OF \<open>?c \<noteq> []\<close>])
  with dir have "filepath_Clean (dir @ ''/'' @ p) = dir @ ''/'' @ p"
    by (metis append_assoc)
  then show ?thesis
    using \<open>dir \<noteq> []\<close> by (simp add: filepath_Join_def)
qed

text \<open>
  C37. Unpacking an archive writes at most one file, and only inside the directory it unpacks to: the file
  is named by an entry whose name contains the name of the binary and neither a separator nor a parent
  reference, wherever else the names of the entries point.
\<close>

theorem extract_stays_in_directory:
  assumes "filepath_Clean dir = dir" "dir \<noteq> ''.''" "dir \<noteq> ''/''"
    and "extractPlugin env archive dir driver fs = (r, fs')"
  shows "fs' = fs \<or>
    (\<exists>entry f. CHR ''/'' \<notin> set entry \<and> \<not> Contains entry ''..'' \<and> Contains entry (''schemahero-'' @ driver) \<and>
      fs' = fs(dir @ ''/'' @ entry \<mapsto> f) \<and> (\<forall>path. r = Inr path \<longrightarrow> path = dir @ ''/'' @ entry \<and> fi_Perm f = 493))"
proof (cases "de_Os env ''open'' archive = None \<and> de_Os env ''gzip'' archive = None")
  case False
  with assms(4) show ?thesis by (auto simp: extractPlugin_def split: option.splits)
next
  case True
  obtain hs tail_error where hs: "de_Archive env fs archive = (hs, tail_error)" by fastforce
  have "extract_entries env dir (''schemahero-'' @ driver) hs tail_error fs = (r, fs')"
    using assms(4) True hs by (simp add: extractPlugin_def)
  then show ?thesis
  proof (induction hs)
    case Nil
    then show ?case by (simp split: option.splits)
  next
    case (Cons h hs)
    let ?name = "th_Name h"
    show ?case
    proof (cases "\<not> unsafe_entry h \<and> th_IsReg h \<and> Contains ?name (''schemahero-'' @ driver)")
      case False
      with Cons show ?thesis by (auto split: if_splits)
    next
      case True
      then obtain a b where "?name = a @ (''schemahero-'' @ driver) @ b"
        by (auto simp: Contains_iff)
      then have "11 \<le> length ?name" by simp
      then have "?name \<noteq> []" "?name \<noteq> ''.''" "?name \<noteq> ''..''" by auto
      moreover have plain: "CHR ''/'' \<notin> set ?name" "\<not> Contains ?name ''..''"
        using True by (simp_all add: unsafe_entry_def)
      ultimately have "filepath_Join [dir, filepath_Base ?name] = dir @ ''/'' @ ?name"
        using Join_child [OF assms(1-3), of ?name] Base_plain by simp
      with Cons.prems True have "fs' = fs \<or> (\<exists>f. fs' = fs(dir @ ''/'' @ ?name \<mapsto> f) \<and>
          (\<forall>path. r = Inr path \<longrightarrow> path = dir @ ''/'' @ ?name \<and> fi_Perm f = 493))"
        by (auto simp: Let_def chmod_755_def split: option.splits)
      with True plain show ?thesis by blast
    qed
  qed
qed


definition traversal_archive :: "TarHeader list" where
  "traversal_archive = [\<lparr> th_Name = ''../../bin/schemahero-postgres'', th_IsReg = True \<rparr>,
     \<lparr> th_Name = ''schemahero-postgres'', th_IsReg = True \<rparr>]"

definition archive_env :: DownloadEnv where
  "archive_env = (me_Download manager_env)\<lparr> de_Archive := (\<lambda>_ _. (traversal_archive, None)) \<rparr>"

theorem extract_stays_in_directory_witness:
  "\<exists>f. snd (extractPlugin archive_env ''a.tar.gz'' ''/root/.schemahero/plugins'' ''postgres'' Map.empty) =
     [''/root/.schemahero/plugins/schemahero-postgres'' \<mapsto> f] \<and> fi_Perm f = 493"
proof -
  let ?dir = "''/root/.schemahero/plugins''"
  obtain r fs' where run: "extractPlugin archive_env ''a.tar.gz'' ?dir ''postgres'' Map.empty = (r, fs')"
    by fastforce
  have r: "r = Inr ''/root/.schemahero/plugins/schemahero-postgres''"
  proof -
    have "fst (extractPlugin archive_env ''a.tar.gz'' ?dir ''postgres'' Map.empty) =
        Inr ''/root/.schemahero/plugins/schemahero-postgres''" by code_simp
    then show ?thesis using run by simp
  qed
  have "filepath_Clean ?dir = ?dir" by code_simp
  moreover have "fs' \<noteq> Map.empty"
  proof -
    have "snd (extractPlugin archive_env ''a.tar.gz'' ?dir ''postgres'' Map.empty) ''/root/.schemahero/plugins/schemahero-postgres'' \<noteq> None"
      by code_simp
    then show ?thesis using run by auto
  qed
  ultimately show ?thesis
    using extract_stays_in_directory [of ?dir archive_env "''a.tar.gz''" "''postgres''" Map.empty r fs'] run r by auto
qed

theorem connection_from_valid_plugin_witness:
  "\<exists>conn m' plugin. PluginManager_GetConnection manager_env ''postgres'' ''postgres://db'' None
      (sample_manager Map.empty) = (Inr conn, m') \<and> cn_DatabaseName conn = ''app'' \<and>
    manager_ok m' \<and> cached m' plugin \<and> ValidatePlugin plugin = None"
proof -
  let ?m = "sample_manager Map.empty"
  have "map_sum (\<lambda>_. ()) cn_DatabaseName (fst (PluginManager_GetConnection manager_env ''postgres'' ''postgres://db'' None ?m)) =
      Inr ''app''" by code_simp
  then obtain conn m' where run: "PluginManager_GetConnection manager_env ''postgres'' ''postgres://db'' None ?m = (Inr conn, m')"
      and "cn_DatabaseName conn = ''app''"
    by (cases "PluginManager_GetConnection manager_env ''postgres'' ''postgres://db'' None ?m" rule: prod.exhaust;
        cases "fst (PluginManager_GetConnection manager_env ''postgres'' ''postgres://db'' None ?m)") auto
  moreover have "manager_ok ?m"
    by (simp add: manager_ok_def sample_manager_def registry_ok_def NewPluginRegistry_def loader_ok_def NewPluginLoader_def)
  ultimately show ?thesis
    using connection_from_valid_plugin [OF _ run] by blast
qed

section \<open>Downloads\<close>

text \<open>The repository and the tag that the artifact is fetched from make up its reference.\<close>

lemma artifact_reference:
  assumes "ref = GetPluginArtifactRef ov goarch driver majorVersion" "tag = last (SplitByte ref (CHR '':''))"
  shows "TrimSuffix ref ('':'' @ tag) @ '':'' @ tag = ref"
proof -
  have "CHR '':'' \<in> set ref"
    using assms(1) by (simp add: GetPluginArtifactRef_def)
  then obtain ys zs where ref: "ref = ys @ CHR '':'' # zs" "CHR '':'' \<notin> set zs"
    by (metis split_list_last)
  then have "tag = zs"
    using assms(2) by (simp add: SplitByte_append_gen)
  with ref(1) show ?thesis
    by (simp add: TrimSuffix_def HasSuffix_def HasPrefix_iff)
qed

text \<open>
  A download that succeeds leaves an executable binary where the cache looks for it, unless what was
  fetched or unpacked is a directory.
\<close>

lemma install_plugin_cached:
  assumes "install_plugin env final path fs = (None, fs')" "fs final = Some f" "\<not> fi_IsDir f"
  shows "\<exists>f'. fs' path = Some f' \<and> \<not> fi_IsDir f' \<and> fi_Perm f' AND 73 \<noteq> 0"
  using assms
  by (auto simp: install_plugin_def Let_def chmod_755_def rename_def split: option.splits if_splits)

lemma extract_written:
  assumes "extract_entries env dir binary hs tail_error fs = (Inr path, fs')"
  shows "\<exists>f. fs' path = Some f \<and> \<not> fi_IsDir f"
  using assms
proof (induction hs)
  case (Cons h hs)
  then show ?case
    by (auto simp: Let_def chmod_755_def created_file_def split: if_splits option.splits)
qed (simp split: option.splits)

definition fetches_files :: "DownloadEnv \<Rightarrow> bool" where
  "fetches_files env \<longleftrightarrow>
     (\<forall>repo tag dir fs path f. snd (de_Fetch env repo tag dir fs) path = Some f \<longrightarrow> \<not> fi_IsDir f)"

lemma downloadPluginOnce_cached:
  assumes "downloadPluginOnce env driver version path fs = (None, fs')"
    and files: "fetches_files env"
  shows "\<exists>f'. fs' path = Some f' \<and> \<not> fi_IsDir f' \<and> fi_Perm f' AND 73 \<noteq> 0"
proof -
  define ref where "ref = GetPluginArtifactRef (de_Overrides env) (de_GOARCH env) driver version"
  define tag where "tag = last (SplitByte ref (CHR '':''))"
  obtain e fs1 where fetch: "de_Fetch env (TrimSuffix ref ('':'' @ tag)) tag (filepath_Dir path) fs = (e, fs1)"
    by fastforce
  note once = assms(1) [unfolded downloadPluginOnce_def Let_def, folded ref_def, folded tag_def]
  from once fetch have "e = None"
    by (auto split: option.splits)
  with once fetch obtain found where found: "find (\<lambda>path. stat_of fs1 path \<noteq> NotExist) (possiblePaths env (filepath_Dir path) driver) = Some found"
    by (auto split: option.splits)
  then obtain f where f: "fs1 found = Some f" "\<not> fi_IsDir f"
    using files fetch unfolding fetches_files_def
    by (cases "fs1 found") (auto simp: find_Some_iff stat_of_def, metis snd_conv)
  show ?thesis
  proof (cases "HasSuffix found ''.tar.gz''")
    case False
    with once fetch \<open>e = None\<close> found have "install_plugin env found path fs1 = (None, fs')"
      by (simp split: option.splits)
    then show ?thesis using f by (rule install_plugin_cached)
  next
    case True
    obtain r fs2 where ext: "extractPlugin env found (filepath_Dir path) driver fs1 = (r, fs2)"
      by fastforce
    with True once fetch \<open>e = None\<close> found obtain final where "r = Inr final" "install_plugin env final path fs2 = (None, fs')"
      by (auto split: option.splits sum.splits)
    moreover from this ext obtain f2 where "fs2 final = Some f2" "\<not> fi_IsDir f2"
      using extract_written by (fastforce simp: extractPlugin_def split: option.splits prod.splits)
    ultimately show ?thesis using install_plugin_cached by blast
  qed
qed

lemma download_then_cached:
  assumes "DownloadPlugin env driver version (d, fs) = (Inr path, d', fs')" "driver @ '':'' @ version \<notin> set (dl_downloadOnce d)"
    and "fetches_files env"
  shows "path = GetCachedPluginPath d' driver version \<and> IsPluginCached fs' d' driver version"
proof (cases "IsPluginCached fs d driver version")
  case True
  with assms(1) show ?thesis by (auto simp: DownloadPlugin_def Let_def split: if_splits)
next
  case False
  with assms(1,2) have once: "downloadPluginOnce env driver version (GetCachedPluginPath d driver version) fs = (None, fs')"
    and "path = GetCachedPluginPath d driver version" "dl_cacheDir d' = dl_cacheDir d"
    by (auto simp: DownloadPlugin_def Let_def split: if_splits prod.splits option.splits)
  with downloadPluginOnce_cached [OF once assms(3)] show ?thesis
    by (auto simp: IsPluginCached_def GetCachedPluginPath_def stat_of_def split: option.splits)
qed

text \<open>A plugin that was downloaded once and then removed from the cache is not downloaded again.\<close>

lemma removed_plugin_not_downloaded_again:
  assumes "driver \<noteq> []" "version \<noteq> []" "driver @ '':'' @ version \<in> set (dl_downloadOnce d)"
    and "CleanPluginCache env text_of driver version (d, fs) = (None, d', fs')"
  shows "DownloadPlugin env driver version (d', fs') = (Inr (GetCachedPluginPath d driver version), d', fs')"
    "\<not> IsPluginCached fs' d' driver version"
proof -
  have "d' = d" "fs' (GetCachedPluginPath d driver version) = None"
    using assms(4) by (auto simp: CleanPluginCache_def Let_def split: option.splits if_splits)
  then show "\<not> IsPluginCached fs' d' driver version"
    by (simp add: IsPluginCached_def stat_of_def)
  then show "DownloadPlugin env driver version (d', fs') = (Inr (GetCachedPluginPath d driver version), d', fs')"
    using assms(1-3) \<open>d' = d\<close> by (simp add: DownloadPlugin_def Let_def)
qed

section \<open>The plugins of the repository\<close>

text \<open>Discovery registers fewer engines than the plugins support.\<close>

lemma discovered_engines_incomplete:
  "''cockroachdb'' \<in> set SupportedEngines" "''cockroachdb'' \<notin> set (discovered_engines ''postgres'')"
  "''sqlite3'' \<in> set sq_SupportedEngines" "''sqlite3'' \<notin> set (discovered_engines ''sqlite'')"
  by (simp_all add: SupportedEngines_def sq_SupportedEngines_def discovered_engines_def)

text \<open>The options of fixture generation are refused by the plugin of Cassandra before it connects.\<close>

lemma cassandra_fixtures_refused:
  assumes "GetDefaultPlugin env ''cassandra'' m = (Inr plugin, m')"
    and "\<And>options. pl_Validate plugin (Some options) = CassandraPlugin_Validate (\<lambda>k. map_option Some (options k))"
  shows "\<exists>e. PluginManager_GetConnection env ''cassandra'' uri (Some [''fixture-only'' \<mapsto> OptBool True]) m = (Inl e, m')"
  using assms by (simp add: PluginManager_GetConnection_def CassandraPlugin_Validate_def)

text \<open>A hypertable that asks for no default indexes reaches the plugin without that wish.\<close>

lemma hypertable_default_indexes_lost:
  assumes "tht_CreateDefaultIndexes ht = Some False"
  shows "bool_param ''create_default_indexes'' (tht_CreateDefaultIndexes ht) = [''create_default_indexes => false'']"
    "bool_param ''create_default_indexes'' (tht_CreateDefaultIndexes (gob_TimescaleDBHypertable ht)) = []"
  using assms by (simp_all add: bool_param_def bool_text_def gob_TimescaleDBHypertable_def gob_ptr_def)

end
