(* ===== verification/Generate.thy ===== *)
theory Generate
  imports Plugins Db_Dialects
begin

text \<open>
  src/pkg/generate/generate.go: the generator, which reads the tables of a database through a plugin and
  writes a Table resource for each of them, and a kustomization that lists the files.

  The file system is a map from cleaned paths to nodes; the failures that it does not decide, such as
  missing permissions, are arguments (\<open>GenEnv\<close>). The lines printed are
  kept next to it. The marshalling of gopkg.in/yaml.v2 is an argument
  too. The connection is the record \<open>FullConnection\<close> of the theory \<open>Rpc\<close>, and the manager that gives it out
  the one of the theory \<open>Plugins\<close>.
\<close>

section \<open>Files and output\<close>

datatype node = Dir | File string

record Output =
  out_nodes :: "string \<rightharpoonup> node"
  out_stdout :: "string list"

record GenEnv =
  ge_StatFails :: "string \<Rightarrow> go_error option"
  ge_MkdirFails :: "string \<Rightarrow> go_error option"
  ge_WriteFails :: "string \<Rightarrow> go_error option"
  ge_MarshalSpec :: "TableSpec \<Rightarrow> string result"
  ge_MarshalResources :: "string list \<Rightarrow> string result"

definition Println :: "string \<Rightarrow> Output \<Rightarrow> Output" where
  "Println line out = out\<lparr> out_stdout := out_stdout out @ [line] \<rparr>"

definition ErrNotExist :: "string \<Rightarrow> string \<Rightarrow> go_error" where
  "ErrNotExist op path = ErrNew (op @ '' '' @ path @ '': no such file or directory'')"

text \<open>The node of a path; the directory the program runs in and the root are there.\<close>

definition node_at :: "Output \<Rightarrow> string \<Rightarrow> node option" where
  "node_at out path =
     (let p = filepath_Clean path in if p = ''.'' \<or> p = ''/'' then Some Dir else out_nodes out p)"

text \<open>The stat of an empty path fails with ENOENT, as the mkdir of one does.\<close>

definition Stat :: "GenEnv \<Rightarrow> string \<Rightarrow> Output \<Rightarrow> node option result" where
  "Stat env path out =
     (case ge_StatFails env path of
        Some e \<Rightarrow> Inl e
      | None \<Rightarrow> Inr (if path = [] then None else node_at out path))"

text \<open>The path and the directories above it, from the outermost in.\<close>

definition path_chain :: "string \<Rightarrow> string list" where
  "path_chain path = map (\<lambda>i. take i path) (filter (\<lambda>i. path ! i = CHR ''/'') [1..<length path]) @ [path]"

definition is_file :: "node option \<Rightarrow> bool" where
  "is_file n = (case n of Some (File _) \<Rightarrow> True | _ \<Rightarrow> False)"

definition MkdirAll :: "GenEnv \<Rightarrow> string \<Rightarrow> Output \<Rightarrow> go_error option \<times> Output" where
  "MkdirAll env path out =
     (if path = [] then (Some (ErrNotExist ''mkdir'' path), out)
      else case ge_MkdirFails env path of
             Some e \<Rightarrow> (Some e, out)
           | None \<Rightarrow>
               let chain = path_chain (filepath_Clean path)
               in if list_ex (\<lambda>p. is_file (out_nodes out p)) chain
                  then (Some (ErrNew (''mkdir '' @ path @ '': not a directory'')), out)
                  else (None, out\<lparr> out_nodes := fold (\<lambda>p ns. ns(p \<mapsto> Dir)) chain (out_nodes out) \<rparr>))"

definition WriteFile :: "GenEnv \<Rightarrow> string \<Rightarrow> string \<Rightarrow> Output \<Rightarrow> go_error option \<times> Output" where
  "WriteFile env path data out =
     (case ge_WriteFails env path of
        Some e \<Rightarrow> (Some e, out)
      | None \<Rightarrow>
          if node_at out (filepath_Dir path) \<noteq> Some Dir then (Some (ErrNotExist ''open'' path), out)
          else if node_at out path = Some Dir then (Some (ErrNew (''open '' @ path @ '': is a directory'')), out)
          else (None, out\<lparr> out_nodes := (out_nodes out)(filepath_Clean path \<mapsto> File data) \<rparr>))"

section \<open>The generator\<close>

record 'conn Generator =
  gen_Driver :: string
  gen_URI :: string
  gen_DBName :: string
  gen_OutputDir :: string
  gen_Schemas :: "string list"
  gen_pluginManager :: "'conn PluginManager option"

definition Generator_SetPluginManager :: "'conn PluginManager option \<Rightarrow> 'conn Generator \<Rightarrow> 'conn Generator" where
  "Generator_SetPluginManager manager g = g\<lparr> gen_pluginManager := manager \<rparr>"

definition postgres_like :: "string \<Rightarrow> bool" where
  "postgres_like driver \<longleftrightarrow>
     driver = ''postgres'' \<or> driver = ''postgresql'' \<or> driver = ''cockroachdb'' \<or> driver = ''timescaledb''"

text \<open>The URI with the schemas the user asked for, unless it names schemas already.\<close>

definition add_parameter :: "string \<Rightarrow> string \<Rightarrow> string" where
  "add_parameter uri parameter = uri @ (if Contains uri ''?'' then ''&'' else ''?'') @ parameter"

definition uri_with_schemas :: "'conn Generator \<Rightarrow> string" where
  "uri_with_schemas g =
     (let uri = gen_URI g; schemas = gen_Schemas g
      in if postgres_like (gen_Driver g) \<and> \<not> Contains uri ''schema='' \<and> \<not> Contains uri ''schemas='' \<and> length schemas > 0
         then (if length schemas = 1 \<and> hd schemas \<noteq> ''public''
               then add_parameter uri (''schema='' @ hd schemas)
               else if length schemas > 1 \<or> (length schemas = 1 \<and> hd schemas \<noteq> ''public'')
               then add_parameter uri (''schemas='' @ Join schemas '','')
               else uri)
         else uri)"

definition getConnection :: "'conn ManagerEnv \<Rightarrow> 'conn Generator \<Rightarrow> 'conn result \<times> 'conn Generator" where
  "getConnection menv g =
     (case gen_pluginManager g of
        None \<Rightarrow> (Inl (ErrNew ''plugin manager not set - use SetPluginManager() before calling RunSync()''), g)
      | Some m \<Rightarrow>
          (case PluginManager_GetConnection menv (gen_Driver g) (uri_with_schemas g) (Some Map.empty) m of
             (r, m') \<Rightarrow>
               (wrapE (''failed to connect to '' @ gen_Driver g @ '' database'') r, g\<lparr> gen_pluginManager := Some m' \<rparr>)))"

section \<open>The resource of a table\<close>

definition sanitizeName :: "string \<Rightarrow> string" where
  "sanitizeName name = ReplaceAll name ''_'' ''-''"

definition empty_schema :: TableSchema where
  "empty_schema =
     \<lparr> ts_Postgres = None, ts_Mysql = None, ts_CockroachDB = None, ts_Cassandra = None, ts_TimescaleDB = None,
       ts_SQLite = None, ts_RQLite = None \<rparr>"

definition tableDoc :: "string \<Rightarrow> string \<Rightarrow> string" where
  "tableDoc name b =
     ''apiVersion: schemas.schemahero.io/v1alpha4'' @ [newline] @ ''kind: Table'' @ [newline] @ ''metadata:'' @ [newline] @
     ''  name: '' @ sanitizeName name @ [newline] @ b"

text \<open>The spec around a schema, marshalled and put under the header.\<close>

definition table_spec :: "string \<Rightarrow> Table \<Rightarrow> TableSchema \<Rightarrow> TableSpec" where
  "table_spec dbName table schema =
     \<lparr> tsp_Database = dbName, tsp_Name = tb_Name table, tsp_Requires = [], tsp_Schema = Some schema, tsp_SeedData = None \<rparr>"

definition marshal_table :: "GenEnv \<Rightarrow> string \<Rightarrow> Table \<Rightarrow> TableSchema \<Rightarrow> string result" where
  "marshal_table env dbName table schema =
     bindE (ge_MarshalSpec env (table_spec dbName table schema)) (\<lambda>b. Inr (tableDoc (tb_Name table) b))"

text \<open>The five translations. The conversions of a column never fail, although their type allows it.\<close>

definition mysql_schema ::
  "Table \<Rightarrow> string list \<Rightarrow> ForeignKey list \<Rightarrow> Index list \<Rightarrow> Column list \<Rightarrow> TableSchema" where
  "mysql_schema table primaryKey foreignKeys indexes columns =
     empty_schema\<lparr> ts_Mysql := Some
       \<lparr> mts_PrimaryKey = primaryKey, mts_ForeignKeys = map ForeignKeyToMysqlSchemaForeignKey foreignKeys,
         mts_Indexes = map IndexToMysqlSchemaIndex indexes, mts_Columns = map ColumnToMysqlSchemaColumn columns,
         mts_IsDeleted = False, mts_DefaultCharset = tb_Charset table, mts_Collation = tb_Collation table \<rparr> \<rparr>"

definition generateMysqlTableYAML ::
  "GenEnv \<Rightarrow> string \<Rightarrow> Table \<Rightarrow> string list \<Rightarrow> ForeignKey list \<Rightarrow> Index list \<Rightarrow> Column list \<Rightarrow> string result" where
  "generateMysqlTableYAML env dbName table primaryKey foreignKeys indexes columns =
     marshal_table env dbName table (mysql_schema table primaryKey foreignKeys indexes columns)"

definition postgresql_table ::
  "string list \<Rightarrow> ForeignKey list \<Rightarrow> Index list \<Rightarrow> Column list \<Rightarrow> PostgresqlTableSchema" where
  "postgresql_table primaryKey foreignKeys indexes columns =
     empty_table_schema\<lparr> pts_PrimaryKey := primaryKey,
       pts_ForeignKeys := map ForeignKeyToPostgresqlSchemaForeignKey foreignKeys,
       pts_Indexes := map IndexToPostgresqlSchemaIndex indexes,
       pts_Columns := map ColumnToPostgresqlSchemaColumn columns \<rparr>"

definition postgresql_schema ::
  "string \<Rightarrow> string list \<Rightarrow> ForeignKey list \<Rightarrow> Index list \<Rightarrow> Column list \<Rightarrow> TableSchema" where
  "postgresql_schema driver primaryKey foreignKeys indexes columns =
     (let tableSchema = postgresql_table primaryKey foreignKeys indexes columns
      in if driver = ''postgres'' then empty_schema\<lparr> ts_Postgres := Some tableSchema \<rparr>
         else if driver = ''cockroachdb'' then empty_schema\<lparr> ts_CockroachDB := Some tableSchema \<rparr>
         else empty_schema)"

definition generatePostgresqlTableYAML ::
  "GenEnv \<Rightarrow> string \<Rightarrow> string \<Rightarrow> Table \<Rightarrow> string list \<Rightarrow> ForeignKey list \<Rightarrow> Index list \<Rightarrow> Column list \<Rightarrow> string result" where
  "generatePostgresqlTableYAML env driver dbName table primaryKey foreignKeys indexes columns =
     marshal_table env dbName table (postgresql_schema driver primaryKey foreignKeys indexes columns)"

definition rqlite_schema :: "string list \<Rightarrow> ForeignKey list \<Rightarrow> Index list \<Rightarrow> Column list \<Rightarrow> TableSchema" where
  "rqlite_schema primaryKey foreignKeys indexes columns =
     empty_schema\<lparr> ts_RQLite := Some
       \<lparr> rts_PrimaryKey = primaryKey, rts_ForeignKeys = map ForeignKeyToRqliteSchemaForeignKey foreignKeys,
         rts_Indexes = map IndexToRqliteSchemaIndex indexes, rts_Columns = map ColumnToRqliteSchemaColumn columns,
         rts_IsDeleted = False, rts_Strict = False \<rparr> \<rparr>"

definition generateRqliteTableYAML ::
  "GenEnv \<Rightarrow> string \<Rightarrow> Table \<Rightarrow> string list \<Rightarrow> ForeignKey list \<Rightarrow> Index list \<Rightarrow> Column list \<Rightarrow> string result" where
  "generateRqliteTableYAML env dbName table primaryKey foreignKeys indexes columns =
     marshal_table env dbName table (rqlite_schema primaryKey foreignKeys indexes columns)"

definition sqlite_schema :: "string list \<Rightarrow> ForeignKey list \<Rightarrow> Index list \<Rightarrow> Column list \<Rightarrow> TableSchema" where
  "sqlite_schema primaryKey foreignKeys indexes columns =
     empty_schema\<lparr> ts_SQLite := Some
       \<lparr> sts_PrimaryKey = primaryKey, sts_ForeignKeys = map ForeignKeyToSqliteSchemaForeignKey foreignKeys,
         sts_Indexes = map IndexToSqliteSchemaIndex indexes, sts_Columns = map ColumnToSqliteSchemaColumn columns,
         sts_IsDeleted = False, sts_Strict = False \<rparr> \<rparr>"

definition generateSqliteTableYAML ::
  "GenEnv \<Rightarrow> string \<Rightarrow> Table \<Rightarrow> string list \<Rightarrow> ForeignKey list \<Rightarrow> Index list \<Rightarrow> Column list \<Rightarrow> string result" where
  "generateSqliteTableYAML env dbName table primaryKey foreignKeys indexes columns =
     marshal_table env dbName table (sqlite_schema primaryKey foreignKeys indexes columns)"

definition cassandra_schema :: "string list \<Rightarrow> Column list \<Rightarrow> TableSchema" where
  "cassandra_schema primaryKey columns =
     empty_schema\<lparr> ts_Cassandra := Some
       \<lparr> cts_IsDeleted = False, cts_PrimaryKey = Some (if length primaryKey > 0 then [primaryKey] else []),
         cts_ClusteringOrder = None,
         cts_Columns = map (\<lambda>c. \<lparr> ccol_Name = col_Name c, ccol_Type = col_DataType c, ccol_IsStatic = None \<rparr>) columns,
         cts_Properties = None \<rparr> \<rparr>"

definition generateCassandraTableYAML ::
  "GenEnv \<Rightarrow> string \<Rightarrow> Table \<Rightarrow> string list \<Rightarrow> ForeignKey list \<Rightarrow> Index list \<Rightarrow> Column list \<Rightarrow> string result" where
  "generateCassandraTableYAML env dbName table primaryKey foreignKeys indexes columns =
     marshal_table env dbName table (cassandra_schema primaryKey columns)"

definition generateTableYAML ::
  "GenEnv \<Rightarrow> string \<Rightarrow> string \<Rightarrow> Table \<Rightarrow> string list \<Rightarrow> ForeignKey list \<Rightarrow> Index list \<Rightarrow> Column list \<Rightarrow> string result" where
  "generateTableYAML env driver dbName table primaryKey foreignKeys indexes columns =
     (if driver \<in> {''mysql'', ''mariadb''} then generateMysqlTableYAML env dbName table primaryKey foreignKeys indexes columns
      else if driver = ''rqlite'' then generateRqliteTableYAML env dbName table primaryKey foreignKeys indexes columns
      else if driver \<in> {''sqlite'', ''sqlite3''} then generateSqliteTableYAML env dbName table primaryKey foreignKeys indexes columns
      else if driver = ''cassandra'' then generateCassandraTableYAML env dbName table primaryKey foreignKeys indexes columns
      else if driver \<in> {''postgres'', ''postgresql'', ''cockroachdb'', ''timescaledb''}
      then generatePostgresqlTableYAML env driver dbName table primaryKey foreignKeys indexes columns
      else Inl (ErrNew (''unsupported database driver for generate: '' @ driver)))"

section \<open>RunSync\<close>

text \<open>What is read of a table, and the document made from it.\<close>

definition introspect_table :: "GenEnv \<Rightarrow> 'db FullConnection \<Rightarrow> 'c Generator \<Rightarrow> Table \<Rightarrow> string result" where
  "introspect_table env db g table =
     bindE (wrapE ''failed to get table primary key'' (cn_GetTablePrimaryKey db (tb_Name table))) (\<lambda>primaryKey.
     bindE (wrapE ''failed to list table foreign keys'' (cn_ListTableForeignKeys db (gen_DBName g) (tb_Name table))) (\<lambda>foreignKeys.
     bindE (wrapE ''failed to list table indexes'' (cn_ListTableIndexes db (gen_DBName g) (tb_Name table))) (\<lambda>indexes.
     bindE (wrapE ''failed to get table schema'' (cn_GetTableSchema db (tb_Name table))) (\<lambda>columns.
     wrapE ''failed to generate table yaml''
       (generateTableYAML env (gen_Driver g) (gen_DBName g) table
          (case primaryKey of None \<Rightarrow> [] | Some k \<Rightarrow> kc_Columns k) foreignKeys indexes columns)))))"

definition ensure_output_dir :: "GenEnv \<Rightarrow> string \<Rightarrow> Output \<Rightarrow> go_error option \<times> Output" where
  "ensure_output_dir env dir out =
     (case Stat env dir out of
        Inl e \<Rightarrow> (Some (wrap_error ''failed to check if output dir exists'' e), out)
      | Inr None \<Rightarrow>
          (case MkdirAll env dir out of (e, out) \<Rightarrow> (map_option (wrap_error ''failed to create output dir'') e, out))
      | Inr (Some (File _)) \<Rightarrow> (Some (ErrNew ''output dir already exists and is not a directory''), out)
      | Inr (Some Dir) \<Rightarrow> (None, out))"

definition table_file :: "string \<Rightarrow> Table \<Rightarrow> string" where
  "table_file dir table = filepath_Join [dir, sanitizeName (tb_Name table) @ ''.yaml'']"

definition table_resource :: "Table \<Rightarrow> string" where
  "table_resource table = ''./'' @ sanitizeName (tb_Name table) @ ''.yaml''"

fun generate_tables ::
  "GenEnv \<Rightarrow> 'db FullConnection \<Rightarrow> 'c Generator \<Rightarrow> Table list \<Rightarrow> string list \<Rightarrow> Output \<Rightarrow> string list result \<times> Output" where
  "generate_tables env db g [] filesWritten out = (Inr filesWritten, out)"
| "generate_tables env db g (table # tables) filesWritten out =
     (case introspect_table env db g table of
        Inl e \<Rightarrow> (Inl e, out)
      | Inr tableYAML \<Rightarrow>
          (case ensure_output_dir env (gen_OutputDir g) out of
             (Some e, out) \<Rightarrow> (Inl e, out)
           | (None, out) \<Rightarrow>
               if gen_OutputDir g \<noteq> []
               then (case WriteFile env (table_file (gen_OutputDir g) table) tableYAML out of
                       (Some e, out) \<Rightarrow> (Inl e, out)
                     | (None, out) \<Rightarrow> generate_tables env db g tables (filesWritten @ [table_resource table]) out)
               else generate_tables env db g tables filesWritten (Println ''---'' (Println tableYAML out))))"

definition write_kustomization ::
  "GenEnv \<Rightarrow> 'c Generator \<Rightarrow> string list \<Rightarrow> Output \<Rightarrow> go_error option \<times> Output" where
  "write_kustomization env g filesWritten out =
     (if gen_OutputDir g \<noteq> []
      then (case ge_MarshalResources env filesWritten of
              Inl e \<Rightarrow> (Some e, out)
            | Inr kustomizeDoc \<Rightarrow> WriteFile env (filepath_Join [gen_OutputDir g, ''kustomization.yaml'']) kustomizeDoc out)
      else (None, out))"

definition RunSync ::
  "GenEnv \<Rightarrow> 'db FullConnection ManagerEnv \<Rightarrow> 'db FullConnection Generator \<Rightarrow> Output \<Rightarrow>
   go_error option \<times> 'db FullConnection Generator \<times> Output" where
  "RunSync env menv g out =
     (let out = Println (''connecting to '' @ gen_URI g) out
      in case getConnection menv g of
           (Inl e, g) \<Rightarrow> (Some (wrap_error ''failed to connect to database'' e), g, out)
         | (Inr db, g) \<Rightarrow>
             (case cn_ListTables db of
                Inl e \<Rightarrow> (Some (wrap_error ''failed to list tables'' e), g, out)
              | Inr tables \<Rightarrow>
                  (case generate_tables env db g tables [] out of
                     (Inl e, out) \<Rightarrow> (Some e, g, out)
                   | (Inr filesWritten, out) \<Rightarrow>
                       (case write_kustomization env g filesWritten out of (e, out) \<Rightarrow> (e, g, out)))))"

end
