(* ===== verification/Generate_Correct.thy ===== *)
theory Generate_Correct
  imports Generate Plugins_Correct Pg_Correct
begin

text \<open>
  What the generator writes, and that a generated table needs no change: planning the resource against
  the database it was generated from gives no statement.
\<close>

section \<open>The files\<close>

definition fault_free :: "GenEnv \<Rightarrow> bool" where
  "fault_free env \<longleftrightarrow>
     (\<forall>path. ge_StatFails env path = None \<and> ge_MkdirFails env path = None \<and> ge_WriteFails env path = None)"

text \<open>A directory given by a clean path, and the file names in it.\<close>

definition proper_dir :: "string \<Rightarrow> bool" where
  "proper_dir dir \<longleftrightarrow> filepath_Clean dir = dir \<and> dir \<noteq> ''.'' \<and> dir \<noteq> ''/''"

definition file_names :: "Table list \<Rightarrow> string list" where
  "file_names tables = map (\<lambda>t. sanitizeName (tb_Name t) @ ''.yaml'') tables @ [''kustomization.yaml'']"

definition in_dir :: "string \<Rightarrow> string \<Rightarrow> string" where
  "in_dir dir f = dir @ ''/'' @ f"

text \<open>The directory is there, or can be made; and no file to write is a directory.\<close>

definition usable_dir :: "string \<Rightarrow> Output \<Rightarrow> string list \<Rightarrow> bool" where
  "usable_dir dir out files \<longleftrightarrow>
     (out_nodes out dir = Some Dir \<or>
      out_nodes out dir = None \<and> \<not> list_ex (\<lambda>p. is_file (out_nodes out p)) (path_chain dir)) \<and>
     list_all (\<lambda>f. out_nodes out (in_dir dir f) \<noteq> Some Dir) files"

lemma proper_dir_not_Nil: "proper_dir dir \<Longrightarrow> dir \<noteq> []"
  by (auto simp: proper_dir_def filepath_Clean_def Let_def HasPrefix_iff)

lemma Clean_child:
  assumes "proper_dir dir" "p \<noteq> []" "p \<noteq> ''.''" "p \<noteq> ''..''" "CHR ''/'' \<notin> set p"
  shows "filepath_Join [dir, p] = in_dir dir p" "filepath_Clean (in_dir dir p) = in_dir dir p"
    "filepath_Dir (in_dir dir p) = dir"
proof -
  show j: "filepath_Join [dir, p] = in_dir dir p"
    using Join_child [of dir p] assms by (simp add: proper_dir_def in_dir_def)
  then show "filepath_Clean (in_dir dir p) = in_dir dir p"
    using proper_dir_not_Nil [OF assms(1)] by (simp add: filepath_Join_def in_dir_def)
  have "dropWhile (\<lambda>c. c \<noteq> CHR ''/'') (rev (in_dir dir p)) = CHR ''/'' # rev dir"
    using assms(5) by (subst in_dir_def) (auto simp: dropWhile_append3 dropWhile_append2)
  then have "filepath_Dir (in_dir dir p) = filepath_Clean (dir @ ''/'')"
    by (simp add: filepath_Dir_def)
  also have "\<dots> = filepath_Clean dir"
  proof -
    have "HasPrefix (dir @ ''/'') ''/'' = HasPrefix dir ''/''"
      using proper_dir_not_Nil [OF assms(1)] by (cases dir) (auto simp: HasPrefix_iff)
    then show ?thesis
      using SplitByte_last [of "[]" dir] by (simp add: filepath_Clean_def Let_def)
  qed
  finally show "filepath_Dir (in_dir dir p) = dir" using assms(1) by (simp add: proper_dir_def)
qed

lemma in_dir_neq: "in_dir dir p \<noteq> ''.''" "in_dir dir p \<noteq> dir" "p \<noteq> [] \<Longrightarrow> in_dir dir p \<noteq> ''/''"
  by (simp_all add: in_dir_def append_eq_Cons_conv)

lemma out_nodes_Println [simp]: "out_nodes (Println line out) = out_nodes out"
  by (simp add: Println_def)

definition put_files :: "(string \<times> string) list \<Rightarrow> (string \<rightharpoonup> node) \<Rightarrow> (string \<rightharpoonup> node)" where
  "put_files fs ns = fold (\<lambda>(p, d) ns. ns(p \<mapsto> File d)) fs ns"

lemma put_files_simps [simp]:
  "put_files [] ns = ns" "put_files ((p, d) # fs) ns = put_files fs (ns(p \<mapsto> File d))"
  "put_files (fs @ fs') ns = put_files fs' (put_files fs ns)"
  by (simp_all add: put_files_def)

lemma put_files_other: "p \<notin> fst ` set fs \<Longrightarrow> put_files fs ns p = ns p"
  by (induction fs arbitrary: ns) (auto simp: put_files_def)

lemma put_files_member: "distinct (map fst fs) \<Longrightarrow> (p, d) \<in> set fs \<Longrightarrow> put_files fs ns p = Some (File d)"
proof (induction fs arbitrary: ns)
  case (Cons f fs)
  then show ?case by (cases f) (auto simp: put_files_other image_iff)
qed simp

lemma sanitizeName_chars: "set (sanitizeName n) \<subseteq> set n \<union> {CHR ''-''}"
  using set_ReplaceAll [of n "''_''" "''-''"] by (simp add: sanitizeName_def)

lemma yaml_file:
  assumes "proper_dir dir" "CHR ''/'' \<notin> set n"
  shows "filepath_Join [dir, n @ ''.yaml''] = in_dir dir (n @ ''.yaml'')"
    "filepath_Clean (in_dir dir (n @ ''.yaml'')) = in_dir dir (n @ ''.yaml'')"
    "filepath_Dir (in_dir dir (n @ ''.yaml'')) = dir"
  using Clean_child [OF assms(1), of "n @ ''.yaml''"] assms(2)
  by (auto simp: append_eq_Cons_conv)

lemma WriteFile_in_dir:
  assumes "fault_free env" "proper_dir dir" "CHR ''/'' \<notin> set n" "out_nodes out dir = Some Dir"
    and "out_nodes out (in_dir dir (n @ ''.yaml'')) \<noteq> Some Dir"
  shows "WriteFile env (filepath_Join [dir, n @ ''.yaml'']) d out =
     (None, out\<lparr> out_nodes := (out_nodes out)(in_dir dir (n @ ''.yaml'') \<mapsto> File d) \<rparr>)"
  using assms in_dir_neq [where dir = dir]
  by (simp add: WriteFile_def fault_free_def node_at_def yaml_file Let_def) (simp add: proper_dir_def)

lemma ensure_existing:
  "fault_free env \<Longrightarrow> proper_dir dir \<Longrightarrow> out_nodes out dir = Some Dir \<Longrightarrow> ensure_output_dir env dir out = (None, out)"
  by (simp add: ensure_output_dir_def Stat_def fault_free_def node_at_def proper_dir_not_Nil) (simp add: proper_dir_def)

definition made_dir :: "string \<Rightarrow> Output \<Rightarrow> Output" where
  "made_dir dir out =
     (if out_nodes out dir = Some Dir then out
      else out\<lparr> out_nodes := fold (\<lambda>p ns. ns(p \<mapsto> Dir)) (path_chain dir) (out_nodes out) \<rparr>)"

lemma fold_dirs: "fold (\<lambda>p ns. ns(p \<mapsto> Dir)) ps ns q = (if q \<in> set ps then Some Dir else ns q)"
  by (induction ps arbitrary: ns) auto

lemma chain_length: "p \<in> set (path_chain dir) \<Longrightarrow> length p \<le> length dir"
  by (auto simp: path_chain_def)

lemma chain_self: "dir \<in> set (path_chain dir)"
  by (simp add: path_chain_def)

lemma made_dir_nodes:
  "out_nodes (made_dir dir out) dir = Some Dir"
  "out_nodes (made_dir dir out) (in_dir dir f) = out_nodes out (in_dir dir f)"
  "p \<notin> set (path_chain dir) \<Longrightarrow> out_nodes (made_dir dir out) p = out_nodes out p"
  using chain_length [of "in_dir dir f" dir] chain_self [of dir]
  by (auto simp: made_dir_def fold_dirs in_dir_def)

lemma MkdirAll_usable:
  assumes "fault_free env" "proper_dir dir" "\<not> list_ex (\<lambda>p. is_file (out_nodes out p)) (path_chain dir)"
  shows "MkdirAll env dir out = (None, out\<lparr> out_nodes := fold (\<lambda>p ns. ns(p \<mapsto> Dir)) (path_chain dir) (out_nodes out) \<rparr>)"
  using assms proper_dir_not_Nil [OF assms(2)] by (simp add: MkdirAll_def fault_free_def proper_dir_def Let_def)

lemma ensure_usable:
  assumes "fault_free env" "proper_dir dir" "usable_dir dir out fs"
  shows "ensure_output_dir env dir out = (None, made_dir dir out)"
proof (cases "out_nodes out dir = Some Dir")
  case True
  then show ?thesis using assms by (simp add: ensure_existing made_dir_def)
next
  case False
  then have none: "out_nodes out dir = None" "\<not> list_ex (\<lambda>p. is_file (out_nodes out p)) (path_chain dir)"
    using assms(3) by (auto simp: usable_dir_def)
  then have "Stat env dir out = Inr None"
    using assms(1,2) by (simp add: Stat_def fault_free_def node_at_def) (simp add: proper_dir_def)
  then show ?thesis
    using False MkdirAll_usable [OF assms(1,2) none(2)] by (simp add: ensure_output_dir_def made_dir_def)
qed

text \<open>The loop once the directory is there.\<close>

abbreviation table_name :: "Table \<Rightarrow> string" where
  "table_name t \<equiv> sanitizeName (tb_Name t)"

definition table_files :: "string \<Rightarrow> Table list \<Rightarrow> string list \<Rightarrow> (string \<times> string) list" where
  "table_files dir tables docs = zip (map (\<lambda>t. in_dir dir (table_name t @ ''.yaml'')) tables) docs"

lemma generate_tables_run:
  assumes "fault_free env" "proper_dir (gen_OutputDir g)" "out_nodes out (gen_OutputDir g) = Some Dir"
    and "list_all (\<lambda>t. CHR ''/'' \<notin> set (tb_Name t)) tables"
    and "list_all (\<lambda>t. out_nodes out (in_dir (gen_OutputDir g) (table_name t @ ''.yaml'')) \<noteq> Some Dir) tables"
    and "mapE (introspect_table env db g) tables = Inr docs"
  shows "generate_tables env db g tables ws out =
     (Inr (ws @ map table_resource tables),
      out\<lparr> out_nodes := put_files (table_files (gen_OutputDir g) tables docs) (out_nodes out) \<rparr>)"
  using assms(3-6)
proof (induction tables arbitrary: ws out docs)
  case (Cons t tables)
  let ?dir = "gen_OutputDir g" and ?f = "in_dir (gen_OutputDir g) (table_name t @ ''.yaml'')"
  obtain d ds where docs: "docs = d # ds" "introspect_table env db g t = Inr d"
    "mapE (introspect_table env db g) tables = Inr ds"
    using Cons.prems(4) by (auto simp: bindE_Inr_iff)
  let ?out = "out\<lparr> out_nodes := (out_nodes out)(?f \<mapsto> File d) \<rparr>"
  have "CHR ''/'' \<notin> set (table_name t)"
    using Cons.prems(2) sanitizeName_chars [of "tb_Name t"] by auto
  then have w: "WriteFile env (table_file ?dir t) d out = (None, ?out)"
    using WriteFile_in_dir [OF assms(1,2)] Cons.prems(1,3) by (simp add: table_file_def)
  have "generate_tables env db g tables (ws @ [table_resource t]) ?out =
     (Inr ((ws @ [table_resource t]) @ map table_resource tables),
      ?out\<lparr> out_nodes := put_files (table_files ?dir tables ds) (out_nodes ?out) \<rparr>)"
    using Cons.prems(1-3) docs(3) in_dir_neq(2) [of ?dir] by (intro Cons.IH) (auto simp: list_all_iff)
  then show ?case
    using docs(1,2) w ensure_existing [OF assms(1,2) Cons.prems(1)] proper_dir_not_Nil [OF assms(2)]
    by (simp add: table_files_def)
qed (simp add: table_files_def)

lemma generate_tables_files:
  assumes "fault_free env" "proper_dir (gen_OutputDir g)" "usable_dir (gen_OutputDir g) out (file_names tables)"
    and "tables \<noteq> []" "list_all (\<lambda>t. CHR ''/'' \<notin> set (tb_Name t)) tables"
    and "mapE (introspect_table env db g) tables = Inr docs"
  shows "generate_tables env db g tables [] out =
     (Inr (map table_resource tables),
      (made_dir (gen_OutputDir g) out)\<lparr> out_nodes :=
         put_files (table_files (gen_OutputDir g) tables docs) (out_nodes (made_dir (gen_OutputDir g) out)) \<rparr>)"
proof -
  let ?dir = "gen_OutputDir g"
  obtain t ts where ts: "tables = t # ts" using assms(4) by (cases tables) auto
  have "generate_tables env db g tables [] out = generate_tables env db g tables [] (made_dir ?dir out)"
    using ensure_usable [OF assms(1-3)] ensure_existing [OF assms(1,2) made_dir_nodes(1) [of ?dir out]] assms(6)
    by (auto simp: ts bindE_Inr_iff)
  then show ?thesis
    using generate_tables_run [OF assms(1,2) made_dir_nodes(1) assms(5) _ assms(6)] assms(3)
    by (auto simp: usable_dir_def made_dir_nodes list_all_iff file_names_def)
qed

lemma table_files_distinct:
  "distinct (map table_name tables) \<Longrightarrow> length docs = length tables \<Longrightarrow> distinct (map fst (table_files dir tables docs))"
  by (simp add: table_files_def distinct_map inj_on_def in_dir_def)

lemma table_files_nth:
  "length docs = length tables \<Longrightarrow> i < length tables \<Longrightarrow>
   (in_dir dir (table_name (tables ! i) @ ''.yaml''), docs ! i) \<in> set (table_files dir tables docs)"
  by (auto simp: table_files_def set_zip intro!: exI [of _ i])

lemma table_files_keys:
  "length docs = length tables \<Longrightarrow>
   fst ` set (table_files dir tables docs) = (\<lambda>t. in_dir dir (table_name t @ ''.yaml'')) ` set tables"
  by (simp add: table_files_def set_map [symmetric] map_fst_zip del: set_map)

lemma table_file_in_dir:
  "proper_dir dir \<Longrightarrow> CHR ''/'' \<notin> set (tb_Name t) \<Longrightarrow> table_file dir t = in_dir dir (table_name t @ ''.yaml'')"
  using yaml_file(1) [of dir "table_name t"] sanitizeName_chars [of "tb_Name t"] by (auto simp: table_file_def)

text \<open>
  C17. For a database that has tables, the generator writes one Table resource per table and a kustomization
  that lists them. The conditions: there is at least one table, every table can be introspected, and the list of
  resources can be marshalled; no call of the file system fails by itself, the output directory is given by a clean
  path other than . and /, is a directory or can be made (it is missing and nothing above it is a file), and none of
  the files to write is a directory; no table name has a slash, the sanitized names are distinct and none of them is
  kustomization. Then RunSync succeeds, the file of every table holds its document, the kustomization is the marshalled
  list of exactly these files in the order of the tables, and no other file is touched but for the directories made
  above the output directory.
\<close>

theorem generate_writes_every_table:
  assumes "getConnection menv g = (Inr db, g')" "cn_ListTables db = Inr tables" "tables \<noteq> []"
    and "mapE (introspect_table env db g') tables = Inr docs"
    and "ge_MarshalResources env (map table_resource tables) = Inr kustomizeDoc"
    and "fault_free env" "proper_dir (gen_OutputDir g)" "usable_dir (gen_OutputDir g) out (file_names tables)"
    and "list_all (\<lambda>t. CHR ''/'' \<notin> set (tb_Name t)) tables"
    and "distinct (map (\<lambda>t. sanitizeName (tb_Name t)) tables)" "''kustomization'' \<notin> set (map (\<lambda>t. sanitizeName (tb_Name t)) tables)"
  shows "\<exists>out'. RunSync env menv g out = (None, g', out') \<and>
     (\<forall>i < length tables. out_nodes out' (table_file (gen_OutputDir g) (tables ! i)) = Some (File (docs ! i))) \<and>
     out_nodes out' (filepath_Join [gen_OutputDir g, ''kustomization.yaml'']) = Some (File kustomizeDoc) \<and>
     (\<forall>p. p \<notin> set (path_chain (gen_OutputDir g)) \<longrightarrow> p \<notin> set (map (in_dir (gen_OutputDir g)) (file_names tables)) \<longrightarrow>
        out_nodes out' p = out_nodes out p)"
proof -
  let ?dir = "gen_OutputDir g"
  let ?o = "Println (''connecting to '' @ gen_URI g) out"
  let ?fs = "table_files ?dir tables docs" and ?m = "made_dir ?dir ?o"
  let ?k = "in_dir ?dir ''kustomization.yaml''"
  have dir: "gen_OutputDir g' = ?dir"
    using assms(1) by (auto simp: getConnection_def split: option.splits prod.splits)
  have usable: "usable_dir ?dir ?o (file_names tables)"
    using assms(8) by (simp add: usable_dir_def)
  have len: "length docs = length tables" using mapE_Inr_length [OF assms(4)] by simp
  have run: "generate_tables env db g' tables [] ?o =
      (Inr (map table_resource tables), ?m\<lparr> out_nodes := put_files ?fs (out_nodes ?m) \<rparr>)"
    using generate_tables_files [OF assms(6) _ _ assms(3,9,4)] assms(7) usable by (simp add: dir)
  have keys: "fst ` set ?fs = (\<lambda>t. in_dir ?dir (table_name t @ ''.yaml'')) ` set tables"
    by (rule table_files_keys [OF len])
  have k_new: "?k \<notin> fst ` set ?fs" "?dir \<notin> fst ` set ?fs"
    using assms(11) in_dir_neq(2) [of ?dir] by (auto simp: keys in_dir_def)
  let ?out = "?m\<lparr> out_nodes := (put_files ?fs (out_nodes ?m))(?k \<mapsto> File kustomizeDoc) \<rparr>"
  have "WriteFile env (filepath_Join [?dir, ''kustomization.yaml'']) kustomizeDoc
      (?m\<lparr> out_nodes := put_files ?fs (out_nodes ?m) \<rparr>) = (None, ?out)"
    using WriteFile_in_dir [OF assms(6,7), of "''kustomization''"] k_new usable
    by (simp add: put_files_other made_dir_nodes usable_dir_def file_names_def)
  then have "RunSync env menv g out = (None, g', ?out)"
    using run assms(1,2,5) proper_dir_not_Nil [OF assms(7)]
    by (simp add: RunSync_def write_kustomization_def dir Let_def)
  moreover have "out_nodes ?out (table_file ?dir (tables ! i)) = Some (File (docs ! i))" if "i < length tables" for i
    using put_files_member [OF table_files_distinct [OF assms(10) len] table_files_nth [OF len that]] k_new(1)
      table_files_nth [OF len that, of ?dir] table_file_in_dir [OF assms(7)] that assms(9)
    by (force simp: list_all_length)
  moreover have "out_nodes ?out (filepath_Join [?dir, ''kustomization.yaml'']) = Some (File kustomizeDoc)"
    using yaml_file(1) [OF assms(7), of "''kustomization''"] by simp
  moreover have "out_nodes ?out p = out_nodes out p"
    if "p \<notin> set (path_chain ?dir)" "p \<notin> set (map (in_dir ?dir) (file_names tables))" for p
    using that by (auto simp: put_files_other keys made_dir_nodes file_names_def)
  ultimately show ?thesis by blast
qed

section \<open>A generated PostgreSQL table is in sync\<close>

text \<open>The connection of the plugin, as the generator uses it.\<close>

definition introspects :: "'db FullConnection \<Rightarrow> PostgresConnection \<Rightarrow> bool" where
  "introspects db p \<longleftrightarrow>
     cn_GetTablePrimaryKey db = GetTablePrimaryKey p \<and> cn_ListTableForeignKeys db = ListTableForeignKeys p \<and>
     cn_ListTableIndexes db = ListTableIndexes p \<and> cn_GetTableSchema db = GetTableSchema p"

text \<open>
  The two queries for columns read the same rows of the information schema. A type is settled if the
  column type written from it is read back as itself.
\<close>

definition schema_row :: "ColumnRow \<Rightarrow> SchemaColumnRow" where
  "schema_row r =
     \<lparr> sr_Name = cr_Name r, sr_DataType = cr_DataType r, sr_MaxLength = cr_CharMaxLength r,
       sr_ColumnDefault = cr_ColumnDefault r, sr_IsNullable = cr_IsNullable r \<rparr>"

definition bare_column :: "string \<Rightarrow> PostgresqlTableColumn" where
  "bare_column ty =
     \<lparr> pcol_Name = [], pcol_Type = ty, pcol_Constraints = None, pcol_Attributes = None, pcol_Default = None \<rparr>"

definition settled_type :: "string \<Rightarrow> bool" where
  "settled_type ty =
     (case schemaColumnToColumn (bare_column ty) of
        Inl _ \<Rightarrow> False
      | Inr c \<Rightarrow> default_time_zone (col_DataType c) = default_time_zone ty \<and> \<not> col_IsArray c)"

definition settled_row :: "ColumnRow \<Rightarrow> bool" where
  "settled_row r \<longleftrightarrow>
     cr_DataType r \<noteq> ''ARRAY'' \<and> cr_DataType r \<noteq> ''USER-DEFINED'' \<and>
     settled_type (with_max_length (cr_DataType r) (cr_CharMaxLength r))"

definition same_column_rows :: "PostgresConnection \<Rightarrow> string \<Rightarrow> ColumnRow list \<Rightarrow> bool" where
  "same_column_rows p t rows \<longleftrightarrow>
     (case schema_argument t of (table, sch) \<Rightarrow> srv_column_details (pg_conn p) table sch = Inr (map Inr rows)) \<and>
     (case resolve_table p t of (schema, table) \<Rightarrow>
        srv_columns (pg_conn p) table schema (pg_databaseName p) = Inr (map (\<lambda>r. Inr (schema_row r)) rows))"

text \<open>What a Table resource cannot get from the generator: constraints and triggers it does not read.\<close>

definition nothing_unread :: "PostgresConnection \<Rightarrow> string \<Rightarrow> bool" where
  "nothing_unread p t \<longleftrightarrow>
     ListTableCheckConstraints p (pg_databaseName p) t = Inr [] \<and>
     ListTableExclusionConstraints p (pg_databaseName p) t = Inr [] \<and> ListTableTriggers p t = Inr [] \<and>
     (case ListTableConstraints p (pg_databaseName p) t of Inl _ \<Rightarrow> False | Inr _ \<Rightarrow> True)"

definition index_kept :: "Index \<Rightarrow> bool" where
  "index_kept i \<longleftrightarrow> ix_Name i \<noteq> [] \<and> (ix_Columns i \<noteq> [] \<or> ix_SortedColumns i = [])"

definition foreign_key_kept :: "string \<Rightarrow> ForeignKey \<Rightarrow> bool" where
  "foreign_key_kept t fk \<longleftrightarrow> fst (splitQualifiedTableName t) = [] \<or> Contains (fk_ParentTable fk) ''.''"

definition keys_kept :: "PostgresConnection \<Rightarrow> string \<Rightarrow> bool" where
  "keys_kept p t \<longleftrightarrow>
     (case (ListTableForeignKeys p (pg_databaseName p) t, ListTableIndexes p (pg_databaseName p) t) of
        (Inr fks, Inr ixs) \<Rightarrow> list_all (foreign_key_kept t) fks \<and> list_all index_kept ixs
      | _ \<Rightarrow> False)"

lemma settled_typeD:
  assumes "settled_type (pcol_Type c)"
  shows "\<exists>col. schemaColumnToColumn c = Inr col \<and> default_time_zone (col_DataType col) = default_time_zone (pcol_Type c) \<and>
     \<not> col_IsArray col \<and> col_ColumnDefault col = pcol_Default c \<and>
     col_Constraints col = map_option (\<lambda>c. \<lparr> cc_NotNull = pcc_NotNull c \<rparr>) (pcol_Constraints c)"
  using assms
  by (cases "maybeParseParameterizedColumnType (unalias_requested (hd (SplitByte (pcol_Type c) (CHR ''[''))))")
    (auto simp: settled_type_def bare_column_def schemaColumnToColumn_def Let_def split: if_splits)

lemma length_type_settled:
  assumes "(name, name) \<in> set length_types" "n < 2 ^ 63"
  shows "settled_type (with_length name n)"
proof -
  have "CHR ''['' \<notin> set (nat_str n)"
    using nat_str_is_digit [of "CHR ''[''" n] by (auto simp: is_digit_def byte_def)
  then have "CHR ''['' \<notin> set (with_length name n)"
    using assms(1) by (auto elim!: length_types_cases)
  then have "\<exists>col. schemaColumnToColumn (bare_column (with_length name n)) = Inr col \<and>
      col_DataType col = with_length name n \<and> \<not> col_IsArray col"
    using maybeParse_with_length [OF assms] unalias_with_length [OF assms(1)]
    by (intro schemaColumnToColumn_type) (auto simp: bare_column_def)
  then show ?thesis by (auto simp: settled_type_def)
qed

lemma generated_column_matches:
  assumes "settled_row r"
  shows "\<exists>c. schemaColumnToColumn (ColumnToPostgresqlSchemaColumn (column_of_schema_row (schema_row r))) = Inr c \<and>
     columnsMatch (column_of_row r) c"
proof -
  let ?d = "ColumnToPostgresqlSchemaColumn (column_of_schema_row (schema_row r))"
  have "pcol_Type ?d = with_max_length (cr_DataType r) (cr_CharMaxLength r)"
    by (simp add: ColumnToPostgresqlSchemaColumn_def column_of_schema_row_def schema_row_def)
  then obtain col where col: "schemaColumnToColumn ?d = Inr col"
    "default_time_zone (col_DataType col) = default_time_zone (with_max_length (cr_DataType r) (cr_CharMaxLength r))"
    "\<not> col_IsArray col" "col_ColumnDefault col = pcol_Default ?d"
    "col_Constraints col = map_option (\<lambda>c. \<lparr> cc_NotNull = pcc_NotNull c \<rparr>) (pcol_Constraints ?d)"
    using assms settled_typeD [of ?d] by (auto simp: settled_row_def)
  have "columnDefaultsEqual (map_option stripOIDClass (cr_ColumnDefault r)) (map_option stripOIDClass (cr_ColumnDefault r))"
    by (simp add: columnDefaultsEqual_def split: option.split)
  then show ?thesis
    using col assms
    by (auto simp: columnsMatch_def column_of_row_def settled_row_def ColumnToPostgresqlSchemaColumn_def
        column_of_schema_row_def schema_row_def not_null_of_def BoolsEqual_def)
qed

lemma find_by_name: "distinct (map f xs) \<Longrightarrow> x \<in> set xs \<Longrightarrow> find (\<lambda>d. f d = f x) xs = Some x"
  by (induction xs) (auto simp: image_iff)

lemma scan_rows_Inr: "scan_rows on_error f (map (\<lambda>r. Inr (g r)) rows) = Inr (map (\<lambda>r. f (g r)) rows)"
  by (induction rows) (auto simp: scan_rows_def)

lemma generated_columns:
  assumes "same_column_rows p t rows" "distinct (map cr_Name rows)" "list_all settled_row rows" "GetTableSchema p t = Inr cols"
  shows "columns_in_sync p t (postgresql_table pk fks ixs cols)"
proof -
  let ?gen = "\<lambda>r. ColumnToPostgresqlSchemaColumn (column_of_schema_row (schema_row r))"
  have cols: "cols = map (\<lambda>r. column_of_schema_row (schema_row r)) rows"
    using assms(1,4) by (auto simp: same_column_rows_def GetTableSchema_def query_rows_def scan_rows_Inr split: prod.splits)
  have name: "pcol_Name (?gen r) = cr_Name r" for r
    by (simp add: ColumnToPostgresqlSchemaColumn_def column_of_schema_row_def schema_row_def)
  have found: "find (\<lambda>d. pcol_Name d = cr_Name r) (map ?gen rows) = Some (?gen r)" if "r \<in> set rows" for r
    using find_by_name [of pcol_Name "map ?gen rows" "?gen r"] that assms(2) by (simp add: name comp_def)
  have "pts_Columns (postgresql_table pk fks ixs cols) = map ?gen rows"
    by (simp add: postgresql_table_def cols comp_def)
  then show ?thesis
    using assms(1,3) generated_column_matches found
    by (fastforce simp: columns_in_sync_def same_column_rows_def list_all_iff list_ex_iff name split: prod.splits)
qed

lemma generated_constraints:
  assumes "GetTablePrimaryKey p t = Inr k" "ListTableForeignKeys p (pg_databaseName p) t = Inr fks"
    and "ListTableIndexes p (pg_databaseName p) t = Inr ixs" "nothing_unread p t"
    and "list_all (foreign_key_kept t) fks" "list_all index_kept ixs"
  shows "constraints_in_sync p t (postgresql_table (case k of None \<Rightarrow> [] | Some k \<Rightarrow> kc_Columns k) fks ixs cols)"
proof -
  have fk: "ForeignKey_Equals f (desired_fk_for_compare t (ForeignKeyToPostgresqlSchemaForeignKey f))" if "f \<in> set fks" for f
  proof -
    have "desired_fk_for_compare t (ForeignKeyToPostgresqlSchemaForeignKey f) = f"
      using that assms(5)
      by (auto simp: list_all_iff foreign_key_kept_def desired_fk_for_compare_def Let_def QualifyParentTableToSchema_def
          PostgresqlSchemaForeignKeyToForeignKey_def ForeignKeyToPostgresqlSchemaForeignKey_def)
    then show ?thesis by (simp add: ForeignKey_Equals_refl)
  qed
  have ix: "index_same (name_index True t (IndexToPostgresqlSchemaIndex i)) i" if "i \<in> set ixs" for i
  proof -
    have "PostgresqlSchemaIndexToIndex (name_index True t (IndexToPostgresqlSchemaIndex i)) = i"
      using that assms(6)
      by (auto simp: list_all_iff index_kept_def name_index_def PostgresqlSchemaIndexToIndex_def
          IndexToPostgresqlSchemaIndex_def Let_def comp_def)
    then show ?thesis by (simp add: index_same_def Index_Equals_refl)
  qed
  have k: "k = None \<longleftrightarrow> (case k of None \<Rightarrow> [] | Some k \<Rightarrow> kc_Columns k) = []"
    using assms(1) by (auto simp: GetTablePrimaryKey_def bindE_Inr_iff split: prod.splits if_splits)
  show ?thesis
    using assms(1-4) fk ix k
    by (auto simp: constraints_in_sync_def postgresql_table_def empty_table_schema_def primary_key_columns_def nothing_unread_def
        in_step_def list_all_iff list_ex_iff comp_def Let_def split: sum.splits)
qed

text \<open>
  C16. A generated PostgreSQL table is settled: the document the generator makes from a table is the
  marshalled spec of a schema whose plan, against the database the table was read from, is empty. The
  conditions: the table exists; the generator was started for the driver postgres with the name of the very
  database it connects to, and reads it through the plugin's own connection, not over net/rpc, which loses
  empty defaults; the two queries for columns return the same rows, with distinct names, and no column is an
  array, of a user-defined type or of a type that is not read back as written (\<open>settled_row\<close>); the table has no
  check or exclusion constraint and no trigger, which the generator does not read, and the catalog queries of the
  plan succeed (\<open>nothing_unread\<close>); a table outside the schema public has no foreign key to a table that is listed
  without a schema, which would be planned again, and every index is listed with a name and its columns
  (\<open>keys_kept\<close>).
\<close>

theorem generated_postgres_table_settled:
  assumes "Connect penv uri = Inr p" "CheckIfTableExists p (tb_Name table) = Inr True"
    and "introspects db p" "gen_Driver g = ''postgres''" "gen_DBName g = pg_databaseName p"
    and "introspect_table env db g table = Inr doc"
    and "same_column_rows p (tb_Name table) rows" "distinct (map cr_Name rows)" "list_all settled_row rows"
    and "nothing_unread p (tb_Name table)" "keys_kept p (tb_Name table)"
  shows "\<exists>schema b. doc = tableDoc (tb_Name table) b \<and>
     ge_MarshalSpec env (table_spec (gen_DBName g) table (empty_schema\<lparr> ts_Postgres := Some schema \<rparr>)) = Inr b \<and>
     PlanPostgresTable san penv uri (tb_Name table) schema None = Inr []"
proof -
  let ?t = "tb_Name table"
  obtain k fks ixs cols where read: "GetTablePrimaryKey p ?t = Inr k"
      "ListTableForeignKeys p (pg_databaseName p) ?t = Inr fks" "ListTableIndexes p (pg_databaseName p) ?t = Inr ixs"
      "GetTableSchema p ?t = Inr cols"
    and doc: "generateTableYAML env ''postgres'' (gen_DBName g) table (case k of None \<Rightarrow> [] | Some k \<Rightarrow> kc_Columns k)
      fks ixs cols = Inr doc"
    using assms(3-6) by (auto simp: introspect_table_def introspects_def bindE_Inr_iff)
  let ?s = "postgresql_table (case k of None \<Rightarrow> [] | Some k \<Rightarrow> kc_Columns k) fks ixs cols"
  obtain b where b: "ge_MarshalSpec env (table_spec (gen_DBName g) table (empty_schema\<lparr> ts_Postgres := Some ?s \<rparr>)) = Inr b"
      "doc = tableDoc ?t b"
    using doc by (auto simp: generateTableYAML_def generatePostgresqlTableYAML_def postgresql_schema_def marshal_table_def
        Let_def bindE_Inr_iff)
  have quiet: "pts_Triggers ?s = []" "pts_JSONTriggers ?s = []" "pts_RowLevelSecurity ?s = None" "\<not> pts_IsDeleted ?s"
    by (simp_all add: postgresql_table_def empty_table_schema_def)
  have "table_in_sync san p ?t ?s"
    using generated_columns [OF assms(7-9) read(4)] generated_constraints [OF read(1-3) assms(10)] read(2,3) assms(10,11) quiet
    by (simp add: table_in_sync_def triggers_in_sync_def row_security_in_sync_def desired_triggers_def nothing_unread_def
        keys_kept_def in_step_def Let_def)
  then have "PlanPostgresTable san penv uri ?t ?s None = Inr []"
    using alter_table_in_sync assms(1,2) quiet(4) by (simp add: PlanPostgresTable_def seed_statements_def)
  then show ?thesis using b by blast
qed

section \<open>A sample database\<close>

definition gen_rows :: "ColumnRow list" where
  "gen_rows =
     [\<lparr> cr_Name = ''id'', cr_ColumnDefault = None, cr_IsNullable = ''NO'', cr_DataType = ''integer'', cr_UdtName = ''int4'',
        cr_CharMaxLength = None \<rparr>,
      \<lparr> cr_Name = ''email'', cr_ColumnDefault = Some ''none'', cr_IsNullable = ''YES'', cr_DataType = ''character varying'',
        cr_UdtName = ''varchar'', cr_CharMaxLength = Some 255 \<rparr>]"

definition gen_server :: PgServer where
  "gen_server = sample_server\<lparr> srv_checks := (\<lambda>_ _. Inr []), srv_columns := (\<lambda>_ _ _. Inr (map (\<lambda>r. Inr (schema_row r)) gen_rows)),
     srv_column_details := (\<lambda>_ _. Inr (map Inr gen_rows)) \<rparr>"

definition gen_pg :: PostgresConnection where
  "gen_pg = sample_conn\<lparr> pg_conn := gen_server \<rparr>"

definition gen_penv :: PgEnv where
  "gen_penv = sample_env\<lparr> env_connect := (\<lambda>_. Inr gen_server) \<rparr>"

definition gen_conn :: "string list FullConnection" where
  "gen_conn = rpc_sample_conn\<lparr> cn_ListTables := ListTables gen_pg,
     cn_ListTableForeignKeys := ListTableForeignKeys gen_pg, cn_ListTableIndexes := ListTableIndexes gen_pg,
     cn_GetTablePrimaryKey := GetTablePrimaryKey gen_pg, cn_GetTableSchema := GetTableSchema gen_pg \<rparr>"

definition gen_menv :: "string list FullConnection ManagerEnv" where
  "gen_menv = manager_env\<lparr> me_Load := (me_Load manager_env)\<lparr> le_Dispense :=
     (\<lambda>_. Inr (Some (rpc_sample_plugin\<lparr> pl_Connect := (\<lambda>_ _. Inr gen_conn) \<rparr>))) \<rparr> \<rparr>"

definition gen_env :: GenEnv where
  "gen_env =
     \<lparr> ge_StatFails = (\<lambda>_. None), ge_MkdirFails = (\<lambda>_. None), ge_WriteFails = (\<lambda>_. None),
       ge_MarshalSpec = (\<lambda>spec. Inr (''name: '' @ tsp_Name spec)), ge_MarshalResources = (\<lambda>rs. Inr (Join rs '','')) \<rparr>"

definition sample_generator :: "string list FullConnection Generator" where
  "sample_generator =
     \<lparr> gen_Driver = ''postgres'', gen_URI = ''postgres://'', gen_DBName = ''app'', gen_OutputDir = ''/out/tables'',
       gen_Schemas = [], gen_pluginManager = Some (sample_manager Map.empty) \<rparr>"

definition users_table :: Table where
  "users_table = \<lparr> tb_Name = ''users'', tb_Schema = ''public'', tb_Charset = [], tb_Collation = [] \<rparr>"

definition empty_output :: Output where
  "empty_output = \<lparr> out_nodes = Map.empty, out_stdout = [] \<rparr>"

lemma gen_connects: "Connect gen_penv ''postgres://'' = Inr gen_pg"
proof -
  have "parsePostgresVersion ''PostgreSQL 14.2 on x86_64'' = Inr ''14.2.0''"
    "trim_left_while (\<lambda>c. c = CHR ''/'') ''/app'' = ''app''" by code_simp+
  then show ?thesis
    by (simp add: Connect_def gen_penv_def sample_env_def gen_pg_def sample_conn_def DatabaseNameFromURI_def schemas_of_uri_def,
        simp add: gen_server_def sample_server_def)
qed

lemma gen_introspects: "introspects gen_conn gen_pg"
  by (simp add: introspects_def gen_conn_def)

theorem generated_postgres_table_settled_witness:
  "\<exists>schema b. introspect_table gen_env gen_conn sample_generator users_table = Inr (tableDoc ''users'' b) \<and>
     b = ''name: users'' \<and> PlanPostgresTable concat gen_penv ''postgres://'' ''users'' schema None = Inr []"
proof -
  have facts: "CheckIfTableExists gen_pg (tb_Name users_table) = Inr True" "gen_Driver sample_generator = ''postgres''"
    "gen_DBName sample_generator = pg_databaseName gen_pg"
    "introspect_table gen_env gen_conn sample_generator users_table = Inr (tableDoc ''users'' ''name: users'')"
    "same_column_rows gen_pg (tb_Name users_table) gen_rows" "distinct (map cr_Name gen_rows)" "list_all settled_row gen_rows"
    "nothing_unread gen_pg (tb_Name users_table)" "keys_kept gen_pg (tb_Name users_table)" by code_simp+
  have name: "tb_Name users_table = ''users''" by (simp add: users_table_def)
  show ?thesis
    using generated_postgres_table_settled [OF gen_connects facts(1) gen_introspects facts(2-9), of concat] facts(4)
    by (auto simp: name gen_env_def table_spec_def)
qed

theorem generate_writes_every_table_witness:
  "\<exists>g' out'. RunSync gen_env gen_menv sample_generator empty_output = (None, g', out') \<and>
     out_nodes out' ''/out/tables/users.yaml'' = Some (File (tableDoc ''users'' ''name: users'')) \<and>
     out_nodes out' ''/out/tables/kustomization.yaml'' = Some (File ''./users.yaml'')"
proof -
  have run: "case getConnection gen_menv sample_generator of
      (Inl _, _) \<Rightarrow> False
    | (Inr db, g') \<Rightarrow> cn_ListTables db = Inr [users_table] \<and>
        mapE (introspect_table gen_env db g') [users_table] = Inr [tableDoc ''users'' ''name: users'']" by code_simp
  obtain db g' where db: "getConnection gen_menv sample_generator = (Inr db, g')" "cn_ListTables db = Inr [users_table]"
      "mapE (introspect_table gen_env db g') [users_table] = Inr [tableDoc ''users'' ''name: users'']"
    using run by (auto split: prod.splits sum.splits)
  have resources: "ge_MarshalResources gen_env (map table_resource [users_table]) = Inr ''./users.yaml''" by code_simp
  have env: "fault_free gen_env" by (simp add: fault_free_def gen_env_def)
  have dir: "proper_dir (gen_OutputDir sample_generator)"
    "usable_dir (gen_OutputDir sample_generator) empty_output (file_names [users_table])" by code_simp+
  have names: "list_all (\<lambda>t. CHR ''/'' \<notin> set (tb_Name t)) [users_table]"
    "distinct (map (\<lambda>t. sanitizeName (tb_Name t)) [users_table])"
    "''kustomization'' \<notin> set (map (\<lambda>t. sanitizeName (tb_Name t)) [users_table])" by code_simp+
  have paths: "table_file (gen_OutputDir sample_generator) users_table = ''/out/tables/users.yaml''"
    "filepath_Join [gen_OutputDir sample_generator, ''kustomization.yaml''] = ''/out/tables/kustomization.yaml''" by code_simp+
  show ?thesis
    using generate_writes_every_table [OF db(1,2) _ db(3) resources env dir names] paths by fastforce
qed

section \<open>Behaviour the sources do not intend\<close>

text \<open>
  Without an output directory the documents should be printed, but the empty directory does not exist
  and cannot be made: the first table fails.
\<close>

lemma generate_stdout_fails:
  assumes "gen_OutputDir g = []" "fault_free env" "introspect_table env db g t = Inr doc"
  shows "\<exists>e. generate_tables env db g (t # ts) ws out = (Inl e, out)"
  using assms by (auto simp: ensure_output_dir_def Stat_def fault_free_def MkdirAll_def split: prod.splits)

text \<open>A database with no table: the output directory is not made, and the kustomization cannot be written.\<close>

lemma generate_empty_database_fails:
  assumes "getConnection menv g = (Inr db, g')" "cn_ListTables db = Inr []" "proper_dir (gen_OutputDir g)"
    and "fault_free env" "out_nodes out (gen_OutputDir g) = None"
  shows "\<exists>e out'. RunSync env menv g out = (Some e, g', out')"
proof -
  let ?dir = "gen_OutputDir g"
  have dir: "gen_OutputDir g' = ?dir"
    using assms(1) by (auto simp: getConnection_def split: option.splits prod.splits)
  have "node_at (Println l out) ?dir = None" for l
    using assms(3,5) by (simp add: node_at_def) (simp add: proper_dir_def)
  then have "\<exists>e. write_kustomization env g' [] (Println l out) = (Some e, Println l out)" for l
    using yaml_file [OF assms(3), of "''kustomization''"] assms(4)
    by (auto simp: write_kustomization_def dir proper_dir_not_Nil [OF assms(3)] WriteFile_def fault_free_def
        split: sum.splits)
  then obtain e where "write_kustomization env g' [] (Println (''connecting to '' @ gen_URI g) out) =
      (Some e, Println (''connecting to '' @ gen_URI g) out)" by blast
  then show ?thesis using assms(1,2) by (simp add: RunSync_def Let_def)
qed

text \<open>Tables whose names differ in an underscore share a file, and the second overwrites the first.\<close>

lemma generate_names_collide: "table_file dir (users_table\<lparr> tb_Name := ''a_b'' \<rparr>) = table_file dir (users_table\<lparr> tb_Name := ''a-b'' \<rparr>)"
  by (simp add: table_file_def sanitizeName_def)

text \<open>The drivers postgresql and timescaledb are accepted, and the resource has no schema at all.\<close>

lemma generated_schema_empty:
  "postgresql_schema ''postgresql'' pk fks ixs cols = empty_schema" "postgresql_schema ''timescaledb'' pk fks ixs cols = empty_schema"
  by (simp_all add: postgresql_schema_def)

text \<open>
  A foreign key from a table outside the schema public to a table of public is read without a schema for its
  parent, which the plan then takes to be of the table's own schema: the generated key is planned again.
\<close>

lemma generated_foreign_key_differs:
  assumes "fst (splitQualifiedTableName t) \<noteq> []" "\<not> Contains (fk_ParentTable fk) ''.''"
  shows "\<not> ForeignKey_Equals fk (desired_fk_for_compare t (ForeignKeyToPostgresqlSchemaForeignKey fk))"
  using assms
  by (auto simp: desired_fk_for_compare_def Let_def QualifyParentTableToSchema_def ForeignKey_Equals_def
      PostgresqlSchemaForeignKeyToForeignKey_def ForeignKeyToPostgresqlSchemaForeignKey_def)

text \<open>The columns of an array are written with the type ARRAY, which no plan can reconcile.\<close>

lemma generated_array_column_differs:
  assumes "cr_DataType r = ''ARRAY''" "cr_CharMaxLength r = None"
  shows "\<exists>c. schemaColumnToColumn (ColumnToPostgresqlSchemaColumn (column_of_schema_row (schema_row r))) = Inr c \<and>
     \<not> columnsMatch (column_of_row r) c"
proof -
  let ?d = "ColumnToPostgresqlSchemaColumn (column_of_schema_row (schema_row r))"
  have ty: "pcol_Type ?d = ''ARRAY''"
    using assms by (simp add: ColumnToPostgresqlSchemaColumn_def column_of_schema_row_def schema_row_def with_max_length_def)
  have "settled_type ''ARRAY''" by code_simp
  then obtain c where "schemaColumnToColumn ?d = Inr c" "\<not> col_IsArray c"
    using settled_typeD [of ?d] ty by auto
  then show ?thesis
    using assms(1) by (auto simp: columnsMatch_def column_of_row_def Let_def)
qed

text \<open>The clustering columns of a Cassandra table become part of the partition key.\<close>

lemma generated_cassandra_partition_key:
  "map_option cts_PrimaryKey (ts_Cassandra (cassandra_schema [a, b] cols)) = Some (Some [[a, b]])"
  by (simp add: cassandra_schema_def)

end
