(* ===== verification/Db_Resource.thy ===== *)
theory Db_Resource
  imports Go_Prelude
begin

text \<open>
  The Database resource of src/pkg/apis/databases/v1alpha4: how a database is reached. The types
  are those of database_types.go, postgres_types.go and its siblings, value_or_value_from.go and
  string_or_value.go; the operations are GetConnection and its helpers (connection.go), the
  AWS parameter store (ssm_connection.go) and the annotations for the Vault injector (vault.go).

  What the operations ask of the outside is the record \<open>KubeEnv\<close>: the configuration of the
  Kubernetes client, a secret by namespace and name, the AWS configuration and its parameter
  store, and the login to Vault (getVaultConnection, which is HTTP requests only).
\<close>

section \<open>Types\<close>

record SecretKeyRef =
  sk_Name :: string
  sk_Key :: string

record ValueFromSecret =
  vfs_SecretKeyRef :: "SecretKeyRef option"

record ValueOrSecretRef =
  vsr_Value :: string
  vsr_ValueFrom :: "ValueFromSecret option"

record Vault =
  vlt_AgentInject :: bool
  vlt_Secret :: string
  vlt_Role :: string
  vlt_Endpoint :: string
  vlt_ServiceAccount :: string
  vlt_ServiceAccountNamespace :: string
  vlt_ConnectionTemplate :: string
  vlt_KubernetesAuthEndpoint :: string

record SSM =
  ssm_Name :: string
  ssm_WithDecryption :: bool
  ssm_Region :: string
  ssm_AccessKeyID :: "ValueOrSecretRef option"
  ssm_SecretAccessKey :: "ValueOrSecretRef option"

record ValueFrom =
  vf_SecretKeyRef :: "SecretKeyRef option"
  vf_Vault :: "Vault option"
  vf_SSM :: "SSM option"

record ValueOrValueFrom =
  vv_Value :: string
  vv_ValueFrom :: "ValueFrom option"

record PostgresConn =
  pcn_URI :: ValueOrValueFrom
  pcn_Host :: ValueOrValueFrom
  pcn_Port :: ValueOrValueFrom
  pcn_User :: ValueOrValueFrom
  pcn_Password :: ValueOrValueFrom
  pcn_DBName :: ValueOrValueFrom
  pcn_SSLMode :: ValueOrValueFrom
  pcn_CurrentSchema :: ValueOrValueFrom

text \<open>CockroachDBConnection has the fields of PostgresConnection.\<close>

type_synonym CockroachDBConn = PostgresConn

record MysqlConn =
  mcn_URI :: ValueOrValueFrom
  mcn_Host :: ValueOrValueFrom
  mcn_Port :: ValueOrValueFrom
  mcn_User :: ValueOrValueFrom
  mcn_Password :: ValueOrValueFrom
  mcn_DBName :: ValueOrValueFrom
  mcn_DisableTLS :: bool
  mcn_DefaultCharset :: string
  mcn_Collation :: string

record RqliteConn =
  rcn_URI :: ValueOrValueFrom
  rcn_Host :: ValueOrValueFrom
  rcn_Port :: ValueOrValueFrom
  rcn_User :: ValueOrValueFrom
  rcn_Password :: ValueOrValueFrom
  rcn_DisableTLS :: bool

record SqliteConn =
  scn_DSN :: string

record CassandraConn =
  ccn_Hosts :: "string list"
  ccn_Keyspace :: ValueOrValueFrom
  ccn_Username :: ValueOrValueFrom
  ccn_Password :: ValueOrValueFrom

record DatabaseConnection =
  dc_Postgres :: "PostgresConn option"
  dc_Mysql :: "MysqlConn option"
  dc_CockroachDB :: "CockroachDBConn option"
  dc_Cassandra :: "CassandraConn option"
  dc_SQLite :: "SqliteConn option"
  dc_RQLite :: "RqliteConn option"
  dc_TimescaleDB :: "PostgresConn option"

text \<open>The fields of a Database that its operations and the controllers read; a duration is in nanoseconds.\<close>

record DatabaseResource =
  dr_Name :: string
  dr_Namespace :: string
  dr_Connection :: DatabaseConnection
  dr_ImmediateDeploy :: bool
  dr_DeploySeedData :: bool
  dr_BatchWindow :: "int option"

record KubeEnv =
  ke_config :: "go_error option"
  ke_clientset :: "go_error option"
  ke_secret :: "string \<Rightarrow> string \<Rightarrow> (string \<rightharpoonup> string) result"
  ke_vault :: "DatabaseResource \<Rightarrow> string \<Rightarrow> Vault \<Rightarrow> string result"
  ke_aws_config :: "go_error option"
  ke_get_parameter :: "string \<Rightarrow> (string \<times> string) option \<Rightarrow> string \<Rightarrow> bool \<Rightarrow> string result"

section \<open>Values (value_or_value_from.go)\<close>

definition NewValue :: "string \<Rightarrow> ValueOrValueFrom" where
  "NewValue value = \<lparr> vv_Value = value, vv_ValueFrom = None \<rparr>"

definition NewValueFromSecret :: "string \<Rightarrow> string \<Rightarrow> ValueOrValueFrom" where
  "NewValueFromSecret secretName secretKey =
     \<lparr> vv_Value = [],
       vv_ValueFrom = Some \<lparr> vf_SecretKeyRef = Some \<lparr> sk_Name = secretName, sk_Key = secretKey \<rparr>,
                             vf_Vault = None, vf_SSM = None \<rparr> \<rparr>"

definition IsEmpty :: "ValueOrValueFrom \<Rightarrow> bool" where
  "IsEmpty v \<longleftrightarrow> vv_Value v = [] \<and> vv_ValueFrom v = None"

definition HasVaultSecret :: "ValueOrValueFrom \<Rightarrow> bool" where
  "HasVaultSecret v = (case vv_ValueFrom v of Some vf \<Rightarrow> vf_Vault vf \<noteq> None | None \<Rightarrow> False)"

definition GetVaultDetails :: "ValueOrValueFrom \<Rightarrow> Vault result" where
  "GetVaultDetails v =
     (case Option.bind (vv_ValueFrom v) vf_Vault of
        Some vault \<Rightarrow> Inr vault
      | None \<Rightarrow> Inl (ErrNew ''No Vault secret configured''))"

section \<open>Drivers and Vault annotations (vault.go)\<close>

definition not_configured :: "DatabaseResource \<Rightarrow> go_error" where
  "not_configured d = ErrNew (''no database connection configured for database: '' @ dr_Name d)"

definition UsingVault :: "DatabaseResource \<Rightarrow> bool" where
  "UsingVault d =
     (let c = dr_Connection d
      in case dc_CockroachDB c of Some x \<Rightarrow> HasVaultSecret (pcn_URI x)
       | None \<Rightarrow> (case dc_Postgres c of Some x \<Rightarrow> HasVaultSecret (pcn_URI x)
       | None \<Rightarrow> (case dc_Mysql c of Some x \<Rightarrow> HasVaultSecret (mcn_URI x)
       | None \<Rightarrow> (case dc_RQLite c of Some x \<Rightarrow> HasVaultSecret (rcn_URI x)
       | None \<Rightarrow> (case dc_TimescaleDB c of Some x \<Rightarrow> HasVaultSecret (pcn_URI x)
       | None \<Rightarrow> False)))))"

definition getVaultDetails :: "DatabaseResource \<Rightarrow> Vault result" where
  "getVaultDetails d =
     (let c = dr_Connection d
      in case dc_CockroachDB c of Some x \<Rightarrow> GetVaultDetails (pcn_URI x)
       | None \<Rightarrow> (case dc_Postgres c of Some x \<Rightarrow> GetVaultDetails (pcn_URI x)
       | None \<Rightarrow> (case dc_TimescaleDB c of Some x \<Rightarrow> GetVaultDetails (pcn_URI x)
       | None \<Rightarrow> (case dc_Mysql c of Some x \<Rightarrow> GetVaultDetails (mcn_URI x)
       | None \<Rightarrow> (case dc_RQLite c of Some x \<Rightarrow> GetVaultDetails (rcn_URI x)
       | None \<Rightarrow> Inl (not_configured d))))))"

definition getDbType :: "DatabaseResource \<Rightarrow> string result" where
  "getDbType d =
     (let c = dr_Connection d
      in if dc_CockroachDB c \<noteq> None then Inr ''cockroachdb''
         else if dc_Cassandra c \<noteq> None then Inr ''cassandra''
         else if dc_Postgres c \<noteq> None then Inr ''postgres''
         else if dc_Mysql c \<noteq> None then Inr ''mysql''
         else if dc_RQLite c \<noteq> None then Inr ''rqlite''
         else if dc_SQLite c \<noteq> None then Inr ''sqlite''
         else if dc_TimescaleDB c \<noteq> None then Inr ''timescaledb''
         else Inl (not_configured d))"

definition vault_template :: "string \<Rightarrow> string \<Rightarrow> string" where
  "vault_template role body =
     [newline] @ ''{{- with secret '' @ [dquote] @ ''database/creds/'' @ role @ [dquote] @ '' -}}'' @ [newline] @ body @ ''{{- end }}''"

definition GetVaultAnnotations :: "DatabaseResource \<Rightarrow> (string \<times> string) list result" where
  "GetVaultAnnotations d =
     (if \<not> UsingVault d then Inr []
      else bindE (getVaultDetails d) (\<lambda>v.
        if \<not> vlt_AgentInject v then Inr []
        else bindE (getDbType d) (\<lambda>db.
          bindE (if vlt_ConnectionTemplate v \<noteq> [] then Inr (vault_template (vlt_Role v) (vlt_ConnectionTemplate v))
                 else if db \<in> {''postgres'', ''cockroachdb'', ''timescaledb''} then
                   Inr (vault_template (vlt_Role v)
                     (''postgres://{{ .Data.username }}:{{ .Data.password }}@postgres:5432/'' @ dr_Name d))
                 else if db = ''mysql'' then
                   Inr (vault_template (vlt_Role v)
                     (''{{ .Data.username }}:{{ .Data.password }}@tcp(mysql:3306)/'' @ dr_Name d))
                 else if db = ''rqlite'' then
                   Inr (vault_template (vlt_Role v) ''http://{{ .Data.username }}:{{ .Data.password }}@rqlite:4001/'')
                 else if db = ''cassandra'' then Inl (ErrNew ''not implemented'')
                 else Inl (ErrNew (''unknown database driver: '' @ Quote db))) (\<lambda>template.
            Inr [(''vault.hashicorp.com/agent-inject-template-schemaherouri'', template),
                 (''vault.hashicorp.com/agent-inject'', ''true''),
                 (''vault.hashicorp.com/agent-inject-secret-schemaherouri'', ''database/creds/'' @ vlt_Role v),
                 (''vault.hashicorp.com/role'', vlt_Role v)]))))"

section \<open>Resolving a value (connection.go, ssm_connection.go)\<close>

text \<open>
  A credential of the parameter store: the static value, or the key of a secret, which is empty
  when the key is missing. Neither a static value nor a reference is a nil dereference.
\<close>

definition ssm_credential :: "KubeEnv \<Rightarrow> string \<Rightarrow> string \<Rightarrow> ValueOrSecretRef \<Rightarrow> (bool \<times> string) result" where
  "ssm_credential env namespace msg v =
     (if vsr_Value v \<noteq> [] then Inr (False, vsr_Value v)
      else (case vsr_ValueFrom v of
              None \<Rightarrow> Inl (GoPanic ''invalid memory address or nil pointer dereference'')
            | Some vf \<Rightarrow>
                (case vfs_SecretKeyRef vf of
                   None \<Rightarrow> Inr (False, [])
                 | Some r \<Rightarrow> bindE (wrapE msg (ke_secret env namespace (sk_Name r))) (\<lambda>dat.
                     Inr (True, case dat (sk_Key r) of Some x \<Rightarrow> x | None \<Rightarrow> [])))))"

text \<open>The secret access key read from a secret is assigned to the access key id, as the source has it.\<close>

definition getSSMConnection :: "KubeEnv \<Rightarrow> DatabaseResource \<Rightarrow> SSM \<Rightarrow> string result" where
  "getSSMConnection env d ssm =
     (let region = (if ssm_Region ssm = [] then ''us-east-1'' else ssm_Region ssm)
      in case ke_aws_config env of
           Some e \<Rightarrow> Inl (wrap_error ''failed to create aws config'' e)
         | None \<Rightarrow>
             bindE (case (ssm_AccessKeyID ssm, ssm_SecretAccessKey ssm) of
                      (Some a, Some s) \<Rightarrow>
                        bindE (ssm_credential env (dr_Namespace d) ''failed to get access key secret'' a) (\<lambda>(_, accessKeyID).
                        bindE (ssm_credential env (dr_Namespace d) ''failed to get secret access key secret'' s) (\<lambda>(fromSecret, x).
                          Inr (Some (if fromSecret then (x, []) else (accessKeyID, x)))))
                    | _ \<Rightarrow> Inr None) (\<lambda>credentials.
               wrapE ''failed to get ssm parameter''
                 (ke_get_parameter env region credentials (ssm_Name ssm) (ssm_WithDecryption ssm))))"

definition getValueFromValueOrValueFrom ::
  "KubeEnv \<Rightarrow> DatabaseResource \<Rightarrow> string \<Rightarrow> ValueOrValueFrom option \<Rightarrow> string result" where
  "getValueFromValueOrValueFrom env d driver vo =
     (case vo of
        None \<Rightarrow> Inl (ErrNew ''valueOrValueFrom must not be nil'')
      | Some v \<Rightarrow>
          if vv_Value v \<noteq> [] then Inr (vv_Value v)
          else (case ke_config env of
                  Some e \<Rightarrow> Inl (wrap_error ''failed to get config'' e)
                | None \<Rightarrow>
          (case ke_clientset env of
             Some e \<Rightarrow> Inl (wrap_error ''failed to get clientset'' e)
           | None \<Rightarrow>
          (case vv_ValueFrom v of
             None \<Rightarrow> Inl (GoPanic ''invalid memory address or nil pointer dereference'')
           | Some vf \<Rightarrow>
          (case vf_SecretKeyRef vf of
             Some r \<Rightarrow>
               bindE (wrapE ''failed to get secret'' (ke_secret env (dr_Namespace d) (sk_Name r))) (\<lambda>dat.
                 case dat (sk_Key r) of
                   Some x \<Rightarrow> Inr x
                 | None \<Rightarrow> Inl (ErrNew (''expected Secret '' @ [dquote] @ sk_Name r @ [dquote] @ '' to contain key '' @
                     [dquote] @ sk_Key r @ [dquote])))
           | None \<Rightarrow>
          (case vf_Vault vf of
             Some vault \<Rightarrow> ke_vault env d driver vault
           | None \<Rightarrow>
          (case vf_SSM vf of
             Some ssm \<Rightarrow> getSSMConnection env d ssm
           | None \<Rightarrow> Inl (ErrNew ''unable to get value for driver''))))))))"

section \<open>User information of a URL (net/url)\<close>

definition upper_hex :: "nat \<Rightarrow> char" where
  "upper_hex n = (if n < 10 then char_of (48 + n) else char_of (55 + n))"

definition shouldEscape :: "char \<Rightarrow> bool" where
  "shouldEscape c =
     (if is_lower c \<or> is_upper c \<or> is_digit c then False
      else if c \<in> set ''-_.~'' then False
      else if c \<in> set ''$&+,/:;=?@'' then c \<in> set ''@/?:''
      else True)"

fun url_escape :: "string \<Rightarrow> string" where
  "url_escape [] = []"
| "url_escape (c # cs) =
     (if shouldEscape c then CHR ''%'' # upper_hex (byte c div 16) # upper_hex (byte c mod 16) # url_escape cs
      else c # url_escape cs)"

definition UserPassword :: "string \<Rightarrow> string \<Rightarrow> string" where
  "UserPassword user password = url_escape user @ '':'' @ url_escape password"

section \<open>The connection URI (connection.go)\<close>

definition addQueryStringParameter ::
  "KubeEnv \<Rightarrow> DatabaseResource \<Rightarrow> string \<Rightarrow> string list \<Rightarrow> string \<Rightarrow> string \<Rightarrow> ValueOrValueFrom \<Rightarrow> string list result" where
  "addQueryStringParameter env d driver queryParams label key v =
     (if IsEmpty v then Inr queryParams
      else bindE (wrapE (''failed to read '' @ label) (getValueFromValueOrValueFrom env d driver (Some v))) (\<lambda>value.
             Inr (queryParams @ [key @ ''='' @ value])))"

text \<open>One named parameter of a connection.\<close>

definition read_param :: "KubeEnv \<Rightarrow> DatabaseResource \<Rightarrow> string \<Rightarrow> string \<Rightarrow> ValueOrValueFrom \<Rightarrow> string result" where
  "read_param env d driver label v =
     wrapE (''failed to read '' @ label) (getValueFromValueOrValueFrom env d driver (Some v))"

text \<open>The branch that postgres, cockroachdb and timescaledb share up to their labels.\<close>

definition postgres_params ::
  "KubeEnv \<Rightarrow> DatabaseResource \<Rightarrow> string \<Rightarrow> string \<Rightarrow> string \<Rightarrow> PostgresConn \<Rightarrow> string result" where
  "postgres_params env d driver label schemaKey c =
     bindE (read_param env d driver (label @ '' hostname'') (pcn_Host c)) (\<lambda>hostname.
     bindE (read_param env d driver (label @ '' port'') (pcn_Port c)) (\<lambda>port.
     bindE (read_param env d driver (label @ '' user'') (pcn_User c)) (\<lambda>user.
     bindE (read_param env d driver (label @ '' password'') (pcn_Password c)) (\<lambda>password.
     bindE (read_param env d driver (label @ '' dbname'') (pcn_DBName c)) (\<lambda>dbname.
     let uri = ''postgres://'' @ UserPassword user password @ ''@'' @ hostname @ '':'' @ port @ ''/'' @ dbname
     in
     bindE (wrapE ''failed to compute query string parameters''
              (addQueryStringParameter env d driver [] (label @ '' ssl mode'') ''sslmode'' (pcn_SSLMode c))) (\<lambda>q.
     bindE (wrapE ''failed to compute query string parameters''
              (addQueryStringParameter env d driver q (label @ '' currentSchema'') schemaKey (pcn_CurrentSchema c))) (\<lambda>q'.
       Inr (if q' \<noteq> [] then uri @ ''?'' @ Join q' ''&'' else uri))))))))"

definition mysql_params :: "KubeEnv \<Rightarrow> DatabaseResource \<Rightarrow> MysqlConn \<Rightarrow> string result" where
  "mysql_params env d c =
     bindE (read_param env d ''mysql'' ''mysql hostname'' (mcn_Host c)) (\<lambda>hostname.
     bindE (read_param env d ''mysql'' ''mysql port'' (mcn_Port c)) (\<lambda>port.
     bindE (read_param env d ''mysql'' ''mysql user'' (mcn_User c)) (\<lambda>user.
     bindE (read_param env d ''mysql'' ''mysql password'' (mcn_Password c)) (\<lambda>password.
     bindE (read_param env d ''mysql'' ''mysql dbname'' (mcn_DBName c)) (\<lambda>dbname.
       Inr (user @ '':'' @ password @ ''@tcp('' @ hostname @ '':'' @ port @ '')/'' @ dbname @
            (if mcn_DisableTLS c then ''?tls=false'' else [])))))))"

definition rqlite_params :: "KubeEnv \<Rightarrow> DatabaseResource \<Rightarrow> RqliteConn \<Rightarrow> string result" where
  "rqlite_params env d c =
     bindE (read_param env d ''rqlite'' ''rqlite hostname'' (rcn_Host c)) (\<lambda>hostname.
     bindE (read_param env d ''rqlite'' ''rqlite port'' (rcn_Port c)) (\<lambda>port.
     bindE (read_param env d ''rqlite'' ''rqlite user'' (rcn_User c)) (\<lambda>user.
     bindE (read_param env d ''rqlite'' ''rqlite password'' (rcn_Password c)) (\<lambda>password.
       Inr ((if rcn_DisableTLS c then ''http'' else ''https'') @ ''://'' @ user @ '':'' @ password @ ''@'' @
            hostname @ '':'' @ port @ ''/'')))))"

text \<open>A driver without a branch (sqlite) gets the empty URI; the connection of the driver is there by getDbType.\<close>

definition getConnectionFromParams :: "KubeEnv \<Rightarrow> DatabaseResource \<Rightarrow> (string \<times> string) result" where
  "getConnectionFromParams env d =
     bindE (wrapE ''failed to get database type'' (getDbType d)) (\<lambda>driver.
     bindE (let c = dr_Connection d in
            if driver = ''postgres'' then postgres_params env d driver ''postgres'' ''search_path'' (the (dc_Postgres c))
            else if driver = ''cockroachdb''
            then postgres_params env d driver ''cockroachdb'' ''search_path'' (the (dc_CockroachDB c))
            else if driver = ''cassandra'' then Inl (ErrNew ''not implemented'')
            else if driver = ''mysql'' then mysql_params env d (the (dc_Mysql c))
            else if driver = ''rqlite'' then rqlite_params env d (the (dc_RQLite c))
            else if driver = ''timescaledb''
            then postgres_params env d driver ''timescale'' ''currentSchema'' (the (dc_TimescaleDB c))
            else Inr []) (\<lambda>uri. Inr (driver, uri)))"

definition uri_of :: "DatabaseConnection \<Rightarrow> string \<Rightarrow> ValueOrValueFrom option" where
  "uri_of c driver =
     (if driver = ''postgres'' then map_option pcn_URI (dc_Postgres c)
      else if driver = ''cockroachdb'' then map_option pcn_URI (dc_CockroachDB c)
      else if driver = ''mysql'' then map_option mcn_URI (dc_Mysql c)
      else if driver = ''rqlite'' then map_option rcn_URI (dc_RQLite c)
      else if driver = ''timescaledb'' then map_option pcn_URI (dc_TimescaleDB c)
      else None)"

definition getConnectionFromURI :: "KubeEnv \<Rightarrow> DatabaseResource \<Rightarrow> (string \<times> string) result" where
  "getConnectionFromURI env d =
     bindE (wrapE ''failed to get database type'' (getDbType d)) (\<lambda>driver.
       if driver = ''cassandra'' then Inl (ErrNew ''reading cassandra connecting from uri is not supported'')
       else bindE (getValueFromValueOrValueFrom env d driver (uri_of (dr_Connection d) driver)) (\<lambda>value.
              Inr (driver, value)))"

definition Database_GetConnection :: "KubeEnv \<Rightarrow> DatabaseResource \<Rightarrow> (string \<times> string) result" where
  "Database_GetConnection env d =
     bindE (wrapE ''failed to get database type'' (getDbType d)) (\<lambda>driver.
       let isParamBased =
             (if driver = ''cassandra'' then True
              else case uri_of (dr_Connection d) driver of Some v \<Rightarrow> IsEmpty v | None \<Rightarrow> False)
       in if isParamBased then getConnectionFromParams env d else getConnectionFromURI env d)"

section \<open>Credentials in a URI\<close>

definition unhex :: "char \<Rightarrow> nat" where
  "unhex c = (if is_digit c then byte c - 48 else byte c - 55)"

fun url_unescape :: "string \<Rightarrow> string" where
  "url_unescape (c # a # b # cs) =
     (if c = CHR ''%'' then char_of (unhex a * 16 + unhex b) # url_unescape cs else c # url_unescape (a # b # cs))"
| "url_unescape s = s"

lemma url_unescape_plain: "c \<noteq> CHR ''%'' \<Longrightarrow> url_unescape (c # s) = c # url_unescape s"
  by (cases s rule: url_unescape.cases) auto

lemma unhex_upper_hex [simp]: "n < 16 \<Longrightarrow> unhex (upper_hex n) = n"
  by (auto simp: unhex_def upper_hex_def is_digit_def)

lemma shouldEscape_percent [simp]: "shouldEscape (CHR ''%'')"
  by code_simp

lemma url_unescape_escape [simp]: "url_unescape (url_escape s) = s"
proof (induction s)
  case (Cons c s)
  have "char_of (byte c div 16 * 16 + byte c mod 16) = c" by (simp add: byte_def)
  moreover have "byte c div 16 < 16" using byte_less [of c] by linarith
  moreover have "c \<noteq> CHR ''%''" if "\<not> shouldEscape c" using that shouldEscape_percent by metis
  ultimately show ?case using Cons by (cases "shouldEscape c") (simp_all add: url_unescape_plain)
qed simp

lemma upper_hex_plain: "n < 16 \<Longrightarrow> \<not> shouldEscape (upper_hex n)"
proof -
  assume "n < 16"
  then have "is_digit (upper_hex n) \<or> is_upper (upper_hex n)"
    by (auto simp: upper_hex_def is_digit_def is_upper_def)
  then show ?thesis by (auto simp: shouldEscape_def)
qed

lemma url_escape_set: "c \<in> set (url_escape s) \<Longrightarrow> c = CHR ''%'' \<or> \<not> shouldEscape c"
proof (induction s)
  case (Cons d s)
  have "byte d div 16 < 16" using byte_less [of d] by linarith
  then show ?case using Cons upper_hex_plain by (auto split: if_splits)
qed simp

lemma url_escape_reserved: "set (url_escape s) \<inter> set ''@/?:'' = {}"
proof -
  have res: "list_all (\<lambda>c. shouldEscape c \<and> c \<noteq> CHR ''%'') ''@/?:''" by code_simp
  have False if "c \<in> set (url_escape s)" "c \<in> set ''@/?:''" for c
    using url_escape_set [OF that(1)] res that(2) unfolding list_all_iff by metis
  then show ?thesis by (meson disjoint_iff)
qed

definition resolves :: "KubeEnv \<Rightarrow> DatabaseResource \<Rightarrow> string \<Rightarrow> ValueOrValueFrom \<Rightarrow> string \<Rightarrow> bool" where
  "resolves env d driver v s \<longleftrightarrow> getValueFromValueOrValueFrom env d driver (Some v) = Inr s"

lemma addQueryStringParameter_total:
  "IsEmpty v \<or> resolves env d driver v x \<Longrightarrow> \<exists>q'. addQueryStringParameter env d driver q label key v = Inr q'"
  by (auto simp: addQueryStringParameter_def resolves_def)

text \<open>
  C23. The credentials of a PostgreSQL database given by parameters cannot change where the
  connection goes: in the URI the user and the password are escaped so that neither contains a
  separator, the host, port and database follow the one separator after them, and decoding gives
  the user and the password back, whatever bytes they have.
\<close>

theorem credentials_escaped_in_uri:
  assumes driver: "getDbType d = Inr ''postgres''" and conn: "dc_Postgres (dr_Connection d) = Some c"
    and uri: "IsEmpty (pcn_URI c)"
    and params: "resolves env d ''postgres'' (pcn_Host c) hostname" "resolves env d ''postgres'' (pcn_Port c) port"
      "resolves env d ''postgres'' (pcn_User c) user" "resolves env d ''postgres'' (pcn_Password c) password"
      "resolves env d ''postgres'' (pcn_DBName c) dbname"
    and opts: "IsEmpty (pcn_SSLMode c) \<or> resolves env d ''postgres'' (pcn_SSLMode c) sslmode"
      "IsEmpty (pcn_CurrentSchema c) \<or> resolves env d ''postgres'' (pcn_CurrentSchema c) schema"
  shows "\<exists>u pw q. Database_GetConnection env d =
      Inr (''postgres'', ''postgres://'' @ u @ '':'' @ pw @ ''@'' @ hostname @ '':'' @ port @ ''/'' @ dbname @ q) \<and>
    set (u @ pw) \<inter> set ''@/?:'' = {} \<and> url_unescape u = user \<and> url_unescape pw = password"
proof -
  obtain q where q: "addQueryStringParameter env d ''postgres'' [] ''postgres ssl mode'' ''sslmode'' (pcn_SSLMode c) = Inr q"
    using addQueryStringParameter_total [OF opts(1)] by blast
  obtain q' where q': "addQueryStringParameter env d ''postgres'' q ''postgres currentSchema'' ''search_path''
      (pcn_CurrentSchema c) = Inr q'"
    using addQueryStringParameter_total [OF opts(2)] by blast
  have "Database_GetConnection env d = Inr (''postgres'', ''postgres://'' @ url_escape user @ '':'' @ url_escape password @
      ''@'' @ hostname @ '':'' @ port @ ''/'' @ dbname @ (if q' = [] then [] else ''?'' @ Join q' ''&''))"
    using assms q q'
    by (simp add: Database_GetConnection_def getConnectionFromParams_def uri_of_def postgres_params_def read_param_def
        resolves_def UserPassword_def)
  moreover have "set (url_escape user @ url_escape password) \<inter> set ''@/?:'' = {}"
    using url_escape_reserved by (simp add: Int_Un_distrib2 del: set_simps)
  ultimately show ?thesis by (metis url_unescape_escape)
qed

definition sample_postgres_conn :: PostgresConn where
  "sample_postgres_conn =
     \<lparr> pcn_URI = NewValue [], pcn_Host = NewValue ''db'', pcn_Port = NewValue ''5432'', pcn_User = NewValue ''me'',
       pcn_Password = NewValueFromSecret ''pw'' ''key'', pcn_DBName = NewValue ''app'', pcn_SSLMode = NewValue [],
       pcn_CurrentSchema = NewValue [] \<rparr>"

definition sample_resource :: DatabaseResource where
  "sample_resource =
     \<lparr> dr_Name = ''app'', dr_Namespace = ''default'',
       dr_Connection =
         \<lparr> dc_Postgres = Some sample_postgres_conn, dc_Mysql = None, dc_CockroachDB = None, dc_Cassandra = None,
           dc_SQLite = None, dc_RQLite = None, dc_TimescaleDB = None \<rparr>,
       dr_ImmediateDeploy = False, dr_DeploySeedData = False, dr_BatchWindow = None \<rparr>"

definition sample_kube_env :: KubeEnv where
  "sample_kube_env =
     \<lparr> ke_config = None, ke_clientset = None, ke_secret = (\<lambda>_ _. Inr [''key'' \<mapsto> ''p@ss:/?'']),
       ke_vault = (\<lambda>_ _ _. Inl (ErrNew ''no vault'')), ke_aws_config = None,
       ke_get_parameter = (\<lambda>_ _ _ _. Inl (ErrNew ''no ssm'')) \<rparr>"

theorem credentials_escaped_in_uri_witness:
  "\<exists>u pw q. Database_GetConnection sample_kube_env sample_resource =
      Inr (''postgres'', ''postgres://'' @ u @ '':'' @ pw @ ''@'' @ ''db'' @ '':'' @ ''5432'' @ ''/'' @ ''app'' @ q) \<and>
    set (u @ pw) \<inter> set ''@/?:'' = {} \<and> url_unescape u = ''me'' \<and> url_unescape pw = ''p@ss:/?''"
  by (rule credentials_escaped_in_uri [where c = sample_postgres_conn and sslmode = "[]" and schema = "[]"]; code_simp)

text \<open>A parameter that is neither given nor referenced is not reported but dereferenced.\<close>

lemma missing_parameter_panics:
  assumes "ke_config env = None" "ke_clientset env = None" "IsEmpty v"
  shows "getValueFromValueOrValueFrom env d driver (Some v) = Inl (GoPanic ''invalid memory address or nil pointer dereference'')"
  using assms by (simp add: getValueFromValueOrValueFrom_def IsEmpty_def)

text \<open>The DSN of a sqlite database is never read: such a database has no connection.\<close>

lemma sqlite_has_no_connection:
  assumes "getDbType d = Inr ''sqlite''"
  shows "Database_GetConnection env d = Inl (ErrNew ''valueOrValueFrom must not be nil'')"
  using assms by (simp add: Database_GetConnection_def getConnectionFromURI_def uri_of_def getValueFromValueOrValueFrom_def)

text \<open>A secret access key that is stored in a secret reaches the parameter store as the key id.\<close>

lemma ssm_secret_key_misplaced:
  assumes "ke_aws_config env = None" "ssm_AccessKeyID ssm = Some a" "vsr_Value a \<noteq> []"
    and "ssm_SecretAccessKey ssm = Some s" "vsr_Value s = []"
    and "vsr_ValueFrom s = Some \<lparr> vfs_SecretKeyRef = Some r \<rparr>"
    and "ke_secret env (dr_Namespace d) (sk_Name r) = Inr dat" "dat (sk_Key r) = Some k"
    and "ssm_Region ssm \<noteq> []"
  shows "getSSMConnection env d ssm =
    wrapE ''failed to get ssm parameter''
      (ke_get_parameter env (ssm_Region ssm) (Some (k, [])) (ssm_Name ssm) (ssm_WithDecryption ssm))"
  using assms by (simp add: getSSMConnection_def ssm_credential_def)

end
