(* ===== verification/Controllers.thy ===== *)
theory Controllers
  imports Database_Sync Db_Resource Gob
begin

text \<open>
  The controllers that turn a Table resource into a Migration and execute it:
  src/pkg/controller/table (reconcile_table.go, batch.go), src/pkg/controller/migration
  (reconcile_migration.go, migration_controller.go, lookup.go) and the commands that approve and
  reject a migration (src/pkg/cli/schemaherokubectlcli). The types are those of
  migration_types.go and table_types.go.

  The Kubernetes API is the record \<open>KubeClient\<close> of the calls the code makes, on a state \<open>'k\<close> of the
  cluster; the databases that migrations change are a state \<open>'db\<close>. Clock readings are arguments,
  in the order in which the code reads the clock. JSON encoding is the parameter \<open>marshal\<close>.
  Logging is left out.
\<close>

section \<open>Migrations and tables\<close>

datatype Phase = NoPhase | Planned | Approved | Executed | Invalid | Rejected

record TableReference =
  trf_Name :: string
  trf_Namespace :: string

record MigrationSpec =
  ms_DatabaseName :: string
  ms_TableName :: string
  ms_TableNamespace :: string
  ms_GeneratedDDL :: string
  ms_EditedDDL :: string
  ms_Tables :: "TableReference list"

record MigrationStatus =
  mst_Phase :: Phase
  mst_PlannedAt :: int
  mst_InvalidatedAt :: int
  mst_ApprovedAt :: int
  mst_RejectedAt :: int
  mst_ExecutedAt :: int

record Migration =
  mg_Name :: string
  mg_Namespace :: string
  mg_Spec :: MigrationSpec
  mg_Status :: MigrationStatus

record TableResource =
  to_Name :: string
  to_Namespace :: string
  to_Spec :: TableSpec
  to_LastPlannedTableSpecSHA :: string

record 'k KubeClient =
  kc_RESTConfig :: "go_error option"
  kc_schemasClient :: "go_error option"
  kc_databasesClient :: "go_error option"
  kc_GetTable :: "string \<Rightarrow> string \<Rightarrow> 'k \<Rightarrow> TableResource result"
  kc_GetView :: "string \<Rightarrow> string \<Rightarrow> 'k \<Rightarrow> (string \<times> ViewSpec) result"
  kc_GetDatabase :: "string \<Rightarrow> string \<Rightarrow> 'k \<Rightarrow> DatabaseResource result"
  kc_GetExtensionPhase :: "string \<Rightarrow> string \<Rightarrow> 'k \<Rightarrow> string result"
  kc_ReadyReplicas :: "string \<Rightarrow> string \<Rightarrow> 'k \<Rightarrow> int result"
  kc_GetMigration :: "string \<Rightarrow> string \<Rightarrow> 'k \<Rightarrow> Migration result"
  kc_SetOwner :: "Migration \<Rightarrow> go_error option"
  kc_CreateMigration :: "Migration \<Rightarrow> 'k \<Rightarrow> go_error option \<times> 'k"
  kc_UpdateMigration :: "Migration \<Rightarrow> 'k \<Rightarrow> go_error option \<times> 'k"
  kc_UpdateTableStatus :: "TableResource \<Rightarrow> 'k \<Rightarrow> go_error option \<times> 'k"

text \<open>The predicates of the API machinery look through wrapped errors.\<close>

fun IsNotFound :: "go_error \<Rightarrow> bool" where
  "IsNotFound (ApiNotFound _) = True"
| "IsNotFound (Wrapped _ e) = IsNotFound e"
| "IsNotFound _ = False"

fun IsConflict :: "go_error \<Rightarrow> bool" where
  "IsConflict (ApiConflict _) = True"
| "IsConflict (Wrapped _ e) = IsConflict e"
| "IsConflict _ = False"

definition GetSHA :: "(TableSpec \<Rightarrow> string result) \<Rightarrow> TableResource \<Rightarrow> string result" where
  "GetSHA marshal t = bindE (wrapE ''failed to marshal'' (marshal (to_Spec t))) (\<lambda>b. Inr (sha256_hex b))"

section \<open>The migration controller\<close>

definition isMigrationManagedByThisController :: "string list \<Rightarrow> Migration \<Rightarrow> bool" where
  "isMigrationManagedByThisController databaseNames m =
     list_ex (\<lambda>managed. managed = ms_DatabaseName (mg_Spec m) \<or> managed = ''*'') databaseNames"

definition shouldApplyMigration :: "Migration \<Rightarrow> bool" where
  "shouldApplyMigration m \<longleftrightarrow> mst_ApprovedAt (mg_Status m) > 0 \<and> mst_ExecutedAt (mg_Status m) = 0"

definition with_client :: "go_error option \<Rightarrow> string \<Rightarrow> 'a result \<Rightarrow> 'a result" where
  "with_client client msg r = (case client of Some e \<Rightarrow> Inl (wrap_error msg e) | None \<Rightarrow> r)"

text \<open>The error of making a client; a client that was made before is reused, which changes nothing else.\<close>

definition getSchemasClient :: "'k KubeClient \<Rightarrow> go_error option" where
  "getSchemasClient kc =
     (case kc_RESTConfig kc of
        Some e \<Rightarrow> Some (wrap_error ''failed to get config'' e)
      | None \<Rightarrow> map_option (wrap_error ''failed to create schemas client'') (kc_schemasClient kc))"

definition getDatabasesClient :: "'k KubeClient \<Rightarrow> go_error option" where
  "getDatabasesClient kc =
     (case kc_RESTConfig kc of
        Some e \<Rightarrow> Some (wrap_error ''failed to get config'' e)
      | None \<Rightarrow> map_option (wrap_error ''failed to create databases client'') (kc_databasesClient kc))"

definition TableFromMigration :: "'k KubeClient \<Rightarrow> Migration \<Rightarrow> 'k \<Rightarrow> TableResource result" where
  "TableFromMigration kc m k =
     with_client (getSchemasClient kc) ''failed to get schemas client''
       (wrapE ''failed to get table'' (kc_GetTable kc (ms_TableNamespace (mg_Spec m)) (ms_TableName (mg_Spec m)) k))"

definition DatabaseFromTable :: "'k KubeClient \<Rightarrow> TableResource \<Rightarrow> 'k \<Rightarrow> DatabaseResource result" where
  "DatabaseFromTable kc t k =
     with_client (getDatabasesClient kc) ''failed to get databases client''
       (wrapE ''failed to get database'' (kc_GetDatabase kc (to_Namespace t) (tsp_Database (to_Spec t)) k))"

text \<open>A view is its namespace and its spec.\<close>

definition ViewFromMigration :: "'k KubeClient \<Rightarrow> Migration \<Rightarrow> 'k \<Rightarrow> (string \<times> ViewSpec) result" where
  "ViewFromMigration kc m k =
     with_client (getSchemasClient kc) ''failed to get schemas client''
       (wrapE ''failed to get view'' (kc_GetView kc (ms_TableNamespace (mg_Spec m)) (ms_TableName (mg_Spec m)) k))"

definition DatabaseFromView :: "'k KubeClient \<Rightarrow> string \<times> ViewSpec \<Rightarrow> 'k \<Rightarrow> DatabaseResource result" where
  "DatabaseFromView kc v k =
     with_client (getDatabasesClient kc) ''failed to get databases client''
       (wrapE ''failed to get database'' (kc_GetDatabase kc (fst v) (vsp_Database (snd v)) k))"

definition getDatabaseFromMigration :: "'k KubeClient \<Rightarrow> Migration \<Rightarrow> 'k \<Rightarrow> DatabaseResource result" where
  "getDatabaseFromMigration kc m k =
     (case TableFromMigration kc m k of
        Inr t \<Rightarrow> wrapE (''failed to get database from table '' @ to_Name t) (DatabaseFromTable kc t k)
      | Inl e \<Rightarrow>
          if \<not> IsNotFound e then Inl (wrap_error ''failed to get table'' e)
          else bindE (wrapE ''failed to get view'' (ViewFromMigration kc m k)) (\<lambda>v.
                 wrapE (''failed to get database from view '' @ ms_TableName (mg_Spec m)) (DatabaseFromView kc v k)))"

text \<open>The Database value that a controller plans and applies with.\<close>

definition controller_database ::
  "'db plugin_manager option \<Rightarrow> string \<times> string \<Rightarrow> bool \<Rightarrow> 'db Database" where
  "controller_database manager conn deploySeedData =
     SetPluginManager
       \<lparr> db_InputDir = [], db_OutputDir = [], db_Driver = fst conn, db_URI = snd conn, db_Hosts = [],
         db_Username = [], db_Password = [], db_Keyspace = [], db_DeploySeedData = deploySeedData,
         db_pluginManager = None \<rparr> manager"

definition mark_executed :: "int \<Rightarrow> Migration \<Rightarrow> Migration" where
  "mark_executed now m = m\<lparr> mg_Status := (mg_Status m)\<lparr> mst_ExecutedAt := now, mst_Phase := Executed \<rparr> \<rparr>"

text \<open>
  After the statements ran the status is stored. On a conflict the current object is fetched and
  only its time of execution is set: the phase is assigned to the stale copy.
\<close>

definition record_execution ::
  "'k KubeClient \<Rightarrow> int \<times> int \<Rightarrow> Migration \<Rightarrow> 'k \<Rightarrow> go_error option \<times> 'k" where
  "record_execution kc clock m k =
     (case kc_UpdateMigration kc (mark_executed (fst clock) m) k of
        (None, k') \<Rightarrow> (None, k')
      | (Some err, k') \<Rightarrow>
          if \<not> IsConflict err then (Some (wrap_error ''failed to update'' err), k')
          else (case kc_GetMigration kc (mg_Namespace m) (mg_Name m) k' of
                  Inl e \<Rightarrow> (Some (wrap_error ''failed to get updated instance'' e), k')
                | Inr u \<Rightarrow>
                    (case kc_UpdateMigration kc
                            (u\<lparr> mg_Status := (mg_Status u)\<lparr> mst_ExecutedAt := snd clock \<rparr> \<rparr>) k' of
                       (None, k'') \<Rightarrow> (None, k'')
                     | (Some e, k'') \<Rightarrow> (Some (wrap_error ''failed to update'' e), k''))))"

definition reconcileMigration ::
  "'k KubeClient \<Rightarrow> KubeEnv \<Rightarrow> 'db plugin_manager option \<Rightarrow> int \<times> int \<Rightarrow> Migration \<Rightarrow>
   'k \<times> 'db \<Rightarrow> go_error option \<times> ('k \<times> 'db)" where
  "reconcileMigration kc env manager clock m st =
     (case st of (k, db) \<Rightarrow>
        if \<not> shouldApplyMigration m then (None, st)
        else (case bindE (wrapE (''failed to get database from migration '' @ mg_Name m) (getDatabaseFromMigration kc m k))
                     (\<lambda>d. wrapE ''failed to get connection details for database'' (Database_GetConnection env d)) of
                Inl e \<Rightarrow> (Some e, st)
              | Inr conn \<Rightarrow>
                  (let d = controller_database manager conn False;
                       statements = GetStatementsFromDDL (ms_GeneratedDDL (mg_Spec m))
                   in case ApplySync d statements db of
                        (Some e, db') \<Rightarrow> (Some (wrap_error ''failed to apply statements'' e), (k, db'))
                      | (None, db') \<Rightarrow>
                          (case record_execution kc clock m k of (err, k') \<Rightarrow> (err, (k', db'))))))"

definition Reconcile ::
  "'k KubeClient \<Rightarrow> KubeEnv \<Rightarrow> 'db plugin_manager option \<Rightarrow> string list \<Rightarrow> int \<times> int \<Rightarrow> string \<times> string \<Rightarrow>
   'k \<times> 'db \<Rightarrow> go_error option \<times> ('k \<times> 'db)" where
  "Reconcile kc env manager databaseNames clock request st =
     (case kc_GetMigration kc (fst request) (snd request) (fst st) of
        Inl e \<Rightarrow> (Some e, st)
      | Inr m \<Rightarrow>
          if \<not> isMigrationManagedByThisController databaseNames m then (None, st)
          else reconcileMigration kc env manager clock m st)"

section \<open>Approving and rejecting a migration\<close>

definition phase_string :: "Phase \<Rightarrow> string" where
  "phase_string p =
     (case p of NoPhase \<Rightarrow> [] | Planned \<Rightarrow> ''PLANNED'' | Approved \<Rightarrow> ''APPROVED'' | Executed \<Rightarrow> ''EXECUTED''
      | Invalid \<Rightarrow> ''INVALID'' | Rejected \<Rightarrow> ''REJECTED'')"

fun approve_migration :: "'k KubeClient \<Rightarrow> int \<Rightarrow> string \<Rightarrow> string list \<Rightarrow> 'k \<Rightarrow> go_error option \<times> 'k" where
  "approve_migration kc now migrationName [] k =
     (Some (ErrNew (''migration '' @ Quote migrationName @ '' not found'')), k)"
| "approve_migration kc now migrationName (namespaceName # rest) k =
     (case kc_GetMigration kc namespaceName migrationName k of
        Inl e \<Rightarrow> if IsNotFound e then approve_migration kc now migrationName rest k else (Some e, k)
      | Inr m \<Rightarrow>
          if mst_Phase (mg_Status m) \<noteq> Planned
          then (Some (ErrNew (''migration '' @ Quote migrationName @ '' is not in the planned phase (current phase: '' @
                  phase_string (mst_Phase (mg_Status m)) @ '')'')), k)
          else kc_UpdateMigration kc
                 (m\<lparr> mg_Status := (mg_Status m)\<lparr> mst_ApprovedAt := now, mst_Phase := Approved \<rparr> \<rparr>) k)"

fun reject_migration :: "'k KubeClient \<Rightarrow> int \<Rightarrow> string \<Rightarrow> string list \<Rightarrow> 'k \<Rightarrow> go_error option \<times> 'k" where
  "reject_migration kc now migrationName [] k =
     (Some (ErrNew (''migration '' @ Quote migrationName @ '' not found'')), k)"
| "reject_migration kc now migrationName (namespaceName # rest) k =
     (case kc_GetMigration kc namespaceName migrationName k of
        Inl e \<Rightarrow> if IsNotFound e then reject_migration kc now migrationName rest k else (Some e, k)
      | Inr m \<Rightarrow>
          if mst_Phase (mg_Status m) = Planned
          then kc_UpdateMigration kc
                 (m\<lparr> mg_Status := (mg_Status m)\<lparr> mst_RejectedAt := now, mst_Phase := Rejected \<rparr> \<rparr>) k
          else reject_migration kc now migrationName rest k)"

section \<open>Planning a table\<close>

text \<open>A table without a schema is a nil dereference, unless no connection is configured at all.\<close>

definition checkDatabaseTypeMatches :: "DatabaseConnection \<Rightarrow> TableSchema option \<Rightarrow> bool result" where
  "checkDatabaseTypeMatches c tableSchema =
     (let present = (\<lambda>field. case tableSchema of
                       Some s \<Rightarrow> Inr (field s)
                     | None \<Rightarrow> Inl (GoPanic ''invalid memory address or nil pointer dereference''))
      in if dc_Postgres c \<noteq> None then present (\<lambda>s. ts_Postgres s \<noteq> None)
         else if dc_Mysql c \<noteq> None then present (\<lambda>s. ts_Mysql s \<noteq> None)
         else if dc_CockroachDB c \<noteq> None then present (\<lambda>s. ts_CockroachDB s \<noteq> None)
         else if dc_RQLite c \<noteq> None then present (\<lambda>s. ts_RQLite s \<noteq> None)
         else if dc_TimescaleDB c \<noteq> None then present (\<lambda>s. ts_TimescaleDB s \<noteq> None)
         else if dc_SQLite c \<noteq> None then present (\<lambda>s. ts_SQLite s \<noteq> None)
         else if dc_Cassandra c \<noteq> None then present (\<lambda>s. ts_Cassandra s \<noteq> None)
         else Inr False)"

text \<open>
  The connections that the plugin manager hands out are proxies, and \<open>ConnectionProxy.PlanTableSchema\<close> writes its sentinels into the
  schema that it is given: after a plan the table holds the masked schema of its driver. Nothing restores it.
\<close>

definition masked_schema :: "string \<Rightarrow> TableSchema \<Rightarrow> TableSchema" where
  "masked_schema driver s =
     (if driver = ''postgres'' then s\<lparr> ts_Postgres := map_option mask_PostgresqlTableSchema (ts_Postgres s) \<rparr>
      else if driver = ''cockroachdb'' then s\<lparr> ts_CockroachDB := map_option mask_PostgresqlTableSchema (ts_CockroachDB s) \<rparr>
      else if driver = ''mysql'' then s\<lparr> ts_Mysql := map_option mask_MysqlTableSchema (ts_Mysql s) \<rparr>
      else if driver = ''timescaledb'' then s\<lparr> ts_TimescaleDB := map_option mask_TimescaleDBTableSchema (ts_TimescaleDB s) \<rparr>
      else if driver = ''sqlite'' \<or> driver = ''sqlite3'' then s\<lparr> ts_SQLite := map_option mask_SqliteTableSchema (ts_SQLite s) \<rparr>
      else if driver = ''rqlite'' then s\<lparr> ts_RQLite := map_option mask_RqliteTableSchema (ts_RQLite s) \<rparr>
      else if driver = ''cassandra'' then s\<lparr> ts_Cassandra := map_option mask_CassandraTableSchema (ts_Cassandra s) \<rparr>
      else s)"

definition planned_table :: "string \<Rightarrow> TableResource \<Rightarrow> TableResource" where
  "planned_table driver t =
     t\<lparr> to_Spec := (to_Spec t)\<lparr> tsp_Schema := map_option (masked_schema driver) (tsp_Schema (to_Spec t)) \<rparr> \<rparr>"

text \<open>The statements of a table: of its schema, or of its seed data when the schema needs none.\<close>

definition table_statements ::
  "'db Database \<Rightarrow> DatabaseResource \<Rightarrow> TableResource \<Rightarrow> string list result" where
  "table_statements d r t =
     bindE (wrapE (''failed to plan sync for table '' @ to_Name t) (PlanSyncTableSpec d (to_Spec t))) (\<lambda>schemaStatements.
       if dr_DeploySeedData r \<and> tsp_SeedData (to_Spec t) \<noteq> None \<and> schemaStatements = []
       then wrapE (''failed to plan seed for table '' @ to_Name t) (PlanSyncSeedData d (to_Spec t))
       else Inr schemaStatements)"

definition planned_migration ::
  "int \<times> int \<Rightarrow> bool \<Rightarrow> string \<Rightarrow> string \<Rightarrow> MigrationSpec \<Rightarrow> Migration" where
  "planned_migration clock immediateDeploy name namespace spec =
     \<lparr> mg_Name = name, mg_Namespace = namespace, mg_Spec = spec,
       mg_Status =
         \<lparr> mst_Phase = Planned, mst_PlannedAt = fst clock, mst_InvalidatedAt = 0,
           mst_ApprovedAt = (if immediateDeploy then snd clock else 0), mst_RejectedAt = 0, mst_ExecutedAt = 0 \<rparr> \<rparr>"

text \<open>Create the migration, or overwrite the spec and the status of one with its name.\<close>

definition store_migration ::
  "'k KubeClient \<Rightarrow> string \<Rightarrow> Migration \<Rightarrow> 'k \<Rightarrow> go_error option \<times> 'k" where
  "store_migration kc ownerMsg m k =
     (case kc_GetMigration kc (mg_Namespace m) (mg_Name m) k of
        Inr existing \<Rightarrow>
          (case kc_UpdateMigration kc (existing\<lparr> mg_Spec := mg_Spec m, mg_Status := mg_Status m \<rparr>) k of
             (None, k') \<Rightarrow> (None, k')
           | (Some e, k') \<Rightarrow> (Some (wrap_error ''failed to update migration resource'' e), k'))
      | Inl err \<Rightarrow>
          if \<not> IsNotFound err then (Some (wrap_error ''failed to get existing migration'' err), k)
          else (case kc_SetOwner kc m of
                  Some e \<Rightarrow> (Some (wrap_error ownerMsg e), k)
                | None \<Rightarrow>
                    (case kc_CreateMigration kc m k of
                       (None, k') \<Rightarrow> (None, k')
                     | (Some e, k') \<Rightarrow> (Some (wrap_error ''failed to create migration resource'' e), k'))))"

definition update_table_status ::
  "'k KubeClient \<Rightarrow> (TableSpec \<Rightarrow> string result) \<Rightarrow> TableResource \<Rightarrow> 'k \<Rightarrow> go_error option \<times> 'k" where
  "update_table_status kc marshal t k =
     (case GetSHA marshal t of
        Inl e \<Rightarrow> (Some (wrap_error ''failed to get table sha for status update'' e), k)
      | Inr sha \<Rightarrow>
          (case kc_UpdateTableStatus kc (t\<lparr> to_LastPlannedTableSpecSHA := sha \<rparr>) k of
             (None, k') \<Rightarrow> (None, k')
           | (Some e, k') \<Rightarrow> (Some (wrap_error ''failed to update table status'' e), k')))"

definition plan ::
  "'k KubeClient \<Rightarrow> KubeEnv \<Rightarrow> 'db plugin_manager option \<Rightarrow> (TableSpec \<Rightarrow> string result) \<Rightarrow> int \<times> int \<Rightarrow>
   DatabaseResource \<Rightarrow> TableResource \<Rightarrow> 'k \<Rightarrow> go_error option \<times> 'k" where
  "plan kc env manager marshal clock r t k =
     (case wrapE ''failed to get connection details for database'' (Database_GetConnection env r) of
        Inl e \<Rightarrow> (Some e, k)
      | Inr conn \<Rightarrow>
          (case table_statements (controller_database manager conn (dr_DeploySeedData r)) r t of
             Inl e \<Rightarrow> (Some e, k)
           | Inr [] \<Rightarrow> update_table_status kc marshal (planned_table (fst conn) t) k
           | Inr statements \<Rightarrow>
               (let t = planned_table (fst conn) t
                in case GetSHA marshal t of
                     Inl e \<Rightarrow> (Some (wrap_error ''failed to get sha of table'' e), k)
                   | Inr sha \<Rightarrow>
                       (let m = planned_migration clock (dr_ImmediateDeploy r) (take 7 sha) (to_Namespace t)
                              \<lparr> ms_DatabaseName = tsp_Database (to_Spec t), ms_TableName = to_Name t,
                                ms_TableNamespace = to_Namespace t, ms_GeneratedDDL = Join statements ('';'' @ [newline]),
                                ms_EditedDDL = [], ms_Tables = [] \<rparr>
                        in case store_migration kc ''failed to set owner on miration'' m k of
                             (Some e, k') \<Rightarrow> (Some e, k')
                           | (None, k') \<Rightarrow> update_table_status kc marshal t k'))))"

section \<open>Batches of tables (batch.go)\<close>

text \<open>
  The tables that wait for the batch of one database, in the order in which their keys were first
  queued; queueing a table again replaces it. \<open>bs_timer\<close> says that the handle of a timer is set and
  \<open>bs_callbacks\<close> counts the callbacks that were scheduled and have not run yet.
\<close>

record batchState =
  bs_pendingTables :: "(string \<times> TableResource) list"
  bs_timer :: bool
  bs_callbacks :: nat

definition empty_batch :: batchState where
  "empty_batch = \<lparr> bs_pendingTables = [], bs_timer = False, bs_callbacks = 0 \<rparr>"

definition tableKey :: "string \<Rightarrow> string \<Rightarrow> string" where
  "tableKey namespace name = namespace @ ''/'' @ name"

fun put_pending :: "string \<Rightarrow> TableResource \<Rightarrow> (string \<times> TableResource) list \<Rightarrow> (string \<times> TableResource) list" where
  "put_pending key t [] = [(key, t)]"
| "put_pending key t ((k, u) # rest) = (if k = key then (key, t) # rest else (k, u) # put_pending key t rest)"

definition batching_enabled :: "DatabaseResource \<Rightarrow> bool" where
  "batching_enabled r = (case dr_BatchWindow r of None \<Rightarrow> False | Some w \<Rightarrow> w \<noteq> 0)"

text \<open>
  QueueTable on the batch of the table's database. \<open>stopped\<close> is the result of Timer.Stop: whether the
  callback of the old timer was cancelled, or had already been started.
\<close>

definition QueueTable :: "bool \<Rightarrow> TableResource \<Rightarrow> batchState \<Rightarrow> batchState" where
  "QueueTable stopped t b =
     (let cancelled = (if bs_timer b \<and> stopped then 1 else 0)
      in \<lparr> bs_pendingTables = put_pending (tableKey (to_Namespace t) (to_Name t)) t (bs_pendingTables b),
           bs_timer = True, bs_callbacks = bs_callbacks b - cancelled + 1 \<rparr>)"

text \<open>
  processBatch up to the call of planBatch: the tables it takes and the batch it leaves. \<open>order\<close> is
  the order in which Go iterates over the map.
\<close>

definition processBatch ::
  "(TableResource list \<Rightarrow> TableResource list) \<Rightarrow> batchState \<Rightarrow> TableResource list \<times> batchState" where
  "processBatch order b =
     (order (map snd (bs_pendingTables b)), \<lparr> bs_pendingTables = [], bs_timer = False, bs_callbacks = bs_callbacks b - 1 \<rparr>)"

text \<open>
  The loop of planBatch over the tables: a table whose plan fails is skipped, one that needs
  nothing has its status stored, the others contribute their statements.
\<close>

fun batch_loop ::
  "'k KubeClient \<Rightarrow> (TableSpec \<Rightarrow> string result) \<Rightarrow> 'db Database \<Rightarrow> DatabaseResource \<Rightarrow> TableResource list \<Rightarrow> 'k \<Rightarrow>
   (string list \<times> TableResource list) \<times> 'k" where
  "batch_loop kc marshal d r [] k = (([], []), k)"
| "batch_loop kc marshal d r (t # ts) k =
     (case table_statements d r t of
        Inl _ \<Rightarrow> batch_loop kc marshal d r ts k
      | Inr [] \<Rightarrow> batch_loop kc marshal d r ts (snd (update_table_status kc marshal (planned_table (db_Driver d) t) k))
      | Inr statements \<Rightarrow>
          (case batch_loop kc marshal d r ts k of ((rest, processed), k') \<Rightarrow>
             ((statements @ rest, planned_table (db_Driver d) t # processed), k')))"

definition sha_or_empty :: "(TableSpec \<Rightarrow> string result) \<Rightarrow> TableResource \<Rightarrow> string" where
  "sha_or_empty marshal t = (case GetSHA marshal t of Inr s \<Rightarrow> s | Inl _ \<Rightarrow> [])"

definition planBatch ::
  "'k KubeClient \<Rightarrow> KubeEnv \<Rightarrow> 'db plugin_manager option \<Rightarrow> (TableSpec \<Rightarrow> string result) \<Rightarrow> int \<times> int \<Rightarrow>
   DatabaseResource \<Rightarrow> TableResource list \<Rightarrow> 'k \<Rightarrow> go_error option \<times> 'k" where
  "planBatch kc env manager marshal clock r tables k =
     (case wrapE ''failed to get connection details for database'' (Database_GetConnection env r) of
        Inl e \<Rightarrow> (Some e, k)
      | Inr conn \<Rightarrow>
          (case batch_loop kc marshal (controller_database manager conn (dr_DeploySeedData r)) r tables k of
             (([], _), k') \<Rightarrow> (None, k')
           | ((statements, processed), k') \<Rightarrow>
               (let sha = take 7 (sha256_hex (Join (map (sha_or_empty marshal) processed) '':''));
                    m = planned_migration clock (dr_ImmediateDeploy r) (''batch-'' @ sha) (dr_Namespace r)
                      \<lparr> ms_DatabaseName = dr_Name r, ms_TableName = to_Name (hd processed),
                        ms_TableNamespace = to_Namespace (hd processed),
                        ms_GeneratedDDL = Join statements ('';'' @ [newline]), ms_EditedDDL = [],
                        ms_Tables = map (\<lambda>t. \<lparr> trf_Name = to_Name t, trf_Namespace = to_Namespace t \<rparr>) processed \<rparr>
                in case store_migration kc ''failed to set owner on migration'' m k' of
                     (Some e, k'') \<Rightarrow> (Some e, k'')
                   | (None, k'') \<Rightarrow> (None, fold (\<lambda>t k. snd (update_table_status kc marshal t k)) processed k''))))"

section \<open>Reconciling a table\<close>

definition isDatabaseControllerReady :: "'k KubeClient \<Rightarrow> DatabaseResource \<Rightarrow> 'k \<Rightarrow> bool result" where
  "isDatabaseControllerReady kc r k =
     (case kc_ReadyReplicas kc (dr_Namespace r) (dr_Name r @ ''-controller'') k of
        Inr n \<Rightarrow> Inr (\<not> n < 1)
      | Inl e \<Rightarrow> if IsNotFound e then Inr False
                else Inl (wrap_error ''failed to get database controller statefulset'' e))"

text \<open>Whether all required extensions are applied; the first that is not settles it.\<close>

fun extensions_applied :: "'k KubeClient \<Rightarrow> string \<Rightarrow> string list \<Rightarrow> 'k \<Rightarrow> bool result" where
  "extensions_applied kc namespace [] k = Inr True"
| "extensions_applied kc namespace (e # es) k =
     (case kc_GetExtensionPhase kc namespace e k of
        Inl err \<Rightarrow> if IsNotFound err then Inr False
                  else Inl (wrap_error (''failed to get required extension '' @ e) err)
      | Inr phase \<Rightarrow> if phase \<noteq> ''Applied'' then Inr False else extensions_applied kc namespace es k)"

text \<open>The database, or \<^const>\<open>None\<close> when it does not exist yet.\<close>

definition getDatabaseInstance :: "'k KubeClient \<Rightarrow> string \<Rightarrow> string \<Rightarrow> 'k \<Rightarrow> DatabaseResource option result" where
  "getDatabaseInstance kc namespace name k =
     with_client (kc_RESTConfig kc) ''failed to get config''
       (with_client (kc_databasesClient kc) ''failed to get databasesclient''
       (case kc_GetDatabase kc namespace name k of
          Inr d \<Rightarrow> Inr (Some d)
        | Inl e \<Rightarrow> if IsNotFound e then Inr None else Inl (wrap_error ''failed to get database object'' e)))"

text \<open>What a reconciliation decides to do.\<close>

datatype table_decision = Done | Requeue | Queue DatabaseResource | PlanNow DatabaseResource

definition reconcile_decision ::
  "'k KubeClient \<Rightarrow> (TableSpec \<Rightarrow> string result) \<Rightarrow> TableResource \<Rightarrow> 'k \<Rightarrow> table_decision result" where
  "reconcile_decision kc marshal t k =
     bindE (wrapE ''failed to get instance sha'' (GetSHA marshal t)) (\<lambda>sha.
       if to_LastPlannedTableSpecSHA t = sha then Inr Done
       else
         bindE (wrapE ''failed to get database spec''
                  (getDatabaseInstance kc (to_Namespace t) (tsp_Database (to_Spec t)) k)) (\<lambda>database.
           case database of
             None \<Rightarrow> Inr Requeue
           | Some r \<Rightarrow>
               bindE (wrapE ''failed to verify database controller readiness'' (isDatabaseControllerReady kc r k)) (\<lambda>isReady.
                 if \<not> isReady then Inr Requeue
                 else
                   bindE (extensions_applied kc (to_Namespace t) (tsp_Requires (to_Spec t)) k) (\<lambda>applied.
                     if \<not> applied then Inr Requeue
                     else
                       bindE (checkDatabaseTypeMatches (dr_Connection r) (tsp_Schema (to_Spec t))) (\<lambda>matches.
                         if \<not> matches then Inl (ErrNew ''unable to deploy table to connection of different type'')
                         else Inr (if batching_enabled r then Queue r else PlanNow r))))))"

text \<open>
  The handler: the decision, then the plan or the queue of the database's batch. The batch manager
  is a map from the keys of databases to their batches.
\<close>

type_synonym BatchManager = "string \<rightharpoonup> batchState"

definition reconcileTable ::
  "'k KubeClient \<Rightarrow> KubeEnv \<Rightarrow> 'db plugin_manager option \<Rightarrow> (TableSpec \<Rightarrow> string result) \<Rightarrow> int \<times> int \<Rightarrow> bool \<Rightarrow>
   TableResource \<Rightarrow> 'k \<times> BatchManager \<Rightarrow> (bool \<times> go_error option) \<times> ('k \<times> BatchManager)" where
  "reconcileTable kc env manager marshal clock stopped t st =
     (case st of (k, bm) \<Rightarrow>
        (case reconcile_decision kc marshal t k of
           Inl e \<Rightarrow> ((False, Some e), st)
         | Inr Done \<Rightarrow> ((False, None), st)
         | Inr Requeue \<Rightarrow> ((True, None), st)
         | Inr (Queue r) \<Rightarrow>
             (let key = tableKey (dr_Namespace r) (dr_Name r);
                  b = (case bm key of Some b \<Rightarrow> b | None \<Rightarrow> empty_batch)
              in ((False, None), (k, bm(key \<mapsto> QueueTable stopped t b))))
         | Inr (PlanNow r) \<Rightarrow>
             (case plan kc env manager marshal clock r t k of (e, k') \<Rightarrow> ((False, e), (k', bm)))))"

section \<open>A batch never forgets a table\<close>

text \<open>
  The runs of one batch. A state holds the history of queued tables, the batch, and the batches
  that were planned. A table may be queued at any time, also after a callback was started and
  before it took the lock; then the timer cannot be stopped any more.
\<close>

type_synonym batch_run = "TableResource list \<times> batchState \<times> TableResource list list"

inductive batch_step :: "batch_run \<Rightarrow> batch_run \<Rightarrow> bool" where
  queue: "(stopped \<Longrightarrow> bs_callbacks b > 0) \<Longrightarrow>
    batch_step (queued, b, planned) (queued @ [t], QueueTable stopped t b, planned)"
| fire: "bs_callbacks b > 0 \<Longrightarrow> (\<And>xs. set (order xs) = set xs) \<Longrightarrow>
    batch_step (queued, b, planned) (queued, snd (processBatch order b), planned @ [fst (processBatch order b)])"

inductive batch_reachable :: "batch_run \<Rightarrow> bool" where
  start: "batch_reachable ([], empty_batch, [])"
| step: "batch_reachable s \<Longrightarrow> batch_step s s' \<Longrightarrow> batch_reachable s'"

inductive_cases batch_stepE: "batch_step s s'"

definition table_key :: "TableResource \<Rightarrow> string" where
  "table_key t = tableKey (to_Namespace t) (to_Name t)"

text \<open>The last version of a table that was queued under a key.\<close>

definition last_queued :: "TableResource list \<Rightarrow> string \<Rightarrow> TableResource option" where
  "last_queued queued key = find (\<lambda>t. table_key t = key) (rev queued)"

fun batch_inv :: "batch_run \<Rightarrow> bool" where
  "batch_inv (queued, b, planned) =
     ((bs_pendingTables b \<noteq> [] \<longrightarrow> bs_callbacks b > 0) \<and> distinct (map fst (bs_pendingTables b)) \<and>
      (\<forall>key t. last_queued queued key = Some t \<longrightarrow>
         (key, t) \<in> set (bs_pendingTables b) \<or> (\<exists>ts \<in> set planned. t \<in> set ts)))"

lemma set_put_pending:
  "distinct (map fst ps) \<Longrightarrow> set (put_pending key t ps) = insert (key, t) {p \<in> set ps. fst p \<noteq> key}"
  by (induction key t ps rule: put_pending.induct) (auto simp: rev_image_eqI)

lemma keys_put_pending:
  "set (map fst (put_pending key t ps)) = insert key (set (map fst ps))"
  by (induction key t ps rule: put_pending.induct) auto

lemma distinct_put_pending:
  "distinct (map fst ps) \<Longrightarrow> distinct (map fst (put_pending key t ps))"
  using keys_put_pending
  by (induction key t ps rule: put_pending.induct) (auto simp del: set_map simp: keys_put_pending)

lemma last_queued_snoc:
  "last_queued (queued @ [t]) key = (if table_key t = key then Some t else last_queued queued key)"
  by (simp add: last_queued_def)

lemma batch_step_inv: "batch_step s s' \<Longrightarrow> batch_inv s \<Longrightarrow> batch_inv s'"
proof (induction rule: batch_step.induct)
  case (queue stopped b queued planned t)
  then have d: "distinct (map fst (bs_pendingTables b))" by simp
  show ?case
    using queue distinct_put_pending [OF d] set_put_pending [OF d]
    by (auto simp: QueueTable_def Let_def last_queued_snoc table_key_def [symmetric])
next
  case (fire b order queued planned)
  then show ?case by (force simp: processBatch_def)
qed

lemma batch_reachable_inv: "batch_reachable s \<Longrightarrow> batch_inv s"
  by (induction rule: batch_reachable.induct) (auto simp: empty_batch_def last_queued_def intro: batch_step_inv)

text \<open>
  C13. No table is lost between queueing and planning, whatever the interleaving of queueing and of
  timer callbacks: in every reachable state the last queued version of each table is still
  pending or was part of a planned batch, no table is pending twice, and as long as a table is
  pending a callback is outstanding whose run plans all pending tables.
\<close>

theorem batch_keeps_tables:
  assumes "batch_reachable (queued, b, planned)"
  shows "(\<forall>key t. last_queued queued key = Some t \<longrightarrow>
      (key, t) \<in> set (bs_pendingTables b) \<or> (\<exists>ts \<in> set planned. t \<in> set ts)) \<and>
    distinct (map fst (bs_pendingTables b)) \<and>
    (bs_pendingTables b \<noteq> [] \<longrightarrow>
      batch_step (queued, b, planned) (queued, snd (processBatch id b), planned @ [fst (processBatch id b)]) \<and>
      set (fst (processBatch id b)) = snd ` set (bs_pendingTables b) \<and>
      bs_pendingTables (snd (processBatch id b)) = [])"
proof -
  note inv = batch_reachable_inv [OF assms, simplified]
  have "batch_step (queued, b, planned) (queued, snd (processBatch id b), planned @ [fst (processBatch id b)])"
    if "bs_pendingTables b \<noteq> []" by (rule batch_step.fire) (use that inv in simp_all)
  then show ?thesis using inv by (simp add: processBatch_def)
qed

definition sample_table :: "string \<Rightarrow> TableResource" where
  "sample_table name =
     \<lparr> to_Name = name, to_Namespace = ''ns'',
       to_Spec = \<lparr> tsp_Database = ''app'', tsp_Name = name, tsp_Requires = [], tsp_Schema = None, tsp_SeedData = None \<rparr>,
       to_LastPlannedTableSpecSHA = [] \<rparr>"

theorem batch_keeps_tables_witness:
  "let b = QueueTable True (sample_table ''b'') (QueueTable False (sample_table ''a'') empty_batch)
   in last_queued [sample_table ''a'', sample_table ''b''] ''ns/a'' = Some (sample_table ''a'') \<and>
      (''ns/a'', sample_table ''a'') \<in> set (bs_pendingTables b)"
proof -
  have "batch_reachable ([sample_table ''a''], QueueTable False (sample_table ''a'') empty_batch, [])"
    using batch_reachable.step [OF batch_reachable.start batch_step.queue [of False _ "[]"]] by simp
  from batch_reachable.step [OF this batch_step.queue [of True _ _ _ "sample_table ''b''"]]
  have r: "batch_reachable ([sample_table ''a'', sample_table ''b''],
      QueueTable True (sample_table ''b'') (QueueTable False (sample_table ''a'') empty_batch), [])"
    by (simp add: QueueTable_def [of False])
  have "last_queued [sample_table ''a'', sample_table ''b''] ''ns/a'' = Some (sample_table ''a'')"
    by (simp add: last_queued_def table_key_def tableKey_def sample_table_def)
  then show ?thesis using batch_keeps_tables [OF r] by (auto simp: Let_def)
qed

section \<open>A migration is executed once\<close>

text \<open>What the controllers rely on: an object that was stored is the one that is read.\<close>

definition stores_migrations :: "'k KubeClient \<Rightarrow> bool" where
  "stores_migrations kc \<longleftrightarrow>
     (\<forall>m k k'. kc_UpdateMigration kc m k = (None, k') \<longrightarrow>
        kc_GetMigration kc (mg_Namespace m) (mg_Name m) k' = Inr m) \<and>
     (\<forall>ns n k m. kc_GetMigration kc ns n k = Inr m \<longrightarrow> mg_Namespace m = ns \<and> mg_Name m = n)"

lemma record_execution_stored:
  assumes kc: "stores_migrations kc" and clock: "fst clock > 0" "snd clock > 0"
    and ok: "record_execution kc clock m k = (None, k')"
  shows "\<exists>m'. kc_GetMigration kc (mg_Namespace m) (mg_Name m) k' = Inr m' \<and> mst_ExecutedAt (mg_Status m') > 0"
proof (cases "kc_UpdateMigration kc (mark_executed (fst clock) m) k")
  case (Pair r k1)
  show ?thesis
  proof (cases r)
    case None
    then have "k1 = k'" using ok Pair by (simp add: record_execution_def)
    then have "kc_GetMigration kc (mg_Namespace m) (mg_Name m) k' = Inr (mark_executed (fst clock) m)"
      using kc None Pair unfolding stores_migrations_def by (fastforce simp: mark_executed_def)
    then show ?thesis using clock by (simp add: mark_executed_def)
  next
    case (Some e)
    then obtain u where u: "kc_GetMigration kc (mg_Namespace m) (mg_Name m) k1 = Inr u"
      "kc_UpdateMigration kc (u\<lparr> mg_Status := (mg_Status u)\<lparr> mst_ExecutedAt := snd clock \<rparr> \<rparr>) k1 = (None, k')"
      using ok Pair by (auto simp: record_execution_def split: if_splits sum.splits prod.splits option.splits)
    then have "mg_Namespace u = mg_Namespace m" "mg_Name u = mg_Name m"
      using kc unfolding stores_migrations_def by blast+
    then have "kc_GetMigration kc (mg_Namespace m) (mg_Name m) k' =
        Inr (u\<lparr> mg_Status := (mg_Status u)\<lparr> mst_ExecutedAt := snd clock \<rparr> \<rparr>)"
      using kc u(2) unfolding stores_migrations_def by fastforce
    then show ?thesis using clock by simp
  qed
qed

text \<open>The database that a migration is for and the connection to it.\<close>

definition migration_target :: "'k KubeClient \<Rightarrow> KubeEnv \<Rightarrow> Migration \<Rightarrow> 'k \<Rightarrow> string \<times> string \<Rightarrow> bool" where
  "migration_target kc env m k conn \<longleftrightarrow>
     (\<exists>r. getDatabaseFromMigration kc m k = Inr r \<and> Database_GetConnection env r = Inr conn)"

lemma reconcileMigration_cases:
  assumes "reconcileMigration kc env manager clock m (k, db) = (err, (k', db'))"
  obtains (skip) "\<not> shouldApplyMigration m" "err = None" "k' = k" "db' = db"
    | (early) e where "shouldApplyMigration m" "err = Some e" "k' = k" "db' = db" "\<And>conn. \<not> migration_target kc env m k conn"
    | (failed) conn e where "shouldApplyMigration m" "k' = k" "migration_target kc env m k conn"
        "ApplySync (controller_database manager conn False) (GetStatementsFromDDL (ms_GeneratedDDL (mg_Spec m))) db = (Some e, db')"
        "err = Some (wrap_error ''failed to apply statements'' e)"
    | (applied) conn where "shouldApplyMigration m" "migration_target kc env m k conn"
        "ApplySync (controller_database manager conn False) (GetStatementsFromDDL (ms_GeneratedDDL (mg_Spec m))) db = (None, db')"
        "record_execution kc clock m k = (err, k')"
proof (cases "getDatabaseFromMigration kc m k")
  case (Inl e)
  then show ?thesis
    using assms early skip by (auto simp: reconcileMigration_def migration_target_def Let_def split: if_splits)
next
  case (Inr r)
  show ?thesis
  proof (cases "Database_GetConnection env r")
    case (Inl e)
    then show ?thesis
      using assms \<open>getDatabaseFromMigration kc m k = Inr r\<close> early skip
      by (auto simp: reconcileMigration_def migration_target_def Let_def split: if_splits)
  next
    case (Inr conn)
    then have "migration_target kc env m k conn"
      using \<open>getDatabaseFromMigration kc m k = Inr r\<close> by (simp add: migration_target_def)
    then show ?thesis
      using assms \<open>getDatabaseFromMigration kc m k = Inr r\<close> Inr skip failed [of conn] applied [of conn]
      by (auto simp: reconcileMigration_def Let_def split: if_splits prod.splits option.splits)
  qed
qed

text \<open>
  C12. A migration changes a database only if it was approved and not executed before, and then by executing the statements
  of its text on the database that its table or view names, through the connection of that database. When it is due, what
  happens to the database is exactly what executing these statements does; if one fails, the error is
  reported and the migration is not marked. Once a reconciliation succeeded, a further one, whatever the first
  stored after a conflict, finds the time of execution and leaves both the cluster and the database as
  they are; this rests on clocks after 1970 and on a cluster that returns a migration as it was stored last.
\<close>

theorem migration_executed_once:
  assumes kc: "stores_migrations kc" and clock: "fst clock > 0" "snd clock > 0"
    and get: "kc_GetMigration kc ns n k = Inr m"
    and run: "reconcileMigration kc env manager clock m (k, db) = (err, (k', db'))"
  shows "(db' \<noteq> db \<longrightarrow> mst_ApprovedAt (mg_Status m) > 0 \<and> mst_ExecutedAt (mg_Status m) = 0 \<and>
      (\<exists>r conn. getDatabaseFromMigration kc m k = Inr r \<and> Database_GetConnection env r = Inr conn)) \<and>
    (\<forall>r conn e db1. mst_ApprovedAt (mg_Status m) > 0 \<and> mst_ExecutedAt (mg_Status m) = 0 \<and>
      getDatabaseFromMigration kc m k = Inr r \<and> Database_GetConnection env r = Inr conn \<and>
      ApplySync (controller_database manager conn False) (GetStatementsFromDDL (ms_GeneratedDDL (mg_Spec m))) db = (e, db1) \<longrightarrow>
        db' = db1 \<and> (e \<noteq> None \<longrightarrow> err \<noteq> None \<and> k' = k)) \<and>
    (err = None \<longrightarrow> Reconcile kc env manager names clock2 (ns, n) (k', db') = (None, (k', db')))"
proof -
  have due: "shouldApplyMigration m \<longleftrightarrow> mst_ApprovedAt (mg_Status m) > 0 \<and> mst_ExecutedAt (mg_Status m) = 0"
    by (simp add: shouldApplyMigration_def)
  from run show ?thesis
  proof (cases rule: reconcileMigration_cases)
    case (applied conn)
    have id: "mg_Namespace m = ns" "mg_Name m = n" using kc get unfolding stores_migrations_def by blast+
    have "Reconcile kc env manager names clock2 (ns, n) (k', db') = (None, (k', db'))" if none: "err = None"
    proof -
      obtain m' where "kc_GetMigration kc ns n k' = Inr m'" "mst_ExecutedAt (mg_Status m') > 0"
        using record_execution_stored [OF kc clock, of m k k'] applied(4) none id by auto
      then show ?thesis by (simp add: Reconcile_def reconcileMigration_def shouldApplyMigration_def)
    qed
    moreover obtain r where "getDatabaseFromMigration kc m k = Inr r" "Database_GetConnection env r = Inr conn"
      using applied(2) by (auto simp: migration_target_def)
    ultimately show ?thesis using applied(1,3) due by auto
  next
    case (failed conn e)
    moreover from failed(3) obtain r where "getDatabaseFromMigration kc m k = Inr r" "Database_GetConnection env r = Inr conn"
      by (auto simp: migration_target_def)
    ultimately show ?thesis using due by auto
  next
    case (early e)
    then show ?thesis by (auto simp: migration_target_def)
  next
    case skip
    then show ?thesis using get due by (auto simp: Reconcile_def reconcileMigration_def)
  qed
qed

text \<open>A cluster that holds nothing but migrations, for the witness.\<close>

definition sample_client :: "(string \<times> string \<Rightarrow> Migration option) KubeClient" where
  "sample_client =
     \<lparr> kc_RESTConfig = None, kc_schemasClient = None, kc_databasesClient = None,
       kc_GetTable = (\<lambda>ns n k. Inr (sample_table n)), kc_GetView = (\<lambda>ns n k. Inl (ApiNotFound n)),
       kc_GetDatabase = (\<lambda>ns n k. Inr sample_resource), kc_GetExtensionPhase = (\<lambda>ns n k. Inl (ApiNotFound n)),
       kc_ReadyReplicas = (\<lambda>ns n k. Inr 1),
       kc_GetMigration = (\<lambda>ns n k. case k (ns, n) of
          Some m \<Rightarrow> if mg_Namespace m = ns \<and> mg_Name m = n then Inr m else Inl (ApiNotFound n)
        | None \<Rightarrow> Inl (ApiNotFound n)),
       kc_SetOwner = (\<lambda>m. None), kc_CreateMigration = (\<lambda>m k. (None, k((mg_Namespace m, mg_Name m) \<mapsto> m))),
       kc_UpdateMigration = (\<lambda>m k. (None, k((mg_Namespace m, mg_Name m) \<mapsto> m))),
       kc_UpdateTableStatus = (\<lambda>t k. (None, k)) \<rparr>"

definition log_manager :: "string list plugin_manager" where
  "log_manager = (\<lambda>driver uri options. Inr
     \<lparr> cn_PlanTableSchema = (\<lambda>_ _ _. Inr []), cn_PlanTypeSchema = (\<lambda>_ _. Inr []), cn_PlanViewSchema = (\<lambda>_ _. Inr []),
       cn_PlanFunctionSchema = (\<lambda>_ _. Inr []), cn_PlanExtensionSchema = (\<lambda>_ _. Inr []),
       cn_DeployStatements = (\<lambda>ss db. (None, db @ ss)), cn_GenerateFixtures = (\<lambda>_. Inr []) \<rparr>)"

definition sample_migration :: Migration where
  "sample_migration = planned_migration (5, 6) True ''m'' ''ns''
     \<lparr> ms_DatabaseName = ''app'', ms_TableName = ''t'', ms_TableNamespace = ''ns'', ms_GeneratedDDL = ''drop table t'',
       ms_EditedDDL = [], ms_Tables = [] \<rparr>"

theorem migration_executed_once_witness:
  "\<exists>k'. reconcileMigration sample_client sample_kube_env (Some log_manager) (7, 8) sample_migration
      (Map.empty((''ns'', ''m'') \<mapsto> sample_migration), []) = (None, (k', [''drop table t''])) \<and>
    Reconcile sample_client sample_kube_env (Some log_manager) [''*''] (9, 9) (''ns'', ''m'') (k', [''drop table t'']) =
      (None, (k', [''drop table t'']))"
proof -
  let ?k = "Map.empty((''ns'', ''m'') \<mapsto> sample_migration)"
  have kc: "stores_migrations sample_client"
    by (auto simp: stores_migrations_def sample_client_def split: option.splits if_splits)
  have get: "kc_GetMigration sample_client ''ns'' ''m'' ?k = Inr sample_migration"
    by (simp add: sample_client_def sample_migration_def planned_migration_def)
  have conn: "Database_GetConnection sample_kube_env sample_resource =
      Inr (''postgres'', ''postgres://me:p%40ss%3A%2F%3F@db:5432/app'')" by code_simp
  have stm: "GetStatementsFromDDL ''drop table t'' = [''drop table t'']" by code_simp
  have run: "reconcileMigration sample_client sample_kube_env (Some log_manager) (7, 8) sample_migration (?k, []) =
      (None, (?k((''ns'', ''m'') \<mapsto> mark_executed 7 sample_migration), [''drop table t'']))"
    using conn stm
    by (simp add: reconcileMigration_def shouldApplyMigration_def getDatabaseFromMigration_def TableFromMigration_def
        DatabaseFromTable_def with_client_def getSchemasClient_def getDatabasesClient_def sample_client_def
        ApplySync_def GetConnection_def controller_database_def SetPluginManager_def planned_drivers_def log_manager_def
        record_execution_def mark_executed_def sample_migration_def planned_migration_def sample_table_def)
  have "Reconcile sample_client sample_kube_env (Some log_manager) [''*''] (9, 9) (''ns'', ''m'')
      (?k((''ns'', ''m'') \<mapsto> mark_executed 7 sample_migration), [''drop table t'']) =
    (None, (?k((''ns'', ''m'') \<mapsto> mark_executed 7 sample_migration), [''drop table t'']))"
    using migration_executed_once [OF kc _ _ get run, of "[''*'']" "(9, 9)"] by (simp del: fun_upd_upd)
  then show ?thesis using run by blast
qed

text \<open>
  A migration that is deployed immediately is approved but stays in the planned phase, so it can
  still be rejected; the controller does not look at the rejection and executes it all the same.
\<close>

lemma rejected_migration_still_applied:
  assumes "kc_GetMigration kc ns n k = Inr (planned_migration clock True n ns spec)" "snd clock > 0"
  shows "\<exists>m'. reject_migration kc now n [ns] k = kc_UpdateMigration kc m' k \<and>
    mst_Phase (mg_Status m') = Rejected \<and> shouldApplyMigration m'"
  using assms by (auto simp: planned_migration_def shouldApplyMigration_def)

section \<open>From a table to its migration\<close>





definition sample_schema_table :: TableResource where
  "sample_schema_table = (sample_table ''t'')
     \<lparr> to_Spec := (to_Spec (sample_table ''t''))
         \<lparr> tsp_Schema := Some \<lparr> ts_Postgres = Some empty_table_schema, ts_Mysql = None, ts_CockroachDB = None,
             ts_Cassandra = None, ts_TimescaleDB = None, ts_SQLite = None, ts_RQLite = None \<rparr> \<rparr> \<rparr>"


text \<open>A table with an empty default is hashed as another table, so that it is planned again by every reconciliation.\<close>

lemma empty_default_hashed_as_sentinel:
  "to_Spec (planned_table ''postgres'' (sample_schema_table
     \<lparr> to_Spec := (to_Spec sample_schema_table)
         \<lparr> tsp_Schema := Some \<lparr> ts_Postgres = Some (empty_table_schema \<lparr> pts_Columns :=
               [\<lparr> pcol_Name = ''note'', pcol_Type = ''text'', pcol_Constraints = None, pcol_Attributes = None,
                  pcol_Default = Some [] \<rparr>] \<rparr>), ts_Mysql = None, ts_CockroachDB = None,
             ts_Cassandra = None, ts_TimescaleDB = None, ts_SQLite = None, ts_RQLite = None \<rparr> \<rparr> \<rparr>)) =
   (to_Spec sample_schema_table)
     \<lparr> tsp_Schema := Some \<lparr> ts_Postgres = Some (empty_table_schema \<lparr> pts_Columns :=
           [\<lparr> pcol_Name = ''note'', pcol_Type = ''text'', pcol_Constraints = None, pcol_Attributes = None,
              pcol_Default = Some emptyStringSentinel \<rparr>] \<rparr>), ts_Mysql = None, ts_CockroachDB = None,
         ts_Cassandra = None, ts_TimescaleDB = None, ts_SQLite = None, ts_RQLite = None \<rparr> \<rparr>"
  by (simp add: planned_table_def masked_schema_def mask_PostgresqlTableSchema_def mask_default_def)

end
