(* ===== verification/Object_Controllers.thy ===== *)
theory Object_Controllers
  imports Controllers
begin

text \<open>
  The controllers of functions, extensions and views: src/pkg/controller/function/function_controller.go,
  src/pkg/controller/databaseextension/database_extension_controller.go and helpers.go, and
  src/pkg/controller/view (view_controller.go, reconcile_view.go), with the resources of function_types.go,
  database_extension_types.go and view_types.go.

  A function or an extension is applied by its controller directly, without a migration, and its removal
  is guarded by a finalizer. The calls of the API are the record \<open>ObjectClient\<close>, on a state \<open>'k\<close> of the
  cluster; the text of an error, its method Error, is an argument. A view is planned into a migration, with
  the calls of \<open>KubeClient\<close>.
\<close>

section \<open>Resources\<close>

text \<open>The metadata the controllers read; an object is deleting once its deletion timestamp is set.\<close>

record ObjectMeta =
  om_Name :: string
  om_Namespace :: string
  om_Deleting :: bool
  om_Finalizers :: "string list"

record ObjectStatus =
  os_AppliedAt :: int
  os_Phase :: string
  os_Message :: string

record FunctionResource =
  fo_Meta :: ObjectMeta
  fo_Spec :: FunctionSpec
  fo_Status :: ObjectStatus

record ExtensionResource =
  eo_Meta :: ObjectMeta
  eo_Spec :: DatabaseExtensionSpec
  eo_Status :: ObjectStatus

record ('o, 'k) ObjectClient =
  oc_Get :: "string \<Rightarrow> string \<Rightarrow> 'k \<Rightarrow> 'o result"
  oc_GetDatabase :: "string \<Rightarrow> string \<Rightarrow> 'k \<Rightarrow> DatabaseResource result"
  oc_Update :: "'o \<Rightarrow> 'k \<Rightarrow> go_error option \<times> 'k"
  oc_StatusUpdate :: "'o \<Rightarrow> 'k \<Rightarrow> go_error option \<times> 'k"

text \<open>The result of a reconciliation: whether the request is queued again, and the error.\<close>

type_synonym outcome = "bool \<times> go_error option"

definition removeString :: "string list \<Rightarrow> string \<Rightarrow> string list" where
  "removeString items s = filter (\<lambda>item. item \<noteq> s) items"

definition failed_status :: "string \<Rightarrow> ObjectStatus \<Rightarrow> ObjectStatus" where
  "failed_status msg st = st\<lparr> os_Phase := ''Failed'', os_Message := msg \<rparr>"

definition applied_status :: "int \<Rightarrow> string \<Rightarrow> ObjectStatus \<Rightarrow> ObjectStatus" where
  "applied_status now msg st = st\<lparr> os_Phase := ''Applied'', os_AppliedAt := now, os_Message := msg \<rparr>"

section \<open>Functions\<close>

definition function_finalizer :: string where
  "function_finalizer = ''functions.schemas.schemahero.io/finalizer''"

definition getDatabaseFromFunction ::
  "(FunctionResource, 'k) ObjectClient \<Rightarrow> FunctionResource \<Rightarrow> 'k \<Rightarrow> DatabaseResource result" where
  "getDatabaseFromFunction oc function k =
     oc_GetDatabase oc (om_Namespace (fo_Meta function)) (fsp_Database (fo_Spec function)) k"

text \<open>The schema of a function, which is dereferenced only for the driver postgres.\<close>

definition function_schema :: "string \<Rightarrow> FunctionResource \<Rightarrow> PostgresqlFunctionSchema option result" where
  "function_schema driver function =
     (if driver \<noteq> ''postgres'' then Inr None
      else case fsp_Schema (fo_Spec function) of
             None \<Rightarrow> Inl (GoPanic ''invalid memory address or nil pointer dereference'')
           | Some s \<Rightarrow> Inr (fs_Postgres s))"

definition deleted_function :: "PostgresqlFunctionSchema \<Rightarrow> PostgresqlFunctionSchema" where
  "deleted_function f =
     \<lparr> pfn_Schema = pfn_Schema f, pfn_Lang = pfn_Lang f, pfn_Params = pfn_Params f, pfn_ReturnSet = pfn_ReturnSet f,
       pfn_Return = pfn_Return f, pfn_As = pfn_As f, pfn_SecurityDefiner = False, pfn_Body = [], pfn_Returns = [],
       pfn_Language = [], pfn_IsDeleted = True \<rparr>"

definition dropFunction ::
  "(FunctionResource, 'k) ObjectClient \<Rightarrow> KubeEnv \<Rightarrow> 'db plugin_manager option \<Rightarrow> FunctionResource \<Rightarrow> 'k \<Rightarrow> 'db \<Rightarrow>
   go_error option \<times> 'db" where
  "dropFunction oc env manager function k db =
     (case getDatabaseFromFunction oc function k of
        Inl e \<Rightarrow> if IsNotFound e then (None, db) else (Some e, db)
      | Inr dbInstance \<Rightarrow>
          (case Database_GetConnection env dbInstance of
             Inl e \<Rightarrow> (Some e, db)
           | Inr (driver, connectionURI) \<Rightarrow>
               (case function_schema driver function of
                  Inl e \<Rightarrow> (Some e, db)
                | Inr None \<Rightarrow> (None, db)
                | Inr (Some f) \<Rightarrow>
                    (let d = controller_database manager (driver, connectionURI) False
                     in case bindE (GetConnection d) (\<lambda>conn.
                               cn_PlanFunctionSchema conn (fsp_Name (fo_Spec function)) (PostgresqlFunction (Some (deleted_function f)))) of
                          Inl e \<Rightarrow> (Some e, db)
                        | Inr statements \<Rightarrow> ApplySync d statements db))))"

text \<open>The statements are executed and the outcome is stored in the status.\<close>

definition apply_function ::
  "(FunctionResource, 'k) ObjectClient \<Rightarrow> (go_error \<Rightarrow> string) \<Rightarrow> int \<Rightarrow> 'db Database \<Rightarrow> string list \<Rightarrow> FunctionResource \<Rightarrow>
   'k \<times> 'db \<Rightarrow> outcome \<times> 'k \<times> 'db" where
  "apply_function oc text_of now d statements function st =
     (case st of (k, db) \<Rightarrow>
        (case ApplySync d statements db of
           (Some err, db') \<Rightarrow>
             (case oc_StatusUpdate oc (function\<lparr> fo_Status := failed_status (text_of err) (fo_Status function) \<rparr>) k of
                (Some updateErr, k') \<Rightarrow> ((False, Some updateErr), k', db')
              | (None, k') \<Rightarrow> ((False, Some err), k', db'))
         | (None, db') \<Rightarrow>
             (case oc_StatusUpdate oc
                     (function\<lparr> fo_Status := applied_status now ''Function successfully applied'' (fo_Status function) \<rparr>) k of
                (e, k') \<Rightarrow> ((False, e), k', db'))))"

definition deploy_function ::
  "(FunctionResource, 'k) ObjectClient \<Rightarrow> KubeEnv \<Rightarrow> 'db plugin_manager option \<Rightarrow> (go_error \<Rightarrow> string) \<Rightarrow> int \<Rightarrow>
   FunctionResource \<Rightarrow> 'k \<times> 'db \<Rightarrow> outcome \<times> 'k \<times> 'db" where
  "deploy_function oc env manager text_of now function st =
     (case getDatabaseFromFunction oc function (fst st) of
        Inl e \<Rightarrow> if IsNotFound e then ((True, None), st) else ((False, Some e), st)
      | Inr dbInstance \<Rightarrow>
          (case Database_GetConnection env dbInstance of
             Inl e \<Rightarrow> ((False, Some e), st)
           | Inr (driver, connectionURI) \<Rightarrow>
               (case function_schema driver function of
                  Inl e \<Rightarrow> ((False, Some e), st)
                | Inr None \<Rightarrow> ((False, None), st)
                | Inr (Some f) \<Rightarrow>
                    (let d = controller_database manager (driver, connectionURI) False
                     in case bindE (GetConnection d) (\<lambda>conn.
                               cn_PlanFunctionSchema conn (fsp_Name (fo_Spec function)) (PostgresqlFunction (Some f))) of
                          Inl e \<Rightarrow> ((False, Some e), st)
                        | Inr statements \<Rightarrow> apply_function oc text_of now d statements function st))))"

definition set_function_finalizers :: "string list \<Rightarrow> FunctionResource \<Rightarrow> FunctionResource" where
  "set_function_finalizers fs function = function\<lparr> fo_Meta := (fo_Meta function)\<lparr> om_Finalizers := fs \<rparr> \<rparr>"

definition ReconcileFunction ::
  "(FunctionResource, 'k) ObjectClient \<Rightarrow> KubeEnv \<Rightarrow> 'db plugin_manager option \<Rightarrow> (go_error \<Rightarrow> string) \<Rightarrow> int \<Rightarrow>
   string \<times> string \<Rightarrow> 'k \<times> 'db \<Rightarrow> outcome \<times> 'k \<times> 'db" where
  "ReconcileFunction oc env manager text_of now request st =
     (case st of (k, db) \<Rightarrow>
        (case oc_Get oc (fst request) (snd request) k of
           Inl e \<Rightarrow> if IsNotFound e then ((False, None), st) else ((False, Some e), st)
         | Inr function \<Rightarrow>
             (let finalizers = om_Finalizers (fo_Meta function); remove = fsp_RemoveOnDeletion (fo_Spec function)
              in if om_Deleting (fo_Meta function)
                 then (if remove \<and> function_finalizer \<in> set finalizers
                       then (case dropFunction oc env manager function k db of
                               (Some e, db') \<Rightarrow> ((False, Some e), k, db')
                             | (None, db') \<Rightarrow>
                                 (case oc_Update oc (set_function_finalizers (filter (\<lambda>s. s \<noteq> function_finalizer) finalizers) function) k of
                                    (e, k') \<Rightarrow> ((False, e), k', db')))
                       else ((False, None), st))
                 else if remove \<and> function_finalizer \<notin> set finalizers
                 then (case oc_Update oc (set_function_finalizers (finalizers @ [function_finalizer]) function) k of
                         (e, k') \<Rightarrow> ((False, e), k', db))
                 else deploy_function oc env manager text_of now function st)))"

section \<open>Extensions\<close>

definition extension_finalizer :: string where
  "extension_finalizer = ''databaseextensions.schemas.schemahero.io/finalizer''"

definition getDatabaseFromExtension ::
  "(ExtensionResource, 'k) ObjectClient \<Rightarrow> ExtensionResource \<Rightarrow> 'k \<Rightarrow> DatabaseResource result" where
  "getDatabaseFromExtension oc databaseExtension k =
     oc_GetDatabase oc (om_Namespace (eo_Meta databaseExtension)) (esp_Database (eo_Spec databaseExtension)) k"

definition deleted_extension :: "PostgresDatabaseExtension \<Rightarrow> PostgresDatabaseExtension" where
  "deleted_extension e = \<lparr> pex_Name = pex_Name e, pex_Version = pex_Version e, pex_Schema = None, pex_IsDeleted = True \<rparr>"

definition dropExtension ::
  "(ExtensionResource, 'k) ObjectClient \<Rightarrow> KubeEnv \<Rightarrow> 'db plugin_manager option \<Rightarrow> ExtensionResource \<Rightarrow> 'k \<Rightarrow> 'db \<Rightarrow>
   go_error option \<times> 'db" where
  "dropExtension oc env manager databaseExtension k db =
     (case getDatabaseFromExtension oc databaseExtension k of
        Inl e \<Rightarrow> if IsNotFound e then (None, db) else (Some e, db)
      | Inr dbInstance \<Rightarrow>
          (case Database_GetConnection env dbInstance of
             Inl e \<Rightarrow> (Some e, db)
           | Inr (driver, connectionURI) \<Rightarrow>
               (case esp_Postgres (eo_Spec databaseExtension) of
                  None \<Rightarrow> (None, db)
                | Some x \<Rightarrow>
                    if driver \<noteq> ''postgres'' then (None, db)
                    else
                    (let d = controller_database manager (driver, connectionURI) False
                     in case bindE (GetConnection d) (\<lambda>conn.
                               cn_PlanExtensionSchema conn (pex_Name x) (PostgresExtension (Some (deleted_extension x)))) of
                          Inl e \<Rightarrow> (Some e, db)
                        | Inr statements \<Rightarrow> ApplySync d statements db))))"

definition apply_extension ::
  "(ExtensionResource, 'k) ObjectClient \<Rightarrow> (go_error \<Rightarrow> string) \<Rightarrow> int \<Rightarrow> 'db Database \<Rightarrow> string list \<Rightarrow> ExtensionResource \<Rightarrow>
   'k \<times> 'db \<Rightarrow> outcome \<times> 'k \<times> 'db" where
  "apply_extension oc text_of now d statements databaseExtension st =
     (case st of (k, db) \<Rightarrow>
        (case ApplySync d statements db of
           (Some err, db') \<Rightarrow>
             (case oc_StatusUpdate oc
                     (databaseExtension\<lparr> eo_Status := failed_status (text_of err) (eo_Status databaseExtension) \<rparr>) k of
                (Some updateErr, k') \<Rightarrow> ((False, Some updateErr), k', db')
              | (None, k') \<Rightarrow> ((False, Some err), k', db'))
         | (None, db') \<Rightarrow>
             (case oc_StatusUpdate oc
                     (databaseExtension\<lparr> eo_Status :=
                        applied_status now ''Extension successfully applied'' (eo_Status databaseExtension) \<rparr>) k of
                (e, k') \<Rightarrow> ((False, e), k', db'))))"

definition deploy_extension ::
  "(ExtensionResource, 'k) ObjectClient \<Rightarrow> KubeEnv \<Rightarrow> 'db plugin_manager option \<Rightarrow> (go_error \<Rightarrow> string) \<Rightarrow> int \<Rightarrow>
   ExtensionResource \<Rightarrow> 'k \<times> 'db \<Rightarrow> outcome \<times> 'k \<times> 'db" where
  "deploy_extension oc env manager text_of now databaseExtension st =
     (case getDatabaseFromExtension oc databaseExtension (fst st) of
        Inl e \<Rightarrow> if IsNotFound e then ((True, None), st) else ((False, Some e), st)
      | Inr dbInstance \<Rightarrow>
          (case Database_GetConnection env dbInstance of
             Inl e \<Rightarrow> ((False, Some e), st)
           | Inr (driver, connectionURI) \<Rightarrow>
               (case esp_Postgres (eo_Spec databaseExtension) of
                  None \<Rightarrow> ((False, None), st)
                | Some x \<Rightarrow>
                    if driver \<noteq> ''postgres'' then ((False, None), st)
                    else
                    (let d = controller_database manager (driver, connectionURI) False
                     in case bindE (GetConnection d) (\<lambda>conn.
                               cn_PlanExtensionSchema conn (pex_Name x) (PostgresExtension (Some x))) of
                          Inl e \<Rightarrow> ((False, Some e), st)
                        | Inr statements \<Rightarrow> apply_extension oc text_of now d statements databaseExtension st))))"

definition set_extension_finalizers :: "string list \<Rightarrow> ExtensionResource \<Rightarrow> ExtensionResource" where
  "set_extension_finalizers fs databaseExtension =
     databaseExtension\<lparr> eo_Meta := (eo_Meta databaseExtension)\<lparr> om_Finalizers := fs \<rparr> \<rparr>"

definition ReconcileDatabaseExtension ::
  "(ExtensionResource, 'k) ObjectClient \<Rightarrow> KubeEnv \<Rightarrow> 'db plugin_manager option \<Rightarrow> (go_error \<Rightarrow> string) \<Rightarrow> int \<Rightarrow>
   string \<times> string \<Rightarrow> 'k \<times> 'db \<Rightarrow> outcome \<times> 'k \<times> 'db" where
  "ReconcileDatabaseExtension oc env manager text_of now request st =
     (case st of (k, db) \<Rightarrow>
        (case oc_Get oc (fst request) (snd request) k of
           Inl e \<Rightarrow> if IsNotFound e then ((False, None), st) else ((False, Some e), st)
         | Inr databaseExtension \<Rightarrow>
             (let finalizers = om_Finalizers (eo_Meta databaseExtension);
                  remove = esp_RemoveOnDeletion (eo_Spec databaseExtension)
              in if om_Deleting (eo_Meta databaseExtension)
                 then (if remove \<and> extension_finalizer \<in> set finalizers
                       then (case dropExtension oc env manager databaseExtension k db of
                               (Some e, db') \<Rightarrow> ((False, Some e), k, db')
                             | (None, db') \<Rightarrow>
                                 (case oc_Update oc
                                         (set_extension_finalizers (removeString finalizers extension_finalizer) databaseExtension) k of
                                    (e, k') \<Rightarrow> ((False, e), k', db')))
                       else ((False, None), st))
                 else if remove \<and> extension_finalizer \<notin> set finalizers
                 then (case oc_Update oc (set_extension_finalizers (finalizers @ [extension_finalizer]) databaseExtension) k of
                         (e, k') \<Rightarrow> ((False, e), k', db))
                 else deploy_extension oc env manager text_of now databaseExtension st)))"

section \<open>Views\<close>

record ViewResource =
  vo_Name :: string
  vo_Namespace :: string
  vo_Spec :: ViewSpec
  vo_LastPlannedViewSpecSHA :: string

definition View_GetSHA :: "(ViewSpec \<Rightarrow> string result) \<Rightarrow> ViewResource \<Rightarrow> string result" where
  "View_GetSHA marshal v = bindE (wrapE ''failed to marshal'' (marshal (vo_Spec v))) (\<lambda>b. Inr (sha256_hex b))"

definition isViewManagedByThisController :: "string list \<Rightarrow> ViewResource \<Rightarrow> bool" where
  "isViewManagedByThisController databaseNames v =
     list_ex (\<lambda>managed. managed = vsp_Database (vo_Spec v) \<or> managed = ''*'') databaseNames"

text \<open>A view without a schema is a nil dereference, unless no connection is configured at all.\<close>

definition view_checkDatabaseTypeMatches :: "DatabaseConnection \<Rightarrow> ViewSchema option \<Rightarrow> bool result" where
  "view_checkDatabaseTypeMatches c viewSchema =
     (let present = (\<lambda>field. case viewSchema of
                       Some s \<Rightarrow> Inr (field s)
                     | None \<Rightarrow> Inl (GoPanic ''invalid memory address or nil pointer dereference''))
      in if dc_Postgres c \<noteq> None then present (\<lambda>s. vs_Postgres s \<noteq> None)
         else if dc_Mysql c \<noteq> None then present (\<lambda>s. vs_Mysql s \<noteq> None)
         else if dc_CockroachDB c \<noteq> None then present (\<lambda>s. vs_CockroachDB s \<noteq> None)
         else if dc_RQLite c \<noteq> None then present (\<lambda>s. vs_RQLite s \<noteq> None)
         else if dc_TimescaleDB c \<noteq> None then present (\<lambda>s. vs_TimescaleDB s \<noteq> None)
         else if dc_SQLite c \<noteq> None then present (\<lambda>s. vs_SQLite s \<noteq> None)
         else Inr False)"

text \<open>The lookup of a migration for a view is not written yet: there is never one.\<close>

definition view_getMigrationSpec :: "string \<Rightarrow> string \<Rightarrow> Migration option result" where
  "view_getMigrationSpec namespace viewSHA = Inr None"

definition view_migration :: "int \<times> int \<Rightarrow> DatabaseResource \<Rightarrow> ViewResource \<Rightarrow> string \<Rightarrow> string list \<Rightarrow> Migration" where
  "view_migration clock r v sha statements =
     planned_migration clock (dr_ImmediateDeploy r) (take 7 sha) (vo_Namespace v)
       \<lparr> ms_DatabaseName = vsp_Database (vo_Spec v), ms_TableName = vo_Name v, ms_TableNamespace = vo_Namespace v,
         ms_GeneratedDDL = Join statements ('';'' @ [newline]), ms_EditedDDL = [], ms_Tables = [] \<rparr>"

definition view_plan ::
  "'k KubeClient \<Rightarrow> KubeEnv \<Rightarrow> 'db plugin_manager option \<Rightarrow> (ViewSpec \<Rightarrow> string result) \<Rightarrow> int \<times> int \<Rightarrow>
   DatabaseResource \<Rightarrow> ViewResource \<Rightarrow> 'k \<Rightarrow> go_error option \<times> 'k" where
  "view_plan kc env manager marshal clock r v k =
     (case bindE (wrapE ''failed to get connection details for database'' (Database_GetConnection env r)) (\<lambda>conn.
             wrapE ''failed to plan migration''
               (PlanSyncViewSpec (controller_database manager conn (dr_DeploySeedData r)) (vo_Spec v))) of
        Inl e \<Rightarrow> (Some e, k)
      | Inr [] \<Rightarrow> (None, k)
      | Inr statements \<Rightarrow>
          (case View_GetSHA marshal v of
             Inl e \<Rightarrow> (Some (wrap_error ''failed to get sha of view'' e), k)
           | Inr sha \<Rightarrow>
               store_migration kc ''failed to set owner on miration'' (view_migration clock r v sha statements) k))"

definition reconcileView ::
  "'k KubeClient \<Rightarrow> KubeEnv \<Rightarrow> 'db plugin_manager option \<Rightarrow> (ViewSpec \<Rightarrow> string result) \<Rightarrow> int \<times> int \<Rightarrow>
   ViewResource \<Rightarrow> 'k \<Rightarrow> outcome \<times> 'k" where
  "reconcileView kc env manager marshal clock v k =
     (case wrapE ''failed to get instance sha'' (View_GetSHA marshal v) of
        Inl e \<Rightarrow> ((False, Some e), k)
      | Inr sha \<Rightarrow>
          if vo_LastPlannedViewSpecSHA v = sha then ((False, None), k)
          else case wrapE ''failed to get database spec'' (getDatabaseInstance kc (vo_Namespace v) (vsp_Database (vo_Spec v)) k) of
                 Inl e \<Rightarrow> ((False, Some e), k)
               | Inr None \<Rightarrow> ((True, None), k)
               | Inr (Some r) \<Rightarrow>
                   (case view_checkDatabaseTypeMatches (dr_Connection r) (vsp_Schema (vo_Spec v)) of
                      Inl e \<Rightarrow> ((False, Some e), k)
                    | Inr False \<Rightarrow> ((False, Some (ErrNew ''unable to deploy table to connection of different type'')), k)
                    | Inr True \<Rightarrow>
                        (case wrapE ''failed to get migration spec'' (view_getMigrationSpec (vo_Namespace v) (take 7 sha)) of
                           Inl e \<Rightarrow> ((False, Some e), k)
                         | Inr (Some _) \<Rightarrow> ((False, None), k)
                         | Inr None \<Rightarrow>
                             (case view_plan kc env manager marshal clock r v k of (e, k') \<Rightarrow> ((False, e), k')))))"

definition ReconcileView ::
  "'k KubeClient \<Rightarrow> (string \<Rightarrow> string \<Rightarrow> 'k \<Rightarrow> ViewResource result) \<Rightarrow> KubeEnv \<Rightarrow> 'db plugin_manager option \<Rightarrow>
   (ViewSpec \<Rightarrow> string result) \<Rightarrow> string list \<Rightarrow> int \<times> int \<Rightarrow> string \<times> string \<Rightarrow> 'k \<Rightarrow> outcome \<times> 'k" where
  "ReconcileView kc get env manager marshal databaseNames clock request k =
     (case get (fst request) (snd request) k of
        Inl e \<Rightarrow> ((False, Some e), k)
      | Inr v \<Rightarrow>
          if \<not> isViewManagedByThisController databaseNames v then ((False, None), k)
          else reconcileView kc env manager marshal clock v k)"

end
