(* ===== verification/Object_Correct.thy ===== *)
theory Object_Correct
  imports Object_Controllers
begin

text \<open>
  The life of a function or an extension in the cluster. The two controllers share the protocol of a
  finalizer, which is stated once as the locale \<open>finalized_object\<close> and interpreted for both.
\<close>

section \<open>The cluster\<close>

text \<open>
  One object in the cluster. The API server removes an object that is being deleted as soon as it has
  no finalizer. A world is everything else that a reconciliation meets.
\<close>

record 'db World =
  wd_GetDatabase :: "string \<Rightarrow> string \<Rightarrow> DatabaseResource result"
  wd_UpdateError :: "go_error option"
  wd_StatusError :: "go_error option"
  wd_Env :: KubeEnv
  wd_Manager :: "'db plugin_manager option"
  wd_Text :: "go_error \<Rightarrow> string"
  wd_Now :: int
  wd_Request :: "string \<times> string"

definition api_update :: "('o \<Rightarrow> ObjectMeta) \<Rightarrow> go_error option \<Rightarrow> 'o \<Rightarrow> 'o option \<Rightarrow> go_error option \<times> 'o option" where
  "api_update meta err obj stored =
     (case err of
        Some e \<Rightarrow> (Some e, stored)
      | None \<Rightarrow> (None, if om_Deleting (meta obj) \<and> om_Finalizers (meta obj) = [] then None else Some obj))"

definition world_client :: "('o \<Rightarrow> ObjectMeta) \<Rightarrow> 'db World \<Rightarrow> ('o, 'o option) ObjectClient" where
  "world_client meta w =
     \<lparr> oc_Get = (\<lambda>_ n stored. case stored of None \<Rightarrow> Inl (ApiNotFound n) | Some obj \<Rightarrow> Inr obj),
       oc_GetDatabase = (\<lambda>ns n _. wd_GetDatabase w ns n),
       oc_Update = api_update meta (wd_UpdateError w),
       oc_StatusUpdate = (\<lambda>obj stored. (wd_StatusError w, if wd_StatusError w = None then Some obj else stored)) \<rparr>"

text \<open>
  The runs of an object that asks for removal: created, edited, deleted by a user, reconciled; the
  database may be changed by others at any time. \<open>touched\<close> tells that a reconciliation of the living object
  changed the database, \<open>dropped\<close> that the statements which drop the object as it was then have been executed,
  from one database state to the next, and \<open>abandoned\<close> that a reconciliation found no database to drop it from.
\<close>

inductive object_run ::
  "('o \<Rightarrow> ObjectMeta) \<Rightarrow> ('o \<Rightarrow> bool) \<Rightarrow> string \<Rightarrow> ('w \<Rightarrow> 'o option \<times> 'db \<Rightarrow> outcome \<times> 'o option \<times> 'db) \<Rightarrow>
   ('w \<Rightarrow> 'o \<Rightarrow> 'db \<Rightarrow> 'db \<Rightarrow> bool) \<Rightarrow> ('w \<Rightarrow> 'o \<Rightarrow> bool) \<Rightarrow> 'o option \<Rightarrow> bool \<Rightarrow> bool \<Rightarrow> bool \<Rightarrow> 'db \<Rightarrow> bool"
  for meta remove fin reconcile executed orphaned where
  created: "remove obj \<Longrightarrow> \<not> om_Deleting (meta obj) \<Longrightarrow>
    object_run meta remove fin reconcile executed orphaned (Some obj) False False False db"
| edited: "object_run meta remove fin reconcile executed orphaned (Some obj) touched dropped abandoned db \<Longrightarrow>
    meta obj' = meta obj \<Longrightarrow> remove obj' \<Longrightarrow>
    object_run meta remove fin reconcile executed orphaned (Some obj') touched dropped abandoned db"
| deleted: "object_run meta remove fin reconcile executed orphaned (Some obj) touched dropped abandoned db \<Longrightarrow>
    meta obj' = (meta obj)\<lparr> om_Deleting := True \<rparr> \<Longrightarrow> remove obj' \<Longrightarrow>
    object_run meta remove fin reconcile executed orphaned
      (if om_Finalizers (meta obj) = [] then None else Some obj') touched dropped abandoned db"
| changed: "object_run meta remove fin reconcile executed orphaned stored touched dropped abandoned db \<Longrightarrow>
    object_run meta remove fin reconcile executed orphaned stored touched dropped abandoned db'"
| reconciled: "object_run meta remove fin reconcile executed orphaned (Some obj) touched dropped abandoned db \<Longrightarrow>
    reconcile w (Some obj, db) = (r, stored', db') \<Longrightarrow>
    object_run meta remove fin reconcile executed orphaned stored'
      (touched \<or> \<not> om_Deleting (meta obj) \<and> db' \<noteq> db)
      (dropped \<or> om_Deleting (meta obj) \<and> executed w obj db db')
      (abandoned \<or> om_Deleting (meta obj) \<and> orphaned w obj) db'"

section \<open>The protocol of a finalizer\<close>

locale finalized_object =
  fixes meta :: "'o \<Rightarrow> ObjectMeta" and remove :: "'o \<Rightarrow> bool" and fin :: string
    and set_finalizers :: "string list \<Rightarrow> 'o \<Rightarrow> 'o"
    and update_error :: "'w \<Rightarrow> go_error option"
    and reconcile :: "'w \<Rightarrow> 'o option \<times> 'db \<Rightarrow> outcome \<times> 'o option \<times> 'db"
    and drop_obj :: "'w \<Rightarrow> 'o \<Rightarrow> 'db \<Rightarrow> go_error option \<times> 'db"
    and executed :: "'w \<Rightarrow> 'o \<Rightarrow> 'db \<Rightarrow> 'db \<Rightarrow> bool" and orphaned :: "'w \<Rightarrow> 'o \<Rightarrow> bool"
  assumes meta_set: "meta (set_finalizers fs obj) = (meta obj)\<lparr> om_Finalizers := fs \<rparr>"
    and remove_set: "remove (set_finalizers fs obj) = remove obj"
    and deleting: "om_Deleting (meta obj) \<Longrightarrow> remove obj \<Longrightarrow> fin \<in> set (om_Finalizers (meta obj)) \<Longrightarrow>
      reconcile w (Some obj, db) =
        (case drop_obj w obj db of
           (Some e, db') \<Rightarrow> ((False, Some e), Some obj, db')
         | (None, db') \<Rightarrow>
             (case api_update meta (update_error w)
                     (set_finalizers (filter (\<lambda>s. s \<noteq> fin) (om_Finalizers (meta obj))) obj) (Some obj) of
                (e, stored') \<Rightarrow> ((False, e), stored', db')))"
    and unguarded: "om_Deleting (meta obj) \<Longrightarrow> \<not> (remove obj \<and> fin \<in> set (om_Finalizers (meta obj))) \<Longrightarrow>
      reconcile w (Some obj, db) = ((False, None), Some obj, db)"
    and guarding: "\<not> om_Deleting (meta obj) \<Longrightarrow> remove obj \<Longrightarrow> fin \<notin> set (om_Finalizers (meta obj)) \<Longrightarrow>
      reconcile w (Some obj, db) =
        (case api_update meta (update_error w) (set_finalizers (om_Finalizers (meta obj) @ [fin]) obj) (Some obj) of
           (e, stored') \<Rightarrow> ((False, e), stored', db))"
    and working: "\<not> om_Deleting (meta obj) \<Longrightarrow> reconcile w (Some obj, db) = (r, stored', db') \<Longrightarrow>
      \<not> (remove obj \<and> fin \<notin> set (om_Finalizers (meta obj))) \<Longrightarrow>
      \<exists>obj'. stored' = Some obj' \<and> meta obj' = meta obj \<and> remove obj' = remove obj"
    and drop_done: "drop_obj w obj db = (None, db') \<Longrightarrow> executed w obj db db' \<or> orphaned w obj \<and> db' = db"
begin

lemma run_guarded:
  assumes "object_run meta remove fin reconcile executed orphaned stored touched dropped abandoned db"
  shows "(\<forall>obj. stored = Some obj \<longrightarrow> remove obj \<and>
      (touched \<and> \<not> dropped \<and> \<not> abandoned \<longrightarrow> fin \<in> set (om_Finalizers (meta obj)))) \<and>
    (stored = None \<longrightarrow> touched \<longrightarrow> dropped \<or> abandoned)"
  using assms
proof (induction rule: object_run.induct)
  case (reconciled obj touched dropped abandoned db w r stored' db')
  then have IH: "remove obj" "touched \<and> \<not> dropped \<and> \<not> abandoned \<longrightarrow> fin \<in> set (om_Finalizers (meta obj))" by auto
  consider (del) "om_Deleting (meta obj)" "fin \<in> set (om_Finalizers (meta obj))"
    | (idle) "om_Deleting (meta obj)" "fin \<notin> set (om_Finalizers (meta obj))"
    | (add) "\<not> om_Deleting (meta obj)" "fin \<notin> set (om_Finalizers (meta obj))"
    | (work) "\<not> om_Deleting (meta obj)" "fin \<in> set (om_Finalizers (meta obj))" by blast
  then show ?case
  proof cases
    case del
    then show ?thesis
      using deleting [OF del(1) IH(1) del(2), of w db] reconciled.hyps(2) IH drop_done [of w obj db]
      by (auto simp: api_update_def meta_set remove_set split: prod.splits option.splits if_splits)
  next
    case idle
    then show ?thesis using unguarded [OF idle(1), of w db] reconciled.hyps(2) IH by auto
  next
    case add
    then show ?thesis
      using guarding [OF add(1) IH(1) add(2), of w db] reconciled.hyps(2) IH
      by (auto simp: api_update_def meta_set remove_set split: prod.splits option.splits if_splits)
  next
    case work
    then show ?thesis using working [OF work(1) reconciled.hyps(2)] IH by auto
  qed
qed auto

lemma removed_after_drop:
  assumes "om_Deleting (meta obj)" "remove obj" "fin \<in> set (om_Finalizers (meta obj))" "update_error w = None"
    and "drop_obj w obj db = (None, db')"
  shows "reconcile w (Some obj, db) =
    ((False, None),
     (if set (om_Finalizers (meta obj)) = {fin} then None
      else Some (set_finalizers (filter (\<lambda>s. s \<noteq> fin) (om_Finalizers (meta obj))) obj)), db')"
proof -
  have "filter (\<lambda>s. s \<noteq> fin) (om_Finalizers (meta obj)) = [] \<longleftrightarrow> set (om_Finalizers (meta obj)) = {fin}"
    using assms(3) by (auto simp: filter_empty_conv)
  then show ?thesis
    using deleting [OF assms(1-3), of w db] assms(1,4,5) by (simp add: api_update_def meta_set)
qed

lemma kept_while_drop_fails:
  assumes "om_Deleting (meta obj)" "remove obj" "fin \<in> set (om_Finalizers (meta obj))" "drop_obj w obj db = (Some e, db')"
  shows "reconcile w (Some obj, db) = ((False, Some e), Some obj, db')"
  using deleting [OF assms(1-3), of w db] assms(4) by simp

end

section \<open>The two controllers\<close>

definition function_step :: "'db World \<Rightarrow> FunctionResource option \<times> 'db \<Rightarrow> outcome \<times> FunctionResource option \<times> 'db" where
  "function_step w = ReconcileFunction (world_client fo_Meta w) (wd_Env w) (wd_Manager w) (wd_Text w) (wd_Now w) (wd_Request w)"

definition function_drop :: "'db World \<Rightarrow> FunctionResource \<Rightarrow> 'db \<Rightarrow> go_error option \<times> 'db" where
  "function_drop w f = dropFunction (world_client fo_Meta w) (wd_Env w) (wd_Manager w) f (Some f)"

definition function_removal :: "FunctionResource \<Rightarrow> bool" where
  "function_removal f = fsp_RemoveOnDeletion (fo_Spec f)"

definition extension_step :: "'db World \<Rightarrow> ExtensionResource option \<times> 'db \<Rightarrow> outcome \<times> ExtensionResource option \<times> 'db" where
  "extension_step w =
     ReconcileDatabaseExtension (world_client eo_Meta w) (wd_Env w) (wd_Manager w) (wd_Text w) (wd_Now w) (wd_Request w)"

definition extension_drop :: "'db World \<Rightarrow> ExtensionResource \<Rightarrow> 'db \<Rightarrow> go_error option \<times> 'db" where
  "extension_drop w x = dropExtension (world_client eo_Meta w) (wd_Env w) (wd_Manager w) x (Some x)"

definition extension_removal :: "ExtensionResource \<Rightarrow> bool" where
  "extension_removal x = esp_RemoveOnDeletion (eo_Spec x)"

text \<open>
  What a drop has to do: on the database of the object, execute what its plugin plans for the object marked
  as deleted. There is nothing to drop from when the Database is gone, is not PostgreSQL, or when the spec
  has no schema for PostgreSQL.
\<close>

definition drops_by ::
  "'db plugin_manager option \<Rightarrow> string \<times> string \<Rightarrow> ('db Connection \<Rightarrow> string list result) \<Rightarrow>
   'db \<Rightarrow> 'db \<Rightarrow> bool" where
  "drops_by manager at planned db db' =
     (\<exists>conn statements. GetConnection (controller_database manager at False) = Inr conn \<and>
        planned conn = Inr statements \<and> ApplySync (controller_database manager at False) statements db = (None, db'))"

definition function_dropped :: "'db World \<Rightarrow> FunctionResource \<Rightarrow> 'db \<Rightarrow> 'db \<Rightarrow> bool" where
  "function_dropped w f db db' =
     (\<exists>r uri s p. wd_GetDatabase w (om_Namespace (fo_Meta f)) (fsp_Database (fo_Spec f)) = Inr r \<and>
        Database_GetConnection (wd_Env w) r = Inr (''postgres'', uri) \<and>
        fsp_Schema (fo_Spec f) = Some s \<and> fs_Postgres s = Some p \<and>
        drops_by (wd_Manager w) (''postgres'', uri)
          (\<lambda>conn. cn_PlanFunctionSchema conn (fsp_Name (fo_Spec f)) (PostgresqlFunction (Some (deleted_function p)))) db db')"

definition function_orphaned :: "'db World \<Rightarrow> FunctionResource \<Rightarrow> bool" where
  "function_orphaned w f =
     (case wd_GetDatabase w (om_Namespace (fo_Meta f)) (fsp_Database (fo_Spec f)) of
        Inl e \<Rightarrow> IsNotFound e
      | Inr r \<Rightarrow>
          (case Database_GetConnection (wd_Env w) r of
             Inl e \<Rightarrow> False
           | Inr (driver, uri) \<Rightarrow>
               driver \<noteq> ''postgres'' \<or> (\<exists>s. fsp_Schema (fo_Spec f) = Some s \<and> fs_Postgres s = None)))"

definition extension_dropped :: "'db World \<Rightarrow> ExtensionResource \<Rightarrow> 'db \<Rightarrow> 'db \<Rightarrow> bool" where
  "extension_dropped w x db db' =
     (\<exists>r uri p. wd_GetDatabase w (om_Namespace (eo_Meta x)) (esp_Database (eo_Spec x)) = Inr r \<and>
        Database_GetConnection (wd_Env w) r = Inr (''postgres'', uri) \<and> esp_Postgres (eo_Spec x) = Some p \<and>
        drops_by (wd_Manager w) (''postgres'', uri)
          (\<lambda>conn. cn_PlanExtensionSchema conn (pex_Name p) (PostgresExtension (Some (deleted_extension p)))) db db')"

definition extension_orphaned :: "'db World \<Rightarrow> ExtensionResource \<Rightarrow> bool" where
  "extension_orphaned w x =
     (case wd_GetDatabase w (om_Namespace (eo_Meta x)) (esp_Database (eo_Spec x)) of
        Inl e \<Rightarrow> IsNotFound e
      | Inr r \<Rightarrow>
          (case Database_GetConnection (wd_Env w) r of
             Inl e \<Rightarrow> False
           | Inr (driver, uri) \<Rightarrow> driver \<noteq> ''postgres'' \<or> esp_Postgres (eo_Spec x) = None))"

lemma planned_drop:
  assumes "(case bindE (GetConnection (controller_database manager at False)) planned of
      Inl e \<Rightarrow> (Some e, db) | Inr statements \<Rightarrow> ApplySync (controller_database manager at False) statements db) = (None, db')"
  shows "drops_by manager at planned db db'"
  using assms by (cases "GetConnection (controller_database manager at False)") (auto simp: drops_by_def split: sum.splits)

lemma function_drop_done:
  assumes "function_drop w f db = (None, db')"
  shows "function_dropped w f db db' \<or> function_orphaned w f \<and> db' = db"
  using assms
  by (auto simp: function_drop_def dropFunction_def getDatabaseFromFunction_def world_client_def function_schema_def
      function_dropped_def function_orphaned_def Let_def intro: planned_drop split: sum.splits prod.splits option.splits if_splits)

lemma extension_drop_done:
  assumes "extension_drop w x db = (None, db')"
  shows "extension_dropped w x db db' \<or> extension_orphaned w x \<and> db' = db"
  using assms
  by (auto simp: extension_drop_def dropExtension_def getDatabaseFromExtension_def world_client_def
      extension_dropped_def extension_orphaned_def Let_def intro: planned_drop split: sum.splits prod.splits option.splits if_splits)

lemma deploy_function_meta:
  assumes "deploy_function (world_client fo_Meta w) env manager text_of now f (Some f, db) = (r, stored', db')"
  shows "\<exists>f'. stored' = Some f' \<and> fo_Meta f' = fo_Meta f \<and> fo_Spec f' = fo_Spec f"
  using assms
  by (auto simp: deploy_function_def apply_function_def world_client_def Let_def
      split: sum.splits prod.splits option.splits if_splits)

lemma deploy_extension_meta:
  assumes "deploy_extension (world_client eo_Meta w) env manager text_of now x (Some x, db) = (r, stored', db')"
  shows "\<exists>x'. stored' = Some x' \<and> eo_Meta x' = eo_Meta x \<and> eo_Spec x' = eo_Spec x"
  using assms
  by (auto simp: deploy_extension_def apply_extension_def world_client_def Let_def
      split: sum.splits prod.splits option.splits if_splits)

interpretation function_object: finalized_object fo_Meta function_removal function_finalizer set_function_finalizers
    wd_UpdateError function_step function_drop function_dropped function_orphaned
proof unfold_locales
  fix f :: FunctionResource and w :: "'b World" and db r stored' db'
  assume "\<not> om_Deleting (fo_Meta f)" "function_step w (Some f, db) = (r, stored', db')"
    "\<not> (function_removal f \<and> function_finalizer \<notin> set (om_Finalizers (fo_Meta f)))"
  then have "deploy_function (world_client fo_Meta w) (wd_Env w) (wd_Manager w) (wd_Text w) (wd_Now w) f (Some f, db) = (r, stored', db')"
    by (auto simp: function_step_def ReconcileFunction_def function_removal_def world_client_def Let_def)
  then show "\<exists>f'. stored' = Some f' \<and> fo_Meta f' = fo_Meta f \<and> function_removal f' = function_removal f"
    using deploy_function_meta by (fastforce simp: function_removal_def)
next
  fix w :: "'b World" and f db db'
  assume "function_drop w f db = (None, db')"
  then show "function_dropped w f db db' \<or> function_orphaned w f \<and> db' = db" by (rule function_drop_done)
qed (auto simp: function_step_def function_drop_def ReconcileFunction_def function_removal_def set_function_finalizers_def
    world_client_def Let_def split: prod.splits option.splits)

interpretation extension_object: finalized_object eo_Meta extension_removal extension_finalizer set_extension_finalizers
    wd_UpdateError extension_step extension_drop extension_dropped extension_orphaned
proof unfold_locales
  fix x :: ExtensionResource and w :: "'b World" and db r stored' db'
  assume "\<not> om_Deleting (eo_Meta x)" "extension_step w (Some x, db) = (r, stored', db')"
    "\<not> (extension_removal x \<and> extension_finalizer \<notin> set (om_Finalizers (eo_Meta x)))"
  then have "deploy_extension (world_client eo_Meta w) (wd_Env w) (wd_Manager w) (wd_Text w) (wd_Now w) x (Some x, db) = (r, stored', db')"
    by (auto simp: extension_step_def ReconcileDatabaseExtension_def extension_removal_def world_client_def Let_def)
  then show "\<exists>x'. stored' = Some x' \<and> eo_Meta x' = eo_Meta x \<and> extension_removal x' = extension_removal x"
    using deploy_extension_meta by (fastforce simp: extension_removal_def)
next
  fix w :: "'b World" and x db db'
  assume "extension_drop w x db = (None, db')"
  then show "extension_dropped w x db db' \<or> extension_orphaned w x \<and> db' = db" by (rule extension_drop_done)
qed (auto simp: extension_step_def extension_drop_def ReconcileDatabaseExtension_def extension_removal_def
    set_extension_finalizers_def removeString_def world_client_def Let_def split: prod.splits option.splits)

section \<open>Properties\<close>

text \<open>
  C15. A function or an extension whose spec asks for removal, from its creation on, is not left behind by a
  failure. However its spec is edited otherwise, it is deleted and reconciled and however calls fail, as long
  as nobody but the controller edits its finalizers: once a reconciliation has changed the database for it, it keeps its finalizer until, while it was being deleted, either the statements which the
  plugin plans for the object marked as deleted have been executed without an error on its database
  (\<open>dropped\<close>), or there was nothing to drop it from (\<open>abandoned\<close>: the Database is not found, is not PostgreSQL,
  or the spec has no schema for PostgreSQL; the source lets the object go then). The object leaves the cluster
  only after one of the two. A drop that fails is reported and keeps the object as it is, and a drop that
  succeeds takes the finalizer off, with which the object goes if no other finalizer is left; both for
  functions and for extensions.
\<close>

theorem objects_leave_after_drop:
  "(object_run fo_Meta function_removal function_finalizer function_step function_dropped function_orphaned
        f touched dropped abandoned db \<longrightarrow>
      (f = None \<longrightarrow> touched \<longrightarrow> dropped \<or> abandoned) \<and>
      (\<forall>obj. f = Some obj \<longrightarrow> touched \<longrightarrow> \<not> dropped \<longrightarrow> \<not> abandoned \<longrightarrow>
         function_finalizer \<in> set (om_Finalizers (fo_Meta obj)))) \<and>
   (object_run eo_Meta extension_removal extension_finalizer extension_step extension_dropped extension_orphaned
        x touched dropped abandoned db \<longrightarrow>
      (x = None \<longrightarrow> touched \<longrightarrow> dropped \<or> abandoned) \<and>
      (\<forall>obj. x = Some obj \<longrightarrow> touched \<longrightarrow> \<not> dropped \<longrightarrow> \<not> abandoned \<longrightarrow>
         extension_finalizer \<in> set (om_Finalizers (eo_Meta obj)))) \<and>
   (\<forall>obj w e db1 db2. om_Deleting (fo_Meta obj) \<longrightarrow> function_removal obj \<longrightarrow>
      function_finalizer \<in> set (om_Finalizers (fo_Meta obj)) \<longrightarrow>
      (function_drop w obj db1 = (Some e, db2) \<longrightarrow> function_step w (Some obj, db1) = ((False, Some e), Some obj, db2)) \<and>
      (function_drop w obj db1 = (None, db2) \<and> wd_UpdateError w = None \<longrightarrow>
         function_step w (Some obj, db1) =
           ((False, None),
            (if set (om_Finalizers (fo_Meta obj)) = {function_finalizer} then None
             else Some (set_function_finalizers (removeString (om_Finalizers (fo_Meta obj)) function_finalizer) obj)), db2))) \<and>
   (\<forall>obj w e db1 db2. om_Deleting (eo_Meta obj) \<longrightarrow> extension_removal obj \<longrightarrow>
      extension_finalizer \<in> set (om_Finalizers (eo_Meta obj)) \<longrightarrow>
      (extension_drop w obj db1 = (Some e, db2) \<longrightarrow> extension_step w (Some obj, db1) = ((False, Some e), Some obj, db2)) \<and>
      (extension_drop w obj db1 = (None, db2) \<and> wd_UpdateError w = None \<longrightarrow>
         extension_step w (Some obj, db1) =
           ((False, None),
            (if set (om_Finalizers (eo_Meta obj)) = {extension_finalizer} then None
             else Some (set_extension_finalizers (removeString (om_Finalizers (eo_Meta obj)) extension_finalizer) obj)), db2)))"
proof (intro conjI)
  show "object_run fo_Meta function_removal function_finalizer function_step function_dropped function_orphaned
        f touched dropped abandoned db \<longrightarrow>
      (f = None \<longrightarrow> touched \<longrightarrow> dropped \<or> abandoned) \<and>
      (\<forall>obj. f = Some obj \<longrightarrow> touched \<longrightarrow> \<not> dropped \<longrightarrow> \<not> abandoned \<longrightarrow>
         function_finalizer \<in> set (om_Finalizers (fo_Meta obj)))"
    using function_object.run_guarded [of f touched dropped abandoned db] by blast
  show "object_run eo_Meta extension_removal extension_finalizer extension_step extension_dropped extension_orphaned
        x touched dropped abandoned db \<longrightarrow>
      (x = None \<longrightarrow> touched \<longrightarrow> dropped \<or> abandoned) \<and>
      (\<forall>obj. x = Some obj \<longrightarrow> touched \<longrightarrow> \<not> dropped \<longrightarrow> \<not> abandoned \<longrightarrow>
         extension_finalizer \<in> set (om_Finalizers (eo_Meta obj)))"
    using extension_object.run_guarded [of x touched dropped abandoned db] by blast
qed (simp_all add: function_object.removed_after_drop function_object.kept_while_drop_fails
    extension_object.removed_after_drop extension_object.kept_while_drop_fails removeString_def)

definition sample_meta :: ObjectMeta where
  "sample_meta = \<lparr> om_Name = ''f'', om_Namespace = ''ns'', om_Deleting = False, om_Finalizers = [] \<rparr>"

definition sample_extension :: ExtensionResource where
  "sample_extension =
     \<lparr> eo_Meta = sample_meta,
       eo_Spec = \<lparr> esp_Database = ''app'', esp_RemoveOnDeletion = True,
         esp_Postgres = Some \<lparr> pex_Name = ''citext'', pex_Version = None, pex_Schema = None, pex_IsDeleted = False \<rparr> \<rparr>,
       eo_Status = \<lparr> os_AppliedAt = 0, os_Phase = [], os_Message = [] \<rparr> \<rparr>"

definition extension_manager :: "string list plugin_manager" where
  "extension_manager = (\<lambda>driver uri options. Inr
     \<lparr> cn_PlanTableSchema = (\<lambda>_ _ _. Inr []), cn_PlanTypeSchema = (\<lambda>_ _. Inr []), cn_PlanViewSchema = (\<lambda>_ _. Inr []),
       cn_PlanFunctionSchema = (\<lambda>_ _. Inr []),
       cn_PlanExtensionSchema = (\<lambda>n x. Inr [(case x of PostgresExtension (Some e) \<Rightarrow> if pex_IsDeleted e then ''drop '' else ''create '' | _ \<Rightarrow> []) @ n]),
       cn_DeployStatements = (\<lambda>ss db. (None, db @ ss)), cn_GenerateFixtures = (\<lambda>_. Inr []) \<rparr>)"

definition sample_world :: "string list World" where
  "sample_world =
     \<lparr> wd_GetDatabase = (\<lambda>_ _. Inr sample_resource), wd_UpdateError = None, wd_StatusError = None, wd_Env = sample_kube_env,
       wd_Manager = Some extension_manager, wd_Text = (\<lambda>_. []), wd_Now = 7, wd_Request = (''ns'', ''f'') \<rparr>"

text \<open>An extension that is created, applied, deleted and dropped.\<close>

definition applied_extension :: ExtensionResource where
  "applied_extension = (set_extension_finalizers [extension_finalizer] sample_extension)\<lparr> eo_Status :=
     \<lparr> os_AppliedAt = 7, os_Phase = ''Applied'', os_Message = ''Extension successfully applied'' \<rparr> \<rparr>"

theorem objects_leave_after_drop_witness:
  "object_run eo_Meta extension_removal extension_finalizer extension_step extension_dropped extension_orphaned
     (Some applied_extension) True False False [''create citext''] \<and>
   extension_finalizer \<in> set (om_Finalizers (eo_Meta applied_extension)) \<and>
   object_run eo_Meta extension_removal extension_finalizer extension_step extension_dropped extension_orphaned
     None True True False [''create citext'', ''drop citext'']"
proof -
  let ?x1 = "set_extension_finalizers [extension_finalizer] sample_extension"
  let ?x3 = "applied_extension\<lparr> eo_Meta := (eo_Meta applied_extension)\<lparr> om_Deleting := True \<rparr> \<rparr>"
  note created = object_run.created [where meta = eo_Meta and remove = extension_removal and fin = extension_finalizer and
      reconcile = extension_step and executed = extension_dropped and orphaned = extension_orphaned]
  note deleted = object_run.deleted [where meta = eo_Meta and remove = extension_removal and fin = extension_finalizer and
      reconcile = extension_step and executed = extension_dropped and orphaned = extension_orphaned]
  note step = object_run.reconciled [where meta = eo_Meta and remove = extension_removal and fin = extension_finalizer and
      reconcile = extension_step and executed = extension_dropped and orphaned = extension_orphaned and w = sample_world]
  have steps: "extension_step sample_world (Some sample_extension, []) = ((False, None), Some ?x1, [])"
    "extension_step sample_world (Some ?x1, []) = ((False, None), Some applied_extension, [''create citext''])"
    "extension_step sample_world (Some ?x3, [''create citext'']) = ((False, None), None, [''create citext'', ''drop citext''])"
    "extension_drop sample_world ?x3 [''create citext''] = (None, [''create citext'', ''drop citext''])"
    "extension_removal sample_extension" "extension_removal ?x3" "\<not> om_Deleting (eo_Meta sample_extension)"
    "\<not> om_Deleting (eo_Meta ?x1)" "om_Finalizers (eo_Meta applied_extension) = [extension_finalizer]"
    "\<not> extension_orphaned sample_world ?x3" by code_simp+
  have applied: "object_run eo_Meta extension_removal extension_finalizer extension_step extension_dropped extension_orphaned
      (Some applied_extension) True False False [''create citext'']"
    using step [OF step [OF created [OF steps(5,7)] steps(1)] steps(2)] steps(7,8) by simp
  have dropped: "object_run eo_Meta extension_removal extension_finalizer extension_step extension_dropped extension_orphaned
      None True True False [''create citext'', ''drop citext'']"
    using step [OF _ steps(3), of True False False] deleted [OF applied _ steps(6)] extension_drop_done [OF steps(4)]
      steps(9,10) by simp
  show ?thesis
    using applied dropped objects_leave_after_drop [where x = "Some applied_extension" and touched = True and
        dropped = False and abandoned = False and db = "[''create citext'']", THEN conjunct2, THEN conjunct1]
    by simp
qed

section \<open>Views\<close>

text \<open>
  A view that needs statements is stored as a migration named by the hash of its spec, whose text is
  split back into these statements.
\<close>

lemma view_plan_stores:
  assumes "Database_GetConnection env r = Inr conn" "View_GetSHA marshal v = Inr sha"
    and "PlanSyncViewSpec (controller_database manager conn (dr_DeploySeedData r)) (vo_Spec v) = Inr statements"
    and "statements \<noteq> []" "\<forall>s \<in> set statements. survives s"
  shows "view_plan kc env manager marshal clock r v k =
      store_migration kc ''failed to set owner on miration'' (view_migration clock r v sha statements) k \<and>
    GetStatementsFromDDL (ms_GeneratedDDL (mg_Spec (view_migration clock r v sha statements))) =
      map (\<lambda>s. flattened s @ '';'') (butlast statements) @ [flattened (last statements)]"
proof -
  obtain s ss where "statements = s # ss" using assms(4) by (cases statements) auto
  then show ?thesis
    using assms(1-3) ddl_of_joined [OF assms(4,5)] by (simp add: view_plan_def view_migration_def planned_migration_def)
qed

section \<open>Behaviour the sources do not intend\<close>

text \<open>
  The hash of a planned view is never stored, so that every reconciliation plans it again; the migration
  it finds is overwritten, executed or not, and is due again if the database deploys immediately.
\<close>

lemma executed_view_migration_due_again:
  assumes "stores_migrations kc" "kc_GetMigration kc (vo_Namespace v) (take 7 sha) k = Inr m"
    and "store_migration kc msg (view_migration clock r v sha statements) k = (None, k')"
    and "dr_ImmediateDeploy r" "snd clock > 0"
  shows "\<exists>m'. kc_GetMigration kc (vo_Namespace v) (take 7 sha) k' = Inr m' \<and> shouldApplyMigration m'"
proof -
  let ?m = "m\<lparr> mg_Spec := mg_Spec (view_migration clock r v sha statements),
      mg_Status := mg_Status (view_migration clock r v sha statements) \<rparr>"
  have id: "mg_Namespace m = vo_Namespace v" "mg_Name m = take 7 sha"
    using assms(1,2) by (auto simp: stores_migrations_def)
  have "kc_UpdateMigration kc ?m k = (None, k')"
    using assms(2,3) by (auto simp: store_migration_def view_migration_def planned_migration_def split: prod.splits option.splits)
  then have "kc_GetMigration kc (vo_Namespace v) (take 7 sha) k' = Inr ?m"
    using assms(1) id by (fastforce simp: stores_migrations_def)
  then show ?thesis
    using assms(4,5) by (simp add: shouldApplyMigration_def view_migration_def planned_migration_def)
qed

text \<open>An object whose removal is switched off after its finalizer was set can not be deleted any more.\<close>

lemma removal_switched_off_blocks_deletion:
  assumes "om_Deleting (fo_Meta f)" "\<not> function_removal f"
  shows "function_step w (Some f, db) = ((False, None), Some f, db)"
  by (rule function_object.unguarded) (use assms in auto)

text \<open>
  The resource definition of functions has no status subresource, so that updating the status fails: the
  function is applied and every reconciliation reports an error all the same.
\<close>

lemma function_status_not_stored:
  assumes "wd_StatusError w = Some e" "ApplySync d statements db = (None, db')"
  shows "apply_function (world_client fo_Meta w) text_of now d statements f (Some f, db) = ((False, Some e), Some f, db')"
  using assms by (simp add: apply_function_def world_client_def)

text \<open>A function for a PostgreSQL database without a schema is a nil dereference.\<close>

lemma function_without_schema_panics:
  assumes "fsp_Schema (fo_Spec f) = None"
  shows "function_schema ''postgres'' f = Inl (GoPanic ''invalid memory address or nil pointer dereference'')"
  using assms by (simp add: function_schema_def)

end
