(* ===== verification/Commands.thy ===== *)
theory Commands
  imports Generate Object_Controllers My_Plan Rq_Plan
begin

text \<open>
  The commands of the kubectl plugin, src/pkg/cli/schemaherokubectlcli: plan.go and apply.go, which work on
  files without a cluster; get_migrations.go, get_tables.go, get_databases.go, describe_migration.go,
  recalculate_migration.go, approve_migration.go and reject_migration.go; generate.go and fixtures.go; and
  shell.go with src/pkg/shell/shell.go and the parsers of src/pkg/database/utils.

  The flags of a command are the record \<open>Flags\<close>; the file system is the one of the theory \<open>Generate\<close>, with
  the errors of its calls in \<open>CliEnv\<close>. A directory that is walked is given as the tree of its entries in the
  order in which filepath.Walk visits them.
\<close>

section \<open>Files\<close>

datatype entry = Broken string go_error | Leaf string | Branch string "go_error option" "entry list"

record CliEnv =
  ce_Files :: GenEnv
  ce_ReadFails :: "string \<Rightarrow> go_error option"
  ce_OpenFails :: "string \<Rightarrow> go_error option"
  ce_RemoveFails :: "string \<Rightarrow> go_error option"
  ce_Tree :: "string \<Rightarrow> Output \<Rightarrow> entry"

definition ReadFile :: "CliEnv \<Rightarrow> string \<Rightarrow> Output \<Rightarrow> string result" where
  "ReadFile env path out =
     (case ce_ReadFails env path of
        Some e \<Rightarrow> Inl e
      | None \<Rightarrow>
          (case node_at out path of
             Some (File contents) \<Rightarrow> Inr contents
           | Some Dir \<Rightarrow> Inl (ErrNew (''read '' @ path @ '': is a directory''))
           | None \<Rightarrow> Inl (ErrNotExist ''open'' path)))"

definition RemoveAll :: "CliEnv \<Rightarrow> string \<Rightarrow> Output \<Rightarrow> go_error option \<times> Output" where
  "RemoveAll env path out =
     (case ce_RemoveFails env path of
        Some e \<Rightarrow> (Some e, out)
      | None \<Rightarrow>
          (let p = filepath_Clean path
           in (None, out\<lparr> out_nodes := (\<lambda>q. if q = p \<or> HasPrefix q (p @ ''/'') then None else out_nodes out q) \<rparr>)))"

text \<open>Opening with O_APPEND and O_CREATE: a file that is not there is made, one that is there is kept.\<close>

definition OpenAppend :: "CliEnv \<Rightarrow> string \<Rightarrow> Output \<Rightarrow> go_error option \<times> Output" where
  "OpenAppend env path out =
     (case ce_OpenFails env path of
        Some e \<Rightarrow> (Some e, out)
      | None \<Rightarrow>
          (case node_at out path of
             Some Dir \<Rightarrow> (Some (ErrNew (''open '' @ path @ '': is a directory'')), out)
           | Some (File _) \<Rightarrow> (None, out)
           | None \<Rightarrow>
               if node_at out (filepath_Dir path) \<noteq> Some Dir then (Some (ErrNotExist ''open'' path), out)
               else (None, out\<lparr> out_nodes := (out_nodes out)(filepath_Clean path \<mapsto> File []) \<rparr>)))"

definition WriteString :: "CliEnv \<Rightarrow> string \<Rightarrow> string \<Rightarrow> Output \<Rightarrow> go_error option \<times> Output" where
  "WriteString env path data out =
     (case ge_WriteFails (ce_Files env) path of
        Some e \<Rightarrow> (Some e, out)
      | None \<Rightarrow>
          (let old = (case out_nodes out (filepath_Clean path) of Some (File c) \<Rightarrow> c | _ \<Rightarrow> [])
           in (None, out\<lparr> out_nodes := (out_nodes out)(filepath_Clean path \<mapsto> File (old @ data)) \<rparr>)))"

text \<open>
  filepath.Walk: the callback gets the path, the kind of the entry (none when it could not be read) and the
  error met there. SkipDir leaves out the entries of a directory, and after a file the rest of its directory.
\<close>

datatype verdict = Continue | SkipDir | Stop go_error

type_synonym 's visitor = "string \<Rightarrow> bool option \<Rightarrow> go_error option \<Rightarrow> 's \<Rightarrow> verdict \<times> 's"

fun walk :: "'s visitor \<Rightarrow> entry \<Rightarrow> 's \<Rightarrow> verdict \<times> 's" and walks :: "'s visitor \<Rightarrow> entry list \<Rightarrow> 's \<Rightarrow> verdict \<times> 's" where
  "walk f (Broken path e) s = f path None (Some e) s"
| "walk f (Leaf path) s = f path (Some False) None s"
| "walk f (Branch path e entries) s =
     (case f path (Some True) e s of
        (Continue, s') \<Rightarrow> if e = None then walks f entries s' else (Continue, s')
      | r \<Rightarrow> r)"
| "walks f [] s = (Continue, s)"
| "walks f (x # xs) s =
     (case walk f x s of
        (Continue, s') \<Rightarrow> walks f xs s'
      | (SkipDir, s') \<Rightarrow> (case x of Leaf _ \<Rightarrow> (SkipDir, s') | _ \<Rightarrow> walks f xs s')
      | (Stop e, s') \<Rightarrow> (Stop e, s'))"

definition Walk :: "'s visitor \<Rightarrow> entry \<Rightarrow> 's \<Rightarrow> 's result" where
  "Walk f root s = (case walk f root s of (Stop e, _) \<Rightarrow> Inl e | (_, s') \<Rightarrow> Inr s')"

definition IsHidden :: "string \<Rightarrow> bool" where
  "IsHidden filename = (let b = filepath_Base filename in b \<noteq> ''.'' \<and> HasPrefix b ''.'')"

section \<open>Flags\<close>

record Flags =
  fl_driver :: string
  fl_uri :: string
  fl_host :: "string list"
  fl_username :: string
  fl_password :: string
  fl_keyspace :: string
  fl_spec_file :: string
  fl_spec_type :: string
  fl_out :: string
  fl_overwrite :: bool
  fl_seed_data :: bool
  fl_input_dir :: string
  fl_output_dir :: string
  fl_ddl :: string

definition missing_params :: "Flags \<Rightarrow> string \<Rightarrow> string \<Rightarrow> string list" where
  "missing_params flags value name =
     (if fl_driver flags = [] then [''driver''] else []) @ (if value = [] then [name] else []) @
     (if fl_uri flags = [] \<and> fl_host flags = [] then [''uri or host(s)''] else [])"

definition missing_error :: "string list \<Rightarrow> go_error" where
  "missing_error missing = ErrNew (''missing required params: ['' @ Join missing '' '' @ '']'')"

definition cli_database :: "Flags \<Rightarrow> bool \<Rightarrow> 'db plugin_manager option \<Rightarrow> 'db Database" where
  "cli_database flags seedData manager =
     \<lparr> db_InputDir = fl_input_dir flags, db_OutputDir = fl_output_dir flags, db_Driver = fl_driver flags,
       db_URI = fl_uri flags, db_Hosts = fl_host flags, db_Username = fl_username flags,
       db_Password = fl_password flags, db_Keyspace = fl_keyspace flags, db_DeploySeedData = seedData,
       db_pluginManager = manager \<rparr>"

section \<open>plan\<close>

text \<open>The file the statements are written to: an existing one is removed first, if that is allowed.\<close>

definition clear_out :: "CliEnv \<Rightarrow> Flags \<Rightarrow> Output \<Rightarrow> go_error option \<times> Output" where
  "clear_out env flags out =
     (case Stat (ce_Files env) (fl_out flags) out of
        Inr (Some _) \<Rightarrow>
          if \<not> fl_overwrite flags then (Some (ErrNew (''file '' @ fl_out flags @ '' already exists'')), out)
          else (case RemoveAll env (fl_out flags) out of (e, out) \<Rightarrow> (map_option (wrap_error ''failed remove existing file'') e, out))
      | _ \<Rightarrow> (None, out))"

definition open_out :: "CliEnv \<Rightarrow> Flags \<Rightarrow> Output \<Rightarrow> go_error option \<times> Output" where
  "open_out env flags out =
     (case clear_out env flags out of
        (Some e, out) \<Rightarrow> (Some e, out)
      | (None, out) \<Rightarrow> if fl_out flags \<noteq> [] then OpenAppend env (fl_out flags) out else (None, out))"

text \<open>
  The visitor overwrites the error it is called with, so that a directory that can not be read is passed
  over, and an entry without information is a nil dereference.
\<close>

definition plan_visit :: "CliEnv \<Rightarrow> Output \<Rightarrow> Spec list visitor" where
  "plan_visit env out path kind err specs =
     (case kind of
        None \<Rightarrow> (Stop (GoPanic ''invalid memory address or nil pointer dereference''), specs)
      | Some True \<Rightarrow> (if IsHidden path then SkipDir else Continue, specs)
      | Some False \<Rightarrow>
          if IsHidden path then (Continue, specs)
          else case ReadFile env (filepath_Clean path) out of
                 Inl e \<Rightarrow> (Stop (wrap_error ''failed to read file'' e), specs)
               | Inr specContents \<Rightarrow> (Continue, specs @ [\<lparr> sp_SourceFilename = path, sp_Spec = specContents \<rparr>]))"

fun write_statements :: "CliEnv \<Rightarrow> string \<Rightarrow> string list \<Rightarrow> Output \<Rightarrow> go_error option \<times> Output" where
  "write_statements env outFile [] out = (None, out)"
| "write_statements env outFile (statement # statements) out =
     (if outFile \<noteq> []
      then (case WriteString env outFile (statement @ '';'' @ [newline]) out of
              (Some e, out) \<Rightarrow> (Some e, out)
            | (None, out) \<Rightarrow> write_statements env outFile statements out)
      else write_statements env outFile statements (Println (statement @ '';'') out))"

definition plan_error :: "string \<Rightarrow> string" where
  "plan_error filename = ''plan sync from file '' @ Quote filename"

fun plan_specs :: "CliEnv \<Rightarrow> Decoders \<Rightarrow> 'db Database \<Rightarrow> Flags \<Rightarrow> Spec list \<Rightarrow> Output \<Rightarrow> go_error option \<times> Output" where
  "plan_specs env dec d flags [] out = (None, out)"
| "plan_specs env dec d flags (spec # specs) out =
     (case wrapE (plan_error (sp_SourceFilename spec)) (PlanSync dec d (sp_Spec spec) (fl_spec_type flags)) of
        Inl e \<Rightarrow> (Some e, out)
      | Inr statements \<Rightarrow>
          (case write_statements env (fl_out flags) statements out of
             (Some e, out) \<Rightarrow> (Some e, out)
           | (None, out) \<Rightarrow> plan_specs env dec d flags specs out))"

definition PlanCmd ::
  "CliEnv \<Rightarrow> Decoders \<Rightarrow> (string \<Rightarrow> GroupKind result) \<Rightarrow> 'db plugin_manager option \<Rightarrow> Flags \<Rightarrow> Output \<Rightarrow>
   go_error option \<times> Output" where
  "PlanCmd env dec decode manager flags out =
     (let missing = missing_params flags (fl_spec_file flags) ''spec-file''
      in if missing \<noteq> [] then (Some (missing_error missing), out)
         else case Stat (ce_Files env) (fl_spec_file flags) out of
                Inl e \<Rightarrow> (Some e, out)
              | Inr None \<Rightarrow> (Some (ErrNotExist ''stat'' (fl_spec_file flags)), out)
              | Inr (Some fi) \<Rightarrow>
                  (case open_out env flags out of
                     (Some e, out) \<Rightarrow> (Some e, out)
                   | (None, out) \<Rightarrow>
                       (let d = cli_database flags (fl_seed_data flags) manager
                        in if fi = Dir
                           then (case wrapE ''failed to walk directory''
                                        (Walk (plan_visit env out) (ce_Tree env (fl_spec_file flags) out) []) of
                                   Inl e \<Rightarrow> (Some e, out)
                                 | Inr specs \<Rightarrow> plan_specs env dec d flags (SortSpecs decode d specs) out)
                           else (case wrapE (plan_error (fl_spec_file flags))
                                        (PlanSyncFromFile dec (\<lambda>f. ReadFile env f out) d (fl_spec_file flags) (fl_spec_type flags)) of
                                   Inl e \<Rightarrow> (Some e, out)
                                 | Inr statements \<Rightarrow> write_statements env (fl_out flags) statements out))))"

section \<open>apply\<close>

definition apply_visit :: "CliEnv \<Rightarrow> Output \<Rightarrow> string list visitor" where
  "apply_visit env out path kind err commands =
     (case err of
        Some e \<Rightarrow> (Stop e, commands)
      | None \<Rightarrow>
          if kind = Some True then (Continue, commands)
          else case ReadFile env (filepath_Clean path) out of
                 Inl e \<Rightarrow> (Stop (wrap_error ''failed to read file in directory'' e), commands)
               | Inr ddl \<Rightarrow> (Continue, commands @ GetStatementsFromDDL ddl))"

text \<open>For a directory the command returns once it has read the statements, without executing them.\<close>

definition ApplyCmd ::
  "CliEnv \<Rightarrow> 'db plugin_manager option \<Rightarrow> Flags \<Rightarrow> Output \<Rightarrow> 'db \<Rightarrow> go_error option \<times> 'db" where
  "ApplyCmd env manager flags out db =
     (let missing = missing_params flags (fl_ddl flags) ''ddl''
      in if missing \<noteq> [] then (Some (missing_error missing), db)
         else case Stat (ce_Files env) (fl_ddl flags) out of
                Inl e \<Rightarrow> (Some (wrap_error ''failed to stat ddl file'' e), db)
              | Inr None \<Rightarrow> (Some (wrap_error ''failed to stat ddl file'' (ErrNotExist ''stat'' (fl_ddl flags))), db)
              | Inr (Some Dir) \<Rightarrow>
                  (case wrapE ''failed to walk ddl directory'' (Walk (apply_visit env out) (ce_Tree env (fl_ddl flags) out) []) of
                     Inl e \<Rightarrow> (Some e, db)
                   | Inr commands \<Rightarrow> (None, db))
              | Inr (Some (File _)) \<Rightarrow>
                  (case wrapE ''failed to read file'' (ReadFile env (fl_ddl flags) out) of
                     Inl e \<Rightarrow> (Some e, db)
                   | Inr ddl \<Rightarrow>
                       (case ApplySync (cli_database flags False manager) (GetStatementsFromDDL ddl) db of
                          (e, db') \<Rightarrow> (map_option (wrap_error ''failed to apply commands'') e, db'))))"

section \<open>Listing and describing\<close>

record 'k ListClient =
  lc_Config :: "go_error option"
  lc_Clientset :: "go_error option"
  lc_SchemasClient :: "go_error option"
  lc_Namespaces :: "'k \<Rightarrow> string list result"
  lc_Migrations :: "string \<Rightarrow> 'k \<Rightarrow> Migration list result"
  lc_Tables :: "string \<Rightarrow> 'k \<Rightarrow> TableResource list result"
  lc_GetMigration :: "string \<Rightarrow> string \<Rightarrow> 'k \<Rightarrow> Migration result"
  lc_PatchTable :: "string \<Rightarrow> string \<Rightarrow> (string \<times> string) \<Rightarrow> 'k \<Rightarrow> go_error option \<times> 'k"

text \<open>The clients all commands make first, and the first of their errors.\<close>

definition new_clients :: "'k ListClient \<Rightarrow> unit result" where
  "new_clients lc =
     (case lc_Config lc of
        Some e \<Rightarrow> Inl e
      | None \<Rightarrow> (case lc_Clientset lc of
                  Some e \<Rightarrow> Inl e
                | None \<Rightarrow> (case lc_SchemasClient lc of Some e \<Rightarrow> Inl e | None \<Rightarrow> Inr ())))"

definition namespaceNames :: "'k ListClient \<Rightarrow> bool \<Rightarrow> string \<Rightarrow> 'k \<Rightarrow> string list result" where
  "namespaceNames lc allNamespaces namespace k =
     (if allNamespaces then lc_Namespaces lc k
      else Inr [if namespace \<noteq> [] then namespace else ''default''])"

definition matchesMigrationStatus :: "Migration \<Rightarrow> string \<Rightarrow> bool" where
  "matchesMigrationStatus m status =
     (let s = mg_Status m
      in if status = ''rejected'' then mst_RejectedAt s > 0
         else if status = ''approved'' then mst_ApprovedAt s > 0 \<and> mst_RejectedAt s = 0
         else if status = ''executed'' then mst_ExecutedAt s > 0 \<and> mst_RejectedAt s = 0
         else if status = ''planned''
         then mst_PlannedAt s > 0 \<and> mst_ExecutedAt s = 0 \<and> mst_RejectedAt s = 0 \<and> mst_ApprovedAt s = 0
         else False)"

definition getMostRecentTimestamp :: "Migration \<Rightarrow> int" where
  "getMostRecentTimestamp m =
     (let s = mg_Status m
      in fold (\<lambda>ts mostRecent. if ts > mostRecent then ts else mostRecent)
           [mst_PlannedAt s, mst_ExecutedAt s, mst_ApprovedAt s, mst_RejectedAt s] 0)"

definition validStatuses :: "string list" where
  "validStatuses = [''planned'', ''executed'', ''approved'', ''rejected'']"

definition listed_migration :: "string \<Rightarrow> string \<Rightarrow> Migration \<Rightarrow> bool" where
  "listed_migration databaseNameFilter statusFilter m \<longleftrightarrow>
     \<not> (databaseNameFilter \<noteq> [] \<and> ms_DatabaseName (mg_Spec m) \<noteq> databaseNameFilter) \<and>
     \<not> (statusFilter \<noteq> [] \<and> \<not> matchesMigrationStatus m statusFilter)"

text \<open>
  The migrations in the order of the rows, which \<open>print_migrations\<close> below renders. The sort is the one of the
  theory \<open>Database_Sync\<close>.
\<close>

definition GetMigrationsCmd ::
  "'k ListClient \<Rightarrow> bool \<Rightarrow> string \<Rightarrow> string \<Rightarrow> string \<Rightarrow> 'k \<Rightarrow> Migration list result" where
  "GetMigrationsCmd lc allNamespaces namespace databaseNameFilter statusFilter k =
     (if statusFilter \<noteq> [] \<and> statusFilter \<notin> set validStatuses
      then Inl (ErrNew (''invalid status filter: '' @ statusFilter @
             ''. Valid options are: planned, executed, approved, rejected''))
      else
        bindE (new_clients lc) (\<lambda>_.
        bindE (namespaceNames lc allNamespaces namespace k) (\<lambda>names.
        bindE (concatE (mapE (\<lambda>n. bindE (lc_Migrations lc n k) (\<lambda>migrations.
                 Inr (filter (listed_migration databaseNameFilter statusFilter) migrations))) names)) (\<lambda>matching.
          Inr (sort_Sort (\<lambda>a b. getMostRecentTimestamp a > getMostRecentTimestamp b) matching)))))"

text \<open>
  The age of a time stamp: \<open>since\<close> gives the nanoseconds that have passed since a time, negative for one in the
  future, and the quotients of a duration are exact, where the code rounds them to doubles.
\<close>

definition timestampToAge :: "(int \<Rightarrow> int) \<Rightarrow> int \<Rightarrow> string" where
  "timestampToAge since t =
     (if t = 0 then []
      else
        let d = since t; second = 1000000000; minute = 60 * second; hour = 60 * minute
        in if d < minute then Itoa (sgn d * (\<bar>d\<bar> div second)) @ ''s''
           else if d < minute * 10 then Itoa (d div minute) @ ''m'' @ Itoa (d div second mod 60) @ ''s''
           else if d < hour then Itoa (d div minute) @ ''m''
           else if d < hour * 24 then Itoa (d div hour) @ ''h''
           else Itoa (d div (hour * 24)) @ ''d'' @ Itoa (d div hour mod 24) @ ''h'')"

definition migration_row :: "(int \<Rightarrow> int) \<Rightarrow> Migration \<Rightarrow> string list" where
  "migration_row since m =
     [mg_Name m, ms_DatabaseName (mg_Spec m), ms_TableName (mg_Spec m)] @
     map (\<lambda>at. timestampToAge since (at (mg_Status m))) [mst_PlannedAt, mst_ExecutedAt, mst_ApprovedAt, mst_RejectedAt]"

text \<open>The cells of each line; their alignment is that of text/tabwriter.\<close>

definition print_migrations :: "(int \<Rightarrow> int) \<Rightarrow> Migration list \<Rightarrow> string list list" where
  "print_migrations since matchingMigrations =
     (if matchingMigrations = [] then [[''No resources found.'']]
      else [''ID'', ''DATABASE'', ''TABLE'', ''PLANNED'', ''EXECUTED'', ''APPROVED'', ''REJECTED''] #
           map (migration_row since) matchingMigrations)"

definition pending_migration :: "TableResource \<Rightarrow> Migration \<Rightarrow> bool" where
  "pending_migration table m \<longleftrightarrow>
     mg_Namespace m = to_Namespace table \<and> ms_TableName (mg_Spec m) = to_Name table \<and>
     mst_ExecutedAt (mg_Status m) = 0 \<and> mst_RejectedAt (mg_Status m) = 0"

text \<open>The rows of the table; \<open>order\<close> is the iteration over the set of namespaces.\<close>

definition GetTablesCmd ::
  "'k ListClient \<Rightarrow> (string list \<Rightarrow> string list) \<Rightarrow> string \<Rightarrow> 'k \<Rightarrow> (string \<times> string \<times> string) list result" where
  "GetTablesCmd lc order databaseNameFilter k =
     bindE (new_clients lc) (\<lambda>_.
     bindE (lc_Namespaces lc k) (\<lambda>namespaces.
     bindE (concatE (mapE (\<lambda>n. bindE (lc_Tables lc n k) (\<lambda>tables.
              Inr (filter (\<lambda>t. databaseNameFilter \<noteq> [] \<longrightarrow> tsp_Database (to_Spec t) = databaseNameFilter) tables))) namespaces))
       (\<lambda>matchingTables.
     bindE (concatE (mapE (\<lambda>n. lc_Migrations lc n k) (order (remdups (map to_Namespace matchingTables))))) (\<lambda>migrations.
       Inr (map (\<lambda>t. (to_Name t, tsp_Database (to_Spec t), nat_str (length (filter (pending_migration t) migrations))))
              matchingTables)))))"

text \<open>What is printed of a migration; \<open>rfc3339\<close> formats a time.\<close>

definition baseCommand :: "string \<Rightarrow> string" where
  "baseCommand namespaceName = ''kubectl schemahero'' @ (if namespaceName \<noteq> ''default'' then '' -n '' @ namespaceName else [])"

definition describe_lines :: "(int \<Rightarrow> string) \<Rightarrow> string \<Rightarrow> Migration \<Rightarrow> string list" where
  "describe_lines rfc3339 namespaceName m =
     (let s = mg_Status m; stamped = (\<lambda>label t. if t > 0 then [label @ rfc3339 t] else [])
      in [[], ''Migration Name: '' @ mg_Name m, [],
          ''Generated DDL Statement (generated at '' @ rfc3339 (mst_PlannedAt s) @ ''): '',
          ''  '' @ ms_GeneratedDDL (mg_Spec m), [], ''Status: '' @ phase_string (mst_Phase s)] @
         stamped ''Approved at: '' (mst_ApprovedAt s) @ stamped ''Applied at: '' (mst_ExecutedAt s) @
         stamped ''Rejected at: '' (mst_RejectedAt s) @
         (if mst_Phase s = Planned
          then [[], ''To apply this migration:'', ''  '' @ baseCommand namespaceName @ '' approve migration '' @ mg_Name m,
                [], ''To recalculate this migration against the current schema:'',
                ''  '' @ baseCommand namespaceName @ '' recalculate migration '' @ mg_Name m,
                [], ''To deny and cancel this migration:'',
                ''  '' @ baseCommand namespaceName @ '' reject migration '' @ mg_Name m]
          else []))"

fun describe_migration ::
  "'k ListClient \<Rightarrow> (int \<Rightarrow> string) \<Rightarrow> string \<Rightarrow> string list \<Rightarrow> 'k \<Rightarrow> string list result" where
  "describe_migration lc rfc3339 migrationName [] k = Inl (ErrNew (''migration '' @ Quote migrationName @ '' not found''))"
| "describe_migration lc rfc3339 migrationName (namespaceName # rest) k =
     (case lc_GetMigration lc namespaceName migrationName k of
        Inl e \<Rightarrow> if IsNotFound e then describe_migration lc rfc3339 migrationName rest k else Inl e
      | Inr m \<Rightarrow> Inr (describe_lines rfc3339 namespaceName m))"

definition DescribeMigrationCmd ::
  "'k ListClient \<Rightarrow> (int \<Rightarrow> string) \<Rightarrow> bool \<Rightarrow> string \<Rightarrow> string \<Rightarrow> 'k \<Rightarrow> string list result" where
  "DescribeMigrationCmd lc rfc3339 allNamespaces namespace migrationName k =
     bindE (new_clients lc) (\<lambda>_. bindE (namespaceNames lc allNamespaces namespace k) (\<lambda>names.
       describe_migration lc rfc3339 migrationName names k))"

fun recalculate_migration ::
  "'k ListClient \<Rightarrow> string \<Rightarrow> string \<Rightarrow> string list \<Rightarrow> 'k \<Rightarrow> go_error option \<times> 'k" where
  "recalculate_migration lc recalculatedAt migrationName [] k =
     (Some (ErrNew (''migration '' @ Quote migrationName @ '' not found'')), k)"
| "recalculate_migration lc recalculatedAt migrationName (namespaceName # rest) k =
     (case lc_GetMigration lc namespaceName migrationName k of
        Inl e \<Rightarrow> if IsNotFound e then recalculate_migration lc recalculatedAt migrationName rest k else (Some e, k)
      | Inr m \<Rightarrow> lc_PatchTable lc namespaceName (ms_TableName (mg_Spec m)) (''recalculatedAt'', recalculatedAt) k)"

definition RecalculateMigrationCmd ::
  "'k ListClient \<Rightarrow> string \<Rightarrow> bool \<Rightarrow> string \<Rightarrow> string \<Rightarrow> 'k \<Rightarrow> go_error option \<times> 'k" where
  "RecalculateMigrationCmd lc recalculatedAt allNamespaces namespace migrationName k =
     (case bindE (new_clients lc) (\<lambda>_. namespaceNames lc allNamespaces namespace k) of
        Inl e \<Rightarrow> (Some e, k)
      | Inr names \<Rightarrow> recalculate_migration lc recalculatedAt migrationName names k)"

text \<open>
  Approving and rejecting: the clients and the namespaces as above, then the loops of the theory
  \<open>Controllers\<close>.
\<close>

definition ApproveMigrationCmd ::
  "'k ListClient \<Rightarrow> 'k KubeClient \<Rightarrow> int \<Rightarrow> bool \<Rightarrow> string \<Rightarrow> string \<Rightarrow> 'k \<Rightarrow> go_error option \<times> 'k" where
  "ApproveMigrationCmd lc kc now allNamespaces namespace migrationName k =
     (case bindE (new_clients lc) (\<lambda>_. namespaceNames lc allNamespaces namespace k) of
        Inl e \<Rightarrow> (Some e, k)
      | Inr names \<Rightarrow> approve_migration kc now migrationName names k)"

definition RejectMigrationCmd ::
  "'k ListClient \<Rightarrow> 'k KubeClient \<Rightarrow> int \<Rightarrow> bool \<Rightarrow> string \<Rightarrow> string \<Rightarrow> 'k \<Rightarrow> go_error option \<times> 'k" where
  "RejectMigrationCmd lc kc now allNamespaces namespace migrationName k =
     (case bindE (new_clients lc) (\<lambda>_. namespaceNames lc allNamespaces namespace k) of
        Inl e \<Rightarrow> (Some e, k)
      | Inr names \<Rightarrow> reject_migration kc now migrationName names k)"

text \<open>The rows of the databases; the client of databases takes the place of the one of schemas.\<close>

definition GetDatabasesCmd ::
  "'k ListClient \<Rightarrow> go_error option \<Rightarrow> (string \<Rightarrow> 'k \<Rightarrow> DatabaseResource list result) \<Rightarrow> 'k \<Rightarrow>
   (string \<times> string \<times> string) list result" where
  "GetDatabasesCmd lc databasesClient databases k =
     bindE (new_clients (lc\<lparr> lc_SchemasClient := databasesClient \<rparr>)) (\<lambda>_.
     bindE (lc_Namespaces lc k) (\<lambda>namespaces.
     bindE (concatE (mapE (\<lambda>n. databases n k) namespaces)) (\<lambda>matchingDatabases.
       Inr (map (\<lambda>d. (dr_Name d, dr_Namespace d, ''0'')) matchingDatabases))))"

section \<open>generate and fixtures\<close>

text \<open>The values of the flags are arguments, \<open>help\<close> is the text cobra prints.\<close>

definition GenerateCmd ::
  "GenEnv \<Rightarrow> 'db FullConnection ManagerEnv \<Rightarrow> 'db FullConnection PluginManager option \<Rightarrow> string \<Rightarrow>
   string \<Rightarrow> string \<Rightarrow> string \<Rightarrow> string \<Rightarrow> string list \<Rightarrow> Output \<Rightarrow> go_error option \<times> Output" where
  "GenerateCmd env menv globalPluginManager help uri driver dbName outputDir schemas out =
     (if uri = [] \<or> driver = [] \<or> dbName = [] then (None, Println help out)
      else
        let g = \<lparr> gen_Driver = driver, gen_URI = uri, gen_DBName = dbName, gen_OutputDir = outputDir,
                  gen_Schemas = schemas, gen_pluginManager = None \<rparr>;
            g = (case globalPluginManager of None \<Rightarrow> g | Some m \<Rightarrow> Generator_SetPluginManager (Some m) g)
        in (case RunSync env menv g out of (e, _, out') \<Rightarrow> (e, out')))"

definition FixturesCmd ::
  "Decoders \<Rightarrow> (string \<Rightarrow> string \<Rightarrow> string result) \<Rightarrow> (string \<Rightarrow> string \<Rightarrow> go_error option) \<Rightarrow>
   'db plugin_manager option \<Rightarrow> Flags \<Rightarrow> (string \<Rightarrow> WalkEntry list) \<Rightarrow> go_error option" where
  "FixturesCmd dec read_file write_file globalPluginManager flags entries =
     (let d = \<lparr> db_InputDir = fl_input_dir flags, db_OutputDir = fl_output_dir flags, db_Driver = fl_driver flags,
                db_URI = fl_uri flags, db_Hosts = [], db_Username = [], db_Password = [], db_Keyspace = [],
                db_DeploySeedData = False, db_pluginManager = globalPluginManager \<rparr>
      in CreateFixturesSync dec read_file write_file d (entries (db_InputDir d)))"

section \<open>shell\<close>

text \<open>The parsers of the MySQL driver and of net/url, and net.SplitHostPort.\<close>

record UriEnv =
  ue_ParseDSN :: "string \<Rightarrow> DSNConfig result"
  ue_Parse :: "string \<Rightarrow> rq_url result"
  ue_SplitHostPort :: "string \<Rightarrow> (string \<times> string) result"

definition dsn_of :: "UriEnv \<Rightarrow> string \<Rightarrow> DSNConfig result" where
  "dsn_of ue uri = wrapE ''failed to parse database uri'' (ue_ParseDSN ue uri)"

definition MySQLDatabaseNameFromURI :: "UriEnv \<Rightarrow> string \<Rightarrow> string result" where
  "MySQLDatabaseNameFromURI ue uri = bindE (dsn_of ue uri) (\<lambda>cfg. Inr (cfg_DBName cfg))"

definition MySQLUsernameFromURI :: "UriEnv \<Rightarrow> string \<Rightarrow> string result" where
  "MySQLUsernameFromURI ue uri = bindE (dsn_of ue uri) (\<lambda>cfg. Inr (cfg_User cfg))"

definition MySQLPasswordFromURI :: "UriEnv \<Rightarrow> string \<Rightarrow> string result" where
  "MySQLPasswordFromURI ue uri = bindE (dsn_of ue uri) (\<lambda>cfg. Inr (cfg_Passwd cfg))"

definition MySQLHostnameFromURI :: "UriEnv \<Rightarrow> string \<Rightarrow> string result" where
  "MySQLHostnameFromURI ue uri = bindE (dsn_of ue uri) (\<lambda>cfg. Inr (hd (SplitByte (cfg_Addr cfg) (CHR '':''))))"

definition MySQLPortFromURI :: "UriEnv \<Rightarrow> string \<Rightarrow> string result" where
  "MySQLPortFromURI ue uri =
     bindE (dsn_of ue uri) (\<lambda>cfg.
       let addrAndPort = SplitByte (cfg_Addr cfg) (CHR '':'')
       in Inr (if length addrAndPort > 1 then addrAndPort ! 1 else ''3306''))"

definition url_of :: "UriEnv \<Rightarrow> string \<Rightarrow> rq_url result" where
  "url_of ue u = wrapE ''failed to parse url'' (ue_Parse ue u)"

definition cli_UsernameFromURL :: "UriEnv \<Rightarrow> string \<Rightarrow> string result" where
  "cli_UsernameFromURL ue u = bindE (url_of ue u) (\<lambda>u. Inr (case url_User u of None \<Rightarrow> [] | Some (n, _) \<Rightarrow> n))"

definition cli_PasswordFromURL :: "UriEnv \<Rightarrow> string \<Rightarrow> string result" where
  "cli_PasswordFromURL ue u = bindE (url_of ue u) (\<lambda>u. Inr (case url_User u of Some (_, Some p) \<Rightarrow> p | _ \<Rightarrow> []))"

definition cli_HostnameFromURL :: "UriEnv \<Rightarrow> string \<Rightarrow> string result" where
  "cli_HostnameFromURL ue u = bindE (url_of ue u) (\<lambda>u.
     bindE (wrapE ''failed to split host port'' (ue_SplitHostPort ue (url_Host u))) (\<lambda>(host, _). Inr host))"

definition cli_PortFromURL :: "UriEnv \<Rightarrow> string \<Rightarrow> string result" where
  "cli_PortFromURL ue u = bindE (url_of ue u) (\<lambda>u.
     bindE (wrapE ''failed to split host port'' (ue_SplitHostPort ue (url_Host u))) (\<lambda>(_, port). Inr port))"

definition mysql_shell :: "UriEnv \<Rightarrow> string \<Rightarrow> string list result" where
  "mysql_shell ue uri =
     bindE (MySQLUsernameFromURI ue uri) (\<lambda>username.
     bindE (MySQLPasswordFromURI ue uri) (\<lambda>password.
     bindE (MySQLHostnameFromURI ue uri) (\<lambda>hostname.
     bindE (MySQLPortFromURI ue uri) (\<lambda>port.
     bindE (MySQLDatabaseNameFromURI ue uri) (\<lambda>database.
       Inr [''mysql'', ''-u'', username, ''-p'' @ password, ''-h'', hostname, ''-D'', database, ''-P'', port])))))"

definition rqlite_shell :: "UriEnv \<Rightarrow> string \<Rightarrow> string list result" where
  "rqlite_shell ue u =
     bindE (cli_UsernameFromURL ue u) (\<lambda>username.
     bindE (cli_PasswordFromURL ue u) (\<lambda>password.
     bindE (cli_HostnameFromURL ue u) (\<lambda>hostname.
     bindE (cli_PortFromURL ue u) (\<lambda>port.
       Inr [''rqlite'', ''-u'', username, '':'', password, ''-H'', hostname, ''-p'', port]))))"

text \<open>The image and the command of the shell, of which the flag overrides the image.\<close>

definition shell_pod :: "KubeEnv \<Rightarrow> UriEnv \<Rightarrow> string \<Rightarrow> DatabaseResource \<Rightarrow> (string \<times> string list) result" where
  "shell_pod env ue img r =
     (let c = dr_Connection r; given = (\<lambda>dflt. if img = [] then dflt else img)
      in if dc_Postgres c \<noteq> None
         then bindE (Database_GetConnection env r) (\<lambda>(_, uri). Inr (given ''postgres:11'', [''psql'', uri]))
         else if dc_Mysql c \<noteq> None
         then bindE (Database_GetConnection env r) (\<lambda>(_, uri).
                bindE (mysql_shell ue uri) (\<lambda>cmd. Inr (given ''mysql:latest'', cmd)))
         else if dc_RQLite c \<noteq> None
         then bindE (Database_GetConnection env r) (\<lambda>(_, uri).
                bindE (rqlite_shell ue uri) (\<lambda>cmd. Inr (given ''rqlite/rqlite:latest'', cmd)))
         else if img = []
         then Inl (ErrNew ''unable to determine image for shell -- consider specifying it with --image tag'')
         else Inr (img, []))"

text \<open>
  The pod that is started, and the cluster it runs in. The loop that waits for it reads the clock and asks the
  API again and again: \<open>now i\<close> is the time of the i-th turn, in milliseconds, and \<open>conditions i\<close> the answer it gets,
  the type and the status of each condition. A loop that is never left has no result. The two clients that the
  command makes from its configuration are one field, as are opening the stream to the pod and running it.
\<close>

record Pod =
  pod_Namespace :: string
  pod_GenerateName :: string
  pod_RestartPolicy :: string
  pod_Image :: string
  pod_ImagePullPolicy :: string
  pod_Container :: string
  pod_Command :: "string list"

record 'k PodClient =
  pc_Config :: "go_error option"
  pc_Clientset :: "go_error option"
  pc_Create :: "Pod \<Rightarrow> 'k \<Rightarrow> string result \<times> 'k"
  pc_Exec :: "string \<Rightarrow> string \<Rightarrow> string list \<Rightarrow> 'k \<Rightarrow> go_error option \<times> 'k"
  pc_Delete :: "string \<Rightarrow> string \<Rightarrow> 'k \<Rightarrow> go_error option \<times> 'k"

definition shellPod :: "string \<Rightarrow> string \<Rightarrow> Pod" where
  "shellPod namespace imageName =
     \<lparr> pod_Namespace = namespace, pod_GenerateName = ''schemahero-shell-'', pod_RestartPolicy = ''Never'',
       pod_Image = imageName, pod_ImagePullPolicy = ''IfNotPresent'', pod_Container = ''shell'',
       pod_Command = [''sleep'', ''infinity''] \<rparr>"

type_synonym conditions = "(string \<times> string) list"

definition containers_ready :: "conditions \<Rightarrow> bool" where
  "containers_ready cs =
     (let ready = filter (\<lambda>(t, _). t = ''ContainersReady'') cs;
          numReady = length (filter (\<lambda>(_, status). status = ''True'') ready);
          numNotReady = length (filter (\<lambda>(_, status). status \<noteq> ''True'') ready)
      in numNotReady = 0 \<and> numReady > 0)"

partial_function (option) wait_for_pod ::
  "(nat \<Rightarrow> int) \<Rightarrow> (nat \<Rightarrow> conditions result) \<Rightarrow> int \<Rightarrow> nat \<Rightarrow> go_error option option" where
  "wait_for_pod now conditions abortAt i =
     (if abortAt < now i then Some (Some (ErrNew ''shell pod did not start''))
      else case conditions i of
             Inl e \<Rightarrow> if IsNotFound e then wait_for_pod now conditions abortAt (Suc i)
                     else Some (Some (wrap_error ''failed to get pod'' e))
           | Inr cs \<Rightarrow> if containers_ready cs then Some None else wait_for_pod now conditions abortAt (Suc i))"

definition StartShellPod ::
  "'k PodClient \<Rightarrow> int \<Rightarrow> (nat \<Rightarrow> int) \<Rightarrow> (nat \<Rightarrow> conditions result) \<Rightarrow> string \<Rightarrow> string \<Rightarrow> 'k \<Rightarrow>
   (string result \<times> 'k) option" where
  "StartShellPod pc startedAt now conditions namespace imageName k =
     (case pc_Config pc of
        Some e \<Rightarrow> Some (Inl (wrap_error ''failed to get config'' e), k)
      | None \<Rightarrow>
          (case pc_Clientset pc of
             Some e \<Rightarrow> Some (Inl (wrap_error ''failed to get clientset'' e), k)
           | None \<Rightarrow>
               (case pc_Create pc (shellPod namespace imageName) k of
                  (Inl e, k') \<Rightarrow> Some (Inl (wrap_error ''failed to create pod'' e), k')
                | (Inr name, k') \<Rightarrow>
                    map_option (\<lambda>r. (case r of Some e \<Rightarrow> Inl e | None \<Rightarrow> Inr name, k'))
                      (wait_for_pod now conditions (startedAt + 60000) 0))))"

text \<open>The deferred deletion makes its own client; its error is lost.\<close>

definition delete_pod :: "'k PodClient \<Rightarrow> string \<Rightarrow> string \<Rightarrow> 'k \<Rightarrow> 'k" where
  "delete_pod pc namespace podName k =
     (if pc_Config pc \<noteq> None \<or> pc_Clientset pc \<noteq> None then k else snd (pc_Delete pc namespace podName k))"

text \<open>What the command needs of the database before it starts a pod.\<close>

definition shell_request ::
  "'k PodClient \<Rightarrow> (string \<Rightarrow> string \<Rightarrow> 'k \<Rightarrow> (bool \<times> DatabaseResource) result) \<Rightarrow> KubeEnv \<Rightarrow> UriEnv \<Rightarrow> string \<Rightarrow> string \<Rightarrow> string \<Rightarrow>
   'k \<Rightarrow> (string \<times> string list) result" where
  "shell_request pc getDatabase env ue databaseName namespace img k =
     (case pc_Config pc of
        Some e \<Rightarrow> Inl e
      | None \<Rightarrow>
          (case pc_Clientset pc of
             Some e \<Rightarrow> Inl e
           | None \<Rightarrow>
               (case getDatabase namespace databaseName k of
                  Inl e \<Rightarrow> if IsNotFound e
                          then Inl (ErrNew (''database '' @ Quote databaseName @ '' not found in '' @ Quote namespace @ '' namespace''))
                          else Inl e
                | Inr (enableShellCommand, r) \<Rightarrow>
                    if \<not> enableShellCommand
                    then Inl (ErrNew (''shell command is not allowed for database '' @ Quote databaseName))
                    else shell_pod env ue img r)))"

definition run_shell ::
  "'k PodClient \<Rightarrow> string \<Rightarrow> string list \<Rightarrow> (string result \<times> 'k) option \<Rightarrow> (go_error option \<times> 'k) option" where
  "run_shell pc namespace podCommand started =
     map_option (\<lambda>(r, k). case r of
        Inl e \<Rightarrow> (Some e, k)
      | Inr podName \<Rightarrow> (case pc_Exec pc namespace podName podCommand k of (e, k') \<Rightarrow> (e, delete_pod pc namespace podName k'))) started"

definition ShellCmd ::
  "'k PodClient \<Rightarrow> (string \<Rightarrow> string \<Rightarrow> 'k \<Rightarrow> (bool \<times> DatabaseResource) result) \<Rightarrow> KubeEnv \<Rightarrow> UriEnv \<Rightarrow> int \<Rightarrow>
   (nat \<Rightarrow> int) \<Rightarrow> (nat \<Rightarrow> conditions result) \<Rightarrow> string list \<Rightarrow> string \<Rightarrow> string \<Rightarrow> 'k \<Rightarrow> (go_error option \<times> 'k) option" where
  "ShellCmd pc getDatabase env ue startedAt now conditions args namespaceFlag img k =
     (case args of
        [] \<Rightarrow> Some (Some (ErrNew ''database name required''), k)
      | databaseName # _ \<Rightarrow>
          (let namespace = (if namespaceFlag = [] then ''default'' else namespaceFlag)
           in case shell_request pc getDatabase env ue databaseName namespace img k of
                Inl e \<Rightarrow> Some (Some e, k)
              | Inr (podImage, podCommand) \<Rightarrow>
                  run_shell pc namespace podCommand (StartShellPod pc startedAt now conditions namespace podImage k)))"

end
