(* ===== verification/Commands_Correct.thy ===== *)
theory Commands_Correct
  imports Commands
begin

text \<open>
  What the commands do: the statements that plan writes to a file are those that apply executes; the shell
  command ends; and the rows of the listings.
\<close>

section \<open>plan, then apply\<close>

text \<open>The statements a plan is made of: those of the specs below a directory in their order, or of one file.\<close>

definition collected :: "CliEnv \<Rightarrow> (string \<Rightarrow> GroupKind result) \<Rightarrow> 'db Database \<Rightarrow> Flags \<Rightarrow> Output \<Rightarrow> Spec list result" where
  "collected env decode d flags out =
     bindE (Walk (plan_visit env out) (ce_Tree env (fl_spec_file flags) out) []) (\<lambda>specs. Inr (SortSpecs decode d specs))"

definition planned ::
  "CliEnv \<Rightarrow> Decoders \<Rightarrow> (string \<Rightarrow> GroupKind result) \<Rightarrow> 'db Database \<Rightarrow> Flags \<Rightarrow> node \<Rightarrow> Output \<Rightarrow> string list result" where
  "planned env dec decode d flags fi out =
     (if fi = Dir
      then bindE (collected env decode d flags out) (\<lambda>specs.
             concatE (mapE (\<lambda>s. PlanSync dec d (sp_Spec s) (fl_spec_type flags)) specs))
      else PlanSyncFromFile dec (\<lambda>f. ReadFile env f out) d (fl_spec_file flags) (fl_spec_type flags))"

definition ddl_file :: "string list \<Rightarrow> string" where
  "ddl_file statements = concat (map (\<lambda>s. s @ '';'' @ [newline]) statements)"

lemma ddl_file_append [simp]: "ddl_file (xs @ ys) = ddl_file xs @ ddl_file ys"
  by (simp add: ddl_file_def)

lemma statements_of_ddl_file:
  "\<forall>s \<in> set statements. survives s \<Longrightarrow> GetStatementsFromDDL (ddl_file statements) = map (\<lambda>s. flattened s @ '';'') statements"
proof (induction statements)
  case Nil
  then show ?case by (simp add: ddl_file_def GetStatementsFromDDL_def)
next
  case (Cons s ss)
  have "SplitByte (s @ '';'' @ newline # ddl_file ss) newline =
      butlast (SplitByte s newline) @ (last (SplitByte s newline) @ '';'') # SplitByte (ddl_file ss) newline"
    by (simp add: SplitByte_append_gen)
  then show ?case using Cons ddl_loop_first [of s "SplitByte (ddl_file ss) newline"]
    by (simp add: GetStatementsFromDDL_def ddl_file_def)
qed

text \<open>Writing appends to the file that was opened and changes nothing else.\<close>

definition written :: "string \<Rightarrow> string \<Rightarrow> Output \<Rightarrow> Output" where
  "written path contents out = out\<lparr> out_nodes := (out_nodes out)(filepath_Clean path \<mapsto> File contents) \<rparr>"

lemma written_simps [simp]:
  "out_nodes (written path c out) (filepath_Clean path) = Some (File c)"
  "written path c' (written path c out) = written path c' out"
  by (simp_all add: written_def)

lemma written_id: "out_nodes out (filepath_Clean path) = Some (File c) \<Longrightarrow> written path c out = out"
  by (simp add: written_def map_upd_triv)

lemma write_statements_ok:
  "write_statements env path ss out = (None, out') \<Longrightarrow> path \<noteq> [] \<Longrightarrow> out_nodes out (filepath_Clean path) = Some (File c) \<Longrightarrow>
   out' = written path (c @ ddl_file ss) out"
proof (induction ss arbitrary: out c)
  case Nil
  then show ?case by (simp add: ddl_file_def written_id)
next
  case (Cons s ss)
  have step: "WriteString env path (s @ '';'' @ [newline]) out = (None, written path (c @ s @ '';'' @ [newline]) out)"
    using Cons.prems by (auto simp: WriteString_def written_def split: option.splits)
  then have "write_statements env path ss (written path (c @ s @ '';'' @ [newline]) out) = (None, out')"
    using Cons.prems by simp
  from Cons.IH [OF this Cons.prems(2)] show ?case by (simp add: ddl_file_def)
qed

lemma plan_specs_ok:
  "plan_specs env dec d flags specs out = (None, out') \<Longrightarrow> fl_out flags \<noteq> [] \<Longrightarrow>
   out_nodes out (filepath_Clean (fl_out flags)) = Some (File c) \<Longrightarrow>
   \<exists>ss. concatE (mapE (\<lambda>s. PlanSync dec d (sp_Spec s) (fl_spec_type flags)) specs) = Inr ss \<and>
        out' = written (fl_out flags) (c @ ddl_file ss) out"
proof (induction specs arbitrary: out c)
  case Nil
  then show ?case by (simp add: concatE_def ddl_file_def written_id)
next
  case (Cons spec specs)
  from Cons.prems(1) obtain ss1 out1 where plan: "PlanSync dec d (sp_Spec spec) (fl_spec_type flags) = Inr ss1"
    and wr: "write_statements env (fl_out flags) ss1 out = (None, out1)"
    and rest: "plan_specs env dec d flags specs out1 = (None, out')"
    by (auto split: sum.splits prod.splits option.splits)
  have out1: "out1 = written (fl_out flags) (c @ ddl_file ss1) out"
    using write_statements_ok [OF wr Cons.prems(2,3)] .
  have "out_nodes out1 (filepath_Clean (fl_out flags)) = Some (File (c @ ddl_file ss1))" by (simp add: out1)
  from Cons.IH [OF rest Cons.prems(2) this] obtain ss2
    where "concatE (mapE (\<lambda>s. PlanSync dec d (sp_Spec s) (fl_spec_type flags)) specs) = Inr ss2"
      "out' = written (fl_out flags) (c @ ddl_file ss1 @ ddl_file ss2) out" by (auto simp: out1)
  then show ?case using plan by (auto simp: concatE_def bindE_Inr_iff)
qed

lemma open_out_empty:
  assumes "open_out env flags out = (None, out1)" "fl_out flags \<noteq> []" "ge_StatFails (ce_Files env) (fl_out flags) = None"
  shows "out_nodes out1 (filepath_Clean (fl_out flags)) = Some (File [])"
    "filepath_Clean (fl_out flags) \<noteq> ''.''" "filepath_Clean (fl_out flags) \<noteq> ''/''"
proof -
  let ?p = "filepath_Clean (fl_out flags)"
  obtain out0 where clear: "clear_out env flags out = (None, out0)" and opened: "OpenAppend env (fl_out flags) out0 = (None, out1)"
    using assms(1,2) by (auto simp: open_out_def split: prod.splits option.splits)
  show p: "?p \<noteq> ''.''" "?p \<noteq> ''/''"
    using opened by (auto simp: OpenAppend_def node_at_def split: option.splits node.splits if_splits)
  have "out_nodes out0 ?p = None"
    using clear assms(2,3) p
    by (auto simp: clear_out_def Stat_def node_at_def RemoveAll_def Let_def split: option.splits if_splits)
  then show "out_nodes out1 ?p = Some (File [])"
    using opened p by (auto simp: OpenAppend_def node_at_def split: option.splits if_splits)
qed

lemma PlanCmd_split:
  assumes "PlanCmd env dec decode manager flags out = (None, out')"
  obtains fi out1 where "missing_params flags (fl_spec_file flags) ''spec-file'' = []"
    "Stat (ce_Files env) (fl_spec_file flags) out = Inr (Some fi)" "open_out env flags out = (None, out1)"
    "fi = Dir \<Longrightarrow> \<exists>specs. Walk (plan_visit env out1) (ce_Tree env (fl_spec_file flags) out1) [] = Inr specs \<and>
       plan_specs env dec (cli_database flags (fl_seed_data flags) manager) flags
         (SortSpecs decode (cli_database flags (fl_seed_data flags) manager) specs) out1 = (None, out')"
    "fi \<noteq> Dir \<Longrightarrow> \<exists>ss. PlanSyncFromFile dec (\<lambda>f. ReadFile env f out1) (cli_database flags (fl_seed_data flags) manager)
         (fl_spec_file flags) (fl_spec_type flags) = Inr ss \<and> write_statements env (fl_out flags) ss out1 = (None, out')"
  using assms
  by (auto simp: PlanCmd_def Let_def split: if_splits sum.splits option.splits prod.splits)

text \<open>
  C19. What plan writes is what apply executes. If the plan command succeeds with an output file, the file
  holds exactly the statements planned from the spec file, or from the specs below the spec directory in their
  sorted order, and nothing else was written; and the apply command on that file, with the same connection,
  executes these statements in this order, each with its semicolon, provided they survive the splitting.
\<close>

theorem planned_file_is_applied:
  assumes "PlanCmd env dec decode manager flags out = (None, out')" "fl_out flags \<noteq> []"
    and "ge_StatFails (ce_Files env) (fl_out flags) = None" "ce_ReadFails env (fl_out flags) = None"
  shows "\<exists>fi out1 statements.
     Stat (ce_Files env) (fl_spec_file flags) out = Inr (Some fi) \<and> open_out env flags out = (None, out1) \<and>
     planned env dec decode (cli_database flags (fl_seed_data flags) manager) flags fi out1 = Inr statements \<and>
     out' = out1\<lparr> out_nodes := (out_nodes out1)(filepath_Clean (fl_out flags) \<mapsto> File (ddl_file statements)) \<rparr> \<and>
     ((\<forall>s \<in> set statements. survives s) \<longrightarrow>
        ApplyCmd env manager (flags\<lparr> fl_ddl := fl_out flags \<rparr>) out' db =
          apfst (map_option (wrap_error ''failed to apply commands''))
            (ApplySync (cli_database flags False manager) (map (\<lambda>s. flattened s @ '';'') statements) db))"
proof -
  let ?d = "cli_database flags (fl_seed_data flags) manager" and ?o = "fl_out flags"
  obtain fi out1 where flags: "missing_params flags (fl_spec_file flags) ''spec-file'' = []"
    and st: "Stat (ce_Files env) (fl_spec_file flags) out = Inr (Some fi)" and op: "open_out env flags out = (None, out1)"
    and dir: "fi = Dir \<Longrightarrow> \<exists>specs. Walk (plan_visit env out1) (ce_Tree env (fl_spec_file flags) out1) [] = Inr specs \<and>
       plan_specs env dec ?d flags (SortSpecs decode ?d specs) out1 = (None, out')"
    and single: "fi \<noteq> Dir \<Longrightarrow> \<exists>ss. PlanSyncFromFile dec (\<lambda>f. ReadFile env f out1) ?d
         (fl_spec_file flags) (fl_spec_type flags) = Inr ss \<and> write_statements env ?o ss out1 = (None, out')"
    using PlanCmd_split [OF assms(1)] by metis
  note opened = open_out_empty [OF op assms(2,3)]
  obtain ss where ss: "planned env dec decode ?d flags fi out1 = Inr ss" "out' = written ?o (ddl_file ss) out1"
  proof (cases "fi = Dir")
    case True
    then show ?thesis using dir plan_specs_ok [OF _ assms(2) opened(1)] that
      by (fastforce simp: planned_def collected_def)
  next
    case False
    then show ?thesis using single write_statements_ok [OF _ assms(2) opened(1)] that by (fastforce simp: planned_def)
  qed
  have node: "node_at out' ?o = Some (File (ddl_file ss))" using opened(2,3) by (simp add: node_at_def Let_def ss(2))
  have missing: "missing_params (flags\<lparr> fl_ddl := ?o \<rparr>) ?o ''ddl'' = []"
    using flags assms(2) by (auto simp: missing_params_def split: if_splits)
  have "ApplyCmd env manager (flags\<lparr> fl_ddl := ?o \<rparr>) out' db =
      apfst (map_option (wrap_error ''failed to apply commands''))
        (ApplySync (cli_database flags False manager) (map (\<lambda>s. flattened s @ '';'') ss) db)"
    if "\<forall>s \<in> set ss. survives s"
    using assms node missing statements_of_ddl_file [OF that]
    by (simp add: ApplyCmd_def Stat_def ReadFile_def cli_database_def apfst_def map_prod_def split: prod.splits)
  then show ?thesis using st op ss by (auto simp: written_def)
qed

section \<open>The shell command ends\<close>

text \<open>What a turn of the loop decides, none when it goes on.\<close>

definition turn :: "(nat \<Rightarrow> int) \<Rightarrow> (nat \<Rightarrow> conditions result) \<Rightarrow> int \<Rightarrow> nat \<Rightarrow> go_error option option" where
  "turn now conditions abortAt i =
     (if abortAt < now i then Some (Some (ErrNew ''shell pod did not start''))
      else case conditions i of
             Inl e \<Rightarrow> if IsNotFound e then None else Some (Some (wrap_error ''failed to get pod'' e))
           | Inr cs \<Rightarrow> if containers_ready cs then Some None else None)"

lemma wait_for_pod_turn:
  "wait_for_pod now conditions abortAt i =
     (case turn now conditions abortAt i of None \<Rightarrow> wait_for_pod now conditions abortAt (Suc i) | r \<Rightarrow> r)"
  by (subst wait_for_pod.simps) (auto simp: turn_def split: sum.splits)

lemma wait_for_pod_ends:
  assumes "i \<le> j" "abortAt < now j"
  shows "\<exists>m. i \<le> m \<and> m \<le> j \<and> (\<forall>n. i \<le> n \<longrightarrow> n < m \<longrightarrow> turn now conditions abortAt n = None) \<and>
     turn now conditions abortAt m \<noteq> None \<and> wait_for_pod now conditions abortAt i = turn now conditions abortAt m"
  using assms(1)
proof (induction i rule: inc_induct)
  case base
  then show ?case using assms(2) by (intro exI [of _ j]) (subst wait_for_pod_turn, simp add: turn_def)
next
  case (step i)
  show ?case
  proof (cases "turn now conditions abortAt i")
    case None
    from step.IH obtain m where m: "Suc i \<le> m" "m \<le> j" "\<forall>n. Suc i \<le> n \<longrightarrow> n < m \<longrightarrow> turn now conditions abortAt n = None"
      "turn now conditions abortAt m \<noteq> None" "wait_for_pod now conditions abortAt (Suc i) = turn now conditions abortAt m"
      by blast
    have "\<forall>n. i \<le> n \<longrightarrow> n < m \<longrightarrow> turn now conditions abortAt n = None"
      using m(3) None by (metis Suc_leI le_neq_implies_less)
    then show ?thesis using m None by (intro exI [of _ m]) (simp add: wait_for_pod_turn [of now conditions abortAt i])
  next
    case (Some r)
    then show ?thesis using step.hyps by (intro exI [of _ i]) (simp add: wait_for_pod_turn [of now conditions abortAt i])
  qed
qed

lemma run_shell_None [simp]: "run_shell pc namespace cmd started = None \<longleftrightarrow> started = None"
  by (simp add: run_shell_def)

text \<open>
  C20. Starting a shell pod ends: once the clock has passed the minute that the pod is given, at the latest in
  turn j, the loop has stopped, and with it the command. It stops in the first turn that decides, and gives the name of the
  pod exactly if in this turn, within the minute, the containers of the pod were reported ready.
\<close>

theorem shell_command_ends:
  assumes "startedAt + 60000 < now j"
  shows "(\<exists>e k'. ShellCmd pc getDatabase env ue startedAt now conditions args namespace img k = Some (e, k')) \<and>
     (\<exists>r k'. StartShellPod pc startedAt now conditions namespace img k = Some (r, k')) \<and>
     (pc_Config pc = None \<longrightarrow> pc_Clientset pc = None \<longrightarrow> pc_Create pc (shellPod namespace img) k = (Inr name, k1) \<longrightarrow>
        (\<exists>m \<le> j. turn now conditions (startedAt + 60000) m \<noteq> None \<and> (\<forall>n < m. turn now conditions (startedAt + 60000) n = None) \<and>
           StartShellPod pc startedAt now conditions namespace img k =
             Some (if now m \<le> startedAt + 60000 \<and> (\<exists>cs. conditions m = Inr cs \<and> containers_ready cs) then Inr name
                   else Inl (the (the (turn now conditions (startedAt + 60000) m))), k1)))"
proof -
  obtain m where m: "m \<le> j" "\<forall>n < m. turn now conditions (startedAt + 60000) n = None"
    "turn now conditions (startedAt + 60000) m \<noteq> None"
    "wait_for_pod now conditions (startedAt + 60000) 0 = turn now conditions (startedAt + 60000) m"
    using wait_for_pod_ends [of 0 j "startedAt + 60000" now conditions] assms by auto
  have start: "StartShellPod pc startedAt now conditions ns i k \<noteq> None" for ns i
    using m(3,4) by (auto simp: StartShellPod_def split: option.splits sum.splits prod.splits)
  have shell: "ShellCmd pc getDatabase env ue startedAt now conditions args namespace img k \<noteq> None"
    using start by (simp add: ShellCmd_def Let_def del: not_None_eq split: list.splits sum.splits prod.splits)
  have "StartShellPod pc startedAt now conditions namespace img k =
      Some (if now m \<le> startedAt + 60000 \<and> (\<exists>cs. conditions m = Inr cs \<and> containers_ready cs) then Inr name
            else Inl (the (the (turn now conditions (startedAt + 60000) m))), k1)"
    if "pc_Config pc = None" "pc_Clientset pc = None" "pc_Create pc (shellPod namespace img) k = (Inr name, k1)"
    using that m(3,4) by (auto simp: StartShellPod_def turn_def split: sum.splits if_splits)
  then show ?thesis using m(1-3) start [of namespace img] shell by (auto simp: not_None_eq)
qed

section \<open>Examples\<close>

definition cli_manager :: "string list plugin_manager" where
  "cli_manager = (\<lambda>driver uri options. Inr
     \<lparr> cn_PlanTableSchema = (\<lambda>_ _ _. Inr []), cn_PlanTypeSchema = (\<lambda>_ _. Inr []), cn_PlanViewSchema = (\<lambda>_ _. Inr []),
       cn_PlanFunctionSchema = (\<lambda>_ _. Inr []), cn_PlanExtensionSchema = (\<lambda>n _. Inr [''create extension '' @ n, ''commit'']),
       cn_DeployStatements = (\<lambda>ss db. (None, db @ ss)), cn_GenerateFixtures = (\<lambda>_. Inr []) \<rparr>)"

definition cli_decoders :: Decoders where
  "cli_decoders =
     (let ext = (\<lambda>name. Inr \<lparr> esp_Database = ''app'', esp_RemoveOnDeletion = False,
            esp_Postgres = Some \<lparr> pex_Name = name, pex_Version = None, pex_Schema = None, pex_IsDeleted = False \<rparr> \<rparr>)
      in \<lparr> dec_gvk = (\<lambda>_. Inl (ErrNew ''yaml'')), dec_gvk_string = (\<lambda>_. []),
           dec_Table = (\<lambda>_. Inl (ErrNew ''yaml'')), dec_TableSpec = (\<lambda>_. Inl (ErrNew ''yaml'')),
           dec_View = (\<lambda>_. Inl (ErrNew ''yaml'')),
           dec_ViewSpec = (\<lambda>_. Inl (ErrNew ''yaml'')),
           dec_DataType = (\<lambda>_. Inl (ErrNew ''yaml'')), dec_DataTypeSpec = (\<lambda>_. Inl (ErrNew ''yaml'')),
           dec_Extension = ext,
           dec_ExtensionSpec = (\<lambda>_. Inl (ErrNew ''yaml'')), dec_Function = (\<lambda>_. Inl (ErrNew ''yaml'')), dec_FunctionSpec = (\<lambda>_. Inl (ErrNew ''yaml'')) \<rparr>)"

definition cli_flags :: Flags where
  "cli_flags =
     \<lparr> fl_driver = ''postgres'', fl_uri = ''u'', fl_host = [], fl_username = [], fl_password = [], fl_keyspace = [],
       fl_spec_file = ''specs'', fl_spec_type = ''extension'', fl_out = ''plan.sql'', fl_overwrite = True,
       fl_seed_data = False, fl_input_dir = [], fl_output_dir = [], fl_ddl = [] \<rparr>"

definition cli_output :: Output where
  "cli_output = \<lparr> out_nodes = [''specs'' \<mapsto> Dir, ''specs/a.yaml'' \<mapsto> File ''citext'', ''specs/.git'' \<mapsto> Dir,
     ''specs/.git/x'' \<mapsto> File ''bad'', ''plan.sql'' \<mapsto> File ''old''], out_stdout = [] \<rparr>"

definition cli_env :: CliEnv where
  "cli_env =
     \<lparr> ce_Files = \<lparr> ge_StatFails = (\<lambda>_. None), ge_MkdirFails = (\<lambda>_. None), ge_WriteFails = (\<lambda>_. None),
         ge_MarshalSpec = (\<lambda>_. Inr []), ge_MarshalResources = (\<lambda>_. Inr []) \<rparr>,
       ce_ReadFails = (\<lambda>_. None), ce_OpenFails = (\<lambda>_. None), ce_RemoveFails = (\<lambda>_. None),
       ce_Tree = (\<lambda>_ _. Branch ''specs'' None [Branch ''specs/.git'' None [Leaf ''specs/.git/x''], Leaf ''specs/a.yaml'']) \<rparr>"

text \<open>The old file is replaced, the hidden directory is passed over, and the statements are executed.\<close>

theorem planned_file_is_applied_witness:
  "ApplyCmd cli_env (Some cli_manager) (cli_flags\<lparr> fl_ddl := fl_out cli_flags \<rparr>)
     (snd (PlanCmd cli_env cli_decoders (\<lambda>_. Inl (ErrNew [])) (Some cli_manager) cli_flags cli_output)) [] =
   (None, [''create extension citext;'', ''commit;''])"
proof -
  let ?r = "PlanCmd cli_env cli_decoders (\<lambda>_. Inl (ErrNew [])) (Some cli_manager) cli_flags cli_output"
  let ?o = "snd (open_out cli_env cli_flags cli_output)" and ?d = "cli_database cli_flags (fl_seed_data cli_flags) (Some cli_manager)"
  let ?ss = "[''create extension citext'', ''commit'']"
  have plan: "?r = (None, snd ?r)" by (rule prod_eqI, code_simp, rule snd_conv [symmetric])
  have flags: "fl_out cli_flags \<noteq> []" "ge_StatFails (ce_Files cli_env) (fl_out cli_flags) = None"
    "ce_ReadFails cli_env (fl_out cli_flags) = None" by (simp_all add: cli_flags_def cli_env_def)
  have stat: "Stat (ce_Files cli_env) (fl_spec_file cli_flags) cli_output = Inr (Some Dir)" by code_simp
  have ss: "planned cli_env cli_decoders (\<lambda>_. Inl (ErrNew [])) ?d cli_flags Dir ?o = Inr ?ss" by code_simp
  have surv: "\<forall>s \<in> set ?ss. survives s" by code_simp
  have "apfst (map_option (wrap_error ''failed to apply commands''))
      (ApplySync (cli_database cli_flags False (Some cli_manager)) (map (\<lambda>s. flattened s @ '';'') ?ss) []) =
      (None, [''create extension citext;'', ''commit;''])" by code_simp
  then show ?thesis using planned_file_is_applied [OF plan flags, of "[]"] stat ss surv by auto
qed

definition cli_pods :: "string list PodClient" where
  "cli_pods =
     \<lparr> pc_Config = None, pc_Clientset = None, pc_Create = (\<lambda>p k. (Inr (pod_GenerateName p @ ''x''), pod_Image p # k)),
       pc_Exec = (\<lambda>_ _ _ k. (None, k)), pc_Delete = (\<lambda>_ _ k. (None, tl k)) \<rparr>"

definition cli_conditions :: "nat \<Rightarrow> conditions result" where
  "cli_conditions i =
     (if i = 0 then Inl (ApiNotFound ''pod'')
      else Inr [(''Ready'', ''False''), (''ContainersReady'', if i = 1 then ''False'' else ''True'')])"

text \<open>The pod is missing in the first turn, not ready in the second and ready in the third.\<close>

theorem shell_command_ends_witness:
  "StartShellPod cli_pods 0 (\<lambda>i. 20000 * int i) cli_conditions ''ns'' ''postgres:11'' [] =
     Some (Inr ''schemahero-shell-x'', [''postgres:11''])"
proof -
  let ?now = "\<lambda>i::nat. 20000 * int i" and ?t = "turn (\<lambda>i. 20000 * int i) cli_conditions (0 + 60000)"
  have t: "?t 0 = None" "?t 1 = None" "?t 2 = Some None"
    by (simp_all add: turn_def cli_conditions_def containers_ready_def)
  have late: "0 + 60000 < ?now 4" by simp
  have create: "pc_Create cli_pods (shellPod ''ns'' ''postgres:11'') [] = (Inr ''schemahero-shell-x'', [''postgres:11''])"
    by (simp add: cli_pods_def shellPod_def)
  have pc: "pc_Config cli_pods = None" "pc_Clientset cli_pods = None" by (simp_all add: cli_pods_def)
  obtain m where m: "?t m \<noteq> None" "\<forall>n < m. ?t n = None"
    and r: "StartShellPod cli_pods 0 ?now cli_conditions ''ns'' ''postgres:11'' [] =
      Some (if ?now m \<le> 0 + 60000 \<and> (\<exists>cs. cli_conditions m = Inr cs \<and> containers_ready cs) then Inr ''schemahero-shell-x''
            else Inl (the (the (?t m))), [''postgres:11''])"
    using shell_command_ends [where now = ?now and j = 4 and pc = cli_pods and conditions = cli_conditions and
        namespace = "''ns''" and img = "''postgres:11''" and k = "[]", OF late] create pc by blast
  have "m \<le> 2" using m(2) t(3) by (metis not_le_imp_less option.distinct(1))
  then have "m = 2" using m(1) t(1,2) by (metis One_nat_def Suc_1 le_SucE le_zero_eq)
  then show ?thesis using r by (simp add: cli_conditions_def containers_ready_def)
qed

section \<open>Listings\<close>

text \<open>The migrations listed are those of the namespaces that pass the filters, the most recent first.\<close>

lemma mapE_filter:
  "mapE (\<lambda>n. bindE (f n) (\<lambda>xs. Inr (filter P xs))) ns = bindE (mapE f ns) (\<lambda>xss. Inr (map (filter P) xss))"
  by (induction ns) (auto simp: bindE_assoc split: sum.splits elim: bindE.elims)

lemma listed_migrations:
  assumes "GetMigrationsCmd lc allNamespaces namespace db status k = Inr ms"
  shows "\<exists>names pages. namespaceNames lc allNamespaces namespace k = Inr names \<and>
     mapE (\<lambda>n. lc_Migrations lc n k) names = Inr pages \<and>
     ms = sort_key (\<lambda>m. - getMostRecentTimestamp m) (filter (listed_migration db status) (concat pages))"
proof -
  have sort: "sort_Sort (\<lambda>a b. getMostRecentTimestamp a > getMostRecentTimestamp b) xs =
      sort_key (\<lambda>m. - getMostRecentTimestamp m) xs" for xs
    by (rule sort_Sort_sort_key) simp
  show ?thesis using assms
    by (auto simp: GetMigrationsCmd_def concatE_def mapE_filter bindE_Inr_iff sort filter_concat split: if_splits)
qed

section \<open>Behaviours that are not intended\<close>

text \<open>The apply command with a directory reports success and executes nothing.\<close>

lemma apply_directory_executes_nothing:
  assumes "Stat (ce_Files env) (fl_ddl flags) out = Inr (Some Dir)"
  shows "snd (ApplyCmd env manager flags out db) = db"
  using assms by (simp add: ApplyCmd_def Let_def split: sum.splits)

text \<open>A spec directory whose own name starts with a dot, such as the parent directory, is passed over as a whole.\<close>

lemma parent_directory_hidden:
  "IsHidden ''..''" "IsHidden path \<Longrightarrow> Walk (plan_visit env out) (Branch path e entries) [] = Inr []"
  by (code_simp, simp add: Walk_def plan_visit_def)

text \<open>A directory that can not be read is passed over without an error.\<close>

lemma unreadable_directory_skipped: "Walk (plan_visit env out) (Branch path (Some e) entries) [] = Inr []"
  by (simp add: Walk_def plan_visit_def)

text \<open>An executed migration is listed as approved and as executed.\<close>

lemma migration_status_overlaps:
  assumes "mst_ApprovedAt (mg_Status m) > 0" "mst_ExecutedAt (mg_Status m) > 0" "mst_RejectedAt (mg_Status m) = 0"
  shows "matchesMigrationStatus m ''approved'' \<and> matchesMigrationStatus m ''executed''"
  using assms by (simp add: matchesMigrationStatus_def)

text \<open>
  The ages that are shown: at the bounds of the units, and for a time stamp that the clock has not reached, as the
  clocks of two machines differ.
\<close>

lemma age_of_future_time:
  assumes "t \<noteq> 0" "since t = - (n * 1000000000)" "n > 0"
  shows "timestampToAge since t = ''-'' @ Itoa n @ ''s''"
  using assms by (simp add: timestampToAge_def Let_def sgn_mult Itoa_def)

lemma age_at_bounds:
  assumes "t \<noteq> 0"
  shows "since t = 59999999999 \<Longrightarrow> timestampToAge since t = ''59s''"
    and "since t = 60000000000 \<Longrightarrow> timestampToAge since t = ''1m0s''"
    and "since t = 599999999999 \<Longrightarrow> timestampToAge since t = ''9m59s''"
    and "since t = 600000000000 \<Longrightarrow> timestampToAge since t = ''10m''"
    and "since t = 86400000000000 \<Longrightarrow> timestampToAge since t = ''1d0h''"
  using assms by (simp add: timestampToAge_def Let_def, code_simp)+

text \<open>A batch migration counts as pending for its first table only.\<close>

lemma batch_table_not_pending:
  assumes "ms_TableName (mg_Spec m) \<noteq> to_Name t"
  shows "\<not> pending_migration t m"
  using assms by (simp add: pending_migration_def)

text \<open>
  Recalculating a migration only annotates its table; the hash of the spec is the same, so that the
  reconciliation that follows plans nothing.
\<close>

lemma recalculated_table_not_planned:
  assumes "GetSHA marshal t = Inr (to_LastPlannedTableSpecSHA t)"
  shows "reconcileTable kc env manager marshal clock stopped t st = ((False, None), st)"
  using assms by (cases st) (simp add: reconcileTable_def reconcile_decision_def)

text \<open>
  Approving: the namespaces before the first one with the migration are passed over, the migration found there
  decides, and the namespaces after it are not asked.
\<close>

lemma approve_passes_over:
  assumes "\<forall>n\<in>set before. \<exists>e. kc_GetMigration kc n name k = Inl e \<and> IsNotFound e"
  shows "approve_migration kc now name (before @ rest) k = approve_migration kc now name rest k"
  using assms by (induction before) auto

lemma approve_command_first_namespace:
  assumes "new_clients lc = Inr ()" "lc_Namespaces lc k = Inr (before @ n # after)"
    and "\<forall>n\<in>set before. \<exists>e. kc_GetMigration kc n name k = Inl e \<and> IsNotFound e"
    and "kc_GetMigration kc n name k = Inr m" "mst_Phase (mg_Status m) = Planned"
  shows "ApproveMigrationCmd lc kc now True ns name k =
         kc_UpdateMigration kc (m\<lparr> mg_Status := (mg_Status m)\<lparr> mst_ApprovedAt := now, mst_Phase := Approved \<rparr> \<rparr>) k"
  using assms by (simp add: ApproveMigrationCmd_def namespaceNames_def approve_passes_over)

text \<open>Rejecting a migration that is no longer planned reports that there is no such migration.\<close>

lemma reject_reports_not_found:
  assumes "new_clients lc = Inr ()" "kc_GetMigration kc ns name k = Inr m" "mst_Phase (mg_Status m) \<noteq> Planned" "ns \<noteq> []"
  shows "RejectMigrationCmd lc kc now False ns name k = (Some (ErrNew (''migration '' @ Quote name @ '' not found'')), k)"
  using assms by (simp add: RejectMigrationCmd_def namespaceNames_def)

text \<open>The generate command with a parameter that is empty reports success, with no file written.\<close>

lemma generate_without_driver_succeeds:
  "fst (GenerateCmd env menv manager help uri [] dbName dir schemas out) = None \<and>
   out_nodes (snd (GenerateCmd env menv manager help uri [] dbName dir schemas out)) = out_nodes out"
  by (simp add: GenerateCmd_def Println_def)

text \<open>A pod that does not start in time is left in the cluster.\<close>

lemma late_pod_left_behind:
  assumes "startedAt + 60000 < now 0" "pc_Config pc = None" "pc_Clientset pc = None"
    and "shell_request pc getDatabase env ue n (if ns = [] then ''default'' else ns) img k = Inr (i, cmd)"
    and "pc_Create pc (shellPod (if ns = [] then ''default'' else ns) i) k = (Inr name, k1)"
  shows "ShellCmd pc getDatabase env ue startedAt now conditions [n] ns img k = Some (Some (ErrNew ''shell pod did not start''), k1)"
  using assms by (simp add: ShellCmd_def Let_def StartShellPod_def run_shell_def wait_for_pod.simps)

text \<open>The rqlite shell gets the user name and the password as three arguments instead of one.\<close>

lemma rqlite_credentials_split:
  assumes "ue_Parse ue u = Inr \<lparr> url_User = Some (''a'', Some ''b''), url_Host = hp \<rparr>" "ue_SplitHostPort ue hp = Inr (h, p)"
  shows "rqlite_shell ue u = Inr [''rqlite'', ''-u'', ''a'', '':'', ''b'', ''-H'', h, ''-p'', p]"
  using assms
  by (simp add: rqlite_shell_def cli_UsernameFromURL_def cli_PasswordFromURL_def cli_HostnameFromURL_def cli_PortFromURL_def url_of_def)

end
