(* ===== verification/Database_Controller.thy ===== *)
theory Database_Controller
  imports Object_Controllers
begin

text \<open>
  src/pkg/controller/database: the controller that realizes a Database as a StatefulSet with a service
  account and a role of its own (database_controller.go, rbac.go, setup.go), and the one that keeps the
  charset and collation of a MySQL database (database_schema_controller.go); and the two helpers of the
  table controller that the theory \<open>Controllers\<close> leaves out (table_controller.go, reconcile_pod.go).

  The API calls are the record \<open>ClusterClient\<close>, on a state \<open>'k\<close> of the cluster; that an object carries the
  reference to its owner is the field that SetControllerReference fills. A MySQL server is the record
  \<open>CharsetServer\<close> of the queries the code makes, on a state \<open>'d\<close>. Log messages are left out.
\<close>

section \<open>The Database and the objects made for it\<close>

record Toleration =
  tol_Effect :: string
  tol_Key :: string
  tol_Operator :: string
  tol_Value :: string

record SchemaHeroSpec =
  sh_Image :: string
  sh_NodeSelector :: "string \<rightharpoonup> string"
  sh_Tolerations :: "Toleration list"

record DatabaseTemplate =
  tp_Labels :: "string \<rightharpoonup> string"
  tp_Annotations :: "string \<rightharpoonup> string"

record DatabaseObject = DatabaseResource +
  do_SchemaHero :: "SchemaHeroSpec option"
  do_Template :: "DatabaseTemplate option"

record PolicyRule =
  rule_APIGroups :: "string list"
  rule_Resources :: "string list"
  rule_Verbs :: "string list"

record Role =
  rl_Name :: string
  rl_Namespace :: string
  rl_Rules :: "PolicyRule list"
  rl_Owner :: "string option"

record RoleBinding =
  rb_Name :: string
  rb_Namespace :: string
  rb_SubjectKind :: string
  rb_SubjectName :: string
  rb_SubjectNamespace :: string
  rb_RoleKind :: string
  rb_RoleName :: string
  rb_Owner :: "string option"

record ServiceAccount =
  sa_Name :: string
  sa_Namespace :: string
  sa_Owner :: "string option"

text \<open>The security contexts of the pod and of the container, which are the same for every database.\<close>

record PodSecurity =
  psc_RunAsNonRoot :: bool
  psc_RunAsUser :: int
  psc_RunAsGroup :: int
  psc_FSGroup :: int
  psc_SeccompProfile :: string

record ContainerSecurity =
  csc_AllowPrivilegeEscalation :: bool
  csc_RunAsNonRoot :: bool
  csc_RunAsUser :: int
  csc_DropCapabilities :: "string list"
  csc_SeccompProfile :: string

record Container =
  ct_Name :: string
  ct_Image :: string
  ct_ImagePullPolicy :: string
  ct_Command :: "string list"
  ct_Args :: "string list"
  ct_Security :: ContainerSecurity
  ct_Limits :: "(string \<times> string) list"
  ct_Requests :: "(string \<times> string) list"

record StatefulSet =
  ss_Name :: string
  ss_Namespace :: string
  ss_Labels :: "string \<rightharpoonup> string"
  ss_Annotations :: "string \<rightharpoonup> string"
  ss_Owner :: "string option"
  ss_MatchLabels :: "string \<rightharpoonup> string"
  ss_PodLabels :: "string \<rightharpoonup> string"
  ss_PodAnnotations :: "string \<rightharpoonup> string"
  ss_NodeAffinity :: "string \<times> string \<times> string list"
  ss_NodeSelector :: "string \<rightharpoonup> string"
  ss_Tolerations :: "Toleration list"
  ss_TerminationGracePeriodSeconds :: int
  ss_ServiceAccountName :: string
  ss_Security :: PodSecurity
  ss_Container :: Container

record 'k ClusterClient =
  cl_GetDatabase :: "string \<Rightarrow> string \<Rightarrow> 'k \<Rightarrow> DatabaseObject result"
  cl_GetRole :: "string \<Rightarrow> string \<Rightarrow> 'k \<Rightarrow> Role result"
  cl_GetRoleBinding :: "string \<Rightarrow> string \<Rightarrow> 'k \<Rightarrow> RoleBinding result"
  cl_GetServiceAccount :: "string \<Rightarrow> string \<Rightarrow> 'k \<Rightarrow> ServiceAccount result"
  cl_GetStatefulSet :: "string \<Rightarrow> string \<Rightarrow> 'k \<Rightarrow> StatefulSet result"
  cl_SetOwner :: "string \<Rightarrow> go_error option"
  cl_CreateRole :: "Role \<Rightarrow> 'k \<Rightarrow> go_error option \<times> 'k"
  cl_CreateRoleBinding :: "RoleBinding \<Rightarrow> 'k \<Rightarrow> go_error option \<times> 'k"
  cl_CreateServiceAccount :: "ServiceAccount \<Rightarrow> 'k \<Rightarrow> go_error option \<times> 'k"
  cl_CreateStatefulSet :: "StatefulSet \<Rightarrow> 'k \<Rightarrow> go_error option \<times> 'k"
  cl_UpdateStatefulSet :: "StatefulSet \<Rightarrow> 'k \<Rightarrow> go_error option \<times> 'k"

record ReconcileDatabase =
  rd_managerImage :: string
  rd_managerTag :: string
  rd_pluginRegistry :: string
  rd_pluginTag :: string
  rd_debugLogs :: bool

section \<open>Access rights (rbac.go)\<close>

text \<open>
  The three objects are created alike: an object that is there is left as it is, and a missing one is
  created with its owner.
\<close>

definition ensure_owned ::
  "'o result \<Rightarrow> go_error option \<Rightarrow> ('k \<Rightarrow> go_error option \<times> 'k) \<Rightarrow> string \<Rightarrow> string \<Rightarrow> string \<Rightarrow> 'k \<Rightarrow> go_error option \<times> 'k" where
  "ensure_owned existing owner create ownerMsg createMsg getMsg k =
     (case existing of
        Inr _ \<Rightarrow> (None, k)
      | Inl err \<Rightarrow>
          if \<not> IsNotFound err then (Some (wrap_error getMsg err), k)
          else case owner of
                 Some e \<Rightarrow> (Some (wrap_error ownerMsg e), k)
               | None \<Rightarrow> (case create k of (e, k') \<Rightarrow> (map_option (wrap_error createMsg) e, k')))"

definition rbac_name :: "('a) DatabaseResource_scheme \<Rightarrow> string" where
  "rbac_name databaseInstance = ''schemahero-'' @ dr_Name databaseInstance"

definition all_verbs :: "string list" where
  "all_verbs = [''get'', ''list'', ''watch'', ''create'', ''update'', ''patch'', ''delete'']"

definition status_verbs :: "string list" where
  "status_verbs = [''get'', ''update'', ''patch'']"

definition schema_rules :: "string \<Rightarrow> string \<Rightarrow> PolicyRule list" where
  "schema_rules apiGroup resource =
     [\<lparr> rule_APIGroups = [apiGroup], rule_Resources = [resource], rule_Verbs = all_verbs \<rparr>,
      \<lparr> rule_APIGroups = [apiGroup], rule_Resources = [resource @ ''/status''], rule_Verbs = status_verbs \<rparr>]"

definition role_rules :: "PolicyRule list" where
  "role_rules =
     [\<lparr> rule_APIGroups = [[]], rule_Resources = [''secrets'', ''serviceaccounts''], rule_Verbs = [''get''] \<rparr>,
      \<lparr> rule_APIGroups = [''apps''], rule_Resources = [''statefulsets''], rule_Verbs = [''get'', ''list'', ''watch''] \<rparr>] @
     schema_rules ''databases.schemahero.io'' ''databases'' @
     concat (map (schema_rules ''schemas.schemahero.io'')
       [''migrations'', ''tables'', ''views'', ''functions'', ''databaseextensions'', ''datatypes''])"

definition reconcileRBACRole :: "'k ClusterClient \<Rightarrow> DatabaseObject \<Rightarrow> 'k \<Rightarrow> go_error option \<times> 'k" where
  "reconcileRBACRole cl databaseInstance k =
     ensure_owned (cl_GetRole cl (dr_Namespace databaseInstance) (rbac_name databaseInstance) k) (cl_SetOwner cl ''Role'')
       (cl_CreateRole cl
          \<lparr> rl_Name = rbac_name databaseInstance, rl_Namespace = dr_Namespace databaseInstance, rl_Rules = role_rules,
            rl_Owner = Some (dr_Name databaseInstance) \<rparr>)
       ''failed to set owner ref on rolebinding'' ''failed to create role'' ''failed to get existing role'' k"

definition reconcileRBACRoleBinding :: "'k ClusterClient \<Rightarrow> DatabaseObject \<Rightarrow> 'k \<Rightarrow> go_error option \<times> 'k" where
  "reconcileRBACRoleBinding cl databaseInstance k =
     ensure_owned (cl_GetRoleBinding cl (dr_Namespace databaseInstance) (rbac_name databaseInstance) k)
       (cl_SetOwner cl ''RoleBinding'')
       (cl_CreateRoleBinding cl
          \<lparr> rb_Name = rbac_name databaseInstance, rb_Namespace = dr_Namespace databaseInstance,
            rb_SubjectKind = ''ServiceAccount'', rb_SubjectName = rbac_name databaseInstance,
            rb_SubjectNamespace = dr_Namespace databaseInstance, rb_RoleKind = ''Role'',
            rb_RoleName = rbac_name databaseInstance, rb_Owner = Some (dr_Name databaseInstance) \<rparr>)
       ''failed to set owner ref on rolebinding'' ''failed to create rolebinding'' ''failed to check rolebinding'' k"

definition reconcileServiceAccount :: "'k ClusterClient \<Rightarrow> DatabaseObject \<Rightarrow> 'k \<Rightarrow> go_error option \<times> 'k" where
  "reconcileServiceAccount cl databaseInstance k =
     ensure_owned (cl_GetServiceAccount cl (dr_Namespace databaseInstance) (rbac_name databaseInstance) k)
       (cl_SetOwner cl ''ServiceAccount'')
       (cl_CreateServiceAccount cl
          \<lparr> sa_Name = rbac_name databaseInstance, sa_Namespace = dr_Namespace databaseInstance,
            sa_Owner = Some (dr_Name databaseInstance) \<rparr>)
       ''failed to set owner ref on service account'' ''failed to create service account''
       ''failed to get existing service account'' k"

definition reconcileRBAC :: "'k ClusterClient \<Rightarrow> DatabaseObject \<Rightarrow> 'k \<Rightarrow> go_error option \<times> 'k" where
  "reconcileRBAC cl databaseInstance k =
     (case reconcileRBACRole cl databaseInstance k of
        (Some e, k) \<Rightarrow> (Some (wrap_error ''failed to reconcile role'' e), k)
      | (None, k) \<Rightarrow>
          (case reconcileRBACRoleBinding cl databaseInstance k of
             (Some e, k) \<Rightarrow> (Some (wrap_error ''failed to reconcile rolebinding'' e), k)
           | (None, k) \<Rightarrow>
               (case reconcileServiceAccount cl databaseInstance k of
                  (e, k) \<Rightarrow> (map_option (wrap_error ''failed to reconcile serviceaccount'') e, k))))"

section \<open>The StatefulSet (database_controller.go)\<close>

definition buildDatabaseControllerArgs :: "DatabaseObject \<Rightarrow> string \<Rightarrow> string \<Rightarrow> string list" where
  "buildDatabaseControllerArgs databaseInstance pluginRegistry pluginTag =
     [''run'', ''--namespace'', dr_Namespace databaseInstance, ''--database-name'', dr_Name databaseInstance] @
     (if pluginRegistry \<noteq> [] then [''--plugin-registry'', pluginRegistry] else []) @
     (if pluginTag \<noteq> [] then [''--plugin-tag'', pluginTag] else [])"

definition own_labels :: "DatabaseObject \<Rightarrow> string \<rightharpoonup> string" where
  "own_labels databaseInstance = [''control-plane'' \<mapsto> ''schemahero'', ''database'' \<mapsto> dr_Name databaseInstance]"

definition createLabels :: "DatabaseObject \<Rightarrow> string \<rightharpoonup> string" where
  "createLabels db =
     own_labels db ++ (case do_Template db of None \<Rightarrow> Map.empty | Some t \<Rightarrow> tp_Labels t)"

definition createAnnotations :: "DatabaseObject \<Rightarrow> string \<rightharpoonup> string" where
  "createAnnotations db = (case do_Template db of None \<Rightarrow> Map.empty | Some t \<Rightarrow> tp_Annotations t)"

definition createNodeSelectors :: "DatabaseObject \<Rightarrow> string \<rightharpoonup> string" where
  "createNodeSelectors db = (case do_SchemaHero db of None \<Rightarrow> Map.empty | Some s \<Rightarrow> sh_NodeSelector s)"

text \<open>The slice that the tolerations are stored into is empty, so that the first one is out of range.\<close>

definition createTolerations :: "DatabaseObject \<Rightarrow> Toleration list result" where
  "createTolerations db =
     (case do_SchemaHero db of
        None \<Rightarrow> Inr []
      | Some s \<Rightarrow> if sh_Tolerations s = [] then Inr []
                 else Inl (GoPanic ''index out of range [0] with length 0''))"

definition manager_image :: "ReconcileDatabase \<Rightarrow> DatabaseObject \<Rightarrow> string" where
  "manager_image r databaseInstance =
     (case do_SchemaHero databaseInstance of
        Some s \<Rightarrow> if sh_Image s \<noteq> [] then sh_Image s else rd_managerImage r @ '':'' @ rd_managerTag r
      | None \<Rightarrow> rd_managerImage r @ '':'' @ rd_managerTag r)"

definition desired_container :: "ReconcileDatabase \<Rightarrow> DatabaseObject \<Rightarrow> Container" where
  "desired_container r databaseInstance =
     \<lparr> ct_Name = ''manager'', ct_Image = manager_image r databaseInstance, ct_ImagePullPolicy = ''IfNotPresent'',
       ct_Command = [''/manager''],
       ct_Args = buildDatabaseControllerArgs databaseInstance (rd_pluginRegistry r) (rd_pluginTag r) @
                 (if rd_debugLogs r then [''--log-level'', ''debug''] else []),
       ct_Security =
         \<lparr> csc_AllowPrivilegeEscalation = False, csc_RunAsNonRoot = True, csc_RunAsUser = 1001,
           csc_DropCapabilities = [''ALL''], csc_SeccompProfile = ''RuntimeDefault'' \<rparr>,
       ct_Limits = [(''cpu'', ''1''), (''memory'', ''150Mi'')], ct_Requests = [(''cpu'', ''10m''), (''memory'', ''50Mi'')] \<rparr>"

definition desiredStatefulSet ::
  "ReconcileDatabase \<Rightarrow> DatabaseObject \<Rightarrow> (string \<times> string) list \<Rightarrow> Toleration list \<Rightarrow> StatefulSet" where
  "desiredStatefulSet r databaseInstance vaultAnnotations tolerations =
     \<lparr> ss_Name = dr_Name databaseInstance @ ''-controller'', ss_Namespace = dr_Namespace databaseInstance,
       ss_Labels = createLabels databaseInstance, ss_Annotations = createAnnotations databaseInstance, ss_Owner = None,
       ss_MatchLabels = own_labels databaseInstance, ss_PodLabels = createLabels databaseInstance,
       ss_PodAnnotations = map_of vaultAnnotations, ss_NodeAffinity = (''kubernetes.io/os'', ''In'', [''linux'']),
       ss_NodeSelector = createNodeSelectors databaseInstance, ss_Tolerations = tolerations,
       ss_TerminationGracePeriodSeconds = 10, ss_ServiceAccountName = rbac_name databaseInstance,
       ss_Security =
         \<lparr> psc_RunAsNonRoot = True, psc_RunAsUser = 1001, psc_RunAsGroup = 1001, psc_FSGroup = 1001,
           psc_SeccompProfile = ''RuntimeDefault'' \<rparr>,
       ss_Container = desired_container r databaseInstance \<rparr>"

text \<open>An existing StatefulSet is replaced by the desired one, which has no owner; a new one has one.\<close>

definition store_statefulset ::
  "'k ClusterClient \<Rightarrow> DatabaseObject \<Rightarrow> StatefulSet \<Rightarrow> 'k \<Rightarrow> go_error option \<times> 'k" where
  "store_statefulset cl databaseInstance desired k =
     (case cl_GetStatefulSet cl (ss_Namespace desired) (ss_Name desired) k of
        Inr _ \<Rightarrow> cl_UpdateStatefulSet cl desired k
      | Inl err \<Rightarrow>
          if IsNotFound err
          then (case cl_SetOwner cl ''StatefulSet'' of
                  Some e \<Rightarrow> (Some e, k)
                | None \<Rightarrow> cl_CreateStatefulSet cl (desired\<lparr> ss_Owner := Some (dr_Name databaseInstance) \<rparr>) k)
          else (Some err, k))"

definition database_getInstance :: "'k ClusterClient \<Rightarrow> string \<times> string \<Rightarrow> 'k \<Rightarrow> DatabaseObject result" where
  "database_getInstance cl request k =
     wrapE ''failed to get databasesv1alpha4 instance'' (cl_GetDatabase cl (fst request) (snd request) k)"

definition ReconcileDatabase_Reconcile ::
  "'k ClusterClient \<Rightarrow> ReconcileDatabase \<Rightarrow> string \<times> string \<Rightarrow> 'k \<Rightarrow> go_error option \<times> 'k" where
  "ReconcileDatabase_Reconcile cl r request k =
     (case database_getInstance cl request k of
        Inl e \<Rightarrow> (Some e, k)
      | Inr databaseInstance \<Rightarrow>
          (case GetVaultAnnotations (DatabaseResource.truncate databaseInstance) of
             Inl e \<Rightarrow> (Some e, k)
           | Inr vaultAnnotations \<Rightarrow>
               (case reconcileRBAC cl databaseInstance k of
                  (Some e, k) \<Rightarrow> (Some e, k)
                | (None, k) \<Rightarrow>
                    (case createTolerations databaseInstance of
                       Inl e \<Rightarrow> (Some e, k)
                     | Inr tolerations \<Rightarrow>
                         store_statefulset cl databaseInstance
                           (desiredStatefulSet r databaseInstance vaultAnnotations tolerations) k))))"

section \<open>The charset of a MySQL database (database_schema_controller.go)\<close>

text \<open>
  The driver and the server: the database name of a DSN, opening a connection, and the queries for the
  charset and collation of a database, of the server, of a charset and of a collation.
\<close>

record 'd CharsetServer =
  cs_ParseDSN :: "string \<Rightarrow> string result"
  cs_Open :: "string \<Rightarrow> go_error option"
  cs_Schema :: "string \<Rightarrow> 'd \<Rightarrow> (string \<times> string) result"
  cs_ServerCollation :: "'d \<Rightarrow> string result"
  cs_ServerCharset :: "'d \<Rightarrow> string result"
  cs_DefaultCollation :: "string \<Rightarrow> 'd \<Rightarrow> string result"
  cs_CollationCharset :: "string \<Rightarrow> 'd \<Rightarrow> string result"
  cs_Exec :: "string \<Rightarrow> 'd \<Rightarrow> go_error option \<times> 'd"

definition alter_database :: "string \<Rightarrow> string \<Rightarrow> string \<Rightarrow> string" where
  "alter_database dbName charset collation =
     ''alter database `'' @ dbName @ ''` character set '' @ [squote] @ charset @ [squote] @ '' collate '' @
     [squote] @ collation @ [squote]"

definition exec_charset :: "'d CharsetServer \<Rightarrow> string \<Rightarrow> 'd \<Rightarrow> go_error option \<times> 'd" where
  "exec_charset srv query d =
     (case cs_Exec srv query d of
        (e, d') \<Rightarrow> (map_option (wrap_error ''failed to update database character set and collation'') e, d'))"

text \<open>The statement that sets the desired charset and collation, and none if neither is given.\<close>

definition desired_charset_query :: "'d CharsetServer \<Rightarrow> string \<Rightarrow> string \<Rightarrow> string \<Rightarrow> 'd \<Rightarrow> string option result" where
  "desired_charset_query srv dbName charset collation d =
     (if charset \<noteq> [] \<and> collation \<noteq> [] then Inr (Some (alter_database dbName charset collation))
      else if charset \<noteq> [] \<and> collation = []
      then bindE (wrapE ''failed to select default collation for character set'' (cs_DefaultCollation srv charset d)) (\<lambda>c.
             Inr (Some (alter_database dbName charset c)))
      else if charset = [] \<and> collation \<noteq> []
      then bindE (wrapE ''failed to select charset for collaction'' (cs_CollationCharset srv collation d)) (\<lambda>c.
             Inr (Some (alter_database dbName c collation)))
      else Inr None)"

definition reconcileMysqlDatabaseSchema ::
  "'d CharsetServer \<Rightarrow> KubeEnv \<Rightarrow> DatabaseResource \<Rightarrow> string \<Rightarrow> string \<Rightarrow> 'd \<Rightarrow> go_error option \<times> 'd" where
  "reconcileMysqlDatabaseSchema srv env databaseInstance charset collation d =
     (case bindE (wrapE ''failed to get database connection'' (Database_GetConnection env databaseInstance)) (\<lambda>conn.
           bindE (wrapE ''failed to parse mysql connection uri'' (cs_ParseDSN srv (snd conn))) (\<lambda>dbName.
           case cs_Open srv (snd conn) of
             Some e \<Rightarrow> Inl (wrap_error ''failed to open connection to mysql'' e)
           | None \<Rightarrow>
               bindE (wrapE ''failed to scan'' (cs_Schema srv dbName d)) (\<lambda>(defaultCharset, defaultCollation).
               if charset = defaultCharset \<and> collation = defaultCollation then Inr None
               else
                 bindE (wrapE ''failed to scan server default collation'' (cs_ServerCollation srv d)) (\<lambda>_.
                 bindE (wrapE ''failed to scan server default charset'' (cs_ServerCharset srv d)) (\<lambda>_.
                 desired_charset_query srv dbName charset collation d))))) of
        Inl e \<Rightarrow> (Some e, d)
      | Inr None \<Rightarrow> (None, d)
      | Inr (Some query) \<Rightarrow> exec_charset srv query d)"

definition ReconcileDatabaseSchema_Reconcile ::
  "'k ClusterClient \<Rightarrow> 'd CharsetServer \<Rightarrow> KubeEnv \<Rightarrow> string \<times> string \<Rightarrow> 'k \<Rightarrow> 'd \<Rightarrow> go_error option \<times> 'd" where
  "ReconcileDatabaseSchema_Reconcile cl srv env request k d =
     (case database_getInstance cl request k of
        Inl e \<Rightarrow> (Some e, d)
      | Inr databaseInstance \<Rightarrow>
          (let c = dr_Connection databaseInstance
           in if dc_RQLite c \<noteq> None \<or> dc_Postgres c \<noteq> None \<or> dc_CockroachDB c \<noteq> None then (None, d)
              else case dc_Mysql c of
                     Some m \<Rightarrow> reconcileMysqlDatabaseSchema srv env (DatabaseResource.truncate databaseInstance)
                                (mcn_DefaultCharset m) (mcn_Collation m) d
                   | None \<Rightarrow> (None, d)))"

section \<open>Helpers of the table controller\<close>

definition isTableManagedByThisController :: "string list \<Rightarrow> TableResource \<Rightarrow> bool" where
  "isTableManagedByThisController databaseNames t =
     list_ex (\<lambda>managed. managed = tsp_Database (to_Spec t) \<or> managed = ''*'') databaseNames"

text \<open>The entry point: a table of another controller is left alone.\<close>

definition ReconcileTable_Reconcile ::
  "'k KubeClient \<Rightarrow> KubeEnv \<Rightarrow> 'db plugin_manager option \<Rightarrow> (TableSpec \<Rightarrow> string result) \<Rightarrow> string list \<Rightarrow> int \<times> int \<Rightarrow> bool \<Rightarrow>
   string \<times> string \<Rightarrow> 'k \<times> BatchManager \<Rightarrow> outcome \<times> ('k \<times> BatchManager)" where
  "ReconcileTable_Reconcile kc env manager marshal databaseNames clock stopped request st =
     (case kc_GetTable kc (fst request) (snd request) (fst st) of
        Inl e \<Rightarrow> ((False, Some e), st)
      | Inr t \<Rightarrow>
          if \<not> isTableManagedByThisController databaseNames t then ((False, None), st)
          else reconcileTable kc env manager marshal clock stopped t st)"

definition readConnectionURI ::
  "(string \<Rightarrow> string \<Rightarrow> 'k \<Rightarrow> (string \<rightharpoonup> string) result) \<Rightarrow> string \<Rightarrow> ValueOrValueFrom \<Rightarrow> 'k \<Rightarrow> string result" where
  "readConnectionURI getSecret namespace v k =
     (if vv_Value v \<noteq> [] then Inr (vv_Value v)
      else case vv_ValueFrom v of
             None \<Rightarrow> Inl (ErrNew ''value and valueFrom cannot both be nil/empty'')
           | Some from \<Rightarrow>
               (case vf_SecretKeyRef from of
                  Some ref \<Rightarrow>
                    (case getSecret namespace (sk_Name ref) k of
                       Inl e \<Rightarrow> if IsNotFound e then Inl (ErrNew ''table secret not found'')
                               else Inl (wrap_error ''failed to get existing connection secret'' e)
                     | Inr data \<Rightarrow> Inr (case data (sk_Key ref) of Some u \<Rightarrow> u | None \<Rightarrow> []))
                | None \<Rightarrow>
                    if vf_Vault from \<noteq> None then Inr []
                    else Inl (ErrNew ''unable to find supported valueFrom'')))"

section \<open>The controller of a database is established\<close>

text \<open>
  The cluster as the API server keeps it, with the errors of the calls as an argument: \<open>err\<close> gives the
  error of a call by its verb and kind.
\<close>

record Cluster =
  ck_Databases :: "string \<times> string \<rightharpoonup> DatabaseObject"
  ck_Roles :: "string \<times> string \<rightharpoonup> Role"
  ck_RoleBindings :: "string \<times> string \<rightharpoonup> RoleBinding"
  ck_ServiceAccounts :: "string \<times> string \<rightharpoonup> ServiceAccount"
  ck_StatefulSets :: "string \<times> string \<rightharpoonup> StatefulSet"

definition api_get :: "go_error option \<Rightarrow> (string \<times> string \<rightharpoonup> 'o) \<Rightarrow> string \<Rightarrow> string \<Rightarrow> 'o result" where
  "api_get err objs ns n =
     (case err of Some e \<Rightarrow> Inl e | None \<Rightarrow> (case objs (ns, n) of None \<Rightarrow> Inl (ApiNotFound n) | Some obj \<Rightarrow> Inr obj))"

definition api_store :: "go_error option \<Rightarrow> ('k \<Rightarrow> 'k) \<Rightarrow> 'k \<Rightarrow> go_error option \<times> 'k" where
  "api_store err f k = (case err of Some e \<Rightarrow> (Some e, k) | None \<Rightarrow> (None, f k))"

definition cluster_client :: "(string \<Rightarrow> string \<Rightarrow> go_error option) \<Rightarrow> Cluster ClusterClient" where
  "cluster_client err =
     \<lparr> cl_GetDatabase = (\<lambda>ns n k. api_get (err ''get'' ''Database'') (ck_Databases k) ns n),
       cl_GetRole = (\<lambda>ns n k. api_get (err ''get'' ''Role'') (ck_Roles k) ns n),
       cl_GetRoleBinding = (\<lambda>ns n k. api_get (err ''get'' ''RoleBinding'') (ck_RoleBindings k) ns n),
       cl_GetServiceAccount = (\<lambda>ns n k. api_get (err ''get'' ''ServiceAccount'') (ck_ServiceAccounts k) ns n),
       cl_GetStatefulSet = (\<lambda>ns n k. api_get (err ''get'' ''StatefulSet'') (ck_StatefulSets k) ns n),
       cl_SetOwner = err ''own'',
       cl_CreateRole = (\<lambda>obj. api_store (err ''create'' ''Role'')
          (\<lambda>k. k\<lparr> ck_Roles := (ck_Roles k)((rl_Namespace obj, rl_Name obj) \<mapsto> obj) \<rparr>)),
       cl_CreateRoleBinding = (\<lambda>obj. api_store (err ''create'' ''RoleBinding'')
          (\<lambda>k. k\<lparr> ck_RoleBindings := (ck_RoleBindings k)((rb_Namespace obj, rb_Name obj) \<mapsto> obj) \<rparr>)),
       cl_CreateServiceAccount = (\<lambda>obj. api_store (err ''create'' ''ServiceAccount'')
          (\<lambda>k. k\<lparr> ck_ServiceAccounts := (ck_ServiceAccounts k)((sa_Namespace obj, sa_Name obj) \<mapsto> obj) \<rparr>)),
       cl_CreateStatefulSet = (\<lambda>obj. api_store (err ''create'' ''StatefulSet'')
          (\<lambda>k. k\<lparr> ck_StatefulSets := (ck_StatefulSets k)((ss_Namespace obj, ss_Name obj) \<mapsto> obj) \<rparr>)),
       cl_UpdateStatefulSet = (\<lambda>obj. api_store (err ''update'' ''StatefulSet'')
          (\<lambda>k. k\<lparr> ck_StatefulSets := (ck_StatefulSets k)((ss_Namespace obj, ss_Name obj) \<mapsto> obj) \<rparr>)) \<rparr>"

text \<open>The cluster with an object added where there is none.\<close>

definition add_missing :: "'a \<Rightarrow> 'o \<Rightarrow> ('a \<rightharpoonup> 'o) \<Rightarrow> ('a \<rightharpoonup> 'o)" where
  "add_missing key obj objs = (case objs key of None \<Rightarrow> objs(key \<mapsto> obj) | Some _ \<Rightarrow> objs)"

lemma add_missing_simps [simp]:
  "add_missing key obj objs key \<noteq> None" "key' \<noteq> key \<Longrightarrow> add_missing key obj objs key' = objs key'"
  "objs key = Some obj' \<Longrightarrow> add_missing key obj objs = objs"
  by (auto simp: add_missing_def split: option.splits)

text \<open>No call reports a missing object for another reason.\<close>

definition honest :: "(string \<Rightarrow> string \<Rightarrow> go_error option) \<Rightarrow> bool" where
  "honest err \<longleftrightarrow> (\<forall>kind e. err ''get'' kind = Some e \<longrightarrow> \<not> IsNotFound e)"

lemma ensure_owned_stored:
  assumes "ensure_owned (api_get gerr objs ns n) owner (api_store cerr f) m1 m2 m3 k = (None, k')"
    and "\<And>e. gerr = Some e \<Longrightarrow> \<not> IsNotFound e"
  shows "k' = (case objs (ns, n) of None \<Rightarrow> f k | Some _ \<Rightarrow> k)"
  using assms by (auto simp: ensure_owned_def api_get_def api_store_def split: option.splits if_splits)

definition owned_role :: "DatabaseObject \<Rightarrow> Role" where
  "owned_role d = \<lparr> rl_Name = rbac_name d, rl_Namespace = dr_Namespace d, rl_Rules = role_rules, rl_Owner = Some (dr_Name d) \<rparr>"

definition owned_binding :: "DatabaseObject \<Rightarrow> RoleBinding" where
  "owned_binding d =
     \<lparr> rb_Name = rbac_name d, rb_Namespace = dr_Namespace d, rb_SubjectKind = ''ServiceAccount'',
       rb_SubjectName = rbac_name d, rb_SubjectNamespace = dr_Namespace d, rb_RoleKind = ''Role'',
       rb_RoleName = rbac_name d, rb_Owner = Some (dr_Name d) \<rparr>"

definition owned_account :: "DatabaseObject \<Rightarrow> ServiceAccount" where
  "owned_account d = \<lparr> sa_Name = rbac_name d, sa_Namespace = dr_Namespace d, sa_Owner = Some (dr_Name d) \<rparr>"

definition with_rbac :: "DatabaseObject \<Rightarrow> Cluster \<Rightarrow> Cluster" where
  "with_rbac d k =
     k\<lparr> ck_Roles := add_missing (dr_Namespace d, rbac_name d) (owned_role d) (ck_Roles k),
        ck_RoleBindings := add_missing (dr_Namespace d, rbac_name d) (owned_binding d) (ck_RoleBindings k),
        ck_ServiceAccounts := add_missing (dr_Namespace d, rbac_name d) (owned_account d) (ck_ServiceAccounts k) \<rparr>"

lemma reconcileRBAC_stored:
  assumes "reconcileRBAC (cluster_client err) d k = (None, k')" "honest err"
  shows "k' = with_rbac d k"
proof -
  have get: "\<And>e. err ''get'' kind = Some e \<Longrightarrow> \<not> IsNotFound e" for kind
    using assms(2) by (simp add: honest_def)
  obtain k1 k2 where 1: "reconcileRBACRole (cluster_client err) d k = (None, k1)"
    and 2: "reconcileRBACRoleBinding (cluster_client err) d k1 = (None, k2)"
    and 3: "reconcileServiceAccount (cluster_client err) d k2 = (None, k')"
    using assms(1) by (auto simp: reconcileRBAC_def split: prod.splits option.splits)
  have "k1 = k\<lparr> ck_Roles := add_missing (dr_Namespace d, rbac_name d) (owned_role d) (ck_Roles k) \<rparr>"
    using ensure_owned_stored [OF 1 [unfolded reconcileRBACRole_def cluster_client_def, simplified] get]
    by (simp add: add_missing_def owned_role_def split: option.splits)
  moreover have "k2 = k1\<lparr> ck_RoleBindings := add_missing (dr_Namespace d, rbac_name d) (owned_binding d) (ck_RoleBindings k1) \<rparr>"
    using ensure_owned_stored [OF 2 [unfolded reconcileRBACRoleBinding_def cluster_client_def, simplified] get]
    by (simp add: add_missing_def owned_binding_def split: option.splits)
  moreover have "k' = k2\<lparr> ck_ServiceAccounts := add_missing (dr_Namespace d, rbac_name d) (owned_account d) (ck_ServiceAccounts k2) \<rparr>"
    using ensure_owned_stored [OF 3 [unfolded reconcileServiceAccount_def cluster_client_def, simplified] get]
    by (simp add: add_missing_def owned_account_def split: option.splits)
  ultimately show ?thesis by (simp add: with_rbac_def)
qed

lemma store_statefulset_stored:
  assumes "store_statefulset (cluster_client err) d s k = (None, k')" "honest err"
  shows "k' = k\<lparr> ck_StatefulSets := (ck_StatefulSets k)((ss_Namespace s, ss_Name s) \<mapsto>
     s\<lparr> ss_Owner := (if ck_StatefulSets k (ss_Namespace s, ss_Name s) = None then Some (dr_Name d) else ss_Owner s) \<rparr>) \<rparr>"
  using assms
  by (auto simp: store_statefulset_def cluster_client_def api_get_def api_store_def honest_def
      split: option.splits if_splits)

lemma ReconcileDatabase_split:
  assumes "ReconcileDatabase_Reconcile cl r request k = (None, k')" "cl_GetDatabase cl (fst request) (snd request) k = Inr d"
  obtains va tols k1 where "reconcileRBAC cl d k = (None, k1)" "createTolerations d = Inr tols"
    "GetVaultAnnotations (DatabaseResource.truncate d) = Inr va"
    "store_statefulset cl d (desiredStatefulSet r d va tols) k1 = (None, k')"
  using assms
  by (auto simp: ReconcileDatabase_Reconcile_def database_getInstance_def split: sum.splits option.splits prod.splits)

lemma with_rbac_present:
  "ck_Roles (with_rbac d k) (dr_Namespace d, rbac_name d) \<noteq> None"
  "ck_RoleBindings (with_rbac d k) (dr_Namespace d, rbac_name d) \<noteq> None"
  "ck_ServiceAccounts (with_rbac d k) (dr_Namespace d, rbac_name d) \<noteq> None"
  by (simp_all add: with_rbac_def)

text \<open>
  C18. Reconciling a Database establishes its controller: a reconciliation that succeeds leaves the
  StatefulSet that the table controller waits for, with a container that is told the namespace and the
  name of this database and runs without privileges, under a service account that exists, as its role and
  its binding do; objects that were there are kept, and nothing else in the cluster changes.
\<close>

theorem database_controller_established:
  assumes "ReconcileDatabase_Reconcile (cluster_client err) r (ns, n) k = (None, k')" "honest err"
    and "ck_Databases k (ns, n) = Some d" "dr_Namespace d = ns" "dr_Name d = n"
  shows "\<exists>s. k' = (with_rbac d k)\<lparr> ck_StatefulSets := (ck_StatefulSets k)((ns, n @ ''-controller'') \<mapsto> s) \<rparr> \<and>
     take 5 (ct_Args (ss_Container s)) = [''run'', ''--namespace'', ns, ''--database-name'', n] \<and>
     csc_RunAsNonRoot (ct_Security (ss_Container s)) \<and> \<not> csc_AllowPrivilegeEscalation (ct_Security (ss_Container s)) \<and>
     ck_ServiceAccounts k' (ns, ss_ServiceAccountName s) \<noteq> None \<and>
     ck_RoleBindings k' (ns, ''schemahero-'' @ n) \<noteq> None \<and> ck_Roles k' (ns, ''schemahero-'' @ n) \<noteq> None"
proof -
  have get: "cl_GetDatabase (cluster_client err) (fst (ns, n)) (snd (ns, n)) k = Inr d"
    using assms(1,3) by (auto simp: ReconcileDatabase_Reconcile_def database_getInstance_def cluster_client_def api_get_def
        split: option.splits)
  obtain va tols k1 where rbac: "reconcileRBAC (cluster_client err) d k = (None, k1)"
    and store: "store_statefulset (cluster_client err) d (desiredStatefulSet r d va tols) k1 = (None, k')"
    by (rule ReconcileDatabase_split [OF assms(1) get])
  let ?s = "(desiredStatefulSet r d va tols)\<lparr> ss_Owner :=
      (if ck_StatefulSets k (ns, n @ ''-controller'') = None then Some n else None) \<rparr>"
  have k': "k' = (with_rbac d k)\<lparr> ck_StatefulSets := (ck_StatefulSets k)((ns, n @ ''-controller'') \<mapsto> ?s) \<rparr>"
    using store_statefulset_stored [OF store assms(2)] reconcileRBAC_stored [OF rbac assms(2)] assms(4,5)
    by (simp add: with_rbac_def desiredStatefulSet_def)
  have name: "rbac_name d = ''schemahero-'' @ n" by (simp add: rbac_name_def assms(5))
  have s: "take 5 (ct_Args (ss_Container ?s)) = [''run'', ''--namespace'', ns, ''--database-name'', n]"
    "csc_RunAsNonRoot (ct_Security (ss_Container ?s))" "\<not> csc_AllowPrivilegeEscalation (ct_Security (ss_Container ?s))"
    "ss_ServiceAccountName ?s = rbac_name d"
    using assms(4,5) by (simp_all add: desiredStatefulSet_def desired_container_def buildDatabaseControllerArgs_def)
  have "ck_ServiceAccounts k' (ns, rbac_name d) \<noteq> None" "ck_RoleBindings k' (ns, rbac_name d) \<noteq> None"
    "ck_Roles k' (ns, rbac_name d) \<noteq> None"
    using with_rbac_present [of d k] assms(4) by (simp_all add: k')
  then show ?thesis using k' s name by metis
qed

definition sample_database :: DatabaseObject where
  "sample_database = DatabaseResource.extend sample_resource
     \<lparr> do_SchemaHero = None, do_Template = Some \<lparr> tp_Labels = [''team'' \<mapsto> ''a''], tp_Annotations = Map.empty \<rparr> \<rparr>"

definition sample_cluster :: Cluster where
  "sample_cluster =
     \<lparr> ck_Databases = [(''default'', ''app'') \<mapsto> sample_database], ck_Roles = Map.empty, ck_RoleBindings = Map.empty,
       ck_ServiceAccounts = Map.empty, ck_StatefulSets = Map.empty \<rparr>"

definition sample_reconciler :: ReconcileDatabase where
  "sample_reconciler =
     \<lparr> rd_managerImage = ''schemahero/schemahero-manager'', rd_managerTag = ''0.20'', rd_pluginRegistry = [],
       rd_pluginTag = [], rd_debugLogs = False \<rparr>"

theorem database_controller_established_witness:
  "\<exists>s k'. ReconcileDatabase_Reconcile (cluster_client (\<lambda>_ _. None)) sample_reconciler (''default'', ''app'') sample_cluster = (None, k') \<and>
     ck_StatefulSets k' = [(''default'', ''app-controller'') \<mapsto> s] \<and> csc_RunAsNonRoot (ct_Security (ss_Container s))"
proof -
  let ?run = "ReconcileDatabase_Reconcile (cluster_client (\<lambda>_ _. None)) sample_reconciler (''default'', ''app'') sample_cluster"
  have "fst ?run = None" by code_simp
  then have run: "?run = (None, snd ?run)" by (simp add: prod_eq_iff)
  have "honest (\<lambda>_ _. None)" by (simp add: honest_def)
  moreover have "ck_Databases sample_cluster (''default'', ''app'') = Some sample_database" by (simp add: sample_cluster_def)
  moreover have "dr_Namespace sample_database = ''default''" "dr_Name sample_database = ''app''" by code_simp+
  moreover have "ck_StatefulSets sample_cluster = Map.empty" by (simp add: sample_cluster_def)
  ultimately show ?thesis
    using database_controller_established [OF run, of sample_database] run by auto
qed

section \<open>The charset and the collation are set\<close>

text \<open>
  A server that obeys: an \<^verbatim>\<open>alter database\<close> that succeeds sets both, and the defaults of charsets and
  collations stay what they are.
\<close>

definition obeys :: "'d CharsetServer \<Rightarrow> bool" where
  "obeys srv \<longleftrightarrow>
     (\<forall>dbName charset collation d d'. cs_Exec srv (alter_database dbName charset collation) d = (None, d') \<longrightarrow>
        cs_Schema srv dbName d' = Inr (charset, collation))"

lemma mysql_charset_reconciled:
  assumes "obeys srv" "reconcileMysqlDatabaseSchema srv env r charset collation d = (None, d')"
    and "Database_GetConnection env r = Inr (driver, uri)" "cs_ParseDSN srv uri = Inr dbName"
    and "charset \<noteq> [] \<or> collation \<noteq> []"
  shows "\<exists>cs co. cs_Schema srv dbName d' = Inr (cs, co) \<and> (charset \<noteq> [] \<longrightarrow> cs = charset) \<and> (collation \<noteq> [] \<longrightarrow> co = collation) \<and>
     (charset \<noteq> [] \<and> collation = [] \<longrightarrow> cs_DefaultCollation srv charset d = Inr co \<or> d' = d) \<and>
     (charset = [] \<and> collation \<noteq> [] \<longrightarrow> cs_CollationCharset srv collation d = Inr cs \<or> d' = d)"
  using assms
  by (auto simp: reconcileMysqlDatabaseSchema_def desired_charset_query_def exec_charset_def obeys_def bindE_Inr_iff
      split: sum.splits option.splits prod.splits if_splits)

section \<open>Behaviour the sources do not intend\<close>

text \<open>A Database with a toleration is never realized: storing it panics.\<close>

lemma tolerations_panic:
  assumes "do_SchemaHero d = Some s" "sh_Tolerations s \<noteq> []" "cl_GetDatabase cl ns n k = Inr d"
  shows "fst (ReconcileDatabase_Reconcile cl r (ns, n) k) \<noteq> None"
proof
  assume "fst (ReconcileDatabase_Reconcile cl r (ns, n) k) = None"
  then obtain k' where "ReconcileDatabase_Reconcile cl r (ns, n) k = (None, k')" by (metis prod.collapse)
  then obtain tols where "createTolerations d = Inr tols"
    using assms(3) by (auto elim: ReconcileDatabase_split)
  then show False using assms(1,2) by (simp add: createTolerations_def)
qed

text \<open>The second reconciliation replaces the StatefulSet by one without an owner.\<close>

lemma owner_lost_on_update:
  assumes "store_statefulset (cluster_client err) d (desiredStatefulSet r d va tols) k = (None, k')" "honest err"
    and "ck_StatefulSets k (dr_Namespace d, dr_Name d @ ''-controller'') \<noteq> None"
  shows "map_option ss_Owner (ck_StatefulSets k' (dr_Namespace d, dr_Name d @ ''-controller'')) = Some None"
  using store_statefulset_stored [OF assms(1,2)] assms(3) by (auto simp: desiredStatefulSet_def)

text \<open>A label of the template may replace the one the StatefulSet selects its pods by.\<close>

lemma template_label_breaks_selector:
  assumes "do_Template d = Some t" "tp_Labels t ''database'' = Some v" "v \<noteq> dr_Name d"
  shows "ss_PodLabels (desiredStatefulSet r d va tols) ''database'' \<noteq> ss_MatchLabels (desiredStatefulSet r d va tols) ''database''"
  using assms by (simp add: desiredStatefulSet_def createLabels_def own_labels_def map_add_def)

text \<open>
  With a charset and no collation the two never compare equal, so that the database is altered by every
  reconciliation; with neither, nothing is done, although the server defaults are read to be restored.
\<close>

lemma charset_without_collation_always_altered:
  assumes "reconcileMysqlDatabaseSchema srv env r charset [] d = (None, d')" "charset \<noteq> []"
    and "Database_GetConnection env r = Inr (driver, uri)" "cs_ParseDSN srv uri = Inr dbName"
    and "cs_Schema srv dbName d = Inr (charset, co)" "co \<noteq> []"
  shows "\<exists>c. cs_Exec srv (alter_database dbName charset c) d = (None, d')"
  using assms
  by (auto simp: reconcileMysqlDatabaseSchema_def desired_charset_query_def exec_charset_def bindE_Inr_iff
      split: sum.splits option.splits prod.splits if_splits)

lemma server_defaults_not_restored:
  "snd (reconcileMysqlDatabaseSchema srv env r [] [] d) = d"
  by (auto simp: reconcileMysqlDatabaseSchema_def desired_charset_query_def bindE_Inr_iff
      split: sum.splits option.splits prod.splits if_splits)

end
