(* ===== verification/Installer.thy ===== *)
theory Installer
  imports Database_Controller Generate
begin

text \<open>
  src/pkg/installer: the objects of the operator itself, how they are installed into a cluster or upgraded
  there (installer.go, manager.go, rbac.go and one file per custom resource definition), and how they are
  rendered as manifests; src/pkg/version/version.go; and the command install.go.

  The definitions of the custom resources are generated and embedded: \<open>assets\<close> decodes them by name, and a
  definition that can not be decoded is a panic. The calls of the API are the record \<open>InstallClient\<close>, the
  serializer is an argument, and so are the variables that the build injects.
\<close>

section \<open>The objects\<close>

record Build =
  bd_version :: string
  bd_managerImage :: string
  bd_pluginRegistry :: string

definition Version :: "Build \<Rightarrow> string" where
  "Version b = bd_version b"

definition ManagerImage :: "Build \<Rightarrow> string" where
  "ManagerImage b = (if bd_managerImage b \<noteq> [] then bd_managerImage b else ''stigenai/schemahero-manager'')"

definition version_PluginRegistry :: "Build \<Rightarrow> string" where
  "version_PluginRegistry b = bd_pluginRegistry b"

text \<open>A definition keeps of its content what the upgrade replaces: the spec, the labels and the annotations.\<close>

record CRD =
  crd_Name :: string
  crd_Spec :: string
  crd_Labels :: "string \<rightharpoonup> string"
  crd_Annotations :: "string \<rightharpoonup> string"

record ClusterRole =
  cr_Name :: string
  cr_Rules :: "PolicyRule list"

record ClusterRoleBinding =
  crb_Name :: string
  crb_SubjectKind :: string
  crb_SubjectName :: string
  crb_SubjectNamespace :: string
  crb_RoleKind :: string
  crb_RoleName :: string

record Service =
  svc_Name :: string
  svc_Namespace :: string
  svc_Selector :: "(string \<times> string) list"
  svc_Port :: int
  svc_TargetPort :: int

record Secret =
  sec_Name :: string
  sec_Namespace :: string
  sec_Data :: "string \<rightharpoonup> string"

datatype env_value = Value string | FieldRef string

record ManagerSpec =
  mgr_MatchLabels :: "(string \<times> string) list"
  mgr_PodLabels :: "(string \<times> string) list"
  mgr_NodeAffinity :: "string \<times> string \<times> string list"
  mgr_TerminationGracePeriodSeconds :: int
  mgr_Volume :: "string \<times> string \<times> int"
  mgr_ContainerName :: string
  mgr_Image :: string
  mgr_ImagePullPolicy :: string
  mgr_Command :: "string list"
  mgr_Env :: "(string \<times> env_value) list"
  mgr_Limits :: "(string \<times> string) list"
  mgr_Requests :: "(string \<times> string) list"
  mgr_Port :: "int \<times> string \<times> string"
  mgr_Mount :: "string \<times> string \<times> bool"

record Manager =
  man_Name :: string
  man_Namespace :: string
  man_Labels :: "(string \<times> string) list"
  man_Spec :: ManagerSpec

datatype manifest =
    CrdManifest CRD
  | RoleManifest ClusterRole
  | BindingManifest ClusterRoleBinding
  | NamespaceManifest string
  | ServiceManifest Service
  | SecretManifest Secret
  | ManagerManifest Manager

definition clusterRole :: ClusterRole where
  "clusterRole =
     \<lparr> cr_Name = ''schemahero-role'',
       cr_Rules =
         [\<lparr> rule_APIGroups = [''apps''], rule_Resources = [''deployments'', ''statefulsets''], rule_Verbs = all_verbs \<rparr>,
          \<lparr> rule_APIGroups = [''apps''], rule_Resources = [''deployments/status'', ''statefulset/status''], rule_Verbs = status_verbs \<rparr>,
          \<lparr> rule_APIGroups = [[]], rule_Resources = [''pods''], rule_Verbs = all_verbs \<rparr>,
          \<lparr> rule_APIGroups = [[]], rule_Resources = [''pods/log''], rule_Verbs = [''get''] \<rparr>,
          \<lparr> rule_APIGroups = [[]], rule_Resources = [''secrets''], rule_Verbs = all_verbs \<rparr>,
          \<lparr> rule_APIGroups = [[]], rule_Resources = [''serviceaccounts''],
            rule_Verbs = [''get'', ''list'', ''create'', ''update'', ''delete'', ''watch''] \<rparr>,
          \<lparr> rule_APIGroups = [''rbac.authorization.k8s.io''], rule_Resources = [''roles'', ''rolebindings''],
            rule_Verbs = [''get'', ''list'', ''create'', ''update'', ''delete'', ''watch''] \<rparr>,
          \<lparr> rule_APIGroups = [''admissionregistration.k8s.io''],
            rule_Resources = [''mutatingwebhookconfigurations'', ''validatingwebhookconfigurations''], rule_Verbs = all_verbs \<rparr>] @
         schema_rules ''databases.schemahero.io'' ''databases'' @
         concat (map (schema_rules ''schemas.schemahero.io'')
           [''migrations'', ''tables'', ''views'', ''functions'', ''databaseextensions'', ''datatypes'']) \<rparr>"

definition clusterRoleBinding :: "string \<Rightarrow> ClusterRoleBinding" where
  "clusterRoleBinding namespace =
     \<lparr> crb_Name = ''schemahero-rolebinding'', crb_SubjectKind = ''ServiceAccount'', crb_SubjectName = ''default'',
       crb_SubjectNamespace = namespace, crb_RoleKind = ''ClusterRole'', crb_RoleName = ''schemahero-role'' \<rparr>"

definition service :: "string \<Rightarrow> Service" where
  "service namespace =
     \<lparr> svc_Name = ''controller-manager-service'', svc_Namespace = namespace, svc_Selector = [(''control-plane'', ''schemahero'')],
       svc_Port = 443, svc_TargetPort = 9876 \<rparr>"

definition secret :: "string \<Rightarrow> Secret" where
  "secret namespace = \<lparr> sec_Name = ''webhook-server-secret'', sec_Namespace = namespace, sec_Data = Map.empty \<rparr>"

definition buildManagerCommand :: "Build \<Rightarrow> string \<Rightarrow> string list" where
  "buildManagerCommand b schemaheroTag =
     [''/manager'', ''run'', ''--enable-database-controller'', ''--manager-image'', ManagerImage b, ''--manager-tag'', schemaheroTag] @
     (if version_PluginRegistry b \<noteq> [] then [''--plugin-registry'', version_PluginRegistry b, ''--plugin-tag'', ''dev''] else [])"

definition schemaheroTag :: "Build \<Rightarrow> string" where
  "schemaheroTag b = (if HasPrefix (Version b) ''v'' then drop 1 (Version b) else Version b)"

definition manager :: "Build \<Rightarrow> string \<Rightarrow> Manager" where
  "manager b namespace =
     \<lparr> man_Name = ''schemahero'', man_Namespace = namespace, man_Labels = [(''control-plane'', ''schemahero'')],
       man_Spec =
         \<lparr> mgr_MatchLabels = [(''control-plane'', ''schemahero'')], mgr_PodLabels = [(''control-plane'', ''schemahero'')],
           mgr_NodeAffinity = (''kubernetes.io/os'', ''In'', [''linux'']), mgr_TerminationGracePeriodSeconds = 10,
           mgr_Volume = (''cert'', ''webhook-server-secret'', 420), mgr_ContainerName = ''manager'',
           mgr_Image = ManagerImage b @ '':'' @ schemaheroTag b, mgr_ImagePullPolicy = ''Always'',
           mgr_Command = buildManagerCommand b (schemaheroTag b),
           mgr_Env = [(''POD_NAMESPACE'', FieldRef ''metadata.namespace''), (''SECRET_NAME'', Value ''webhook-server-secret'')],
           mgr_Limits = [(''cpu'', ''1''), (''memory'', ''150Mi'')], mgr_Requests = [(''cpu'', ''100m''), (''memory'', ''50Mi'')],
           mgr_Port = (9876, ''webhook-server'', ''TCP''), mgr_Mount = (''cert'', ''/tmp/cert'', True) \<rparr> \<rparr>"

section \<open>Installing\<close>

datatype kind = CrdKind | RoleKind | BindingKind | NamespaceKind | ServiceKind | SecretKind | ManagerKind

text \<open>Of most objects only their presence matters; the others are read to be updated.\<close>

record 'k InstallClient =
  ic_Config :: "go_error option"
  ic_Clientset :: "go_error option"
  ic_ExtensionsClient :: "go_error option"
  ic_Present :: "kind \<Rightarrow> string \<Rightarrow> string \<Rightarrow> 'k \<Rightarrow> unit result"
  ic_GetCRD :: "string \<Rightarrow> 'k \<Rightarrow> CRD result"
  ic_GetManager :: "string \<Rightarrow> string \<Rightarrow> 'k \<Rightarrow> Manager result"
  ic_Create :: "manifest \<Rightarrow> 'k \<Rightarrow> go_error option \<times> 'k"
  ic_Update :: "manifest \<Rightarrow> 'k \<Rightarrow> go_error option \<times> 'k"

definition called :: "string \<Rightarrow> go_error option \<times> 'k \<Rightarrow> go_error option \<times> 'k" where
  "called msg r = apfst (map_option (wrap_error msg)) r"

text \<open>
  The definitions are installed alike, up to the texts of the errors: that of the client, of reading, of
  creating and of updating.
\<close>

definition ensureCRD ::
  "'k InstallClient \<Rightarrow> (string \<Rightarrow> CRD result) \<Rightarrow> string \<Rightarrow> string \<times> string \<times> string \<times> string \<Rightarrow> 'k \<Rightarrow> go_error option \<times> 'k" where
  "ensureCRD ic assets name messages k =
     (case messages of (clientMsg, getMsg, createMsg, updateMsg) \<Rightarrow>
        (case ic_ExtensionsClient ic of
           Some e \<Rightarrow> (Some (wrap_error clientMsg e), k)
         | None \<Rightarrow>
             (case ic_GetCRD ic name k of
                Inl err \<Rightarrow>
                  if \<not> IsNotFound err then (Some (wrap_error getMsg err), k)
                  else (case assets name of
                          Inl p \<Rightarrow> (Some p, k)
                        | Inr crd \<Rightarrow> called createMsg (ic_Create ic (CrdManifest crd) k))
              | Inr existingCRD \<Rightarrow>
                  (case assets name of
                     Inl p \<Rightarrow> (Some p, k)
                   | Inr crd \<Rightarrow>
                       called updateMsg (ic_Update ic (CrdManifest
                         (existingCRD\<lparr> crd_Spec := crd_Spec crd, crd_Labels := crd_Labels crd,
                            crd_Annotations := crd_Annotations crd \<rparr>)) k)))))"

definition ensureDatabasesCRD :: "'k InstallClient \<Rightarrow> (string \<Rightarrow> CRD result) \<Rightarrow> 'k \<Rightarrow> go_error option \<times> 'k" where
  "ensureDatabasesCRD ic assets = ensureCRD ic assets ''databases.databases.schemahero.io''
     (''create extensions client'', ''get database crd'', ''create database crd'', ''update database crd'')"

definition ensureTablesCRD :: "'k InstallClient \<Rightarrow> (string \<Rightarrow> CRD result) \<Rightarrow> 'k \<Rightarrow> go_error option \<times> 'k" where
  "ensureTablesCRD ic assets = ensureCRD ic assets ''tables.schemas.schemahero.io''
     (''faild to create extensions client'', ''get tables crd'', ''failed to create tables crd'', ''update tables crd'')"

definition ensureViewsCRD :: "'k InstallClient \<Rightarrow> (string \<Rightarrow> CRD result) \<Rightarrow> 'k \<Rightarrow> go_error option \<times> 'k" where
  "ensureViewsCRD ic assets = ensureCRD ic assets ''views.schemas.schemahero.io''
     (''faild to create extensions client'', ''get views crd'', ''failed to create views crd'', ''update views crd'')"

definition ensureMigrationsCRD :: "'k InstallClient \<Rightarrow> (string \<Rightarrow> CRD result) \<Rightarrow> 'k \<Rightarrow> go_error option \<times> 'k" where
  "ensureMigrationsCRD ic assets = ensureCRD ic assets ''migrations.schemas.schemahero.io''
     (''faild to create extensions client'', ''get migrations crd'', ''failed to create migrations crd'', ''update migrations crd'')"

definition ensureDatabaseExtensionsCRD :: "'k InstallClient \<Rightarrow> (string \<Rightarrow> CRD result) \<Rightarrow> 'k \<Rightarrow> go_error option \<times> 'k" where
  "ensureDatabaseExtensionsCRD ic assets = ensureCRD ic assets ''databaseextensions.schemas.schemahero.io''
     (''failed to create extensions client'', ''get database extensions crd'', ''failed to create database extensions crd'',
      ''update database extensions crd'')"

definition ensureFunctionsCRD :: "'k InstallClient \<Rightarrow> (string \<Rightarrow> CRD result) \<Rightarrow> 'k \<Rightarrow> go_error option \<times> 'k" where
  "ensureFunctionsCRD ic assets = ensureCRD ic assets ''functions.schemas.schemahero.io''
     (''failed to create extensions client'', ''get functions crd'', ''failed to create functions crd'', ''update functions crd'')"

text \<open>The other objects are created when they are missing and otherwise left as they are.\<close>

definition ensure_present ::
  "'k InstallClient \<Rightarrow> kind \<Rightarrow> string \<Rightarrow> string \<Rightarrow> manifest \<Rightarrow> string \<Rightarrow> string \<Rightarrow> 'k \<Rightarrow> go_error option \<times> 'k" where
  "ensure_present ic kd namespace name obj getMsg createMsg k =
     (case ic_Present ic kd namespace name k of
        Inr _ \<Rightarrow> (None, k)
      | Inl err \<Rightarrow> if \<not> IsNotFound err then (Some (wrap_error getMsg err), k) else called createMsg (ic_Create ic obj k))"

definition ensureClusterRole :: "'k InstallClient \<Rightarrow> 'k \<Rightarrow> go_error option \<times> 'k" where
  "ensureClusterRole ic = ensure_present ic RoleKind [] ''schemahero-role'' (RoleManifest clusterRole)
     ''failed to get clusterrole'' ''failed to create cluster role''"

definition ensureClusterRoleBinding :: "'k InstallClient \<Rightarrow> string \<Rightarrow> 'k \<Rightarrow> go_error option \<times> 'k" where
  "ensureClusterRoleBinding ic namespace =
     ensure_present ic BindingKind [] ''schemahero-rolebinding'' (BindingManifest (clusterRoleBinding namespace))
       ''failed to get clusterrolebinding'' ''failed to create cluster rolebinding''"

definition ensureNamespace :: "'k InstallClient \<Rightarrow> string \<Rightarrow> 'k \<Rightarrow> go_error option \<times> 'k" where
  "ensureNamespace ic name = ensure_present ic NamespaceKind [] name (NamespaceManifest name)
     ''failed to get namespace'' ''failed to create namespace''"

definition ensureService :: "'k InstallClient \<Rightarrow> string \<Rightarrow> 'k \<Rightarrow> go_error option \<times> 'k" where
  "ensureService ic namespace =
     ensure_present ic ServiceKind namespace ''controller-manager-service'' (ServiceManifest (service namespace))
       ''failed to get service'' ''failed to create service''"

definition ensureSecret :: "'k InstallClient \<Rightarrow> string \<Rightarrow> 'k \<Rightarrow> go_error option \<times> 'k" where
  "ensureSecret ic namespace =
     ensure_present ic SecretKind namespace ''webhook-server-secret'' (SecretManifest (secret namespace))
       ''failed to get secret'' ''failed to create secret''"

definition ensureManager :: "'k InstallClient \<Rightarrow> Build \<Rightarrow> string \<Rightarrow> 'k \<Rightarrow> bool result \<times> 'k" where
  "ensureManager ic b namespace k =
     (case ic_GetManager ic namespace ''schemahero'' k of
        Inl err \<Rightarrow>
          if \<not> IsNotFound err then (Inl (wrap_error ''get manager statefulset'' err), k)
          else (case ic_Create ic (ManagerManifest (manager b namespace)) k of
                  (Some e, k') \<Rightarrow> (Inl (wrap_error ''create manager statefulset'' e), k')
                | (None, k') \<Rightarrow> (Inr False, k'))
      | Inr existingManager \<Rightarrow>
          (case ic_Update ic (ManagerManifest (existingManager\<lparr> man_Spec := man_Spec (manager b namespace) \<rparr>)) k of
             (Some e, k') \<Rightarrow> (Inl (wrap_error ''update manager statefulset'' e), k')
           | (None, k') \<Rightarrow> (Inr True, k')))"

fun run_steps :: "(string \<times> ('k \<Rightarrow> go_error option \<times> 'k)) list \<Rightarrow> 'k \<Rightarrow> go_error option \<times> 'k" where
  "run_steps [] k = (None, k)"
| "run_steps ((msg, step) # steps) k =
     (case step k of
        (Some e, k') \<Rightarrow> (Some (wrap_error msg e), k')
      | (None, k') \<Rightarrow> run_steps steps k')"

definition install_steps ::
  "'k InstallClient \<Rightarrow> (string \<Rightarrow> CRD result) \<Rightarrow> string \<Rightarrow> (string \<times> ('k \<Rightarrow> go_error option \<times> 'k)) list" where
  "install_steps ic assets namespace =
     [(''failed to create databases crd'', ensureDatabasesCRD ic assets),
      (''failed to create tables crd'', ensureTablesCRD ic assets),
      (''failed to create views crd'', ensureViewsCRD ic assets),
      (''failed to create migrations crd'', ensureMigrationsCRD ic assets),
      (''failed to create database extensions crd'', ensureDatabaseExtensionsCRD ic assets),
      (''failed to create functions crd'', ensureFunctionsCRD ic assets),
      (''failed to create cluster role'', ensureClusterRole ic),
      (''failed to create cluster role binding'', ensureClusterRoleBinding ic namespace),
      (''failed to create namespace'', ensureNamespace ic namespace),
      (''failed to create service'', ensureService ic namespace),
      (''failed to create secret'', ensureSecret ic namespace)]"

definition InstallOperator ::
  "'k InstallClient \<Rightarrow> (string \<Rightarrow> CRD result) \<Rightarrow> Build \<Rightarrow> string \<Rightarrow> 'k \<Rightarrow> bool result \<times> 'k" where
  "InstallOperator ic assets b namespace k =
     (case ic_Config ic of
        Some e \<Rightarrow> (Inl (wrap_error ''failed to get kubernetes config'' e), k)
      | None \<Rightarrow>
          (case ic_Clientset ic of
             Some e \<Rightarrow> (Inl (wrap_error ''failed to create new kubernetes client'' e), k)
           | None \<Rightarrow>
               (case run_steps (install_steps ic assets namespace) k of
                  (Some e, k') \<Rightarrow> (Inl e, k')
                | (None, k') \<Rightarrow> apfst (wrapE ''failed to create manager'') (ensureManager ic b namespace k'))))"

section \<open>Manifests\<close>

definition crd_yaml :: "(string \<Rightarrow> CRD result) \<Rightarrow> (manifest \<Rightarrow> string result) \<Rightarrow> string \<Rightarrow> string \<Rightarrow> string result" where
  "crd_yaml assets encode name msg = wrapE msg (bindE (assets name) (encode \<circ> CrdManifest))"

definition databasesCRDYAML :: "(string \<Rightarrow> CRD result) \<Rightarrow> (manifest \<Rightarrow> string result) \<Rightarrow> string result" where
  "databasesCRDYAML assets encode = crd_yaml assets encode ''databases.databases.schemahero.io'' ''failed to marshal databases v1 crd''"

definition tablesCRDYAML :: "(string \<Rightarrow> CRD result) \<Rightarrow> (manifest \<Rightarrow> string result) \<Rightarrow> string result" where
  "tablesCRDYAML assets encode = crd_yaml assets encode ''tables.schemas.schemahero.io'' ''failed to marshal tables v1 crd''"

definition viewsCRDYAML :: "(string \<Rightarrow> CRD result) \<Rightarrow> (manifest \<Rightarrow> string result) \<Rightarrow> string result" where
  "viewsCRDYAML assets encode = crd_yaml assets encode ''views.schemas.schemahero.io'' ''failed to marshal views v1 crd''"

definition migrationsCRDYAML :: "(string \<Rightarrow> CRD result) \<Rightarrow> (manifest \<Rightarrow> string result) \<Rightarrow> string result" where
  "migrationsCRDYAML assets encode = crd_yaml assets encode ''migrations.schemas.schemahero.io'' ''failed to marshal migrations v1 crd''"

definition databaseExtensionsCRDYAML :: "(string \<Rightarrow> CRD result) \<Rightarrow> (manifest \<Rightarrow> string result) \<Rightarrow> string result" where
  "databaseExtensionsCRDYAML assets encode = crd_yaml assets encode ''databaseextensions.schemas.schemahero.io'' ''failed to marshal database extensions v1 crd''"

definition functionsCRDYAML :: "(string \<Rightarrow> CRD result) \<Rightarrow> (manifest \<Rightarrow> string result) \<Rightarrow> string result" where
  "functionsCRDYAML assets encode = crd_yaml assets encode ''functions.schemas.schemahero.io'' ''failed to marshal functions v1 crd''"

definition clusterRoleYAML :: "(manifest \<Rightarrow> string result) \<Rightarrow> string result" where
  "clusterRoleYAML encode = wrapE ''failed to marshal cluster role'' (encode (RoleManifest clusterRole))"

definition clusterRoleBindingYAML :: "(manifest \<Rightarrow> string result) \<Rightarrow> string \<Rightarrow> string result" where
  "clusterRoleBindingYAML encode namespace = wrapE ''failed to marshal cluster role binding'' (encode (BindingManifest (clusterRoleBinding namespace)))"

definition namespaceYAML :: "(manifest \<Rightarrow> string result) \<Rightarrow> string \<Rightarrow> string result" where
  "namespaceYAML encode name = wrapE ''failed to marshal namespace'' (encode (NamespaceManifest name))"

definition serviceYAML :: "(manifest \<Rightarrow> string result) \<Rightarrow> string \<Rightarrow> string result" where
  "serviceYAML encode namespace = wrapE ''failed to marshal service'' (encode (ServiceManifest (service namespace)))"

definition secretYAML :: "(manifest \<Rightarrow> string result) \<Rightarrow> string \<Rightarrow> string result" where
  "secretYAML encode namespace = wrapE ''failed to marshal secret'' (encode (SecretManifest (secret namespace)))"

definition managerYAML :: "(manifest \<Rightarrow> string result) \<Rightarrow> Build \<Rightarrow> string \<Rightarrow> string result" where
  "managerYAML encode b namespace = wrapE ''failed to marshal manager'' (encode (ManagerManifest (manager b namespace)))"

text \<open>The files in the order in which they are rendered, each with the error of the caller.\<close>

definition GenerateOperatorYAML ::
  "(string \<Rightarrow> CRD result) \<Rightarrow> (manifest \<Rightarrow> string result) \<Rightarrow> Build \<Rightarrow> string \<Rightarrow> (string \<times> string) list result" where
  "GenerateOperatorYAML assets encode b namespace =
     mapE (\<lambda>(filename, msg, r). bindE (wrapE msg r) (\<lambda>manifest. Inr (filename, manifest)))
       [(''databases_crd.yaml'', ''failed to get databases crd'', databasesCRDYAML assets encode),
        (''tables_crd.yaml'', ''failed to get tables crd'', tablesCRDYAML assets encode),
        (''views_crd.yaml'', ''failed to get views crd'', viewsCRDYAML assets encode),
        (''migrations_crd.yaml'', ''failed to get migrations crd'', migrationsCRDYAML assets encode),
        (''database_extensions_crd.yaml'', ''failed to get database extensions crd'', databaseExtensionsCRDYAML assets encode),
        (''functions_crd.yaml'', ''failed to get functions crd'', functionsCRDYAML assets encode),
        (''cluster-role.yaml'', ''failed to get cluster role'', clusterRoleYAML encode),
        (''cluster-role-binding.yaml'', ''failed to get cluster binding role'', clusterRoleBindingYAML encode namespace),
        (''namespace.yaml'', ''failed to get namespace'', namespaceYAML encode namespace),
        (''service.yaml'', ''failed to get service'', serviceYAML encode namespace),
        (''secret.yaml'', ''failed to get secret'', secretYAML encode namespace),
        (''manager.yaml'', ''failed to get manager'', managerYAML encode b namespace)]"

fun write_manifests :: "GenEnv \<Rightarrow> string \<Rightarrow> (string \<times> string) list \<Rightarrow> Output \<Rightarrow> go_error option \<times> Output" where
  "write_manifests env outDir [] out = (None, out)"
| "write_manifests env outDir ((filename, manifest) # rest) out =
     (case WriteFile env (filepath_Join [outDir, filename]) manifest out of
        (Some e, out) \<Rightarrow> (Some e, out)
      | (None, out) \<Rightarrow> write_manifests env outDir rest out)"

text \<open>
  The command with the flag yaml; \<open>order\<close> is the iteration over the map of manifests. Without a directory the
  namespace is printed first.
\<close>

definition install_yaml ::
  "GenEnv \<Rightarrow> ((string \<times> string) list \<Rightarrow> (string \<times> string) list) \<Rightarrow> (string \<Rightarrow> CRD result) \<Rightarrow> (manifest \<Rightarrow> string result) \<Rightarrow>
   Build \<Rightarrow> string \<Rightarrow> string \<Rightarrow> Output \<Rightarrow> go_error option \<times> Output" where
  "install_yaml env order assets encode b namespace outDir out =
     (case GenerateOperatorYAML assets encode b namespace of
        Inl e \<Rightarrow> (Some e, out)
      | Inr manifests \<Rightarrow>
          if outDir \<noteq> []
          then (case MkdirAll env outDir out of
                  (Some e, out) \<Rightarrow> (Some e, out)
                | (None, out) \<Rightarrow> write_manifests env outDir (order manifests) out)
          else
            (let first = (case map_of manifests ''namespace.yaml'' of
                            Some n \<Rightarrow> Println (n @ ''---'') out
                          | None \<Rightarrow> out);
                 rest = order (filter (\<lambda>(f, _). f \<noteq> ''namespace.yaml'') manifests)
             in (None, Println (Join (map snd rest) ([newline] @ ''---'' @ [newline])) first)))"

section \<open>The manager (src/pkg/cli/managercli/run.go)\<close>

record RunFlags =
  rf_enable_database_controller :: bool
  rf_database_name :: "string list"
  rf_manager_image :: string
  rf_manager_tag :: string
  rf_plugin_registry :: string
  rf_plugin_tag :: string
  rf_log_level :: string

datatype controller =
    DatabaseController ReconcileDatabase
  | DatabaseSchemaController "string list" string string
  | TableController "string list"
  | ViewController "string list"
  | MigrationController "string list"
  | DatabaseExtensionController
  | FunctionController

definition defaultManagerTagStigen :: string where
  "defaultManagerTagStigen = ''0.24.0-stigen.1''"

text \<open>The controllers that the flags ask for, in the order in which they are added to the manager.\<close>

definition RunCmd_controllers :: "RunFlags \<Rightarrow> controller list" where
  "RunCmd_controllers v =
     (if rf_enable_database_controller v
      then [DatabaseController
              \<lparr> rd_managerImage = rf_manager_image v, rd_managerTag = rf_manager_tag v, rd_pluginRegistry = rf_plugin_registry v,
                rd_pluginTag = rf_plugin_tag v, rd_debugLogs = (rf_log_level v = ''debug'') \<rparr>]
      else []) @
     (if length (rf_database_name v) > 0
      then [DatabaseSchemaController (rf_database_name v) (rf_manager_image v) (rf_manager_tag v),
            TableController (rf_database_name v), ViewController (rf_database_name v), MigrationController (rf_database_name v),
            DatabaseExtensionController, FunctionController]
      else [])"

end
