(* ===== verification/Vault_Connection.thy ===== *)
theory Vault_Connection
  imports Db_Resource
begin

text \<open>
  src/pkg/apis/databases/v1alpha4/vault_connection.go: how the URI of a connection is obtained from Vault, by
  reading the file that the agent injects or by logging in with the token of a service account.

  The file system, the Kubernetes API, HTTP, the JSON decoders and text/template are the record \<open>VaultEnv\<close>. A
  template that was parsed is the function that executes it, given the functions username and password and
  the data; a panic of one of these functions is an error of the execution.
\<close>

record Request =
  req_Method :: string
  req_URL :: string
  req_Token :: "string option"
  req_Body :: string

record Response =
  resp_StatusCode :: int
  resp_Body :: "string result"

datatype json_scalar = JsonString string | JsonOther

type_synonym creds = "string \<rightharpoonup> json_scalar"

type_synonym uri_template = "string result \<Rightarrow> string result \<Rightarrow> creds \<Rightarrow> string result"

record VaultEnv =
  ve_ReadFile :: "string \<Rightarrow> string result"
  ve_ServiceAccountSecrets :: "string \<Rightarrow> string \<Rightarrow> (string \<times> string) list result"
  ve_SecretData :: "string \<Rightarrow> string \<Rightarrow> (string \<rightharpoonup> string) result"
  ve_NewRequest :: "string \<Rightarrow> string \<Rightarrow> go_error option"
  ve_Do :: "Request \<Rightarrow> Response result"
  ve_MarshalLogin :: "string \<Rightarrow> string \<Rightarrow> string result"
  ve_UnmarshalLogin :: "string \<Rightarrow> string result"
  ve_UnmarshalCreds :: "string \<Rightarrow> creds result"
  ve_UnmarshalConfig :: "string \<Rightarrow> string result"
  ve_Parse :: "string \<Rightarrow> uri_template result"

text \<open>A request that has to be answered with the status OK, with the texts of its errors.\<close>

definition vault_call ::
  "VaultEnv \<Rightarrow> Request \<Rightarrow> string \<Rightarrow> string \<Rightarrow> string \<Rightarrow> string \<Rightarrow> string result" where
  "vault_call env req newMsg doMsg statusMsg readMsg =
     (case ve_NewRequest env (req_Method req) (req_URL req) of
        Some e \<Rightarrow> Inl (wrap_error newMsg e)
      | None \<Rightarrow>
          bindE (wrapE doMsg (ve_Do env req)) (\<lambda>resp.
            if resp_StatusCode resp \<noteq> 200 then Inl (ErrNew (statusMsg @ Itoa (resp_StatusCode resp)))
            else wrapE readMsg (resp_Body resp)))"

definition getConnectionURITemplate :: "VaultEnv \<Rightarrow> Vault \<Rightarrow> string \<Rightarrow> string \<Rightarrow> string result" where
  "getConnectionURITemplate env vault token dbName =
     (if vlt_ConnectionTemplate vault \<noteq> [] then Inr (vlt_ConnectionTemplate vault)
      else
        bindE (vault_call env
                 \<lparr> req_Method = ''GET'', req_URL = vlt_Endpoint vault @ ''/v1/database/config/'' @ dbName,
                   req_Token = Some token, req_Body = [] \<rparr>
                 ''failed to create request'' ''failed to execute request''
                 ''unexpected response from vault reading config: '' ''failed to read body'') (\<lambda>b.
          wrapE ''failed to unmarshal response'' (ve_UnmarshalConfig env b)))"

text \<open>The token of the first secret of the service account; an account without a secret is an index out of range.\<close>

definition service_account_token :: "VaultEnv \<Rightarrow> DatabaseResource \<Rightarrow> Vault \<Rightarrow> string result" where
  "service_account_token env d vault =
     (let serviceAccountNamespace =
            (if vlt_ServiceAccountNamespace vault = [] then dr_Namespace d else vlt_ServiceAccountNamespace vault)
      in bindE (wrapE ''failed to get vault service account''
                  (ve_ServiceAccountSecrets env serviceAccountNamespace (vlt_ServiceAccount vault))) (\<lambda>secrets.
           case secrets of
             [] \<Rightarrow> Inl (GoPanic ''index out of range [0] with length 0'')
           | (ns, name) # _ \<Rightarrow>
               bindE (wrapE ''failed to get vault service account secret''
                        (ve_SecretData env (if ns = [] then serviceAccountNamespace else ns) name)) (\<lambda>data.
                 Inr (case data ''token'' of Some t \<Rightarrow> t | None \<Rightarrow> []))))"

definition login_endpoint :: "Vault \<Rightarrow> string" where
  "login_endpoint vault =
     vlt_Endpoint vault @
     (if vlt_KubernetesAuthEndpoint vault \<noteq> [] then vlt_KubernetesAuthEndpoint vault else ''/v1/auth/kubernetes/login'')"

definition vault_login :: "VaultEnv \<Rightarrow> DatabaseResource \<Rightarrow> Vault \<Rightarrow> string result" where
  "vault_login env d vault =
     bindE (service_account_token env d vault) (\<lambda>jwt.
     bindE (wrapE ''failed to marshal login payload'' (ve_MarshalLogin env (vlt_Role vault) jwt)) (\<lambda>body.
     bindE (vault_call env \<lparr> req_Method = ''POST'', req_URL = login_endpoint vault, req_Token = None, req_Body = body \<rparr>
              ''failed to create login request'' ''failed to execute login request''
              ''unexpected response from vault login: '' ''failed to read response body'') (\<lambda>b.
       wrapE ''failed to unmarshal login response'' (ve_UnmarshalLogin env b))))"

definition credential :: "creds \<Rightarrow> string \<Rightarrow> string result" where
  "credential data key =
     (case data key of Some (JsonString s) \<Rightarrow> Inr s | _ \<Rightarrow> Inl (ErrNew ''interface conversion: interface {} is not string''))"

definition getVaultConnection :: "VaultEnv \<Rightarrow> DatabaseResource \<Rightarrow> string \<Rightarrow> Vault \<Rightarrow> string result" where
  "getVaultConnection env d driver vault =
     (if vlt_AgentInject vault
      then wrapE ''failed to read vault injected file'' (ve_ReadFile env ''/vault/secrets/schemaherouri'')
      else
        bindE (vault_login env d vault) (\<lambda>token.
        bindE (vault_call env
                 \<lparr> req_Method = ''GET'', req_URL = vlt_Endpoint vault @ ''/v1/database/creds/'' @ vlt_Secret vault,
                   req_Token = Some token, req_Body = [] \<rparr>
                 ''failed to create request'' ''failed to execute request''
                 ''unexpected response code from database/creds vault request: '' ''failed to read body'') (\<lambda>b.
        bindE (wrapE ''failed to unmarshal response'' (ve_UnmarshalCreds env b)) (\<lambda>data.
        bindE (wrapE ''failed to get connection URI Template'' (getConnectionURITemplate env vault token (dr_Name d))) (\<lambda>uriTemplate.
        case ve_Parse env uriTemplate of
          Inl e \<Rightarrow> Inl (GoPanic ''template.Must'')
        | Inr t \<Rightarrow>
            wrapE ''failed to render vault connection template''
              (t (credential data ''username'') (credential data ''password'') data))))))"

text \<open>The environment of a connection whose Vault is the one above.\<close>

definition with_vault :: "VaultEnv \<Rightarrow> KubeEnv \<Rightarrow> KubeEnv" where
  "with_vault ve env = env\<lparr> ke_vault := getVaultConnection ve \<rparr>"

section \<open>The dialogue\<close>

lemma vault_call_Inr:
  "vault_call env req m1 m2 m3 m4 = Inr b \<longleftrightarrow>
     ve_NewRequest env (req_Method req) (req_URL req) = None \<and> ve_Do env req = Inr \<lparr> resp_StatusCode = 200, resp_Body = Inr b \<rparr>"
  by (cases "ve_Do env req") (auto simp: vault_call_def split: option.splits)

text \<open>
  A URI without the agent is the template, that of the spec or that of Vault, filled with the credentials
  which Vault gave for the secret of the spec to the token of the login.
\<close>

lemma vault_uri_from_lease:
  assumes "getVaultConnection env d driver vault = Inr uri" "\<not> vlt_AgentInject vault"
  shows "\<exists>token b data tmpl t. vault_login env d vault = Inr token \<and>
     ve_Do env \<lparr> req_Method = ''GET'', req_URL = vlt_Endpoint vault @ ''/v1/database/creds/'' @ vlt_Secret vault,
        req_Token = Some token, req_Body = [] \<rparr> = Inr \<lparr> resp_StatusCode = 200, resp_Body = Inr b \<rparr> \<and>
     ve_UnmarshalCreds env b = Inr data \<and> getConnectionURITemplate env vault token (dr_Name d) = Inr tmpl \<and>
     ve_Parse env tmpl = Inr t \<and> t (credential data ''username'') (credential data ''password'') data = Inr uri"
proof -
  obtain token b data tmpl where "vault_login env d vault = Inr token" "ve_UnmarshalCreds env b = Inr data"
      "ve_Do env \<lparr> req_Method = ''GET'', req_URL = vlt_Endpoint vault @ ''/v1/database/creds/'' @ vlt_Secret vault,
        req_Token = Some token, req_Body = [] \<rparr> = Inr \<lparr> resp_StatusCode = 200, resp_Body = Inr b \<rparr>"
      "getConnectionURITemplate env vault token (dr_Name d) = Inr tmpl"
      "(case ve_Parse env tmpl of Inl e \<Rightarrow> Inl (GoPanic ''template.Must'')
        | Inr t \<Rightarrow> wrapE ''failed to render vault connection template''
            (t (credential data ''username'') (credential data ''password'') data)) = Inr uri"
    using assms by (auto simp: getVaultConnection_def bindE_Inr_iff vault_call_Inr)
  then show ?thesis by (cases "ve_Parse env tmpl") auto
qed

text \<open>The value of a parameter that is in Vault.\<close>

lemma vault_value_of_parameter:
  assumes "vv_Value v = []" "vv_ValueFrom v = Some \<lparr> vf_SecretKeyRef = None, vf_Vault = Some vault, vf_SSM = ssm \<rparr>"
    and "ke_config env = None" "ke_clientset env = None"
  shows "getValueFromValueOrValueFrom (with_vault ve env) d driver (Some v) = getVaultConnection ve d driver vault"
  using assms by (simp add: getValueFromValueOrValueFrom_def with_vault_def)

text \<open>
  Service accounts have no secret of their own in current versions of Kubernetes; then the first secret is out
  of range.
\<close>

lemma account_without_secret_panics:
  assumes "ve_ServiceAccountSecrets env (dr_Namespace d) (vlt_ServiceAccount vault) = Inr []"
    and "vlt_ServiceAccountNamespace vault = []" "\<not> vlt_AgentInject vault"
  shows "getVaultConnection env d driver vault = Inl (GoPanic ''index out of range [0] with length 0'')"
  using assms by (simp add: getVaultConnection_def vault_login_def service_account_token_def)

end
