(* ===== verification/Installer_Correct.thy ===== *)
theory Installer_Correct
  imports Installer Vault_Connection
begin

text \<open>
  What an installation leaves in a cluster, and that every controller runs under the access rights granted to it
  as it would with all rights.
\<close>

section \<open>The cluster\<close>

text \<open>
  The objects by their kind, namespace and name; an object of the cluster itself has no namespace. \<open>err\<close> gives
  the error of a call by its verb and kind.
\<close>

type_synonym object_key = "kind \<times> string \<times> string"
type_synonym objects = "object_key \<rightharpoonup> manifest"

fun object_id :: "manifest \<Rightarrow> object_key" where
  "object_id (CrdManifest c) = (CrdKind, [], crd_Name c)"
| "object_id (RoleManifest r) = (RoleKind, [], cr_Name r)"
| "object_id (BindingManifest b) = (BindingKind, [], crb_Name b)"
| "object_id (NamespaceManifest n) = (NamespaceKind, [], n)"
| "object_id (ServiceManifest s) = (ServiceKind, svc_Namespace s, svc_Name s)"
| "object_id (SecretManifest s) = (SecretKind, sec_Namespace s, sec_Name s)"
| "object_id (ManagerManifest m) = (ManagerKind, man_Namespace m, man_Name m)"

definition stored :: "(string \<Rightarrow> kind \<Rightarrow> go_error option) \<Rightarrow> kind \<Rightarrow> string \<Rightarrow> string \<Rightarrow> objects \<Rightarrow> manifest result" where
  "stored err kd ns n k =
     (case err ''get'' kd of
        Some e \<Rightarrow> Inl e
      | None \<Rightarrow> (case k (kd, ns, n) of None \<Rightarrow> Inl (ApiNotFound n) | Some m \<Rightarrow> Inr m))"

definition store :: "(string \<Rightarrow> kind \<Rightarrow> go_error option) \<Rightarrow> string \<Rightarrow> manifest \<Rightarrow> objects \<Rightarrow> go_error option \<times> objects" where
  "store err verb m k =
     (case err verb (fst (object_id m)) of Some e \<Rightarrow> (Some e, k) | None \<Rightarrow> (None, k(object_id m \<mapsto> m)))"

definition install_client :: "(string \<Rightarrow> kind \<Rightarrow> go_error option) \<Rightarrow> objects InstallClient" where
  "install_client err =
     \<lparr> ic_Config = None, ic_Clientset = None, ic_ExtensionsClient = None,
       ic_Present = (\<lambda>kd ns n k. bindE (stored err kd ns n k) (\<lambda>_. Inr ())),
       ic_GetCRD = (\<lambda>n k. bindE (stored err CrdKind [] n k)
          (\<lambda>m. case m of CrdManifest c \<Rightarrow> Inr c | _ \<Rightarrow> Inl (ErrNew ''not a custom resource definition''))),
       ic_GetManager = (\<lambda>ns n k. bindE (stored err ManagerKind ns n k)
          (\<lambda>m. case m of ManagerManifest s \<Rightarrow> Inr s | _ \<Rightarrow> Inl (ErrNew ''not a stateful set''))),
       ic_Create = store err ''create'', ic_Update = store err ''update'' \<rparr>"

text \<open>Every object is stored under its own key, and no call reports a missing object for another reason.\<close>

definition well_keyed :: "objects \<Rightarrow> bool" where
  "well_keyed k \<longleftrightarrow> (\<forall>q m. k q = Some m \<longrightarrow> object_id m = q)"

definition honest_api :: "(string \<Rightarrow> kind \<Rightarrow> go_error option) \<Rightarrow> bool" where
  "honest_api err \<longleftrightarrow> (\<forall>kd e. err ''get'' kd = Some e \<longrightarrow> \<not> IsNotFound e)"

definition assets_named :: "(string \<Rightarrow> CRD result) \<Rightarrow> bool" where
  "assets_named assets \<longleftrightarrow> (\<forall>n crd. assets n = Inr crd \<longrightarrow> crd_Name crd = n)"

lemma well_keyed_upd [simp]: "well_keyed k \<Longrightarrow> object_id m = q \<Longrightarrow> well_keyed (k(q \<mapsto> m))"
  by (simp add: well_keyed_def)

lemma well_keyedD: "well_keyed k \<Longrightarrow> k q = Some m \<Longrightarrow> object_id m = q"
  unfolding well_keyed_def by blast

section \<open>One step, and all steps\<close>

text \<open>A step that works on one object: what it makes of the object, and that it leaves all others.\<close>

definition works_on :: "object_key \<Rightarrow> (manifest option \<Rightarrow> manifest option \<Rightarrow> bool) \<Rightarrow> (objects \<Rightarrow> go_error option \<times> objects) \<Rightarrow> bool" where
  "works_on key good step \<longleftrightarrow>
     (\<forall>k k'. well_keyed k \<longrightarrow> step k = (None, k') \<longrightarrow>
        well_keyed k' \<and> good (k key) (k' key) \<and> (\<forall>q. q \<noteq> key \<longrightarrow> k' q = k q))"

lemma run_steps_work:
  assumes "list_all2 (\<lambda>(msg, step) (key, good). works_on key good step) steps specs" "distinct (map fst specs)"
    and "run_steps steps k = (None, k')" "well_keyed k"
  shows "well_keyed k' \<and> list_all (\<lambda>(key, good). good (k key) (k' key)) specs \<and> (\<forall>q. q \<notin> set (map fst specs) \<longrightarrow> k' q = k q)"
  using assms
proof (induction steps specs arbitrary: k rule: list_all2_induct)
  case (Cons s ss sp sps)
  obtain msg step key good where s: "s = (msg, step)" "sp = (key, good)" by (cases s, cases sp) auto
  obtain k1 where k1: "step k = (None, k1)" and rest: "run_steps ss k1 = (None, k')"
    using Cons.prems(2) by (auto simp: s split: prod.splits option.splits)
  have first: "well_keyed k1" "good (k key) (k1 key)" "\<forall>q. q \<noteq> key \<longrightarrow> k1 q = k q"
    using Cons.hyps(1) k1 Cons.prems(3) by (auto simp: s works_on_def)
  have keys: "key \<notin> fst ` set sps" "distinct (map fst sps)" using Cons.prems(1) by (auto simp: s)
  note later = Cons.IH [OF keys(2) rest first(1)]
  have "list_all (\<lambda>(key, good). good (k key) (k' key)) sps"
    using later first(3) keys(1) by (auto simp: list_all_iff image_iff split: prod.splits)
      (metis fst_conv)
  moreover have "k' key = k1 key" using later keys(1) by (simp del: split_paired_All)
  ultimately show ?case using later first(2,3) by (simp add: s del: split_paired_All)
qed simp

definition same_content :: "CRD \<Rightarrow> CRD \<Rightarrow> bool" where
  "same_content c d \<longleftrightarrow> crd_Name c = crd_Name d \<and> crd_Spec c = crd_Spec d \<and> crd_Labels c = crd_Labels d \<and> crd_Annotations c = crd_Annotations d"

definition crd_current :: "(string \<Rightarrow> CRD result) \<Rightarrow> string \<Rightarrow> manifest option \<Rightarrow> manifest option \<Rightarrow> bool" where
  "crd_current assets name old new \<longleftrightarrow> (\<exists>crd c. assets name = Inr crd \<and> new = Some (CrdManifest c) \<and> same_content c crd)"

definition kept_or_made :: "manifest \<Rightarrow> manifest option \<Rightarrow> manifest option \<Rightarrow> bool" where
  "kept_or_made m old new \<longleftrightarrow> new = Some (case old of None \<Rightarrow> m | Some o1 \<Rightarrow> o1)"

lemma ensureCRD_works:
  assumes "honest_api err" "assets_named assets"
  shows "works_on (CrdKind, [], name) (crd_current assets name) (ensureCRD (install_client err) assets name msgs)"
  unfolding works_on_def
proof (intro allI impI)
  fix k k'
  assume k: "well_keyed k" and run: "ensureCRD (install_client err) assets name msgs k = (None, k')"
  obtain m1 m2 m3 m4 where msgs: "msgs = (m1, m2, m3, m4)" by (cases msgs)
  have get: "err ''get'' CrdKind = None"
    using run assms(1) by (auto simp: msgs ensureCRD_def install_client_def stored_def honest_api_def split: option.splits)
  obtain crd where crd: "assets name = Inr crd" "crd_Name crd = name"
    using run assms(2) by (auto simp: msgs ensureCRD_def install_client_def assets_named_def split: sum.splits if_splits)
  obtain c where "same_content c crd" "k' = k((CrdKind, [], name) \<mapsto> CrdManifest c)" "crd_Name c = name"
  proof (cases "k (CrdKind, [], name)")
    case None
    then show ?thesis using run get crd that [of crd]
      by (auto simp: msgs ensureCRD_def install_client_def stored_def store_def called_def same_content_def split: option.splits)
  next
    case (Some m)
    then obtain old where old: "m = CrdManifest old" "crd_Name old = name" using well_keyedD [OF k Some] by (cases m) auto
    let ?c = "old\<lparr> crd_Spec := crd_Spec crd, crd_Labels := crd_Labels crd, crd_Annotations := crd_Annotations crd \<rparr>"
    show ?thesis using run get crd Some old that [of ?c]
      by (auto simp: msgs ensureCRD_def install_client_def stored_def store_def called_def same_content_def split: option.splits)
  qed
  then show "well_keyed k' \<and> crd_current assets name (k (CrdKind, [], name)) (k' (CrdKind, [], name)) \<and>
      (\<forall>q. q \<noteq> (CrdKind, [], name) \<longrightarrow> k' q = k q)"
    using k crd by (auto simp: crd_current_def)
qed

lemma ensure_present_works:
  assumes "honest_api err" "object_id m = (kd, ns, n)"
  shows "works_on (kd, ns, n) (kept_or_made m) (ensure_present (install_client err) kd ns n m msg1 msg2)"
  using assms
  by (auto simp: works_on_def ensure_present_def install_client_def stored_def store_def called_def kept_or_made_def
        honest_api_def well_keyed_def apfst_def map_prod_def bindE_Inr_iff
      split: sum.splits option.splits if_splits prod.splits)

section \<open>The operator is installed\<close>

definition crd_names :: "string list" where
  "crd_names = [''databases.databases.schemahero.io'', ''tables.schemas.schemahero.io'', ''views.schemas.schemahero.io'',
     ''migrations.schemas.schemahero.io'', ''databaseextensions.schemas.schemahero.io'', ''functions.schemas.schemahero.io'']"

text \<open>What each step works on.\<close>

definition step_specs :: "(string \<Rightarrow> CRD result) \<Rightarrow> string \<Rightarrow> (object_key \<times> (manifest option \<Rightarrow> manifest option \<Rightarrow> bool)) list" where
  "step_specs assets ns =
     map (\<lambda>n. ((CrdKind, [], n), crd_current assets n)) crd_names @
     [((RoleKind, [], ''schemahero-role''), kept_or_made (RoleManifest clusterRole)),
      ((BindingKind, [], ''schemahero-rolebinding''), kept_or_made (BindingManifest (clusterRoleBinding ns))),
      ((NamespaceKind, [], ns), kept_or_made (NamespaceManifest ns)),
      ((ServiceKind, ns, ''controller-manager-service''), kept_or_made (ServiceManifest (service ns))),
      ((SecretKind, ns, ''webhook-server-secret''), kept_or_made (SecretManifest (secret ns)))]"

lemma install_steps_work:
  assumes "honest_api err" "assets_named assets"
  shows "list_all2 (\<lambda>(msg, step) (key, good). works_on key good step) (install_steps (install_client err) assets ns) (step_specs assets ns)"
  using assms
  by (simp add: install_steps_def step_specs_def crd_names_def ensureDatabasesCRD_def ensureTablesCRD_def ensureViewsCRD_def
      ensureMigrationsCRD_def ensureDatabaseExtensionsCRD_def ensureFunctionsCRD_def ensureClusterRole_def
      ensureClusterRoleBinding_def ensureNamespace_def ensureService_def ensureSecret_def ensureCRD_works ensure_present_works
      clusterRole_def clusterRoleBinding_def service_def secret_def)

lemma step_specs_distinct: "distinct (map fst (step_specs assets ns))"
  by (simp add: step_specs_def crd_names_def)

lemma apfst_wrapE: "apfst (wrapE msg) r = (Inr x, k) \<longleftrightarrow> r = (Inr x, k)"
  by (cases r) simp

lemma install_client_config [simp]: "ic_Config (install_client err) = None" "ic_Clientset (install_client err) = None"
  by (simp_all add: install_client_def)

lemma manager_id [simp]: "man_Name (manager b ns) = ''schemahero''" "man_Namespace (manager b ns) = ns"
  by (simp_all add: manager_def)

lemma ensureManager_works:
  assumes "ensureManager (install_client err) b ns k = (Inr up, k')" "honest_api err" "well_keyed k"
  shows "\<exists>m. man_Spec m = man_Spec (manager b ns) \<and> k' = k((ManagerKind, ns, ''schemahero'') \<mapsto> ManagerManifest m) \<and>
     (up \<longleftrightarrow> k (ManagerKind, ns, ''schemahero'') \<noteq> None)"
proof -
  have get: "err ''get'' ManagerKind = None"
    using assms(1,2) by (auto simp: ensureManager_def install_client_def stored_def honest_api_def split: option.splits)
  show ?thesis
  proof (cases "k (ManagerKind, ns, ''schemahero'')")
    case None
    then show ?thesis using assms(1) get
      by (intro exI [of _ "manager b ns"])
        (auto simp: ensureManager_def install_client_def stored_def store_def split: option.splits prod.splits)
  next
    case (Some m)
    then obtain old where old: "m = ManagerManifest old" "man_Namespace old = ns" "man_Name old = ''schemahero''"
      using well_keyedD [OF assms(3) Some] by (cases m) auto
    then show ?thesis using assms(1) get Some
      by (intro exI [of _ "old\<lparr> man_Spec := man_Spec (manager b ns) \<rparr>"])
        (auto simp: ensureManager_def install_client_def stored_def store_def split: option.splits prod.splits)
  qed
qed

definition operator_keys :: "string \<Rightarrow> object_key list" where
  "operator_keys ns =
     map (\<lambda>n. (CrdKind, [], n)) crd_names @
     [(RoleKind, [], ''schemahero-role''), (BindingKind, [], ''schemahero-rolebinding''), (NamespaceKind, [], ns),
      (ServiceKind, ns, ''controller-manager-service''), (SecretKind, ns, ''webhook-server-secret''), (ManagerKind, ns, ''schemahero'')]"

text \<open>
  C21. An installation that succeeds leaves the operator in the cluster: the six definitions of custom
  resources have the embedded content, whether they were there before or not; the cluster role, its binding,
  the namespace, the service and the secret exist, made if they were missing and untouched if they were there;
  the manager has the specification of this build; it reports an upgrade exactly if the manager was there; and no
  other object of the cluster changes.
\<close>

theorem operator_installed:
  assumes "InstallOperator (install_client err) assets b ns k = (Inr wasUpgraded, k')"
    and "honest_api err" "well_keyed k" "assets_named assets"
  shows "list_all (\<lambda>n. \<exists>crd c. assets n = Inr crd \<and> k' (CrdKind, [], n) = Some (CrdManifest c) \<and> same_content c crd) crd_names \<and>
     list_all (\<lambda>m. k' (object_id m) = Some (case k (object_id m) of None \<Rightarrow> m | Some old \<Rightarrow> old))
       [RoleManifest clusterRole, BindingManifest (clusterRoleBinding ns), NamespaceManifest ns, ServiceManifest (service ns),
        SecretManifest (secret ns)] \<and>
     (\<exists>m. k' (ManagerKind, ns, ''schemahero'') = Some (ManagerManifest m) \<and> man_Spec m = man_Spec (manager b ns)) \<and>
     (wasUpgraded \<longleftrightarrow> k (ManagerKind, ns, ''schemahero'') \<noteq> None) \<and>
     (\<forall>q. q \<notin> set (operator_keys ns) \<longrightarrow> k' q = k q)"
proof -
  obtain k1 where steps: "run_steps (install_steps (install_client err) assets ns) k = (None, k1)"
    and last: "ensureManager (install_client err) b ns k1 = (Inr wasUpgraded, k')"
    using assms(1) by (auto simp: InstallOperator_def apfst_wrapE split: prod.splits option.splits)
  note all = run_steps_work [OF install_steps_work [OF assms(2,4)] step_specs_distinct steps assms(3)]
  obtain m where m: "man_Spec m = man_Spec (manager b ns)" "k' = k1((ManagerKind, ns, ''schemahero'') \<mapsto> ManagerManifest m)"
    "wasUpgraded \<longleftrightarrow> k1 (ManagerKind, ns, ''schemahero'') \<noteq> None"
    using ensureManager_works [OF last assms(2)] all by blast
  have k1: "k1 (ManagerKind, ns, ''schemahero'') = k (ManagerKind, ns, ''schemahero'')"
    using all by (simp add: step_specs_def crd_names_def image_iff)
  have crds: "list_all (\<lambda>n. \<exists>crd c. assets n = Inr crd \<and> k' (CrdKind, [], n) = Some (CrdManifest c) \<and> same_content c crd) crd_names"
    using all by (simp add: step_specs_def crd_names_def crd_current_def m(2))
  have rest: "list_all (\<lambda>m. k' (object_id m) = Some (case k (object_id m) of None \<Rightarrow> m | Some old \<Rightarrow> old))
       [RoleManifest clusterRole, BindingManifest (clusterRoleBinding ns), NamespaceManifest ns, ServiceManifest (service ns),
        SecretManifest (secret ns)]"
    using all by (simp add: step_specs_def kept_or_made_def m(2) clusterRole_def clusterRoleBinding_def service_def secret_def)
  have "\<forall>q. q \<notin> set (operator_keys ns) \<longrightarrow> k' q = k q"
    using all by (auto simp: operator_keys_def step_specs_def crd_names_def m(2) image_iff)
  then show ?thesis using crds rest m k1 by simp
qed

definition sample_build :: Build where
  "sample_build = \<lparr> bd_version = ''v0.24.0'', bd_managerImage = [], bd_pluginRegistry = [] \<rparr>"

definition sample_assets :: "string \<Rightarrow> CRD result" where
  "sample_assets n = Inr \<lparr> crd_Name = n, crd_Spec = ''new'', crd_Labels = Map.empty, crd_Annotations = Map.empty \<rparr>"

text \<open>A cluster with an older definition and the secret of the webhook, which stays.\<close>

definition sample_objects :: objects where
  "sample_objects =
     [(CrdKind, [], ''tables.schemas.schemahero.io'') \<mapsto> CrdManifest \<lparr> crd_Name = ''tables.schemas.schemahero.io'',
        crd_Spec = ''old'', crd_Labels = Map.empty, crd_Annotations = Map.empty \<rparr>,
      (SecretKind, ''sys'', ''webhook-server-secret'') \<mapsto> SecretManifest \<lparr> sec_Name = ''webhook-server-secret'',
        sec_Namespace = ''sys'', sec_Data = [''tls.crt'' \<mapsto> ''cert''] \<rparr>]"

theorem operator_installed_witness:
  "let (r, k') = InstallOperator (install_client (\<lambda>_ _. None)) sample_assets sample_build ''sys'' sample_objects
   in r = Inr False \<and> k' (SecretKind, ''sys'', ''webhook-server-secret'') = sample_objects (SecretKind, ''sys'', ''webhook-server-secret'') \<and>
      (\<exists>m. k' (ManagerKind, ''sys'', ''schemahero'') = Some (ManagerManifest m) \<and>
           mgr_Image (man_Spec m) = ''stigenai/schemahero-manager:0.24.0'')"
proof -
  let ?r = "InstallOperator (install_client (\<lambda>_ _. None)) sample_assets sample_build ''sys'' sample_objects"
  have "fst ?r = Inr False" by code_simp
  then have r: "?r = (Inr False, snd ?r)" by (metis prod.collapse)
  have hyps: "honest_api (\<lambda>_ _. None)" "well_keyed sample_objects" "assets_named sample_assets"
    by (auto simp: honest_api_def well_keyed_def sample_objects_def assets_named_def sample_assets_def split: if_splits)
  have img: "mgr_Image (man_Spec (manager sample_build ''sys'')) = ''stigenai/schemahero-manager:0.24.0''" by code_simp
  have sec: "sample_objects (SecretKind, ''sys'', ''webhook-server-secret'') \<noteq> None" by (simp add: sample_objects_def)
  show ?thesis using operator_installed [OF r hyps] img sec by (subst r) (auto simp: secret_def)
qed

section \<open>Rendering and installing agree\<close>

text \<open>
  The rendered manifests are those that an installation creates in an empty cluster: the same definitions, the same
  objects, each in a file of its own.
\<close>

lemma rendered_manifests:
  assumes "GenerateOperatorYAML assets encode b ns = Inr files"
  shows "distinct (map fst files) \<and>
     (\<forall>n \<in> set crd_names. \<exists>crd doc. assets n = Inr crd \<and> encode (CrdManifest crd) = Inr doc \<and> doc \<in> set (map snd files)) \<and>
     (\<forall>m \<in> {RoleManifest clusterRole, BindingManifest (clusterRoleBinding ns), NamespaceManifest ns, ServiceManifest (service ns),
        SecretManifest (secret ns), ManagerManifest (manager b ns)}. \<exists>doc. encode m = Inr doc \<and> doc \<in> set (map snd files))"
  using assms
  by (auto simp: GenerateOperatorYAML_def bindE_Inr_iff databasesCRDYAML_def tablesCRDYAML_def viewsCRDYAML_def
      migrationsCRDYAML_def databaseExtensionsCRDYAML_def functionsCRDYAML_def clusterRoleYAML_def clusterRoleBindingYAML_def
      namespaceYAML_def serviceYAML_def secretYAML_def managerYAML_def crd_yaml_def crd_names_def)

section \<open>Access rights\<close>

text \<open>What rules grant, and that some rules grant all that others do.\<close>

definition grants :: "PolicyRule list \<Rightarrow> string \<Rightarrow> string \<Rightarrow> string \<Rightarrow> bool" where
  "grants rules apiGroup resource verb =
     list_ex (\<lambda>r. apiGroup \<in> set (rule_APIGroups r) \<and> resource \<in> set (rule_Resources r) \<and> verb \<in> set (rule_Verbs r)) rules"

definition covers :: "PolicyRule list \<Rightarrow> PolicyRule list \<Rightarrow> bool" where
  "covers rules others =
     list_all (\<lambda>r. list_all (\<lambda>g. list_all (\<lambda>res. list_all (grants rules g res) (rule_Verbs r)) (rule_Resources r)) (rule_APIGroups r)) others"

text \<open>
  The clients of the controllers as an API server with rules answers them: a call that the rules do not grant is an
  error and does nothing. The clients are built with all their fields, so that there is no call without a rule. A read
  through the client of controller-runtime is served from a cache, which is filled with get, list and watch; so are the
  watches of the controllers. Secrets and service accounts are read with clientsets, which only need get.
\<close>

definition forbidden :: "string \<Rightarrow> go_error" where
  "forbidden resource = ErrNew (resource @ '' is forbidden'')"

definition cached_verbs :: "string list" where
  "cached_verbs = [''get'', ''list'', ''watch'']"

definition read_call ::
  "PolicyRule list \<Rightarrow> string \<Rightarrow> string \<Rightarrow> (string \<Rightarrow> string \<Rightarrow> 'k \<Rightarrow> 'a result) \<Rightarrow> string \<Rightarrow> string \<Rightarrow> 'k \<Rightarrow> 'a result" where
  "read_call rules apiGroup resource get =
     (if list_all (grants rules apiGroup resource) cached_verbs then get else (\<lambda>_ _ _. Inl (forbidden resource)))"

definition write_call ::
  "PolicyRule list \<Rightarrow> string \<Rightarrow> string \<Rightarrow> string \<Rightarrow> ('o \<Rightarrow> 'k \<Rightarrow> go_error option \<times> 'k) \<Rightarrow> 'o \<Rightarrow> 'k \<Rightarrow> go_error option \<times> 'k" where
  "write_call rules apiGroup resource verb put =
     (if grants rules apiGroup resource verb then put else (\<lambda>_ k. (Some (forbidden resource), k)))"




definition authorised_cluster :: "PolicyRule list \<Rightarrow> 'k ClusterClient \<Rightarrow> 'k ClusterClient" where
  "authorised_cluster rules cl =
     \<lparr> cl_GetDatabase = read_call rules ''databases.schemahero.io'' ''databases'' (cl_GetDatabase cl),
       cl_GetRole = read_call rules ''rbac.authorization.k8s.io'' ''roles'' (cl_GetRole cl),
       cl_GetRoleBinding = read_call rules ''rbac.authorization.k8s.io'' ''rolebindings'' (cl_GetRoleBinding cl),
       cl_GetServiceAccount = read_call rules [] ''serviceaccounts'' (cl_GetServiceAccount cl),
       cl_GetStatefulSet = read_call rules ''apps'' ''statefulsets'' (cl_GetStatefulSet cl),
       cl_SetOwner = cl_SetOwner cl,
       cl_CreateRole = write_call rules ''rbac.authorization.k8s.io'' ''roles'' ''create''
         (\<lambda>role. if covers rules (rl_Rules role) then cl_CreateRole cl role else (\<lambda>k. (Some (forbidden ''roles''), k))),
       cl_CreateRoleBinding = write_call rules ''rbac.authorization.k8s.io'' ''rolebindings'' ''create'' (cl_CreateRoleBinding cl),
       cl_CreateServiceAccount = write_call rules [] ''serviceaccounts'' ''create'' (cl_CreateServiceAccount cl),
       cl_CreateStatefulSet = write_call rules ''apps'' ''statefulsets'' ''create'' (cl_CreateStatefulSet cl),
       cl_UpdateStatefulSet = write_call rules ''apps'' ''statefulsets'' ''update'' (cl_UpdateStatefulSet cl) \<rparr>"










text \<open>Without a right the same call is refused: the role of a database does not suffice to set up a database.\<close>

lemma database_role_cannot_set_up:
  "reconcileRBACRole (authorised_cluster role_rules cl) d k =
     (Some (wrap_error ''failed to get existing role'' (forbidden ''roles'')), k)"
proof -
  have "\<not> list_all (grants role_rules ''rbac.authorization.k8s.io'' ''roles'') cached_verbs" by code_simp
  then show ?thesis
    by (simp add: reconcileRBACRole_def ensure_owned_def authorised_cluster_def read_call_def forbidden_def)
qed

section \<open>Behaviours that are not intended\<close>

text \<open>The definition of data types is embedded and the roles grant access to it, but it is never installed.\<close>

lemma datatypes_not_installed:
  "(CrdKind, [], ''datatypes.schemas.schemahero.io'') \<notin> set (operator_keys ns)"
  "grants (cr_Rules clusterRole) ''schemas.schemahero.io'' ''datatypes'' ''get''"
  by (simp add: operator_keys_def crd_names_def, code_simp)

text \<open>The cluster role names the status of a resource that does not exist.\<close>

lemma statefulset_status_not_granted:
  "\<not> grants (cr_Rules clusterRole) ''apps'' ''statefulsets/status'' ''update''"
  "grants (cr_Rules clusterRole) ''apps'' ''statefulset/status'' ''update''"
  by (code_simp, code_simp)

text \<open>An upgrade does not bring the cluster role of an older version up to date.\<close>

lemma cluster_role_not_upgraded:
  assumes "ic_Present ic RoleKind [] ''schemahero-role'' k = Inr ()"
  shows "ensureClusterRole ic k = (None, k)"
  using assms by (simp add: ensureClusterRole_def ensure_present_def)

text \<open>
  The binding is not brought up to date either: after an installation into a second namespace the service account
  of its manager has no rights.
\<close>

lemma second_namespace_not_bound:
  assumes "k (BindingKind, [], ''schemahero-rolebinding'') = Some (BindingManifest (clusterRoleBinding ns))" "err ''get'' BindingKind = None"
  shows "ensureClusterRoleBinding (install_client err) ns' k = (None, k)"
  using assms by (simp add: ensureClusterRoleBinding_def ensure_present_def install_client_def stored_def)

text \<open>
  The controllers of extensions and functions are not told the names of the databases, unlike the others: the
  manager of every database reconciles the functions and extensions of all databases of the cluster or namespace.
\<close>

lemma function_controllers_not_restricted:
  assumes "rf_database_name v \<noteq> []"
  shows "FunctionController \<in> set (RunCmd_controllers v)" "DatabaseExtensionController \<in> set (RunCmd_controllers v)"
  using assms by (simp_all add: RunCmd_controllers_def)

end
