(* ===== verification/Spec2Isabelle.thy ===== *)
theory Spec2Isabelle
  imports Pg_Sync My_Correct Sq_Correct Rq_Correct Ca_Correct Ts_Correct Plugins_Correct Generate_Correct
    Object_Correct Commands_Correct Installer_Correct Vault_Connection
begin

text \<open>
  \<^bold>\<open>A verification library for SchemaHero.\<close>

  SchemaHero keeps the schema of a database in step with a declarative description of it. The
  description is a set of Kubernetes resources (Database, Table, View, Function, ...). A
  controller notices a Table whose spec changed, a database plugin compares the desired schema
  with the catalog of the server and plans the SQL statements that are missing, the statements
  are stored as the text of a Migration resource, and when the migration is approved the text is
  cut into statements again and executed. The library follows this path from end to end.

  \<^bold>\<open>Theories and sources.\<close> Paths are relative to src/.

  \<^item> \<open>Go_Prelude\<close>, \<open>Go_Regexp\<close>, \<open>Sha256\<close>: what the sources use of Go and of its standard library
    (errors as values of a sum type, strings, strconv, fmt, sort, net/url, regexp, crypto/sha256),
    the collections of rewrite rules and the lemmas that all components share.
  \<^item> \<open>Api_Types\<close>, \<open>Api_Specs\<close>: the specs of the custom resources, pkg/apis/schemas/v1alpha4, one
    record per struct.
  \<^item> \<open>Sql_Canonical\<close>: the expression canonicalizer, pkg/database/types/canonical.go.
  \<^item> \<open>Db_Types\<close>: the dialect-neutral tables, columns, keys, indexes, constraints and policies of
    pkg/database/types with their comparisons, conversions and name generators for PostgreSQL.
    \<open>Db_Dialects\<close>: the conversions and name generators for the other servers. \<open>Db_Query\<close>: the loop that
    scans the rows of a query, which all plugins share.
  \<^item> \<open>Pg_Column\<close>: column types and column changes of the PostgreSQL plugin, plugins/postgres/lib
    (alias.go, parameterized.go, column.go, oid.go, udt.go, alter.go).
  \<^item> \<open>Pg_Statements\<close>: its renderers of statements and parsers of catalog definitions (helpers.go,
    constraint.go, foreignkey.go, index.go, checkconstraint.go, exclusionconstraint.go,
    trigger.go, function.go, extension.go, rls.go, create.go).
  \<^item> \<open>Pg_Introspect\<close>: how it reads a catalog (tables.go, connection.go).
  \<^item> \<open>Named_Diff\<close>: the reference definition of a plan that matches objects by name, the locale
    \<open>named_planner\<close>, and that such a plan is consistent by name. \<open>Sql_Server\<close>: what a server has to do with
    the text of the statements (drop or create the named object, leave the others alone), as hypotheses on the
    executor of statements, and what deploying a named plan then leads to (the locale \<open>planned_deployment\<close>).
  \<^item> \<open>Pg_Plan\<close>: the planner (deploy.go and the planning functions of the other files), with an
    interpretation of \<open>named_planner\<close> for check constraints, exclusion constraints, triggers,
    policies and indexes. \<open>Pg_Correct\<close>: its properties.
  \<^item> \<open>Database_Sync\<close>: pkg/database/database.go, the layer between the commands or controllers and
    the plugins, with the locale \<open>deployment\<close> for the execution of a list of statements.
  \<^item> \<open>Pg_Sync\<close>: the PostgreSQL plugin behind that layer (plugins/postgres/plugin.go and the
    methods of its connection), and the properties that span planning, storing and deploying.
  \<^item> \<open>My_Column\<close>, \<open>My_Plan\<close>, \<open>My_Correct\<close>: the MySQL plugin, plugins/mysql: column types and column changes;
    statements, catalog and planner; properties and the connection behind the database layer.
  \<^item> \<open>Lite_Common\<close>: the loops that the SQLite and rqlite plugins have in common, with the locale
    \<open>lite_indexes\<close>, which makes their planner of indexes a \<open>named_planner\<close>. \<open>Lite_Recreate\<close>: what
    the statements that recreate a table lead to on a server that obeys them, statement by statement. \<open>Sq_Plan\<close>, \<open>Sq_Correct\<close>: plugins/sqlite. \<open>Rq_Plan\<close>,
    \<open>Rq_Correct\<close>: plugins/rqlite.
  \<^item> \<open>Ca_Plan\<close>, \<open>Ca_Correct\<close>: plugins/cassandra, and the YAML decoder of its table properties.
  \<^item> \<open>Ts_Plan\<close>, \<open>Ts_Correct\<close>: plugins/timescaledb, over the PostgreSQL theories.
  \<^item> \<open>Gob\<close>, \<open>Rpc\<close>, \<open>Rpc_Correct\<close>: the boundary between SchemaHero and a plugin process, pkg/database/plugin
    (rpc.go, connection_proxy.go): what gob keeps of a value, the server, the client and the connection
    proxy, and the locale \<open>remote_connection\<close> for a connection behind the boundary.
  \<^item> \<open>Plugins\<close>, \<open>Plugins_Correct\<close>: the plugin registry, loader, downloader and manager (registry.go,
    loader.go, downloader.go, manager.go, config.go), with the locale \<open>info_store\<close> for a map of entries by
    name.
  \<^item> \<open>Db_Resource\<close>: pkg/apis/databases/v1alpha4, how the URI of a connection is obtained.
    \<open>Vault_Connection\<close>: the dialogue with Vault, vault_connection.go.
  \<^item> \<open>Controllers\<close>: pkg/controller/table (batch.go, reconcile_table.go), pkg/controller/migration
    and the commands that approve and reject a migration. The spec that is hashed after planning is the one in which
    the connection proxy has replaced the empty defaults (\<open>masked_schema\<close>).
  \<^item> \<open>Object_Controllers\<close>, \<open>Object_Correct\<close>: the controllers of functions, extensions and views
    (pkg/controller/function, databaseextension, view), with the locale \<open>finalized_object\<close> for an object whose
    removal a finalizer guards.
  \<^item> \<open>Database_Controller\<close>: pkg/controller/database, the controller that makes a StatefulSet with its access
    rights for a Database and the one that keeps the charset of a MySQL database; the entry of the table
    controller.
  \<^item> \<open>Generate\<close>, \<open>Generate_Correct\<close>: the generator of specs from a database, pkg/generate/generate.go.
  \<^item> \<open>Commands\<close>, \<open>Commands_Correct\<close>: the commands plan, apply, get, describe, recalculate, approve, reject,
    generate, fixtures and shell of pkg/cli/schemaherokubectlcli, with pkg/shell, pkg/files and pkg/database/utils.
  \<^item> \<open>Installer\<close>, \<open>Installer_Correct\<close>: the objects of the operator and their installation, pkg/installer,
    pkg/version, and the choice of controllers of the manager, pkg/cli/managercli/run.go.

  \<^bold>\<open>State and effects.\<close> A Go struct is a record with one field per field of the struct, a pointer
  that may be nil an option, a Go map an association list in some iteration order, a slice a list.
  A function that returns an error has a result \<open>go_error + 'a\<close> and every early return is a branch;
  a function that changes the cluster or the database takes and returns its state. The code that
  is not part of the repository is a parameter: \<open>san\<close> quotes an identifier as the pgx driver does;
  \<open>PgServer\<close> answers the catalog queries and \<open>PgEnv\<close> opens connections (and likewise for the other
  plugins); \<open>exec\<close> executes one
  statement; \<open>Decoders\<close> decodes manifests; \<open>KubeClient\<close> and \<open>KubeEnv\<close> are the calls of the
  Kubernetes API and of the AWS and Vault clients; \<open>LoadEnv\<close> and \<open>DownloadEnv\<close> are the file system, the
  plugin processes and the OCI registry; \<open>marshal\<close> is the JSON encoder, and the clock and
  the scheduling of timers are arguments. A timer callback of the batch manager is a step of the
  relation \<open>batch_step\<close>, so an execution is any interleaving of queueing and callbacks; likewise
  \<open>server_run\<close>, \<open>loader_run\<close> and \<open>object_run\<close> are the runs of a plugin server, of the plugin loader and of an object with
  a finalizer. A plugin process that panicked is a closed link: every later call fails. The commands work on
  a file system that is a map from paths to nodes (\<open>Output\<close>); the errors it does not decide are arguments. The
  clusters of the database controller and of the installer are records and maps of objects (\<open>Cluster\<close>, \<open>objects\<close>).

  \<^bold>\<open>Bounds.\<close> No definition needs fuel: every loop of the modelled sources is bounded by its input
  and is a total recursive function, with a measure where the recursion is not structural, but one: the loop
  that waits for a shell pod (\<open>wait_for_pod\<close>) is a partial function of the readings of the clock and of the answers of the
  API, and \<open>shell_command_ends\<close> shows that it returns. Strings
  are lists of bytes; case mapping is that of ASCII. Lengths and precisions of column types are
  read at the width of Go's int, and the identifiers of connections are counted in 64 bits. SHA-256 works on
  32-bit words.

  \<^bold>\<open>What the theorems show.\<close>

  \<^item> Planning. A table in sync needs no statement (\<open>plan_in_sync_is_empty\<close>). The plans for check
    constraints, indexes and triggers, deployed on a server that obeys the statements, meet no error, leave exactly the
    desired objects and drop only what is undesired or changed, if the names are distinct; the plan for policies is
    consistent by name. The plans for keys and foreign keys, and what a plan may drop:
    a table only when it is marked as deleted, a column only when no desired column has its name;
    a column becomes not null only after its nulls were filled. For MySQL the same for columns and
    indexes, with the drops before the column changes. For rqlite and SQLite a plan is empty exactly
    when the table is in sync; the statements that recreate a SQLite table keep its rows under the conditions
    that \<open>sqlite_recreate_keeps_rows\<close> states. The column statements for Cassandra are exactly one addition per missing
    column, one change of type per column whose type differs and one drop per undesired column; TimescaleDB spares the index that the server itself creates.
  \<^item> Comparing. The comparisons of catalog objects are equivalence relations (the locale
    \<open>keyed_comparison\<close>) characterised by a key; the canonical form of an expression is a normal
    form that forgets the casts PostgreSQL adds.
  \<^item> Names and types. The generated names of indexes, check and exclusion constraints fit the limit of PostgreSQL; column types are
    normalised to the spelling of the catalog; defaults, literals and definitions survive the
    catalog.
  \<^item> Storing and deploying. The text of a migration is split back into the planned statements, a
    function body goes through in one piece, the planned statements are those the server executes,
    in order and up to the first error.
  \<^item> Plugins. Planning and deploying through a plugin process is planning and deploying with the
    plugin's own connection, for exactly the schemas that survive the boundary; a connection identifier
    is not issued twice before the counter of 64 bits wraps around. A connection comes from a valid plugin whose process runs; discovery
    registers the first binary of a name; cleaning up kills every client; an archive is unpacked only
    into the cache directory.
  \<^item> Controllers. A migration is executed only if approved and at most once; no table is lost
    between queueing and planning; planning stores one migration. Credentials are escaped in the
    URI of a connection. A function or extension that was applied leaves the cluster only after it was dropped from the database, or if
    there is no such database any more. The controller of a database is established, and every controller does under
    the rights granted to it what it would do with all rights.
  \<^item> Commands. A generated table is in sync with the table it was read from, for the tables that
    \<open>generated_postgres_table_settled\<close> describes, and every table gets its file.
    What the plan command writes is what the apply command executes. The shell command ends. An
    installation leaves the operator in the cluster, keeps what must not be replaced and touches nothing else.

  Lemmas that exhibit a behaviour the sources do not intend are named in the manifest's findings,
  for instance \<open>line_comment_swallows_rest\<close>, \<open>rejected_migration_still_applied\<close> and
  \<open>ssm_secret_key_misplaced\<close>.

  \<^bold>\<open>Not modelled.\<close> The code that generators made: clients, informers, listers and deep copies. Code that only
  calls a library: the handshake with a plugin process and serving it, the registration of controllers
  with the manager, the webhook, logging, and the declarations of commands and flags. The alignment of the columns of printed
  tables is that of text/tabwriter; the ages of migrations are exact where the code divides doubles.
\<close>

end
